(* ===== verification/Prelude.thy ===== *)
theory Prelude
  imports Complex_Main "HOL-Library.Word" "HOL-Library.Sublist"
begin

text \<open>
  The prelude of the development: the command monad every service method, repository method and
  worker is written in, the frame reasoning that lifts a fact about single state changes to whole
  commands, and generic facts on lists used as tables.

  A Go method \<^verbatim>\<open>func (s *S) Op(ctx, args) (T, error)\<close> becomes a command: a function from the state of the
  world to an outcome (a value, an error, a panic) and the state after the call. The state is
  returned on the error path as well, because Go undoes nothing when a method returns an error: what
  was written before the failing call stays written.
\<close>

section \<open>Commands: state and error results\<close>

text \<open>The outcome of a call: a value, an error value, or a run-time panic (a nil dereference, an
  index out of range), which no \<^verbatim>\<open>if err != nil\<close> sees and which unwinds the whole call.\<close>

datatype ('e, 'a) outcome = Ok 'a | Err 'e | Panic string

type_synonym ('s, 'e, 'a) cmd = "'s \<Rightarrow> ('e, 'a) outcome \<times> 's"

named_theorems run "unfolding equations of the command combinators"
named_theorems frame_intro "introduction rules that decompose a frame statement about a command"
named_theorems okE "elimination of a successful run of a command"

definition returnC :: "'a \<Rightarrow> ('s, 'e, 'a) cmd" where
  "returnC x = (\<lambda>s. (Ok x, s))"

definition failC :: "'e \<Rightarrow> ('s, 'e, 'a) cmd" where
  "failC e = (\<lambda>s. (Err e, s))"

definition panicC :: "string \<Rightarrow> ('s, 'e, 'a) cmd" where
  "panicC p = (\<lambda>s. (Panic p, s))"

text \<open>\<open>bindC m f\<close> is \<^verbatim>\<open>x, err := m(); if err != nil { return err }; f(x)\<close>.\<close>

definition bindC :: "('s, 'e, 'a) cmd \<Rightarrow> ('a \<Rightarrow> ('s, 'e, 'b) cmd) \<Rightarrow> ('s, 'e, 'b) cmd" where
  "bindC m f = (\<lambda>s. case m s of (Ok x, s') \<Rightarrow> f x s' | (Err e, s') \<Rightarrow> (Err e, s') | (Panic p, s') \<Rightarrow> (Panic p, s'))"

text \<open>\<open>tryC m\<close> is \<^verbatim>\<open>x, err := m()\<close> where the code goes on and inspects \<^verbatim>\<open>err\<close> itself.\<close>

definition tryC :: "('s, 'e, 'a) cmd \<Rightarrow> ('s, 'e, 'e + 'a) cmd" where
  "tryC m = (\<lambda>s. case m s of (Ok x, s') \<Rightarrow> (Ok (Inr x), s') | (Err e, s') \<Rightarrow> (Ok (Inl e), s')
     | (Panic p, s') \<Rightarrow> (Panic p, s'))"

text \<open>\<open>ignoreC m\<close> is \<^verbatim>\<open>_ = m()\<close>.\<close>

definition ignoreC :: "('s, 'e, 'a) cmd \<Rightarrow> ('s, 'e, unit) cmd" where
  "ignoreC m = (\<lambda>s. case m s of (Ok x, s') \<Rightarrow> (Ok (), s') | (Err e, s') \<Rightarrow> (Ok (), s')
     | (Panic p, s') \<Rightarrow> (Panic p, s'))"

text \<open>\<open>mapErrC g m\<close> is \<^verbatim>\<open>if err := m(); err != nil { return g(err) }\<close>.\<close>

definition mapErrC :: "('e \<Rightarrow> 'e) \<Rightarrow> ('s, 'e, 'a) cmd \<Rightarrow> ('s, 'e, 'a) cmd" where
  "mapErrC g m = (\<lambda>s. case m s of (Ok x, s') \<Rightarrow> (Ok x, s') | (Err e, s') \<Rightarrow> (Err (g e), s')
     | (Panic p, s') \<Rightarrow> (Panic p, s'))"

definition getC :: "('s \<Rightarrow> 'a) \<Rightarrow> ('s, 'e, 'a) cmd" where
  "getC f = (\<lambda>s. (Ok (f s), s))"

definition modifyC :: "('s \<Rightarrow> 's) \<Rightarrow> ('s, 'e, unit) cmd" where
  "modifyC f = (\<lambda>s. (Ok (), f s))"

definition liftC :: "'e + 'a \<Rightarrow> ('s, 'e, 'a) cmd" where
  "liftC r = (case r of Inl e \<Rightarrow> failC e | Inr x \<Rightarrow> returnC x)"

text \<open>\<^verbatim>\<open>if cond { return err }\<close>.\<close>

definition guardC :: "bool \<Rightarrow> 'e \<Rightarrow> ('s, 'e, unit) cmd" where
  "guardC bad e = (if bad then failC e else returnC ())"

text \<open>A statement under \<^verbatim>\<open>if cond { ... }\<close> that falls through.\<close>

definition whenC :: "bool \<Rightarrow> ('s, 'e, unit) cmd \<Rightarrow> ('s, 'e, unit) cmd" where
  "whenC b m = (if b then m else returnC ())"

text \<open>\<^verbatim>\<open>for _, x := range xs { ... }\<close>: \<open>forC\<close> returns at the first error, \<open>mapC\<close> also collects.\<close>

primrec forC :: "'a list \<Rightarrow> ('a \<Rightarrow> ('s, 'e, unit) cmd) \<Rightarrow> ('s, 'e, unit) cmd" where
  "forC [] f = returnC ()"
| "forC (x # xs) f = bindC (f x) (\<lambda>_. forC xs f)"

primrec mapC :: "'a list \<Rightarrow> ('a \<Rightarrow> ('s, 'e, 'b) cmd) \<Rightarrow> ('s, 'e, 'b list) cmd" where
  "mapC [] f = returnC []"
| "mapC (x # xs) f = bindC (f x) (\<lambda>y. bindC (mapC xs f) (\<lambda>ys. returnC (y # ys)))"

subsection \<open>Running a command\<close>

lemma run_returnC [run]: "returnC x s = (Ok x, s)"
  by (simp add: returnC_def)

lemma run_failC [run]: "failC e s = (Err e, s)"
  by (simp add: failC_def)

lemma run_panicC [run]: "panicC p s = (Panic p, s)"
  by (simp add: panicC_def)

lemma run_getC [run, simp]: "getC f s = (Ok (f s), s)"
  by (simp add: getC_def)

lemma run_modifyC [run, simp]: "modifyC f s = (Ok (), f s)"
  by (simp add: modifyC_def)

lemma run_liftC [run]: "liftC r s = (case r of Inl e \<Rightarrow> (Err e, s) | Inr x \<Rightarrow> (Ok x, s))"
  by (simp add: liftC_def run split: sum.split)

lemma run_guardC [run]: "guardC b e s = (if b then (Err e, s) else (Ok (), s))"
  by (simp add: guardC_def run)

lemma run_whenC [run]: "whenC b m s = (if b then m s else (Ok (), s))"
  by (simp add: whenC_def run)

lemma run_bindC [run]:
  "bindC m f s = (case fst (m s) of Ok x \<Rightarrow> f x (snd (m s)) | Err e \<Rightarrow> (Err e, snd (m s))
     | Panic p \<Rightarrow> (Panic p, snd (m s)))"
  by (simp add: bindC_def split: prod.split outcome.split)

lemma run_tryC [run]:
  "tryC m s = (case fst (m s) of Ok x \<Rightarrow> Ok (Inr x) | Err e \<Rightarrow> Ok (Inl e) | Panic p \<Rightarrow> Panic p, snd (m s))"
  by (simp add: tryC_def split: prod.split outcome.split)

lemma run_ignoreC [run]:
  "ignoreC m s = (case fst (m s) of Panic p \<Rightarrow> Panic p | _ \<Rightarrow> Ok (), snd (m s))"
  by (simp add: ignoreC_def split: prod.split outcome.split)

lemma run_mapErrC [run]:
  "mapErrC g m s = (case fst (m s) of Ok x \<Rightarrow> Ok x | Err e \<Rightarrow> Err (g e) | Panic p \<Rightarrow> Panic p, snd (m s))"
  by (simp add: mapErrC_def split: prod.split outcome.split)

lemma bindC_assoc: "bindC (bindC m f) g = bindC m (\<lambda>x. bindC (f x) g)"
  by (rule ext) (simp add: run split: outcome.split)

lemma bindC_returnC [simp]: "bindC (returnC x) f = f x"
  by (rule ext) (simp add: run)

lemma bindC_failC [simp]: "bindC (failC e) f = failC e"
  by (rule ext) (simp add: run)

lemma bindC_panicC [simp]: "bindC (panicC e) f = panicC e"
  by (rule ext) (simp add: run)

lemma ignoreC_returnC [simp]: "ignoreC (returnC x) = returnC ()"
  by (rule ext) (simp add: run)

subsection \<open>Successful runs\<close>

text \<open>
  \<open>ok m s x s'\<close>: run in \<open>s\<close> the command returns \<open>x\<close> without an error and leaves the state \<open>s'\<close>. A
  successful run of a sequence decomposes into successful runs of its parts.
\<close>

abbreviation ok :: "('s, 'e, 'a) cmd \<Rightarrow> 's \<Rightarrow> 'a \<Rightarrow> 's \<Rightarrow> bool" where
  "ok m s x s' \<equiv> m s = (Ok x, s')"

lemma ok_bindC: "bindC m f s = (Ok y, s'') \<longleftrightarrow> (\<exists>x s'. m s = (Ok x, s') \<and> f x s' = (Ok y, s''))"
  by (cases "m s") (auto simp: run split: outcome.splits)

lemma ok_bindCE [okE]:
  assumes "bindC m f s = (Ok y, s'')"
  obtains x s' where "m s = (Ok x, s')" and "f x s' = (Ok y, s'')"
  using assms by (auto simp: ok_bindC)

lemma ok_mapErrC: "mapErrC g m s = (Ok x, s') \<longleftrightarrow> m s = (Ok x, s')"
  by (cases "m s") (auto simp: run split: outcome.splits)

lemma ok_guardC: "guardC b e s = (Ok u, s') \<longleftrightarrow> \<not> b \<and> s' = s"
  by (auto simp: run)

lemma ok_whenC: "whenC b m s = (Ok u, s') \<longleftrightarrow> (if b then m s = (Ok u, s') else s' = s)"
  by (auto simp: run)

lemma ok_tryC: "tryC m s = (Ok r, s') \<longleftrightarrow> m s = (case r of Inl e \<Rightarrow> Err e | Inr x \<Rightarrow> Ok x, s')"
  by (cases "m s") (auto simp: run split: outcome.splits sum.splits)

lemma ok_ignoreC: "ignoreC m s = (Ok u, s') \<longleftrightarrow> s' = snd (m s) \<and> (\<forall>p. fst (m s) \<noteq> Panic p)"
  by (auto simp: run split: outcome.splits)

lemma ok_liftC: "liftC r s = (Ok x, s') \<longleftrightarrow> r = Inr x \<and> s' = s"
  by (auto simp: run split: sum.splits)

lemma ok_returnC: "returnC y s = (Ok x, s') \<longleftrightarrow> y = x \<and> s' = s"
  by (auto simp: run)

lemma ok_failC: "\<not> failC e s = (Ok x, s')"
  by (simp add: run)

lemma ok_panicC: "\<not> panicC p s = (Ok x, s')"
  by (simp add: run)

lemmas ok_simps = ok_returnC ok_failC ok_panicC ok_bindC ok_mapErrC ok_guardC ok_whenC ok_tryC
  ok_ignoreC ok_liftC

section \<open>Frames: what a command may change\<close>

text \<open>
  \<open>confined R m\<close>: every run of \<open>m\<close>, successful or not, takes a state to an \<open>R\<close>-related one. With a
  reflexive and transitive \<open>R\<close> (\<^emph>\<open>only rows of this tenant changed\<close>, \<^emph>\<open>this table is untouched\<close>, \<^emph>\<open>if
  the invariant held it still holds\<close>) the statement composes over the combinators, which the locale
  proves once. Every interpretation below is on a relation over the modelled world.
\<close>

definition confined :: "('s \<Rightarrow> 's \<Rightarrow> bool) \<Rightarrow> ('s, 'e, 'a) cmd \<Rightarrow> bool" where
  "confined R m \<longleftrightarrow> (\<forall>s. R s (snd (m s)))"

lemma confinedI: "(\<And>s. R s (snd (m s))) \<Longrightarrow> confined R m"
  by (simp add: confined_def)

lemma confinedD: "confined R m \<Longrightarrow> R s (snd (m s))"
  by (simp add: confined_def)

lemma confined_runD: "confined R m \<Longrightarrow> m s = (r, s') \<Longrightarrow> R s s'"
  by (drule confinedD [where s = s]) simp

locale frame_rel =
  fixes R :: "'s \<Rightarrow> 's \<Rightarrow> bool"
  assumes frame_refl: "R s s"
    and frame_trans: "R s t \<Longrightarrow> R t u \<Longrightarrow> R s u"
begin

lemma fr_return: "confined R (returnC x)"
  by (simp add: confined_def frame_refl run)

lemma fr_fail: "confined R (failC e)"
  by (simp add: confined_def frame_refl run)

lemma fr_panic: "confined R (panicC p)"
  by (simp add: confined_def frame_refl run)

lemma fr_get: "confined R (getC f)"
  by (simp add: confined_def frame_refl)

lemma fr_lift: "confined R (liftC r)"
  by (cases r) (simp_all add: confined_def frame_refl run)

lemma fr_when: "(b \<Longrightarrow> confined R m) \<Longrightarrow> confined R (whenC b m)"
  by (auto simp: whenC_def fr_return)

lemma fr_guard: "confined R (guardC b e)"
  by (simp add: confined_def frame_refl run)

lemma fr_modify: "(\<And>s. R s (f s)) \<Longrightarrow> confined R (modifyC f)"
  by (simp add: confined_def)

lemma fr_bind: "confined R m \<Longrightarrow> (\<And>x. confined R (f x)) \<Longrightarrow> confined R (bindC m f)"
  unfolding confined_def by (auto simp: run split: outcome.split intro: frame_trans frame_refl)

text \<open>The continuation need only be confined for values the first command can return.\<close>

lemma fr_bind_ok:
  "confined R m \<Longrightarrow> (\<And>x s s'. m s = (Ok x, s') \<Longrightarrow> confined R (f x)) \<Longrightarrow> confined R (bindC m f)"
  unfolding confined_def
proof
  fix s
  assume m: "\<forall>s. R s (snd (m s))" and f: "\<And>x s s'. m s = (Ok x, s') \<Longrightarrow> \<forall>s. R s (snd (f x s))"
  show "R s (snd (bindC m f s))"
  proof (cases "m s")
    case (Pair r s')
    with m have "R s s'" by (metis snd_conv)
    with Pair f show ?thesis by (cases r) (auto simp: run intro: frame_trans)
  qed
qed

lemma fr_try: "confined R m \<Longrightarrow> confined R (tryC m)"
  by (simp add: confined_def run)

lemma fr_ignore: "confined R m \<Longrightarrow> confined R (ignoreC m)"
  by (simp add: confined_def run)

lemma fr_mapErr: "confined R m \<Longrightarrow> confined R (mapErrC g m)"
  by (simp add: confined_def run)

lemma fr_if: "(b \<Longrightarrow> confined R m) \<Longrightarrow> (\<not> b \<Longrightarrow> confined R m') \<Longrightarrow> confined R (if b then m else m')"
  by simp

lemma fr_case_option:
  "(x = None \<Longrightarrow> confined R m) \<Longrightarrow> (\<And>y. x = Some y \<Longrightarrow> confined R (f y)) \<Longrightarrow>
    confined R (case x of None \<Rightarrow> m | Some y \<Rightarrow> f y)"
  by (cases x) auto

lemma fr_case_sum:
  "(\<And>e. x = Inl e \<Longrightarrow> confined R (f e)) \<Longrightarrow> (\<And>y. x = Inr y \<Longrightarrow> confined R (g y)) \<Longrightarrow>
    confined R (case x of Inl e \<Rightarrow> f e | Inr y \<Rightarrow> g y)"
  by (cases x) auto

lemma fr_case_prod: "(\<And>a b. x = (a, b) \<Longrightarrow> confined R (f a b)) \<Longrightarrow> confined R (case x of (a, b) \<Rightarrow> f a b)"
  by (cases x) auto

lemma fr_let: "(\<And>x. x = v \<Longrightarrow> confined R (f x)) \<Longrightarrow> confined R (let x = v in f x)"
  by simp

lemma fr_for: "(\<And>x. x \<in> set xs \<Longrightarrow> confined R (f x)) \<Longrightarrow> confined R (forC xs f)"
proof (induction xs)
  case Nil
  show ?case by (simp add: fr_return)
next
  case (Cons x xs)
  then show ?case by (auto intro!: fr_bind)
qed

lemma fr_map: "(\<And>x. x \<in> set xs \<Longrightarrow> confined R (f x)) \<Longrightarrow> confined R (mapC xs f)"
proof (induction xs)
  case Nil
  show ?case by (simp add: fr_return)
next
  case (Cons x xs)
  then show ?case by (auto intro!: fr_bind fr_return)
qed

lemmas fr_intros = fr_return fr_fail fr_panic fr_get fr_lift fr_guard fr_when fr_bind fr_try fr_ignore fr_mapErr
  fr_if fr_case_option fr_case_sum fr_case_prod fr_let fr_for fr_map

end

section \<open>Final states on every path\<close>

text \<open>
  \<open>wp m Q s\<close>: run in \<open>s\<close>, the command ends with an outcome and a state that satisfy \<open>Q\<close>. The equations
  push it through the combinators, so that a statement about every path of an operation, the error
  paths included, reduces to one about its calls.
\<close>

definition wp :: "('s, 'e, 'a) cmd \<Rightarrow> (('e, 'a) outcome \<Rightarrow> 's \<Rightarrow> bool) \<Rightarrow> 's \<Rightarrow> bool" where
  "wp m Q s \<longleftrightarrow> Q (fst (m s)) (snd (m s))"

named_theorems wps "equations of wp"

lemma wpD: "wp m Q s \<Longrightarrow> m s = (r, s') \<Longrightarrow> Q r s'"
  by (simp add: wp_def)

lemma wp_snd: "wp m (\<lambda>r. P) s \<longleftrightarrow> P (snd (m s))"
  by (simp add: wp_def)

lemma wp_returnC [wps]: "wp (returnC x) Q s \<longleftrightarrow> Q (Ok x) s"
  by (simp add: wp_def run)

lemma wp_failC [wps]: "wp (failC e) Q s \<longleftrightarrow> Q (Err e) s"
  by (simp add: wp_def run)

lemma wp_panicC [wps]: "wp (panicC p) Q s \<longleftrightarrow> Q (Panic p) s"
  by (simp add: wp_def run)

lemma wp_getC [wps]: "wp (getC f) Q s \<longleftrightarrow> Q (Ok (f s)) s"
  by (simp add: wp_def)

lemma wp_modifyC [wps]: "wp (modifyC f) Q s \<longleftrightarrow> Q (Ok ()) (f s)"
  by (simp add: wp_def)

lemma wp_liftC [wps]: "wp (liftC r) Q s \<longleftrightarrow> (case r of Inl e \<Rightarrow> Q (Err e) s | Inr x \<Rightarrow> Q (Ok x) s)"
  by (simp add: wp_def run split: sum.split)

lemma wp_guardC [wps]: "wp (guardC b e) Q s \<longleftrightarrow> (if b then Q (Err e) s else Q (Ok ()) s)"
  by (simp add: wp_def run)

lemma wp_whenC [wps]: "wp (whenC b m) Q s \<longleftrightarrow> (if b then wp m Q s else Q (Ok ()) s)"
  by (simp add: wp_def run)

lemma wp_bindC [wps]:
  "wp (bindC m f) Q s \<longleftrightarrow>
     wp m (\<lambda>r s'. case r of Ok x \<Rightarrow> wp (f x) Q s' | Err e \<Rightarrow> Q (Err e) s' | Panic p \<Rightarrow> Q (Panic p) s') s"
  by (simp add: wp_def run split: outcome.split)

lemma wp_tryC [wps]:
  "wp (tryC m) Q s \<longleftrightarrow>
     wp m (\<lambda>r s'. case r of Ok x \<Rightarrow> Q (Ok (Inr x)) s' | Err e \<Rightarrow> Q (Ok (Inl e)) s' | Panic p \<Rightarrow> Q (Panic p) s') s"
  by (simp add: wp_def run split: outcome.split)

lemma wp_ignoreC [wps]:
  "wp (ignoreC m) Q s \<longleftrightarrow>
     wp m (\<lambda>r s'. case r of Ok x \<Rightarrow> Q (Ok ()) s' | Err e \<Rightarrow> Q (Ok ()) s' | Panic p \<Rightarrow> Q (Panic p) s') s"
  by (simp add: wp_def run split: outcome.split)

lemma wp_mapErrC [wps]:
  "wp (mapErrC g m) Q s \<longleftrightarrow>
     wp m (\<lambda>r s'. case r of Ok x \<Rightarrow> Q (Ok x) s' | Err e \<Rightarrow> Q (Err (g e)) s' | Panic p \<Rightarrow> Q (Panic p) s') s"
  by (simp add: wp_def run split: outcome.split)

lemma wp_mono: "wp m P s \<Longrightarrow> (\<And>r s'. P r s' \<Longrightarrow> Q r s') \<Longrightarrow> wp m Q s"
  by (simp add: wp_def)

text \<open>Calls of which nothing matters, and of which only their frame matters.\<close>

lemma wp_any: "(\<And>r s'. Q r s') \<Longrightarrow> wp m Q s"
  by (simp add: wp_def)

lemma wp_confined: "confined R m \<Longrightarrow> (\<And>r s'. R s s' \<Longrightarrow> Q r s') \<Longrightarrow> wp m Q s"
  by (simp add: wp_def confined_def)

text \<open>Commands that always return, and loops of such commands.\<close>

lemma wp_returns: "wp m (\<lambda>r s'. r = Ok x \<and> Q s') s \<Longrightarrow> \<exists>s'. m s = (Ok x, s') \<and> Q s'"
  by (cases "m s") (simp add: wp_def)

lemma quiet_forC: "(\<And>x s. \<exists>s'. f x s = (Ok (), s')) \<Longrightarrow> \<exists>s'. forC xs f s = (Ok (), s')"
proof (induction xs arbitrary: s)
  case (Cons x xs)
  then obtain s1 where "f x s = (Ok (), s1)" by blast
  with Cons show ?case by (auto simp: run)
qed (simp add: run)

lemma quiet_wp: "(\<And>s. wp m (\<lambda>r s'. r = Ok ()) s) \<Longrightarrow> \<exists>s'. m s = (Ok (), s')"
  unfolding wp_def by (metis prod.collapse)

text \<open>The continuation matters on the values the first command returns only.\<close>

lemma bindC_cong_ok:
  assumes "\<And>x s s'. m s = (Ok x, s') \<Longrightarrow> f x s' = g x s'"
  shows "bindC m f = bindC m g"
proof (rule ext)
  fix s
  show "bindC m f s = bindC m g s" using assms by (cases "m s") (auto simp: run split: outcome.split)
qed

section \<open>Bytes\<close>

lemma unat_byte_less: "unat (b :: 8 word) < 256"
  using unsigned_less [of b, where ?'a = nat] by simp

section \<open>Lists as tables\<close>

text \<open>\<^verbatim>\<open>QueryRow\<close> with at most one expected row reads the first match.\<close>

lemma find_Some_set: "find P xs = Some x \<Longrightarrow> x \<in> set xs \<and> P x"
  by (auto simp: find_Some_iff)

lemma find_None_set: "find P xs = None \<longleftrightarrow> (\<forall>x \<in> set xs. \<not> P x)"
  by (auto simp: find_None_iff)

lemma find_append [simp]:
  "find P (xs @ ys) = (case find P xs of None \<Rightarrow> find P ys | Some x \<Rightarrow> Some x)"
  by (induction xs) auto

text \<open>\<^verbatim>\<open>UPDATE t SET .. WHERE P\<close> and its row count.\<close>

definition upd_where :: "('a \<Rightarrow> bool) \<Rightarrow> ('a \<Rightarrow> 'a) \<Rightarrow> 'a list \<Rightarrow> 'a list" where
  "upd_where P f = map (\<lambda>x. if P x then f x else x)"

definition rows_affected :: "('a \<Rightarrow> bool) \<Rightarrow> 'a list \<Rightarrow> nat" where
  "rows_affected P xs = length (filter P xs)"

lemma upd_where_Nil [simp]: "upd_where P f [] = []"
  by (simp add: upd_where_def)

lemma upd_where_Cons [simp]:
  "upd_where P f (x # xs) = (if P x then f x else x) # upd_where P f xs"
  by (simp add: upd_where_def)

lemma upd_where_append [simp]: "upd_where P f (xs @ ys) = upd_where P f xs @ upd_where P f ys"
  by (simp add: upd_where_def)

lemma length_upd_where [simp]: "length (upd_where P f xs) = length xs"
  by (simp add: upd_where_def)

lemma set_upd_where: "set (upd_where P f xs) = (\<lambda>x. if P x then f x else x) ` set xs"
  by (simp add: upd_where_def)

lemma upd_where_none: "(\<And>x. x \<in> set xs \<Longrightarrow> \<not> P x) \<Longrightarrow> upd_where P f xs = xs"
  by (induction xs) auto

lemma rows_affected_0: "rows_affected P xs = 0 \<longleftrightarrow> (\<forall>x \<in> set xs. \<not> P x)"
  by (simp add: rows_affected_def filter_empty_conv)

lemma rows_affected_pos: "0 < rows_affected P xs \<longleftrightarrow> (\<exists>x \<in> set xs. P x)"
  using rows_affected_0 [of P xs] by auto

lemmas rows_simps = rows_affected_0 rows_affected_pos

lemma rows_affected_Nil [simp]: "rows_affected P [] = 0"
  by (simp add: rows_affected_def)

lemma rows_affected_Cons [simp]:
  "rows_affected P (x # xs) = (if P x then Suc (rows_affected P xs) else rows_affected P xs)"
  by (simp add: rows_affected_def)

lemma filter_upd_where_other:
  "(\<And>x. P x \<Longrightarrow> \<not> Q x \<and> \<not> Q (f x)) \<Longrightarrow> filter Q (upd_where P f xs) = filter Q xs"
  by (induction xs) auto

lemma map_upd_where_key: "(\<And>x. P x \<Longrightarrow> k (f x) = k x) \<Longrightarrow> map k (upd_where P f xs) = map k xs"
  by (induction xs) auto

lemma find_upd_where_key:
  "(\<And>x. P x \<Longrightarrow> k (f x) = k x) \<Longrightarrow>
    find (\<lambda>x. k x = i) (upd_where P f xs) =
    map_option (\<lambda>x. if P x then f x else x) (find (\<lambda>x. k x = i) xs)"
  by (induction xs) auto

lemma upd_where_upd_where:
  "(\<And>r. Q (f r) = Q r) \<Longrightarrow> (\<And>r. f (f r) = f r) \<Longrightarrow>
    upd_where Q f (upd_where P f xs) = upd_where (\<lambda>r. P r \<or> Q r) f xs"
  by (induction xs) auto

lemma distinct_map_filterI: "distinct (map k xs) \<Longrightarrow> distinct (map k (filter P xs))"
  by (simp add: distinct_map inj_on_def)

lemma distinct_key_find:
  "distinct (map k xs) \<Longrightarrow> x \<in> set xs \<Longrightarrow> find (\<lambda>y. k y = k x) xs = Some x"
  by (induction xs) (auto simp: image_iff)

lemma distinct_key_unique:
  "distinct (map k xs) \<Longrightarrow> x \<in> set xs \<Longrightarrow> y \<in> set xs \<Longrightarrow> k x = k y \<Longrightarrow> x = y"
  by (auto simp: distinct_map inj_on_def)

lemma find_key_and:
  "distinct (map k xs) \<Longrightarrow> x \<in> set xs \<Longrightarrow> P x \<Longrightarrow> find (\<lambda>y. k y = k x \<and> P y) xs = Some x"
  by (induction xs) (auto simp: image_iff)

lemma filter_filter_neg_other:
  "(\<And>x. P x \<Longrightarrow> \<not> Q x) \<Longrightarrow> filter Q (filter (\<lambda>x. \<not> P x) xs) = filter Q xs"
  by (induction xs) auto

lemma upd_where_key_set:
  assumes "distinct (map k xs)" and "x \<in> set xs" and "P x" and "\<And>y. P y \<Longrightarrow> k y = k x"
  shows "upd_where P f xs = map (\<lambda>y. if y = x then f x else y) xs"
  unfolding upd_where_def using assms by (intro map_cong refl) (auto dest: distinct_key_unique)

lemma filter_map_other:
  "(\<And>r. r \<in> set xs \<Longrightarrow> f r = r \<or> \<not> P r \<and> \<not> P (f r)) \<Longrightarrow> filter P (map f xs) = filter P xs"
proof (induction xs)
  case (Cons x xs)
  have "filter P (map f xs) = filter P xs" using Cons.prems by (intro Cons.IH) auto
  moreover have "f x = x \<or> \<not> P x \<and> \<not> P (f x)" using Cons.prems [of x] by simp
  ultimately show ?case by auto
qed simp

end
