(* ===== verification/Errors.thy ===== *)
theory Errors
  imports Prelude
begin

text \<open>
  The error package \<^verbatim>\<open>internal/errors\<close> and the HTTP rendering of errors in
  \<^verbatim>\<open>pkg/httputil/response.go\<close>. An \<^verbatim>\<open>error\<close> value of the program is the package's own \<^verbatim>\<open>Error\<close> struct, a
  standard-library error (\<^verbatim>\<open>fmt.Errorf\<close> and \<^verbatim>\<open>errors.New\<close>, possibly wrapping another with \<open>%w\<close>), the
  database driver's no-rows sentinel, a rejected constraint of the schema, or a failure reported by
  the environment (database connection, container engine, network, random source) with its text.
\<close>

datatype Type =
    NotFound | InvalidInput | Internal | Unauthorized | Conflict | Forbidden | ResourceLimitExceeded
  | BucketNotFound | ObjectNotFound | ObjectTooLarge
  | InvalidPortFormat | PortConflict | TooManyPorts | InstanceNotRunning
  | LBNotFound | LBTargetExists | LBCrossVPC

fun Type_string :: "Type \<Rightarrow> string" where
  "Type_string NotFound = ''NOT_FOUND''"
| "Type_string InvalidInput = ''INVALID_INPUT''"
| "Type_string Internal = ''INTERNAL''"
| "Type_string Unauthorized = ''UNAUTHORIZED''"
| "Type_string Conflict = ''CONFLICT''"
| "Type_string Forbidden = ''FORBIDDEN''"
| "Type_string ResourceLimitExceeded = ''RESOURCE_LIMIT_EXCEEDED''"
| "Type_string BucketNotFound = ''BUCKET_NOT_FOUND''"
| "Type_string ObjectNotFound = ''OBJECT_NOT_FOUND''"
| "Type_string ObjectTooLarge = ''OBJECT_TOO_LARGE''"
| "Type_string InvalidPortFormat = ''INVALID_PORT_FORMAT''"
| "Type_string PortConflict = ''PORT_CONFLICT''"
| "Type_string TooManyPorts = ''TOO_MANY_PORTS''"
| "Type_string InstanceNotRunning = ''INSTANCE_NOT_RUNNING''"
| "Type_string LBNotFound = ''LB_NOT_FOUND''"
| "Type_string LBTargetExists = ''LB_TARGET_EXISTS''"
| "Type_string LBCrossVPC = ''LB_CROSS_VPC''"

datatype error =
    Error Type string string "error option"  \<comment> \<open>Type, Message, Code, Cause\<close>
  | Errorf string "error option"             \<comment> \<open>fmt.Errorf(msg) or fmt.Errorf(msg + \": %w\", err)\<close>
  | ErrNoRows                                \<comment> \<open>pgx.ErrNoRows\<close>
  | Constraint string                        \<comment> \<open>a constraint of the schema was violated\<close>
  | ExtError string                          \<comment> \<open>the environment's call failed with this text\<close>

fun Error_Error :: "error \<Rightarrow> string" where
  "Error_Error (Error t m c (Some e)) =
     Type_string t @ '': '' @ m @ '' (cause: '' @ Error_Error e @ '')''"
| "Error_Error (Error t m c None) = Type_string t @ '': '' @ m"
| "Error_Error (Errorf m (Some e)) = m @ '': '' @ Error_Error e"
| "Error_Error (Errorf m None) = m"
| "Error_Error ErrNoRows = ''no rows in result set''"
| "Error_Error (Constraint c) = ''violates constraint '' @ c"
| "Error_Error (ExtError m) = m"

fun Unwrap :: "error \<Rightarrow> error option" where
  "Unwrap (Error t m c e) = e"
| "Unwrap (Errorf m e) = e"
| "Unwrap _ = None"

definition New :: "Type \<Rightarrow> string \<Rightarrow> error" where
  "New t msg = Error t msg (Type_string t) None"

definition Wrap :: "Type \<Rightarrow> string \<Rightarrow> error \<Rightarrow> error" where
  "Wrap t msg err = Error t msg (Type_string t) (Some err)"

text \<open>\<^verbatim>\<open>Is\<close> and \<^verbatim>\<open>GetCause\<close> use a type assertion, so they see the outermost error only.\<close>

fun Is :: "error \<Rightarrow> Type \<Rightarrow> bool" where
  "Is (Error t' m c e) t = (t' = t)"
| "Is _ t = False"

fun GetCause :: "error \<Rightarrow> error option" where
  "GetCause (Error t m c e) = e"
| "GetCause _ = None"

definition ErrLBNotFound :: error where
  "ErrLBNotFound = New LBNotFound ''load balancer not found''"

definition ErrLBTargetExists :: error where
  "ErrLBTargetExists = New LBTargetExists ''target already registered''"

definition ErrLBCrossVPC :: error where
  "ErrLBCrossVPC = New LBCrossVPC ''target must be in same VPC as LB''"

subsection \<open>The HTTP response to an error\<close>

text \<open>
  The JSON object sent for an error has the fields \<^verbatim>\<open>type\<close>, \<^verbatim>\<open>message\<close> and \<^verbatim>\<open>code\<close>; the field \<^verbatim>\<open>Cause\<close> has the
  tag \<^verbatim>\<open>json:"-"\<close>.
\<close>

record error_json =
  ej_type :: string
  ej_message :: string
  ej_code :: string

fun status_of_type :: "Type \<Rightarrow> nat" where
  "status_of_type NotFound = 404"
| "status_of_type InvalidInput = 400"
| "status_of_type Unauthorized = 401"
| "status_of_type Conflict = 409"
| "status_of_type BucketNotFound = 404"
| "status_of_type ObjectNotFound = 404"
| "status_of_type ObjectTooLarge = 413"
| "status_of_type InstanceNotRunning = 409"
| "status_of_type PortConflict = 409"
| "status_of_type TooManyPorts = 409"
| "status_of_type ResourceLimitExceeded = 429"
| "status_of_type _ = 500"

definition httputil_Error :: "error \<Rightarrow> nat \<times> error_json" where
  "httputil_Error err =
     (let (t, m, c) = (case err of Error t m c _ \<Rightarrow> (t, m, c)
                       | _ \<Rightarrow> (Internal, ''An unexpected error occurred'', Type_string Internal))
      in (status_of_type t, \<lparr>ej_type = Type_string t, ej_message = m, ej_code = c\<rparr>))"

subsection \<open>Facts\<close>

lemma Is_New [simp]: "Is (New t m) t' \<longleftrightarrow> t = t'"
  by (simp add: New_def)

lemma Is_Wrap [simp]: "Is (Wrap t m e) t' \<longleftrightarrow> t = t'"
  by (simp add: Wrap_def)

lemma GetCause_Wrap [simp]: "GetCause (Wrap t m e) = Some e"
  by (simp add: Wrap_def)

lemma GetCause_New [simp]: "GetCause (New t m) = None"
  by (simp add: New_def)

lemma New_inject [simp]: "New t m = New t' m' \<longleftrightarrow> t = t' \<and> m = m'"
  by (auto simp: New_def)

lemma New_neq_Wrap [simp]: "New t m \<noteq> Wrap t' m' e" "Wrap t' m' e \<noteq> New t m"
  by (auto simp: New_def Wrap_def)

lemma Type_string_inj: "Type_string t = Type_string t' \<longleftrightarrow> t = t'"
  by (cases t; cases t') simp_all

text \<open>Only errors that are the package's own struct at the top choose their status and text.\<close>

lemma httputil_Error_app [simp]:
  "httputil_Error (Error t m c e) = (status_of_type t, \<lparr>ej_type = Type_string t, ej_message = m, ej_code = c\<rparr>)"
  by (simp add: httputil_Error_def)

lemma httputil_Error_other:
  "(\<nexists>t m c e. err = Error t m c e) \<Longrightarrow>
    httputil_Error err = (500, \<lparr>ej_type = ''INTERNAL'', ej_message = ''An unexpected error occurred'',
      ej_code = ''INTERNAL''\<rparr>)"
  by (cases err) (auto simp: httputil_Error_def)

end
