(* ===== verification/GoLib.thy ===== *)
theory GoLib
  imports Prelude
begin

text \<open>
  The parts of the Go standard library the modelled code calls: \<^verbatim>\<open>strings.Split\<close>, \<^verbatim>\<open>strings.Join\<close>,
  \<^verbatim>\<open>strings.TrimSpace\<close>, \<^verbatim>\<open>strings.HasPrefix\<close>, \<^verbatim>\<open>strconv.Atoi\<close>, decimal formatting (\<open>%d\<close>) and
  \<^verbatim>\<open>hex.EncodeToString\<close>. A Go string is its list of bytes.
\<close>

section \<open>Splitting and joining\<close>

text \<open>\<^verbatim>\<open>strings.Split(s, sep)\<close> for a one-byte separator: never empty, \<open>[[]]\<close> for the empty string.\<close>

fun Split :: "char \<Rightarrow> string \<Rightarrow> string list" where
  "Split c [] = [[]]"
| "Split c (x # xs) = (if x = c then [] # Split c xs
     else (case Split c xs of [] \<Rightarrow> [[x]] | p # ps \<Rightarrow> (x # p) # ps))"

fun Join :: "string \<Rightarrow> string list \<Rightarrow> string" where
  "Join sep [] = []"
| "Join sep [x] = x"
| "Join sep (x # y # ys) = x @ sep @ Join sep (y # ys)"

lemma Split_neq_Nil [simp]: "Split c s \<noteq> []"
  by (cases s) (auto split: list.splits)

lemma Split_Cons_neq: "x \<noteq> c \<Longrightarrow> Split c (x # xs) = (x # hd (Split c xs)) # tl (Split c xs)"
  by (cases "Split c xs") auto

lemma Join_Split [simp]: "Join [c] (Split c s) = s"
proof (induction s)
  case Nil
  show ?case by simp
next
  case (Cons x s)
  then show ?case
    by (cases "Split c s"; cases "tl (Split c s)") auto
qed

lemma Split_no_sep: "p \<in> set (Split c s) \<Longrightarrow> c \<notin> set p"
proof (induction s arbitrary: p)
  case Nil
  then show ?case by simp
next
  case (Cons x s)
  then show ?case
    by (cases "Split c s") (auto split: if_splits)
qed

lemma Split_append_sep: "c \<notin> set p \<Longrightarrow> Split c (p @ c # s) = p # Split c s"
proof (induction p)
  case Nil
  show ?case by simp
next
  case (Cons x p)
  then show ?case by (auto simp: Split_Cons_neq)
qed

lemma Split_no_occ: "c \<notin> set p \<Longrightarrow> Split c p = [p]"
  by (induction p) auto

lemma Split_Join: "ps \<noteq> [] \<Longrightarrow> (\<And>p. p \<in> set ps \<Longrightarrow> c \<notin> set p) \<Longrightarrow> Split c (Join [c] ps) = ps"
  by (induction "[c]" ps rule: Join.induct) (auto simp: Split_append_sep Split_no_occ)

lemma length_Split: "length (Split c s) = Suc (count_list s c)"
proof (induction s)
  case Nil
  show ?case by simp
next
  case (Cons x s)
  then show ?case by (cases "Split c s") auto
qed

lemma Split_pair_iff: "Split c s = [a, b] \<longleftrightarrow> s = a @ c # b \<and> c \<notin> set a \<and> c \<notin> set b"
proof
  assume eq: "Split c s = [a, b]"
  have "c \<notin> set a" and "c \<notin> set b"
    using Split_no_sep [of _ c s] by (simp_all add: eq)
  moreover have "s = a @ c # b"
    using Join_Split [of c s] by (simp add: eq)
  ultimately show "s = a @ c # b \<and> c \<notin> set a \<and> c \<notin> set b" by simp
next
  assume "s = a @ c # b \<and> c \<notin> set a \<and> c \<notin> set b"
  then show "Split c s = [a, b]" by (simp add: Split_append_sep Split_no_occ)
qed

section \<open>Trimming\<close>

text \<open>
  \<^verbatim>\<open>unicode.IsSpace\<close> as UTF-8 byte sequences: the six ASCII spaces, U+0085, U+00A0, U+1680,
  U+2000 to U+200A, U+2028, U+2029, U+202F, U+205F and U+3000.
\<close>

definition utf8_spaces :: "string list" where
  "utf8_spaces =
     [[CHR 0x09], [CHR 0x0A], [CHR 0x0B], [CHR 0x0C], [CHR 0x0D], [CHR 0x20],
      [CHR 0xC2, CHR 0x85], [CHR 0xC2, CHR 0xA0], [CHR 0xE1, CHR 0x9A, CHR 0x80]]
     @ map (\<lambda>n. [CHR 0xE2, CHR 0x80, char_of n])
         [0x80, 0x81, 0x82, 0x83, 0x84, 0x85, 0x86, 0x87, 0x88, 0x89, 0x8A, 0xA8, 0xA9, 0xAF :: nat]
     @ [[CHR 0xE2, CHR 0x81, CHR 0x9F], [CHR 0xE3, CHR 0x80, CHR 0x80]]"

function trim_left :: "string \<Rightarrow> string" where
  "trim_left s = (case find (\<lambda>p. p \<noteq> [] \<and> prefix p s) utf8_spaces of
     None \<Rightarrow> s | Some p \<Rightarrow> trim_left (drop (length p) s))"
  by pat_completeness auto
termination
proof (relation "measure length")
  show "wf (measure length)" by simp
next
  fix s :: string and p
  assume "find (\<lambda>p. p \<noteq> [] \<and> prefix p s) utf8_spaces = Some p"
  then have "p \<noteq> []" and "prefix p s"
    by (auto dest: find_Some_set)
  then show "(drop (length p) s, s) \<in> measure length"
    by (cases s) (auto simp: prefix_def)
qed

declare trim_left.simps [simp del]

text \<open>From the right the sequences are matched as suffixes, that is as reversed prefixes.\<close>

function trim_right_rev :: "string \<Rightarrow> string" where
  "trim_right_rev r = (case find (\<lambda>p. p \<noteq> [] \<and> prefix (rev p) r) utf8_spaces of
     None \<Rightarrow> r | Some p \<Rightarrow> trim_right_rev (drop (length p) r))"
  by pat_completeness auto
termination
proof (relation "measure length")
  show "wf (measure length)" by simp
next
  fix r :: string and p
  assume "find (\<lambda>p. p \<noteq> [] \<and> prefix (rev p) r) utf8_spaces = Some p"
  then have "p \<noteq> []" and "prefix (rev p) r"
    by (auto dest: find_Some_set)
  then show "(drop (length p) r, r) \<in> measure length"
    by (cases r) (auto simp: prefix_def)
qed

declare trim_right_rev.simps [simp del]

definition TrimSpace :: "string \<Rightarrow> string" where
  "TrimSpace s = rev (trim_right_rev (rev (trim_left s)))"

section \<open>Numbers\<close>

definition is_digit :: "char \<Rightarrow> bool" where
  "is_digit c \<longleftrightarrow> 48 \<le> (of_char c :: nat) \<and> (of_char c :: nat) \<le> 57"

definition digit_val :: "char \<Rightarrow> nat" where
  "digit_val c = of_char c - 48"

definition digit_char :: "nat \<Rightarrow> char" where
  "digit_char n = char_of (48 + n)"

definition dec_val :: "string \<Rightarrow> nat" where
  "dec_val s = foldl (\<lambda>a c. 10 * a + digit_val c) 0 s"

text \<open>
  \<^verbatim>\<open>strconv.Atoi\<close> on a 64-bit platform: an optional sign, at least one digit, nothing else, and the
  value within the range of \<^verbatim>\<open>int\<close>.
\<close>

definition Atoi :: "string \<Rightarrow> int option" where
  "Atoi s =
     (let neg = (case s of [] \<Rightarrow> False | c # _ \<Rightarrow> c = CHR ''-'');
          ds = (case s of [] \<Rightarrow> [] | c # cs \<Rightarrow> if c = CHR ''-'' \<or> c = CHR ''+'' then cs else s)
      in if ds = [] \<or> \<not> list_all is_digit ds then None
         else let n = int (dec_val ds); v = (if neg then - n else n)
              in if - (2 ^ 63) \<le> v \<and> v < 2 ^ 63 then Some v else None)"

fun nat_string :: "nat \<Rightarrow> string" where
  "nat_string n = (if n < 10 then [digit_char n] else nat_string (n div 10) @ [digit_char (n mod 10)])"

declare nat_string.simps [simp del]

text \<open>The verb \<open>%d\<close>.\<close>

definition int_string :: "int \<Rightarrow> string" where
  "int_string i = (if i < 0 then CHR ''-'' # nat_string (nat (- i)) else nat_string (nat i))"

lemma digit_char_props:
  assumes "d < 10"
  shows "is_digit (digit_char d)" "digit_val (digit_char d) = d"
proof -
  have "(of_char (digit_char d) :: nat) = 48 + d"
    using assms by (simp add: digit_char_def)
  then show "is_digit (digit_char d)" "digit_val (digit_char d) = d"
    using assms by (simp_all add: is_digit_def digit_val_def)
qed

lemma dec_val_snoc: "dec_val (s @ [c]) = 10 * dec_val s + digit_val c"
  by (simp add: dec_val_def)

lemma nat_string_digits: "list_all is_digit (nat_string n) \<and> nat_string n \<noteq> [] \<and> dec_val (nat_string n) = n"
proof (induction n rule: nat_string.induct)
  case (1 n)
  show ?case
  proof (cases "n < 10")
    case True
    then show ?thesis
      by (simp add: nat_string.simps [of n] digit_char_props dec_val_def)
  next
    case False
    with "1.IH" have IH: "list_all is_digit (nat_string (n div 10))" "dec_val (nat_string (n div 10)) = n div 10"
      by auto
    then show ?thesis
      using False by (simp add: nat_string.simps [of n] digit_char_props dec_val_snoc)
  qed
qed

lemma not_digit_sign [simp]: "\<not> is_digit CHR ''-''" "\<not> is_digit CHR ''+''" "\<not> is_digit CHR '':''"
  "\<not> is_digit CHR '',''" "\<not> is_digit CHR ''.''" "\<not> is_digit CHR ''/''"
  by (simp_all add: is_digit_def)

lemma nat_string_hd: "nat_string n = c # cs \<Longrightarrow> is_digit c"
  using nat_string_digits [of n] by simp

text \<open>Printing and reading back: \<^verbatim>\<open>strconv.Atoi(fmt.Sprintf("%d", i))\<close> is \<open>i\<close> for every \<^verbatim>\<open>int\<close>.\<close>

lemma Atoi_int_string:
  assumes "- (2 ^ 63) \<le> i" and "i < 2 ^ 63"
  shows "Atoi (int_string i) = Some i"
proof (cases "i < 0")
  case True
  then show ?thesis
    using assms nat_string_digits [of "nat (- i)"] by (simp add: Atoi_def int_string_def)
next
  case False
  obtain c cs where eq: "nat_string (nat i) = c # cs"
    using nat_string_digits [of "nat i"] by (cases "nat_string (nat i)") auto
  with nat_string_hd have "is_digit c" by blast
  then have "c \<noteq> CHR ''-''" and "c \<noteq> CHR ''+''" by auto
  then show ?thesis
    using assms False nat_string_digits [of "nat i"] eq by (simp add: Atoi_def int_string_def)
qed

lemma Atoi_range: "Atoi s = Some v \<Longrightarrow> - (2 ^ 63) \<le> v \<and> v < 2 ^ 63"
  by (auto simp: Atoi_def Let_def split: if_splits)

section \<open>Hexadecimal\<close>

definition hex_digit :: "nat \<Rightarrow> char" where
  "hex_digit n = (if n < 10 then char_of (48 + n) else char_of (87 + n))"

definition hex_byte :: "8 word \<Rightarrow> string" where
  "hex_byte b = [hex_digit (unat b div 16), hex_digit (unat b mod 16)]"

definition hex_EncodeToString :: "8 word list \<Rightarrow> string" where
  "hex_EncodeToString bs = concat (map hex_byte bs)"

lemma hex_digit_inj:
  assumes "a < 16" and "b < 16" and "hex_digit a = hex_digit b"
  shows "a = b"
proof -
  have v: "(of_char (hex_digit n) :: nat) = (if n < 10 then 48 + n else 87 + n)" if "n < 16" for n
    using that by (simp add: hex_digit_def)
  from assms(3) have "(of_char (hex_digit a) :: nat) = of_char (hex_digit b)" by simp
  with v [OF assms(1)] v [OF assms(2)] assms(1,2) show ?thesis by (auto split: if_splits)
qed

lemma hex_byte_inj: "hex_byte a = hex_byte b \<longleftrightarrow> a = b"
proof
  assume eq: "hex_byte a = hex_byte b"
  have "unat a div 16 = unat b div 16"
    using eq unat_byte_less [of a] unat_byte_less [of b] by (intro hex_digit_inj) (auto simp: hex_byte_def)
  moreover have "unat a mod 16 = unat b mod 16"
    using eq by (intro hex_digit_inj) (auto simp: hex_byte_def)
  ultimately have "unat a = unat b" by (metis div_mult_mod_eq)
  then show "a = b" by (simp add: unsigned_word_eqI)
qed simp

lemma hex_EncodeToString_inj: "hex_EncodeToString a = hex_EncodeToString b \<Longrightarrow> a = b"
proof (induction a arbitrary: b)
  case Nil
  then show ?case by (cases b) (auto simp: hex_EncodeToString_def hex_byte_def)
next
  case (Cons x a)
  then obtain y b' where b: "b = y # b'"
    by (cases b) (auto simp: hex_EncodeToString_def hex_byte_def)
  from Cons.prems have "hex_byte x = hex_byte y \<and> hex_EncodeToString a = hex_EncodeToString b'"
    unfolding b hex_EncodeToString_def by (auto simp: hex_byte_def)
  with Cons.IH b show ?case by (auto simp: hex_byte_inj)
qed

lemma length_hex_EncodeToString: "length (hex_EncodeToString bs) = 2 * length bs"
  by (induction bs) (simp_all add: hex_EncodeToString_def hex_byte_def)

end
