(* ===== verification/Domain.thy ===== *)
theory Domain
  imports Errors GoLib
begin

text \<open>
  The domain model \<^verbatim>\<open>internal/core/domain\<close>: one record per struct, with the struct's fields in its
  order behind a short prefix, one datatype per status type, and the limits. Go's \<^verbatim>\<open>int\<close> is \<open>int\<close>,
  a pointer that may be nil is an \<open>option\<close>, \<^verbatim>\<open>time.Time\<close> is the instant in nanoseconds, a
  \<^verbatim>\<open>uuid.UUID\<close> is its 128 bits, \<^verbatim>\<open>float64\<close> values are idealised to exact rationals.
\<close>

type_synonym uuid = "128 word"
type_synonym time = int

definition uuid_Nil :: uuid where
  "uuid_Nil = 0"

definition Second :: int where
  "Second = 10 ^ 9"

definition Minute :: int where
  "Minute = 60 * Second"

text \<open>The values of \<^verbatim>\<open>map[string]interface{}\<close> literals in event metadata and audit details.\<close>

datatype gval = GStr string | GInt int | GUuid uuid

type_synonym gmap = "(string \<times> gval) list"

section \<open>Compute\<close>

datatype InstanceStatus = StatusStarting | StatusRunning | StatusStopped | StatusError | StatusDeleted

definition MinPort :: int where
  "MinPort = 0"

definition MaxPort :: int where
  "MaxPort = 65535"

definition MaxPortsPerInstance :: nat where
  "MaxPortsPerInstance = 10"

record Instance =
  inst_ID :: uuid
  inst_UserID :: uuid
  inst_Name :: string
  inst_Image :: string
  inst_ContainerID :: string
  inst_Status :: InstanceStatus
  inst_Ports :: string
  inst_VpcID :: "uuid option"
  inst_SubnetID :: "uuid option"
  inst_PrivateIP :: string
  inst_OvsPort :: string
  inst_Version :: int
  inst_CreatedAt :: time
  inst_UpdatedAt :: time

record InstanceStats =
  CPUPercentage :: rat
  MemoryUsageBytes :: rat
  MemoryLimitBytes :: rat
  MemoryPercentage :: rat

section \<open>Block storage\<close>

datatype VolumeStatus = VolumeStatusAvailable | VolumeStatusInUse | VolumeStatusDeleting

fun VolumeStatus_string :: "VolumeStatus \<Rightarrow> string" where
  "VolumeStatus_string VolumeStatusAvailable = ''AVAILABLE''"
| "VolumeStatus_string VolumeStatusInUse = ''IN-USE''"
| "VolumeStatus_string VolumeStatusDeleting = ''DELETING''"

record Volume =
  vol_ID :: uuid
  vol_UserID :: uuid
  vol_Name :: string
  vol_SizeGB :: int
  vol_Status :: VolumeStatus
  vol_InstanceID :: "uuid option"
  vol_MountPath :: string
  vol_CreatedAt :: time
  vol_UpdatedAt :: time

record VolumeAttachment =
  VolumeIDOrName :: string
  MountPath :: string

section \<open>Networking\<close>

record VPC =
  vpc_ID :: uuid
  vpc_UserID :: uuid
  vpc_Name :: string
  vpc_CIDRBlock :: string
  vpc_NetworkID :: string
  vpc_VXLANID :: int
  vpc_Status :: string
  vpc_ARN :: string
  vpc_CreatedAt :: time

record Subnet =
  sub_ID :: uuid
  sub_UserID :: uuid
  sub_VPCID :: uuid
  sub_Name :: string
  sub_CIDRBlock :: string
  sub_AvailabilityZone :: string
  sub_GatewayIP :: string
  sub_ARN :: string
  sub_Status :: string
  sub_CreatedAt :: time

datatype LBStatus = LBStatusCreating | LBStatusActive | LBStatusDraining | LBStatusDeleted

record LoadBalancer =
  lb_ID :: uuid
  lb_UserID :: uuid
  lb_IdempotencyKey :: string
  lb_Name :: string
  lb_VpcID :: uuid
  lb_Port :: int
  lb_Algorithm :: string
  lb_Status :: LBStatus
  lb_Version :: int
  lb_CreatedAt :: time

record LBTarget =
  tgt_ID :: uuid
  tgt_LBID :: uuid
  tgt_InstanceID :: uuid
  tgt_Port :: int
  tgt_Weight :: int
  tgt_Health :: string

section \<open>Auto-scaling\<close>

definition MaxInstancesHardLimit :: int where
  "MaxInstancesHardLimit = 20"

definition MaxScalingGroupsPerVPC :: int where
  "MaxScalingGroupsPerVPC = 5"

definition MinCooldownSeconds :: int where
  "MinCooldownSeconds = 60"

datatype ScalingGroupStatus = ScalingGroupStatusActive | ScalingGroupStatusUpdating
  | ScalingGroupStatusDeleting | ScalingGroupStatusDeleted

record ScalingGroup =
  asg_ID :: uuid
  asg_UserID :: uuid
  asg_IdempotencyKey :: string
  asg_Name :: string
  asg_VpcID :: uuid
  asg_LoadBalancerID :: "uuid option"
  asg_Image :: string
  asg_Ports :: string
  asg_MinInstances :: int
  asg_MaxInstances :: int
  asg_DesiredCount :: int
  asg_CurrentCount :: int
  asg_Status :: ScalingGroupStatus
  asg_FailureCount :: int
  asg_LastFailureAt :: "time option"
  asg_Version :: int
  asg_CreatedAt :: time
  asg_UpdatedAt :: time

record ScalingPolicy =
  pol_ID :: uuid
  pol_ScalingGroupID :: uuid
  pol_Name :: string
  pol_MetricType :: string
  pol_TargetValue :: rat
  pol_ScaleOutStep :: int
  pol_ScaleInStep :: int
  pol_CooldownSec :: int
  pol_LastScaledAt :: "time option"

record ScalingGroupInstance =
  sgi_ScalingGroupID :: uuid
  sgi_InstanceID :: uuid
  sgi_JoinedAt :: time

section \<open>Identity and access\<close>

record User =
  usr_ID :: uuid
  usr_Email :: string
  usr_PasswordHash :: string
  usr_Name :: string
  usr_Role :: string
  usr_CreatedAt :: time
  usr_UpdatedAt :: time

record APIKey =
  key_ID :: uuid
  key_UserID :: uuid
  key_Key :: string
  key_Name :: string
  key_CreatedAt :: time
  key_LastUsed :: time

record PasswordResetToken =
  prt_ID :: uuid
  prt_UserID :: uuid
  prt_TokenHash :: string
  prt_ExpiresAt :: time
  prt_Used :: bool
  prt_CreatedAt :: time

type_synonym Permission = string

definition PermissionInstanceRead :: Permission where
  "PermissionInstanceRead = ''instance:read''"

definition PermissionVolumeRead :: Permission where
  "PermissionVolumeRead = ''volume:read''"

definition PermissionVpcRead :: Permission where
  "PermissionVpcRead = ''vpc:read''"

definition PermissionFullAccess :: Permission where
  "PermissionFullAccess = ''*''"

record Role =
  role_ID :: uuid
  role_Name :: string
  role_Description :: string
  role_Permissions :: "Permission list"

definition RoleAdmin :: string where
  "RoleAdmin = ''admin''"

definition RoleDeveloper :: string where
  "RoleDeveloper = ''developer''"

definition RoleViewer :: string where
  "RoleViewer = ''viewer''"

section \<open>Queues\<close>

datatype QueueStatus = QueueStatusActive | QueueStatusDeleting

record Queue =
  q_ID :: uuid
  q_UserID :: uuid
  q_Name :: string
  q_ARN :: string
  q_VisibilityTimeout :: int
  q_RetentionDays :: int
  q_MaxMessageSize :: int
  q_Status :: QueueStatus
  q_CreatedAt :: time
  q_UpdatedAt :: time

record Message =
  msg_ID :: uuid
  msg_QueueID :: uuid
  msg_Body :: string
  msg_ReceiptHandle :: string
  msg_VisibleAt :: time
  msg_ReceivedCount :: int
  msg_CreatedAt :: time

section \<open>Firewalls\<close>

definition RuleIngress :: string where
  "RuleIngress = ''ingress''"

definition RuleEgress :: string where
  "RuleEgress = ''egress''"

record SecurityRule =
  rule_ID :: uuid
  rule_GroupID :: uuid
  rule_Direction :: string
  rule_Protocol :: string
  rule_PortMin :: int
  rule_PortMax :: int
  rule_CIDR :: string
  rule_Priority :: int
  rule_CreatedAt :: time

record SecurityGroup =
  sg_ID :: uuid
  sg_UserID :: uuid
  sg_VPCID :: uuid
  sg_Name :: string
  sg_Description :: string
  sg_ARN :: string
  sg_Rules :: "SecurityRule list"
  sg_CreatedAt :: time

section \<open>Snapshots, secrets and objects\<close>

datatype SnapshotStatus = SnapshotStatusCreating | SnapshotStatusAvailable | SnapshotStatusDeleting | SnapshotStatusError

record Snapshot =
  snap_ID :: uuid
  snap_UserID :: uuid
  snap_VolumeID :: uuid
  snap_VolumeName :: string
  snap_SizeGB :: int
  snap_Status :: SnapshotStatus
  snap_Description :: string
  snap_CreatedAt :: time

record Secret =
  sec_ID :: uuid
  sec_UserID :: uuid
  sec_Name :: string
  sec_EncryptedValue :: string
  sec_Description :: string
  sec_CreatedAt :: time
  sec_UpdatedAt :: time
  sec_LastAccessedAt :: "time option"

record Object =
  obj_ID :: uuid
  obj_UserID :: uuid
  obj_ARN :: string
  obj_Bucket :: string
  obj_Key :: string
  obj_SizeBytes :: int
  obj_ContentType :: string
  obj_CreatedAt :: time
  obj_DeletedAt :: "time option"

section \<open>Scheduled jobs, routes and deployments\<close>

datatype CronStatus = CronStatusActive | CronStatusPaused | CronStatusDeleted

record CronJob =
  cj_ID :: uuid
  cj_UserID :: uuid
  cj_Name :: string
  cj_Schedule :: string
  cj_TargetURL :: string
  cj_TargetMethod :: string
  cj_TargetPayload :: string
  cj_Status :: CronStatus
  cj_LastRunAt :: "time option"
  cj_NextRunAt :: "time option"
  cj_CreatedAt :: time
  cj_UpdatedAt :: time

record CronJobRun =
  cjr_ID :: uuid
  cjr_JobID :: uuid
  cjr_Status :: string
  cjr_StatusCode :: int
  cjr_Response :: string
  cjr_DurationMs :: int
  cjr_StartedAt :: time

record GatewayRoute =
  gw_ID :: uuid
  gw_UserID :: uuid
  gw_Name :: string
  gw_PathPrefix :: string
  gw_TargetURL :: string
  gw_StripPrefix :: bool
  gw_RateLimit :: int
  gw_CreatedAt :: time
  gw_UpdatedAt :: time

datatype DeploymentStatus = DeploymentStatusScaling | DeploymentStatusReady | DeploymentStatusDegraded | DeploymentStatusDeleting

record Deployment =
  dep_ID :: uuid
  dep_UserID :: uuid
  dep_Name :: string
  dep_Image :: string
  dep_Replicas :: int
  dep_CurrentCount :: int
  dep_Ports :: string
  dep_Status :: DeploymentStatus
  dep_CreatedAt :: time
  dep_UpdatedAt :: time

record DeploymentContainer =
  dc_DeploymentID :: uuid
  dc_InstanceID :: uuid

section \<open>Managed databases, caches and functions\<close>

definition EnginePostgres :: string where
  "EnginePostgres = ''postgres''"

definition EngineMySQL :: string where
  "EngineMySQL = ''mysql''"

datatype DatabaseStatus = DatabaseStatusCreating | DatabaseStatusRunning | DatabaseStatusStopped | DatabaseStatusDeleting | DatabaseStatusFailed

record Database =
  db_ID :: uuid
  db_UserID :: uuid
  db_Name :: string
  db_Engine :: string
  db_Version :: string
  db_Status :: DatabaseStatus
  db_VpcID :: "uuid option"
  db_ContainerID :: string
  db_Port :: int
  db_Username :: string
  db_Password :: string
  db_CreatedAt :: time
  db_UpdatedAt :: time

definition EngineRedis :: string where
  "EngineRedis = ''redis''"

datatype CacheStatus = CacheStatusCreating | CacheStatusRunning | CacheStatusStopped | CacheStatusDeleting | CacheStatusFailed

record Cache =
  ca_ID :: uuid
  ca_UserID :: uuid
  ca_Name :: string
  ca_Engine :: string
  ca_Version :: string
  ca_Status :: CacheStatus
  ca_VpcID :: "uuid option"
  ca_ContainerID :: string
  ca_Port :: int
  ca_Password :: string
  ca_MemoryMB :: int
  ca_CreatedAt :: time
  ca_UpdatedAt :: time

record Function =
  fn_ID :: uuid
  fn_UserID :: uuid
  fn_Name :: string
  fn_Runtime :: string
  fn_Handler :: string
  fn_CodePath :: string
  fn_Timeout :: int
  fn_MemoryMB :: int
  fn_Status :: string
  fn_CreatedAt :: time
  fn_UpdatedAt :: time

record Invocation =
  inv_ID :: uuid
  inv_FunctionID :: uuid
  inv_Status :: string
  inv_StartedAt :: time
  inv_EndedAt :: "time option"
  inv_DurationMs :: int
  inv_StatusCode :: int
  inv_Logs :: string

section \<open>Notifications\<close>

record Topic =
  tp_ID :: uuid
  tp_UserID :: uuid
  tp_Name :: string
  tp_ARN :: string
  tp_CreatedAt :: time
  tp_UpdatedAt :: time

definition ProtocolQueue :: string where
  "ProtocolQueue = ''queue''"

definition ProtocolWebhook :: string where
  "ProtocolWebhook = ''webhook''"

record Subscription =
  sb_ID :: uuid
  sb_UserID :: uuid
  sb_TopicID :: uuid
  sb_Protocol :: string
  sb_Endpoint :: string
  sb_CreatedAt :: time
  sb_UpdatedAt :: time

record NotifyMessage =
  nm_ID :: uuid
  nm_TopicID :: uuid
  nm_Body :: string
  nm_CreatedAt :: time

section \<open>Stacks\<close>

datatype StackStatus = StackStatusCreateInProgress | StackStatusCreateComplete | StackStatusCreateFailed
  | StackStatusDeleteInProgress | StackStatusDeleteComplete | StackStatusDeleteFailed
  | StackStatusRollbackInProgress | StackStatusRollbackComplete | StackStatusRollbackFailed

record StackResource =
  sr_ID :: uuid
  sr_StackID :: uuid
  sr_LogicalID :: string
  sr_PhysicalID :: string
  sr_ResourceType :: string
  sr_Status :: string
  sr_CreatedAt :: time

text \<open>The reason is an option: the column is NULL until the first update.\<close>

record Stack =
  stk_ID :: uuid
  stk_UserID :: uuid
  stk_Name :: string
  stk_Template :: string
  stk_Parameters :: string
  stk_Status :: StackStatus
  stk_StatusReason :: "string option"
  stk_Resources :: "StackResource list"
  stk_CreatedAt :: time
  stk_UpdatedAt :: time

text \<open>The values of \<^verbatim>\<open>map[string]interface{}\<close> that the YAML decoder and \<^verbatim>\<open>resolveRefs\<close> produce, as far as the
  service distinguishes them.\<close>

datatype yval = YStr string | YInt int | YUuid uuid | YMap "(string \<times> yval) list" | YOther

record ResourceDefinition =
  res_Type :: string
  res_Properties :: "(string \<times> yval) list"

section \<open>Observability\<close>

record Event =
  ev_ID :: uuid
  ev_UserID :: uuid
  ev_Action :: string
  ev_ResourceID :: string
  ev_ResourceType :: string
  ev_Metadata :: gmap
  ev_CreatedAt :: time

record AuditLog =
  al_ID :: uuid
  al_UserID :: uuid
  al_Action :: string
  al_ResourceType :: string
  al_ResourceID :: string
  al_Details :: gmap
  al_IPAddress :: string
  al_UserAgent :: string
  al_CreatedAt :: time

end
