(* ===== verification/Ports.thy ===== *)
theory Ports
  imports Domain
begin

text \<open>
  Port mappings: \<^verbatim>\<open>parseAndValidatePorts\<close> and \<^verbatim>\<open>parsePort\<close> of the instance service, the rewriting
  \<^verbatim>\<open>toDynamicPorts\<close> of the auto-scaling worker and the splitting routines of the load-balancer worker.
\<close>

section \<open>Validation\<close>

definition parsePort :: "string \<Rightarrow> error + int" where
  "parsePort s =
     (let s = TrimSpace s in
      if s = [] then Inl (Errorf ''empty port'' None)
      else (case Atoi s of None \<Rightarrow> Inl (Errorf ''strconv.Atoi: invalid syntax or value out of range'' None)
            | Some port \<Rightarrow> Inr port))"

definition range_text :: string where
  "range_text = '' out of range ('' @ int_string MinPort @ ''-'' @ int_string MaxPort @ '')''"

text \<open>The body of the loop over the comma-separated mappings.\<close>

definition checkMapping :: "string \<Rightarrow> error + unit" where
  "checkMapping p =
     (case Split CHR '':'' p of
        [h, c] \<Rightarrow>
          (case parsePort h of
             Inl _ \<Rightarrow> Inl (New InvalidPortFormat (''invalid host port: '' @ h))
           | Inr hostPort \<Rightarrow>
          (case parsePort c of
             Inl _ \<Rightarrow> Inl (New InvalidPortFormat (''invalid container port: '' @ c))
           | Inr containerPort \<Rightarrow>
             if hostPort < MinPort \<or> hostPort > MaxPort
             then Inl (New InvalidPortFormat (''host port '' @ int_string hostPort @ range_text))
             else if containerPort < MinPort \<or> containerPort > MaxPort
             then Inl (New InvalidPortFormat (''container port '' @ int_string containerPort @ range_text))
             else Inr ()))
      | _ \<Rightarrow> Inl (New InvalidPortFormat ''port format must be host:container''))"

fun checkMappings :: "string list \<Rightarrow> error + unit" where
  "checkMappings [] = Inr ()"
| "checkMappings (p # ps) = (case checkMapping p of Inl e \<Rightarrow> Inl e | Inr _ \<Rightarrow> checkMappings ps)"

definition parseAndValidatePorts :: "string \<Rightarrow> error + string list" where
  "parseAndValidatePorts ports =
     (if ports = [] then Inr []
      else let portList = Split CHR '','' ports in
        if length portList > MaxPortsPerInstance
        then Inl (New TooManyPorts (''max '' @ nat_string MaxPortsPerInstance @ '' ports allowed''))
        else (case checkMappings portList of Inl e \<Rightarrow> Inl e | Inr _ \<Rightarrow> Inr portList))"

section \<open>Rewriting to dynamic host ports\<close>

definition dynamicMapping :: "string \<Rightarrow> string" where
  "dynamicMapping p = (case Split CHR '':'' p of [h, c] \<Rightarrow> ''0:'' @ c | _ \<Rightarrow> p)"

definition toDynamicPorts :: "string \<Rightarrow> string" where
  "toDynamicPorts ports =
     (if ports = [] then [] else Join '','' (map dynamicMapping (Split CHR '','' ports)))"

section \<open>The load-balancer worker's own splitting\<close>

text \<open>\<^verbatim>\<open>splitCommas\<close> and \<^verbatim>\<open>splitColons\<close> are one loop over the characters with a current piece.\<close>

fun split_loop :: "char \<Rightarrow> string list \<Rightarrow> string \<Rightarrow> string \<Rightarrow> string list" where
  "split_loop c res current [] = (if current \<noteq> [] then res @ [current] else res)"
| "split_loop c res current (r # rs) =
     (if r = c then split_loop c (res @ [current]) [] rs
      else split_loop c res (current @ [r]) rs)"

definition splitCommas :: "string \<Rightarrow> string list" where
  "splitCommas s = split_loop CHR '','' [] [] s"

definition splitColons :: "string \<Rightarrow> string list" where
  "splitColons s = split_loop CHR '':'' [] [] s"

section \<open>Specification and facts\<close>

text \<open>A mapping is acceptable when it is \<open>host:container\<close> with both sides a port number in range.\<close>

definition port_value :: "string \<Rightarrow> int option" where
  "port_value s = (case parsePort s of Inl _ \<Rightarrow> None | Inr v \<Rightarrow> Some v)"

definition valid_port :: "string \<Rightarrow> bool" where
  "valid_port s \<longleftrightarrow> (case port_value s of None \<Rightarrow> False | Some v \<Rightarrow> 0 \<le> v \<and> v \<le> 65535)"

definition valid_mapping :: "string \<Rightarrow> bool" where
  "valid_mapping p \<longleftrightarrow>
     (case Split CHR '':'' p of [h, c] \<Rightarrow> valid_port h \<and> valid_port c | _ \<Rightarrow> False)"

lemma checkMapping_ok: "checkMapping p = Inr () \<longleftrightarrow> valid_mapping p"
  by (auto simp: checkMapping_def valid_mapping_def valid_port_def port_value_def MinPort_def MaxPort_def
      split: list.splits sum.splits)

lemma checkMapping_err: "checkMapping p = Inl e \<Longrightarrow> Is e InvalidPortFormat"
  by (auto simp: checkMapping_def split: list.splits sum.splits if_splits)

lemma checkMappings_ok: "checkMappings ps = Inr () \<longleftrightarrow> (\<forall>p \<in> set ps. valid_mapping p)"
proof (induction ps)
  case Nil
  show ?case by simp
next
  case (Cons p ps)
  then show ?case
    using checkMapping_ok [of p] by (auto split: sum.splits)
qed

lemma checkMappings_err: "checkMappings ps = Inl e \<Longrightarrow> Is e InvalidPortFormat"
  by (induction ps) (auto split: sum.splits dest: checkMapping_err)

lemma parseAndValidatePorts_ok:
  "parseAndValidatePorts s = Inr l \<longleftrightarrow>
     (if s = [] then l = []
      else l = Split CHR '','' s \<and> length l \<le> 10 \<and> (\<forall>p \<in> set l. valid_mapping p))"
  using checkMappings_ok [of "Split CHR '','' s"]
  by (auto simp: parseAndValidatePorts_def MaxPortsPerInstance_def Let_def split: sum.splits if_splits)

lemma valid_port_0: "valid_port ''0''"
proof -
  have "TrimSpace ''0'' = ''0''"
    by (simp add: TrimSpace_def trim_left.simps trim_right_rev.simps utf8_spaces_def prefix_def)
  moreover have "Atoi ''0'' = Some 0"
    by (simp add: Atoi_def is_digit_def dec_val_def digit_val_def)
  ultimately show ?thesis
    by (simp add: valid_port_def port_value_def parsePort_def)
qed

lemma valid_mapping_iff:
  "valid_mapping p \<longleftrightarrow> (\<exists>h c. Split CHR '':'' p = [h, c] \<and> valid_port h \<and> valid_port c)"
  by (auto simp: valid_mapping_def split: list.splits)

lemma dynamicMapping_pair: "Split CHR '':'' p = [h, c] \<Longrightarrow> Split CHR '':'' (dynamicMapping p) = [''0'', c]"
  using Split_no_sep [of c "CHR '':''" p]
  by (simp add: dynamicMapping_def Split_no_occ)

lemma valid_mapping_dynamic: "valid_mapping p \<Longrightarrow> valid_mapping (dynamicMapping p)"
  using valid_port_0 by (auto simp: valid_mapping_iff dynamicMapping_pair)

lemma no_comma_dynamic: "CHR '','' \<notin> set p \<Longrightarrow> CHR '','' \<notin> set (dynamicMapping p)"
  by (auto simp: dynamicMapping_def Split_pair_iff split: list.splits)

lemma Split_toDynamicPorts:
  "s \<noteq> [] \<Longrightarrow> Split CHR '','' (toDynamicPorts s) = map dynamicMapping (Split CHR '','' s)"
  unfolding toDynamicPorts_def
  using no_comma_dynamic Split_no_sep [of _ "CHR '',''" s] by (auto intro!: Split_Join)

lemma toDynamicPorts_Nil_iff: "(\<forall>p \<in> set (Split CHR '','' s). valid_mapping p) \<Longrightarrow> toDynamicPorts s = [] \<longleftrightarrow> s = []"
proof
  assume v: "\<forall>p \<in> set (Split CHR '','' s). valid_mapping p" and e: "toDynamicPorts s = []"
  show "s = []"
  proof (rule ccontr)
    assume "s \<noteq> []"
    then have eq: "map dynamicMapping (Split CHR '','' s) = [[]]"
      using Split_toDynamicPorts [of s] e by simp
    then obtain p where "Split CHR '','' s = [p]" and "dynamicMapping p = []"
      by (cases "Split CHR '','' s") auto
    with v have "valid_mapping p" by simp
    with valid_mapping_dynamic [OF this] \<open>dynamicMapping p = []\<close> show False
      by (simp add: valid_mapping_def)
  qed
qed (simp add: toDynamicPorts_def)

text \<open>Rewriting valid port mappings to dynamic host ports gives valid ones.\<close>

lemma dynamic_ports_valid:
  assumes "parseAndValidatePorts s = Inr l"
  shows "parseAndValidatePorts (toDynamicPorts s) = Inr (map dynamicMapping l)"
proof (cases "s = []")
  case True
  with assms show ?thesis by (simp add: toDynamicPorts_def parseAndValidatePorts_def)
next
  case False
  with assms have l: "l = Split CHR '','' s" "length l \<le> 10" "\<forall>p \<in> set l. valid_mapping p" by (auto simp: parseAndValidatePorts_ok)
  with False show ?thesis
    using Split_toDynamicPorts [of s] toDynamicPorts_Nil_iff [of s] by (auto simp: parseAndValidatePorts_ok intro: valid_mapping_dynamic)
qed

text \<open>The loop of the load-balancer worker is \<^verbatim>\<open>strings.Split\<close> without a trailing empty piece.\<close>

lemma split_loop_Split:
  "split_loop c res current s =
     (let ps = Split c s; ps' = (current @ hd ps) # tl ps in
      res @ (if last ps' = [] then butlast ps' else ps'))"
proof (induction c res current s rule: split_loop.induct)
  case (1 c res current)
  show ?case by simp
next
  case (2 c res current r rs)
  show ?case
  proof (cases "r = c")
    case True
    then show ?thesis
      using 2 Split_neq_Nil [of c rs] by (cases "Split c rs") (auto simp: Let_def)
  next
    case False
    then show ?thesis
      using 2 Split_neq_Nil [of c rs] by (cases "Split c rs") (auto simp: Let_def)
  qed
qed

lemma splitCommas_Split:
  "splitCommas s = (if last (Split CHR '','' s) = [] then butlast (Split CHR '','' s) else Split CHR '','' s)"
  using Split_neq_Nil [of "CHR '',''" s]
  by (cases "Split CHR '','' s") (auto simp: splitCommas_def split_loop_Split)

lemma splitColons_Split:
  "splitColons s = (if last (Split CHR '':'' s) = [] then butlast (Split CHR '':'' s) else Split CHR '':'' s)"
  using Split_neq_Nil [of "CHR '':''" s]
  by (cases "Split CHR '':'' s") (auto simp: splitColons_def split_loop_Split)

end
