(* ===== verification/Ipam.thy ===== *)
theory Ipam
  imports Domain
begin

text \<open>
  Addresses: the part of Go's package \<^verbatim>\<open>net\<close> the services use (\<^verbatim>\<open>ParseCIDR\<close>, \<^verbatim>\<open>IPNet.Contains\<close>, \<^verbatim>\<open>IP.String\<close>)
  and the two address computations of the program, \<^verbatim>\<open>findAvailableIP\<close> of the instance service and
  \<^verbatim>\<open>calculateGatewayIP\<close> of the subnet service. A \<^verbatim>\<open>net.IP\<close> is its byte slice, 4 or 16 bytes long.
\<close>

unbundle bit_operations_syntax

type_synonym byte = "8 word"
type_synonym IP = "byte list"

record IPNet =
  net_IP :: IP
  net_Mask :: "byte list"

section \<open>The package net\<close>

definition v4InV6Prefix :: "byte list" where
  "v4InV6Prefix = replicate 10 0 @ [0xff, 0xff]"

definition To4 :: "IP \<Rightarrow> IP option" where
  "To4 ip = (if length ip = 4 then Some ip
     else if length ip = 16 \<and> take 12 ip = v4InV6Prefix then Some (drop 12 ip) else None)"

subsection \<open>Parsing\<close>

text \<open>One decimal field of a dotted address: digits only, no leading zero, at most 255.\<close>

definition ipv4_field :: "string \<Rightarrow> byte option" where
  "ipv4_field f =
     (if f = [] \<or> \<not> list_all is_digit f \<or> (length f > 1 \<and> hd f = CHR ''0'') \<or> dec_val f > 255 then None
      else Some (word_of_nat (dec_val f)))"

definition parseIPv4Fields :: "string \<Rightarrow> IP option" where
  "parseIPv4Fields s =
     (case map ipv4_field (Split CHR ''.'' s) of
        [Some a, Some b, Some c, Some d] \<Rightarrow> Some [a, b, c, d]
      | _ \<Rightarrow> None)"

definition hex_val :: "char \<Rightarrow> nat option" where
  "hex_val c = (let n = (of_char c :: nat) in
     if 48 \<le> n \<and> n \<le> 57 then Some (n - 48)
     else if 97 \<le> n \<and> n \<le> 102 then Some (n - 87)
     else if 65 \<le> n \<and> n \<le> 70 then Some (n - 55) else None)"

definition is_hex :: "char \<Rightarrow> bool" where
  "is_hex c \<longleftrightarrow> hex_val c \<noteq> None"

definition hex_number :: "string \<Rightarrow> nat" where
  "hex_number s = foldl (\<lambda>a c. 16 * a + the (hex_val c)) 0 s"

text \<open>
  The group loop of \<^verbatim>\<open>netip.parseIPv6\<close>: \<open>acc\<close> the bytes written so far, \<open>ell\<close> the position of the
  ellipsis; the first argument counts the groups that still fit, so that the loop guard \<open>i < 16\<close> is its
  being positive.
\<close>

fun ipv6_groups :: "nat \<Rightarrow> string \<Rightarrow> byte list \<Rightarrow> nat option \<Rightarrow> (byte list \<times> nat option \<times> string) option" where
  "ipv6_groups 0 s acc ell = Some (acc, ell, s)"
| "ipv6_groups (Suc n) s acc ell =
     (let h = takeWhile is_hex s; rest = dropWhile is_hex s in
      if h = [] \<or> length h > 4 then None
      else if rest \<noteq> [] \<and> hd rest = CHR ''.'' then
        (if (ell = None \<and> length acc \<noteq> 12) \<or> length acc + 4 > 16 then None
         else (case parseIPv4Fields s of None \<Rightarrow> None | Some b4 \<Rightarrow> Some (acc @ b4, ell, [])))
      else let v = hex_number h; acc' = acc @ [word_of_nat (v div 256), word_of_nat (v mod 256)] in
        (case rest of
           [] \<Rightarrow> Some (acc', ell, [])
         | c # t \<Rightarrow>
             if c \<noteq> CHR '':'' then None
             else (case t of
                [] \<Rightarrow> None
              | c' # t' \<Rightarrow>
                  if c' = CHR '':'' then
                    (if ell \<noteq> None then None
                     else if t' = [] then Some (acc', Some (length acc'), [])
                     else ipv6_groups n t' acc' (Some (length acc')))
                  else ipv6_groups n t acc' ell)))"

definition ipv6_finish :: "(byte list \<times> nat option \<times> string) option \<Rightarrow> IP option" where
  "ipv6_finish r =
     (case r of None \<Rightarrow> None
      | Some (acc, ell, s) \<Rightarrow>
          if s \<noteq> [] then None
          else if length acc < 16 then
            (case ell of None \<Rightarrow> None
             | Some e \<Rightarrow> Some (take e acc @ replicate (16 - length acc) 0 @ drop e acc))
          else if ell \<noteq> None then None else Some acc)"

text \<open>\<^verbatim>\<open>ParseCIDR\<close> refuses an address with a zone, so a percent sign is an error here.\<close>

definition parseIPv6 :: "string \<Rightarrow> IP option" where
  "parseIPv6 s =
     (if CHR ''%'' \<in> set s then None
      else if take 2 s = ''::'' then
        (if drop 2 s = [] then Some (replicate 16 0)
         else ipv6_finish (ipv6_groups 8 (drop 2 s) [] (Some 0)))
      else ipv6_finish (ipv6_groups 8 s [] None))"

text \<open>\<^verbatim>\<open>netip.ParseAddr\<close>: the first dot, colon or percent sign decides. The result is the address and its
  bit length.\<close>

definition ParseAddr :: "string \<Rightarrow> (IP \<times> nat) option" where
  "ParseAddr s =
     (case find (\<lambda>c. c = CHR ''.'' \<or> c = CHR '':'' \<or> c = CHR ''%'') s of
        None \<Rightarrow> None
      | Some c \<Rightarrow>
          if c = CHR ''.'' then map_option (\<lambda>ip. (ip, 32)) (parseIPv4Fields s)
          else if c = CHR '':'' then map_option (\<lambda>ip. (ip, 128)) (parseIPv6 s)
          else None)"

text \<open>\<^verbatim>\<open>CIDRMask(n, 8 * k)\<close>.\<close>

fun CIDRMask :: "nat \<Rightarrow> nat \<Rightarrow> byte list" where
  "CIDRMask n 0 = []"
| "CIDRMask n (Suc k) = (if n \<ge> 8 then 0xff # CIDRMask (n - 8) k else NOT (drop_bit n 0xff) # CIDRMask 0 k)"

definition IP_Mask :: "IP \<Rightarrow> byte list \<Rightarrow> IP" where
  "IP_Mask ip m = map2 (AND) ip m"

text \<open>The digits after the slash (\<^verbatim>\<open>dtoi\<close>): digits to the end, below \<open>0xFFFFFF\<close>.\<close>

definition dtoi_all :: "string \<Rightarrow> nat option" where
  "dtoi_all s = (if s = [] \<or> \<not> list_all is_digit s \<or> dec_val s \<ge> 0xFFFFFF then None else Some (dec_val s))"

definition As16 :: "IP \<Rightarrow> IP" where
  "As16 ip = (if length ip = 4 then v4InV6Prefix @ ip else ip)"

text \<open>\<^verbatim>\<open>ParseCIDR\<close> returns the address as written, in 16-byte form, and the network: the address masked, 4 bytes
  long for a dotted address.\<close>

definition ParseCIDR :: "string \<Rightarrow> (IP \<times> IPNet) option" where
  "ParseCIDR s =
     (let addr = takeWhile (\<lambda>c. c \<noteq> CHR ''/'') s; rest = dropWhile (\<lambda>c. c \<noteq> CHR ''/'') s in
      case rest of [] \<Rightarrow> None
      | _ # m \<Rightarrow>
          (case ParseAddr addr of None \<Rightarrow> None
           | Some (ip, bits) \<Rightarrow>
               (case dtoi_all m of None \<Rightarrow> None
                | Some n \<Rightarrow>
                    if n > bits then None
                    else let mk = CIDRMask n (bits div 8) in
                      Some (As16 ip, \<lparr>net_IP = IP_Mask ip mk, net_Mask = mk\<rparr>))))"

subsection \<open>Membership and printing\<close>

definition networkNumberAndMask :: "IPNet \<Rightarrow> (IP \<times> byte list) option" where
  "networkNumberAndMask n =
     (case To4 (net_IP n) of
        Some ip \<Rightarrow> (if length (net_Mask n) = 4 then Some (ip, net_Mask n)
                    else if length (net_Mask n) = 16 then Some (ip, drop 12 (net_Mask n)) else None)
      | None \<Rightarrow> (if length (net_IP n) = 16 \<and> length (net_Mask n) = 16 then Some (net_IP n, net_Mask n) else None))"

definition Contains :: "IPNet \<Rightarrow> IP \<Rightarrow> bool" where
  "Contains n ip =
     (case networkNumberAndMask n of
        None \<Rightarrow> (case To4 ip of Some x \<Rightarrow> x | None \<Rightarrow> ip) = []
      | Some (nn, m) \<Rightarrow>
          let ip = (case To4 ip of Some x \<Rightarrow> x | None \<Rightarrow> ip) in
          length ip = length nn \<and> map2 (AND) nn m = map2 (AND) ip m)"

definition dotted :: "IP \<Rightarrow> string" where
  "dotted ip = Join ''.'' (map (\<lambda>b. nat_string (unat b)) ip)"

fun pairs16 :: "byte list \<Rightarrow> nat list" where
  "pairs16 (a # b # r) = (256 * unat a + unat b) # pairs16 r"
| "pairs16 _ = []"

definition zero_run :: "nat list \<Rightarrow> nat \<Rightarrow> nat" where
  "zero_run gs i = length (takeWhile (\<lambda>g. g = 0) (drop i gs))"

text \<open>The first longest run of at least two zero groups: its start and its length.\<close>

definition longest_zero_run :: "nat list \<Rightarrow> (nat \<times> nat) option" where
  "longest_zero_run gs =
     foldl (\<lambda>best i. let l = zero_run gs i in
        if l \<ge> 2 \<and> (case best of None \<Rightarrow> True | Some (_, bl) \<Rightarrow> l > bl) then Some (i, l) else best)
       None [0 ..< 8]"

fun hex_string :: "nat \<Rightarrow> string" where
  "hex_string n = (if n < 16 then [hex_digit n] else hex_string (n div 16) @ [hex_digit (n mod 16)])"

declare hex_string.simps [simp del]

definition ipv6_string :: "IP \<Rightarrow> string" where
  "ipv6_string ip =
     (let gs = pairs16 ip; hex = map hex_string in
      case longest_zero_run gs of
        None \<Rightarrow> Join '':'' (hex gs)
      | Some (i, l) \<Rightarrow> Join '':'' (hex (take i gs)) @ ''::'' @ Join '':'' (hex (drop (i + l) gs)))"

definition IP_String :: "IP \<Rightarrow> string" where
  "IP_String ip =
     (if ip = [] then ''<nil>''
      else if length ip \<noteq> 4 \<and> length ip \<noteq> 16 then ''?'' @ hex_EncodeToString ip
      else (case To4 ip of Some p4 \<Rightarrow> dotted p4 | None \<Rightarrow> ipv6_string ip))"

section \<open>The program's address computations\<close>

text \<open>
  The loop \<^verbatim>\<open>for i := len(ip) - 1; i >= 0; i-- { ip[i]++; if ip[i] > 0 { break } }\<close>, on the bytes in
  reverse order.
\<close>

fun inc_rev :: "byte list \<Rightarrow> byte list" where
  "inc_rev [] = []"
| "inc_rev (b # bs) = (if b + 1 > 0 then (b + 1) # bs else (b + 1) # inc_rev bs)"

definition increment :: "IP \<Rightarrow> IP" where
  "increment ip = rev (inc_rev (rev ip))"

definition calculateGatewayIP :: "IP \<Rightarrow> IPNet \<Rightarrow> string" where
  "calculateGatewayIP ip n = IP_String (increment ip)"

definition isValidHostIP :: "IP \<Rightarrow> IPNet \<Rightarrow> bool" where
  "isValidHostIP ip n = Contains n ip"

text \<open>
  The search loop. The map \<^verbatim>\<open>usedIPs\<close> is given by its keys. The loop has no bound of its own, so the
  result is an option: \<open>None\<close> is a loop that does not return.
\<close>

partial_function (option) findAvailable_loop :: "IPNet \<Rightarrow> string list \<Rightarrow> IP \<Rightarrow> (error + string) option" where
  "findAvailable_loop ipNet usedIPs ip =
     (let ip = increment ip in
      if \<not> Contains ipNet ip then Some (Inl (Errorf ''no available IPs in subnet'' None))
      else if IP_String ip \<notin> set usedIPs \<and> isValidHostIP ip ipNet then Some (Inr (IP_String ip))
      else findAvailable_loop ipNet usedIPs ip)"

definition findAvailableIP :: "IPNet \<Rightarrow> string list \<Rightarrow> (error + string) option" where
  "findAvailableIP ipNet usedIPs = findAvailable_loop ipNet usedIPs (net_IP ipNet)"

declare findAvailable_loop.simps [code]

section \<open>Addresses as numbers\<close>

text \<open>The value of a byte string in network order; \<^const>\<open>increment\<close> adds one to it, modulo its width.\<close>

fun bev :: "byte list \<Rightarrow> nat" where
  "bev [] = 0"
| "bev (b # bs) = unat b * 256 ^ length bs + bev bs"

lemma bev_less: "bev bs < 256 ^ length bs"
proof (induction bs)
  case Nil
  show ?case by simp
next
  case (Cons b bs)
  have "unat b * 256 ^ length bs + bev bs < (unat b + 1) * 256 ^ length bs"
    using Cons.IH by simp
  also have "\<dots> \<le> 256 * 256 ^ length bs"
    using unat_byte_less [of b] by (intro mult_right_mono) auto
  finally show ?case by simp
qed

lemma bev_snoc: "bev (bs @ [b]) = 256 * bev bs + unat b"
  by (induction bs) (simp_all add: algebra_simps)

lemma bev_inj: "length xs = length ys \<Longrightarrow> bev xs = bev ys \<Longrightarrow> xs = ys"
proof (induction xs ys rule: list_induct2)
  case Nil
  show ?case by simp
next
  case (Cons x xs y ys)
  then have eq: "unat x * 256 ^ length xs + bev xs = unat y * 256 ^ length xs + bev ys" by simp
  have less: "bev xs < 256 ^ length xs" "bev ys < 256 ^ length xs"
    using bev_less [of xs] bev_less [of ys] Cons.hyps by simp_all
  have "unat x = (unat x * 256 ^ length xs + bev xs) div 256 ^ length xs" using less by simp
  also have "\<dots> = unat y" unfolding eq using less by simp
  finally have "x = y" by (simp add: unsigned_word_eqI)
  with eq Cons.IH show ?case by simp
qed

lemma unat_byte_succ_mod: "unat (b + 1 :: byte) = (unat b + 1) mod 256"
proof -
  have "unat (b + 1) = unat (word_of_nat (unat b + 1) :: byte)" by (simp add: add.commute)
  also have "\<dots> = (unat b + 1) mod 256" by (simp only: unat_of_nat) simp
  finally show ?thesis .
qed

lemma unat_byte_succ:
  "b + 1 > 0 \<Longrightarrow> unat (b + 1 :: byte) = unat b + 1"
  "\<not> b + 1 > 0 \<Longrightarrow> unat (b :: byte) = 255"
proof -
  assume "b + 1 > 0"
  then have "unat (b + 1) \<noteq> 0" by (metis unsigned_word_eqI unsigned_0 less_irrefl)
  then show "unat (b + 1) = unat b + 1"
    using unat_byte_succ_mod [of b] unat_byte_less [of b] by (auto simp: mod_if split: if_splits)
next
  assume "\<not> b + 1 > 0"
  then have "b + 1 = 0" by (simp add: word_gt_0)
  then have "unat (b + 1) = 0" by simp
  then show "unat b = 255"
    using unat_byte_succ_mod [of b] unat_byte_less [of b] by (auto simp: mod_if split: if_splits)
qed

lemma bev_increment: "bev (increment ip) = (bev ip + 1) mod 256 ^ length ip"
proof -
  have "bev (rev (inc_rev bs)) = (bev (rev bs) + 1) mod 256 ^ length bs \<and> length (inc_rev bs) = length bs" for bs
  proof (induction bs)
    case Nil
    show ?case by simp
  next
    case (Cons b bs)
    let ?n = "256 ^ length bs :: nat"
    have less: "bev (rev bs) < ?n" using bev_less [of "rev bs"] by simp
    show ?case
    proof (cases "b + 1 > 0")
      case True
      have "256 * bev (rev bs) + (unat b + 1) < 256 * ?n"
      proof -
        have "unat (b + 1) < 256" by (rule unat_byte_less)
        with less show ?thesis using unat_byte_succ(1) [OF True] by linarith
      qed
      with True show ?thesis by (simp add: bev_snoc unat_byte_succ(1))
    next
      case False
      then have b: "b + 1 = 0" by (simp add: word_gt_0)
      have "bev (rev (inc_rev (b # bs))) = 256 * ((bev (rev bs) + 1) mod ?n)"
        using False b Cons.IH by (simp add: bev_snoc)
      also have "\<dots> = (256 * bev (rev bs) + 256) mod (256 * ?n)"
        by (simp add: mult_mod_right algebra_simps)
      finally show ?thesis using False Cons.IH unat_byte_succ(2) [OF False] by (simp add: bev_snoc add.commute)
    qed
  qed
  from this [of "rev ip"] show ?thesis by (simp add: increment_def)
qed

lemma byte_ff: "(0xff :: byte) = mask 8"
  by (simp add: mask_eq_exp_minus_1)

lemma and_not_mask_eq_iff: "(a AND NOT (mask k) = b AND NOT (mask k)) \<longleftrightarrow> drop_bit k a = drop_bit k (b :: 'a::len word)"
proof
  assume eq: "a AND NOT (mask k) = b AND NOT (mask k)"
  show "drop_bit k a = drop_bit k b"
  proof (rule bit_eqI)
    fix n
    from eq have "bit (a AND NOT (mask k)) (k + n) = bit (b AND NOT (mask k)) (k + n)" by simp
    then show "bit (drop_bit k a) n = bit (drop_bit k b) n"
      by (cases "k + n < LENGTH('a)") (auto simp: bit_simps dest: bit_imp_le_length)
  qed
next
  assume eq: "drop_bit k a = drop_bit k b"
  show "a AND NOT (mask k) = b AND NOT (mask k)"
  proof (rule bit_eqI)
    fix n
    from eq have "bit (drop_bit k a) (n - k) = bit (drop_bit k b) (n - k)" by simp
    then show "bit (a AND NOT (mask k)) n = bit (b AND NOT (mask k)) n"
      by (cases "k \<le> n") (auto simp: bit_simps)
  qed
qed

lemma and_mask_byte:
  assumes "n \<le> 8"
  shows "(a AND NOT (drop_bit n 0xff) = b AND NOT (drop_bit n (0xff :: byte))) \<longleftrightarrow>
    unat a div 2 ^ (8 - n) = unat b div 2 ^ (8 - n)"
proof -
  have m: "drop_bit n (0xff :: byte) = mask (8 - n)"
    unfolding byte_ff using assms by (intro bit_eqI) (auto simp: bit_simps)
  have "drop_bit k a = drop_bit k b \<longleftrightarrow> unat a div 2 ^ k = unat b div 2 ^ k" for k
  proof -
    have "unat (drop_bit k w) = unat w div 2 ^ k" for w :: byte
      by (simp add: unat_drop_bit_eq flip: drop_bit_eq_div)
    then show ?thesis using unsigned_word_eqI [where ?'a = nat] by metis
  qed
  then show ?thesis unfolding m and_not_mask_eq_iff .
qed


lemma mult_add_eq_iff:
  fixes x y d :: nat
  assumes "c < d" and "c' < d"
  shows "x * d + c = y * d + c' \<longleftrightarrow> x = y \<and> c = c'"
proof
  assume eq: "x * d + c = y * d + c'"
  have "x = (x * d + c) div d" using assms(1) by simp
  also have "\<dots> = y" unfolding eq using assms(2) by simp
  finally show "x = y \<and> c = c'" using eq by simp
qed simp

lemma div_add_eq_iff:
  fixes x y :: nat
  assumes "a < d * e" and "b < d * e" and "e > 0"
  shows "(x * (d * e) + a) div e = (y * (d * e) + b) div e \<longleftrightarrow> x = y \<and> a div e = b div e"
proof -
  have "(z * (d * e) + c) div e = z * d + c div e" for z c
    using assms(3) by (simp add: mult.assoc [symmetric])
  moreover have "a div e < d" "b div e < d"
    using assms by (simp_all add: less_mult_imp_div_less)
  ultimately show ?thesis using mult_add_eq_iff [of "a div e" d "b div e" x y] by simp
qed

lemma div_add_small:
  fixes x a d e :: nat
  assumes "a < d" "d > 0"
  shows "(x * d + a) div (e * d) = x div e"
proof -
  have "(x * d + a) div (d * e) = ((x * d + a) div d) div e" by (rule div_mult2_eq)
  then show ?thesis using assms by (simp add: mult.commute)
qed

lemma map2_and_zeros: "length xs = length ys \<Longrightarrow>
    map2 (AND) xs (CIDRMask 0 (length xs)) = map2 (AND) ys (CIDRMask 0 (length xs))"
proof (induction xs ys rule: list_induct2)
  case (Cons x xs y ys)
  then show ?case using and_mask_byte [of 0 x y] by (simp add: unat_byte_less)
qed simp

lemma and_byte_ff: "x AND (0xff :: byte) = x"
proof -
  have "(0xff :: byte) = - 1" by simp
  then show ?thesis by (metis and.right_neutral)
qed

lemma and_CIDRMask_iff:
  "length xs = length ys \<Longrightarrow> p \<le> 8 * length xs \<Longrightarrow>
    map2 (AND) xs (CIDRMask p (length xs)) = map2 (AND) ys (CIDRMask p (length xs)) \<longleftrightarrow>
    bev xs div 2 ^ (8 * length xs - p) = bev ys div 2 ^ (8 * length xs - p)"
proof (induction xs ys arbitrary: p rule: list_induct2)
  case Nil
  show ?case by simp
next
  case (Cons x xs y ys)
  let ?n = "length xs"
  have pow: "(256 :: nat) ^ k = 2 ^ (8 * k)" for k by (simp add: power_mult)
  have less: "bev xs < 2 ^ (8 * ?n)" "bev ys < 2 ^ (8 * ?n)"
    using bev_less [of xs] bev_less [of ys] Cons.hyps by (simp_all add: pow)
  show ?case
  proof (cases "p \<ge> 8")
    case True
    let ?e = "2 ^ (8 * ?n - (p - 8)) :: nat" and ?d = "2 ^ (p - 8) :: nat"
    have de: "?d * ?e = 2 ^ (8 * ?n)"
      using True Cons.prems by (simp add: power_add [symmetric])
    have e: "8 * length (x # xs) - p = 8 * ?n - (p - 8)" using True by simp
    have "(unat x * 2 ^ (8 * ?n) + bev xs) div ?e = (unat y * 2 ^ (8 * ?n) + bev ys) div ?e
       \<longleftrightarrow> unat x = unat y \<and> bev xs div ?e = bev ys div ?e"
      unfolding de [symmetric] by (rule div_add_eq_iff) (use less de in simp_all)
    moreover have "unat x = unat y \<longleftrightarrow> x = y" by (auto intro: unsigned_word_eqI)
    ultimately show ?thesis
      unfolding e using True Cons.IH [of "p - 8"] Cons.prems Cons.hyps by (simp add: pow and_byte_ff)
  next
    case False
    then have e: "2 ^ (8 * length (x # xs) - p) = 2 ^ (8 - p) * (2 ^ (8 * ?n) :: nat)"
      by (simp add: power_add [symmetric])
    have "map2 (AND) (x # xs) (CIDRMask p (length (x # xs))) = map2 (AND) (y # ys) (CIDRMask p (length (x # xs)))
       \<longleftrightarrow> unat x div 2 ^ (8 - p) = unat y div 2 ^ (8 - p)"
      using False map2_and_zeros [OF Cons.hyps] and_mask_byte [of p x y] by simp
    moreover have "bev (x # xs) div (2 ^ (8 - p) * 2 ^ (8 * ?n)) = unat x div 2 ^ (8 - p)"
      using less by (simp add: pow div_add_small)
    moreover have "bev (y # ys) div (2 ^ (8 - p) * 2 ^ (8 * ?n)) = unat y div 2 ^ (8 - p)"
      using less Cons.hyps by (simp add: pow div_add_small)
    ultimately show ?thesis unfolding e by simp
  qed
qed


lemma length_increment [simp]: "length (increment ip) = length ip"
proof -
  have "length (inc_rev bs) = length bs" for bs by (induction bs) auto
  then show ?thesis by (simp add: increment_def)
qed

lemma length_increments [simp]: "length ((increment ^^ k) ip) = length ip"
  by (induction k) simp_all

lemma bev_increments: "bev ((increment ^^ k) ip) = (bev ip + k) mod 256 ^ length ip"
  by (induction k) (simp_all add: bev_less bev_increment mod_Suc_eq)

text \<open>The loop returns the first address after the start that is contained and unused, unless it leaves
  the network first.\<close>

lemma findAvailable_loop_found:
  assumes "k > 0" and "\<And>j. 0 < j \<Longrightarrow> j \<le> k \<Longrightarrow> Contains n ((increment ^^ j) ip)"
    and "\<And>j. 0 < j \<Longrightarrow> j < k \<Longrightarrow> IP_String ((increment ^^ j) ip) \<in> set used"
    and "IP_String ((increment ^^ k) ip) \<notin> set used"
  shows "findAvailable_loop n used ip = Some (Inr (IP_String ((increment ^^ k) ip)))"
  using assms
proof (induction k arbitrary: ip)
  case 0
  then show ?case by simp
next
  case (Suc k)
  show ?case
  proof (cases "k = 0")
    case True
    with Suc.prems(2) [of 1] Suc.prems(4) show ?thesis
      by (simp add: findAvailable_loop.simps [of n used ip] isValidHostIP_def)
  next
    case False
    have "findAvailable_loop n used (increment ip) = Some (Inr (IP_String ((increment ^^ k) (increment ip))))"
    proof (rule Suc.IH)
      show "Contains n ((increment ^^ j) (increment ip))" if "0 < j" "j \<le> k" for j
        using Suc.prems(2) [of "Suc j"] that by (simp add: funpow_swap1)
      show "IP_String ((increment ^^ j) (increment ip)) \<in> set used" if "0 < j" "j < k" for j
        using Suc.prems(3) [of "Suc j"] that by (simp add: funpow_swap1)
    qed (use False Suc.prems(4) in \<open>simp_all add: funpow_swap1\<close>)
    with Suc.prems(2) [of 1] Suc.prems(3) [of 1] False show ?thesis
      by (simp add: findAvailable_loop.simps [of n used ip] funpow_swap1)
  qed
qed

lemma findAvailable_loop_exhausted:
  assumes "k > 0" and "\<And>j. 0 < j \<Longrightarrow> j < k \<Longrightarrow> Contains n ((increment ^^ j) ip)"
    and "\<And>j. 0 < j \<Longrightarrow> j < k \<Longrightarrow> IP_String ((increment ^^ j) ip) \<in> set used"
    and "\<not> Contains n ((increment ^^ k) ip)"
  shows "findAvailable_loop n used ip = Some (Inl (Errorf ''no available IPs in subnet'' None))"
  using assms
proof (induction k arbitrary: ip)
  case 0
  then show ?case by simp
next
  case (Suc k)
  show ?case
  proof (cases "k = 0")
    case True
    with Suc.prems(4) show ?thesis by (simp add: findAvailable_loop.simps [of n used ip])
  next
    case False
    have "findAvailable_loop n used (increment ip) = Some (Inl (Errorf ''no available IPs in subnet'' None))"
    proof (rule Suc.IH)
      show "Contains n ((increment ^^ j) (increment ip))" if "0 < j" "j < k" for j
        using Suc.prems(2) [of "Suc j"] that by (simp add: funpow_swap1)
      show "IP_String ((increment ^^ j) (increment ip)) \<in> set used" if "0 < j" "j < k" for j
        using Suc.prems(3) [of "Suc j"] that by (simp add: funpow_swap1)
    qed (use False Suc.prems(4) in \<open>simp_all add: funpow_swap1\<close>)
    with Suc.prems(2) [of 1] Suc.prems(3) [of 1] False show ?thesis
      by (simp add: findAvailable_loop.simps [of n used ip])
  qed
qed

text \<open>A dotted network as \<^verbatim>\<open>ParseCIDR\<close> builds it: the address masked with a prefix of \<open>p\<close> ones.\<close>

definition ipv4_net :: "IP \<Rightarrow> nat \<Rightarrow> IPNet" where
  "ipv4_net a p = \<lparr>net_IP = IP_Mask a (CIDRMask p 4), net_Mask = CIDRMask p 4\<rparr>"

lemma length_CIDRMask [simp]: "length (CIDRMask n k) = k"
  by (induction n k rule: CIDRMask.induct) auto

lemma map2_and_idem: "length xs = length ms \<Longrightarrow> map2 (AND) (map2 (AND) xs ms) ms = map2 (AND) xs (ms :: byte list)"
  by (induction xs ms rule: list_induct2) (simp_all add: and.assoc)

lemma Contains_ipv4_net:
  assumes "length a = 4" and "length ip = 4" and "p \<le> 32"
  shows "Contains (ipv4_net a p) ip \<longleftrightarrow> bev ip div 2 ^ (32 - p) = bev a div 2 ^ (32 - p)"
proof -
  have "Contains (ipv4_net a p) ip \<longleftrightarrow> map2 (AND) a (CIDRMask p 4) = map2 (AND) ip (CIDRMask p 4)"
    using assms by (simp add: Contains_def networkNumberAndMask_def To4_def ipv4_net_def IP_Mask_def map2_and_idem)
  then show ?thesis using and_CIDRMask_iff [of a ip p] assms by (auto)
qed

lemma dvd_masked_byte: "2 ^ (8 - n) dvd unat ((x :: byte) AND NOT (drop_bit n 0xff))" if "n \<le> 8"
proof -
  have m: "drop_bit n (0xff :: byte) = mask (8 - n)"
    unfolding byte_ff using that by (intro bit_eqI) (auto simp: bit_simps)
  have "take_bit (8 - n) (x AND NOT (mask (8 - n))) = 0"
    by (rule bit_eqI) (auto simp: bit_simps)
  then have "take_bit (8 - n) (unat (x AND NOT (mask (8 - n)))) = 0"
    by (metis unsigned_0 unsigned_take_bit_eq)
  then show ?thesis by (simp add: m take_bit_eq_mod mod_eq_0_iff_dvd)
qed

lemma bev_masked_zero: "bev (map2 (AND) xs (CIDRMask 0 (length xs))) = 0"
proof (induction xs)
  case (Cons x xs)
  have "256 dvd unat (x AND NOT (drop_bit 0 0xff))" using dvd_masked_byte [of 0 x] by simp
  with unat_byte_less have "unat (x AND NOT (drop_bit 0 0xff)) = 0"
    by (metis nat_dvd_not_less not_gr_zero)
  with Cons show ?case by simp
qed simp

lemma dvd_bev_masked:
  "p \<le> 8 * length xs \<Longrightarrow> 2 ^ (8 * length xs - p) dvd bev (map2 (AND) xs (CIDRMask p (length xs)))"
proof (induction xs arbitrary: p)
  case (Cons x xs)
  let ?n = "length xs"
  have pow: "(256 :: nat) ^ k = 2 ^ (8 * k)" for k by (simp add: power_mult)
  show ?case
  proof (cases "p \<ge> 8")
    case True
    then have e: "8 * length (x # xs) - p = 8 * ?n - (p - 8)" by simp
    have "2 ^ (8 * ?n - (p - 8)) dvd (2 :: nat) ^ (8 * ?n)" by (rule le_imp_power_dvd) simp
    moreover have "2 ^ (8 * ?n - (p - 8)) dvd bev (map2 (AND) xs (CIDRMask (p - 8) ?n))"
      using Cons.prems by (intro Cons.IH) simp
    ultimately show ?thesis unfolding e using True by (simp add: pow)
  next
    case False
    have e: "2 ^ (8 * length (x # xs) - p) = 2 ^ (8 - p) * (2 ^ (8 * ?n) :: nat)"
      using False by (simp add: power_add [symmetric])
    show ?thesis
      unfolding e using False dvd_masked_byte [of p x] by (simp add: bev_masked_zero pow mult_dvd_mono)
  qed
qed simp

lemma bev_ipv4_base:
  assumes "length a = 4" and "p \<le> 32"
  shows "bev (net_IP (ipv4_net a p)) = bev a div 2 ^ (32 - p) * 2 ^ (32 - p)"
proof -
  let ?b = "map2 (AND) a (CIDRMask p 4)"
  have "map2 (AND) ?b (CIDRMask p 4) = map2 (AND) a (CIDRMask p 4)"
    using assms by (intro map2_and_idem) simp
  then have "bev ?b div 2 ^ (32 - p) = bev a div 2 ^ (32 - p)"
    using and_CIDRMask_iff [of ?b a p] assms by simp
  moreover have "2 ^ (32 - p) dvd bev ?b"
    using dvd_bev_masked [of p a] assms by simp
  ultimately show ?thesis
    using dvd_div_mult_self [of "2 ^ (32 - p)" "bev ?b"] by (simp add: ipv4_net_def IP_Mask_def)
qed

text \<open>The candidates of an IPv4 network in the order the loop tries them.\<close>

definition host_addr :: "IPNet \<Rightarrow> nat \<Rightarrow> string" where
  "host_addr n k = IP_String ((increment ^^ k) (net_IP n))"

lemma Contains_host:
  assumes "length a = 4" and "0 < p" and "p \<le> 32" and "k \<le> 2 ^ (32 - p)"
  shows "Contains (ipv4_net a p) ((increment ^^ k) (net_IP (ipv4_net a p))) \<longleftrightarrow> k < 2 ^ (32 - p)"
proof -
  let ?h = "2 ^ (32 - p) :: nat" and ?q = "bev a div 2 ^ (32 - p)"
  have len: "length (net_IP (ipv4_net a p)) = 4" using assms by (simp add: ipv4_net_def IP_Mask_def)
  have pq: "(2 :: nat) ^ 32 = 2 ^ p * ?h" using assms by (simp add: power_add [symmetric])
  have "bev a < 2 ^ 32" using bev_less [of a] assms by simp
  then have q: "?q < 2 ^ p" unfolding pq by (rule less_mult_imp_div_less)
  have v: "bev ((increment ^^ k) (net_IP (ipv4_net a p))) = (?q * ?h + k) mod 2 ^ 32"
    using bev_increments [of k "net_IP (ipv4_net a p)"] bev_ipv4_base [of a p] assms len by simp
  have "Contains (ipv4_net a p) ((increment ^^ k) (net_IP (ipv4_net a p))) \<longleftrightarrow>
      (?q * ?h + k) mod 2 ^ 32 div ?h = ?q"
    using Contains_ipv4_net [of a "(increment ^^ k) (net_IP (ipv4_net a p))" p] assms len v by simp
  also have "\<dots> \<longleftrightarrow> k < ?h"
  proof (cases "k < ?h")
    case True
    have "?q * ?h + k < (?q + 1) * ?h" using True by simp
    also have "\<dots> \<le> 2 ^ 32" unfolding pq using q by (intro mult_right_mono) auto
    finally show ?thesis using True by simp
  next
    case False
    with assms have k: "k = ?h" by simp
    have "(?q * ?h + k) mod 2 ^ 32 = ((?q + 1) mod 2 ^ p) * ?h"
    proof -
      have "?q * ?h + ?h = (?q + 1) * ?h" by (rule add_mult_distrib [of _ 1, simplified mult_1, symmetric])
      then show ?thesis unfolding k pq by (simp only: mult_mod_left)
    qed
    moreover have "(?q + 1) mod 2 ^ p \<noteq> ?q"
    proof (cases "?q + 1 = 2 ^ p")
      case True
      with \<open>0 < p\<close> have "?q \<noteq> 0" using one_less_power [of "2::nat" p] by fastforce
      then show ?thesis using True by simp
    next
      case False
      with q show ?thesis by simp
    qed
    ultimately show ?thesis using False by simp
  qed
  finally show ?thesis .
qed

lemma ex_least_nat_le': "P (k :: nat) \<Longrightarrow> \<exists>m \<le> k. P m \<and> (\<forall>j < m. \<not> P j)"
  using LeastI [of P k] Least_le [of P k] not_less_Least [of _ P] by blast

lemma findAvailableIP_ipv4_net:
  assumes "length a = 4" and "0 < p" and "p \<le> 32"
  shows "if \<exists>k. 0 < k \<and> k < 2 ^ (32 - p) \<and> host_addr (ipv4_net a p) k \<notin> set used
    then \<exists>k. 0 < k \<and> k < 2 ^ (32 - p) \<and> host_addr (ipv4_net a p) k \<notin> set used \<and>
      (\<forall>j. 0 < j \<and> j < k \<longrightarrow> host_addr (ipv4_net a p) j \<in> set used) \<and>
      findAvailableIP (ipv4_net a p) used = Some (Inr (host_addr (ipv4_net a p) k))
    else findAvailableIP (ipv4_net a p) used = Some (Inl (Errorf ''no available IPs in subnet'' None))"
proof (cases "\<exists>k. 0 < k \<and> k < 2 ^ (32 - p) \<and> host_addr (ipv4_net a p) k \<notin> set used")
  case True
  then obtain k where k: "0 < k" "k < 2 ^ (32 - p)" "host_addr (ipv4_net a p) k \<notin> set used"
    and least: "\<And>j. j < k \<Longrightarrow> \<not> (0 < j \<and> j < 2 ^ (32 - p) \<and> host_addr (ipv4_net a p) j \<notin> set used)"
    using ex_least_nat_le' [of "\<lambda>k. 0 < k \<and> k < 2 ^ (32 - p) \<and> host_addr (ipv4_net a p) k \<notin> set used"] by blast
  have "findAvailableIP (ipv4_net a p) used = Some (Inr (host_addr (ipv4_net a p) k))"
    unfolding findAvailableIP_def host_addr_def
  proof (rule findAvailable_loop_found)
    show "Contains (ipv4_net a p) ((increment ^^ j) (net_IP (ipv4_net a p)))" if "0 < j" "j \<le> k" for j
      using Contains_host [OF assms, of j] that k by simp
  qed (use k least in \<open>auto simp: host_addr_def\<close>)
  with True k least show ?thesis by auto
next
  case False
  have "findAvailableIP (ipv4_net a p) used = Some (Inl (Errorf ''no available IPs in subnet'' None))"
    unfolding findAvailableIP_def
  proof (rule findAvailable_loop_exhausted [where k = "2 ^ (32 - p)"])
    show "Contains (ipv4_net a p) ((increment ^^ j) (net_IP (ipv4_net a p)))" if "0 < j" "j < 2 ^ (32 - p)" for j
      using Contains_host [OF assms, of j] that by simp
    show "\<not> Contains (ipv4_net a p) ((increment ^^ 2 ^ (32 - p)) (net_IP (ipv4_net a p)))"
      using Contains_host [OF assms, of "2 ^ (32 - p)"] by simp
  qed (use False in \<open>auto simp: host_addr_def\<close>)
  with False show ?thesis by simp
qed

lemma nat_string_inj: "nat_string m = nat_string n \<longleftrightarrow> m = n"
  using nat_string_digits by metis

lemma nat_string_no_sep: "c \<in> set (nat_string n) \<Longrightarrow> is_digit c"
  using nat_string_digits [of n] by (auto simp: list_all_iff)

lemma nat_string_no_leading_zero: "n > 0 \<Longrightarrow> hd (nat_string n) \<noteq> CHR ''0''"
proof (induction n rule: nat_string.induct)
  case (1 n)
  show ?case
  proof (cases "n < 10")
    case True
    have "digit_val CHR ''0'' = 0" by (simp add: digit_val_def)
    with digit_char_props(2) [OF True] 1(2) have "digit_char n \<noteq> CHR ''0''" by auto
    with True show ?thesis by (simp add: nat_string.simps [of n])
  next
    case False
    then have "hd (nat_string (n div 10)) \<noteq> CHR ''0''" by (intro "1.IH") auto
    with False show ?thesis
      using nat_string_digits [of "n div 10"] by (simp add: nat_string.simps [of n])
  qed
qed

lemma ipv4_field_nat_string: "n < 256 \<Longrightarrow> ipv4_field (nat_string n) = Some (word_of_nat n)"
proof -
  assume n: "n < 256"
  have "\<not> (length (nat_string n) > 1 \<and> hd (nat_string n) = CHR ''0'')"
    using nat_string_no_leading_zero [of n] by (cases "n = 0") (auto simp: nat_string.simps [of 0])
  then show ?thesis
    using n nat_string_digits [of n] by (simp add: ipv4_field_def)
qed

lemma Split_dotted: "ip \<noteq> [] \<Longrightarrow> Split CHR ''.'' (dotted ip) = map (\<lambda>b. nat_string (unat b)) ip"
  unfolding dotted_def by (rule Split_Join) (auto dest: nat_string_no_sep)

lemma dotted_inj: "length a = length b \<Longrightarrow> dotted a = dotted b \<Longrightarrow> a = b"
proof (cases "a = []")
  case False
  assume "length a = length b" and eq: "dotted a = dotted b"
  with False have "b \<noteq> []" by auto
  with False eq have "map (\<lambda>b. nat_string (unat b)) a = map (\<lambda>b. nat_string (unat b)) b"
    by (metis Split_dotted)
  moreover have "inj (\<lambda>b :: byte. nat_string (unat b))"
    by (auto intro!: injI unsigned_word_eqI simp: nat_string_inj)
  ultimately show "a = b" by (metis map_injective)
qed simp

lemma length4: "length a = 4 \<longleftrightarrow> (\<exists>x0 x1 x2 x3. a = [x0, x1, x2, x3])"
  by (auto simp: numeral_eq_Suc length_Suc_conv)

lemma parseIPv4Fields_dotted: "length a = 4 \<Longrightarrow> parseIPv4Fields (dotted a) = Some a"
  by (auto simp: parseIPv4Fields_def Split_dotted length4 ipv4_field_nat_string unat_byte_less)

lemma IP_String_4: "length a = 4 \<Longrightarrow> IP_String a = dotted a"
  by (auto simp: IP_String_def To4_def)

lemma IP_String_16: "length a = 4 \<Longrightarrow> IP_String (v4InV6Prefix @ a) = dotted a"
  by (auto simp: IP_String_def To4_def v4InV6Prefix_def)

lemma ParseAddr_dotted:
  assumes "length a = 4"
  shows "ParseAddr (dotted a) = Some (a, 32)"
proof -
  obtain x0 x1 x2 x3 where a: "a = [x0, x1, x2, x3]" using assms by (auto simp: length4)
  have none: "find (\<lambda>c. c = CHR ''.'' \<or> c = CHR '':'' \<or> c = CHR ''%'') (nat_string n) = None" for n
    by (auto simp: find_None_set is_digit_def dest!: nat_string_no_sep)
  have "find (\<lambda>c. c = CHR ''.'' \<or> c = CHR '':'' \<or> c = CHR ''%'') (dotted a) = Some CHR ''.''"
    unfolding a dotted_def by (simp add: none)
  then show ?thesis
    using parseIPv4Fields_dotted [OF assms] by (simp add: ParseAddr_def)
qed

lemma host_addr_inj:
  assumes "length a = 4" and "p \<le> 32" and "j < 2 ^ (32 - p)" and "k < 2 ^ (32 - p)"
    and "host_addr (ipv4_net a p) j = host_addr (ipv4_net a p) k"
  shows "j = k"
proof -
  let ?b = "net_IP (ipv4_net a p)" and ?h = "2 ^ (32 - p) :: nat"
  have len: "length ?b = 4" using assms by (simp add: ipv4_net_def IP_Mask_def)
  have "(increment ^^ j) ?b = (increment ^^ k) ?b"
    using assms(5) len by (intro dotted_inj) (simp_all add: host_addr_def IP_String_4)
  then have "(bev ?b + j) mod 2 ^ 32 = (bev ?b + k) mod 2 ^ 32"
    using bev_increments [of j ?b] bev_increments [of k ?b] len by simp
  moreover have "bev ?b + i < 2 ^ 32" if "i < ?h" for i
  proof -
    have pq: "(2 :: nat) ^ 32 = 2 ^ p * ?h" using assms by (simp add: power_add [symmetric])
    have "bev a < 2 ^ p * ?h" using bev_less [of a] assms(1) unfolding pq [symmetric] by simp
    then have "bev a div ?h + 1 \<le> 2 ^ p" by (simp add: less_mult_imp_div_less Suc_leI)
    then have "(bev a div ?h + 1) * ?h \<le> 2 ^ 32" unfolding pq by (rule mult_right_mono) simp
    then show ?thesis using bev_ipv4_base [OF assms(1,2)] that by simp
  qed
  ultimately show "j = k" using assms(3,4) by simp
qed

lemma findAvailableIP_capacity:
  assumes "length a = 4" and "0 < p" and "p \<le> 32" and "length used < 2 ^ (32 - p) - 1"
  shows "\<exists>k. 0 < k \<and> k < 2 ^ (32 - p) \<and> host_addr (ipv4_net a p) k \<notin> set used"
proof (rule ccontr)
  let ?K = "{1 ..< 2 ^ (32 - p)} :: nat set"
  assume "\<not> ?thesis"
  then have "host_addr (ipv4_net a p) ` ?K \<subseteq> set used" by auto
  then have "card (host_addr (ipv4_net a p) ` ?K) \<le> length used"
    by (meson List.finite_set card_length card_mono le_trans)
  moreover have "inj_on (host_addr (ipv4_net a p)) ?K"
    using host_addr_inj [OF assms(1,3)] by (auto intro: inj_onI)
  ultimately show False using assms(4) by (simp add: card_image)
qed

lemma length_parseIPv4Fields: "parseIPv4Fields s = Some b \<Longrightarrow> length b = 4"
  by (auto simp: parseIPv4Fields_def split: list.splits option.splits)

lemma length_ipv6_groups:
  "ipv6_groups n s acc ell = Some (acc', ell', s') \<Longrightarrow> length acc + 2 * n \<le> 16 \<Longrightarrow> length acc' \<le> 16"
proof (induction n arbitrary: s acc ell)
  case (Suc n)
  note IH = Suc.IH [of _ "acc @ [_, _]", simplified]
  from Suc.prems show ?case
    by (simp only: ipv6_groups.simps Let_def split: if_split_asm list.split_asm option.split_asm)
       (auto dest: length_parseIPv4Fields IH)
qed simp

lemma length_ipv6_finish:
  assumes "ipv6_finish (ipv6_groups 8 s [] ell) = Some ip"
  shows "length ip = 16"
proof -
  from assms obtain acc ell' where g: "ipv6_groups 8 s [] ell = Some (acc, ell', [])"
    by (auto simp: ipv6_finish_def split: option.splits if_splits)
  then have "length acc \<le> 16" by (rule length_ipv6_groups) simp
  with assms show ?thesis
    by (auto simp: g ipv6_finish_def min_def split: option.splits if_splits)
qed

lemma length_parseIPv6: "parseIPv6 s = Some ip \<Longrightarrow> length ip = 16"
  by (auto simp: parseIPv6_def dest: length_ipv6_finish split: if_splits)

lemma ParseCIDR_Some:
  "ParseCIDR s = Some r \<longleftrightarrow> (\<exists>c m a bits p. dropWhile (\<lambda>c. c \<noteq> CHR ''/'') s = c # m \<and>
     ParseAddr (takeWhile (\<lambda>c. c \<noteq> CHR ''/'') s) = Some (a, bits) \<and> dtoi_all m = Some p \<and> p \<le> bits \<and>
     r = (As16 a, \<lparr>net_IP = IP_Mask a (CIDRMask p (bits div 8)), net_Mask = CIDRMask p (bits div 8)\<rparr>))"
proof (cases "dropWhile (\<lambda>c. c \<noteq> CHR ''/'') s")
  case (Cons c m)
  then show ?thesis
    by (cases "ParseAddr (takeWhile (\<lambda>c. c \<noteq> CHR ''/'') s)"; cases "dtoi_all m")
       (auto simp: ParseCIDR_def Let_def split: if_splits)
next
  case Nil
  then show ?thesis unfolding ParseCIDR_def Let_def by (simp only: list.case) simp
qed

lemma ParseCIDR_ipv4:
  assumes "ParseCIDR s = Some (ip, n)" and "length (net_IP n) = 4"
  obtains a p where "length a = 4" "p \<le> 32" "n = ipv4_net a p" "ip = v4InV6Prefix @ a"
proof -
  from assms obtain a bits p where
      pa: "ParseAddr (takeWhile (\<lambda>c. c \<noteq> CHR ''/'') s) = Some (a, bits)" and "p \<le> bits"
      and n: "n = \<lparr>net_IP = IP_Mask a (CIDRMask p (bits div 8)), net_Mask = CIDRMask p (bits div 8)\<rparr>"
      and ip: "ip = As16 a"
    unfolding ParseCIDR_Some by blast
  have "(length a = 4 \<and> bits = 32) \<or> (length a = 16 \<and> bits = 128)"
    using pa by (auto simp: ParseAddr_def length_parseIPv6 length_parseIPv4Fields
        split: option.splits if_splits)
  with n assms(2) have "length a = 4" "bits = 32" by (auto simp: IP_Mask_def)
  with n ip \<open>p \<le> bits\<close> that [of a p] show ?thesis by (simp add: ipv4_net_def As16_def)
qed

lemma increment_append: "bev a + 1 < 256 ^ length a \<Longrightarrow> increment (pre @ a) = pre @ increment a"
proof -
  have "inc_rev (xs @ ys) = inc_rev xs @ ys" if "bev (rev xs) + 1 < 256 ^ length xs" for xs ys
    using that
  proof (induction xs)
    case (Cons x xs)
    show ?case
    proof (cases "x + 1 > 0")
      case False
      then have "unat x = 255" by (rule unat_byte_succ(2))
      with Cons.prems have "bev (rev xs) + 1 < 256 ^ length xs" by (simp add: bev_snoc)
      with False Cons.IH show ?thesis by simp
    qed simp
  qed simp
  from this [of "rev a" "rev pre"] show "bev a + 1 < 256 ^ length a \<Longrightarrow> ?thesis"
    by (simp add: increment_def)
qed

lemma length_ipv4_net [simp]: "length a = 4 \<Longrightarrow> length (net_IP (ipv4_net a p)) = 4"
  by (simp add: ipv4_net_def IP_Mask_def)

text \<open>The gateway of a block written with its network address is the first host address.\<close>

lemma calculateGatewayIP_net:
  assumes "length a = 4" and "p < 32" and "net_IP (ipv4_net a p) = a"
  shows "calculateGatewayIP (v4InV6Prefix @ a) (ipv4_net a p) = host_addr (ipv4_net a p) 1"
proof -
  have "(2 :: nat) dvd 2 ^ (32 - p)" using assms(2) by simp
  also have "\<dots> dvd bev a" using bev_ipv4_base [of a p] assms by (metis less_imp_le dvd_triv_right)
  finally have "2 dvd bev a" .
  moreover have "bev a < 2 ^ 32" using bev_less [of a] assms(1) by simp
  ultimately have "bev a + 1 < 2 ^ 32" by (metis Suc_eq_plus1 Suc_lessI dvd_power even_Suc zero_less_numeral)
  then have "increment (v4InV6Prefix @ a) = v4InV6Prefix @ increment a"
    using assms(1) by (intro increment_append) simp
  then show ?thesis
    using assms by (simp add: calculateGatewayIP_def host_addr_def IP_String_16 IP_String_4)
qed

lemma ParseCIDR_dotted:
  assumes "length a = 4" and "p \<le> 32"
  shows "ParseCIDR (dotted a @ ''/'' @ nat_string p) = Some (v4InV6Prefix @ a, ipv4_net a p)"
proof -
  obtain x0 x1 x2 x3 where a: "a = [x0, x1, x2, x3]" using assms by (auto simp: length4)
  have d: "c \<in> set (nat_string n) \<Longrightarrow> c \<noteq> CHR ''/''" for c n
    using nat_string_no_sep by fastforce
  have noslash: "\<forall>c \<in> set (dotted a). c \<noteq> CHR ''/''"
    by (auto simp: a dotted_def dest: d)
  then have tw: "takeWhile (\<lambda>c. c \<noteq> CHR ''/'') (dotted a @ ''/'' @ nat_string p) = dotted a"
    and dw: "dropWhile (\<lambda>c. c \<noteq> CHR ''/'') (dotted a @ ''/'' @ nat_string p) = CHR ''/'' # nat_string p"
    by (simp_all add: takeWhile_append2 dropWhile_append2)
  have "dtoi_all (nat_string p) = Some p"
    using nat_string_digits [of p] assms(2) by (simp add: dtoi_all_def)
  then show ?thesis
    unfolding ParseCIDR_Some tw dw using ParseAddr_dotted [OF assms(1)] assms
    by (auto simp: As16_def ipv4_net_def)
qed

section \<open>Properties\<close>

text \<open>Printing an IPv4 block as address, slash and prefix length and parsing it gives back the address
  (in 16-byte form) and the network with that prefix.\<close>

theorem ParseCIDR_roundtrip:
  assumes "length a = 4" and "p \<le> 32"
  shows "ParseCIDR (IP_String a @ ''/'' @ nat_string p) = Some (v4InV6Prefix @ a, ipv4_net a p)"
  using ParseCIDR_dotted [OF assms] IP_String_4 [OF assms(1)] by simp

theorem ParseCIDR_roundtrip_witness:
  "ParseCIDR (IP_String [10, 0, 1, 0] @ ''/'' @ nat_string 29) = Some (v4InV6Prefix @ [10, 0, 1, 0], ipv4_net [10, 0, 1, 0] 29)"
  using ParseCIDR_roundtrip [of "[10, 0, 1, 0]" 29] by simp

text \<open>C8. The search for a free address in the block of an IPv4 subnet with a prefix of at least one bit always returns. It returns the first
  address of the block after the network address whose text is not among the used ones, and reports \<^verbatim>\<open>no available IPs in subnet\<close> exactly when all
  of them are used. The last address of the block, its broadcast address, is among the addresses that are handed out.\<close>

theorem findAvailableIP_first_free:
  assumes "ParseCIDR cidr = Some (ip, ipv4_net a p)" and "length a = 4" and "0 < p" and "p \<le> 32"
  shows "if \<exists>k. 0 < k \<and> k < 2 ^ (32 - p) \<and> host_addr (ipv4_net a p) k \<notin> set used
    then \<exists>k. 0 < k \<and> k < 2 ^ (32 - p) \<and> host_addr (ipv4_net a p) k \<notin> set used \<and>
      (\<forall>j. 0 < j \<and> j < k \<longrightarrow> host_addr (ipv4_net a p) j \<in> set used) \<and>
      findAvailableIP (ipv4_net a p) used = Some (Inr (host_addr (ipv4_net a p) k))
    else findAvailableIP (ipv4_net a p) used = Some (Inl (Errorf ''no available IPs in subnet'' None))"
  using findAvailableIP_ipv4_net [OF assms(2-4)] .

text \<open>The broadcast address of a block is handed out when the others are taken.\<close>

theorem broadcast_handed_out:
  assumes "length a = 4" and "0 < p" and "p < 32" and "\<forall>j. 0 < j \<and> j < 2 ^ (32 - p) - 1 \<longrightarrow> host_addr (ipv4_net a p) j \<in> set used"
    and "host_addr (ipv4_net a p) (2 ^ (32 - p) - 1) \<notin> set used"
  shows "findAvailableIP (ipv4_net a p) used = Some (Inr (host_addr (ipv4_net a p) (2 ^ (32 - p) - 1)))"
proof -
  let ?n = "2 ^ (32 - p) - 1 :: nat"
  have "1 < (2 :: nat) ^ (32 - p)" using assms(3) by (intro one_less_power) simp_all
  then have n: "0 < ?n" "?n < 2 ^ (32 - p)" by simp_all
  then have "\<exists>k. 0 < k \<and> k < 2 ^ (32 - p) \<and> host_addr (ipv4_net a p) k \<notin> set used" using assms(5) by blast
  then obtain k where k: "0 < k" "k < 2 ^ (32 - p)" "host_addr (ipv4_net a p) k \<notin> set used"
    "findAvailableIP (ipv4_net a p) used = Some (Inr (host_addr (ipv4_net a p) k))"
    using findAvailableIP_ipv4_net [OF assms(1,2) less_imp_le [OF assms(3)], of used] by auto
  then have "k = ?n" using assms(4) by (metis n(2) Suc_diff_1 zero_less_power zero_less_numeral less_SucE)
  with k(4) show ?thesis by simp
qed

lemma digit_char_numeral:
  "digit_char 0 = CHR ''0''" "digit_char (Suc 0) = CHR ''1''" "digit_char 1 = CHR ''1''" "digit_char 2 = CHR ''2''"
  "digit_char 9 = CHR ''9''"
  by (simp_all add: digit_char_def char_of_def bit_0)

lemma CIDRMask_24: "CIDRMask 24 4 = [0xff, 0xff, 0xff, 0]"
proof -
  have four: "(4 :: nat) = Suc (Suc (Suc (Suc 0)))" by simp
  show ?thesis unfolding four by simp
qed

lemma dotted_10_0_1_0: "''10.0.1.0/29'' = dotted [10, 0, 1, 0] @ ''/'' @ nat_string 29"
  by (simp add: dotted_def nat_string.simps digit_char_numeral)

theorem findAvailableIP_first_free_witness:
  "\<exists>k. 0 < k \<and> k < 8 \<and> host_addr (ipv4_net [10, 0, 1, 0] 29) k \<notin> {''10.0.1.1''} \<and>
      (\<forall>j. 0 < j \<and> j < k \<longrightarrow> host_addr (ipv4_net [10, 0, 1, 0] 29) j \<in> {''10.0.1.1''}) \<and>
      findAvailableIP (ipv4_net [10, 0, 1, 0] 29) [''10.0.1.1''] = Some (Inr (host_addr (ipv4_net [10, 0, 1, 0] 29) k))"
proof -
  have "\<exists>k. 0 < k \<and> k < 8 \<and> host_addr (ipv4_net [10, 0, 1, 0] 29) k \<notin> set [''10.0.1.1'']"
    using findAvailableIP_capacity [of "[10, 0, 1, 0]" 29 "[''10.0.1.1'']"] by simp
  moreover have "ParseCIDR ''10.0.1.0/29'' = Some (v4InV6Prefix @ [10, 0, 1, 0], ipv4_net [10, 0, 1, 0] 29)"
    unfolding dotted_10_0_1_0 by (rule ParseCIDR_dotted) simp_all
  ultimately show ?thesis
    using findAvailableIP_first_free [of "''10.0.1.0/29''" "v4InV6Prefix @ [10, 0, 1, 0]" "[10, 0, 1, 0]" 29
        "[''10.0.1.1'']"]
    by simp
qed

text \<open>C9. A subnet of prefix length \<open>p\<close> holds \<open>2 ^ (32 - p) - 1\<close> addresses after the network address: with
  fewer used ones the search succeeds, and the address it returns is new.\<close>

theorem findAvailableIP_succeeds:
  assumes "length a = 4" and "0 < p" and "p \<le> 32" and "length used < 2 ^ (32 - p) - 1"
  shows "\<exists>k. 0 < k \<and> k < 2 ^ (32 - p) \<and> host_addr (ipv4_net a p) k \<notin> set used \<and>
    findAvailableIP (ipv4_net a p) used = Some (Inr (host_addr (ipv4_net a p) k))"
  using findAvailableIP_ipv4_net [OF assms(1-3), of used] findAvailableIP_capacity [OF assms] by auto

theorem findAvailableIP_succeeds_witness:
  "\<exists>k. 0 < k \<and> k < 8 \<and> host_addr (ipv4_net [10, 0, 1, 0] 29) k \<notin> {''10.0.1.1''} \<and>
    findAvailableIP (ipv4_net [10, 0, 1, 0] 29) [''10.0.1.1''] = Some (Inr (host_addr (ipv4_net [10, 0, 1, 0] 29) k))"
  using findAvailableIP_succeeds [of "[10, 0, 1, 0]" 29 "[''10.0.1.1'']"] by simp

text \<open>For a block written with its network address, the gateway the subnet service computes is the
  first host address, so that with only the gateway in use the search continues at the second.\<close>

theorem gateway_then_next:
  assumes "length a = 4" and "0 < p" and "p < 31" and "net_IP (ipv4_net a p) = a"
  shows "findAvailableIP (ipv4_net a p) [calculateGatewayIP (v4InV6Prefix @ a) (ipv4_net a p)] =
    Some (Inr (host_addr (ipv4_net a p) 2))"
proof -
  have gw: "calculateGatewayIP (v4InV6Prefix @ a) (ipv4_net a p) = host_addr (ipv4_net a p) 1"
    using assms by (intro calculateGatewayIP_net) simp_all
  have "(2 :: nat) ^ 2 \<le> 2 ^ (32 - p)" using assms by (intro power_increasing) simp_all
  then have h: "(4 :: nat) \<le> 2 ^ (32 - p)" by simp
  then have used: "j = 1" if "host_addr (ipv4_net a p) j = host_addr (ipv4_net a p) 1" "j < 2 ^ (32 - p)" for j
    using host_addr_inj [of a p j 1] that assms h by simp
  have "findAvailable_loop (ipv4_net a p) [host_addr (ipv4_net a p) 1] (net_IP (ipv4_net a p)) =
      Some (Inr (IP_String ((increment ^^ 2) (net_IP (ipv4_net a p)))))"
  proof (rule findAvailable_loop_found)
    show "Contains (ipv4_net a p) ((increment ^^ j) (net_IP (ipv4_net a p)))" if "0 < j" "j \<le> 2" for j
      using Contains_host [of a p j] that h assms by simp
    show "IP_String ((increment ^^ j) (net_IP (ipv4_net a p))) \<in> set [host_addr (ipv4_net a p) 1]"
      if "0 < j" "j < 2" for j
    proof -
      from that have "j = 1" by simp
      then show ?thesis by (simp add: host_addr_def)
    qed
    show "IP_String ((increment ^^ 2) (net_IP (ipv4_net a p))) \<notin> set [host_addr (ipv4_net a p) 1]"
      using used [of 2] h unfolding host_addr_def by auto
  qed simp
  then show ?thesis by (simp only: gw findAvailableIP_def host_addr_def)
qed

theorem gateway_then_next_witness:
  "findAvailableIP (ipv4_net [10, 0, 1, 0] 24) [calculateGatewayIP (v4InV6Prefix @ [10, 0, 1, 0]) (ipv4_net [10, 0, 1, 0] 24)] =
    Some (Inr (host_addr (ipv4_net [10, 0, 1, 0] 24) 2))"
proof -
  have "net_IP (ipv4_net [10, 0, 1, 0] 24) = [10, 0, 1, 0]"
    by (simp add: ipv4_net_def IP_Mask_def CIDRMask_24 and_byte_ff)
  then show ?thesis using gateway_then_next [of "[10, 0, 1, 0]" 24] by simp
qed

end
