(* ===== verification/World.thy ===== *)
theory World
  imports Domain
begin

text \<open>
  The state of the running system and the commands over it: the tables of the database, the traces of
  the calls to the container engine, the network and the metrics registry, the in-memory state of the
  services, and the primitive calls every repository is built from. What the program takes from
  third-party packages and services is the record \<open>env\<close>, a parameter of the operations. The theory
  also holds the event and audit services, which every other service calls.
\<close>

section \<open>Parameters: third-party code and services\<close>

text \<open>What \<^verbatim>\<open>docker stats\<close> and the like decode to in \<^verbatim>\<open>GetInstanceStats\<close>.\<close>

record raw_stats =
  total_usage :: nat
  system_cpu_usage :: nat
  pre_total_usage :: nat
  pre_system_cpu_usage :: nat
  mem_usage :: nat
  mem_limit :: nat

text \<open>
  \<open>uuid_at n\<close> is the \<open>n\<close>-th identifier \<^verbatim>\<open>uuid.New\<close> generates and \<open>rand_at n len\<close> the bytes of the \<open>n\<close>-th
  successful \<^verbatim>\<open>rand.Read\<close>; \<open>bcrypt_hash n p\<close> is the hash of \<open>p\<close> with the \<open>n\<close>-th salt, \<open>None\<close> when the
  package refuses the password; \<open>cid_at n\<close> is the identifier the container engine gives to the container
  created by the \<open>n\<close>-th backend call. \<open>inet_text\<close> and \<open>cidr_text\<close> are the database's casts from text to the
  types \<^verbatim>\<open>inet\<close> and \<^verbatim>\<open>cidr\<close> followed by \<^verbatim>\<open>::text\<close>. \<open>map_range\<close> is the order in which \<^verbatim>\<open>range\<close> visits
  the entries of a map, which the language leaves open, as \<open>route_range\<close> and \<open>resource_range n\<close> (for the \<open>n\<close>-th
  pass) are for the gateway's and the template's maps. \<open>cron_next d\<close> is the schedule parser, with the named schedules when \<open>d\<close>:
  it refuses a schedule with a message or gives the function from an instant to the next run. \<open>http_at n\<close> is the response to
  the request that is the \<open>n\<close>-th backend call, \<open>http_request_err\<close> the error of building a request from a method and a
  URL, if any, \<open>url_host\<close> the host of a URL that parses. \<open>hkdf\<close> derives 32 bytes from a key and a salt, \<open>gcm_seal\<close> and
  \<open>gcm_open\<close> are the authenticated cipher under a key and a nonce. \<open>yaml_template\<close> decodes a template,
  \<open>json_params\<close> renders parameters. \<open>backend_port\<close>, \<open>backend_exec\<close>, \<open>backend_exec_err\<close> (the output that comes with an error) and \<open>task_exit\<close> are what the container
  engine answers about a container, \<open>zip_entries\<close> the entries of an archive (name, is a directory, contents) and \<open>tmp_dir n\<close> the \<open>n\<close>-th
  temporary directory for a name pattern. \<open>masterKey\<close> is the configured key of the secret service.
\<close>

record env =
  uuid_parse :: "string \<Rightarrow> uuid option"
  uuid_string :: "uuid \<Rightarrow> string"
  uuid_at :: "nat \<Rightarrow> uuid"
  rand_at :: "nat \<Rightarrow> nat \<Rightarrow> 8 word list"
  bcrypt_hash :: "nat \<Rightarrow> string \<Rightarrow> string option"
  bcrypt_match :: "string \<Rightarrow> string \<Rightarrow> bool"
  password_validate :: "string \<Rightarrow> string option"
  sha256 :: "string \<Rightarrow> 8 word list"
  cid_at :: "nat \<Rightarrow> string"
  compute_type :: string
  network_nil :: bool
  inet_text :: "string \<Rightarrow> string option"
  cidr_text :: "string \<Rightarrow> string option"
  backend_logs :: "string \<Rightarrow> string"
  backend_stats :: "string \<Rightarrow> raw_stats option"
  map_range :: "(string \<times> int) list \<Rightarrow> (string \<times> int) list"
  route_range :: "GatewayRoute list \<Rightarrow> GatewayRoute list"
  resource_range :: "nat \<Rightarrow> (string \<times> ResourceDefinition) list \<Rightarrow> (string \<times> ResourceDefinition) list"
  cron_next :: "bool \<Rightarrow> string \<Rightarrow> string + (time \<Rightarrow> time)"
  http_at :: "nat \<Rightarrow> int \<times> string"
  http_request_err :: "string \<Rightarrow> string \<Rightarrow> string option"
  url_host :: "string \<Rightarrow> string option"
  hkdf :: "string \<Rightarrow> 8 word list \<Rightarrow> 8 word list"
  gcm_seal :: "8 word list \<Rightarrow> 8 word list \<Rightarrow> string \<Rightarrow> 8 word list"
  gcm_open :: "8 word list \<Rightarrow> 8 word list \<Rightarrow> 8 word list \<Rightarrow> string option"
  yaml_template :: "string \<Rightarrow> string + (string \<times> ResourceDefinition) list"
  json_params :: "(string \<times> string) list \<Rightarrow> string"
  backend_port :: "string \<Rightarrow> string \<Rightarrow> int"
  backend_exec :: "string \<Rightarrow> string list \<Rightarrow> string"
  backend_exec_err :: "string \<Rightarrow> string list \<Rightarrow> string"
  task_exit :: "string \<Rightarrow> int"
  zip_entries :: "string \<Rightarrow> string + (string \<times> bool \<times> string) list"
  tmp_dir :: "nat \<Rightarrow> string \<Rightarrow> string"
  masterKey :: string

text \<open>The first eight characters of an identifier's text, \<^verbatim>\<open>id.String()[:8]\<close>.\<close>

definition id8 :: "env \<Rightarrow> uuid \<Rightarrow> string" where
  "id8 E i = take 8 (uuid_string E i)"

section \<open>The world\<close>

record FlowRule =
  flow_Priority :: int
  flow_Match :: string
  flow_Actions :: string

datatype backend_call =
    BCreateInstance string string "string list" string "string list" "string list" "string list"
  | BStopInstance string
  | BDeleteInstance string
  | BGetInstanceLogs string
  | BGetInstanceStats string
  | BCreateVolume string
  | BDeleteVolume string
  | BCreateBridge string int
  | BDeleteBridge string
  | BCreateVethPair string string
  | BAttachVethToBridge string string
  | BSetVethIP string string string
  | BLinkSetUp string
  | BDeployProxy LoadBalancer "LBTarget list"
  | BRemoveProxy uuid
  | BUpdateProxyConfig LoadBalancer "LBTarget list"
  | BDial string
  | BAddFlowRule string FlowRule
  | BCreateVolumeSnapshot string string
  | BRestoreVolumeSnapshot string string
  | BRemoveFile string
  | BHttp string string string
  | BGetInstancePort string string
  | BExec string "string list"
  | BRunTask string "string list" string int string
  | BWaitTask string int
  | BRemoveAll string
  | BPing

datatype metric = MInc string "string list" | MDec string "string list"
  | MAdd string "string list" int | MSet string "string list" int | MObserve string "string list" int

record MetricPoint =
  mp_InstanceID :: uuid
  mp_cpu_percent :: rat
  mp_recorded_at :: time

text \<open>A goroutine that has been started and has not run yet: what it was started with.\<close>

datatype task = TSnapshot Volume Snapshot | TCronJob CronJob | TDeliver Subscription string | TDeleteFile string string
  | TInvoke Function Invocation string | TStack Stack | TStackDelete Stack

text \<open>
  \<open>faults\<close> scripts the environment: each call to the database, the backends or the random source takes
  the head, \<open>Some msg\<close> makes it fail with that text and without effect, \<open>None\<close> or the empty script lets it
  succeed. \<open>tasks\<close> are the goroutines that are yet to run, \<open>files\<close> the local file system by path,
  \<open>gw_table\<close> the gateway's map of routes. \<open>clock\<close> is what \<^verbatim>\<open>time.Now()\<close> and \<^verbatim>\<open>NOW()\<close> return; an operation takes no time, time passes
  between operations.
\<close>

record world =
  faults :: "string option list"
  uuid_ctr :: nat
  rand_ctr :: nat
  clock :: time
  calls :: "backend_call list"
  metrics :: "metric list"
  failedAttempts :: "string \<Rightarrow> int option"
  lockouts :: "string \<Rightarrow> time option"
  tasks :: "task list"
  files :: "string \<Rightarrow> string option"
  gw_table :: "GatewayRoute list"
  t_users :: "User list"
  t_api_keys :: "APIKey list"
  t_reset_tokens :: "PasswordResetToken list"
  t_roles :: "(uuid \<times> string \<times> string) list"
  t_role_permissions :: "(uuid \<times> Permission) list"
  t_vpcs :: "VPC list"
  t_subnets :: "Subnet list"
  t_instances :: "Instance list"
  t_volumes :: "Volume list"
  t_load_balancers :: "LoadBalancer list"
  t_lb_targets :: "LBTarget list"
  t_scaling_groups :: "ScalingGroup list"
  t_scaling_policies :: "ScalingPolicy list"
  t_scaling_group_instances :: "ScalingGroupInstance list"
  t_metrics_history :: "MetricPoint list"
  t_queues :: "Queue list"
  t_queue_messages :: "Message list"
  t_security_groups :: "SecurityGroup list"
  t_security_rules :: "SecurityRule list"
  t_instance_security_groups :: "(uuid \<times> uuid) list"
  t_snapshots :: "Snapshot list"
  t_secrets :: "Secret list"
  t_objects :: "Object list"
  t_cron_jobs :: "CronJob list"
  t_cron_job_runs :: "CronJobRun list"
  t_gateway_routes :: "GatewayRoute list"
  t_deployments :: "Deployment list"
  t_deployment_containers :: "DeploymentContainer list"
  t_databases :: "Database list"
  t_caches :: "Cache list"
  t_functions :: "Function list"
  t_invocations :: "Invocation list"
  t_topics :: "Topic list"
  t_subscriptions :: "Subscription list"
  t_notify_messages :: "NotifyMessage list"
  t_stacks :: "Stack list"
  t_stack_resources :: "StackResource list"
  t_events :: "Event list"
  t_audit_logs :: "AuditLog list"

type_synonym 'a op = "(world, error, 'a) cmd"

section \<open>Request context\<close>

text \<open>The only value the code stores in a \<^verbatim>\<open>context.Context\<close> is the user identifier.\<close>

type_synonym ctx = "uuid option"

definition WithUserID :: "ctx \<Rightarrow> uuid \<Rightarrow> ctx" where
  "WithUserID c userID = Some userID"

definition UserIDFromContext :: "ctx \<Rightarrow> uuid" where
  "UserIDFromContext c = (case c of None \<Rightarrow> uuid_Nil | Some u \<Rightarrow> u)"

lemma UserIDFromContext_With [simp]: "UserIDFromContext (WithUserID c u) = u"
  by (simp add: UserIDFromContext_def WithUserID_def)

lemma UserIDFromContext_Some [simp]: "UserIDFromContext (Some u) = u"
  by (simp add: UserIDFromContext_def)

section \<open>Primitive calls\<close>

definition extC :: "'a op \<Rightarrow> 'a op" where
  "extC m = (\<lambda>s. case faults s of
      [] \<Rightarrow> m s
    | None # fs \<Rightarrow> m (s\<lparr>faults := fs\<rparr>)
    | Some msg # fs \<Rightarrow> (Err (ExtError msg), s\<lparr>faults := fs\<rparr>))"

definition newUUID :: "env \<Rightarrow> uuid op" where
  "newUUID E = (\<lambda>s. (Ok (uuid_at E (uuid_ctr s)), s\<lparr>uuid_ctr := Suc (uuid_ctr s)\<rparr>))"

definition nowC :: "time op" where
  "nowC = getC clock"

definition randRead :: "env \<Rightarrow> nat \<Rightarrow> 8 word list op" where
  "randRead E n = extC (\<lambda>s. (Ok (rand_at E (rand_ctr s) n), s\<lparr>rand_ctr := Suc (rand_ctr s)\<rparr>))"

definition bcryptC :: "env \<Rightarrow> string \<Rightarrow> string op" where
  "bcryptC E p = (\<lambda>s. case bcrypt_hash E (rand_ctr s) p of
      None \<Rightarrow> (Err (Errorf ''bcrypt: password length exceeds 72 bytes'' None), s)
    | Some h \<Rightarrow> (Ok h, s\<lparr>rand_ctr := Suc (rand_ctr s)\<rparr>))"

text \<open>A backend call that succeeds is appended to the trace.\<close>

definition backendC :: "backend_call \<Rightarrow> unit op" where
  "backendC c = extC (modifyC (\<lambda>s. s\<lparr>calls := calls s @ [c]\<rparr>))"

definition backendCreateC :: "env \<Rightarrow> backend_call \<Rightarrow> string op" where
  "backendCreateC E c = extC (\<lambda>s. (Ok (cid_at E (length (calls s))), s\<lparr>calls := calls s @ [c]\<rparr>))"

definition metricC :: "metric \<Rightarrow> unit op" where
  "metricC m = modifyC (\<lambda>s. s\<lparr>metrics := metrics s @ [m]\<rparr>)"

text \<open>\<^verbatim>\<open>go f()\<close>: the goroutine is started; it runs at some later moment.\<close>

definition goC :: "task \<Rightarrow> unit op" where
  "goC t = modifyC (\<lambda>s. s\<lparr>tasks := tasks s @ [t]\<rparr>)"

text \<open>
  SQL statements. \<open>queryC\<close> reads rows; \<open>queryRowC\<close> reads the first row or reports no rows; \<open>execC\<close> changes
  the tables unless a constraint is violated and returns the number of affected rows. Constraints are
  given as a list of (violated, name) in the order they are checked.
\<close>

definition queryC :: "(world \<Rightarrow> 'a) \<Rightarrow> 'a op" where
  "queryC f = extC (getC f)"

definition queryRowC :: "(world \<Rightarrow> 'a option) \<Rightarrow> 'a op" where
  "queryRowC f = extC (\<lambda>s. case f s of None \<Rightarrow> (Err ErrNoRows, s) | Some r \<Rightarrow> (Ok r, s))"

definition violated :: "(bool \<times> string) list \<Rightarrow> string option" where
  "violated cs = map_option snd (find fst cs)"

definition execC :: "(world \<Rightarrow> (bool \<times> string) list) \<Rightarrow> (world \<Rightarrow> nat) \<Rightarrow> (world \<Rightarrow> world) \<Rightarrow> nat op" where
  "execC viol n f = extC (\<lambda>s. case violated (viol s) of
      Some c \<Rightarrow> (Err (Constraint c), s) | None \<Rightarrow> (Ok (n s), f s))"

text \<open>An \<^verbatim>\<open>INSERT\<close> of one row.\<close>

definition insertC :: "(world \<Rightarrow> (bool \<times> string) list) \<Rightarrow> (world \<Rightarrow> world) \<Rightarrow> unit op" where
  "insertC viol f = bindC (execC viol (\<lambda>_. 1) f) (\<lambda>_. returnC ())"

definition noConstraint :: "world \<Rightarrow> (bool \<times> string) list" where
  "noConstraint s = []"

text \<open>Foreign keys to \<^verbatim>\<open>users\<close>.\<close>

definition has_user :: "world \<Rightarrow> uuid \<Rightarrow> bool" where
  "has_user s u = list_ex (\<lambda>x. usr_ID x = u) (t_users s)"

lemma has_user_cong: "t_users s' = t_users s \<Longrightarrow> has_user s' u = has_user s u"
  by (simp add: has_user_def)

section \<open>Events and audit log\<close>

definition EventRepository_Create :: "Event \<Rightarrow> unit op" where
  "EventRepository_Create e =
     insertC (\<lambda>s. [(ev_ID e \<in> ev_ID ` set (t_events s), ''events_pkey''),
                   (\<not> has_user s (ev_UserID e), ''events_user_id_fkey'')])
             (\<lambda>s. s\<lparr>t_events := t_events s @ [e]\<rparr>)"

definition EventRepository_List :: "ctx \<Rightarrow> int \<Rightarrow> Event list op" where
  "EventRepository_List ctx limit =
     queryC (\<lambda>s. take (nat limit) (sort_key (\<lambda>e. - ev_CreatedAt e)
       (filter (\<lambda>e. ev_UserID e = UserIDFromContext ctx) (t_events s))))"

definition RecordEvent :: "env \<Rightarrow> ctx \<Rightarrow> string \<Rightarrow> string \<Rightarrow> string \<Rightarrow> gmap \<Rightarrow> unit op" where
  "RecordEvent E ctx action resourceID resourceType metadata =
     bindC (newUUID E) (\<lambda>i.
     bindC nowC (\<lambda>now.
       EventRepository_Create \<lparr>ev_ID = i, ev_UserID = UserIDFromContext ctx, ev_Action = action,
         ev_ResourceID = resourceID, ev_ResourceType = resourceType, ev_Metadata = metadata, ev_CreatedAt = now\<rparr>))"

definition ListEvents :: "ctx \<Rightarrow> int \<Rightarrow> Event list op" where
  "ListEvents ctx limit = EventRepository_List ctx (if limit \<le> 0 then 50 else limit)"

definition AuditRepository_Create :: "AuditLog \<Rightarrow> unit op" where
  "AuditRepository_Create l =
     mapErrC (Wrap Internal ''failed to create audit log'')
       (insertC (\<lambda>s. [(al_ID l \<in> al_ID ` set (t_audit_logs s), ''audit_logs_pkey''),
                      (\<not> has_user s (al_UserID l), ''audit_logs_user_id_fkey'')])
                (\<lambda>s. s\<lparr>t_audit_logs := t_audit_logs s @ [l]\<rparr>))"

definition AuditRepository_ListByUserID :: "uuid \<Rightarrow> int \<Rightarrow> AuditLog list op" where
  "AuditRepository_ListByUserID userID limit =
     mapErrC (Wrap Internal ''failed to list audit logs'')
       (queryC (\<lambda>s. take (nat limit) (sort_key (\<lambda>l. - al_CreatedAt l)
          (filter (\<lambda>l. al_UserID l = userID) (t_audit_logs s)))))"

definition Log :: "env \<Rightarrow> ctx \<Rightarrow> uuid \<Rightarrow> string \<Rightarrow> string \<Rightarrow> string \<Rightarrow> gmap \<Rightarrow> unit op" where
  "Log E ctx userID action resourceType resourceID details =
     bindC (newUUID E) (\<lambda>i.
     bindC nowC (\<lambda>now.
       AuditRepository_Create \<lparr>al_ID = i, al_UserID = userID, al_Action = action, al_ResourceType = resourceType,
         al_ResourceID = resourceID, al_Details = details, al_IPAddress = [], al_UserAgent = [],
         al_CreatedAt = now\<rparr>))"

definition ListLogs :: "uuid \<Rightarrow> int \<Rightarrow> AuditLog list op" where
  "ListLogs userID limit = AuditRepository_ListByUserID userID (if limit \<le> 0 then 50 else limit)"

section \<open>Observations kept by a command\<close>

text \<open>
  \<open>keeps f\<close> relates states on which the observation \<open>f\<close> of the world agrees. It is reflexive and
  transitive, so frame statements about it compose; all \<^emph>\<open>this is untouched\<close> facts of the development
  are instances.
\<close>

definition keeps :: "(world \<Rightarrow> 'x) \<Rightarrow> world \<Rightarrow> world \<Rightarrow> bool" where
  "keeps f s s' \<longleftrightarrow> f s' = f s"

interpretation keeps: frame_rel "keeps f" for f :: "world \<Rightarrow> 'x"
  by unfold_locales (simp_all add: keeps_def)

text \<open>The rows of the other tenants.\<close>

definition others :: "('r \<Rightarrow> uuid) \<Rightarrow> uuid \<Rightarrow> 'r list \<Rightarrow> 'r list" where
  "others owner u rows = filter (\<lambda>r. owner r \<noteq> u) rows"

lemma others_append [simp]: "others owner u (xs @ ys) = others owner u xs @ others owner u ys"
  by (simp add: others_def)

lemma others_own [simp]: "others owner u [r] = (if owner r = u then [] else [r])"
  by (simp add: others_def)

lemma others_upd_where:
  "(\<And>r. P r \<Longrightarrow> owner r = u \<and> owner (f r) = u) \<Longrightarrow> others owner u (upd_where P f rows) = others owner u rows"
  unfolding others_def by (rule filter_upd_where_other) auto

lemma others_filter:
  "(\<And>r. \<not> Q r \<Longrightarrow> owner r = u) \<Longrightarrow> others owner u (filter Q rows) = others owner u rows"
  unfolding others_def by (induction rows) auto

text \<open>An observation that looks at nothing but database tables the bookkeeping of calls never changes.\<close>

definition stable :: "(world \<Rightarrow> 'x) \<Rightarrow> bool" where
  "stable f \<longleftrightarrow> (\<forall>s x. f (s\<lparr>faults := x\<rparr>) = f s) \<and> (\<forall>s x. f (s\<lparr>uuid_ctr := x\<rparr>) = f s) \<and>
     (\<forall>s x. f (s\<lparr>rand_ctr := x\<rparr>) = f s) \<and> (\<forall>s x. f (s\<lparr>calls := x\<rparr>) = f s) \<and>
     (\<forall>s x. f (s\<lparr>metrics := x\<rparr>) = f s) \<and> (\<forall>s x. f (s\<lparr>t_events := x\<rparr>) = f s) \<and>
     (\<forall>s x. f (s\<lparr>t_audit_logs := x\<rparr>) = f s)"

named_theorems keep "commands that keep an observation"

lemma keeps_extC: "stable f \<Longrightarrow> confined (keeps f) m \<Longrightarrow> confined (keeps f) (extC m)"
  by (auto simp: confined_def keeps_def extC_def stable_def split: list.split option.split)

lemma keeps_newUUID [keep]: "stable f \<Longrightarrow> confined (keeps f) (newUUID E)"
  by (simp add: confined_def keeps_def newUUID_def stable_def)

lemma keeps_nowC [keep]: "confined (keeps f) nowC"
  by (simp add: confined_def keeps_def nowC_def)

lemma keeps_randRead [keep]: "stable f \<Longrightarrow> confined (keeps f) (randRead E n)"
  unfolding randRead_def by (rule keeps_extC) (auto simp: confined_def keeps_def stable_def)

lemma keeps_bcryptC [keep]: "stable f \<Longrightarrow> confined (keeps f) (bcryptC E p)"
  by (auto simp: confined_def keeps_def stable_def bcryptC_def split: option.split)

lemma keeps_backendC [keep]: "stable f \<Longrightarrow> confined (keeps f) (backendC c)"
  unfolding backendC_def by (rule keeps_extC) (auto simp: confined_def keeps_def stable_def)

lemma keeps_backendCreateC [keep]: "stable f \<Longrightarrow> confined (keeps f) (backendCreateC E c)"
  unfolding backendCreateC_def by (rule keeps_extC) (auto simp: confined_def keeps_def stable_def)

lemma keeps_metricC [keep]: "stable f \<Longrightarrow> confined (keeps f) (metricC m)"
  by (simp add: confined_def keeps_def metricC_def stable_def)

lemma keeps_goC: "(\<And>s x. f (s\<lparr>tasks := x\<rparr>) = f s) \<Longrightarrow> confined (keeps f) (goC t)"
  by (simp add: confined_def keeps_def goC_def)

lemma keeps_queryC [keep]: "stable f \<Longrightarrow> confined (keeps f) (queryC q)"
  unfolding queryC_def by (rule keeps_extC) (auto simp: confined_def keeps_def)

lemma keeps_queryRowC [keep]: "stable f \<Longrightarrow> confined (keeps f) (queryRowC q)"
  unfolding queryRowC_def by (rule keeps_extC) (auto simp: confined_def keeps_def split: option.split)

lemma keeps_execC: "stable f \<Longrightarrow> (\<And>s. f (g s) = f s) \<Longrightarrow> confined (keeps f) (execC viol n g)"
  unfolding execC_def by (rule keeps_extC) (auto simp: confined_def keeps_def split: option.split)

lemma keeps_insertC: "stable f \<Longrightarrow> (\<And>s. f (g s) = f s) \<Longrightarrow> confined (keeps f) (insertC viol g)"
  unfolding insertC_def by (intro keeps.fr_intros keeps_execC)

lemma keeps_RecordEvent [keep]: "stable f \<Longrightarrow> confined (keeps f) (RecordEvent E ctx a r t m)"
  unfolding RecordEvent_def EventRepository_Create_def
  by (intro keeps.fr_intros keep keeps_insertC) (simp_all add: stable_def)

lemma keeps_Log [keep]: "stable f \<Longrightarrow> confined (keeps f) (Log E ctx u a r t m)"
  unfolding Log_def AuditRepository_Create_def
  by (intro keeps.fr_intros keep keeps_insertC) (simp_all add: stable_def)

lemmas keeps_intros = keeps.fr_intros keep keeps_insertC keeps_execC keeps_goC

section \<open>Runs without faults\<close>

lemma extC_no_fault: "faults s = [] \<Longrightarrow> extC m s = m s"
  by (simp add: extC_def)

lemma run_newUUID [run]: "newUUID E s = (Ok (uuid_at E (uuid_ctr s)), s\<lparr>uuid_ctr := Suc (uuid_ctr s)\<rparr>)"
  by (simp add: newUUID_def)

lemma run_nowC [run]: "nowC s = (Ok (clock s), s)"
  by (simp add: nowC_def)

lemma run_metricC [run]: "metricC m s = (Ok (), s\<lparr>metrics := metrics s @ [m]\<rparr>)"
  by (simp add: metricC_def)

lemma run_goC [run]: "goC t s = (Ok (), s\<lparr>tasks := tasks s @ [t]\<rparr>)"
  by (simp add: goC_def)

lemma run_backendC [run]: "faults s = [] \<Longrightarrow> backendC c s = (Ok (), s\<lparr>calls := calls s @ [c]\<rparr>)"
  by (simp add: backendC_def extC_no_fault)

lemma run_backendCreateC [run]:
  "faults s = [] \<Longrightarrow> backendCreateC E c s = (Ok (cid_at E (length (calls s))), s\<lparr>calls := calls s @ [c]\<rparr>)"
  by (simp add: backendCreateC_def extC_no_fault)

lemma run_randRead [run]:
  "faults s = [] \<Longrightarrow> randRead E n s = (Ok (rand_at E (rand_ctr s) n), s\<lparr>rand_ctr := Suc (rand_ctr s)\<rparr>)"
  by (simp add: randRead_def extC_no_fault)

lemma run_queryC [run]: "faults s = [] \<Longrightarrow> queryC f s = (Ok (f s), s)"
  by (simp add: queryC_def extC_no_fault)

lemma run_queryRowC [run]:
  "faults s = [] \<Longrightarrow> queryRowC f s = (case f s of None \<Rightarrow> (Err ErrNoRows, s) | Some r \<Rightarrow> (Ok r, s))"
  by (simp add: queryRowC_def extC_no_fault)

lemma run_execC [run]:
  "faults s = [] \<Longrightarrow> execC viol n f s =
     (case violated (viol s) of Some c \<Rightarrow> (Err (Constraint c), s) | None \<Rightarrow> (Ok (n s), f s))"
  by (simp add: execC_def extC_no_fault)

lemma run_insertC [run]:
  "faults s = [] \<Longrightarrow> insertC viol f s =
     (case violated (viol s) of Some c \<Rightarrow> (Err (Constraint c), s) | None \<Rightarrow> (Ok (), f s))"
  by (simp add: insertC_def run split: option.split)

lemma violated_Nil [simp]: "violated [] = None"
  by (simp add: violated_def)

lemma violated_Cons [simp]: "violated ((b, c) # cs) = (if b then Some c else violated cs)"
  by (simp add: violated_def)

lemma violated_noConstraint [simp]: "violated (noConstraint s) = None"
  by (simp add: noConstraint_def)

section \<open>Successful calls\<close>

text \<open>Whatever the script of faults, a call that succeeded did what it does without faults, in the state
  with the script consumed.\<close>

lemma faults_self: "faults s = x \<Longrightarrow> s\<lparr>faults := x\<rparr> = s"
  by auto

lemma ok_extC: "extC m s = (Ok x, s') \<Longrightarrow> \<exists>fs. m (s\<lparr>faults := fs\<rparr>) = (Ok x, s')"
proof (cases "faults s")
  case Nil
  assume "extC m s = (Ok x, s')"
  with Nil have "m s = (Ok x, s')" by (simp add: extC_def)
  then show ?thesis by (subst (asm) faults_self [OF Nil, symmetric]) blast
next
  case (Cons f fs)
  assume "extC m s = (Ok x, s')"
  with Cons show ?thesis by (cases f) (auto simp: extC_def)
qed

lemma ok_queryC: "queryC f s = (Ok x, s') \<Longrightarrow> \<exists>fs. s' = s\<lparr>faults := fs\<rparr> \<and> x = f (s\<lparr>faults := fs\<rparr>)"
  unfolding queryC_def by (drule ok_extC) auto

lemma ok_queryRowC: "queryRowC f s = (Ok x, s') \<Longrightarrow> \<exists>fs. s' = s\<lparr>faults := fs\<rparr> \<and> f (s\<lparr>faults := fs\<rparr>) = Some x"
  unfolding queryRowC_def by (drule ok_extC) (auto split: option.splits)

lemma ok_execC: "execC viol n f s = (Ok k, s') \<Longrightarrow>
    \<exists>fs. violated (viol (s\<lparr>faults := fs\<rparr>)) = None \<and> k = n (s\<lparr>faults := fs\<rparr>) \<and> s' = f (s\<lparr>faults := fs\<rparr>)"
  unfolding execC_def by (drule ok_extC) (auto split: option.splits)

lemma ok_insertC: "insertC viol f s = (Ok u, s') \<Longrightarrow>
    \<exists>fs. violated (viol (s\<lparr>faults := fs\<rparr>)) = None \<and> s' = f (s\<lparr>faults := fs\<rparr>)"
  unfolding insertC_def by (auto simp: ok_simps dest: ok_execC)

text \<open>A statement followed by the check of its row count.\<close>

lemma ok_execC_rows:
  "bindC (execC viol n f) (\<lambda>k. guardC (k = 0) e) s = (Ok u, s') \<Longrightarrow>
    \<exists>fs. violated (viol (s\<lparr>faults := fs\<rparr>)) = None \<and> n (s\<lparr>faults := fs\<rparr>) \<noteq> 0 \<and> s' = f (s\<lparr>faults := fs\<rparr>)"
  by (auto simp: ok_simps dest!: ok_execC)

section \<open>All paths of the primitive calls\<close>

lemma wp_extC:
  "(\<And>msg fs. Q (Err (ExtError msg)) (s\<lparr>faults := fs\<rparr>)) \<Longrightarrow> (\<And>fs. wp m Q (s\<lparr>faults := fs\<rparr>)) \<Longrightarrow> wp (extC m) Q s"
proof -
  assume err: "\<And>msg fs. Q (Err (ExtError msg)) (s\<lparr>faults := fs\<rparr>)" and m: "\<And>fs. wp m Q (s\<lparr>faults := fs\<rparr>)"
  show "wp (extC m) Q s"
  proof (cases "faults s")
    case Nil
    with m [of "[]"] show ?thesis by (simp add: wp_def extC_def faults_self)
  next
    case (Cons f fs)
    with err m [of fs] show ?thesis by (cases f) (auto simp: wp_def extC_def)
  qed
qed

lemma wp_queryRowC:
  "(\<And>msg fs. Q (Err (ExtError msg)) (s\<lparr>faults := fs\<rparr>)) \<Longrightarrow>
   (\<And>fs. f (s\<lparr>faults := fs\<rparr>) = None \<Longrightarrow> Q (Err ErrNoRows) (s\<lparr>faults := fs\<rparr>)) \<Longrightarrow>
   (\<And>fs r. f (s\<lparr>faults := fs\<rparr>) = Some r \<Longrightarrow> Q (Ok r) (s\<lparr>faults := fs\<rparr>)) \<Longrightarrow> wp (queryRowC f) Q s"
  unfolding queryRowC_def by (rule wp_extC) (auto simp: wp_def split: option.split)

lemma wp_queryC:
  "(\<And>msg fs. Q (Err (ExtError msg)) (s\<lparr>faults := fs\<rparr>)) \<Longrightarrow>
   (\<And>fs. Q (Ok (f (s\<lparr>faults := fs\<rparr>))) (s\<lparr>faults := fs\<rparr>)) \<Longrightarrow> wp (queryC f) Q s"
  unfolding queryC_def by (rule wp_extC) (auto simp: wps)

lemma wp_execC:
  "(\<And>msg fs. Q (Err (ExtError msg)) (s\<lparr>faults := fs\<rparr>)) \<Longrightarrow>
   (\<And>fs c. violated (viol (s\<lparr>faults := fs\<rparr>)) = Some c \<Longrightarrow> Q (Err (Constraint c)) (s\<lparr>faults := fs\<rparr>)) \<Longrightarrow>
   (\<And>fs. violated (viol (s\<lparr>faults := fs\<rparr>)) = None \<Longrightarrow> Q (Ok (n (s\<lparr>faults := fs\<rparr>))) (f (s\<lparr>faults := fs\<rparr>))) \<Longrightarrow>
   wp (execC viol n f) Q s"
  unfolding execC_def by (rule wp_extC) (auto simp: wp_def split: option.split)

lemma wp_insertC:
  "(\<And>msg fs. Q (Err (ExtError msg)) (s\<lparr>faults := fs\<rparr>)) \<Longrightarrow>
   (\<And>fs c. violated (viol (s\<lparr>faults := fs\<rparr>)) = Some c \<Longrightarrow> Q (Err (Constraint c)) (s\<lparr>faults := fs\<rparr>)) \<Longrightarrow>
   (\<And>fs. violated (viol (s\<lparr>faults := fs\<rparr>)) = None \<Longrightarrow> Q (Ok ()) (f (s\<lparr>faults := fs\<rparr>))) \<Longrightarrow>
   wp (insertC viol f) Q s"
  unfolding insertC_def wp_bindC by (rule wp_execC) (auto simp: wps)

text \<open>
  \<open>core\<close> erases what the bookkeeping of a call changes: the fault script, the counters, the traces, the
  event and audit tables. Calls that keep it change no resource table and no in-memory state.
\<close>

definition core :: "world \<Rightarrow> world" where
  "core s = s\<lparr>faults := [], uuid_ctr := 0, rand_ctr := 0, calls := [], metrics := [], t_events := [], t_audit_logs := []\<rparr>"

lemma stable_core [simp]: "stable core"
  by (simp add: stable_def core_def)

lemma core_faults [simp]: "core (s\<lparr>faults := x\<rparr>) = core s"
  by (simp add: core_def)

lemma core_eq_iff:
  "core s' = core s \<longleftrightarrow>
     clock s' = clock s \<and> failedAttempts s' = failedAttempts s \<and>
     lockouts s' = lockouts s \<and> tasks s' = tasks s \<and> files s' = files s \<and>
     gw_table s' = gw_table s \<and> t_users s' = t_users s \<and> t_api_keys s' = t_api_keys s \<and>
     t_reset_tokens s' = t_reset_tokens s \<and> t_roles s' = t_roles s \<and>
     t_role_permissions s' = t_role_permissions s \<and> t_vpcs s' = t_vpcs s \<and>
     t_subnets s' = t_subnets s \<and> t_instances s' = t_instances s \<and>
     t_volumes s' = t_volumes s \<and> t_load_balancers s' = t_load_balancers s \<and>
     t_lb_targets s' = t_lb_targets s \<and> t_scaling_groups s' = t_scaling_groups s \<and>
     t_scaling_policies s' = t_scaling_policies s \<and>
     t_scaling_group_instances s' = t_scaling_group_instances s \<and>
     t_metrics_history s' = t_metrics_history s \<and> t_queues s' = t_queues s \<and>
     t_queue_messages s' = t_queue_messages s \<and> t_security_groups s' = t_security_groups s \<and>
     t_security_rules s' = t_security_rules s \<and>
     t_instance_security_groups s' = t_instance_security_groups s \<and>
     t_snapshots s' = t_snapshots s \<and> t_secrets s' = t_secrets s \<and>
     t_objects s' = t_objects s \<and> t_cron_jobs s' = t_cron_jobs s \<and>
     t_cron_job_runs s' = t_cron_job_runs s \<and> t_gateway_routes s' = t_gateway_routes s \<and>
     t_deployments s' = t_deployments s \<and>
     t_deployment_containers s' = t_deployment_containers s \<and> t_databases s' = t_databases s \<and>
     t_caches s' = t_caches s \<and> t_functions s' = t_functions s \<and>
     t_invocations s' = t_invocations s \<and> t_topics s' = t_topics s \<and>
     t_subscriptions s' = t_subscriptions s \<and> t_notify_messages s' = t_notify_messages s \<and>
     t_stacks s' = t_stacks s \<and> t_stack_resources s' = t_stack_resources s"
  by (cases s; cases s') (auto simp: core_def)

text \<open>Calls of which only the kept core matters, as rules for the search.\<close>

named_theorems wp_core "calls that keep the core, whatever their outcome"

lemma wp_keeps_core: "confined (keeps core) m \<Longrightarrow> (\<And>r s'. core s' = core s \<Longrightarrow> Q r s') \<Longrightarrow> wp m Q s"
  by (rule wp_confined [where R = "keeps core"]) (simp_all add: keeps_def)

lemmas wp_core_calls [wp_core] =
  wp_keeps_core [OF keeps_newUUID [OF stable_core]]
  wp_keeps_core [OF keeps_nowC]
  wp_keeps_core [OF keeps_randRead [OF stable_core]]
  wp_keeps_core [OF keeps_bcryptC [OF stable_core]]
  wp_keeps_core [OF keeps_backendC [OF stable_core]]
  wp_keeps_core [OF keeps_backendCreateC [OF stable_core]]
  wp_keeps_core [OF keeps_metricC [OF stable_core]]
  wp_keeps_core [OF keeps_RecordEvent [OF stable_core]]
  wp_keeps_core [OF keeps_Log [OF stable_core]]

section \<open>Runs without faults, by wp\<close>

named_theorems wpnf "equations of wp for calls that meet no fault"

lemma wp_newUUID [wpnf]: "wp (newUUID E) Q s \<longleftrightarrow> Q (Ok (uuid_at E (uuid_ctr s))) (s\<lparr>uuid_ctr := Suc (uuid_ctr s)\<rparr>)"
  by (simp add: wp_def run)

lemma wp_nowC [wpnf]: "wp nowC Q s \<longleftrightarrow> Q (Ok (clock s)) s"
  by (simp add: wp_def run)

lemma wp_metricC [wpnf]: "wp (metricC m) Q s \<longleftrightarrow> Q (Ok ()) (s\<lparr>metrics := metrics s @ [m]\<rparr>)"
  by (simp add: wp_def run)

lemma wp_goC [wps]: "wp (goC t) Q s \<longleftrightarrow> Q (Ok ()) (s\<lparr>tasks := tasks s @ [t]\<rparr>)"
  by (simp add: wp_def run)

lemma wp_backendC_nf [wpnf]:
  "faults s = [] \<Longrightarrow> wp (backendC c) Q s \<longleftrightarrow> Q (Ok ()) (s\<lparr>calls := calls s @ [c]\<rparr>)"
  by (simp add: wp_def run)

lemma wp_backendCreateC_nf [wpnf]:
  "faults s = [] \<Longrightarrow> wp (backendCreateC E c) Q s \<longleftrightarrow> Q (Ok (cid_at E (length (calls s)))) (s\<lparr>calls := calls s @ [c]\<rparr>)"
  by (simp add: wp_def run)

lemma wp_randRead_nf [wpnf]:
  "faults s = [] \<Longrightarrow> wp (randRead E n) Q s \<longleftrightarrow> Q (Ok (rand_at E (rand_ctr s) n)) (s\<lparr>rand_ctr := Suc (rand_ctr s)\<rparr>)"
  by (simp add: wp_def run)

lemma wp_queryC_nf [wpnf]: "faults s = [] \<Longrightarrow> wp (queryC f) Q s \<longleftrightarrow> Q (Ok (f s)) s"
  by (simp add: wp_def run)

lemma wp_queryRowC_nf [wpnf]:
  "faults s = [] \<Longrightarrow> wp (queryRowC f) Q s \<longleftrightarrow> (case f s of None \<Rightarrow> Q (Err ErrNoRows) s | Some r \<Rightarrow> Q (Ok r) s)"
  by (simp add: wp_def run split: option.split)

lemma wp_execC_nf [wpnf]:
  "faults s = [] \<Longrightarrow> wp (execC viol n f) Q s \<longleftrightarrow>
     (case violated (viol s) of Some c \<Rightarrow> Q (Err (Constraint c)) s | None \<Rightarrow> Q (Ok (n s)) (f s))"
  by (simp add: wp_def run split: option.split)

lemma wp_insertC_nf [wpnf]:
  "faults s = [] \<Longrightarrow> wp (insertC viol f) Q s \<longleftrightarrow>
     (case violated (viol s) of Some c \<Rightarrow> Q (Err (Constraint c)) s | None \<Rightarrow> Q (Ok ()) (f s))"
  by (simp add: wp_def run split: option.split)

text \<open>A call under a script that decides it.\<close>

lemma wp_extC_script:
  "faults s = None # fs \<Longrightarrow> wp (extC m) Q s \<longleftrightarrow> wp m Q (s\<lparr>faults := fs\<rparr>)"
  "faults s = Some msg # fs \<Longrightarrow> wp (extC m) Q s \<longleftrightarrow> Q (Err (ExtError msg)) (s\<lparr>faults := fs\<rparr>)"
  by (simp_all add: wp_def extC_def)

lemma wp_insertC_script:
  "faults s = None # fs \<Longrightarrow> wp (insertC viol f) Q s \<longleftrightarrow>
     (case violated (viol (s\<lparr>faults := fs\<rparr>)) of Some c \<Rightarrow> Q (Err (Constraint c)) (s\<lparr>faults := fs\<rparr>)
      | None \<Rightarrow> Q (Ok ()) (f (s\<lparr>faults := fs\<rparr>)))"
  by (simp add: insertC_def execC_def wps wp_extC_script) (simp add: wp_def run split: option.split)

lemma wp_backendCreateC_script:
  "faults s = Some msg # fs \<Longrightarrow> wp (backendCreateC E c) Q s \<longleftrightarrow> Q (Err (ExtError msg)) (s\<lparr>faults := fs\<rparr>)"
  by (simp add: backendCreateC_def wp_extC_script)

lemma wp_backendC_script:
  "faults s = Some msg # fs \<Longrightarrow> wp (backendC c) Q s \<longleftrightarrow> Q (Err (ExtError msg)) (s\<lparr>faults := fs\<rparr>)"
  by (simp add: backendC_def wp_extC_script)

lemma wp_queryRowC_script:
  "faults s = None # fs \<Longrightarrow> wp (queryRowC f) Q s \<longleftrightarrow>
     (case f (s\<lparr>faults := fs\<rparr>) of None \<Rightarrow> Q (Err ErrNoRows) (s\<lparr>faults := fs\<rparr>) | Some r \<Rightarrow> Q (Ok r) (s\<lparr>faults := fs\<rparr>))"
  by (simp add: queryRowC_def wp_extC_script) (simp add: wp_def split: option.split)

lemmas wp_script = wp_insertC_script wp_backendCreateC_script wp_backendC_script wp_queryRowC_script

text \<open>Recording an event or an audit entry without a fault changes the two tables and the identifier
  counter only, and does not panic.\<close>

definition logged :: "world \<Rightarrow> world \<Rightarrow> bool" where
  "logged s s' \<longleftrightarrow> core s' = core s \<and> faults s' = faults s \<and> calls s' = calls s \<and> metrics s' = metrics s \<and>
     rand_ctr s' = rand_ctr s \<and> uuid_ctr s' = Suc (uuid_ctr s)"

lemma wp_RecordEvent_nf:
  "faults s = [] \<Longrightarrow> (\<And>r s'. logged s s' \<Longrightarrow> (\<And>p. r \<noteq> Panic p) \<Longrightarrow> Q r s') \<Longrightarrow> wp (RecordEvent E ctx a b c d) Q s"
  by (simp add: RecordEvent_def EventRepository_Create_def wps wpnf logged_def core_def split: option.split)

lemma wp_Log_nf:
  "faults s = [] \<Longrightarrow> (\<And>r s'. logged s s' \<Longrightarrow> (\<And>p. r \<noteq> Panic p) \<Longrightarrow> Q r s') \<Longrightarrow> wp (Log E ctx u a b c d) Q s"
  by (simp add: Log_def AuditRepository_Create_def wps wpnf logged_def core_def split: option.split)

lemma wp_ignore_RecordEvent_nf:
  "faults s = [] \<Longrightarrow> (\<And>s'. logged s s' \<Longrightarrow> Q (Ok ()) s') \<Longrightarrow> wp (ignoreC (RecordEvent E ctx a b c d)) Q s"
  unfolding wp_ignoreC by (rule wp_RecordEvent_nf) (auto split: outcome.split)

lemma wp_ignore_Log_nf:
  "faults s = [] \<Longrightarrow> (\<And>s'. logged s s' \<Longrightarrow> Q (Ok ()) s') \<Longrightarrow> wp (ignoreC (Log E ctx u a b c d)) Q s"
  unfolding wp_ignoreC by (rule wp_Log_nf) (auto split: outcome.split)

lemmas logged_simps = logged_def core_eq_iff

section \<open>The trace of backend calls\<close>

text \<open>The trace only grows: what a backend was asked to do is never forgotten.\<close>

definition extends :: "world \<Rightarrow> world \<Rightarrow> bool" where
  "extends s s' \<longleftrightarrow> (\<exists>cs. calls s' = calls s @ cs)"

interpretation extends: frame_rel extends
  by unfold_locales (auto simp: extends_def)

named_theorems grow "commands that only extend the trace of calls"

lemma extends_extC: "confined extends m \<Longrightarrow> confined extends (extC m)"
  by (auto simp: confined_def extends_def extC_def split: list.split option.split) (metis select_convs(5) surjective update_convs(1))+

lemma extends_prim [grow]:
  "confined extends (newUUID E)" "confined extends nowC" "confined extends (metricC m)" "confined extends (goC t)"
  by (simp_all add: confined_def extends_def run)

lemma extends_bcryptC [grow]: "confined extends (bcryptC E p)"
  by (auto simp: confined_def extends_def bcryptC_def split: option.split)

lemma extends_calls [grow]:
  "confined extends (backendC c)" "confined extends (backendCreateC E c)" "confined extends (randRead E n)"
  "confined extends (queryC f)" "confined extends (queryRowC g)"
  unfolding backendC_def backendCreateC_def randRead_def queryC_def queryRowC_def
  by (rule extends_extC, simp add: confined_def extends_def split: option.split)+

lemma extends_execC: "(\<And>s. calls (f s) = calls s) \<Longrightarrow> confined extends (execC viol n f)"
  unfolding execC_def by (rule extends_extC) (simp add: confined_def extends_def split: option.split)

lemma extends_insertC: "(\<And>s. calls (f s) = calls s) \<Longrightarrow> confined extends (insertC viol f)"
  unfolding insertC_def by (intro extends.fr_intros extends_execC)

lemma extends_log [grow]: "confined extends (RecordEvent E ctx a b c d)" "confined extends (Log E ctx u a' b' c' d')"
  unfolding RecordEvent_def EventRepository_Create_def Log_def AuditRepository_Create_def
  by (intro extends.fr_intros grow extends_insertC; simp)+

lemma wp_extends: "confined extends m \<Longrightarrow> (\<And>r s'. extends s s' \<Longrightarrow> Q r s') \<Longrightarrow> wp m Q s"
  by (rule wp_confined)

lemma extends_mem: "extends s s' \<Longrightarrow> c \<in> set (calls s) \<Longrightarrow> c \<in> set (calls s')"
  by (auto simp: extends_def)

lemmas extends_intros = extends.fr_intros extends_execC extends_insertC

section \<open>A sample environment\<close>

text \<open>A concrete environment and world, on which the properties with hypotheses are shown to apply.\<close>

definition sample_env :: env where
  "sample_env = \<lparr>uuid_parse = (\<lambda>s. map_option word_of_int (Atoi s)), uuid_string = (\<lambda>u. nat_string (unat u)),
     uuid_at = (\<lambda>n. word_of_nat (n + 100)), rand_at = (\<lambda>n k. replicate k (word_of_nat n)),
     bcrypt_hash = (\<lambda>n p. if length p > 72 then None else Some (''hash:'' @ p)),
     bcrypt_match = (\<lambda>h p. h = ''hash:'' @ p),
     password_validate = (\<lambda>p. if length p < 8 then Some ''insecure password'' else None),
     sha256 = (\<lambda>s. map (\<lambda>c. word_of_nat (of_char c)) s),
     cid_at = (\<lambda>n. ''c'' @ nat_string n), compute_type = ''docker'', network_nil = False,
     inet_text = (\<lambda>s. Some (s @ ''/32'')), cidr_text = Some, backend_logs = (\<lambda>_. []), backend_stats = (\<lambda>_. None),
     map_range = (\<lambda>m. m), route_range = (\<lambda>m. m), resource_range = (\<lambda>n m. m),
     cron_next = (\<lambda>d s. if s = ''* * * * *'' \<or> d \<and> s = ''@hourly'' then Inr (\<lambda>t. t + Minute) else Inl ''bad schedule''),
     http_at = (\<lambda>n. (200, ''200 OK'')), http_request_err = (\<lambda>m u. None), url_host = (\<lambda>u. Some u),
     hkdf = (\<lambda>k salt. take 32 (salt @ replicate 32 0)), gcm_seal = (\<lambda>k n p. map (\<lambda>c. word_of_nat (of_char c)) p),
     gcm_open = (\<lambda>k n c. Some (map (\<lambda>b. char_of (unat b)) c)), yaml_template = (\<lambda>s. Inl ''not YAML''), json_params = (\<lambda>ps. ''{}''),
     backend_port = (\<lambda>c p. 32768), backend_exec = (\<lambda>c cmd. []), backend_exec_err = (\<lambda>c cmd. []), task_exit = (\<lambda>c. 0), zip_entries = (\<lambda>z. Inr []),
     tmp_dir = (\<lambda>n p. ''/tmp/'' @ p @ nat_string n), masterKey = ''default-thecloud-development-key-32chars''\<rparr>"

definition sample_user :: "uuid \<Rightarrow> string \<Rightarrow> User" where
  "sample_user i email = \<lparr>usr_ID = i, usr_Email = email, usr_PasswordHash = ''hash:correct horse'', usr_Name = ''n'',
     usr_Role = ''developer'', usr_CreatedAt = 0, usr_UpdatedAt = 0\<rparr>"

definition sample_world :: world where
  "sample_world = \<lparr>faults = [], uuid_ctr = 0, rand_ctr = 0, clock = 0, calls = [], metrics = [],
     failedAttempts = Map.empty, lockouts = Map.empty, tasks = [], files = Map.empty, gw_table = [],
     t_users = [sample_user 1 ''a@x'', sample_user 2 ''b@x''], t_api_keys = [], t_reset_tokens = [], t_roles = [],
     t_role_permissions = [], t_vpcs = [], t_subnets = [], t_instances = [], t_volumes = [],
     t_load_balancers = [], t_lb_targets = [], t_scaling_groups = [], t_scaling_policies = [],
     t_scaling_group_instances = [], t_metrics_history = [], t_queues = [], t_queue_messages = [],
     t_security_groups = [], t_security_rules = [], t_instance_security_groups = [], t_snapshots = [],
     t_secrets = [], t_objects = [], t_cron_jobs = [], t_cron_job_runs = [], t_gateway_routes = [],
     t_deployments = [], t_deployment_containers = [], t_databases = [], t_caches = [],
     t_functions = [], t_invocations = [], t_topics = [], t_subscriptions = [], t_notify_messages = [],
     t_stacks = [], t_stack_resources = [],
     t_events = [], t_audit_logs = []\<rparr>"

lemma sample_world_simps [simp]:
  "faults sample_world = []" "calls sample_world = []" "metrics sample_world = []" "t_api_keys sample_world =
  []" "t_reset_tokens sample_world = []" "t_roles sample_world = []" "t_role_permissions sample_world = []"
  "t_vpcs sample_world = []" "t_subnets sample_world = []" "t_instances sample_world = []" "t_volumes
  sample_world = []" "t_load_balancers sample_world = []" "t_lb_targets sample_world = []" "t_scaling_groups
  sample_world = []" "t_scaling_policies sample_world = []" "t_scaling_group_instances sample_world = []"
  "t_metrics_history sample_world = []" "t_queues sample_world = []" "t_queue_messages sample_world = []"
  "t_events sample_world = []" "t_audit_logs sample_world = []"
  "uuid_ctr sample_world = 0" "rand_ctr sample_world = 0" "clock sample_world = 0"
  "failedAttempts sample_world = Map.empty" "lockouts sample_world = Map.empty"
  "tasks sample_world = []" "files sample_world = Map.empty" "gw_table sample_world = []"
  "t_security_groups sample_world = []" "t_security_rules sample_world = []"
  "t_instance_security_groups sample_world = []" "t_snapshots sample_world = []"
  "t_secrets sample_world = []" "t_objects sample_world = []" "t_cron_jobs sample_world = []"
  "t_cron_job_runs sample_world = []" "t_gateway_routes sample_world = []"
  "t_deployments sample_world = []" "t_deployment_containers sample_world = []"
  "t_databases sample_world = []" "t_caches sample_world = []" "t_functions sample_world = []"
  "t_invocations sample_world = []" "t_topics sample_world = []" "t_subscriptions sample_world = []"
  "t_notify_messages sample_world = []" "t_stacks sample_world = []"
  "t_stack_resources sample_world = []"
  "t_users sample_world = [sample_user 1 ''a@x'', sample_user 2 ''b@x'']"
  by (simp_all add: sample_world_def)

lemma sample_env_simps [simp]:
  "uuid_parse sample_env s = map_option word_of_int (Atoi s)" "uuid_string sample_env u = nat_string (unat u)"
  "uuid_at sample_env n = word_of_nat (n + 100)" "rand_at sample_env n k = replicate k (word_of_nat n)"
  "bcrypt_hash sample_env n p = (if length p > 72 then None else Some (''hash:'' @ p))"
  "bcrypt_match sample_env h p = (h = ''hash:'' @ p)"
  "password_validate sample_env p = (if length p < 8 then Some ''insecure password'' else None)"
  "sha256 sample_env t = map (\<lambda>c. word_of_nat (of_char c)) t" "cid_at sample_env n = ''c'' @ nat_string n"
  "compute_type sample_env = ''docker''" "network_nil sample_env = False" "inet_text sample_env s = Some (s @ ''/32'')"
  "cidr_text sample_env = Some" "backend_logs sample_env c = []" "backend_stats sample_env c = None" "map_range sample_env m = m"
  "route_range sample_env rs = rs" "resource_range sample_env n ts = ts"
  "cron_next sample_env d s = (if s = ''* * * * *'' \<or> d \<and> s = ''@hourly'' then Inr (\<lambda>t. t + Minute) else Inl ''bad schedule'')"
  "http_at sample_env n = (200, ''200 OK'')" "http_request_err sample_env me ur = None" "url_host sample_env ur = Some ur"
  "hkdf sample_env ke salt = take 32 (salt @ replicate 32 0)" "gcm_seal sample_env gk no t = map (\<lambda>c. word_of_nat (of_char c)) t"
  "gcm_open sample_env gk no bs = Some (map (\<lambda>b. char_of (unat b)) bs)" "yaml_template sample_env s = Inl ''not YAML''" "json_params sample_env ps = ''{}''"
  "backend_port sample_env c t = 32768" "backend_exec sample_env c cs = []" "backend_exec_err sample_env c cs = []" "task_exit sample_env c = 0" "zip_entries sample_env t = Inr []"
  "tmp_dir sample_env n t = ''/tmp/'' @ t @ nat_string n" "masterKey sample_env = ''default-thecloud-development-key-32chars''"
  by (simp_all add: sample_env_def)

lemma sample_user_simps [simp]: "usr_ID (sample_user i e) = i" "usr_Email (sample_user i e) = e"
  "usr_PasswordHash (sample_user i e) = ''hash:correct horse''" "usr_Role (sample_user i e) = ''developer''"
  by (simp_all add: sample_user_def)

lemma sample_has_user [simp]: "has_user sample_world 1" "has_user sample_world 2"
  by (simp_all add: has_user_def sample_world_def sample_user_def)

end
