(* ===== verification/Volumes.thy ===== *)
theory Volumes
  imports World
begin

text \<open>
  Block storage: the repository \<^verbatim>\<open>volume_repo.go\<close> over the table \<^verbatim>\<open>volumes\<close> and the service \<^verbatim>\<open>volume.go\<close>. The
  theory also states what a tenant-scoped repository promises, as a locale that the repositories of
  the other components interpret too.
\<close>

section \<open>Tenant-scoped repositories\<close>

text \<open>
  A repository whose queries carry \<^verbatim>\<open>AND user_id = $n\<close>: a lookup returns a row of the table with the asked
  identifier that belongs to the caller, and a successful deletion removes exactly such rows.
\<close>

locale tenant_repo =
  fixes tbl :: "world \<Rightarrow> 'r list"
    and key :: "'r \<Rightarrow> uuid"
    and owner :: "'r \<Rightarrow> uuid"
    and getByID :: "ctx \<Rightarrow> uuid \<Rightarrow> 'r op"
    and del :: "ctx \<Rightarrow> uuid \<Rightarrow> unit op"
  assumes get_ok: "getByID ctx i s = (Ok r, s') \<Longrightarrow>
      r \<in> set (tbl s) \<and> key r = i \<and> owner r = UserIDFromContext ctx \<and> tbl s' = tbl s"
    and del_ok: "del ctx i s = (Ok (), s') \<Longrightarrow>
      (\<exists>r \<in> set (tbl s). key r = i \<and> owner r = UserIDFromContext ctx) \<and>
      tbl s' = filter (\<lambda>r. \<not> (key r = i \<and> owner r = UserIDFromContext ctx)) (tbl s)"
begin

lemma get_foreign:
  assumes "\<And>r. r \<in> set (tbl s) \<Longrightarrow> key r = i \<Longrightarrow> owner r \<noteq> UserIDFromContext ctx"
  shows "fst (getByID ctx i s) \<noteq> Ok r"
  using assms get_ok [of ctx i s r "snd (getByID ctx i s)"] by (metis prod.collapse)

lemma del_foreign:
  assumes "\<And>r. r \<in> set (tbl s) \<Longrightarrow> key r = i \<Longrightarrow> owner r \<noteq> UserIDFromContext ctx"
  shows "fst (del ctx i s) \<noteq> Ok ()"
  using assms del_ok [of ctx i s "snd (del ctx i s)"] by (metis prod.collapse)

lemma del_others:
  assumes "del ctx i s = (Ok (), s')" and "owner r \<noteq> UserIDFromContext ctx \<or> key r \<noteq> i"
  shows "r \<in> set (tbl s') \<longleftrightarrow> r \<in> set (tbl s)"
  using del_ok [OF assms(1)] assms(2) by auto

lemma del_get:
  assumes "del ctx i s = (Ok (), s')"
  shows "fst (getByID ctx i s') \<noteq> Ok r"
  by (rule get_foreign) (use del_ok [OF assms] in auto)

end

text \<open>A repository that also lists the caller's rows.\<close>

locale tenant_list_repo = tenant_repo +
  fixes list :: "ctx \<Rightarrow> 'a list op"
  assumes list_ok: "list ctx s = (Ok rs, s') \<Longrightarrow>
      set rs = {r \<in> set (tbl s). owner r = UserIDFromContext ctx} \<and> tbl s' = tbl s"
begin

lemma get_in_list:
  assumes "getByID ctx i s = (Ok r, s')" and "list ctx s = (Ok rs, s'')"
  shows "r \<in> set rs"
  using get_ok [OF assms(1)] list_ok [OF assms(2)] by auto

lemma list_disjoint:
  assumes "list ctx s = (Ok rs, s')" and "list ctx' s = (Ok rs', s'')"
    and "UserIDFromContext ctx \<noteq> UserIDFromContext ctx'"
  shows "set rs \<inter> set rs' = {}"
  using list_ok [OF assms(1)] list_ok [OF assms(2)] assms(3) by auto

lemma del_list:
  assumes "del ctx i s = (Ok (), s')" and "list ctx s' = (Ok rs, s'')"
  shows "\<forall>r \<in> set rs. key r \<noteq> i"
  using del_ok [OF assms(1)] list_ok [OF assms(2)] by auto

end

section \<open>The repository\<close>

definition has_instance :: "world \<Rightarrow> uuid \<Rightarrow> bool" where
  "has_instance s i = list_ex (\<lambda>x. inst_ID x = i) (t_instances s)"

definition fk_instance :: "world \<Rightarrow> uuid option \<Rightarrow> bool" where
  "fk_instance s i = (case i of None \<Rightarrow> True | Some i \<Rightarrow> has_instance s i)"

definition VolumeRepository_Create :: "Volume \<Rightarrow> unit op" where
  "VolumeRepository_Create v =
     insertC (\<lambda>s. [(vol_ID v \<in> vol_ID ` set (t_volumes s), ''volumes_pkey''),
                   (vol_Name v \<in> vol_Name ` set (t_volumes s), ''volumes_name_key''),
                   (\<not> fk_instance s (vol_InstanceID v), ''volumes_instance_id_fkey''),
                   (\<not> has_user s (vol_UserID v), ''volumes_user_id_fkey'')])
             (\<lambda>s. s\<lparr>t_volumes := t_volumes s @ [v]\<rparr>)"

definition VolumeRepository_GetByID :: "ctx \<Rightarrow> uuid \<Rightarrow> Volume op" where
  "VolumeRepository_GetByID ctx i =
     queryRowC (\<lambda>s. find (\<lambda>v. vol_ID v = i \<and> vol_UserID v = UserIDFromContext ctx) (t_volumes s))"

definition VolumeRepository_GetByName :: "ctx \<Rightarrow> string \<Rightarrow> Volume op" where
  "VolumeRepository_GetByName ctx name =
     queryRowC (\<lambda>s. find (\<lambda>v. vol_Name v = name \<and> vol_UserID v = UserIDFromContext ctx) (t_volumes s))"

definition VolumeRepository_List :: "ctx \<Rightarrow> Volume list op" where
  "VolumeRepository_List ctx =
     queryC (\<lambda>s. sort_key (\<lambda>v. - vol_CreatedAt v)
       (filter (\<lambda>v. vol_UserID v = UserIDFromContext ctx) (t_volumes s)))"

definition VolumeRepository_ListByInstanceID :: "ctx \<Rightarrow> uuid \<Rightarrow> Volume list op" where
  "VolumeRepository_ListByInstanceID ctx instanceID =
     queryC (\<lambda>s. filter (\<lambda>v. vol_InstanceID v = Some instanceID \<and> vol_UserID v = UserIDFromContext ctx) (t_volumes s))"

definition VolumeRepository_Update :: "Volume \<Rightarrow> unit op" where
  "VolumeRepository_Update v =
     (let P = (\<lambda>r. vol_ID r = vol_ID v \<and> vol_UserID r = vol_UserID v) in
      bindC (execC (\<lambda>s. [(list_ex P (t_volumes s) \<and> \<not> fk_instance s (vol_InstanceID v), ''volumes_instance_id_fkey'')])
               (\<lambda>s. rows_affected P (t_volumes s))
               (\<lambda>s. s\<lparr>t_volumes := upd_where P (\<lambda>r. r\<lparr>vol_Status := vol_Status v, vol_InstanceID := vol_InstanceID v,
                   vol_MountPath := vol_MountPath v, vol_UpdatedAt := vol_UpdatedAt v\<rparr>) (t_volumes s)\<rparr>))
        (\<lambda>_. returnC ()))"

text \<open>Snapshots of a deleted volume go with it (\<^verbatim>\<open>ON DELETE CASCADE\<close>).\<close>

definition VolumeRepository_Delete :: "ctx \<Rightarrow> uuid \<Rightarrow> unit op" where
  "VolumeRepository_Delete ctx i =
     (let P = (\<lambda>r. vol_ID r = i \<and> vol_UserID r = UserIDFromContext ctx) in
      bindC (execC noConstraint (\<lambda>s. rows_affected P (t_volumes s))
               (\<lambda>s. s\<lparr>t_volumes := filter (\<lambda>r. \<not> P r) (t_volumes s),
                      t_snapshots := (if list_ex P (t_volumes s) then filter (\<lambda>n. snap_VolumeID n \<noteq> i) (t_snapshots s)
                                      else t_snapshots s)\<rparr>))
        (\<lambda>n. guardC (n = 0) (New NotFound ''volume not found'')))"

section \<open>The service\<close>

definition dockerVolName :: "env \<Rightarrow> uuid \<Rightarrow> string" where
  "dockerVolName E i = ''thecloud-vol-'' @ id8 E i"

definition bytesOfGB :: "int \<Rightarrow> int" where
  "bytesOfGB gb = gb * 1024 * 1024 * 1024"

definition CreateVolume :: "env \<Rightarrow> ctx \<Rightarrow> string \<Rightarrow> int \<Rightarrow> Volume op" where
  "CreateVolume E ctx name sizeGB =
     bindC (newUUID E) (\<lambda>i.
     bindC nowC (\<lambda>now.
     let vol = \<lparr>vol_ID = i, vol_UserID = UserIDFromContext ctx, vol_Name = name, vol_SizeGB = sizeGB,
                vol_Status = VolumeStatusAvailable, vol_InstanceID = None, vol_MountPath = [],
                vol_CreatedAt = now, vol_UpdatedAt = now\<rparr>;
         dockerName = dockerVolName E i
     in
     bindC (mapErrC (Wrap Internal ''failed to create volume'') (backendC (BCreateVolume dockerName))) (\<lambda>_.
     bindC (tryC (VolumeRepository_Create vol)) (\<lambda>r.
     case r of
       Inl err \<Rightarrow> bindC (ignoreC (backendC (BDeleteVolume dockerName))) (\<lambda>_. failC err)
     | Inr _ \<Rightarrow>
     bindC (ignoreC (RecordEvent E ctx ''VOLUME_CREATE'' (uuid_string E i) ''VOLUME''
              [(''name'', GStr name), (''size_gb'', GInt sizeGB)])) (\<lambda>_.
     bindC (ignoreC (Log E ctx (vol_UserID vol) ''volume.create'' ''volume'' (uuid_string E i)
              [(''name'', GStr name), (''size_gb'', GInt sizeGB)])) (\<lambda>_.
     bindC (metricC (MInc ''VolumesTotal'' [''available''])) (\<lambda>_.
     bindC (metricC (MAdd ''VolumeSizeBytes'' [] (bytesOfGB sizeGB))) (\<lambda>_.
     bindC (metricC (MInc ''StorageOperationsTotal'' [''volume_create''])) (\<lambda>_.
     returnC vol)))))))))"

definition ListVolumes :: "ctx \<Rightarrow> Volume list op" where
  "ListVolumes ctx = VolumeRepository_List ctx"

definition GetVolume :: "env \<Rightarrow> ctx \<Rightarrow> string \<Rightarrow> Volume op" where
  "GetVolume E ctx idOrName =
     (case uuid_parse E idOrName of
        Some i \<Rightarrow> VolumeRepository_GetByID ctx i
      | None \<Rightarrow> VolumeRepository_GetByName ctx idOrName)"

definition DeleteVolume :: "env \<Rightarrow> ctx \<Rightarrow> string \<Rightarrow> unit op" where
  "DeleteVolume E ctx idOrName =
     bindC (GetVolume E ctx idOrName) (\<lambda>vol.
     bindC (guardC (vol_Status vol = VolumeStatusInUse) (New InvalidInput ''cannot delete volume that is in use'')) (\<lambda>_.
     bindC (ignoreC (backendC (BDeleteVolume (dockerVolName E (vol_ID vol))))) (\<lambda>_.
     bindC (VolumeRepository_Delete ctx (vol_ID vol)) (\<lambda>_.
     bindC (metricC (MDec ''VolumesTotal'' [VolumeStatus_string (vol_Status vol)])) (\<lambda>_.
     bindC (metricC (MAdd ''VolumeSizeBytes'' [] (- bytesOfGB (vol_SizeGB vol)))) (\<lambda>_.
     bindC (metricC (MInc ''StorageOperationsTotal'' [''volume_delete''])) (\<lambda>_.
     bindC (ignoreC (RecordEvent E ctx ''VOLUME_DELETE'' (uuid_string E (vol_ID vol)) ''VOLUME'' [])) (\<lambda>_.
     ignoreC (Log E ctx (vol_UserID vol) ''volume.delete'' ''volume'' (uuid_string E (vol_ID vol))
        [(''name'', GStr (vol_Name vol))])))))))))"

text \<open>The body of both release loops: write the volume back as available; an error only skips this volume.\<close>

definition releaseVolume :: "Volume \<Rightarrow> unit op" where
  "releaseVolume vol =
     bindC nowC (\<lambda>now.
       ignoreC (VolumeRepository_Update (vol\<lparr>vol_Status := VolumeStatusAvailable, vol_InstanceID := None,
         vol_MountPath := [], vol_UpdatedAt := now\<rparr>)))"

definition ReleaseVolumesForInstance :: "ctx \<Rightarrow> uuid \<Rightarrow> unit op" where
  "ReleaseVolumesForInstance ctx instanceID =
     bindC (VolumeRepository_ListByInstanceID ctx instanceID) (\<lambda>volumes. forC volumes releaseVolume)"

section \<open>Facts\<close>

lemma VolumeRepository_GetByID_ok:
  "VolumeRepository_GetByID ctx i s = (Ok v, s') \<Longrightarrow>
     v \<in> set (t_volumes s) \<and> vol_ID v = i \<and> vol_UserID v = UserIDFromContext ctx \<and> t_volumes s' = t_volumes s"
  unfolding VolumeRepository_GetByID_def by (auto dest!: ok_queryRowC find_Some_set)

lemma VolumeRepository_Delete_ok:
  "VolumeRepository_Delete ctx i s = (Ok (), s') \<Longrightarrow>
     (\<exists>v \<in> set (t_volumes s). vol_ID v = i \<and> vol_UserID v = UserIDFromContext ctx) \<and>
     t_volumes s' = filter (\<lambda>v. \<not> (vol_ID v = i \<and> vol_UserID v = UserIDFromContext ctx)) (t_volumes s)"
  unfolding VolumeRepository_Delete_def Let_def
  by (auto simp: rows_simps dest!: ok_execC_rows)

lemma VolumeRepository_List_ok:
  "VolumeRepository_List ctx s = (Ok vs, s') \<Longrightarrow>
     set vs = {v \<in> set (t_volumes s). vol_UserID v = UserIDFromContext ctx} \<and> t_volumes s' = t_volumes s"
  unfolding VolumeRepository_List_def by (auto dest!: ok_queryC)

interpretation vol_repo: tenant_list_repo t_volumes vol_ID vol_UserID
  VolumeRepository_GetByID VolumeRepository_Delete VolumeRepository_List
  by unfold_locales (fact VolumeRepository_GetByID_ok VolumeRepository_Delete_ok VolumeRepository_List_ok)+

lemma stable_others_volumes [simp]: "stable (\<lambda>s. others vol_UserID u (t_volumes s))"
  by (simp add: stable_def)

lemma keeps_VolumeRepository_Update:
  "vol_UserID v = u \<Longrightarrow> confined (keeps (\<lambda>s. others vol_UserID u (t_volumes s))) (VolumeRepository_Update v)"
  unfolding VolumeRepository_Update_def Let_def
  by (intro keeps_intros) (auto intro!: others_upd_where)

lemma CreateVolume_isolated:
  "confined (keeps (\<lambda>s. others vol_UserID (UserIDFromContext ctx) (t_volumes s))) (CreateVolume E ctx name sizeGB)"
  unfolding CreateVolume_def VolumeRepository_Create_def
  by (intro keeps_intros) (auto)

lemma DeleteVolume_isolated:
  "confined (keeps (\<lambda>s. others vol_UserID (UserIDFromContext ctx) (t_volumes s))) (DeleteVolume E ctx idOrName)"
  unfolding DeleteVolume_def VolumeRepository_Delete_def GetVolume_def VolumeRepository_GetByID_def VolumeRepository_GetByName_def
  by (intro keeps_intros) (auto intro!: others_filter)

lemma ReleaseVolumes_isolated:
  "confined (keeps (\<lambda>s. others vol_UserID (UserIDFromContext ctx) (t_volumes s))) (ReleaseVolumesForInstance ctx i)"
  unfolding ReleaseVolumesForInstance_def
proof (rule keeps.fr_bind_ok)
  show "confined (keeps (\<lambda>s. others vol_UserID (UserIDFromContext ctx) (t_volumes s))) (VolumeRepository_ListByInstanceID ctx i)"
    unfolding VolumeRepository_ListByInstanceID_def by (intro keeps_intros) simp
  fix vs s s'
  assume "VolumeRepository_ListByInstanceID ctx i s = (Ok vs, s')"
  then have "\<forall>v \<in> set vs. vol_UserID v = UserIDFromContext ctx"
    unfolding VolumeRepository_ListByInstanceID_def by (auto dest!: ok_queryC)
  then show "confined (keeps (\<lambda>s. others vol_UserID (UserIDFromContext ctx) (t_volumes s))) (forC vs releaseVolume)"
    unfolding releaseVolume_def by (intro keeps_intros keeps_VolumeRepository_Update) auto
qed


definition sample_volume :: "VolumeStatus \<Rightarrow> Volume" where
  "sample_volume st = \<lparr>vol_ID = 7, vol_UserID = 1, vol_Name = ''v1'', vol_SizeGB = 10, vol_Status = st,
     vol_InstanceID = None, vol_MountPath = [], vol_CreatedAt = 0, vol_UpdatedAt = 0\<rparr>"

section \<open>Properties\<close>

text \<open>Tenant isolation of the volume service: whatever a call returns, error or success, the rows of the
  table \<^verbatim>\<open>volumes\<close> that belong to other users are exactly what they were.\<close>

theorem volume_service_isolation:
  "others vol_UserID (UserIDFromContext ctx) (t_volumes (snd (CreateVolume E ctx name sizeGB s))) =
     others vol_UserID (UserIDFromContext ctx) (t_volumes s) \<and>
   others vol_UserID (UserIDFromContext ctx) (t_volumes (snd (DeleteVolume E ctx idOrName s))) =
     others vol_UserID (UserIDFromContext ctx) (t_volumes s) \<and>
   others vol_UserID (UserIDFromContext ctx) (t_volumes (snd (ReleaseVolumesForInstance ctx i s))) =
     others vol_UserID (UserIDFromContext ctx) (t_volumes s)"
  using confinedD [OF CreateVolume_isolated [of ctx E name sizeGB], of s]
    confinedD [OF DeleteVolume_isolated [of ctx E idOrName], of s]
    confinedD [OF ReleaseVolumes_isolated [of ctx i], of s]
  by (simp add: keeps_def)

lemma GetVolume_ok:
  "GetVolume E ctx n s = (Ok v, s') \<Longrightarrow>
     v \<in> set (t_volumes s) \<and> vol_UserID v = UserIDFromContext ctx \<and> t_volumes s' = t_volumes s"
  unfolding GetVolume_def VolumeRepository_GetByID_def VolumeRepository_GetByName_def
  by (auto split: option.splits dest!: ok_queryRowC find_Some_set)

lemma stable_t_volumes [simp]: "stable t_volumes"
  by (simp add: stable_def)

lemma wp_GetVolume:
  "(\<And>e s'. t_volumes s' = t_volumes s \<Longrightarrow> Q (Err e) s') \<Longrightarrow>
   (\<And>v s'. t_volumes s' = t_volumes s \<Longrightarrow> v \<in> set (t_volumes s) \<Longrightarrow> vol_UserID v = UserIDFromContext ctx \<Longrightarrow> Q (Ok v) s') \<Longrightarrow>
   wp (GetVolume E ctx n) Q s"
  unfolding GetVolume_def VolumeRepository_GetByID_def VolumeRepository_GetByName_def
  by (auto split: option.split intro!: wp_queryRowC dest: find_Some_set)

lemma core_volumes: "core s' = core s \<Longrightarrow> t_volumes s' = t_volumes s"
  by (simp add: core_eq_iff)

lemma DeleteVolume_in_use:
  assumes "distinct (map vol_ID (t_volumes s))" and "v \<in> set (t_volumes s)" and "vol_Status v = VolumeStatusInUse"
  shows "wp (DeleteVolume E ctx n) (\<lambda>r s'. v \<in> set (t_volumes s')) s"
  unfolding DeleteVolume_def VolumeRepository_Delete_def Let_def wps
  apply (rule wp_GetVolume)
  using assms
  by (auto simp: wps intro!: wp_core wp_execC split: outcome.splits dest: distinct_key_unique dest!: core_volumes)

text \<open>A volume in use is never deleted: after any call of \<^verbatim>\<open>DeleteVolume\<close>, every volume whose status is
  \<^verbatim>\<open>IN-USE\<close> is still in the table.\<close>

theorem DeleteVolume_keeps_in_use:
  assumes "distinct (map vol_ID (t_volumes s))" and "v \<in> set (t_volumes s)" and "vol_Status v = VolumeStatusInUse"
  shows "v \<in> set (t_volumes (snd (DeleteVolume E ctx idOrName s)))"
  using DeleteVolume_in_use [OF assms] by (simp add: wp_snd)

theorem DeleteVolume_keeps_in_use_witness:
  "sample_volume VolumeStatusInUse \<in> set (t_volumes (snd (DeleteVolume sample_env (Some 1) ''v1''
     (sample_world\<lparr>t_volumes := [sample_volume VolumeStatusInUse]\<rparr>))))"
  using DeleteVolume_keeps_in_use [of "sample_world\<lparr>t_volumes := [sample_volume VolumeStatusInUse]\<rparr>"
      "sample_volume VolumeStatusInUse" sample_env "Some 1" "''v1''"]
  by (simp add: sample_volume_def)

text \<open>Creating a volume with a fresh identifier and an unused name succeeds: one row is added with
  status \<^verbatim>\<open>AVAILABLE\<close>, the engine's volume is created under the name derived from the identifier, and
  a lookup by identifier finds the new row.\<close>

theorem CreateVolume_success:
  assumes "faults s = []" and "has_user s u"
    and "uuid_at E (uuid_ctr s) \<notin> vol_ID ` set (t_volumes s)" and "name \<notin> vol_Name ` set (t_volumes s)"
  shows "\<exists>v s'. CreateVolume E (Some u) name sizeGB s = (Ok v, s') \<and>
    v = \<lparr>vol_ID = uuid_at E (uuid_ctr s), vol_UserID = u, vol_Name = name, vol_SizeGB = sizeGB,
         vol_Status = VolumeStatusAvailable, vol_InstanceID = None, vol_MountPath = [],
         vol_CreatedAt = clock s, vol_UpdatedAt = clock s\<rparr> \<and>
    t_volumes s' = t_volumes s @ [v] \<and>
    calls s' = calls s @ [BCreateVolume (dockerVolName E (vol_ID v))] \<and>
    fst (VolumeRepository_GetByID (Some u) (vol_ID v) s') = Ok v"
proof -
  have "wp (CreateVolume E (Some u) name sizeGB) (\<lambda>r s'. \<exists>v. r = Ok v \<and>
    v = \<lparr>vol_ID = uuid_at E (uuid_ctr s), vol_UserID = u, vol_Name = name, vol_SizeGB = sizeGB,
         vol_Status = VolumeStatusAvailable, vol_InstanceID = None, vol_MountPath = [],
         vol_CreatedAt = clock s, vol_UpdatedAt = clock s\<rparr> \<and>
    t_volumes s' = t_volumes s @ [v] \<and> faults s' = [] \<and>
    calls s' = calls s @ [BCreateVolume (dockerVolName E (vol_ID v))]) s"
    using assms
    by (auto simp: CreateVolume_def VolumeRepository_Create_def Let_def wps wpnf logged_simps fk_instance_def has_user_def
        simp del: wp_ignoreC intro!: wp_ignore_RecordEvent_nf wp_ignore_Log_nf)
  moreover have "find (\<lambda>v. vol_ID v = uuid_at E (uuid_ctr s) \<and> vol_UserID v = u) (t_volumes s) = None"
    using assms(3) by (auto simp: find_None_set image_iff)
  ultimately show ?thesis
    unfolding wp_def
    by (cases "CreateVolume E (Some u) name sizeGB s") (auto simp: VolumeRepository_GetByID_def run)
qed

theorem CreateVolume_success_witness:
  "\<exists>v s'. CreateVolume sample_env (Some 1) ''data'' 10 sample_world = (Ok v, s') \<and> vol_Name v = ''data'' \<and>
     t_volumes s' = [v] \<and> fst (VolumeRepository_GetByID (Some 1) (vol_ID v) s') = Ok v"
  using CreateVolume_success [of sample_world 1 sample_env "''data''" 10]
  by (auto simp: sample_world_def has_user_def sample_user_def)

text \<open>Names are unique over all tenants: creating a volume under a name in use fails, adds no row, and
  the engine's volume that was created first is removed again.\<close>

theorem CreateVolume_duplicate_rolls_back:
  assumes "faults s = []" and "name \<in> vol_Name ` set (t_volumes s)"
    and "uuid_at E (uuid_ctr s) \<notin> vol_ID ` set (t_volumes s)"
  shows "\<exists>s'. CreateVolume E ctx name sizeGB s = (Err (Constraint ''volumes_name_key''), s') \<and>
    t_volumes s' = t_volumes s \<and>
    calls s' = calls s @ [BCreateVolume (dockerVolName E (uuid_at E (uuid_ctr s))),
                          BDeleteVolume (dockerVolName E (uuid_at E (uuid_ctr s)))]"
proof -
  have "wp (CreateVolume E ctx name sizeGB) (\<lambda>r s'. r = Err (Constraint ''volumes_name_key'') \<and>
    t_volumes s' = t_volumes s \<and>
    calls s' = calls s @ [BCreateVolume (dockerVolName E (uuid_at E (uuid_ctr s))),
                          BDeleteVolume (dockerVolName E (uuid_at E (uuid_ctr s)))]) s"
    using assms
    by (simp add: CreateVolume_def VolumeRepository_Create_def Let_def wps wpnf fk_instance_def)
  then show ?thesis
    unfolding wp_def by (cases "CreateVolume E ctx name sizeGB s") auto
qed

theorem CreateVolume_duplicate_rolls_back_witness:
  "\<exists>s'. CreateVolume sample_env (Some 2) ''v1'' 5 (sample_world\<lparr>t_volumes := [sample_volume VolumeStatusAvailable]\<rparr>) =
     (Err (Constraint ''volumes_name_key''), s') \<and> t_volumes s' = [sample_volume VolumeStatusAvailable]"
proof -
  have "(100 :: uuid) \<noteq> 7" by simp
  then show ?thesis
    using CreateVolume_duplicate_rolls_back [of "sample_world\<lparr>t_volumes := [sample_volume VolumeStatusAvailable]\<rparr>"
        "''v1''" sample_env "Some 2" 5]
    by (auto simp: sample_world_def sample_volume_def sample_env_def)
qed

lemma releaseVolume_nf:
  "faults s = [] \<Longrightarrow> releaseVolume v s =
     (Ok (), s\<lparr>t_volumes := upd_where (\<lambda>r. vol_ID r = vol_ID v \<and> vol_UserID r = vol_UserID v)
        (\<lambda>r. r\<lparr>vol_Status := VolumeStatusAvailable, vol_InstanceID := None, vol_MountPath := [],
             vol_UpdatedAt := clock s\<rparr>) (t_volumes s)\<rparr>)"
  by (simp add: releaseVolume_def VolumeRepository_Update_def Let_def run fk_instance_def)

lemma release_all_nf:
  "faults s = [] \<Longrightarrow> forC vs releaseVolume s =
     (Ok (), s\<lparr>t_volumes := upd_where (\<lambda>r. \<exists>v \<in> set vs. vol_ID r = vol_ID v \<and> vol_UserID r = vol_UserID v)
        (\<lambda>r. r\<lparr>vol_Status := VolumeStatusAvailable, vol_InstanceID := None, vol_MountPath := [],
             vol_UpdatedAt := clock s\<rparr>) (t_volumes s)\<rparr>)"
proof (induction vs arbitrary: s)
  case Nil
  show ?case by (simp add: run upd_where_none)
next
  case (Cons v vs)
  show ?case
    using Cons.prems
    by (simp add: run releaseVolume_nf Cons.IH upd_where_upd_where)
qed

lemma ReleaseVolumes_run:
  assumes "faults s = []" and "distinct (map vol_ID (t_volumes s))"
  shows "ReleaseVolumesForInstance (Some u) i s =
    (Ok (), s\<lparr>t_volumes := upd_where (\<lambda>r. vol_InstanceID r = Some i \<and> vol_UserID r = u)
       (\<lambda>r. r\<lparr>vol_Status := VolumeStatusAvailable, vol_InstanceID := None, vol_MountPath := [],
            vol_UpdatedAt := clock s\<rparr>) (t_volumes s)\<rparr>)"
proof -
  let ?vs = "filter (\<lambda>v. vol_InstanceID v = Some i \<and> vol_UserID v = u) (t_volumes s)"
  have "upd_where (\<lambda>r. \<exists>v \<in> set ?vs. vol_ID r = vol_ID v \<and> vol_UserID r = vol_UserID v) f (t_volumes s) =
        upd_where (\<lambda>r. vol_InstanceID r = Some i \<and> vol_UserID r = u) f (t_volumes s)" for f
    unfolding upd_where_def by (rule map_cong) (use assms(2) in \<open>auto dest: distinct_key_unique\<close>)
  then show ?thesis
    using assms(1)
    by (simp add: ReleaseVolumesForInstance_def VolumeRepository_ListByInstanceID_def run release_all_nf)
qed

text \<open>Releasing the volumes of an instance: exactly the caller's volumes attached to it become
  available, detached and without mount path; nothing else in the table changes.\<close>

theorem ReleaseVolumesForInstance_releases:
  assumes "faults s = []" and "distinct (map vol_ID (t_volumes s))"
  shows "ReleaseVolumesForInstance (Some u) i s =
    (Ok (), s\<lparr>t_volumes := upd_where (\<lambda>r. vol_InstanceID r = Some i \<and> vol_UserID r = u)
       (\<lambda>r. r\<lparr>vol_Status := VolumeStatusAvailable, vol_InstanceID := None, vol_MountPath := [],
            vol_UpdatedAt := clock s\<rparr>) (t_volumes s)\<rparr>)"
  using ReleaseVolumes_run [OF assms] .

theorem ReleaseVolumesForInstance_releases_witness:
  "\<exists>s'. ReleaseVolumesForInstance (Some 1) 9
     (sample_world\<lparr>t_volumes := [(sample_volume VolumeStatusInUse)\<lparr>vol_InstanceID := Some 9\<rparr>]\<rparr>) = (Ok (), s') \<and>
   t_volumes s' = [sample_volume VolumeStatusAvailable]"
  using ReleaseVolumesForInstance_releases
    [of "sample_world\<lparr>t_volumes := [(sample_volume VolumeStatusInUse)\<lparr>vol_InstanceID := Some 9\<rparr>]\<rparr>" 1 9]
  by (simp add: sample_world_def sample_volume_def)

end
