(* ===== verification/Networks.thy ===== *)
theory Networks
  imports Ipam Volumes
begin

text \<open>
  Virtual networks: \<^verbatim>\<open>vpc_repo.go\<close>, \<^verbatim>\<open>subnet_repo.go\<close> and the services \<^verbatim>\<open>vpc.go\<close> and \<^verbatim>\<open>subnet.go\<close>, with the
  foreign keys and delete rules of the schema.
\<close>

section \<open>VPC repository\<close>

text \<open>\<^verbatim>\<open>NULLIF($n, '')::cidr\<close> read back with \<^verbatim>\<open>COALESCE(c::text, '')\<close>: the cast and its failure.\<close>

definition cast_ok :: "(string \<Rightarrow> string option) \<Rightarrow> string \<Rightarrow> bool" where
  "cast_ok cast s = (s = [] \<or> cast s \<noteq> None)"

definition cast_text :: "(string \<Rightarrow> string option) \<Rightarrow> string \<Rightarrow> string" where
  "cast_text cast s = (if s = [] then [] else case cast s of None \<Rightarrow> [] | Some t \<Rightarrow> t)"

definition VpcRepository_Create :: "env \<Rightarrow> VPC \<Rightarrow> unit op" where
  "VpcRepository_Create E v =
     mapErrC (Wrap Internal ''failed to create vpc'')
       (insertC (\<lambda>s. [(\<not> cast_ok (cidr_text E) (vpc_CIDRBlock v), ''invalid input syntax for type cidr''),
                      (vpc_ID v \<in> vpc_ID ` set (t_vpcs s), ''vpcs_pkey''),
                      (vpc_Name v \<in> vpc_Name ` set (t_vpcs s), ''vpcs_name_key''),
                      (\<not> has_user s (vpc_UserID v), ''vpcs_user_id_fkey'')])
                (\<lambda>s. s\<lparr>t_vpcs := t_vpcs s @ [v\<lparr>vpc_CIDRBlock := cast_text (cidr_text E) (vpc_CIDRBlock v)\<rparr>]\<rparr>))"

text \<open>The translation of a row lookup's error: no rows becomes a not-found error with its message.\<close>

definition row_err :: "error \<Rightarrow> string \<Rightarrow> error \<Rightarrow> error" where
  "row_err notfound msg e = (if e = ErrNoRows then notfound else Wrap Internal msg e)"

definition VpcRepository_GetByID :: "env \<Rightarrow> ctx \<Rightarrow> uuid \<Rightarrow> VPC op" where
  "VpcRepository_GetByID E ctx i =
     mapErrC (row_err (New NotFound (''vpc '' @ uuid_string E i @ '' not found'')) ''failed to get vpc'')
       (queryRowC (\<lambda>s. find (\<lambda>v. vpc_ID v = i \<and> vpc_UserID v = UserIDFromContext ctx) (t_vpcs s)))"

definition VpcRepository_GetByName :: "ctx \<Rightarrow> string \<Rightarrow> VPC op" where
  "VpcRepository_GetByName ctx name =
     mapErrC (row_err (New NotFound (''vpc name '' @ name @ '' not found'')) ''failed to get vpc by name'')
       (queryRowC (\<lambda>s. find (\<lambda>v. vpc_Name v = name \<and> vpc_UserID v = UserIDFromContext ctx) (t_vpcs s)))"

definition VpcRepository_List :: "ctx \<Rightarrow> VPC list op" where
  "VpcRepository_List ctx =
     mapErrC (Wrap Internal ''failed to list vpcs'')
       (queryC (\<lambda>s. sort_key (\<lambda>v. - vpc_CreatedAt v)
          (filter (\<lambda>v. vpc_UserID v = UserIDFromContext ctx) (t_vpcs s))))"

text \<open>
  Deleting a VPC deletes its subnets and security groups with their rules and memberships
  (\<^verbatim>\<open>ON DELETE CASCADE\<close>) and detaches its databases (\<^verbatim>\<open>ON DELETE SET NULL\<close>); it is refused while an instance,
  a load balancer, a scaling group or a cache refers to it, or an instance to one of its subnets.
\<close>

definition vpc_referenced :: "world \<Rightarrow> uuid \<Rightarrow> bool" where
  "vpc_referenced s i \<longleftrightarrow>
     list_ex (\<lambda>x. inst_VpcID x = Some i) (t_instances s) \<or>
     list_ex (\<lambda>x. lb_VpcID x = i) (t_load_balancers s) \<or>
     list_ex (\<lambda>x. asg_VpcID x = i) (t_scaling_groups s) \<or>
     list_ex (\<lambda>x. ca_VpcID x = Some i) (t_caches s) \<or>
     list_ex (\<lambda>n. sub_VPCID n = i \<and> list_ex (\<lambda>x. inst_SubnetID x = Some (sub_ID n)) (t_instances s)) (t_subnets s)"

definition in_vpc :: "world \<Rightarrow> uuid \<Rightarrow> uuid \<Rightarrow> bool" where
  "in_vpc s i g = list_ex (\<lambda>x. sg_ID x = g \<and> sg_VPCID x = i) (t_security_groups s)"

definition delete_vpc_row :: "(VPC \<Rightarrow> bool) \<Rightarrow> uuid \<Rightarrow> world \<Rightarrow> world" where
  "delete_vpc_row P i s =
     (if list_ex P (t_vpcs s) then
        s\<lparr>t_vpcs := filter (\<lambda>v. \<not> P v) (t_vpcs s),
          t_subnets := filter (\<lambda>n. sub_VPCID n \<noteq> i) (t_subnets s),
          t_databases := upd_where (\<lambda>d. db_VpcID d = Some i) (\<lambda>d. d\<lparr>db_VpcID := None\<rparr>) (t_databases s),
          t_security_groups := filter (\<lambda>g. sg_VPCID g \<noteq> i) (t_security_groups s),
          t_security_rules := filter (\<lambda>r. \<not> in_vpc s i (rule_GroupID r)) (t_security_rules s),
          t_instance_security_groups := filter (\<lambda>p. \<not> in_vpc s i (snd p)) (t_instance_security_groups s)\<rparr>
      else s)"

definition VpcRepository_Delete :: "ctx \<Rightarrow> uuid \<Rightarrow> unit op" where
  "VpcRepository_Delete ctx i =
     (let P = (\<lambda>v. vpc_ID v = i \<and> vpc_UserID v = UserIDFromContext ctx) in
      bindC (mapErrC (Wrap Internal ''failed to delete vpc'')
               (execC (\<lambda>s. [(list_ex P (t_vpcs s) \<and> vpc_referenced s i, ''vpcs_id_fkey'')])
                  (\<lambda>s. rows_affected P (t_vpcs s)) (delete_vpc_row P i)))
        (\<lambda>n. guardC (n = 0) (New NotFound ''vpc not found'')))"

section \<open>VPC service\<close>

text \<open>The first byte of the identifier.\<close>

definition uuid_byte0 :: "uuid \<Rightarrow> int" where
  "uuid_byte0 i = uint i div 2 ^ 120"

definition CreateVPC :: "env \<Rightarrow> string \<Rightarrow> ctx \<Rightarrow> string \<Rightarrow> string \<Rightarrow> VPC op" where
  "CreateVPC E defaultCIDR ctx name cidrBlock =
     (let cidrBlock = (if cidrBlock = [] then defaultCIDR else cidrBlock); userID = UserIDFromContext ctx in
     bindC (newUUID E) (\<lambda>i.
     let vxlanID = uuid_byte0 i + 100; bridgeName = ''br-vpc-'' @ id8 E i in
     bindC (mapErrC (Wrap Internal ''failed to create OVS bridge'') (backendC (BCreateBridge bridgeName vxlanID))) (\<lambda>_.
     bindC nowC (\<lambda>now.
     let arn = ''arn:thecloud:vpc:local:'' @ uuid_string E userID @ '':vpc/'' @ uuid_string E i;
         vpc = \<lparr>vpc_ID = i, vpc_UserID = userID, vpc_Name = name, vpc_CIDRBlock = cidrBlock, vpc_NetworkID = bridgeName,
                vpc_VXLANID = vxlanID, vpc_Status = ''active'', vpc_ARN = arn, vpc_CreatedAt = now\<rparr> in
     bindC (tryC (VpcRepository_Create E vpc)) (\<lambda>r.
     case r of
       Inl err \<Rightarrow> bindC (ignoreC (backendC (BDeleteBridge bridgeName)))
                   (\<lambda>_. failC (Wrap Internal ''failed to create VPC in database'' err))
     | Inr _ \<Rightarrow>
         bindC (ignoreC (Log E ctx userID ''vpc.create'' ''vpc'' (uuid_string E i)
                  [(''name'', GStr name), (''cidr_block'', GStr cidrBlock), (''arn'', GStr arn)])) (\<lambda>_.
         returnC vpc))))))"

text \<open>\<^verbatim>\<open>NewVpcService\<close> falls back to a default block.\<close>

definition NewVpcService_defaultCIDR :: "string \<Rightarrow> string" where
  "NewVpcService_defaultCIDR defaultCIDR = (if defaultCIDR = [] then ''10.0.0.0/16'' else defaultCIDR)"

definition GetVPC :: "env \<Rightarrow> ctx \<Rightarrow> string \<Rightarrow> VPC op" where
  "GetVPC E ctx idOrName =
     (case uuid_parse E idOrName of
        Some i \<Rightarrow> VpcRepository_GetByID E ctx i
      | None \<Rightarrow> VpcRepository_GetByName ctx idOrName)"

definition ListVPCs :: "ctx \<Rightarrow> VPC list op" where
  "ListVPCs ctx = VpcRepository_List ctx"

definition DeleteVPC :: "env \<Rightarrow> ctx \<Rightarrow> string \<Rightarrow> unit op" where
  "DeleteVPC E ctx idOrName =
     bindC (GetVPC E ctx idOrName) (\<lambda>vpc.
     bindC (mapErrC (Wrap Internal ''failed to remove OVS bridge'') (backendC (BDeleteBridge (vpc_NetworkID vpc)))) (\<lambda>_.
     bindC (mapErrC (Wrap Internal ''failed to delete VPC from database'') (VpcRepository_Delete ctx (vpc_ID vpc))) (\<lambda>_.
     ignoreC (Log E ctx (vpc_UserID vpc) ''vpc.delete'' ''vpc'' (uuid_string E (vpc_ID vpc)) [(''name'', GStr (vpc_Name vpc))]))))"

section \<open>Subnet repository\<close>

definition SubnetRepository_Create :: "env \<Rightarrow> Subnet \<Rightarrow> unit op" where
  "SubnetRepository_Create E n =
     mapErrC (Wrap Internal ''failed to create subnet'')
       (insertC (\<lambda>s. [(sub_CIDRBlock n = [] \<or> cidr_text E (sub_CIDRBlock n) = None, ''subnets_cidr_block''),
                      (\<not> cast_ok (inet_text E) (sub_GatewayIP n), ''invalid input syntax for type inet''),
                      (sub_ID n \<in> sub_ID ` set (t_subnets s), ''subnets_pkey''),
                      (\<not> has_user s (sub_UserID n), ''subnets_user_id_fkey''),
                      (sub_VPCID n \<notin> vpc_ID ` set (t_vpcs s), ''subnets_vpc_id_fkey''),
                      ((sub_VPCID n, sub_Name n) \<in> (\<lambda>r. (sub_VPCID r, sub_Name r)) ` set (t_subnets s), ''subnets_vpc_id_name_key''),
                      ((sub_VPCID n, cast_text (cidr_text E) (sub_CIDRBlock n)) \<in> (\<lambda>r. (sub_VPCID r, sub_CIDRBlock r)) ` set (t_subnets s),
                         ''subnets_vpc_id_cidr_block_key'')])
                (\<lambda>s. s\<lparr>t_subnets := t_subnets s @ [n\<lparr>sub_CIDRBlock := cast_text (cidr_text E) (sub_CIDRBlock n),
                        sub_GatewayIP := cast_text (inet_text E) (sub_GatewayIP n)\<rparr>]\<rparr>))"

definition SubnetRepository_GetByID :: "env \<Rightarrow> ctx \<Rightarrow> uuid \<Rightarrow> Subnet op" where
  "SubnetRepository_GetByID E ctx i =
     mapErrC (row_err (New NotFound (''subnet '' @ uuid_string E i @ '' not found'')) ''failed to get subnet'')
       (queryRowC (\<lambda>s. find (\<lambda>n. sub_ID n = i \<and> sub_UserID n = UserIDFromContext ctx) (t_subnets s)))"

definition SubnetRepository_GetByName :: "env \<Rightarrow> ctx \<Rightarrow> uuid \<Rightarrow> string \<Rightarrow> Subnet op" where
  "SubnetRepository_GetByName E ctx vpcID name =
     mapErrC (row_err (New NotFound (''subnet '' @ name @ '' not found in vpc '' @ uuid_string E vpcID)) ''failed to get subnet by name'')
       (queryRowC (\<lambda>s. find (\<lambda>n. sub_VPCID n = vpcID \<and> sub_Name n = name \<and> sub_UserID n = UserIDFromContext ctx) (t_subnets s)))"

definition SubnetRepository_ListByVPC :: "ctx \<Rightarrow> uuid \<Rightarrow> Subnet list op" where
  "SubnetRepository_ListByVPC ctx vpcID =
     mapErrC (Wrap Internal ''failed to list subnets'')
       (queryC (\<lambda>s. sort_key (\<lambda>n. - sub_CreatedAt n)
          (filter (\<lambda>n. sub_VPCID n = vpcID \<and> sub_UserID n = UserIDFromContext ctx) (t_subnets s))))"

definition SubnetRepository_Delete :: "ctx \<Rightarrow> uuid \<Rightarrow> unit op" where
  "SubnetRepository_Delete ctx i =
     (let P = (\<lambda>n. sub_ID n = i \<and> sub_UserID n = UserIDFromContext ctx) in
      bindC (mapErrC (Wrap Internal ''failed to delete subnet'')
               (execC (\<lambda>s. [(list_ex P (t_subnets s) \<and> list_ex (\<lambda>x. inst_SubnetID x = Some i) (t_instances s),
                             ''instances_subnet_id_fkey'')])
                  (\<lambda>s. rows_affected P (t_subnets s))
                  (\<lambda>s. s\<lparr>t_subnets := filter (\<lambda>n. \<not> P n) (t_subnets s)\<rparr>)))
        (\<lambda>n. guardC (n = 0) (New NotFound ''subnet not found'')))"

section \<open>Subnet service\<close>

definition CreateSubnet :: "env \<Rightarrow> ctx \<Rightarrow> uuid \<Rightarrow> string \<Rightarrow> string \<Rightarrow> string \<Rightarrow> Subnet op" where
  "CreateSubnet E ctx vpcID name cidrBlock az =
     (let userID = UserIDFromContext ctx in
     bindC (VpcRepository_GetByID E ctx vpcID) (\<lambda>vpc.
     case ParseCIDR (vpc_CIDRBlock vpc) of
       None \<Rightarrow> failC (Wrap Internal ''invalid VPC CIDR'' (Errorf ''invalid CIDR address'' None))
     | Some (_, vpcNet) \<Rightarrow>
     (case ParseCIDR cidrBlock of
       None \<Rightarrow> failC (New InvalidInput ''invalid subnet CIDR block'')
     | Some (ip, subnetNet) \<Rightarrow>
     bindC (guardC (\<not> Contains vpcNet ip) (New InvalidInput ''subnet CIDR must be within VPC CIDR range'')) (\<lambda>_.
     let gatewayIP = calculateGatewayIP ip subnetNet in
     bindC (newUUID E) (\<lambda>subnetID.
     bindC nowC (\<lambda>now.
     let subnet = \<lparr>sub_ID = subnetID, sub_UserID = userID, sub_VPCID = vpcID, sub_Name = name, sub_CIDRBlock = cidrBlock,
                   sub_AvailabilityZone = az, sub_GatewayIP = gatewayIP,
                   sub_ARN = ''arn:thecloud:subnet:local:'' @ uuid_string E userID @ '':subnet/'' @ uuid_string E subnetID,
                   sub_Status = ''available'', sub_CreatedAt = now\<rparr> in
     bindC (SubnetRepository_Create E subnet) (\<lambda>_.
     bindC (ignoreC (Log E ctx userID ''subnet.create'' ''subnet'' (uuid_string E subnetID)
              [(''vpc_id'', GStr (uuid_string E vpcID)), (''name'', GStr name), (''cidr_block'', GStr cidrBlock)])) (\<lambda>_.
     returnC subnet))))))))"

definition GetSubnet :: "env \<Rightarrow> ctx \<Rightarrow> string \<Rightarrow> uuid \<Rightarrow> Subnet op" where
  "GetSubnet E ctx idOrName vpcID =
     (case uuid_parse E idOrName of
        Some i \<Rightarrow> SubnetRepository_GetByID E ctx i
      | None \<Rightarrow> SubnetRepository_GetByName E ctx vpcID idOrName)"

definition ListSubnets :: "ctx \<Rightarrow> uuid \<Rightarrow> Subnet list op" where
  "ListSubnets ctx vpcID = SubnetRepository_ListByVPC ctx vpcID"

definition DeleteSubnet :: "env \<Rightarrow> ctx \<Rightarrow> uuid \<Rightarrow> unit op" where
  "DeleteSubnet E ctx i =
     bindC (SubnetRepository_GetByID E ctx i) (\<lambda>subnet.
     bindC (SubnetRepository_Delete ctx i) (\<lambda>_.
     ignoreC (Log E ctx (sub_UserID subnet) ''subnet.delete'' ''subnet'' (uuid_string E i) [])))"

section \<open>Facts\<close>

lemma VpcRepository_GetByID_ok:
  "VpcRepository_GetByID E ctx i s = (Ok v, s') \<Longrightarrow>
     v \<in> set (t_vpcs s) \<and> vpc_ID v = i \<and> vpc_UserID v = UserIDFromContext ctx \<and> t_vpcs s' = t_vpcs s"
  unfolding VpcRepository_GetByID_def by (auto simp: ok_simps dest!: ok_queryRowC find_Some_set)

lemma delete_vpc_row_vpcs [simp]: "t_vpcs (delete_vpc_row P i s) = filter (\<lambda>v. \<not> P v) (t_vpcs s)"
proof (cases "list_ex P (t_vpcs s)")
  case False
  then have "filter (\<lambda>v. \<not> P v) (t_vpcs s) = t_vpcs s" by (simp add: filter_id_conv list_ex_iff)
  with False show ?thesis by (simp add: delete_vpc_row_def)
qed (simp add: delete_vpc_row_def)

lemma VpcRepository_Delete_ok:
  "VpcRepository_Delete ctx i s = (Ok (), s') \<Longrightarrow>
     (\<exists>v \<in> set (t_vpcs s). vpc_ID v = i \<and> vpc_UserID v = UserIDFromContext ctx) \<and>
     t_vpcs s' = filter (\<lambda>v. \<not> (vpc_ID v = i \<and> vpc_UserID v = UserIDFromContext ctx)) (t_vpcs s)"
  unfolding VpcRepository_Delete_def Let_def
  by (auto simp: ok_simps rows_simps dest!: ok_execC)

lemma VpcRepository_List_ok:
  "VpcRepository_List ctx s = (Ok vs, s') \<Longrightarrow>
     set vs = {v \<in> set (t_vpcs s). vpc_UserID v = UserIDFromContext ctx} \<and> t_vpcs s' = t_vpcs s"
  unfolding VpcRepository_List_def by (auto simp: ok_simps dest!: ok_queryC)

interpretation vpc_repo: tenant_list_repo t_vpcs vpc_ID vpc_UserID
  "VpcRepository_GetByID E" VpcRepository_Delete VpcRepository_List for E
  by unfold_locales (fact VpcRepository_GetByID_ok VpcRepository_Delete_ok VpcRepository_List_ok)+

lemma SubnetRepository_GetByID_ok:
  "SubnetRepository_GetByID E ctx i s = (Ok n, s') \<Longrightarrow>
     n \<in> set (t_subnets s) \<and> sub_ID n = i \<and> sub_UserID n = UserIDFromContext ctx \<and> t_subnets s' = t_subnets s"
  unfolding SubnetRepository_GetByID_def by (auto simp: ok_simps dest!: ok_queryRowC find_Some_set)

lemma SubnetRepository_Delete_ok:
  "SubnetRepository_Delete ctx i s = (Ok (), s') \<Longrightarrow>
     (\<exists>n \<in> set (t_subnets s). sub_ID n = i \<and> sub_UserID n = UserIDFromContext ctx) \<and>
     t_subnets s' = filter (\<lambda>n. \<not> (sub_ID n = i \<and> sub_UserID n = UserIDFromContext ctx)) (t_subnets s)"
  unfolding SubnetRepository_Delete_def Let_def
  by (auto simp: ok_simps rows_simps dest!: ok_execC)

interpretation subnet_repo: tenant_repo t_subnets sub_ID sub_UserID
  "SubnetRepository_GetByID E" SubnetRepository_Delete for E
  by unfold_locales (fact SubnetRepository_GetByID_ok SubnetRepository_Delete_ok)+

lemma stable_others_vpcs [simp]: "stable (\<lambda>s. others vpc_UserID u (t_vpcs s))"
  by (simp add: stable_def)

lemma stable_others_subnets [simp]: "stable (\<lambda>s. others sub_UserID u (t_subnets s))"
  by (simp add: stable_def)

lemma CreateVPC_isolated:
  "confined (keeps (\<lambda>s. others vpc_UserID (UserIDFromContext ctx) (t_vpcs s))) (CreateVPC E d ctx name cidr)"
  unfolding CreateVPC_def VpcRepository_Create_def by (intro keeps_intros) auto

lemma DeleteVPC_isolated:
  "confined (keeps (\<lambda>s. others vpc_UserID (UserIDFromContext ctx) (t_vpcs s))) (DeleteVPC E ctx n)"
  unfolding DeleteVPC_def GetVPC_def VpcRepository_GetByID_def VpcRepository_GetByName_def VpcRepository_Delete_def
  by (intro keeps_intros) (auto intro!: others_filter)

lemma CreateSubnet_isolated:
  "confined (keeps (\<lambda>s. others sub_UserID (UserIDFromContext ctx) (t_subnets s))) (CreateSubnet E ctx v name cidr az)"
  unfolding CreateSubnet_def VpcRepository_GetByID_def SubnetRepository_Create_def by (intro keeps_intros) auto

lemma DeleteSubnet_isolated:
  "confined (keeps (\<lambda>s. others sub_UserID (UserIDFromContext ctx) (t_subnets s))) (DeleteSubnet E ctx i)"
  unfolding DeleteSubnet_def SubnetRepository_GetByID_def SubnetRepository_Delete_def
  by (intro keeps_intros) (auto intro!: others_filter)

definition sample_vpc :: VPC where
  "sample_vpc = \<lparr>vpc_ID = 20, vpc_UserID = 1, vpc_Name = ''net'', vpc_CIDRBlock = dotted [10, 0, 1, 0] @ ''/'' @ nat_string 24,
     vpc_NetworkID = ''br-vpc-x'', vpc_VXLANID = 100, vpc_Status = ''active'', vpc_ARN = [], vpc_CreatedAt = 0\<rparr>"

lemma sample_vpc_simps [simp]: "vpc_ID sample_vpc = 20" "vpc_UserID sample_vpc = 1" "vpc_Name sample_vpc = ''net''"
  "vpc_NetworkID sample_vpc = ''br-vpc-x''" "vpc_CIDRBlock sample_vpc = dotted [10, 0, 1, 0] @ ''/'' @ nat_string 24"
  by (simp_all add: sample_vpc_def)

definition sample_lb :: LoadBalancer where
  "sample_lb = \<lparr>lb_ID = 30, lb_UserID = 1, lb_IdempotencyKey = ''k1'', lb_Name = ''lb'', lb_VpcID = 20, lb_Port = 80,
     lb_Algorithm = ''round-robin'', lb_Status = LBStatusActive, lb_Version = 1, lb_CreatedAt = 0\<rparr>"

section \<open>Properties\<close>

text \<open>A VPC that cannot be stored leaves nothing behind: when the insertion fails for any reason and the
  engine is available, the bridge created for it is deleted again, no row is added, and the caller gets
  an internal error that carries the database error.\<close>

theorem CreateVPC_rolls_back:
  assumes "faults s = []"
    and "name \<in> vpc_Name ` set (t_vpcs s) \<or> \<not> has_user s u \<or> \<not> cast_ok (cidr_text E) (if cidr = [] then d else cidr)"
  shows "\<exists>e s'. CreateVPC E d (Some u) name cidr s = (Err (Wrap Internal ''failed to create VPC in database'' e), s') \<and>
    t_vpcs s' = t_vpcs s \<and>
    calls s' = calls s @ [BCreateBridge (''br-vpc-'' @ id8 E (uuid_at E (uuid_ctr s))) (uuid_byte0 (uuid_at E (uuid_ctr s)) + 100),
                          BDeleteBridge (''br-vpc-'' @ id8 E (uuid_at E (uuid_ctr s)))]"
  using assms
  by (auto simp: CreateVPC_def VpcRepository_Create_def Let_def run has_user_def split: if_splits)

theorem CreateVPC_rolls_back_witness:
  "\<exists>e s'. CreateVPC sample_env ''10.0.0.0/16'' (Some 2) ''net'' [] (sample_world\<lparr>t_vpcs := [sample_vpc]\<rparr>) =
     (Err (Wrap Internal ''failed to create VPC in database'' e), s') \<and> t_vpcs s' = [sample_vpc] \<and>
     calls s' = [BCreateBridge (''br-vpc-'' @ id8 sample_env 100) (uuid_byte0 100 + 100), BDeleteBridge (''br-vpc-'' @ id8 sample_env 100)]"
proof -
  have "uuid_at sample_env (uuid_ctr sample_world) = 100"
    by simp
  then show ?thesis
    using CreateVPC_rolls_back [of "sample_world\<lparr>t_vpcs := [sample_vpc]\<rparr>" "''net''" 2 sample_env "[]" "''10.0.0.0/16''"]
    by auto
qed

text \<open>Deleting a VPC that is still referred to: the bridge is deleted first, the deletion of the row is
  then refused by the foreign keys, and the VPC stays listed although its bridge is gone.\<close>

theorem DeleteVPC_referenced_loses_bridge:
  assumes "faults s = []" and "uuid_parse E n = None"
    and "find (\<lambda>v. vpc_Name v = n \<and> vpc_UserID v = u) (t_vpcs s) = Some v" and "vpc_referenced s (vpc_ID v)"
  shows "\<exists>e s'. DeleteVPC E (Some u) n s = (Err (Wrap Internal ''failed to delete VPC from database'' e), s') \<and>
    t_vpcs s' = t_vpcs s \<and> calls s' = calls s @ [BDeleteBridge (vpc_NetworkID v)]"
proof -
  have v: "v \<in> set (t_vpcs s) \<and> vpc_UserID v = u" using assms(3) by (auto dest: find_Some_set)
  then have "list_ex (\<lambda>w. vpc_ID w = vpc_ID v \<and> vpc_UserID w = u) (t_vpcs s)" by (auto simp: list_ex_iff)
  moreover have "vpc_referenced (s\<lparr>calls := c\<rparr>) (vpc_ID v)" for c
    using assms(4) by (simp add: vpc_referenced_def)
  ultimately show ?thesis
    using assms(1-3)
    by (auto simp: DeleteVPC_def GetVPC_def VpcRepository_GetByName_def VpcRepository_Delete_def Let_def run)
qed

theorem DeleteVPC_referenced_loses_bridge_witness:
  "\<exists>e s'. DeleteVPC sample_env (Some 1) ''net'' (sample_world\<lparr>t_vpcs := [sample_vpc], t_load_balancers := [sample_lb]\<rparr>) =
     (Err (Wrap Internal ''failed to delete VPC from database'' e), s') \<and>
     t_vpcs s' = [sample_vpc] \<and> calls s' = [BDeleteBridge ''br-vpc-x'']"
proof -
  have "Atoi ''net'' = None" by (simp add: Atoi_def is_digit_def)
  then show ?thesis
    using DeleteVPC_referenced_loses_bridge [of "sample_world\<lparr>t_vpcs := [sample_vpc], t_load_balancers := [sample_lb]\<rparr>"
        sample_env "''net''" 1 sample_vpc]
    by (auto simp: sample_lb_def vpc_referenced_def)
qed

text \<open>A subnet that was created has its base address inside the block of its VPC, belongs to the caller and
  to a VPC of the caller, is stored with the successor of the base address as its gateway, and is the only
  change to the table.\<close>

theorem CreateSubnet_ok:
  assumes "CreateSubnet E (Some u) vpcID name cidr az s = (Ok n, s')"
  shows "\<exists>vpc ip0 vpcNet ip net. vpc \<in> set (t_vpcs s) \<and> vpc_ID vpc = vpcID \<and> vpc_UserID vpc = u \<and>
    ParseCIDR (vpc_CIDRBlock vpc) = Some (ip0, vpcNet) \<and> ParseCIDR cidr = Some (ip, net) \<and> Contains vpcNet ip \<and>
    sub_UserID n = u \<and> sub_VPCID n = vpcID \<and> sub_GatewayIP n = IP_String (increment ip) \<and>
    t_subnets s' = t_subnets s @ [n\<lparr>sub_CIDRBlock := cast_text (cidr_text E) cidr,
       sub_GatewayIP := cast_text (inet_text E) (sub_GatewayIP n)\<rparr>]"
proof -
  have "wp (CreateSubnet E (Some u) vpcID name cidr az) (\<lambda>r s'. \<forall>n. r = Ok n \<longrightarrow> 
     (\<exists>vpc ip0 vpcNet ip net. vpc \<in> set (t_vpcs s) \<and> vpc_ID vpc = vpcID \<and> vpc_UserID vpc = u \<and>
    ParseCIDR (vpc_CIDRBlock vpc) = Some (ip0, vpcNet) \<and> ParseCIDR cidr = Some (ip, net) \<and> Contains vpcNet ip \<and>
    sub_UserID n = u \<and> sub_VPCID n = vpcID \<and> sub_GatewayIP n = IP_String (increment ip) \<and>
    t_subnets s' = t_subnets s @ [n\<lparr>sub_CIDRBlock := cast_text (cidr_text E) cidr,
       sub_GatewayIP := cast_text (inet_text E) (sub_GatewayIP n)\<rparr>])) s"
    unfolding CreateSubnet_def VpcRepository_GetByID_def SubnetRepository_Create_def Let_def calculateGatewayIP_def
    apply (simp only: wps)
    by (auto simp: wps core_eq_iff intro!: wp_core wp_queryRowC wp_insertC split: outcome.splits option.splits dest!: find_Some_set)
  then show ?thesis using assms by (simp add: wp_def)
qed

lemma Contains_4_in_16:
  "length a = 4 \<Longrightarrow> Contains n (v4InV6Prefix @ a) = Contains n a"
proof -
  assume "length a = 4"
  then have "To4 (v4InV6Prefix @ a) = Some a" and "To4 a = Some a"
    by (simp_all add: To4_def v4InV6Prefix_def)
  then show ?thesis by (simp add: Contains_def split: option.split prod.split)
qed

text \<open>Only the base address is compared with the VPC's block: a subnet of the same base address and any
  prefix length passes the check, even one that is larger than its VPC.\<close>

lemma CreateSubnet_larger_than_vpc:
  assumes "faults s = []" and "has_user s u" and "vpc \<in> set (t_vpcs s)" and "vpc_UserID vpc = u"
    and "distinct (map vpc_ID (t_vpcs s))"
    and "vpc_CIDRBlock vpc = dotted a @ ''/'' @ nat_string p" and "length a = 4" and "p \<le> 32" and "q \<le> 32"
    and "cidr_text E (dotted a @ ''/'' @ nat_string q) \<noteq> None" and "inet_text E (IP_String (increment (v4InV6Prefix @ a))) \<noteq> None"
    and "t_subnets s = []"
  shows "\<exists>n s'. CreateSubnet E (Some u) (vpc_ID vpc) name (dotted a @ ''/'' @ nat_string q) az s = (Ok n, s') \<and>
     sub_CIDRBlock n = dotted a @ ''/'' @ nat_string q"
proof -
  have f: "find (\<lambda>v. vpc_ID v = vpc_ID vpc \<and> vpc_UserID v = u) (t_vpcs s) = Some vpc"
    using find_key_and [OF assms(5,3), of "\<lambda>v. vpc_UserID v = u"] assms(4) by simp
  have c: "Contains (ipv4_net a p) (v4InV6Prefix @ a)"
    using Contains_ipv4_net [of a a p] assms(7,8) by (simp add: Contains_4_in_16)
  have "wp (CreateSubnet E (Some u) (vpc_ID vpc) name (dotted a @ ''/'' @ nat_string q) az)
     (\<lambda>r s'. \<exists>n. r = Ok n \<and> sub_CIDRBlock n = dotted a @ ''/'' @ nat_string q) s"
    using assms(1-4,12) f c ParseCIDR_dotted [of a p] ParseCIDR_dotted [of a q] assms(6-11)
    by (auto simp: CreateSubnet_def VpcRepository_GetByID_def SubnetRepository_Create_def calculateGatewayIP_def Let_def
        wps wpnf cast_ok_def has_user_def simp del: wp_ignoreC intro!: wp_ignore_Log_nf)
  then show ?thesis unfolding wp_def
    by (cases "CreateSubnet E (Some u) (vpc_ID vpc) name (dotted a @ ''/'' @ nat_string q) az s") auto
qed

theorem CreateSubnet_ok_witness:
  "\<exists>n s'. CreateSubnet sample_env (Some 1) 20 ''s'' (dotted [10, 0, 1, 0] @ ''/'' @ nat_string 28) ''az'' (sample_world\<lparr>t_vpcs := [sample_vpc]\<rparr>) = (Ok n, s') \<and>
     sub_VPCID n = 20 \<and> length (t_subnets s') = 1"
proof -
  obtain n s' where r: "CreateSubnet sample_env (Some 1) 20 ''s'' (dotted [10, 0, 1, 0] @ ''/'' @ nat_string 28) ''az''
      (sample_world\<lparr>t_vpcs := [sample_vpc]\<rparr>) = (Ok n, s')"
    using CreateSubnet_larger_than_vpc [of "sample_world\<lparr>t_vpcs := [sample_vpc]\<rparr>" 1 sample_vpc "[10, 0, 1, 0]" 24 28 sample_env "''s''" "''az''"]
    by (fastforce simp: has_user_def)
  with CreateSubnet_ok [OF r] show ?thesis by auto
qed

text \<open>The check of \<^verbatim>\<open>CreateSubnet\<close> compares the base address only: in a VPC with a \<open>/24\<close> block a subnet
  with the same base address and prefix length 8 is created, although it contains the VPC's whole block.\<close>

theorem CreateSubnet_accepts_larger:
  "\<exists>n s'. CreateSubnet sample_env (Some 1) 20 ''s'' (dotted [10, 0, 1, 0] @ ''/'' @ nat_string 8) ''az''
       (sample_world\<lparr>t_vpcs := [sample_vpc]\<rparr>) = (Ok n, s') \<and>
     ParseCIDR (vpc_CIDRBlock sample_vpc) = Some (v4InV6Prefix @ [10, 0, 1, 0], ipv4_net [10, 0, 1, 0] 24) \<and>
     ParseCIDR (sub_CIDRBlock n) = Some (v4InV6Prefix @ [10, 0, 1, 0], ipv4_net [10, 0, 1, 0] 8)"
proof -
  have "ParseCIDR (vpc_CIDRBlock sample_vpc) = Some (v4InV6Prefix @ [10, 0, 1, 0], ipv4_net [10, 0, 1, 0] 24)"
    unfolding sample_vpc_simps by (rule ParseCIDR_dotted) simp_all
  moreover have "ParseCIDR (dotted [10, 0, 1, 0] @ ''/'' @ nat_string 8) = Some (v4InV6Prefix @ [10, 0, 1, 0], ipv4_net [10, 0, 1, 0] 8)"
    by (rule ParseCIDR_dotted) simp_all
  ultimately show ?thesis
    using CreateSubnet_larger_than_vpc [of "sample_world\<lparr>t_vpcs := [sample_vpc]\<rparr>" 1 sample_vpc "[10, 0, 1, 0]" 24 8 sample_env "''s''" "''az''"]
    by (fastforce simp: has_user_def)
qed

end
