(* ===== verification/Instances.thy ===== *)
theory Instances
  imports Ports Networks
begin

text \<open>
  Compute: the repository \<^verbatim>\<open>instance_repo.go\<close> with its optimistic locking and the instance service
  \<^verbatim>\<open>instance.go\<close>: launching with network configuration, address allocation and volumes, stopping,
  termination, logs and statistics.
\<close>

section \<open>Versioned repositories\<close>

text \<open>
  Optimistic locking, \<^verbatim>\<open>SET .., version = version + 1 WHERE id = $1 AND version = $2 AND user_id = $3\<close>: an
  update succeeds only on a row that still has the version the caller read, and bumps it; otherwise it
  fails and changes nothing.
\<close>

locale versioned_repo =
  fixes tbl :: "world \<Rightarrow> 'r list"
    and key :: "'r \<Rightarrow> uuid"
    and owner :: "'r \<Rightarrow> uuid"
    and ver :: "'r \<Rightarrow> int"
    and upd :: "'r \<Rightarrow> 'r op"
  assumes upd_ok: "upd r s = (Ok r', s') \<Longrightarrow>
      (\<exists>row \<in> set (tbl s). key row = key r \<and> ver row = ver r \<and> owner row = owner r) \<and>
      (\<exists>f. (\<forall>row. key (f row) = key row \<and> owner (f row) = owner row \<and> ver (f row) = ver row + 1) \<and>
        tbl s' = upd_where (\<lambda>row. key row = key r \<and> ver row = ver r \<and> owner row = owner r) f (tbl s)) \<and>
      key r' = key r \<and> owner r' = owner r \<and> ver r' = ver r + 1"
    and upd_fail: "\<not> (\<exists>x. fst (upd r s) = Ok x) \<Longrightarrow> tbl (snd (upd r s)) = tbl s"
begin

lemma upd_stale:
  assumes "\<And>row. row \<in> set (tbl s) \<Longrightarrow> key row = key r \<Longrightarrow> owner row = owner r \<Longrightarrow> ver row \<noteq> ver r"
  shows "fst (upd r s) \<noteq> Ok x \<and> tbl (snd (upd r s)) = tbl s"
proof -
  have "fst (upd r s) \<noteq> Ok y" for y
    using upd_ok [of r s y "snd (upd r s)"] assms by (metis prod.collapse)
  then show ?thesis using upd_fail [of r s] by blast
qed

text \<open>Of two updates that read the same version, at most one succeeds: no update is lost.\<close>

lemma no_lost_update:
  assumes "distinct (map key (tbl s))" and "upd r1 s = (Ok r1', s1)"
    and "key r2 = key r1" and "ver r2 = ver r1"
  shows "fst (upd r2 s1) \<noteq> Ok x \<and> tbl (snd (upd r2 s1)) = tbl s1"
proof (rule upd_stale)
  fix row
  assume row: "row \<in> set (tbl s1)" "key row = key r2" "owner row = owner r2"
  from upd_ok [OF assms(2)] obtain f where
      f: "\<forall>row. key (f row) = key row \<and> owner (f row) = owner row \<and> ver (f row) = ver row + 1"
      and s1: "tbl s1 = upd_where (\<lambda>row. key row = key r1 \<and> ver row = ver r1 \<and> owner row = owner r1) f (tbl s)"
      and ex: "\<exists>row \<in> set (tbl s). key row = key r1 \<and> ver row = ver r1 \<and> owner row = owner r1"
    by blast
  from row(1) s1 obtain row0 where row0: "row0 \<in> set (tbl s)"
      "row = (if key row0 = key r1 \<and> ver row0 = ver r1 \<and> owner row0 = owner r1 then f row0 else row0)"
    by (auto simp: set_upd_where)
  with f row(2) assms(3) have "key row0 = key r1" by (auto split: if_splits)
  with ex row0(1) assms(1) have "ver row0 = ver r1 \<and> owner row0 = owner r1"
    by (metis distinct_key_unique)
  with row0(2) \<open>key row0 = key r1\<close> f assms(4) show "ver row \<noteq> ver r2" by simp
qed

lemma upd_twice:
  assumes "distinct (map key (tbl s))" and "upd r s = (Ok r', s')"
  shows "\<exists>row \<in> set (tbl s'). key row = key r' \<and> ver row = ver r' \<and> owner row = owner r'"
proof -
  from upd_ok [OF assms(2)] obtain f row where
      f: "\<forall>row. key (f row) = key row \<and> owner (f row) = owner row \<and> ver (f row) = ver row + 1"
      and s': "tbl s' = upd_where (\<lambda>row. key row = key r \<and> ver row = ver r \<and> owner row = owner r) f (tbl s)"
      and row: "row \<in> set (tbl s)" "key row = key r" "ver row = ver r" "owner row = owner r"
      and r': "key r' = key r \<and> owner r' = owner r \<and> ver r' = ver r + 1"
    by blast
  from row s' have "f row \<in> set (tbl s')" by (force simp: set_upd_where)
  with f row r' show ?thesis by metis
qed

end

section \<open>The repository\<close>

definition fk_vpc :: "world \<Rightarrow> uuid option \<Rightarrow> bool" where
  "fk_vpc s v = (case v of None \<Rightarrow> True | Some i \<Rightarrow> list_ex (\<lambda>x. vpc_ID x = i) (t_vpcs s))"

definition fk_subnet :: "world \<Rightarrow> uuid option \<Rightarrow> bool" where
  "fk_subnet s n = (case n of None \<Rightarrow> True | Some i \<Rightarrow> list_ex (\<lambda>x. sub_ID x = i) (t_subnets s))"

definition InstanceRepository_Create :: "env \<Rightarrow> Instance \<Rightarrow> unit op" where
  "InstanceRepository_Create E inst =
     mapErrC (Wrap Internal ''failed to create instance'')
       (insertC (\<lambda>s. [(\<not> cast_ok (inet_text E) (inst_PrivateIP inst), ''invalid input syntax for type inet''),
                      (inst_ID inst \<in> inst_ID ` set (t_instances s), ''instances_pkey''),
                      (\<not> has_user s (inst_UserID inst), ''instances_user_id_fkey''),
                      (\<not> fk_vpc s (inst_VpcID inst), ''instances_vpc_id_fkey''),
                      (\<not> fk_subnet s (inst_SubnetID inst), ''instances_subnet_id_fkey'')])
                (\<lambda>s. s\<lparr>t_instances := t_instances s @ [inst\<lparr>inst_PrivateIP := cast_text (inet_text E) (inst_PrivateIP inst)\<rparr>]\<rparr>))"

definition InstanceRepository_GetByID :: "env \<Rightarrow> ctx \<Rightarrow> uuid \<Rightarrow> Instance op" where
  "InstanceRepository_GetByID E ctx i =
     mapErrC (row_err (New NotFound (''instance '' @ uuid_string E i @ '' not found'')) ''failed to get instance'')
       (queryRowC (\<lambda>s. find (\<lambda>x. inst_ID x = i \<and> inst_UserID x = UserIDFromContext ctx) (t_instances s)))"

definition InstanceRepository_GetByName :: "ctx \<Rightarrow> string \<Rightarrow> Instance op" where
  "InstanceRepository_GetByName ctx name =
     mapErrC (row_err (New NotFound (''instance name '' @ name @ '' not found'')) ''failed to get instance by name'')
       (queryRowC (\<lambda>s. find (\<lambda>x. inst_Name x = name \<and> inst_UserID x = UserIDFromContext ctx) (t_instances s)))"

definition InstanceRepository_List :: "ctx \<Rightarrow> Instance list op" where
  "InstanceRepository_List ctx =
     mapErrC (Wrap Internal ''failed to list instances'')
       (queryC (\<lambda>s. sort_key (\<lambda>x. - inst_CreatedAt x)
          (filter (\<lambda>x. inst_UserID x = UserIDFromContext ctx) (t_instances s))))"

text \<open>The row condition and the row assignment of \<^verbatim>\<open>Update\<close>, which writes back the new version and time into
  the entity; the model returns it.\<close>

definition inst_match :: "Instance \<Rightarrow> Instance \<Rightarrow> bool" where
  "inst_match inst r \<longleftrightarrow> inst_ID r = inst_ID inst \<and> inst_Version r = inst_Version inst \<and> inst_UserID r = inst_UserID inst"

definition inst_written :: "env \<Rightarrow> Instance \<Rightarrow> time \<Rightarrow> Instance \<Rightarrow> Instance" where
  "inst_written E inst now r = r\<lparr>inst_Name := inst_Name inst, inst_Status := inst_Status inst,
     inst_Version := inst_Version r + 1, inst_UpdatedAt := now, inst_ContainerID := inst_ContainerID inst,
     inst_Ports := inst_Ports inst, inst_VpcID := inst_VpcID inst, inst_SubnetID := inst_SubnetID inst,
     inst_PrivateIP := cast_text (inet_text E) (inst_PrivateIP inst), inst_OvsPort := inst_OvsPort inst\<rparr>"

definition InstanceRepository_Update :: "env \<Rightarrow> Instance \<Rightarrow> Instance op" where
  "InstanceRepository_Update E inst =
     bindC nowC (\<lambda>now.
     bindC (mapErrC (Wrap Internal ''failed to update instance'')
       (execC (\<lambda>s. [(\<not> cast_ok (inet_text E) (inst_PrivateIP inst), ''invalid input syntax for type inet''),
                    (list_ex (inst_match inst) (t_instances s) \<and> \<not> fk_vpc s (inst_VpcID inst), ''instances_vpc_id_fkey''),
                    (list_ex (inst_match inst) (t_instances s) \<and> \<not> fk_subnet s (inst_SubnetID inst), ''instances_subnet_id_fkey'')])
          (\<lambda>s. rows_affected (inst_match inst) (t_instances s))
          (\<lambda>s. s\<lparr>t_instances := upd_where (inst_match inst) (inst_written E inst now) (t_instances s)\<rparr>)))
     (\<lambda>n. bindC (guardC (n = 0) (New Conflict ''update conflict: instance was modified or not found'')) (\<lambda>_.
     returnC (inst\<lparr>inst_UpdatedAt := now, inst_Version := inst_Version inst + 1\<rparr>))))"

definition InstanceRepository_ListBySubnet :: "ctx \<Rightarrow> uuid \<Rightarrow> Instance list op" where
  "InstanceRepository_ListBySubnet ctx subnetID =
     mapErrC (Wrap Internal ''failed to list instances by subnet'')
       (queryC (\<lambda>s. sort_key (\<lambda>x. - inst_CreatedAt x)
          (filter (\<lambda>x. inst_SubnetID x = Some subnetID \<and> inst_UserID x = UserIDFromContext ctx) (t_instances s))))"

text \<open>
  Deleting an instance detaches its volumes (\<^verbatim>\<open>ON DELETE SET NULL\<close>) and removes its load-balancer targets,
  scaling-group, deployment and security-group memberships and metrics (\<^verbatim>\<open>ON DELETE CASCADE\<close>).
\<close>

definition delete_instance_row :: "(Instance \<Rightarrow> bool) \<Rightarrow> uuid \<Rightarrow> world \<Rightarrow> world" where
  "delete_instance_row P i s =
     (if list_ex P (t_instances s) then
        s\<lparr>t_instances := filter (\<lambda>x. \<not> P x) (t_instances s),
          t_volumes := upd_where (\<lambda>v. vol_InstanceID v = Some i) (\<lambda>v. v\<lparr>vol_InstanceID := None\<rparr>) (t_volumes s),
          t_lb_targets := filter (\<lambda>t. tgt_InstanceID t \<noteq> i) (t_lb_targets s),
          t_scaling_group_instances := filter (\<lambda>g. sgi_InstanceID g \<noteq> i) (t_scaling_group_instances s),
          t_deployment_containers := filter (\<lambda>c. dc_InstanceID c \<noteq> i) (t_deployment_containers s),
          t_instance_security_groups := filter (\<lambda>p. fst p \<noteq> i) (t_instance_security_groups s),
          t_metrics_history := filter (\<lambda>m. mp_InstanceID m \<noteq> i) (t_metrics_history s)\<rparr>
      else s)"

definition InstanceRepository_Delete :: "env \<Rightarrow> ctx \<Rightarrow> uuid \<Rightarrow> unit op" where
  "InstanceRepository_Delete E ctx i =
     (let P = (\<lambda>x. inst_ID x = i \<and> inst_UserID x = UserIDFromContext ctx) in
      bindC (mapErrC (Wrap Internal ''failed to delete instance'')
               (execC noConstraint (\<lambda>s. rows_affected P (t_instances s)) (delete_instance_row P i)))
        (\<lambda>n. guardC (n = 0) (New NotFound (''instance '' @ uuid_string E i @ '' not found''))))"

section \<open>The service\<close>

definition formatContainerName :: "env \<Rightarrow> uuid \<Rightarrow> string" where
  "formatContainerName E i = ''thecloud-'' @ id8 E i"

definition ListInstances :: "ctx \<Rightarrow> Instance list op" where
  "ListInstances ctx = InstanceRepository_List ctx"

definition GetInstance :: "env \<Rightarrow> ctx \<Rightarrow> string \<Rightarrow> Instance op" where
  "GetInstance E ctx idOrName =
     (case uuid_parse E idOrName of
        Some i \<Rightarrow> InstanceRepository_GetByID E ctx i
      | None \<Rightarrow> InstanceRepository_GetByName ctx idOrName)"

subsection \<open>Network configuration\<close>

text \<open>The search loop's option result: \<open>None\<close> is a loop that does not return. It is the outcome \<^term>\<open>Panic noReturn\<close>, which nothing
  recovers from.\<close>

definition noReturn :: string where
  "noReturn = ''does not return''"

definition allocateIP :: "ctx \<Rightarrow> Subnet \<Rightarrow> string op" where
  "allocateIP ctx subnet =
     (case ParseCIDR (sub_CIDRBlock subnet) of
        None \<Rightarrow> failC (Errorf ''invalid CIDR address'' None)
      | Some (_, ipNet) \<Rightarrow>
          bindC (InstanceRepository_ListBySubnet ctx (sub_ID subnet)) (\<lambda>instances.
          let usedIPs = filter (\<lambda>p. p \<noteq> []) (map inst_PrivateIP instances) @ [sub_GatewayIP subnet] in
          case findAvailableIP ipNet usedIPs of
            None \<Rightarrow> panicC noReturn
          | Some r \<Rightarrow> liftC r))"

definition resolveNetworkConfig :: "env \<Rightarrow> ctx \<Rightarrow> uuid option \<Rightarrow> uuid option \<Rightarrow> (string \<times> string \<times> string) op" where
  "resolveNetworkConfig E ctx vpcID subnetID =
     bindC (case vpcID of
              None \<Rightarrow> returnC []
            | Some v \<Rightarrow> bindC (VpcRepository_GetByID E ctx v) (\<lambda>vpc. returnC (vpc_NetworkID vpc))) (\<lambda>networkID.
     case subnetID of
       None \<Rightarrow> returnC (networkID, [], [])
     | Some n \<Rightarrow>
         if network_nil E then returnC (networkID, [], [])
         else
           bindC (mapErrC (Wrap NotFound ''subnet not found'') (SubnetRepository_GetByID E ctx n)) (\<lambda>subnet.
           bindC (mapErrC (Wrap ResourceLimitExceeded ''failed to allocate IP in subnet'') (allocateIP ctx subnet)) (\<lambda>allocatedIP.
           bindC (newUUID E) (\<lambda>u.
           returnC (networkID, allocatedIP, ''veth-'' @ id8 E u)))))"

text \<open>\<^verbatim>\<open>IPMask.Size\<close>: the number of leading ones, zero when the mask is not ones followed by zeros.\<close>

definition byte_ones :: "byte \<Rightarrow> nat option" where
  "byte_ones v = find (\<lambda>k. v = NOT (drop_bit k 0xff)) [0 ..< 9]"

fun mask_ones :: "byte list \<Rightarrow> nat option" where
  "mask_ones [] = Some 0"
| "mask_ones (v # vs) =
     (if v = 0xff then map_option (\<lambda>n. 8 + n) (mask_ones vs)
      else case byte_ones v of None \<Rightarrow> None | Some k \<Rightarrow> if list_all (\<lambda>b. b = 0) vs then Some k else None)"

definition Mask_Size :: "byte list \<Rightarrow> nat" where
  "Mask_Size m = (case mask_ones m of None \<Rightarrow> 0 | Some n \<Rightarrow> n)"

text \<open>
  The results of both lookups are used without checking their error: a nil VPC identifier, a VPC that is
  not found and an unparsable block are nil dereferences.
\<close>

definition plumbNetwork :: "env \<Rightarrow> ctx \<Rightarrow> Instance \<Rightarrow> string \<Rightarrow> unit op" where
  "plumbNetwork E ctx inst containerID =
     (if inst_OvsPort inst = [] \<or> network_nil E then returnC ()
      else
      let vethContainer = ''eth0-'' @ id8 E (inst_ID inst) in
      bindC (backendC (BCreateVethPair (inst_OvsPort inst) vethContainer)) (\<lambda>_.
      case inst_VpcID inst of
        None \<Rightarrow> panicC ''nil dereference: inst.VpcID''
      | Some v \<Rightarrow>
      bindC (tryC (VpcRepository_GetByID E ctx v)) (\<lambda>r.
      case r of
        Inl _ \<Rightarrow> panicC ''nil dereference: vpc''
      | Inr vpc \<Rightarrow>
      bindC (backendC (BAttachVethToBridge (vpc_NetworkID vpc) (inst_OvsPort inst))) (\<lambda>_.
      case inst_SubnetID inst of
        None \<Rightarrow> returnC ()
      | Some n \<Rightarrow>
      bindC (tryC (SubnetRepository_GetByID E ctx n)) (\<lambda>r.
      case r of
        Inl _ \<Rightarrow> returnC ()
      | Inr subnet \<Rightarrow>
      (case ParseCIDR (sub_CIDRBlock subnet) of
        None \<Rightarrow> panicC ''nil dereference: ipNet''
      | Some (_, ipNet) \<Rightarrow>
      bindC (backendC (BSetVethIP vethContainer (inst_PrivateIP inst) (nat_string (Mask_Size (net_Mask ipNet))))) (\<lambda>_.
      ignoreC (backendC (BLinkSetUp vethContainer)))))))))"

subsection \<open>Volumes of an instance\<close>

definition getVolumeByIDOrName :: "env \<Rightarrow> ctx \<Rightarrow> string \<Rightarrow> Volume op" where
  "getVolumeByIDOrName E ctx idOrName =
     (case uuid_parse E idOrName of
        Some i \<Rightarrow> VolumeRepository_GetByID ctx i
      | None \<Rightarrow> VolumeRepository_GetByName ctx idOrName)"

definition resolveVolume :: "env \<Rightarrow> ctx \<Rightarrow> VolumeAttachment \<Rightarrow> (string \<times> Volume) op" where
  "resolveVolume E ctx va =
     bindC (mapErrC (Wrap NotFound (''volume '' @ VolumeIDOrName va @ '' not found''))
              (getVolumeByIDOrName E ctx (VolumeIDOrName va))) (\<lambda>vol.
     bindC (guardC (vol_Status vol \<noteq> VolumeStatusAvailable)
              (New InvalidInput (''volume '' @ vol_Name vol @ '' is not available''))) (\<lambda>_.
     returnC (dockerVolName E (vol_ID vol) @ '':'' @ MountPath va, vol)))"

definition resolveVolumes :: "env \<Rightarrow> ctx \<Rightarrow> VolumeAttachment list \<Rightarrow> (string list \<times> Volume list) op" where
  "resolveVolumes E ctx volumes =
     bindC (mapC volumes (resolveVolume E ctx)) (\<lambda>rs. returnC (map fst rs, map snd rs))"

definition updateVolumesAfterLaunch :: "Volume list \<Rightarrow> uuid \<Rightarrow> unit op" where
  "updateVolumesAfterLaunch volumes instanceID =
     forC volumes (\<lambda>vol. bindC nowC (\<lambda>now.
       ignoreC (VolumeRepository_Update (vol\<lparr>vol_Status := VolumeStatusInUse, vol_InstanceID := Some instanceID,
         vol_UpdatedAt := now\<rparr>))))"

definition releaseAttachedVolumes :: "ctx \<Rightarrow> uuid \<Rightarrow> unit op" where
  "releaseAttachedVolumes ctx instanceID =
     bindC (VolumeRepository_ListByInstanceID ctx instanceID) (\<lambda>volumes. forC volumes releaseVolume)"

subsection \<open>Launch, stop, terminate\<close>

definition LaunchInstance ::
  "env \<Rightarrow> ctx \<Rightarrow> string \<Rightarrow> string \<Rightarrow> string \<Rightarrow> uuid option \<Rightarrow> uuid option \<Rightarrow> VolumeAttachment list \<Rightarrow> Instance op" where
  "LaunchInstance E ctx name img ports vpcID subnetID volumes =
     bindC (liftC (parseAndValidatePorts ports)) (\<lambda>portList.
     bindC (newUUID E) (\<lambda>i.
     bindC nowC (\<lambda>now.
     let inst = \<lparr>inst_ID = i, inst_UserID = UserIDFromContext ctx, inst_Name = name, inst_Image = img, inst_ContainerID = [],
                 inst_Status = StatusStarting, inst_Ports = ports, inst_VpcID = vpcID, inst_SubnetID = subnetID,
                 inst_PrivateIP = [], inst_OvsPort = [], inst_Version = 1, inst_CreatedAt = now, inst_UpdatedAt = now\<rparr> in
     bindC (InstanceRepository_Create E inst) (\<lambda>_.
     let dockerName = formatContainerName E i in
     bindC (resolveNetworkConfig E ctx vpcID subnetID) (\<lambda>(networkID, allocatedIP, ovsPort).
     let inst = inst\<lparr>inst_PrivateIP := allocatedIP, inst_OvsPort := ovsPort\<rparr> in
     bindC (resolveVolumes E ctx volumes) (\<lambda>(volumeBinds, attachedVolumes).
     bindC (tryC (backendCreateC E (BCreateInstance dockerName img portList networkID volumeBinds [] []))) (\<lambda>r.
     case r of
       Inl err \<Rightarrow>
         bindC (metricC (MInc ''InstanceOperationsTotal'' [''launch'', ''failure''])) (\<lambda>_.
         bindC (ignoreC (InstanceRepository_Update E (inst\<lparr>inst_Status := StatusError\<rparr>))) (\<lambda>_.
         bindC (ignoreC (RecordEvent E ctx ''INSTANCE_LAUNCH_FAILED'' (uuid_string E i) ''INSTANCE''
                  [(''name'', GStr name), (''image'', GStr img), (''error'', GStr (Error_Error err))])) (\<lambda>_.
         failC (Wrap Internal ''failed to launch container'' err))))
     | Inr containerID \<Rightarrow>
         bindC (ignoreC (plumbNetwork E ctx inst containerID)) (\<lambda>_.
         bindC (InstanceRepository_Update E (inst\<lparr>inst_Status := StatusRunning, inst_ContainerID := containerID\<rparr>)) (\<lambda>inst.
         bindC (ignoreC (RecordEvent E ctx ''INSTANCE_LAUNCH'' (uuid_string E i) ''INSTANCE''
                  [(''name'', GStr name), (''image'', GStr img)])) (\<lambda>_.
         bindC (ignoreC (Log E ctx (inst_UserID inst) ''instance.launch'' ''instance'' (uuid_string E i)
                  [(''name'', GStr name), (''image'', GStr img)])) (\<lambda>_.
         bindC (updateVolumesAfterLaunch attachedVolumes i) (\<lambda>_.
         returnC inst))))))))))))"

definition container_ref :: "env \<Rightarrow> Instance \<Rightarrow> string" where
  "container_ref E inst = (if inst_ContainerID inst = [] then formatContainerName E (inst_ID inst) else inst_ContainerID inst)"

definition StopInstance :: "env \<Rightarrow> ctx \<Rightarrow> string \<Rightarrow> unit op" where
  "StopInstance E ctx idOrName =
     bindC (GetInstance E ctx idOrName) (\<lambda>inst.
     if inst_Status inst = StatusStopped then returnC ()
     else
     bindC (tryC (backendC (BStopInstance (container_ref E inst)))) (\<lambda>r.
     case r of
       Inl err \<Rightarrow> bindC (metricC (MInc ''InstanceOperationsTotal'' [''stop'', ''failure'']))
                   (\<lambda>_. failC (Wrap Internal ''failed to stop container'' err))
     | Inr _ \<Rightarrow>
     bindC (metricC (MDec ''InstancesTotal'' [''running'', compute_type E])) (\<lambda>_.
     bindC (metricC (MInc ''InstancesTotal'' [''stopped'', compute_type E])) (\<lambda>_.
     bindC (metricC (MInc ''InstanceOperationsTotal'' [''stop'', ''success''])) (\<lambda>_.
     bindC (InstanceRepository_Update E (inst\<lparr>inst_Status := StatusStopped\<rparr>)) (\<lambda>inst.
     ignoreC (Log E ctx (inst_UserID inst) ''instance.stop'' ''instance'' (uuid_string E (inst_ID inst))
        [(''name'', GStr (inst_Name inst))])))))))"

definition removeInstanceContainer :: "env \<Rightarrow> Instance \<Rightarrow> unit op" where
  "removeInstanceContainer E inst =
     mapErrC (Wrap Internal ''failed to remove container'') (backendC (BDeleteInstance (container_ref E inst)))"

definition TerminateInstance :: "env \<Rightarrow> ctx \<Rightarrow> string \<Rightarrow> unit op" where
  "TerminateInstance E ctx idOrName =
     bindC (GetInstance E ctx idOrName) (\<lambda>inst.
     bindC (tryC (removeInstanceContainer E inst)) (\<lambda>r.
     case r of
       Inl err \<Rightarrow> bindC (metricC (MInc ''InstanceOperationsTotal'' [''terminate'', ''failure''])) (\<lambda>_. failC err)
     | Inr _ \<Rightarrow>
     bindC (case inst_Status inst of
              StatusRunning \<Rightarrow> metricC (MDec ''InstancesTotal'' [''running'', compute_type E])
            | StatusStopped \<Rightarrow> metricC (MDec ''InstancesTotal'' [''stopped'', compute_type E])
            | _ \<Rightarrow> returnC ()) (\<lambda>_.
     bindC (metricC (MInc ''InstanceOperationsTotal'' [''terminate'', ''success''])) (\<lambda>_.
     bindC (ignoreC (releaseAttachedVolumes ctx (inst_ID inst))) (\<lambda>_.
     bindC (InstanceRepository_Delete E ctx (inst_ID inst)) (\<lambda>_.
     bindC (ignoreC (RecordEvent E ctx ''INSTANCE_TERMINATE'' (uuid_string E (inst_ID inst)) ''INSTANCE'' [])) (\<lambda>_.
     ignoreC (Log E ctx (inst_UserID inst) ''instance.terminate'' ''instance'' (uuid_string E (inst_ID inst))
        [(''name'', GStr (inst_Name inst))]))))))))"

subsection \<open>Logs and statistics\<close>

definition GetInstanceLogs :: "env \<Rightarrow> ctx \<Rightarrow> string \<Rightarrow> string op" where
  "GetInstanceLogs E ctx idOrName =
     bindC (GetInstance E ctx idOrName) (\<lambda>inst.
     bindC (guardC (inst_ContainerID inst = []) (New InstanceNotRunning ''instance has no active container'')) (\<lambda>_.
     bindC (backendC (BGetInstanceLogs (inst_ContainerID inst))) (\<lambda>_.
     mapErrC (Wrap Internal ''failed to read logs'') (extC (returnC (backend_logs E (inst_ContainerID inst)))))))"

definition stats_of_raw :: "raw_stats \<Rightarrow> InstanceStats" where
  "stats_of_raw st =
     (let cpuDelta = rat_of_nat (total_usage st) - rat_of_nat (pre_total_usage st);
          systemDelta = rat_of_nat (system_cpu_usage st) - rat_of_nat (pre_system_cpu_usage st);
          cpuPercent = (if systemDelta > 0 \<and> cpuDelta > 0 then cpuDelta / systemDelta * 100 else 0);
          memUsage = rat_of_nat (mem_usage st); memLimit = rat_of_nat (mem_limit st);
          memPercent = (if memLimit > 0 then memUsage / memLimit * 100 else 0)
      in \<lparr>CPUPercentage = cpuPercent, MemoryUsageBytes = memUsage, MemoryLimitBytes = memLimit, MemoryPercentage = memPercent\<rparr>)"

definition GetInstanceStats :: "env \<Rightarrow> ctx \<Rightarrow> string \<Rightarrow> InstanceStats op" where
  "GetInstanceStats E ctx idOrName =
     bindC (GetInstance E ctx idOrName) (\<lambda>inst.
     bindC (guardC (inst_ContainerID inst = []) (New InstanceNotRunning ''instance not running'')) (\<lambda>_.
     bindC (mapErrC (Wrap Internal ''failed to get stats stream'') (backendC (BGetInstanceStats (inst_ContainerID inst)))) (\<lambda>_.
     case backend_stats E (inst_ContainerID inst) of
       None \<Rightarrow> failC (Wrap Internal ''failed to decode stats'' (ExtError ''invalid character''))
     | Some st \<Rightarrow> returnC (stats_of_raw st))))"

section \<open>A sample instance\<close>

definition sample_instance :: Instance where
  "sample_instance = \<lparr>inst_ID = 40, inst_UserID = 1, inst_Name = ''web'', inst_Image = ''nginx'', inst_ContainerID = ''c0'',
     inst_Status = StatusRunning, inst_Ports = [], inst_VpcID = None, inst_SubnetID = None, inst_PrivateIP = [],
     inst_OvsPort = [], inst_Version = 2, inst_CreatedAt = 0, inst_UpdatedAt = 0\<rparr>"

definition sample_subnet :: Subnet where
  "sample_subnet = \<lparr>sub_ID = 50, sub_UserID = 1, sub_VPCID = 20, sub_Name = ''sn'',
     sub_CIDRBlock = dotted [10, 0, 1, 0] @ ''/'' @ nat_string 24, sub_AvailabilityZone = ''az'',
     sub_GatewayIP = ''10.0.1.1/32'', sub_ARN = [], sub_Status = ''available'', sub_CreatedAt = 0\<rparr>"

lemma sample_subnet_simps [simp]: "sub_ID sample_subnet = 50" "sub_UserID sample_subnet = 1" "sub_VPCID sample_subnet = 20"
  "sub_CIDRBlock sample_subnet = dotted [10, 0, 1, 0] @ ''/'' @ nat_string 24" "sub_GatewayIP sample_subnet = ''10.0.1.1/32''"
  by (simp_all add: sample_subnet_def)

lemma sample_instance_simps [simp]: "inst_ID sample_instance = 40" "inst_UserID sample_instance = 1"
  "inst_Status sample_instance = StatusRunning" "inst_Version sample_instance = 2" "inst_ContainerID sample_instance = ''c0''"
  "inst_PrivateIP sample_instance = []" "inst_VpcID sample_instance = None" "inst_SubnetID sample_instance = None"
  by (simp_all add: sample_instance_def)

section \<open>Facts\<close>

lemma InstanceRepository_GetByID_ok:
  "InstanceRepository_GetByID E ctx i s = (Ok x, s') \<Longrightarrow>
     x \<in> set (t_instances s) \<and> inst_ID x = i \<and> inst_UserID x = UserIDFromContext ctx \<and> t_instances s' = t_instances s"
  unfolding InstanceRepository_GetByID_def by (auto simp: ok_simps dest!: ok_queryRowC find_Some_set)

lemma InstanceRepository_Delete_ok:
  "InstanceRepository_Delete E ctx i s = (Ok (), s') \<Longrightarrow>
     (\<exists>x \<in> set (t_instances s). inst_ID x = i \<and> inst_UserID x = UserIDFromContext ctx) \<and>
     t_instances s' = filter (\<lambda>x. \<not> (inst_ID x = i \<and> inst_UserID x = UserIDFromContext ctx)) (t_instances s)"
  unfolding InstanceRepository_Delete_def Let_def
  by (auto simp: ok_simps rows_simps delete_instance_row_def list_ex_iff dest!: ok_execC)

lemma InstanceRepository_List_ok:
  "InstanceRepository_List ctx s = (Ok xs, s') \<Longrightarrow>
     set xs = {x \<in> set (t_instances s). inst_UserID x = UserIDFromContext ctx} \<and> t_instances s' = t_instances s"
  unfolding InstanceRepository_List_def by (auto simp: ok_simps dest!: ok_queryC)

interpretation inst_repo: tenant_list_repo t_instances inst_ID inst_UserID
  "InstanceRepository_GetByID E" "InstanceRepository_Delete E" InstanceRepository_List for E
  by unfold_locales (fact InstanceRepository_GetByID_ok InstanceRepository_Delete_ok InstanceRepository_List_ok)+

lemma inst_written_simps [simp]:
  "inst_ID (inst_written E inst now r) = inst_ID r" "inst_UserID (inst_written E inst now r) = inst_UserID r"
  "inst_Version (inst_written E inst now r) = inst_Version r + 1" "inst_Status (inst_written E inst now r) = inst_Status inst"
  "inst_ContainerID (inst_written E inst now r) = inst_ContainerID inst"
  by (simp_all add: inst_written_def)

lemma wp_InstanceRepository_Update:
  assumes "\<And>e s'. core s' = core s \<Longrightarrow> Q (Err e) s'"
    and "\<And>fs. \<exists>r \<in> set (t_instances s). inst_match inst r \<Longrightarrow>
      Q (Ok (inst\<lparr>inst_UpdatedAt := clock s, inst_Version := inst_Version inst + 1\<rparr>))
        (s\<lparr>faults := fs, t_instances := upd_where (inst_match inst) (inst_written E inst (clock s)) (t_instances s)\<rparr>)"
  shows "wp (InstanceRepository_Update E inst) Q s"
  unfolding InstanceRepository_Update_def
  by (auto simp: wps wp_nowC rows_simps core_eq_iff upd_where_none intro!: wp_execC assms)

text \<open>What an update leaves behind: an error, or the row as written.\<close>

lemma wp_InstanceRepository_Update_row:
  assumes err: "\<And>e s'. core s' = core s \<Longrightarrow> Q (Err e) s'"
    and ok: "\<And>s'. \<exists>row. row \<in> set (t_instances s') \<and> inst_ID row = inst_ID x \<and> inst_UserID row = inst_UserID x \<and>
         inst_Status row = inst_Status x \<and> inst_Version row = inst_Version x + 1 \<and> inst_ContainerID row = inst_ContainerID x \<Longrightarrow>
         calls s' = calls s \<Longrightarrow> Q (Ok (x\<lparr>inst_UpdatedAt := clock s, inst_Version := inst_Version x + 1\<rparr>)) s'"
  shows "wp (InstanceRepository_Update E x) Q s"
proof (rule wp_InstanceRepository_Update)
  fix fs
  assume "\<exists>r \<in> set (t_instances s). inst_match x r"
  then obtain r where r: "r \<in> set (t_instances s)" "inst_match x r" by blast
  let ?row = "inst_written E x (clock s) r"
    and ?s' = "s\<lparr>faults := fs, t_instances := upd_where (inst_match x) (inst_written E x (clock s)) (t_instances s)\<rparr>"
  have "?row \<in> set (t_instances ?s')" using r by (force simp: set_upd_where)
  moreover have "inst_ID ?row = inst_ID x \<and> inst_UserID ?row = inst_UserID x \<and> inst_Status ?row = inst_Status x \<and>
      inst_Version ?row = inst_Version x + 1 \<and> inst_ContainerID ?row = inst_ContainerID x"
    using r(2) by (simp add: inst_match_def)
  ultimately show "Q (Ok (x\<lparr>inst_UpdatedAt := clock s, inst_Version := inst_Version x + 1\<rparr>)) ?s'"
    by (intro ok exI [of _ ?row]) simp_all
qed (rule err)

lemma InstanceRepository_Update_ok:
  assumes "InstanceRepository_Update E inst s = (Ok x, s')"
  shows "(\<exists>r \<in> set (t_instances s). inst_ID r = inst_ID inst \<and> inst_Version r = inst_Version inst \<and> inst_UserID r = inst_UserID inst) \<and>
    (\<exists>f. (\<forall>r. inst_ID (f r) = inst_ID r \<and> inst_UserID (f r) = inst_UserID r \<and> inst_Version (f r) = inst_Version r + 1) \<and>
      t_instances s' = upd_where (\<lambda>r. inst_ID r = inst_ID inst \<and> inst_Version r = inst_Version inst \<and> inst_UserID r = inst_UserID inst) f (t_instances s)) \<and>
    inst_ID x = inst_ID inst \<and> inst_UserID x = inst_UserID inst \<and> inst_Version x = inst_Version inst + 1"
proof -
  have "wp (InstanceRepository_Update E inst) (\<lambda>r s'. \<forall>x. r = Ok x \<longrightarrow>
    ((\<exists>r \<in> set (t_instances s). inst_match inst r) \<and>
      t_instances s' = upd_where (inst_match inst) (inst_written E inst (clock s)) (t_instances s)) \<and>
    inst_ID x = inst_ID inst \<and> inst_UserID x = inst_UserID inst \<and> inst_Version x = inst_Version inst + 1) s"
    by (rule wp_InstanceRepository_Update) auto
  then show ?thesis using assms
    by (auto simp: wp_def inst_match_def [abs_def] intro!: exI [of _ "inst_written E inst (clock s)"])
qed

lemma InstanceRepository_Update_fail:
  "\<not> (\<exists>x. fst (InstanceRepository_Update E inst s) = Ok x) \<Longrightarrow>
     t_instances (snd (InstanceRepository_Update E inst s)) = t_instances s"
proof -
  have "wp (InstanceRepository_Update E inst) (\<lambda>r s'. (\<exists>x. r = Ok x) \<or> t_instances s' = t_instances s) s"
    by (rule wp_InstanceRepository_Update) (auto simp: core_eq_iff)
  then show "\<not> (\<exists>x. fst (InstanceRepository_Update E inst s) = Ok x) \<Longrightarrow> ?thesis" by (simp add: wp_def)
qed

interpretation inst_versions: versioned_repo t_instances inst_ID inst_UserID inst_Version "InstanceRepository_Update E" for E
  by unfold_locales (fact InstanceRepository_Update_ok InstanceRepository_Update_fail)+

lemma wp_GetInstance:
  "(\<And>e s'. core s' = core s \<Longrightarrow> Q (Err e) s') \<Longrightarrow>
   (\<And>x fs. x \<in> set (t_instances s) \<Longrightarrow> inst_UserID x = UserIDFromContext ctx \<Longrightarrow> Q (Ok x) (s\<lparr>faults := fs\<rparr>)) \<Longrightarrow>
   wp (GetInstance E ctx n) Q s"
  unfolding GetInstance_def InstanceRepository_GetByID_def InstanceRepository_GetByName_def
  by (auto simp: wps split: option.split intro!: wp_queryRowC dest: find_Some_set)

section \<open>Properties\<close>

text \<open>C7. No lost updates on instances: of two updates of one instance that start from the same version, once
  the first has succeeded the second reports an error and changes no row.\<close>

theorem instance_no_lost_update:
  assumes "distinct (map inst_ID (t_instances s))" and "InstanceRepository_Update E a s = (Ok a', s1)"
    and "inst_ID b = inst_ID a" and "inst_Version b = inst_Version a"
  shows "fst (InstanceRepository_Update E b s1) \<noteq> Ok x \<and> t_instances (snd (InstanceRepository_Update E b s1)) = t_instances s1"
  using inst_versions.no_lost_update [OF assms] .

lemma stable_others_instances [simp]: "stable (\<lambda>s. others inst_UserID u (t_instances s))"
  by (simp add: stable_def)

lemma keeps_InstanceRepository_Update:
  "inst_UserID inst = u \<Longrightarrow> confined (keeps (\<lambda>s. others inst_UserID u (t_instances s))) (InstanceRepository_Update E inst)"
  unfolding InstanceRepository_Update_def
  by (intro keeps_intros keep) (auto intro!: others_upd_where simp: inst_match_def)

lemma GetInstance_owner: "GetInstance E ctx n s = (Ok x, s') \<Longrightarrow> inst_UserID x = UserIDFromContext ctx"
  unfolding GetInstance_def InstanceRepository_GetByID_def InstanceRepository_GetByName_def
  by (auto simp: ok_simps split: option.splits dest!: ok_queryRowC find_Some_set)

lemma keeps_GetInstance [keep]: "stable f \<Longrightarrow> confined (keeps f) (GetInstance E ctx n)"
  unfolding GetInstance_def InstanceRepository_GetByID_def InstanceRepository_GetByName_def
  by (intro keeps_intros keep) auto

lemma StopInstance_isolated:
  "confined (keeps (\<lambda>s. others inst_UserID (UserIDFromContext ctx) (t_instances s))) (StopInstance E ctx n)"
  unfolding StopInstance_def
proof (rule keeps.fr_bind_ok)
  fix x s s'
  assume "GetInstance E ctx n s = (Ok x, s')"
  then have "inst_UserID x = UserIDFromContext ctx" by (rule GetInstance_owner)
  then show "confined (keeps (\<lambda>s. others inst_UserID (UserIDFromContext ctx) (t_instances s)))
     (if inst_Status x = StatusStopped then returnC ()
     else bindC (tryC (backendC (BStopInstance (container_ref E x)))) (\<lambda>r.
     case r of
       Inl err \<Rightarrow> bindC (metricC (MInc ''InstanceOperationsTotal'' [''stop'', ''failure'']))
                   (\<lambda>_. failC (Wrap Internal ''failed to stop container'' err))
     | Inr _ \<Rightarrow>
     bindC (metricC (MDec ''InstancesTotal'' [''running'', compute_type E])) (\<lambda>_.
     bindC (metricC (MInc ''InstancesTotal'' [''stopped'', compute_type E])) (\<lambda>_.
     bindC (metricC (MInc ''InstanceOperationsTotal'' [''stop'', ''success''])) (\<lambda>_.
     bindC (InstanceRepository_Update E (x\<lparr>inst_Status := StatusStopped\<rparr>)) (\<lambda>inst.
     ignoreC (Log E ctx (inst_UserID inst) ''instance.stop'' ''instance'' (uuid_string E (inst_ID inst))
        [(''name'', GStr (inst_Name inst))])))))))"
    by (intro keeps_intros keep keeps_InstanceRepository_Update) auto
qed (intro keeps_intros keep, simp)

lemma keeps_networks [keep]:
  "stable f \<Longrightarrow> confined (keeps f) (VpcRepository_GetByID E ctx v)"
  "stable f \<Longrightarrow> confined (keeps f) (SubnetRepository_GetByID E ctx n)"
  "stable f \<Longrightarrow> confined (keeps f) (InstanceRepository_ListBySubnet ctx n)"
  unfolding VpcRepository_GetByID_def SubnetRepository_GetByID_def InstanceRepository_ListBySubnet_def
  by (intro keeps_intros keep; simp)+

lemma keeps_volumes [keep]:
  "stable f \<Longrightarrow> confined (keeps f) (VolumeRepository_GetByID ctx v)"
  "stable f \<Longrightarrow> confined (keeps f) (VolumeRepository_GetByName ctx m)"
  "stable f \<Longrightarrow> confined (keeps f) (VolumeRepository_ListByInstanceID ctx i)"
  unfolding VolumeRepository_GetByID_def VolumeRepository_GetByName_def VolumeRepository_ListByInstanceID_def
  by (intro keeps_intros keep; simp)+

lemma keeps_resolveNetworkConfig [keep]: "stable f \<Longrightarrow> confined (keeps f) (resolveNetworkConfig E ctx v n)"
  unfolding resolveNetworkConfig_def allocateIP_def by (intro keeps_intros keep) auto

lemma keeps_plumbNetwork [keep]: "stable f \<Longrightarrow> confined (keeps f) (plumbNetwork E ctx inst c)"
  unfolding plumbNetwork_def by (intro keeps_intros keep) auto

lemma keeps_resolveVolumes [keep]: "stable f \<Longrightarrow> confined (keeps f) (resolveVolumes E ctx vs)"
  unfolding resolveVolumes_def resolveVolume_def getVolumeByIDOrName_def by (intro keeps_intros keep) auto

text \<open>Writing volumes back touches the table of volumes only.\<close>

lemma keeps_VolumeRepository_Update_other:
  "stable f \<Longrightarrow> (\<And>s x. f (s\<lparr>t_volumes := x\<rparr>) = f s) \<Longrightarrow> confined (keeps f) (VolumeRepository_Update v)"
  unfolding VolumeRepository_Update_def by (intro keeps_intros keep) auto

lemma keeps_updateVolumesAfterLaunch:
  "stable f \<Longrightarrow> (\<And>s x. f (s\<lparr>t_volumes := x\<rparr>) = f s) \<Longrightarrow> confined (keeps f) (updateVolumesAfterLaunch vs i)"
  unfolding updateVolumesAfterLaunch_def by (intro keeps_intros keep keeps_VolumeRepository_Update_other) auto

lemma keeps_releaseAttachedVolumes:
  "stable f \<Longrightarrow> (\<And>s x. f (s\<lparr>t_volumes := x\<rparr>) = f s) \<Longrightarrow> confined (keeps f) (releaseAttachedVolumes ctx i)"
  unfolding releaseAttachedVolumes_def releaseVolume_def
  by (intro keeps_intros keep keeps_VolumeRepository_Update_other) auto

lemma LaunchInstance_isolated:
  "confined (keeps (\<lambda>s. others inst_UserID (UserIDFromContext ctx) (t_instances s)))
     (LaunchInstance E ctx name img ports vpcID subnetID volumes)"
  unfolding LaunchInstance_def InstanceRepository_Create_def
  by (intro keeps_intros keep keeps_InstanceRepository_Update keeps_updateVolumesAfterLaunch) auto

lemma TerminateInstance_isolated:
  "confined (keeps (\<lambda>s. others inst_UserID (UserIDFromContext ctx) (t_instances s))) (TerminateInstance E ctx n)"
  unfolding TerminateInstance_def InstanceRepository_Delete_def removeInstanceContainer_def
  by (intro keeps_intros keep keeps_releaseAttachedVolumes)
     (auto intro!: others_filter keeps_intros keep simp: delete_instance_row_def split: InstanceStatus.splits)

text \<open>C4. Tenant isolation of the instance service: whatever a launch, stop or termination returns, the rows of
  other users in the table \<^verbatim>\<open>instances\<close> are exactly what they were.\<close>

theorem instance_service_isolation:
  "others inst_UserID (UserIDFromContext ctx) (t_instances (snd (LaunchInstance E ctx name img ports vpcID subnetID volumes s))) =
     others inst_UserID (UserIDFromContext ctx) (t_instances s) \<and>
   others inst_UserID (UserIDFromContext ctx) (t_instances (snd (StopInstance E ctx idOrName s))) =
     others inst_UserID (UserIDFromContext ctx) (t_instances s) \<and>
   others inst_UserID (UserIDFromContext ctx) (t_instances (snd (TerminateInstance E ctx idOrName s))) =
     others inst_UserID (UserIDFromContext ctx) (t_instances s)"
  using confinedD [OF LaunchInstance_isolated [of ctx E name img ports vpcID subnetID volumes], of s]
    confinedD [OF StopInstance_isolated [of ctx E idOrName], of s]
    confinedD [OF TerminateInstance_isolated [of ctx E idOrName], of s]
  by (simp add: keeps_def)

lemma LaunchInstance_ok_row:
  assumes "LaunchInstance E ctx name img ports vpcID subnetID volumes s = (Ok inst, s')"
  shows "\<exists>portList row. parseAndValidatePorts ports = Inr portList \<and> row \<in> set (t_instances s') \<and>
     inst_ID row = inst_ID inst \<and> inst_UserID row = UserIDFromContext ctx \<and>
     inst_Status row = StatusRunning \<and> inst_Version row = 2 \<and> inst_ContainerID row = inst_ContainerID inst"
proof -
  have vols: "wp (updateVolumesAfterLaunch vs i) Q s1" if "\<And>r s'. t_instances s' = t_instances s1 \<Longrightarrow> Q r s'" for vs i Q s1
    using that by (intro wp_confined [OF keeps_updateVolumesAfterLaunch [of t_instances]]) (auto simp: stable_def keeps_def)
  have "wp (LaunchInstance E ctx name img ports vpcID subnetID volumes) (\<lambda>r s'. \<forall>inst. r = Ok inst \<longrightarrow> 
     (\<exists>portList row. parseAndValidatePorts ports = Inr portList \<and> row \<in> set (t_instances s') \<and>
     inst_ID row = inst_ID inst \<and> inst_UserID row = UserIDFromContext ctx \<and>
     inst_Status row = StatusRunning \<and> inst_Version row = 2 \<and> inst_ContainerID row = inst_ContainerID inst)) s"
    unfolding LaunchInstance_def Let_def
    by (auto simp: wps core_eq_iff keeps_def intro!: wp_InstanceRepository_Update_row wp_core vols
        wp_any [where m = "InstanceRepository_Create E x" for x] wp_any [where m = "resolveNetworkConfig E ctx vpcID subnetID"]
        wp_any [where m = "resolveVolumes E ctx volumes"] wp_any [where m = "plumbNetwork E ctx x y" for x y]
        split: outcome.splits sum.splits)
  then show ?thesis using assms by (simp add: wp_def)
qed


lemma extends_launch [grow]:
  "confined extends (InstanceRepository_Create E inst)" "confined extends (InstanceRepository_Update E inst)"
  "confined extends (updateVolumesAfterLaunch vs i)" "confined extends (plumbNetwork E ctx inst cid)"
  unfolding InstanceRepository_Create_def InstanceRepository_Update_def updateVolumesAfterLaunch_def
    VolumeRepository_Update_def plumbNetwork_def VpcRepository_GetByID_def SubnetRepository_GetByID_def
  by (intro extends_intros grow; simp)+

lemma LaunchInstance_ok_call:
  assumes "LaunchInstance E ctx name img ports vpcID subnetID volumes s = (Ok inst, s')"
  shows "\<exists>portList network binds. parseAndValidatePorts ports = Inr portList \<and>
     BCreateInstance (formatContainerName E (inst_ID inst)) img portList network binds [] [] \<in> set (calls s')"
proof -
  have create: "wp (backendCreateC E c) Q s1"
    if "\<And>r s'. (\<And>cid. r = Ok cid \<Longrightarrow> c \<in> set (calls s')) \<Longrightarrow> Q r s'" for c Q s1
    unfolding backendCreateC_def by (rule wp_extC) (auto simp: wp_def intro!: that)
  have upd: "wp (InstanceRepository_Update E x) Q s1"
    if "\<And>r s'. extends s1 s' \<Longrightarrow> (\<And>y. r = Ok y \<Longrightarrow> inst_ID y = inst_ID x) \<Longrightarrow> Q r s'" for x Q s1
  proof -
    have "extends s1 (snd (InstanceRepository_Update E x s1))" by (rule confinedD) (rule extends_launch(2))
    moreover have "fst (InstanceRepository_Update E x s1) = Ok y \<Longrightarrow> inst_ID y = inst_ID x" for y
      using InstanceRepository_Update_ok [of E x s1 y "snd (InstanceRepository_Update E x s1)"] by (metis prod.collapse)
    ultimately show ?thesis unfolding wp_def by (rule that)
  qed
  have "wp (LaunchInstance E ctx name img ports vpcID subnetID volumes) (\<lambda>r s'. \<forall>inst. r = Ok inst \<longrightarrow> 
     (\<exists>portList network binds. parseAndValidatePorts ports = Inr portList \<and>
     BCreateInstance (formatContainerName E (inst_ID inst)) img portList network binds [] [] \<in> set (calls s'))) s"
    unfolding LaunchInstance_def Let_def
    by (auto simp: wps intro!: upd create wp_extends [OF extends_launch(3)] wp_extends [OF extends_launch(4)]
        wp_extends [OF extends_log(1)] wp_extends [OF extends_log(2)]
        wp_any [where m = "newUUID E"] wp_any [where m = nowC] wp_any [where m = "metricC x" for x]
        wp_any [where m = "InstanceRepository_Create E x" for x] wp_any [where m = "resolveNetworkConfig E ctx vpcID subnetID"]
        wp_any [where m = "resolveVolumes E ctx volumes"]
        split: outcome.splits sum.splits) (meson extends_mem)+
  then show ?thesis using assms by (simp add: wp_def)
qed

text \<open>A launch that reports success has validated the ports and has had a container created with the
  launched image, the validated ports and the name derived from the instance's identifier; the
  instance's row is \<^verbatim>\<open>RUNNING\<close>, owned by the caller, at version 2, and refers to the container. This holds
  whatever calls failed on the way.\<close>

theorem LaunchInstance_ok:
  assumes "LaunchInstance E ctx name img ports vpcID subnetID volumes s = (Ok inst, s')"
  shows "\<exists>portList network binds row. parseAndValidatePorts ports = Inr portList \<and>
     BCreateInstance (formatContainerName E (inst_ID inst)) img portList network binds [] [] \<in> set (calls s') \<and>
     row \<in> set (t_instances s') \<and> inst_ID row = inst_ID inst \<and> inst_UserID row = UserIDFromContext ctx \<and>
     inst_Status row = StatusRunning \<and> inst_Version row = 2 \<and> inst_ContainerID row = inst_ContainerID inst"
  using LaunchInstance_ok_row [OF assms] LaunchInstance_ok_call [OF assms] by auto

lemma resolveNetworkConfig_None [simp]: "resolveNetworkConfig E ctx None None = returnC ([], [], [])"
  by (simp add: resolveNetworkConfig_def)

lemma resolveVolumes_Nil [simp]: "resolveVolumes E ctx [] = returnC ([], [])"
  by (simp add: resolveVolumes_def)

lemma updateVolumesAfterLaunch_Nil [simp]: "updateVolumesAfterLaunch [] i = returnC ()"
  by (simp add: updateVolumesAfterLaunch_def)

lemma plumbNetwork_no_port [simp]: "inst_OvsPort inst = [] \<Longrightarrow> plumbNetwork E ctx inst c = returnC ()"
  by (simp add: plumbNetwork_def)

lemma parseAndValidatePorts_Nil [simp]: "parseAndValidatePorts [] = Inr []"
  by (simp add: parseAndValidatePorts_def)

lemma rows_match_fresh:
  "i \<notin> inst_ID ` set xs \<Longrightarrow> inst_ID inst = i \<Longrightarrow> upd_where (inst_match inst) f xs = xs \<and> rows_affected (inst_match inst) xs = 0"
  by (auto simp: inst_match_def rows_simps image_iff intro!: upd_where_none)

lemma match_new:
  "upd_where (inst_match a) f [b] = (if inst_match a b then [f b] else [b])"
  "rows_affected (inst_match a) (xs @ ys) = rows_affected (inst_match a) xs + rows_affected (inst_match a) ys"
  "inst_ID a = inst_ID b \<Longrightarrow> inst_Version a = inst_Version b \<Longrightarrow> inst_UserID a = inst_UserID b \<Longrightarrow> inst_match a b"
  by (simp_all add: rows_affected_def inst_match_def)

text \<open>A launch without network and volumes, with valid ports and a fresh identifier, meets no error: it
  returns the running instance.\<close>

theorem LaunchInstance_simple:
  assumes "faults s = []" and "has_user s u" and "uuid_at E (uuid_ctr s) \<notin> inst_ID ` set (t_instances s)"
    and "parseAndValidatePorts ports = Inr portList"
  shows "\<exists>inst s'. LaunchInstance E (Some u) name img ports None None [] s = (Ok inst, s') \<and>
    t_instances s' = t_instances s @ [inst] \<and> inst_ID inst = uuid_at E (uuid_ctr s) \<and> inst_Status inst = StatusRunning \<and>
    inst_ContainerID inst = cid_at E (length (calls s)) \<and>
    calls s' = calls s @ [BCreateInstance (formatContainerName E (inst_ID inst)) img portList [] [] [] []]"
proof -
  have "wp (LaunchInstance E (Some u) name img ports None None []) (\<lambda>r s'. \<exists>inst. r = Ok inst \<and>
    t_instances s' = t_instances s @ [inst] \<and> inst_ID inst = uuid_at E (uuid_ctr s) \<and> inst_Status inst = StatusRunning \<and>
    inst_ContainerID inst = cid_at E (length (calls s)) \<and>
    calls s' = calls s @ [BCreateInstance (formatContainerName E (inst_ID inst)) img portList [] [] [] []]) s"
    using assms
    by (auto simp: LaunchInstance_def InstanceRepository_Create_def InstanceRepository_Update_def Let_def wps wpnf logged_simps
        has_user_def cast_ok_def cast_text_def fk_vpc_def fk_subnet_def rows_match_fresh match_new inst_written_def
        simp del: wp_ignoreC intro!: wp_ignore_RecordEvent_nf wp_ignore_Log_nf)
  then show ?thesis unfolding wp_def
    by (cases "LaunchInstance E (Some u) name img ports None None [] s") auto
qed

text \<open>A launch into a VPC without faults: one row is added and no other table changes but those of events and audits.\<close>

lemma LaunchInstance_vpc_nf:
  assumes "faults s = []" and "has_user s u" and "uuid_at E (uuid_ctr s) \<notin> inst_ID ` set (t_instances s)"
    and "parseAndValidatePorts ports = Inr portList" and "find (\<lambda>x. vpc_ID x = v \<and> vpc_UserID x = u) (t_vpcs s) = Some vpc"
  shows "\<exists>inst s'. LaunchInstance E (Some u) name img ports (Some v) None [] s = (Ok inst, s') \<and>
    t_instances s' = t_instances s @ [inst] \<and> inst_ID inst = uuid_at E (uuid_ctr s) \<and> inst_UserID inst = u \<and> inst_VpcID inst = Some v \<and>
    core (s'\<lparr>t_instances := t_instances s\<rparr>) = core s \<and> faults s' = [] \<and> uuid_ctr s' = uuid_ctr s + 3"
proof -
  have "fk_vpc s (Some v)" using assms(5) by (auto simp: fk_vpc_def list_ex_iff dest: find_Some_set)
  with assms have "wp (LaunchInstance E (Some u) name img ports (Some v) None []) (\<lambda>r s'. \<exists>inst. r = Ok inst \<and>
    t_instances s' = t_instances s @ [inst] \<and> inst_ID inst = uuid_at E (uuid_ctr s) \<and> inst_UserID inst = u \<and> inst_VpcID inst = Some v \<and>
    core (s'\<lparr>t_instances := t_instances s\<rparr>) = core s \<and> faults s' = [] \<and> uuid_ctr s' = uuid_ctr s + 3) s"
    by (auto simp: LaunchInstance_def InstanceRepository_Create_def InstanceRepository_Update_def resolveNetworkConfig_def VpcRepository_GetByID_def
        Let_def wps wpnf logged_simps has_user_def cast_ok_def cast_text_def fk_vpc_def fk_subnet_def rows_match_fresh match_new inst_written_def
        simp del: wp_ignoreC intro!: wp_ignore_RecordEvent_nf wp_ignore_Log_nf)
  then show ?thesis unfolding wp_def
    by (cases "LaunchInstance E (Some u) name img ports (Some v) None [] s") auto
qed

theorem instance_no_lost_update_witness:
  "\<exists>a' s1. InstanceRepository_Update sample_env (sample_instance\<lparr>inst_Status := StatusStopped\<rparr>) (sample_world\<lparr>t_instances := [sample_instance]\<rparr>) = (Ok a', s1) \<and>
     fst (InstanceRepository_Update sample_env (sample_instance\<lparr>inst_Status := StatusRunning\<rparr>) s1) \<noteq> Ok a' \<and>
     t_instances (snd (InstanceRepository_Update sample_env (sample_instance\<lparr>inst_Status := StatusRunning\<rparr>) s1)) = t_instances s1"
proof -
  let ?a = "sample_instance\<lparr>inst_Status := StatusStopped\<rparr>" and ?s = "sample_world\<lparr>t_instances := [sample_instance]\<rparr>"
  obtain a' s1 where r: "InstanceRepository_Update sample_env ?a ?s = (Ok a', s1)"
    by (simp add: InstanceRepository_Update_def run sample_instance_def cast_ok_def fk_vpc_def fk_subnet_def inst_match_def)
  with instance_no_lost_update [of ?s sample_env ?a a' s1 "sample_instance\<lparr>inst_Status := StatusRunning\<rparr>" a'] show ?thesis
    by (simp add: sample_instance_def)
qed

theorem LaunchInstance_ok_witness:
  "\<exists>inst s' row. LaunchInstance sample_env (Some 1) ''web'' ''nginx'' [] None None [] sample_world = (Ok inst, s') \<and>
     row \<in> set (t_instances s') \<and> inst_ID row = inst_ID inst \<and> inst_Status row = StatusRunning \<and> inst_Version row = 2"
proof -
  obtain inst s' where r: "LaunchInstance sample_env (Some 1) ''web'' ''nginx'' [] None None [] sample_world = (Ok inst, s')"
    using LaunchInstance_simple [of sample_world 1 sample_env "[]" "[]"] by force
  with LaunchInstance_ok [OF r] show ?thesis by blast
qed

theorem LaunchInstance_simple_witness:
  "\<exists>inst s'. LaunchInstance sample_env (Some 1) ''web'' ''nginx'' [] None None [] sample_world = (Ok inst, s') \<and>
    t_instances s' = [inst] \<and> inst_Status inst = StatusRunning"
  using LaunchInstance_simple [of sample_world 1 sample_env "[]" "[]" "''web''" "''nginx''"] by auto

text \<open>When the container engine refuses the container, the launch reports an internal error that carries
  the engine's error, and the row of the instance is kept with status \<^verbatim>\<open>ERROR\<close>.\<close>

theorem LaunchInstance_engine_failure:
  assumes "faults s = [None, Some msg]" and "has_user s u" and "uuid_at E (uuid_ctr s) \<notin> inst_ID ` set (t_instances s)"
    and "parseAndValidatePorts ports = Inr portList"
  shows "\<exists>row s'. LaunchInstance E (Some u) name img ports None None [] s =
      (Err (Wrap Internal ''failed to launch container'' (ExtError msg)), s') \<and>
    t_instances s' = t_instances s @ [row] \<and> inst_ID row = uuid_at E (uuid_ctr s) \<and> inst_Status row = StatusError \<and>
    inst_ContainerID row = [] \<and> calls s' = calls s"
proof -
  have "wp (LaunchInstance E (Some u) name img ports None None []) (\<lambda>r s'. \<exists>row. r = Err (Wrap Internal ''failed to launch container'' (ExtError msg)) \<and>
    t_instances s' = t_instances s @ [row] \<and> inst_ID row = uuid_at E (uuid_ctr s) \<and> inst_Status row = StatusError \<and>
    inst_ContainerID row = [] \<and> calls s' = calls s) s"
    using assms
    by (auto simp: LaunchInstance_def InstanceRepository_Create_def InstanceRepository_Update_def Let_def wps wpnf logged_simps
        wp_insertC_script wp_backendCreateC_script has_user_def cast_ok_def cast_text_def fk_vpc_def fk_subnet_def rows_match_fresh match_new inst_written_def
        intro!: wp_RecordEvent_nf split: outcome.splits)
  then show ?thesis unfolding wp_def
    by (cases "LaunchInstance E (Some u) name img ports None None [] s") auto
qed

theorem LaunchInstance_engine_failure_witness:
  "\<exists>row s'. LaunchInstance sample_env (Some 1) ''web'' ''nginx'' [] None None [] (sample_world\<lparr>faults := [None, Some ''no such image'']\<rparr>) =
      (Err (Wrap Internal ''failed to launch container'' (ExtError ''no such image'')), s') \<and>
    t_instances s' = [row] \<and> inst_Status row = StatusError"
  using LaunchInstance_engine_failure [of "sample_world\<lparr>faults := [None, Some ''no such image'']\<rparr>" "''no such image''" 1 sample_env "[]" "[]" "''web''" "''nginx''"]
  by (auto simp: has_user_def)

text \<open>The addresses in use are read back with their prefix length (\<^verbatim>\<open>private_ip::text\<close> and
  \<^verbatim>\<open>gateway_ip::text\<close> of an \<^verbatim>\<open>inet\<close> value), while the search compares them with plain addresses: when every
  stored address carries a slash, the allocation ignores all of them and always returns the first host
  address of the subnet, the one the gateway has.\<close>

theorem allocateIP_ignores_used:
  assumes "faults s = []" and "ParseCIDR (sub_CIDRBlock subnet) = Some (ip, ipv4_net a p)" and "length a = 4" and "0 < p" and "p < 32"
    and "\<forall>x \<in> set (t_instances s). inst_PrivateIP x = [] \<or> CHR ''/'' \<in> set (inst_PrivateIP x)"
    and "CHR ''/'' \<in> set (sub_GatewayIP subnet)"
  shows "allocateIP ctx subnet s = (Ok (host_addr (ipv4_net a p) 1), s)"
proof -
  let ?xs = "sort_key (\<lambda>x. - inst_CreatedAt x)
       (filter (\<lambda>x. inst_SubnetID x = Some (sub_ID subnet) \<and> inst_UserID x = UserIDFromContext ctx) (t_instances s))"
  let ?used = "filter (\<lambda>p. p \<noteq> []) (map inst_PrivateIP ?xs) @ [sub_GatewayIP subnet]"
  have slash: "\<forall>t \<in> set ?used. CHR ''/'' \<in> set t" using assms(6,7) by auto
  have no_slash: "CHR ''/'' \<notin> set (host_addr (ipv4_net a p) k)" for k
  proof -
    obtain x0 x1 x2 x3 where b: "(increment ^^ k) (net_IP (ipv4_net a p)) = [x0, x1, x2, x3]"
      using length4 [of "(increment ^^ k) (net_IP (ipv4_net a p))"] assms(3) by auto
    have "\<not> is_digit CHR ''/''" by simp
    then show ?thesis
      using nat_string_no_sep [of "CHR ''/''"] by (auto simp: host_addr_def b IP_String_4 dotted_def)
  qed
  have one: "(1 :: nat) < 2 ^ (32 - p)" using assms(5) one_less_power [of "2 :: nat" "32 - p"] by simp
  have "findAvailableIP (ipv4_net a p) ?used = Some (Inr (IP_String ((increment ^^ 1) (net_IP (ipv4_net a p)))))"
    unfolding findAvailableIP_def
  proof (rule findAvailable_loop_found)
    show "Contains (ipv4_net a p) ((increment ^^ j) (net_IP (ipv4_net a p)))" if "0 < j" "j \<le> 1" for j
      using Contains_host [of a p j] one that assms(3-5) by simp
    show "IP_String ((increment ^^ 1) (net_IP (ipv4_net a p))) \<notin> set ?used"
      using slash no_slash [of 1] unfolding host_addr_def by blast
  qed simp_all
  then show ?thesis
    using assms(1,2) by (simp add: allocateIP_def InstanceRepository_ListBySubnet_def run Let_def host_addr_def)
qed

theorem allocateIP_ignores_used_witness:
  "allocateIP (Some 1) sample_subnet (sample_world\<lparr>t_instances := [sample_instance\<lparr>inst_SubnetID := Some 50, inst_PrivateIP := ''10.0.1.1/32''\<rparr>]\<rparr>) =
     (Ok (host_addr (ipv4_net [10, 0, 1, 0] 24) 1), sample_world\<lparr>t_instances := [sample_instance\<lparr>inst_SubnetID := Some 50, inst_PrivateIP := ''10.0.1.1/32''\<rparr>]\<rparr>)"
proof -
  have "ParseCIDR (sub_CIDRBlock sample_subnet) = Some (v4InV6Prefix @ [10, 0, 1, 0], ipv4_net [10, 0, 1, 0] 24)"
    unfolding sample_subnet_simps by (rule ParseCIDR_dotted) simp_all
  then show ?thesis
    using allocateIP_ignores_used [of "sample_world\<lparr>t_instances := [sample_instance\<lparr>inst_SubnetID := Some 50, inst_PrivateIP := ''10.0.1.1/32''\<rparr>]\<rparr>"
        sample_subnet "v4InV6Prefix @ [10, 0, 1, 0]" "[10, 0, 1, 0]" 24 "Some 1"]
    by simp
qed

text \<open>Stopping a stopped instance succeeds, asks the engine nothing and changes nothing.\<close>

theorem StopInstance_idempotent:
  assumes "faults s = []" and "uuid_parse E n = Some i"
    and "find (\<lambda>x. inst_ID x = i \<and> inst_UserID x = u) (t_instances s) = Some inst" and "inst_Status inst = StatusStopped"
  shows "StopInstance E (Some u) n s = (Ok (), s)"
  using assms by (simp add: StopInstance_def GetInstance_def InstanceRepository_GetByID_def run)

text \<open>A stop that reports success leaves a stopped instance: some instance of the caller is stopped in the
  table, and unless it was stopped before, the engine has been asked to stop its container.\<close>

theorem StopInstance_ok:
  assumes "StopInstance E ctx n s = (Ok (), s')"
  shows "\<exists>inst row. inst \<in> set (t_instances s) \<and> inst_UserID inst = UserIDFromContext ctx \<and>
    row \<in> set (t_instances s') \<and> inst_ID row = inst_ID inst \<and> inst_Status row = StatusStopped \<and>
    (inst_Status inst = StatusStopped \<or>
      inst_Version row = inst_Version inst + 1 \<and> BStopInstance (container_ref E inst) \<in> set (calls s'))"
proof -
  have stop: "wp (backendC c) Q s1"
    if "\<And>e s'. core s' = core s1 \<Longrightarrow> Q (Err e) s'" "\<And>fs. Q (Ok ()) (s1\<lparr>faults := fs, calls := calls s1 @ [c]\<rparr>)" for c Q s1
    unfolding backendC_def by (rule wp_extC) (auto simp: wps intro!: that)
  have log: "wp (Log E ctx u a b c d) Q s1"
    if "\<And>r s'. t_instances s' = t_instances s1 \<Longrightarrow> set (calls s1) \<subseteq> set (calls s') \<Longrightarrow> Q r s'" for u a b c d Q s1
  proof -
    have "keeps t_instances s1 (snd (Log E ctx u a b c d s1))" "extends s1 (snd (Log E ctx u a b c d s1))"
      by (rule confinedD, intro keep, simp add: stable_def) (rule confinedD, rule extends_log)
    then show ?thesis unfolding wp_def by (intro that) (auto simp: keeps_def extends_def)
  qed
  have "wp (StopInstance E ctx n) (\<lambda>r s'. r = Ok () \<longrightarrow> (\<exists>inst row. inst \<in> set (t_instances s) \<and> inst_UserID inst = UserIDFromContext ctx \<and>
    row \<in> set (t_instances s') \<and> inst_ID row = inst_ID inst \<and> inst_Status row = StatusStopped \<and>
    (inst_Status inst = StatusStopped \<or>
      inst_Version row = inst_Version inst + 1 \<and> BStopInstance (container_ref E inst) \<in> set (calls s')))) s"
    unfolding StopInstance_def
    by (auto simp: wps wp_metricC intro!: wp_GetInstance stop wp_InstanceRepository_Update_row log split: outcome.splits)
      (blast | force)+
  then show ?thesis using assms by (simp add: wp_def)
qed

theorem StopInstance_idempotent_witness:
  "StopInstance sample_env (Some 1) ''40'' (sample_world\<lparr>t_instances := [sample_instance\<lparr>inst_Status := StatusStopped\<rparr>]\<rparr>) =
     (Ok (), sample_world\<lparr>t_instances := [sample_instance\<lparr>inst_Status := StatusStopped\<rparr>]\<rparr>)"
proof -
  have "Atoi ''40'' = Some 40" by (simp add: Atoi_def is_digit_def dec_val_def digit_val_def)
  then show ?thesis
    using StopInstance_idempotent [of "sample_world\<lparr>t_instances := [sample_instance\<lparr>inst_Status := StatusStopped\<rparr>]\<rparr>"
        sample_env "''40''" 40 1 "sample_instance\<lparr>inst_Status := StatusStopped\<rparr>"]
    by simp
qed

theorem StopInstance_ok_witness:
  "\<exists>s' row. StopInstance sample_env (Some 1) ''40'' (sample_world\<lparr>t_instances := [sample_instance]\<rparr>) = (Ok (), s') \<and>
     row \<in> set (t_instances s') \<and> inst_Status row = StatusStopped"
proof -
  have a: "Atoi ''40'' = Some 40" by (simp add: Atoi_def is_digit_def dec_val_def digit_val_def)
  have "wp (StopInstance sample_env (Some 1) ''40'') (\<lambda>r s'. r = Ok ()) (sample_world\<lparr>t_instances := [sample_instance]\<rparr>)"
    using a by (auto simp: StopInstance_def GetInstance_def InstanceRepository_GetByID_def InstanceRepository_Update_def wps wpnf
        cast_ok_def fk_vpc_def fk_subnet_def match_new inst_match_def simp del: wp_ignoreC intro!: wp_ignore_Log_nf)
  then obtain s' where r: "StopInstance sample_env (Some 1) ''40'' (sample_world\<lparr>t_instances := [sample_instance]\<rparr>) = (Ok (), s')"
    unfolding wp_def by (metis prod.collapse)
  with StopInstance_ok [OF r] show ?thesis by blast
qed

text \<open>A termination without faults, with all it changes.\<close>

lemma logged_tables: "logged s s' \<Longrightarrow> t_instances s' = t_instances s \<and> t_volumes s' = t_volumes s \<and> t_lb_targets s' = t_lb_targets s \<and>
    t_scaling_group_instances s' = t_scaling_group_instances s \<and> calls s' = calls s \<and> faults s' = faults s"
  by (simp add: logged_simps)

lemma TerminateInstance_nf:
  assumes "faults s = []" and "uuid_parse E n = Some i" and "distinct (map vol_ID (t_volumes s))"
    and "find (\<lambda>x. inst_ID x = i \<and> inst_UserID x = u) (t_instances s) = Some inst"
  shows "\<exists>s'. TerminateInstance E (Some u) n s = (Ok (), s') \<and>
    t_instances s' = filter (\<lambda>x. \<not> (inst_ID x = i \<and> inst_UserID x = u)) (t_instances s) \<and>
    calls s' = calls s @ [BDeleteInstance (container_ref E inst)] \<and>
    t_lb_targets s' = filter (\<lambda>t. tgt_InstanceID t \<noteq> i) (t_lb_targets s) \<and>
    t_scaling_group_instances s' = filter (\<lambda>g. sgi_InstanceID g \<noteq> i) (t_scaling_group_instances s) \<and>
    t_volumes s' = upd_where (\<lambda>v. vol_InstanceID v = Some i) (\<lambda>v. v\<lparr>vol_InstanceID := None\<rparr>)
       (upd_where (\<lambda>r. vol_InstanceID r = Some i \<and> vol_UserID r = u)
         (\<lambda>r. r\<lparr>vol_Status := VolumeStatusAvailable, vol_InstanceID := None, vol_MountPath := [], vol_UpdatedAt := clock s\<rparr>) (t_volumes s)) \<and>
    faults s' = []"
proof -
  have i: "inst_ID inst = i \<and> inst_UserID inst = u \<and> inst \<in> set (t_instances s)" using assms(4) by (auto dest: find_Some_set)
  then have ex: "list_ex (\<lambda>x. inst_ID x = i \<and> inst_UserID x = u) (t_instances s)"
    "rows_affected (\<lambda>x. inst_ID x = i \<and> inst_UserID x = u) (t_instances s) \<noteq> 0"
    by (auto simp: list_ex_iff rows_simps)
  have release: "wp (ignoreC (releaseAttachedVolumes (Some u) i)) Q s1 \<longleftrightarrow> Q (Ok ()) (s1\<lparr>t_volumes := upd_where (\<lambda>r. vol_InstanceID r = Some i \<and> vol_UserID r = u)
       (\<lambda>r. r\<lparr>vol_Status := VolumeStatusAvailable, vol_InstanceID := None, vol_MountPath := [], vol_UpdatedAt := clock s1\<rparr>) (t_volumes s1)\<rparr>)"
    if "faults s1 = []" "t_volumes s1 = t_volumes s" for Q s1
    using that ReleaseVolumes_run [of s1 u i] assms(3)
    by (simp add: wp_ignoreC, simp add: wp_def releaseAttachedVolumes_def ReleaseVolumesForInstance_def)
  show ?thesis
    using assms(1,2,4) i ex
    by (intro wp_returns) (auto simp: TerminateInstance_def GetInstance_def InstanceRepository_GetByID_def removeInstanceContainer_def
        InstanceRepository_Delete_def delete_instance_row_def Let_def wps wpnf release
        simp del: wp_ignoreC intro!: wp_ignore_RecordEvent_nf wp_ignore_Log_nf dest!: logged_tables split: InstanceStatus.splits)
qed

text \<open>Terminating an instance removes its row, has its container deleted, and releases what refers to it: no
  volume, load-balancer target or scaling-group membership refers to it afterwards, and the caller's
  volumes that were attached to it are available.\<close>

theorem TerminateInstance_success:
  assumes "faults s = []" and "uuid_parse E n = Some i" and "distinct (map vol_ID (t_volumes s))"
    and "find (\<lambda>x. inst_ID x = i \<and> inst_UserID x = u) (t_instances s) = Some inst"
  shows "\<exists>s'. TerminateInstance E (Some u) n s = (Ok (), s') \<and>
    t_instances s' = filter (\<lambda>x. \<not> (inst_ID x = i \<and> inst_UserID x = u)) (t_instances s) \<and>
    calls s' = calls s @ [BDeleteInstance (container_ref E inst)] \<and>
    (\<forall>v \<in> set (t_volumes s'). vol_InstanceID v \<noteq> Some i) \<and>
    (\<forall>t \<in> set (t_lb_targets s'). tgt_InstanceID t \<noteq> i) \<and>
    (\<forall>g \<in> set (t_scaling_group_instances s'). sgi_InstanceID g \<noteq> i) \<and>
    (\<forall>v \<in> set (t_volumes s). vol_InstanceID v = Some i \<and> vol_UserID v = u \<longrightarrow>
       v\<lparr>vol_Status := VolumeStatusAvailable, vol_InstanceID := None, vol_MountPath := [], vol_UpdatedAt := clock s\<rparr> \<in> set (t_volumes s'))"
  using TerminateInstance_nf [OF assms] by (force simp: set_upd_where)

lemma Atoi_40: "Atoi ''40'' = Some 40"
  by (simp add: Atoi_def is_digit_def dec_val_def digit_val_def)

theorem TerminateInstance_success_witness:
  "\<exists>s'. TerminateInstance sample_env (Some 1) ''40'' (sample_world\<lparr>t_instances := [sample_instance],
       t_volumes := [(sample_volume VolumeStatusInUse)\<lparr>vol_InstanceID := Some 40\<rparr>]\<rparr>) = (Ok (), s') \<and>
     t_instances s' = [] \<and> calls s' = [BDeleteInstance ''c0''] \<and> sample_volume VolumeStatusAvailable \<in> set (t_volumes s')"
  using TerminateInstance_success [of "sample_world\<lparr>t_instances := [sample_instance],
       t_volumes := [(sample_volume VolumeStatusInUse)\<lparr>vol_InstanceID := Some 40\<rparr>]\<rparr>" sample_env "''40''" 40 1 sample_instance] Atoi_40
  by (auto simp: container_ref_def sample_volume_def)

text \<open>If the container cannot be removed, the termination is given up: the caller gets an internal error
  with the engine's error, and neither the instance nor anything that refers to it changes.\<close>

theorem TerminateInstance_engine_failure:
  assumes "faults s = [None, Some msg]" and "uuid_parse E n = Some i"
    and "find (\<lambda>x. inst_ID x = i \<and> inst_UserID x = u) (t_instances s) = Some inst"
  shows "\<exists>s'. TerminateInstance E (Some u) n s = (Err (Wrap Internal ''failed to remove container'' (ExtError msg)), s') \<and>
    core s' = core s \<and> calls s' = calls s"
proof -
  have "wp (TerminateInstance E (Some u) n) (\<lambda>r s'. r = Err (Wrap Internal ''failed to remove container'' (ExtError msg)) \<and>
    core s' = core s \<and> calls s' = calls s) s"
    using assms by (simp add: TerminateInstance_def GetInstance_def InstanceRepository_GetByID_def removeInstanceContainer_def
        wps wp_script wp_metricC core_eq_iff)
  then show ?thesis unfolding wp_def by (cases "TerminateInstance E (Some u) n s") auto
qed

theorem TerminateInstance_engine_failure_witness:
  "\<exists>s'. TerminateInstance sample_env (Some 1) ''40'' (sample_world\<lparr>t_instances := [sample_instance], faults := [None, Some ''busy'']\<rparr>) =
      (Err (Wrap Internal ''failed to remove container'' (ExtError ''busy'')), s') \<and> t_instances s' = [sample_instance]"
  using TerminateInstance_engine_failure [of "sample_world\<lparr>t_instances := [sample_instance], faults := [None, Some ''busy'']\<rparr>" "''busy''"
      sample_env "''40''" 40 1 sample_instance] Atoi_40
  by (auto simp: core_eq_iff)

text \<open>With room in the subnet the allocation succeeds.\<close>

lemma allocateIP_ok:
  assumes "faults s = []" and "ParseCIDR (sub_CIDRBlock subnet) = Some (ip, ipv4_net a p)" and "length a = 4" and "0 < p" and "p \<le> 32"
    and "length (t_instances s) + 2 < 2 ^ (32 - p)"
  shows "\<exists>addr. allocateIP ctx subnet s = (Ok addr, s)"
proof -
  let ?xs = "sort_key (\<lambda>x. - inst_CreatedAt x)
       (filter (\<lambda>x. inst_SubnetID x = Some (sub_ID subnet) \<and> inst_UserID x = UserIDFromContext ctx) (t_instances s))"
  let ?used = "filter (\<lambda>p. p \<noteq> []) (map inst_PrivateIP ?xs) @ [sub_GatewayIP subnet]"
  have "length (filter (\<lambda>p. p \<noteq> []) (map inst_PrivateIP ?xs)) \<le> length ?xs"
    using length_filter_le [of "\<lambda>p. p \<noteq> []" "map inst_PrivateIP ?xs"] by simp
  also have "\<dots> \<le> length (t_instances s)" by simp
  finally have "length ?used < 2 ^ (32 - p) - 1" using assms(6) by simp
  then obtain k where "findAvailableIP (ipv4_net a p) ?used = Some (Inr (host_addr (ipv4_net a p) k))"
    using findAvailableIP_capacity [OF assms(3-5)] findAvailableIP_ipv4_net [OF assms(3-5), of ?used] by (auto simp only: if_True)
  then show ?thesis
    using assms(1,2) by (simp add: allocateIP_def InstanceRepository_ListBySubnet_def run Let_def)
qed

text \<open>A launch into a subnet without naming the VPC passes every check, has its container created, and then
  dereferences the missing VPC identifier: the request ends in a panic, and the row of the instance stays
  \<^verbatim>\<open>STARTING\<close> without a reference to the running container.\<close>

theorem LaunchInstance_subnet_without_vpc_panics:
  assumes "faults s = []" and "has_user s u" and "uuid_at E (uuid_ctr s) \<notin> inst_ID ` set (t_instances s)"
    and "\<not> network_nil E" and "find (\<lambda>x. sub_ID x = n \<and> sub_UserID x = u) (t_subnets s) = Some subnet"
    and "ParseCIDR (sub_CIDRBlock subnet) = Some (ip, ipv4_net a p)" and "length a = 4" and "0 < p" and "p \<le> 32"
    and "length (t_instances s) + 3 < 2 ^ (32 - p)"
  shows "\<exists>row s'. LaunchInstance E (Some u) name img [] None (Some n) [] s = (Panic ''nil dereference: inst.VpcID'', s') \<and>
    t_instances s' = t_instances s @ [row] \<and> inst_Status row = StatusStarting \<and> inst_ContainerID row = [] \<and>
    BCreateInstance (formatContainerName E (inst_ID row)) img [] [] [] [] [] \<in> set (calls s')"
proof -
  have sub: "sub_ID subnet = n \<and> subnet \<in> set (t_subnets s)" using assms(5) by (auto dest: find_Some_set)
  have alloc: "wp (allocateIP ctx subnet) Q s'" if f: "faults s' = []" and l: "length (t_instances s') = Suc (length (t_instances s))"
      and q: "\<And>addr. Q (Ok addr) s'" for ctx Q s'
  proof -
    obtain addr where "allocateIP ctx subnet s' = (Ok addr, s')"
      using allocateIP_ok [OF f assms(6-9), of ctx] l assms(10) by auto
    with q show ?thesis by (simp add: wp_def)
  qed
  have "wp (LaunchInstance E (Some u) name img [] None (Some n) []) (\<lambda>r s'. \<exists>row. r = Panic ''nil dereference: inst.VpcID'' \<and>
    t_instances s' = t_instances s @ [row] \<and> inst_Status row = StatusStarting \<and> inst_ContainerID row = [] \<and>
    BCreateInstance (formatContainerName E (inst_ID row)) img [] [] [] [] [] \<in> set (calls s')) s"
    using assms(1-5) sub
    by (auto simp: LaunchInstance_def InstanceRepository_Create_def resolveNetworkConfig_def SubnetRepository_GetByID_def Let_def wps wpnf
        has_user_def cast_ok_def cast_text_def fk_vpc_def fk_subnet_def plumbNetwork_def list_ex_iff intro!: alloc)
  then show ?thesis unfolding wp_def by (cases "LaunchInstance E (Some u) name img [] None (Some n) [] s") auto
qed

theorem LaunchInstance_subnet_without_vpc_panics_witness:
  "\<exists>row s'. LaunchInstance sample_env (Some 1) ''web'' ''nginx'' [] None (Some 50) [] (sample_world\<lparr>t_subnets := [sample_subnet]\<rparr>) =
      (Panic ''nil dereference: inst.VpcID'', s') \<and> t_instances s' = [row] \<and> inst_Status row = StatusStarting"
proof -
  have "ParseCIDR (sub_CIDRBlock sample_subnet) = Some (v4InV6Prefix @ [10, 0, 1, 0], ipv4_net [10, 0, 1, 0] 24)"
    unfolding sample_subnet_simps by (rule ParseCIDR_dotted) simp_all
  then show ?thesis
    using LaunchInstance_subnet_without_vpc_panics [of "sample_world\<lparr>t_subnets := [sample_subnet]\<rparr>" 1 sample_env 50 sample_subnet
        "v4InV6Prefix @ [10, 0, 1, 0]" "[10, 0, 1, 0]" 24 "''web''" "''nginx''"]
    by (auto simp: has_user_def)
qed

end
