(* ===== verification/Transactions.thy ===== *)
theory Transactions
  imports World
begin

text \<open>
  Database transactions, \<^verbatim>\<open>tx, err := db.Begin(ctx); defer tx.Rollback(ctx); ..; return tx.Commit(ctx)\<close>: beginning
  and committing are calls that may fail, and on every path that does not reach a successful commit
  the deferred rollback undoes what the statements of the transaction did. What is not in the database
  (the consumed script of faults, the counters of generated identifiers and random reads) stays
  consumed. Transactions run one after the other.
\<close>

definition rollback_to :: "world \<Rightarrow> world \<Rightarrow> world" where
  "rollback_to s s' = s\<lparr>faults := faults s', uuid_ctr := uuid_ctr s', rand_ctr := rand_ctr s'\<rparr>"

definition pingC :: "unit op" where
  "pingC = extC (returnC ())"

text \<open>The deferred rollback: it undoes the body unless the body ends in success, its commit included.\<close>

definition undoC :: "'a op \<Rightarrow> 'a op" where
  "undoC body = (\<lambda>s. case body s of
       (Ok x, s') \<Rightarrow> (Ok x, s')
     | (Err e, s') \<Rightarrow> (Err e, rollback_to s s')
     | (Panic p, s') \<Rightarrow> (Panic p, rollback_to s s'))"

definition txC :: "'a op \<Rightarrow> 'a op" where
  "txC body = bindC pingC (\<lambda>_. undoC (bindC body (\<lambda>x. bindC pingC (\<lambda>_. returnC x))))"

lemma ok_undoC: "undoC m s = (Ok x, s') \<longleftrightarrow> m s = (Ok x, s')"
  by (cases "m s") (auto simp: undoC_def split: outcome.splits)

lemma undoC_fst [simp]: "fst (undoC m s) = fst (m s)"
  by (cases "m s") (auto simp: undoC_def split: outcome.splits)

lemma undoC_snd: "snd (undoC m s) = (case fst (m s) of Ok x \<Rightarrow> snd (m s) | _ \<Rightarrow> rollback_to s (snd (m s)))"
  by (cases "m s") (auto simp: undoC_def split: outcome.splits)

section \<open>Atomicity\<close>

text \<open>An operation that has its whole effect when it succeeds and none on the tables when it fails.\<close>

locale atomic =
  fixes m :: "'a op"
  assumes atomic: "\<nexists>x. fst (m s) = Ok x \<Longrightarrow> core (snd (m s)) = core s"
begin

lemma all_or_nothing: "(\<exists>x. fst (m s) = Ok x) \<or> core (snd (m s)) = core s"
  using atomic [of s] by blast

lemma failure_keeps: "m s = (Err e, s') \<Longrightarrow> core s' = core s"
  using atomic [of s] by simp

lemma wp_atomic: "(\<And>x s'. m s = (Ok x, s') \<Longrightarrow> Q (Ok x) s') \<Longrightarrow> (\<And>r s'. core s' = core s \<Longrightarrow> \<nexists>x. r = Ok x \<Longrightarrow> Q r s') \<Longrightarrow> wp m Q s"
  using atomic [of s] unfolding wp_def by (metis prod.collapse)

end

lemma core_rollback_to [simp]: "core (rollback_to s s') = core s"
  by (simp add: core_def rollback_to_def)

lemma pingC_core: "core (snd (pingC s)) = core s"
  by (auto simp: pingC_def extC_def run core_def split: list.split option.split)

lemma pingC_nf: "faults s = [] \<Longrightarrow> pingC s = (Ok (), s)"
  by (simp add: pingC_def extC_def run)

lemma txC_atomic: "\<nexists>x. fst (txC m s) = Ok x \<Longrightarrow> core (snd (txC m s)) = core s"
  using pingC_core [of s] by (auto simp: txC_def run_bindC [of pingC] undoC_snd split: outcome.splits)

interpretation tx: atomic "txC m" for m :: "'a op"
  by unfold_locales (rule txC_atomic)

lemma atomic_mapErrC: "atomic m \<Longrightarrow> atomic (mapErrC g m)"
  by (auto simp: atomic_def run_mapErrC split: outcome.splits)

section \<open>Running a transaction\<close>

lemma txC_nf:
  assumes "faults s = []" and "faults (snd (m s)) = []"
  shows "txC m s = (case m s of (Ok x, s') \<Rightarrow> (Ok x, s') | (Err e, s') \<Rightarrow> (Err e, rollback_to s s') | (Panic p, s') \<Rightarrow> (Panic p, rollback_to s s'))"
  using assms by (cases "m s") (auto simp: txC_def undoC_def run pingC_nf split: outcome.splits)

lemma ok_pingC: "pingC s = (Ok u, s') \<Longrightarrow> \<exists>fs. s' = s\<lparr>faults := fs\<rparr>"
  unfolding pingC_def by (auto dest!: ok_extC simp: run)

lemma ok_txC: "txC m s = (Ok x, s') \<Longrightarrow> \<exists>fs fs' s1. m (s\<lparr>faults := fs\<rparr>) = (Ok x, s1) \<and> s' = s1\<lparr>faults := fs'\<rparr>"
proof -
  assume "txC m s = (Ok x, s')"
  then obtain u s0 where "pingC s = (Ok u, s0)" and b: "bindC m (\<lambda>x. bindC pingC (\<lambda>_. returnC x)) s0 = (Ok x, s')"
    by (auto simp: txC_def ok_bindC [of pingC] ok_undoC)
  then obtain fs where s0: "s0 = s\<lparr>faults := fs\<rparr>" by (auto dest: ok_pingC)
  from b obtain s1 u where "m s0 = (Ok x, s1)" and "pingC s1 = (Ok u, s')" by (auto simp: ok_bindC ok_returnC)
  with s0 show ?thesis by (blast dest: ok_pingC)
qed

lemma keeps_pingC [keep]: "stable f \<Longrightarrow> confined (keeps f) pingC"
  unfolding pingC_def by (intro keeps_extC keeps.fr_return)

lemma keeps_txC [keep]:
  assumes "stable f" and "confined (keeps f) m"
  shows "confined (keeps f) (txC m)"
proof -
  have body: "confined (keeps f) (bindC m (\<lambda>x. bindC pingC (\<lambda>_. returnC x)))"
    using assms by (intro keeps.fr_intros keeps_pingC)
  have roll: "f (rollback_to s s') = f s" for s s'
    using assms(1) by (simp add: stable_def rollback_to_def)
  have "confined (keeps f) (undoC (bindC m (\<lambda>x. bindC pingC (\<lambda>_. returnC x))))"
    using body by (auto simp: confined_def keeps_def undoC_snd roll split: outcome.split)
  then show ?thesis unfolding txC_def by (intro keeps.fr_bind keeps_pingC assms(1))
qed

section \<open>Generated identifiers\<close>

text \<open>Identifiers are generated one after the other.\<close>

definition later :: "world \<Rightarrow> world \<Rightarrow> bool" where
  "later s s' \<longleftrightarrow> uuid_ctr s \<le> uuid_ctr s'"

interpretation later: frame_rel later
  by unfold_locales (auto simp: later_def)

named_theorems late "commands that do not reuse identifiers"

lemma later_extC: "confined later m \<Longrightarrow> confined later (extC m)"
proof (rule confinedI)
  fix s assume m: "confined later m"
  have "later (s\<lparr>faults := fs\<rparr>) (snd (m (s\<lparr>faults := fs\<rparr>)))" for fs using m by (rule confinedD)
  moreover have "later s (snd (m s))" using m by (rule confinedD)
  ultimately show "later s (snd (extC m s))" by (auto simp: later_def extC_def split: list.split option.split)
qed

lemma later_prim [late]:
  "confined later (newUUID E)" "confined later nowC" "confined later (metricC x)"
  by (simp_all add: confined_def later_def run)

lemma later_queryC [late]: "confined later (queryC f)"
  unfolding queryC_def by (intro later_extC later.fr_get)

lemma later_execC: "(\<And>s. uuid_ctr (f s) = uuid_ctr s) \<Longrightarrow> confined later (execC viol n f)"
  unfolding execC_def by (rule later_extC) (simp add: confined_def later_def split: option.split)

lemma later_insertC: "(\<And>s. uuid_ctr (f s) = uuid_ctr s) \<Longrightarrow> confined later (insertC viol f)"
  unfolding insertC_def by (intro later.fr_intros later_execC)

lemma later_queryRowC [late]: "confined later (queryRowC f)"
  unfolding queryRowC_def by (rule later_extC) (simp add: confined_def later_def split: option.split)

lemma later_backendC [late]: "confined later (backendC c)"
  unfolding backendC_def by (rule later_extC) (simp add: confined_def later_def)

lemma later_log [late]: "confined later (RecordEvent E ctx a b c d)" "confined later (Log E ctx u a' b' c' d')"
  unfolding RecordEvent_def EventRepository_Create_def Log_def AuditRepository_Create_def
  by (intro later.fr_intros late later_insertC; simp)+

lemma later_pingC [late]: "confined later pingC"
  unfolding pingC_def by (intro later_extC later.fr_return)

lemma later_txC [late]:
  assumes "confined later m"
  shows "confined later (txC m)"
proof -
  have "confined later (bindC m (\<lambda>x. bindC pingC (\<lambda>_. returnC x)))" using assms by (intro later.fr_intros late)
  then have "confined later (undoC (bindC m (\<lambda>x. bindC pingC (\<lambda>_. returnC x))))"
    by (auto simp: confined_def later_def undoC_snd rollback_to_def split: outcome.split)
  then show ?thesis unfolding txC_def by (intro later.fr_bind late)
qed

lemmas later_intros = later.fr_intros late later_insertC later_execC

end
