(* ===== verification/LoadBalancers.thy ===== *)
theory LoadBalancers
  imports Instances Transactions
begin

text \<open>
  Load balancers: the repository \<^verbatim>\<open>lb_repo.go\<close> with its optimistic locking, the service
  \<^verbatim>\<open>loadbalancer.go\<close> and the worker \<^verbatim>\<open>lb_worker.go\<close>, which deploys the proxies of new load balancers,
  removes those of deleted ones, refreshes the configuration of active ones and records the health of their
  targets. The proxies themselves are calls to a backend.
\<close>

section \<open>The repository\<close>

definition LBRepository_Create :: "LoadBalancer \<Rightarrow> unit op" where
  "LBRepository_Create lb =
     mapErrC (Wrap Internal ''failed to create load balancer'')
       (insertC (\<lambda>s. [(lb_ID lb \<in> lb_ID ` set (t_load_balancers s), ''load_balancers_pkey''),
                      (lb_IdempotencyKey lb \<in> lb_IdempotencyKey ` set (t_load_balancers s), ''load_balancers_idempotency_key_key''),
                      (\<not> fk_vpc s (Some (lb_VpcID lb)), ''load_balancers_vpc_id_fkey''),
                      (\<not> has_user s (lb_UserID lb), ''load_balancers_user_id_fkey'')])
                (\<lambda>s. s\<lparr>t_load_balancers := t_load_balancers s @ [lb]\<rparr>))"

definition LBRepository_GetByID :: "ctx \<Rightarrow> uuid \<Rightarrow> LoadBalancer op" where
  "LBRepository_GetByID ctx i =
     mapErrC (row_err ErrLBNotFound ''failed to get load balancer'')
       (queryRowC (\<lambda>s. find (\<lambda>x. lb_ID x = i \<and> lb_UserID x = UserIDFromContext ctx) (t_load_balancers s)))"

definition LBRepository_GetByIdempotencyKey :: "ctx \<Rightarrow> string \<Rightarrow> LoadBalancer op" where
  "LBRepository_GetByIdempotencyKey ctx key =
     bindC (guardC (key = []) (New NotFound ''idempotency key empty'')) (\<lambda>_.
     mapErrC (row_err (New NotFound ''load balancer not found by idempotency key'') ''failed to get load balancer by idempotency key'')
       (queryRowC (\<lambda>s. find (\<lambda>x. lb_IdempotencyKey x = key \<and> lb_UserID x = UserIDFromContext ctx) (t_load_balancers s))))"

definition LBRepository_List :: "ctx \<Rightarrow> LoadBalancer list op" where
  "LBRepository_List ctx =
     mapErrC (Wrap Internal ''failed to list load balancers'')
       (queryC (\<lambda>s. sort_key (\<lambda>x. - lb_CreatedAt x)
          (filter (\<lambda>x. lb_UserID x = UserIDFromContext ctx) (t_load_balancers s))))"

definition LBRepository_ListAll :: "LoadBalancer list op" where
  "LBRepository_ListAll =
     mapErrC (Wrap Internal ''failed to list all load balancers'')
       (queryC (\<lambda>s. sort_key (\<lambda>x. - lb_CreatedAt x) (t_load_balancers s)))"

definition lb_match :: "LoadBalancer \<Rightarrow> LoadBalancer \<Rightarrow> bool" where
  "lb_match lb r \<longleftrightarrow> lb_ID r = lb_ID lb \<and> lb_Version r = lb_Version lb \<and> lb_UserID r = lb_UserID lb"

definition lb_written :: "LoadBalancer \<Rightarrow> LoadBalancer \<Rightarrow> LoadBalancer" where
  "lb_written lb r = r\<lparr>lb_Name := lb_Name lb, lb_Port := lb_Port lb, lb_Algorithm := lb_Algorithm lb,
     lb_Status := lb_Status lb, lb_Version := lb_Version r + 1\<rparr>"

definition LBRepository_Update :: "LoadBalancer \<Rightarrow> LoadBalancer op" where
  "LBRepository_Update lb =
     bindC (mapErrC (Wrap Internal ''failed to update load balancer'')
       (execC noConstraint (\<lambda>s. rows_affected (lb_match lb) (t_load_balancers s))
          (\<lambda>s. s\<lparr>t_load_balancers := upd_where (lb_match lb) (lb_written lb) (t_load_balancers s)\<rparr>)))
     (\<lambda>n. bindC (guardC (n = 0) (New Conflict ''update conflict: load balancer was modified or not found'')) (\<lambda>_.
     returnC (lb\<lparr>lb_Version := lb_Version lb + 1\<rparr>)))"

text \<open>Deleting a load balancer removes its targets (\<^verbatim>\<open>ON DELETE CASCADE\<close>) and detaches the scaling groups that
  refer to it (\<^verbatim>\<open>ON DELETE SET NULL\<close>).\<close>

definition delete_lb_row :: "(LoadBalancer \<Rightarrow> bool) \<Rightarrow> uuid \<Rightarrow> world \<Rightarrow> world" where
  "delete_lb_row P i s =
     (if list_ex P (t_load_balancers s) then
        s\<lparr>t_load_balancers := filter (\<lambda>x. \<not> P x) (t_load_balancers s),
          t_lb_targets := filter (\<lambda>t. tgt_LBID t \<noteq> i) (t_lb_targets s),
          t_scaling_groups := upd_where (\<lambda>g. asg_LoadBalancerID g = Some i) (\<lambda>g. g\<lparr>asg_LoadBalancerID := None\<rparr>) (t_scaling_groups s)\<rparr>
      else s)"

definition LBRepository_Delete :: "ctx \<Rightarrow> uuid \<Rightarrow> unit op" where
  "LBRepository_Delete ctx i =
     (let P = (\<lambda>x. lb_ID x = i \<and> lb_UserID x = UserIDFromContext ctx) in
      bindC (mapErrC (Wrap Internal ''failed to delete load balancer'')
               (execC noConstraint (\<lambda>s. rows_affected P (t_load_balancers s)) (delete_lb_row P i)))
        (\<lambda>n. guardC (n = 0) ErrLBNotFound))"

definition LBRepository_AddTarget :: "LBTarget \<Rightarrow> unit op" where
  "LBRepository_AddTarget t =
     mapErrC (Wrap Internal ''failed to add load balancer target'')
       (insertC (\<lambda>s. [(tgt_ID t \<in> tgt_ID ` set (t_lb_targets s), ''lb_targets_pkey''),
                      (list_ex (\<lambda>x. tgt_LBID x = tgt_LBID t \<and> tgt_InstanceID x = tgt_InstanceID t) (t_lb_targets s), ''lb_targets_lb_id_instance_id_key''),
                      (\<not> list_ex (\<lambda>x. lb_ID x = tgt_LBID t) (t_load_balancers s), ''lb_targets_lb_id_fkey''),
                      (\<not> has_instance s (tgt_InstanceID t), ''lb_targets_instance_id_fkey'')])
                (\<lambda>s. s\<lparr>t_lb_targets := t_lb_targets s @ [t]\<rparr>))"

definition LBRepository_RemoveTarget :: "uuid \<Rightarrow> uuid \<Rightarrow> unit op" where
  "LBRepository_RemoveTarget lbID instanceID =
     (let P = (\<lambda>t. tgt_LBID t = lbID \<and> tgt_InstanceID t = instanceID) in
      bindC (mapErrC (Wrap Internal ''failed to remove load balancer target'')
               (execC noConstraint (\<lambda>s. rows_affected P (t_lb_targets s))
                  (\<lambda>s. s\<lparr>t_lb_targets := filter (\<lambda>t. \<not> P t) (t_lb_targets s)\<rparr>)))
        (\<lambda>n. guardC (n = 0) (New NotFound ''target not found'')))"

definition LBRepository_ListTargets :: "uuid \<Rightarrow> LBTarget list op" where
  "LBRepository_ListTargets lbID =
     mapErrC (Wrap Internal ''failed to list load balancer targets'')
       (queryC (\<lambda>s. filter (\<lambda>t. tgt_LBID t = lbID) (t_lb_targets s)))"

definition LBRepository_UpdateTargetHealth :: "uuid \<Rightarrow> uuid \<Rightarrow> string \<Rightarrow> unit op" where
  "LBRepository_UpdateTargetHealth lbID instanceID health =
     (let P = (\<lambda>t. tgt_LBID t = lbID \<and> tgt_InstanceID t = instanceID) in
      bindC (mapErrC (Wrap Internal ''failed to update target health'')
               (execC noConstraint (\<lambda>s. rows_affected P (t_lb_targets s))
                  (\<lambda>s. s\<lparr>t_lb_targets := upd_where P (\<lambda>t. t\<lparr>tgt_Health := health\<rparr>) (t_lb_targets s)\<rparr>)))
        (\<lambda>_. returnC ()))"

definition LBRepository_GetTargetsForInstance :: "uuid \<Rightarrow> LBTarget list op" where
  "LBRepository_GetTargetsForInstance instanceID =
     mapErrC (Wrap Internal ''failed to get targets for instance'')
       (queryC (\<lambda>s. filter (\<lambda>t. tgt_InstanceID t = instanceID) (t_lb_targets s)))"

section \<open>The service\<close>

definition newLoadBalancer :: "env \<Rightarrow> ctx \<Rightarrow> string \<Rightarrow> uuid \<Rightarrow> int \<Rightarrow> string \<Rightarrow> string \<Rightarrow> LoadBalancer op" where
  "newLoadBalancer E ctx name vpcID port algo idempotencyKey =
     bindC (mapErrC (Wrap NotFound ''VPC not found'') (VpcRepository_GetByID E ctx vpcID)) (\<lambda>_.
     let algo = (if algo = [] then ''round-robin'' else algo) in
     bindC (newUUID E) (\<lambda>i.
     bindC nowC (\<lambda>now.
     let lb = \<lparr>lb_ID = i, lb_UserID = UserIDFromContext ctx, lb_IdempotencyKey = idempotencyKey, lb_Name = name,
               lb_VpcID = vpcID, lb_Port = port, lb_Algorithm = algo, lb_Status = LBStatusCreating, lb_Version = 1,
               lb_CreatedAt = now\<rparr> in
     bindC (LBRepository_Create lb) (\<lambda>_.
     bindC (ignoreC (Log E ctx (lb_UserID lb) ''lb.create'' ''loadbalancer'' (uuid_string E i) [(''name'', GStr name)])) (\<lambda>_.
     returnC lb)))))"

definition LBService_Create :: "env \<Rightarrow> ctx \<Rightarrow> string \<Rightarrow> uuid \<Rightarrow> int \<Rightarrow> string \<Rightarrow> string \<Rightarrow> LoadBalancer op" where
  "LBService_Create E ctx name vpcID port algo idempotencyKey =
     (if idempotencyKey \<noteq> [] then
        bindC (tryC (LBRepository_GetByIdempotencyKey ctx idempotencyKey)) (\<lambda>r.
        case r of
          Inr existing \<Rightarrow> returnC existing
        | Inl _ \<Rightarrow> newLoadBalancer E ctx name vpcID port algo idempotencyKey)
      else newLoadBalancer E ctx name vpcID port algo idempotencyKey)"

definition LBService_Get :: "ctx \<Rightarrow> uuid \<Rightarrow> LoadBalancer op" where
  "LBService_Get ctx i = LBRepository_GetByID ctx i"

definition LBService_List :: "ctx \<Rightarrow> LoadBalancer list op" where
  "LBService_List ctx = LBRepository_List ctx"

definition LBService_Delete :: "env \<Rightarrow> ctx \<Rightarrow> uuid \<Rightarrow> unit op" where
  "LBService_Delete E ctx i =
     bindC (LBRepository_GetByID ctx i) (\<lambda>lb.
     bindC (LBRepository_Update (lb\<lparr>lb_Status := LBStatusDeleted\<rparr>)) (\<lambda>lb.
     ignoreC (Log E ctx (lb_UserID lb) ''lb.delete'' ''loadbalancer'' (uuid_string E (lb_ID lb)) [(''name'', GStr (lb_Name lb))])))"

definition AddTarget :: "env \<Rightarrow> ctx \<Rightarrow> uuid \<Rightarrow> uuid \<Rightarrow> int \<Rightarrow> int \<Rightarrow> unit op" where
  "AddTarget E ctx lbID instanceID port weight =
     bindC (LBRepository_GetByID ctx lbID) (\<lambda>lb.
     bindC (mapErrC (Wrap NotFound ''target instance not found'') (InstanceRepository_GetByID E ctx instanceID)) (\<lambda>inst.
     bindC (guardC (inst_VpcID inst \<noteq> Some (lb_VpcID lb)) ErrLBCrossVPC) (\<lambda>_.
     let weight = (if weight = 0 then 1 else weight) in
     bindC (newUUID E) (\<lambda>i.
     bindC (LBRepository_AddTarget \<lparr>tgt_ID = i, tgt_LBID = lbID, tgt_InstanceID = instanceID, tgt_Port = port,
              tgt_Weight = weight, tgt_Health = ''unknown''\<rparr>) (\<lambda>_.
     ignoreC (Log E ctx (lb_UserID lb) ''lb.target_add'' ''loadbalancer'' (uuid_string E (lb_ID lb))
        [(''instance_id'', GStr (uuid_string E instanceID)), (''port'', GInt port)]))))))"

definition RemoveTarget :: "env \<Rightarrow> ctx \<Rightarrow> uuid \<Rightarrow> uuid \<Rightarrow> unit op" where
  "RemoveTarget E ctx lbID instanceID =
     bindC (LBRepository_GetByID ctx lbID) (\<lambda>lb.
     bindC (LBRepository_RemoveTarget lbID instanceID) (\<lambda>_.
     ignoreC (Log E ctx (lb_UserID lb) ''lb.target_remove'' ''loadbalancer'' (uuid_string E (lb_ID lb))
        [(''instance_id'', GStr (uuid_string E instanceID))])))"

definition ListTargets :: "ctx \<Rightarrow> uuid \<Rightarrow> LBTarget list op" where
  "ListTargets ctx lbID = LBRepository_ListTargets lbID"

section \<open>The worker\<close>

text \<open>
  The worker's methods return nothing: an error is logged and ends the method or the loop body. Where the
  rest of the method is skipped the model ignores the error of the whole sequence.
\<close>

definition deployLB :: "LoadBalancer \<Rightarrow> unit op" where
  "deployLB lb = ignoreC (
     bindC (LBRepository_ListTargets (lb_ID lb)) (\<lambda>targets.
     bindC (backendC (BDeployProxy lb targets)) (\<lambda>_.
     LBRepository_Update (lb\<lparr>lb_Status := LBStatusActive\<rparr>))))"

definition cleanupLB :: "ctx \<Rightarrow> LoadBalancer \<Rightarrow> unit op" where
  "cleanupLB ctx lb =
     bindC (ignoreC (backendC (BRemoveProxy (lb_ID lb)))) (\<lambda>_.
     ignoreC (LBRepository_Delete ctx (lb_ID lb)))"

definition processCreatingLBs :: "ctx \<Rightarrow> unit op" where
  "processCreatingLBs ctx = ignoreC (
     bindC LBRepository_ListAll (\<lambda>lbs.
     forC lbs (\<lambda>lb. whenC (lb_Status lb = LBStatusCreating) (deployLB lb))))"

definition processDeletingLBs :: "ctx \<Rightarrow> unit op" where
  "processDeletingLBs ctx = ignoreC (
     bindC LBRepository_ListAll (\<lambda>lbs.
     forC lbs (\<lambda>lb. whenC (lb_Status lb = LBStatusDeleted) (cleanupLB (WithUserID ctx (lb_UserID lb)) lb))))"

definition refreshLB :: "LoadBalancer \<Rightarrow> unit op" where
  "refreshLB lb = ignoreC (
     bindC (LBRepository_ListTargets (lb_ID lb)) (\<lambda>targets.
     backendC (BUpdateProxyConfig lb targets)))"

definition processActiveLBs :: "ctx \<Rightarrow> unit op" where
  "processActiveLBs ctx = ignoreC (
     bindC LBRepository_ListAll (\<lambda>lbs.
     forC lbs (\<lambda>lb. whenC (lb_Status lb = LBStatusActive) (refreshLB lb))))"

text \<open>
  \<^verbatim>\<open>fmt.Sscanf\<close> with the single verbs \<^verbatim>\<open>%s\<close> and \<^verbatim>\<open>%d\<close>: leading blanks are skipped, a leading newline is an
  error; \<^verbatim>\<open>%s\<close> takes the bytes up to the next blank, \<^verbatim>\<open>%d\<close> an optional sign and digits. On an error the
  variable keeps its zero value. Only the ASCII blanks are recognised.
\<close>

definition blank :: "char \<Rightarrow> bool" where
  "blank c \<longleftrightarrow> c \<in> {CHR '' '', CHR 0x09, CHR 0x0A, CHR 0x0B, CHR 0x0C, CHR 0x0D}"

fun scan_skip :: "string \<Rightarrow> string option" where
  "scan_skip [] = Some []"
| "scan_skip (c # cs) =
     (if c = CHR 0x0A then None
      else if c = CHR 0x0D \<and> cs \<noteq> [] \<and> hd cs = CHR 0x0A then scan_skip (tl cs)
      else if blank c then scan_skip cs else Some (c # cs))"

definition Sscanf_s :: "string \<Rightarrow> string" where
  "Sscanf_s s = (case scan_skip s of None \<Rightarrow> [] | Some t \<Rightarrow> takeWhile (\<lambda>c. \<not> blank c) t)"

definition Sscanf_d :: "string \<Rightarrow> int" where
  "Sscanf_d s = (case scan_skip s of None \<Rightarrow> 0 | Some t \<Rightarrow>
     let sign = takeWhile (\<lambda>c. c = CHR ''+'' \<or> c = CHR ''-'') (take 1 t);
         digits = takeWhile is_digit (drop (length sign) t) in
     if digits = [] then 0 else case Atoi (sign @ digits) of None \<Rightarrow> 0 | Some v \<Rightarrow> v)"

text \<open>A Go map as a list of entries with distinct keys.\<close>

definition map_put :: "string \<Rightarrow> int \<Rightarrow> (string \<times> int) list \<Rightarrow> (string \<times> int) list" where
  "map_put k v m = filter (\<lambda>e. fst e \<noteq> k) m @ [(k, v)]"

definition parsePorts :: "string \<Rightarrow> (string \<times> int) list" where
  "parsePorts ports = fold (\<lambda>p res. case splitColons p of
       [a, b] \<Rightarrow> map_put (Sscanf_s a) (Sscanf_d b) res
     | _ \<Rightarrow> res) (splitCommas ports) []"

definition hostPort :: "env \<Rightarrow> string \<Rightarrow> int \<Rightarrow> string" where
  "hostPort E ports port =
     (if ports = [] then []
      else case find (\<lambda>(h, c). c = port) (map_range E (parsePorts ports)) of None \<Rightarrow> [] | Some (h, c) \<Rightarrow> h)"

definition targetStatus :: "env \<Rightarrow> Instance \<Rightarrow> LBTarget \<Rightarrow> string op" where
  "targetStatus E inst t =
     (let hp = hostPort E (inst_Ports inst) (tgt_Port t) in
      if hp = [] then returnC ''unhealthy''
      else bindC (tryC (backendC (BDial (''localhost:'' @ hp)))) (\<lambda>r.
        returnC (case r of Inr _ \<Rightarrow> ''healthy'' | Inl _ \<Rightarrow> ''unhealthy'')))"

definition checkTarget :: "env \<Rightarrow> ctx \<Rightarrow> LoadBalancer \<Rightarrow> LBTarget \<Rightarrow> unit op" where
  "checkTarget E ctx lb t =
     bindC (tryC (InstanceRepository_GetByID E ctx (tgt_InstanceID t))) (\<lambda>r.
     case r of
       Inl _ \<Rightarrow> returnC ()
     | Inr inst \<Rightarrow>
         bindC (targetStatus E inst t) (\<lambda>status.
         whenC (tgt_Health t \<noteq> status)
           (ignoreC (LBRepository_UpdateTargetHealth (lb_ID lb) (tgt_InstanceID t) status))))"

definition checkLBHealth :: "env \<Rightarrow> ctx \<Rightarrow> LoadBalancer \<Rightarrow> unit op" where
  "checkLBHealth E ctx lb = ignoreC (
     bindC (LBRepository_ListTargets (lb_ID lb)) (\<lambda>targets. forC targets (checkTarget E ctx lb)))"

definition processHealthChecks :: "env \<Rightarrow> ctx \<Rightarrow> unit op" where
  "processHealthChecks E ctx = ignoreC (
     bindC LBRepository_ListAll (\<lambda>lbs.
     forC lbs (\<lambda>lb. whenC (lb_Status lb = LBStatusActive) (checkLBHealth E (WithUserID ctx (lb_UserID lb)) lb))))"

text \<open>One tick of \<^verbatim>\<open>Run\<close>.\<close>

definition LBWorker_tick :: "env \<Rightarrow> ctx \<Rightarrow> unit op" where
  "LBWorker_tick E ctx =
     bindC (processCreatingLBs ctx) (\<lambda>_.
     bindC (processDeletingLBs ctx) (\<lambda>_.
     bindC (processActiveLBs ctx) (\<lambda>_.
     processHealthChecks E ctx)))"

section \<open>Facts\<close>

lemma LBRepository_GetByID_ok:
  "LBRepository_GetByID ctx i s = (Ok x, s') \<Longrightarrow>
     x \<in> set (t_load_balancers s) \<and> lb_ID x = i \<and> lb_UserID x = UserIDFromContext ctx \<and> t_load_balancers s' = t_load_balancers s"
  unfolding LBRepository_GetByID_def by (auto simp: ok_simps dest!: ok_queryRowC find_Some_set)

lemma LBRepository_Delete_ok:
  "LBRepository_Delete ctx i s = (Ok (), s') \<Longrightarrow>
     (\<exists>x \<in> set (t_load_balancers s). lb_ID x = i \<and> lb_UserID x = UserIDFromContext ctx) \<and>
     t_load_balancers s' = filter (\<lambda>x. \<not> (lb_ID x = i \<and> lb_UserID x = UserIDFromContext ctx)) (t_load_balancers s)"
  unfolding LBRepository_Delete_def Let_def
  by (auto simp: ok_simps rows_simps delete_lb_row_def list_ex_iff dest!: ok_execC)

lemma LBRepository_List_ok:
  "LBRepository_List ctx s = (Ok xs, s') \<Longrightarrow>
     set xs = {x \<in> set (t_load_balancers s). lb_UserID x = UserIDFromContext ctx} \<and> t_load_balancers s' = t_load_balancers s"
  unfolding LBRepository_List_def by (auto simp: ok_simps dest!: ok_queryC)

interpretation lb_repo: tenant_list_repo t_load_balancers lb_ID lb_UserID
  LBRepository_GetByID LBRepository_Delete LBRepository_List
  by unfold_locales (fact LBRepository_GetByID_ok LBRepository_Delete_ok LBRepository_List_ok)+

lemma lb_written_simps [simp]:
  "lb_ID (lb_written lb r) = lb_ID r" "lb_UserID (lb_written lb r) = lb_UserID r" "lb_Version (lb_written lb r) = lb_Version r + 1"
  "lb_Status (lb_written lb r) = lb_Status lb" "lb_IdempotencyKey (lb_written lb r) = lb_IdempotencyKey r"
  by (simp_all add: lb_written_def)

lemma wp_LBRepository_Update:
  assumes "\<And>e fs. Q (Err e) (s\<lparr>faults := fs\<rparr>)"
    and "\<And>fs. \<exists>r \<in> set (t_load_balancers s). lb_match lb r \<Longrightarrow>
      Q (Ok (lb\<lparr>lb_Version := lb_Version lb + 1\<rparr>))
        (s\<lparr>faults := fs, t_load_balancers := upd_where (lb_match lb) (lb_written lb) (t_load_balancers s)\<rparr>)"
  shows "wp (LBRepository_Update lb) Q s"
proof -
  have "Q (Err e) (s\<lparr>faults := fs, t_load_balancers := t_load_balancers s\<rparr>)" for e fs using assms(1) by simp
  then show ?thesis
    unfolding LBRepository_Update_def
    by (auto simp: wps rows_simps upd_where_none intro!: wp_execC assms)
qed

lemma LBRepository_Update_ok:
  assumes "LBRepository_Update lb s = (Ok x, s')"
  shows "(\<exists>r \<in> set (t_load_balancers s). lb_ID r = lb_ID lb \<and> lb_Version r = lb_Version lb \<and> lb_UserID r = lb_UserID lb) \<and>
    (\<exists>f. (\<forall>r. lb_ID (f r) = lb_ID r \<and> lb_UserID (f r) = lb_UserID r \<and> lb_Version (f r) = lb_Version r + 1) \<and>
      t_load_balancers s' = upd_where (\<lambda>r. lb_ID r = lb_ID lb \<and> lb_Version r = lb_Version lb \<and> lb_UserID r = lb_UserID lb) f (t_load_balancers s)) \<and>
    lb_ID x = lb_ID lb \<and> lb_UserID x = lb_UserID lb \<and> lb_Version x = lb_Version lb + 1"
proof -
  have "wp (LBRepository_Update lb) (\<lambda>r s'. \<forall>x. r = Ok x \<longrightarrow>
    (\<exists>r \<in> set (t_load_balancers s). lb_match lb r) \<and> t_load_balancers s' = upd_where (lb_match lb) (lb_written lb) (t_load_balancers s) \<and>
    lb_ID x = lb_ID lb \<and> lb_UserID x = lb_UserID lb \<and> lb_Version x = lb_Version lb + 1) s"
    by (rule wp_LBRepository_Update) auto
  then show ?thesis using assms
    by (auto simp: wp_def lb_match_def [abs_def] intro!: exI [of _ "lb_written lb"])
qed

lemma LBRepository_Update_fail:
  "\<not> (\<exists>x. fst (LBRepository_Update lb s) = Ok x) \<Longrightarrow> t_load_balancers (snd (LBRepository_Update lb s)) = t_load_balancers s"
proof -
  have "wp (LBRepository_Update lb) (\<lambda>r s'. (\<exists>x. r = Ok x) \<or> t_load_balancers s' = t_load_balancers s) s"
    by (rule wp_LBRepository_Update) auto
  then show "\<not> (\<exists>x. fst (LBRepository_Update lb s) = Ok x) \<Longrightarrow> ?thesis" by (simp add: wp_def)
qed

interpretation lb_versions: versioned_repo t_load_balancers lb_ID lb_UserID lb_Version LBRepository_Update
  by unfold_locales (fact LBRepository_Update_ok LBRepository_Update_fail)+

text \<open>What each operation may do to the table of load balancers.\<close>

abbreviation lbs :: "world \<Rightarrow> LoadBalancer list" where
  "lbs \<equiv> t_load_balancers"

lemma stable_lbs [simp]: "stable t_load_balancers"
  by (simp add: stable_def)

lemma stable_lb_targets [simp]: "stable t_lb_targets"
  by (simp add: stable_def)

lemma wp_LBRepository_GetByID:
  assumes "\<And>e fs. Q (Err e) (s\<lparr>faults := fs\<rparr>)"
    and "\<And>x fs. find (\<lambda>x. lb_ID x = i \<and> lb_UserID x = UserIDFromContext ctx) (lbs s) = Some x \<Longrightarrow> x \<in> set (lbs s) \<Longrightarrow> lb_ID x = i \<Longrightarrow>
      lb_UserID x = UserIDFromContext ctx \<Longrightarrow> Q (Ok x) (s\<lparr>faults := fs\<rparr>)"
  shows "wp (LBRepository_GetByID ctx i) Q s"
  unfolding LBRepository_GetByID_def by (auto simp: wps intro!: wp_queryRowC assms dest: find_Some_set)

lemma wp_Log_lbs:
  "(\<And>r s'. t_load_balancers s' = t_load_balancers s \<Longrightarrow> t_lb_targets s' = t_lb_targets s \<Longrightarrow> uuid_ctr s \<le> uuid_ctr s' \<Longrightarrow> Q r s') \<Longrightarrow> wp (Log E ctx u a b c d) Q s"
  using confinedD [OF keeps_Log [OF stable_lbs], of s E ctx u a b c d] confinedD [OF keeps_Log [OF stable_lb_targets], of s E ctx u a b c d]
    confinedD [OF later_log(2), of s E ctx u a b c d] by (simp add: wp_def keeps_def later_def)

lemma newLoadBalancer_paths:
  "wp (newLoadBalancer E ctx name v p a k) (\<lambda>r s'. t_lb_targets s' = t_lb_targets s \<and> ((\<forall>x. r \<noteq> Ok x) \<and> lbs s' = lbs s \<or>
     (\<exists>lb. lb_ID lb = uuid_at E (uuid_ctr s) \<and> lb_ID lb \<notin> lb_ID ` set (lbs s) \<and> k \<notin> lb_IdempotencyKey ` set (lbs s) \<and> lb_IdempotencyKey lb = k \<and>
        lb_UserID lb = UserIDFromContext ctx \<and> lb_Status lb = LBStatusCreating \<and> lb_VpcID lb = v \<and> lb_Version lb = 1 \<and> (\<forall>x. r = Ok x \<longrightarrow> x = lb) \<and>
        Suc (uuid_ctr s) \<le> uuid_ctr s' \<and> lbs s' = lbs s @ [lb]))) s"
  unfolding newLoadBalancer_def VpcRepository_GetByID_def LBRepository_Create_def Let_def
  by (auto simp: wps wp_nowC wp_newUUID intro!: wp_queryRowC wp_insertC wp_Log_lbs split: outcome.splits if_splits)

lemma LBService_Create_paths:
  "wp (LBService_Create E ctx name v p a k) (\<lambda>r s'. t_lb_targets s' = t_lb_targets s \<and> ((\<forall>x. r \<noteq> Ok x) \<and> lbs s' = lbs s \<or>
     (k \<noteq> [] \<and> (\<exists>lb. r = Ok lb \<and> find (\<lambda>x. lb_IdempotencyKey x = k \<and> lb_UserID x = UserIDFromContext ctx) (lbs s) = Some lb) \<and> lbs s' = lbs s) \<or>
     (\<exists>lb. lb_ID lb = uuid_at E (uuid_ctr s) \<and> lb_ID lb \<notin> lb_ID ` set (lbs s) \<and> k \<notin> lb_IdempotencyKey ` set (lbs s) \<and> lb_IdempotencyKey lb = k \<and>
        lb_UserID lb = UserIDFromContext ctx \<and> lb_Status lb = LBStatusCreating \<and> lb_VpcID lb = v \<and> lb_Version lb = 1 \<and> (\<forall>x. r = Ok x \<longrightarrow> x = lb) \<and>
        Suc (uuid_ctr s) \<le> uuid_ctr s' \<and> lbs s' = lbs s @ [lb]))) s"
proof -
  have new: "wp (newLoadBalancer E ctx name v p a k) Q s'" if "lbs s' = lbs s" "t_lb_targets s' = t_lb_targets s" "uuid_ctr s' = uuid_ctr s"
      "\<And>r t. t_lb_targets t = t_lb_targets s \<and> ((\<forall>x. r \<noteq> Ok x) \<and> lbs t = lbs s \<or>
     (\<exists>lb. lb_ID lb = uuid_at E (uuid_ctr s) \<and> lb_ID lb \<notin> lb_ID ` set (lbs s) \<and> k \<notin> lb_IdempotencyKey ` set (lbs s) \<and> lb_IdempotencyKey lb = k \<and>
        lb_UserID lb = UserIDFromContext ctx \<and> lb_Status lb = LBStatusCreating \<and> lb_VpcID lb = v \<and> lb_Version lb = 1 \<and> (\<forall>x. r = Ok x \<longrightarrow> x = lb) \<and>
        Suc (uuid_ctr s) \<le> uuid_ctr t \<and> lbs t = lbs s @ [lb])) \<Longrightarrow> Q r t" for s' Q
    using newLoadBalancer_paths [of E ctx name v p a k s'] unfolding that(1-3) by (rule wp_mono) (rule that(4))
  show ?thesis
  proof (cases "k = []")
    case True
    then show ?thesis using newLoadBalancer_paths [of E ctx name v p a k s] by (simp add: LBService_Create_def)
  next
    case False
    then show ?thesis
      unfolding LBService_Create_def LBRepository_GetByIdempotencyKey_def by (auto simp: wps intro!: wp_queryRowC new)
  qed
qed

lemma LBService_Delete_paths:
  "wp (LBService_Delete E ctx i) (\<lambda>r s'. t_lb_targets s' = t_lb_targets s \<and> ((\<forall>x. r \<noteq> Ok x) \<and> lbs s' = lbs s \<or>
     (\<exists>lb \<in> set (lbs s). lb_ID lb = i \<and> lb_UserID lb = UserIDFromContext ctx \<and>
        lbs s' = upd_where (lb_match lb) (lb_written (lb\<lparr>lb_Status := LBStatusDeleted\<rparr>)) (lbs s)))) s"
proof -
  have m: "lb_match (lb\<lparr>lb_Status := x\<rparr>) = lb_match lb" for lb x by (simp add: fun_eq_iff lb_match_def)
  show ?thesis unfolding LBService_Delete_def
    by (auto simp: wps m intro!: wp_LBRepository_GetByID wp_LBRepository_Update wp_Log_lbs split: outcome.splits)
qed

lemma deployLB_paths:
  "wp (deployLB lb) (\<lambda>r s'. r = Ok () \<and> t_lb_targets s' = t_lb_targets s \<and> uuid_ctr s' = uuid_ctr s \<and> extends s s' \<and> (lbs s' = lbs s \<or>
     BDeployProxy lb (filter (\<lambda>t. tgt_LBID t = lb_ID lb) (t_lb_targets s)) \<in> set (calls s') \<and> lbs s' = upd_where (lb_match lb) (lb_written (lb\<lparr>lb_Status := LBStatusActive\<rparr>)) (lbs s))) s"
proof -
  have m: "lb_match (lb\<lparr>lb_Status := x\<rparr>) = lb_match lb" for x by (simp add: fun_eq_iff lb_match_def)
  show ?thesis unfolding deployLB_def LBRepository_ListTargets_def backendC_def
    by (auto simp: wps m extends_def intro!: wp_queryC wp_extC wp_LBRepository_Update split: outcome.splits)
qed

lemma delete_lb_row_simps [simp]:
  "lbs (delete_lb_row P i s) = filter (\<lambda>x. \<not> P x) (lbs s)" "uuid_ctr (delete_lb_row P i s) = uuid_ctr s" "calls (delete_lb_row P i s) = calls s"
  by (auto simp: delete_lb_row_def list_ex_iff)

lemma cleanupLB_paths:
  "wp (cleanupLB ctx lb) (\<lambda>r s'. r = Ok () \<and> uuid_ctr s' = uuid_ctr s \<and> extends s s' \<and> (lbs s' = lbs s \<or>
     lbs s' = filter (\<lambda>x. \<not> (lb_ID x = lb_ID lb \<and> lb_UserID x = UserIDFromContext ctx)) (lbs s))) s"
  unfolding cleanupLB_def LBRepository_Delete_def backendC_def Let_def
  by (auto simp: wps extends_def rows_simps intro!: wp_extC wp_execC split: outcome.splits)

lemma keeps_worker_lbs [keep]:
  "confined (keeps t_load_balancers) (refreshLB lb)" "confined (keeps t_load_balancers) (checkLBHealth E ctx lb)"
  unfolding refreshLB_def LBRepository_ListTargets_def checkLBHealth_def checkTarget_def targetStatus_def LBRepository_UpdateTargetHealth_def
    InstanceRepository_GetByID_def Let_def
  by (intro keeps_intros; simp)+

lemma keeps_targets_lbs [keep]:
  "confined (keeps t_load_balancers) (AddTarget E ctx i j p w)" "confined (keeps t_load_balancers) (RemoveTarget E ctx i j)"
  unfolding AddTarget_def RemoveTarget_def LBRepository_GetByID_def LBRepository_AddTarget_def LBRepository_RemoveTarget_def InstanceRepository_GetByID_def
  by (intro keeps_intros; simp)+

section \<open>The life of a load balancer\<close>

text \<open>
  The service and the worker run concurrently: the worker lists the load balancers and goes through the
  list while callers create and delete load balancers. A state is the world with the part of the list the
  worker has not gone through; between any two entries of the list any number of calls may happen.
\<close>

inductive lb_step :: "env \<Rightarrow> world \<times> LoadBalancer list \<Rightarrow> world \<times> LoadBalancer list \<Rightarrow> bool" for E where
  create: "lb_step E (s, todo) (snd (LBService_Create E ctx name vpcID port algo key s), todo)"
| delete: "lb_step E (s, todo) (snd (LBService_Delete E ctx i s), todo)"
| add_target: "lb_step E (s, todo) (snd (AddTarget E ctx i j port weight s), todo)"
| remove_target: "lb_step E (s, todo) (snd (RemoveTarget E ctx i j s), todo)"
| listed: "LBRepository_ListAll s = (Ok rows, s') \<Longrightarrow> lb_step E (s, todo) (s', rows)"
| deploy: "lb_Status lb = LBStatusCreating \<Longrightarrow> lb_step E (s, lb # todo) (snd (deployLB lb s), todo)"
| cleanup: "lb_Status lb = LBStatusDeleted \<Longrightarrow> lb_step E (s, lb # todo) (snd (cleanupLB (WithUserID ctx (lb_UserID lb)) lb s), todo)"
| refresh: "lb_Status lb = LBStatusActive \<Longrightarrow> lb_step E (s, lb # todo) (snd (refreshLB lb s), todo)"
| health: "lb_Status lb = LBStatusActive \<Longrightarrow> lb_step E (s, lb # todo) (snd (checkLBHealth E (WithUserID ctx (lb_UserID lb)) lb s), todo)"
| skip: "lb_step E (s, lb # todo) (s, todo)"

inductive lb_reach :: "env \<Rightarrow> world \<times> LoadBalancer list \<Rightarrow> bool" for E where
  init: "t_load_balancers s = [] \<Longrightarrow> lb_reach E (s, [])"
| step: "lb_reach E c \<Longrightarrow> lb_step E c c' \<Longrightarrow> lb_reach E c'"

inductive_cases lb_stepE [consumes 1, case_names create delete add_target remove_target listed deploy cleanup refresh health skip]:
  "lb_step E (s, todo) (s', todo')"

text \<open>The transitions of the status a load balancer may take.\<close>

fun lb_next :: "LBStatus \<Rightarrow> LBStatus \<Rightarrow> bool" where
  "lb_next LBStatusCreating LBStatusActive \<longleftrightarrow> True"
| "lb_next a b \<longleftrightarrow> a = b \<or> b = LBStatusDeleted"

lemma lb_next_simps [simp]: "lb_next a a" "lb_next a LBStatusDeleted"
  by (cases a; simp)+

text \<open>
  The invariant: an identifier in use is not among those still to be generated before the \<open>N\<close>-th, a row the worker still has on its list is at least as old as
  the row of the table and says the truth about its status when the versions agree, and a load balancer is
  active only after its proxy has been deployed.
\<close>

definition unused :: "env \<Rightarrow> nat \<Rightarrow> world \<Rightarrow> uuid \<Rightarrow> bool" where
  "unused E N s i \<longleftrightarrow> (\<forall>k < N. uuid_ctr s \<le> k \<longrightarrow> uuid_at E k \<noteq> i)"

definition deployed :: "world \<Rightarrow> uuid \<Rightarrow> bool" where
  "deployed s i \<longleftrightarrow> (\<exists>lb ts. BDeployProxy lb ts \<in> set (calls s) \<and> lb_ID lb = i)"

definition lb_inv :: "env \<Rightarrow> nat \<Rightarrow> world \<times> LoadBalancer list \<Rightarrow> bool" where
  "lb_inv E N c = (case c of (s, todo) \<Rightarrow>
     distinct (map lb_ID (lbs s)) \<and>
     (\<forall>r \<in> set (lbs s). unused E N s (lb_ID r) \<and> (lb_Status r = LBStatusActive \<longrightarrow> deployed s (lb_ID r))) \<and>
     (\<forall>x \<in> set todo. unused E N s (lb_ID x) \<and> (\<forall>r \<in> set (lbs s). lb_ID r = lb_ID x \<longrightarrow>
        lb_Version x \<le> lb_Version r \<and> (lb_Version x = lb_Version r \<longrightarrow> lb_Status r = lb_Status x))))"

lemma unused_later: "unused E N s i \<Longrightarrow> uuid_ctr s \<le> uuid_ctr s' \<Longrightarrow> unused E N s' i"
  by (auto simp: unused_def)

lemma deployed_extends: "deployed s i \<Longrightarrow> extends s s' \<Longrightarrow> deployed s' i"
  by (auto simp: deployed_def intro: extends_mem)

text \<open>The three ways in which the table changes.\<close>

lemma lb_inv_same:
  assumes "lb_inv E N (s, todo)" and "lbs s' = lbs s" and "uuid_ctr s \<le> uuid_ctr s'" and "extends s s'" and "set todo' \<subseteq> set todo"
  shows "lb_inv E N (s', todo')"
  using assms(1,2,5) unused_later [OF _ assms(3)] deployed_extends [OF _ assms(4)] by (fastforce simp: lb_inv_def)

lemma lb_inv_filter:
  assumes "lb_inv E N (s, todo)" and "lbs s' = filter P (lbs s)" and "uuid_ctr s \<le> uuid_ctr s'" and "extends s s'" and "set todo' \<subseteq> set todo"
  shows "lb_inv E N (s', todo')"
  using assms(1,2,5) unused_later [OF _ assms(3)] deployed_extends [OF _ assms(4)] by (fastforce simp: lb_inv_def distinct_map_filterI)

lemma lb_inv_append:
  assumes "lb_inv E N (s, todo)" and "lbs s' = lbs s @ [lb]" and "lb_ID lb = uuid_at E (uuid_ctr s)" and "lb_ID lb \<notin> lb_ID ` set (lbs s)"
    and "lb_Status lb = LBStatusCreating" and "Suc (uuid_ctr s) \<le> uuid_ctr s'" and "extends s s'" and "uuid_ctr s' \<le> N" and "inj_on (uuid_at E) {..<N}"
  shows "lb_inv E N (s', todo)"
proof -
  have u: "unused E N s i \<Longrightarrow> unused E N s' i" for i using assms(6) by (auto simp: unused_def)
  have "unused E N s' (lb_ID lb)" using assms(3,6,8,9) by (auto simp: unused_def inj_on_eq_iff)
  moreover have "uuid_ctr s < N" using assms(6,8) by simp
  then have "unused E N s i \<Longrightarrow> i \<noteq> lb_ID lb" for i unfolding assms(3) unused_def by blast
  then have "\<forall>x \<in> set todo. lb_ID x \<noteq> lb_ID lb" using assms(1) by (simp add: lb_inv_def)
  moreover have "\<forall>r \<in> set (lbs s). unused E N s' (lb_ID r) \<and> (lb_Status r = LBStatusActive \<longrightarrow> deployed s' (lb_ID r))"
    using assms(1) u deployed_extends [OF _ assms(7)] by (simp add: lb_inv_def)
  moreover have "\<forall>x \<in> set todo. unused E N s' (lb_ID x)" using assms(1) u by (simp add: lb_inv_def)
  ultimately show ?thesis using assms(1,4,5) unfolding lb_inv_def by (simp add: assms(2)) (metis image_eqI)
qed

lemma lb_inv_write:
  assumes "lb_inv E N (s, todo)" and "lbs s' = upd_where (lb_match lb) (lb_written lb') (lbs s)"
    and "uuid_ctr s \<le> uuid_ctr s'" and "extends s s'" and "set todo' \<subseteq> set todo"
    and "lb_Status lb' = LBStatusActive \<Longrightarrow> deployed s' (lb_ID lb)"
  shows "lb_inv E N (s', todo')"
proof -
  have "map lb_ID (lbs s') = map lb_ID (lbs s)" unfolding assms(2) by (rule map_upd_where_key) simp
  moreover have "unused E N s' (lb_ID r) \<and> (lb_Status r = LBStatusActive \<longrightarrow> deployed s' (lb_ID r)) \<and>
      (\<forall>x \<in> set todo. lb_ID r = lb_ID x \<longrightarrow> lb_Version x \<le> lb_Version r \<and> (lb_Version x = lb_Version r \<longrightarrow> lb_Status r = lb_Status x))"
    if "r \<in> set (lbs s')" for r
  proof -
    have "r \<in> (\<lambda>x. if lb_match lb x then lb_written lb' x else x) ` set (lbs s)" using that by (simp add: assms(2) set_upd_where)
    then obtain r0 where r0: "r0 \<in> set (lbs s)" "r = (if lb_match lb r0 then lb_written lb' r0 else r0)" by blast
    have "unused E N s' (lb_ID r0)" using assms(1,3) r0(1) by (auto simp: lb_inv_def intro: unused_later)
    moreover have "lb_Status r0 = LBStatusActive \<longrightarrow> deployed s' (lb_ID r0)"
      using assms(1,4) r0(1) by (auto simp: lb_inv_def intro: deployed_extends)
    moreover have "\<forall>x \<in> set todo. lb_ID r0 = lb_ID x \<longrightarrow> lb_Version x \<le> lb_Version r0 \<and> (lb_Version x = lb_Version r0 \<longrightarrow> lb_Status r0 = lb_Status x)"
      using assms(1) r0(1) by (auto simp: lb_inv_def)
    ultimately show ?thesis using r0(2) assms(6) by (auto simp: lb_match_def)
  qed
  moreover have "unused E N s' (lb_ID x)" if "x \<in> set todo'" for x
    using that assms(1,3,5) by (auto simp: lb_inv_def intro: unused_later)
  ultimately show ?thesis using assms(1,5) by (auto simp: lb_inv_def)
qed

lemmas lb_defs = LBService_Create_def newLoadBalancer_def LBService_Delete_def AddTarget_def RemoveTarget_def refreshLB_def checkLBHealth_def
  checkTarget_def targetStatus_def Let_def LBRepository_Create_def LBRepository_GetByID_def LBRepository_GetByIdempotencyKey_def LBRepository_ListAll_def
  LBRepository_Update_def LBRepository_AddTarget_def LBRepository_RemoveTarget_def LBRepository_ListTargets_def LBRepository_UpdateTargetHealth_def
  VpcRepository_GetByID_def InstanceRepository_GetByID_def

lemma lb_later:
  "confined later (LBService_Create E ctx n v p a k)" "confined later (LBService_Delete E ctx i)" "confined later (AddTarget E ctx i j p w)"
  "confined later (RemoveTarget E ctx i j)" "confined later (refreshLB lb)" "confined later (checkLBHealth E ctx lb)" "confined later LBRepository_ListAll"
  unfolding lb_defs by (intro later_intros late; simp)+

lemma lb_extends:
  "confined extends (LBService_Create E ctx n v p a k)" "confined extends (LBService_Delete E ctx i)" "confined extends (AddTarget E ctx i j p w)"
  "confined extends (RemoveTarget E ctx i j)" "confined extends (refreshLB lb)" "confined extends (checkLBHealth E ctx lb)" "confined extends LBRepository_ListAll"
  unfolding lb_defs by (intro extends_intros grow; simp)+

lemma lb_framesD:
  assumes "confined later m" and "confined extends m"
  shows "uuid_ctr s \<le> uuid_ctr (snd (m s))" "extends s (snd (m s))"
  using confinedD [OF assms(1), of s] confinedD [OF assms(2), of s] by (simp_all add: later_def)

lemma lb_inv_keep:
  assumes "lb_inv E N (s, todo)" and "confined (keeps t_load_balancers) m" and "confined later m" and "confined extends m" and "set todo' \<subseteq> set todo"
  shows "lb_inv E N (snd (m s), todo')"
  using lb_inv_same [OF assms(1) _ lb_framesD [OF assms(3,4)] assms(5)] confinedD [OF assms(2), of s] by (simp add: keeps_def)

text \<open>One step: the invariant holds again and no status moved against the life cycle.\<close>

definition lb_progress :: "world \<Rightarrow> world \<Rightarrow> bool" where
  "lb_progress s s' \<longleftrightarrow> (\<forall>r \<in> set (lbs s). \<forall>r' \<in> set (lbs s'). lb_ID r' = lb_ID r \<longrightarrow> lb_next (lb_Status r) (lb_Status r'))"

lemma lb_progress_subset: "distinct (map lb_ID (lbs s)) \<Longrightarrow> set (lbs s') \<subseteq> set (lbs s) \<Longrightarrow> lb_progress s s'"
  by (fastforce simp: lb_progress_def dest: distinct_key_unique)

lemma lb_progress_keep: "distinct (map lb_ID (lbs s)) \<Longrightarrow> confined (keeps t_load_balancers) m \<Longrightarrow> lb_progress s (snd (m s))"
  using confinedD [of "keeps t_load_balancers" m s] by (simp add: lb_progress_subset keeps_def)

lemma lb_progress_append:
  assumes "distinct (map lb_ID (lbs s))" and "lbs s' = lbs s @ [lb]" and "lb_ID lb \<notin> lb_ID ` set (lbs s)"
  shows "lb_progress s s'"
  unfolding lb_progress_def
proof (intro ballI impI)
  fix r r' assume "r \<in> set (lbs s)" "r' \<in> set (lbs s')" "lb_ID r' = lb_ID r"
  with assms have "r' = r" by (auto simp: image_iff dest: distinct_key_unique)
  then show "lb_next (lb_Status r) (lb_Status r')" by simp
qed

lemma lb_progress_write:
  assumes "distinct (map lb_ID (lbs s))" and "lbs s' = upd_where (lb_match lb) (lb_written lb') (lbs s)"
    and "\<And>r. r \<in> set (lbs s) \<Longrightarrow> lb_match lb r \<Longrightarrow> lb_next (lb_Status r) (lb_Status lb')"
  shows "lb_progress s s'"
  unfolding lb_progress_def
proof (intro ballI impI)
  fix r r' assume r: "r \<in> set (lbs s)" "r' \<in> set (lbs s')" "lb_ID r' = lb_ID r"
  have "r' \<in> (\<lambda>x. if lb_match lb x then lb_written lb' x else x) ` set (lbs s)" using r(2) by (simp add: assms(2) set_upd_where)
  then obtain r0 where r0: "r0 \<in> set (lbs s)" "r' = (if lb_match lb r0 then lb_written lb' r0 else r0)" by blast
  then have "lb_ID r0 = lb_ID r" using r(3) by (auto split: if_splits)
  then have "r0 = r" using assms(1) r0(1) r(1) by (auto dest: distinct_key_unique)
  then show "lb_next (lb_Status r) (lb_Status r')" using r0 r(1) assms(3) by simp
qed

lemma lb_step_sound:
  assumes "lb_inv E N (s, todo)" and "lb_step E (s, todo) (s', todo')" and "inj_on (uuid_at E) {..<N}" and "uuid_ctr s' \<le> N"
  shows "lb_inv E N (s', todo') \<and> lb_progress s s'"
proof -
  have d: "distinct (map lb_ID (lbs s))" using assms(1) by (simp add: lb_inv_def)
  have quiet: "lb_inv E N (snd (m s), todo') \<and> lb_progress s (snd (m s))"
    if "confined (keeps t_load_balancers) m" "confined later m" "confined extends m" "set todo' \<subseteq> set todo" for m :: "unit op" and todo'
    using lb_inv_keep [OF assms(1) that] lb_progress_keep [OF d that(1)] by simp
  from assms(2) show ?thesis
  proof (cases rule: lb_stepE)
    case (create ctx name vpcID port algo key)
    note fr = lb_framesD [OF lb_later(1) lb_extends(1), of s E ctx name vpcID port algo key]
    from LBService_Create_paths [of E ctx name vpcID port algo key s]
    consider "lbs s' = lbs s" | lb where "lb_ID lb = uuid_at E (uuid_ctr s)" "lb_ID lb \<notin> lb_ID ` set (lbs s)" "lb_Status lb = LBStatusCreating"
      "Suc (uuid_ctr s) \<le> uuid_ctr s'" "lbs s' = lbs s @ [lb]"
      unfolding create wp_def by blast
    then show ?thesis
    proof cases
      case 1
      with fr create show ?thesis by (auto intro: lb_inv_same [OF assms(1)] lb_progress_subset [OF d])
    next
      case 2
      have "extends s s'" using fr create by simp
      with create show ?thesis
        using lb_inv_append [OF assms(1) 2(5) 2(1) 2(2) 2(3) 2(4) _ assms(4,3)] lb_progress_append [OF d 2(5) 2(2)] by simp
    qed
  next
    case (delete ctx i)
    note fr = lb_framesD [OF lb_later(2) lb_extends(2), of s E ctx i]
    from LBService_Delete_paths [of E ctx i s]
    consider "lbs s' = lbs s" | lb where "lbs s' = upd_where (lb_match lb) (lb_written (lb\<lparr>lb_Status := LBStatusDeleted\<rparr>)) (lbs s)"
      unfolding delete wp_def by blast
    then show ?thesis
    proof cases
      case 1
      with fr delete show ?thesis by (auto intro: lb_inv_same [OF assms(1)] lb_progress_subset [OF d])
    next
      case 2
      have "uuid_ctr s \<le> uuid_ctr s'" "extends s s'" using fr delete by simp_all
      with delete show ?thesis using lb_inv_write [OF assms(1) 2] lb_progress_write [OF d 2] by simp
    qed
  next
    case (listed)
    then have rows: "set todo' = set (lbs s)" "lbs s' = lbs s" by (auto simp: LBRepository_ListAll_def ok_simps dest!: ok_queryC)
    moreover have "uuid_ctr s \<le> uuid_ctr s'" "extends s s'"
      using lb_framesD [OF lb_later(7) lb_extends(7), of s] listed by simp_all
    ultimately have "lb_inv E N (s', [])" using assms(1) by (auto intro: lb_inv_same)
    then have "lb_inv E N (s', todo')" using rows d by (fastforce simp: lb_inv_def dest: distinct_key_unique)
    with rows(2) d show ?thesis by (simp add: lb_progress_subset)
  next
    case (deploy lb)
    from deployLB_paths [of lb s]
    have fr: "uuid_ctr s' = uuid_ctr s" "extends s s'" and "lbs s' = lbs s \<or> (\<exists>ts. BDeployProxy lb ts \<in> set (calls s')) \<and>
        lbs s' = upd_where (lb_match lb) (lb_written (lb\<lparr>lb_Status := LBStatusActive\<rparr>)) (lbs s)"
      unfolding deploy wp_def by blast+
    from this(3) show ?thesis
    proof (elim disjE conjE)
      assume "lbs s' = lbs s"
      with fr deploy show ?thesis by (auto intro: lb_inv_same [OF assms(1)] lb_progress_subset [OF d])
    next
      assume w: "lbs s' = upd_where (lb_match lb) (lb_written (lb\<lparr>lb_Status := LBStatusActive\<rparr>)) (lbs s)" "\<exists>ts. BDeployProxy lb ts \<in> set (calls s')"
      have "lb_next (lb_Status r) LBStatusActive" if "r \<in> set (lbs s)" "lb_match lb r" for r
        using assms(1) that deploy by (simp add: lb_inv_def lb_match_def)
      moreover have "deployed s' (lb_ID lb)" using w(2) by (auto simp: deployed_def)
      ultimately show ?thesis
        using fr deploy lb_inv_write [OF assms(1) w(1), of todo'] lb_progress_write [OF d w(1)] by auto
    qed
  next
    case (cleanup lb ctx)
    from cleanupLB_paths [of "WithUserID ctx (lb_UserID lb)" lb s]
    have fr: "uuid_ctr s' = uuid_ctr s" "extends s s'" and "lbs s' = lbs s \<or> (\<exists>P. lbs s' = filter P (lbs s))"
      unfolding cleanup wp_def by blast+
    from this(3) show ?thesis
    proof (elim disjE exE)
      assume "lbs s' = lbs s"
      with fr cleanup show ?thesis by (auto intro: lb_inv_same [OF assms(1)] lb_progress_subset [OF d])
    next
      fix P assume f: "lbs s' = filter P (lbs s)"
      with fr cleanup show ?thesis using lb_inv_filter [OF assms(1) f, of todo'] lb_progress_subset [OF d, of s'] by auto
    qed
  next
    case (add_target ctx i j port weight)
    then show ?thesis using quiet [OF keeps_targets_lbs(1) lb_later(3) lb_extends(3)] by blast
  next
    case (remove_target ctx i j)
    then show ?thesis using quiet [OF keeps_targets_lbs(2) lb_later(4) lb_extends(4)] by blast
  next
    case (refresh lb)
    then show ?thesis using quiet [OF keeps_worker_lbs(1) lb_later(5) lb_extends(5)] by (metis set_subset_Cons)
  next
    case (health lb ctx)
    then show ?thesis using quiet [OF keeps_worker_lbs(2) lb_later(6) lb_extends(6)] by (metis set_subset_Cons)
  next
    case (skip lb)
    then show ?thesis using quiet [OF keeps.fr_return later.fr_return extends.fr_return, of todo'] by (auto simp: run)
  qed
qed

lemma lb_step_later: "lb_step E c c' \<Longrightarrow> uuid_ctr (fst c) \<le> uuid_ctr (fst c')"
proof (induction rule: lb_step.induct)
  case (listed s rows s' todo)
  with confinedD [OF lb_later(7), of s] show ?case by (simp add: later_def)
next
  case (deploy lb s todo)
  with deployLB_paths [of lb s] show ?case by (simp add: wp_def)
next
  case (cleanup lb s todo ctx)
  with cleanupLB_paths [of "WithUserID ctx (lb_UserID lb)" lb s] show ?case by (simp add: wp_def)
qed (simp_all add: lb_later [THEN confinedD, unfolded later_def])

lemma lb_reach_inv: "lb_reach E c \<Longrightarrow> inj_on (uuid_at E) {..<N} \<Longrightarrow> uuid_ctr (fst c) \<le> N \<Longrightarrow> lb_inv E N c"
proof (induction rule: lb_reach.induct)
  case (step c c')
  then show ?case using lb_step_sound [of E N "fst c" "snd c" "fst c'" "snd c'"] lb_step_later [of E c c'] by simp
qed (simp add: lb_inv_def)

section \<open>Properties\<close>

text \<open>C3. The life cycle of a load balancer under concurrency: from an empty table, in every interleaving of the
  calls of any tenants with the worker, which may act on rows it has read long before, the status of a
  load balancer only moves from CREATING to ACTIVE and from any status to DELETED. In particular a deleted
  load balancer is not brought back by a deployment that was under way.\<close>

theorem lb_lifecycle:
  assumes "inj_on (uuid_at E) {..<uuid_ctr s'}" and "lb_reach E (s, todo)" and "lb_step E (s, todo) (s', todo')"
    and "r \<in> set (t_load_balancers s)" and "r' \<in> set (t_load_balancers s')" and "lb_ID r' = lb_ID r"
  shows "lb_next (lb_Status r) (lb_Status r')"
  using lb_step_sound [OF lb_reach_inv [OF assms(2,1)] assms(3,1)] lb_step_later [OF assms(3)] assms(4-6) by (simp add: lb_progress_def)

text \<open>C15. A load balancer is reported ACTIVE only after the backend has deployed a proxy for it, and no two
  rows ever have the same identifier, in every interleaving of calls with the worker.\<close>

theorem lb_active_deployed:
  assumes "inj_on (uuid_at E) {..<uuid_ctr s}" and "lb_reach E (s, todo)"
  shows "distinct (map lb_ID (t_load_balancers s)) \<and>
    (\<forall>r \<in> set (t_load_balancers s). lb_Status r = LBStatusActive \<longrightarrow> (\<exists>lb ts. BDeployProxy lb ts \<in> set (calls s) \<and> lb_ID lb = lb_ID r))"
  using lb_reach_inv [OF assms(2,1)] by (auto simp: lb_inv_def deployed_def)

text \<open>Creation is idempotent: repeating a creation under the same non-empty key, with whatever other
  arguments, returns the load balancer of the first call and changes nothing.\<close>

theorem LBService_Create_idempotent:
  assumes "LBService_Create E ctx name v port algo key s = (Ok lb, s1)" and "key \<noteq> []" and "faults s1 = []"
  shows "LBService_Create E ctx name' v' port' algo' key s1 = (Ok lb, s1)"
proof -
  have "find (\<lambda>x. lb_IdempotencyKey x = key \<and> lb_UserID x = UserIDFromContext ctx) (lbs s1) = Some lb"
  proof -
    from LBService_Create_paths [of E ctx name v port algo key s] assms(1)
    have "find (\<lambda>x. lb_IdempotencyKey x = key \<and> lb_UserID x = UserIDFromContext ctx) (lbs s) = Some lb \<and> lbs s1 = lbs s \<or>
        key \<notin> lb_IdempotencyKey ` set (lbs s) \<and> lb_IdempotencyKey lb = key \<and> lb_UserID lb = UserIDFromContext ctx \<and> lbs s1 = lbs s @ [lb]"
      by (auto simp: wp_def)
    moreover have "find (\<lambda>x. lb_IdempotencyKey x = key \<and> lb_UserID x = UserIDFromContext ctx) (lbs s) = None"
      if "key \<notin> lb_IdempotencyKey ` set (lbs s)" using that by (auto simp: find_None_set)
    ultimately show ?thesis by auto
  qed
  with assms(2,3) show ?thesis
    by (simp add: LBService_Create_def LBRepository_GetByIdempotencyKey_def run)
qed

text \<open>The empty idempotency key is stored as the empty text in a unique column: once one load balancer
  without a key exists, of any tenant, every creation without a key fails and adds nothing.\<close>

theorem LBService_Create_second_without_key:
  assumes "\<exists>r \<in> set (t_load_balancers s). lb_IdempotencyKey r = []"
  shows "case LBService_Create E ctx name v port algo [] s of (r, s') \<Rightarrow> (\<nexists>lb. r = Ok lb) \<and> t_load_balancers s' = t_load_balancers s"
proof -
  have "[] \<in> lb_IdempotencyKey ` set (lbs s)" using assms by force
  then show ?thesis using LBService_Create_paths [of E ctx name v port algo "[]" s] unfolding wp_def by auto
qed

text \<open>A target that was added belongs to a load balancer and an instance of the caller in the same VPC, was
  not a target before, and is the only change to the targets.\<close>

theorem AddTarget_ok:
  assumes "AddTarget E ctx lbID instanceID port weight s = (Ok (), s')"
  shows "\<exists>lb \<in> set (t_load_balancers s). \<exists>inst \<in> set (t_instances s). \<exists>t.
    lb_ID lb = lbID \<and> lb_UserID lb = UserIDFromContext ctx \<and> inst_ID inst = instanceID \<and> inst_UserID inst = UserIDFromContext ctx \<and>
    inst_VpcID inst = Some (lb_VpcID lb) \<and> tgt_LBID t = lbID \<and> tgt_InstanceID t = instanceID \<and> tgt_Port t = port \<and> tgt_Weight t \<noteq> 0 \<and>
    (\<forall>x \<in> set (t_lb_targets s). \<not> (tgt_LBID x = lbID \<and> tgt_InstanceID x = instanceID)) \<and> t_lb_targets s' = t_lb_targets s @ [t]"
proof -
  have "wp (AddTarget E ctx lbID instanceID port weight) (\<lambda>r s'. r = Ok () \<longrightarrow> (\<exists>lb \<in> set (t_load_balancers s). \<exists>inst \<in> set (t_instances s). \<exists>t.
    lb_ID lb = lbID \<and> lb_UserID lb = UserIDFromContext ctx \<and> inst_ID inst = instanceID \<and> inst_UserID inst = UserIDFromContext ctx \<and>
    inst_VpcID inst = Some (lb_VpcID lb) \<and> tgt_LBID t = lbID \<and> tgt_InstanceID t = instanceID \<and> tgt_Port t = port \<and> tgt_Weight t \<noteq> 0 \<and>
    (\<forall>x \<in> set (t_lb_targets s). \<not> (tgt_LBID x = lbID \<and> tgt_InstanceID x = instanceID)) \<and> t_lb_targets s' = t_lb_targets s @ [t])) s"
    unfolding AddTarget_def InstanceRepository_GetByID_def LBRepository_AddTarget_def Let_def
    by (auto simp: wps wp_newUUID list_ex_iff intro!: wp_LBRepository_GetByID wp_queryRowC wp_insertC wp_Log_lbs dest!: find_Some_set split: outcome.splits if_splits)
       (blast | metis LBTarget.select_convs)+
  with assms show ?thesis by (simp add: wp_def)
qed

text \<open>Tenant isolation.\<close>

lemma lb_isolated:
  "confined (keeps (\<lambda>s. others lb_UserID (UserIDFromContext ctx) (t_load_balancers s))) (LBService_Create E ctx n v p a k)"
  "confined (keeps (\<lambda>s. others lb_UserID (UserIDFromContext ctx) (t_load_balancers s))) (LBService_Delete E ctx i)"
proof -
  let ?f = "\<lambda>s. others lb_UserID (UserIDFromContext ctx) (t_load_balancers s)"
  have st: "stable ?f" by (simp add: stable_def)
  show "confined (keeps ?f) (LBService_Create E ctx n v p a k)"
    unfolding LBService_Create_def newLoadBalancer_def VpcRepository_GetByID_def LBRepository_Create_def LBRepository_GetByIdempotencyKey_def
    by (intro keeps_intros) (simp_all add: st)
  show "confined (keeps ?f) (LBService_Delete E ctx i)"
  proof (rule confinedI)
    fix s
    from LBService_Delete_paths [of E ctx i s] show "keeps ?f s (snd (LBService_Delete E ctx i s))"
      unfolding keeps_def wp_def by (auto intro!: others_upd_where simp: lb_match_def)
  qed
qed

definition foreign_targets :: "uuid \<Rightarrow> world \<Rightarrow> LBTarget list" where
  "foreign_targets u s = filter (\<lambda>t. \<exists>lb \<in> set (lbs s). lb_ID lb = tgt_LBID t \<and> lb_UserID lb \<noteq> u) (t_lb_targets s)"

lemma RemoveTarget_paths:
  "wp (RemoveTarget E ctx i j) (\<lambda>r s'. lbs s' = lbs s \<and> ((\<forall>x. r \<noteq> Ok x) \<and> t_lb_targets s' = t_lb_targets s \<or>
     (\<exists>x \<in> set (lbs s). lb_ID x = i \<and> lb_UserID x = UserIDFromContext ctx \<and>
        t_lb_targets s' = filter (\<lambda>t. tgt_LBID t = lb_ID x \<longrightarrow> tgt_InstanceID t \<noteq> j) (t_lb_targets s)))) s"
  unfolding RemoveTarget_def LBRepository_RemoveTarget_def Let_def
  by (auto simp: wps rows_simps intro!: wp_LBRepository_GetByID wp_execC wp_Log_lbs split: outcome.splits)

lemma targets_isolated:
  assumes "distinct (map lb_ID (lbs s))"
  shows "foreign_targets (UserIDFromContext ctx) (snd (AddTarget E ctx i j p w s)) = foreign_targets (UserIDFromContext ctx) s"
    "foreign_targets (UserIDFromContext ctx) (snd (RemoveTarget E ctx i j s)) = foreign_targets (UserIDFromContext ctx) s"
proof -
  have own: "\<not> (\<exists>lb \<in> set (lbs s). lb_ID lb = lb_ID x \<and> lb_UserID lb \<noteq> UserIDFromContext ctx)"
    if "x \<in> set (lbs s)" "lb_UserID x = UserIDFromContext ctx" for x
    using that assms by (auto dest: distinct_key_unique)
  have "wp (AddTarget E ctx i j p w) (\<lambda>r s'. foreign_targets (UserIDFromContext ctx) s' = foreign_targets (UserIDFromContext ctx) s) s"
    unfolding AddTarget_def InstanceRepository_GetByID_def LBRepository_AddTarget_def Let_def
    by (auto simp: wps wp_newUUID foreign_targets_def intro!: wp_LBRepository_GetByID wp_queryRowC wp_insertC wp_Log_lbs dest: own split: outcome.splits)
  then show "foreign_targets (UserIDFromContext ctx) (snd (AddTarget E ctx i j p w s)) = foreign_targets (UserIDFromContext ctx) s"
    by (simp add: wp_def)
  have rem: "foreign_targets (UserIDFromContext ctx) s' = foreign_targets (UserIDFromContext ctx) s"
    if "x \<in> set (lbs s)" "lb_UserID x = UserIDFromContext ctx" "lbs s' = lbs s"
      "t_lb_targets s' = filter (\<lambda>t. tgt_LBID t = lb_ID x \<longrightarrow> tgt_InstanceID t \<noteq> j) (t_lb_targets s)" for x s'
    unfolding foreign_targets_def that(3,4) filter_filter using own [OF that(1,2)] by (intro filter_cong refl) auto
  have same: "foreign_targets (UserIDFromContext ctx) s' = foreign_targets (UserIDFromContext ctx) s"
    if "lbs s' = lbs s" "t_lb_targets s' = t_lb_targets s" for s' using that by (simp add: foreign_targets_def)
  from RemoveTarget_paths [of E ctx i j s]
  show "foreign_targets (UserIDFromContext ctx) (snd (RemoveTarget E ctx i j s)) = foreign_targets (UserIDFromContext ctx) s"
    unfolding wp_def by (auto intro: same rem)
qed

text \<open>Tenant isolation of the load-balancer service: whatever a caller does, the load balancers of other
  tenants and the targets of these stay as they are.\<close>

theorem lb_service_isolation:
  assumes "distinct (map lb_ID (t_load_balancers s))"
    and "s' \<in> {snd (LBService_Create E ctx name v port algo key s), snd (LBService_Delete E ctx i s),
           snd (AddTarget E ctx i j port weight s), snd (RemoveTarget E ctx i j s)}"
  shows "filter (\<lambda>lb. lb_UserID lb \<noteq> UserIDFromContext ctx) (t_load_balancers s') = filter (\<lambda>lb. lb_UserID lb \<noteq> UserIDFromContext ctx) (t_load_balancers s) \<and>
    filter (\<lambda>t. \<exists>lb \<in> set (t_load_balancers s). lb_ID lb = tgt_LBID t \<and> lb_UserID lb \<noteq> UserIDFromContext ctx) (t_lb_targets s') =
    filter (\<lambda>t. \<exists>lb \<in> set (t_load_balancers s). lb_ID lb = tgt_LBID t \<and> lb_UserID lb \<noteq> UserIDFromContext ctx) (t_lb_targets s)"
proof -
  have lbs: "lbs (snd (AddTarget E ctx i j port weight s)) = lbs s" "lbs (snd (RemoveTarget E ctx i j s)) = lbs s"
    using confinedD [OF keeps_targets_lbs(1), of s E ctx i j port weight] confinedD [OF keeps_targets_lbs(2), of s E ctx i j] by (simp_all add: keeps_def)
  have tgts: "t_lb_targets (snd (LBService_Create E ctx name v port algo key s)) = t_lb_targets s" "t_lb_targets (snd (LBService_Delete E ctx i s)) = t_lb_targets s"
    using LBService_Create_paths [of E ctx name v port algo key s] LBService_Delete_paths [of E ctx i s] unfolding wp_def by blast+
  note iso = confinedD [OF lb_isolated(1) [of ctx E name v port algo key], of s] confinedD [OF lb_isolated(2) [of ctx E i], of s]
  from assms(2) show ?thesis
    using lbs tgts iso targets_isolated(1) [OF assms(1), of ctx E i j port weight, unfolded foreign_targets_def]
      targets_isolated(2) [OF assms(1), of ctx E i j, unfolded foreign_targets_def]
    unfolding keeps_def others_def by (elim insertE emptyE) simp_all
qed

section \<open>The worker without faults\<close>

definition activated :: "LoadBalancer \<Rightarrow> LoadBalancer" where
  "activated r = (if lb_Status r = LBStatusCreating then r\<lparr>lb_Status := LBStatusActive, lb_Version := lb_Version r + 1\<rparr> else r)"

lemma lb_written_self: "lb_written (r\<lparr>lb_Status := x\<rparr>) r = r\<lparr>lb_Status := x, lb_Version := lb_Version r + 1\<rparr>"
  by (simp add: lb_written_def)

lemma deployLB_nf:
  assumes "faults s = []" and "distinct (map lb_ID (lbs s))" and "lb \<in> set (lbs s)" and "lb_Status lb = LBStatusCreating"
  shows "\<exists>s'. deployLB lb s = (Ok (), s') \<and> faults s' = [] \<and> lbs s' = map (\<lambda>y. if y = lb then activated lb else y) (lbs s) \<and>
    BDeployProxy lb (filter (\<lambda>t. tgt_LBID t = lb_ID lb) (t_lb_targets s)) \<in> set (calls s') \<and> set (calls s) \<subseteq> set (calls s')"
proof -
  have m: "lb_match (lb\<lparr>lb_Status := x\<rparr>) = lb_match lb" for x by (simp add: fun_eq_iff lb_match_def)
  have u: "upd_where (lb_match lb) (lb_written (lb\<lparr>lb_Status := LBStatusActive\<rparr>)) (lbs s) = map (\<lambda>y. if y = lb then activated lb else y) (lbs s)"
    by (subst upd_where_key_set [OF assms(2,3)]) (simp_all add: lb_match_def lb_written_self activated_def assms(4))
  have "rows_affected (lb_match lb) (lbs s) \<noteq> 0" using assms(3) by (auto simp: rows_simps lb_match_def)
  then have "wp (deployLB lb) (\<lambda>r s'. r = Ok () \<and> faults s' = [] \<and> lbs s' = map (\<lambda>y. if y = lb then activated lb else y) (lbs s) \<and>
    BDeployProxy lb (filter (\<lambda>t. tgt_LBID t = lb_ID lb) (t_lb_targets s)) \<in> set (calls s') \<and> set (calls s) \<subseteq> set (calls s')) s"
    using assms(1) unfolding deployLB_def LBRepository_ListTargets_def LBRepository_Update_def m by (auto simp: wps wpnf u)
  then show ?thesis by (rule wp_returns)
qed

lemma activated_simps [simp]: "lb_ID (activated r) = lb_ID r" "lb_UserID (activated r) = lb_UserID r" "lb_Status (activated r) \<noteq> LBStatusCreating"
  "lb_Status (activated r) = LBStatusDeleted \<longleftrightarrow> lb_Status r = LBStatusDeleted"
  by (simp_all add: activated_def)

lemma deploy_all_nf:
  assumes "faults s = []" and "distinct (map lb_ID (lbs s))" and "set xs \<subseteq> set (lbs s)" and "distinct xs"
  shows "\<exists>s'. forC xs (\<lambda>lb. whenC (lb_Status lb = LBStatusCreating) (deployLB lb)) s = (Ok (), s') \<and> faults s' = [] \<and>
    lbs s' = map (\<lambda>y. if y \<in> set xs then activated y else y) (lbs s)"
  using assms
proof (induction xs arbitrary: s)
  case Nil
  then show ?case by (simp add: run)
next
  case (Cons x xs)
  obtain s1 where s1: "whenC (lb_Status x = LBStatusCreating) (deployLB x) s = (Ok (), s1)" "faults s1 = []"
      "lbs s1 = map (\<lambda>y. if y = x then activated x else y) (lbs s)"
  proof (cases "lb_Status x = LBStatusCreating")
    case True
    with deployLB_nf [OF Cons.prems(1,2) _ True] Cons.prems(3) that show ?thesis by (auto simp: run)
  next
    case False
    then have "map (\<lambda>y. if y = x then activated x else y) (lbs s) = lbs s" by (auto simp: activated_def map_idI)
    with False Cons.prems(1) that show ?thesis by (auto simp: run)
  qed
  have ids: "map lb_ID (lbs s1) = map lb_ID (lbs s)" unfolding s1(3) by simp
  have "set xs \<subseteq> set (lbs s1)" using Cons.prems(3,4) unfolding s1(3) by (auto simp: image_iff)
  then obtain s2 where s2: "forC xs (\<lambda>lb. whenC (lb_Status lb = LBStatusCreating) (deployLB lb)) s1 = (Ok (), s2)" "faults s2 = []"
      "lbs s2 = map (\<lambda>y. if y \<in> set xs then activated y else y) (lbs s1)"
    using Cons.IH [OF s1(2)] Cons.prems(2,4) ids by auto
  have "activated x \<notin> set xs" if "x \<in> set (lbs s)"
  proof
    assume "activated x \<in> set xs"
    then have "activated x \<in> set (lbs s)" using Cons.prems(3) by auto
    with that Cons.prems(2) have "activated x = x" by (auto dest: distinct_key_unique)
    with \<open>activated x \<in> set xs\<close> Cons.prems(4) show False by simp
  qed
  then have "lbs s2 = map (\<lambda>y. if y \<in> set (x # xs) then activated y else y) (lbs s)"
    unfolding s2(3) s1(3) by (auto simp: comp_def)
  with s1(1) s2 show ?case by (simp add: ok_bindC)
qed

lemma cleanup_all_nf:
  "faults s = [] \<Longrightarrow> distinct (map lb_ID (lbs s)) \<Longrightarrow> set xs \<subseteq> set (lbs s) \<Longrightarrow> distinct xs \<Longrightarrow>
    \<exists>s'. forC xs (\<lambda>lb. whenC (lb_Status lb = LBStatusDeleted) (cleanupLB (WithUserID ctx (lb_UserID lb)) lb)) s = (Ok (), s') \<and> faults s' = [] \<and>
    lbs s' = filter (\<lambda>y. \<not> (y \<in> set xs \<and> lb_Status y = LBStatusDeleted)) (lbs s)"
proof (induction xs arbitrary: s)
  case (Cons x xs)
  obtain s1 where s1: "whenC (lb_Status x = LBStatusDeleted) (cleanupLB (WithUserID ctx (lb_UserID x)) x) s = (Ok (), s1)" "faults s1 = []"
      "lbs s1 = filter (\<lambda>y. \<not> (y = x \<and> lb_Status y = LBStatusDeleted)) (lbs s)"
  proof (cases "lb_Status x = LBStatusDeleted")
    case True
    have "filter (\<lambda>y. \<not> (lb_ID y = lb_ID x \<and> lb_UserID y = lb_UserID x)) (lbs s) = filter (\<lambda>y. \<not> (y = x \<and> lb_Status y = LBStatusDeleted)) (lbs s)"
      using Cons.prems(2,3) True by (intro filter_cong refl) (auto dest: distinct_key_unique)
    moreover have "list_ex (\<lambda>y. lb_ID y = lb_ID x \<and> lb_UserID y = lb_UserID x) (lbs s)" using Cons.prems(3) by (auto simp: list_ex_iff)
    ultimately show ?thesis using True Cons.prems(1) that
      by (auto simp: cleanupLB_def LBRepository_Delete_def Let_def run delete_lb_row_def)
  next
    case False
    then have "filter (\<lambda>y. \<not> (y = x \<and> lb_Status y = LBStatusDeleted)) (lbs s) = lbs s" by (auto intro: filter_True)
    with False Cons.prems(1) that show ?thesis by (auto simp: run)
  qed
  have "set xs \<subseteq> set (lbs s1)" using Cons.prems(3,4) unfolding s1(3) by auto
  moreover have "distinct (map lb_ID (lbs s1))" unfolding s1(3) using Cons.prems(2) by (rule distinct_map_filterI)
  ultimately obtain s2 where "forC xs (\<lambda>lb. whenC (lb_Status lb = LBStatusDeleted) (cleanupLB (WithUserID ctx (lb_UserID lb)) lb)) s1 = (Ok (), s2)" "faults s2 = []"
      "lbs s2 = filter (\<lambda>y. \<not> (y \<in> set xs \<and> lb_Status y = LBStatusDeleted)) (lbs s1)"
    using Cons.IH [OF s1(2)] Cons.prems(4) by auto
  with s1 show ?case by (auto simp: ok_bindC intro!: filter_cong)
qed (simp add: run)

lemma quiet_refreshLB: "\<exists>s'. refreshLB lb s = (Ok (), s')"
  by (rule quiet_wp) (auto simp: refreshLB_def LBRepository_ListTargets_def backendC_def wps intro!: wp_queryC wp_extC)

lemma quiet_checkTarget: "\<exists>s'. checkTarget E ctx lb t s = (Ok (), s')"
  by (rule quiet_wp) (auto simp: checkTarget_def targetStatus_def InstanceRepository_GetByID_def LBRepository_UpdateTargetHealth_def backendC_def Let_def wps
    intro!: wp_queryRowC wp_extC wp_execC split: outcome.splits)

lemma quiet_checkLBHealth: "\<exists>s'. checkLBHealth E ctx lb s = (Ok (), s')"
proof -
  have "\<exists>s'. forC ts (checkTarget E ctx lb) s = (Ok (), s')" for ts s by (rule quiet_forC) (rule quiet_checkTarget)
  then have "wp (forC ts (checkTarget E ctx lb)) Q s" if "\<And>s. Q (Ok ()) s" for ts Q s using that unfolding wp_def by (metis fst_conv snd_conv)
  then show ?thesis
    by (intro quiet_wp) (auto simp: checkLBHealth_def LBRepository_ListTargets_def wps intro!: wp_queryC)
qed

lemma quiet_scan:
  assumes "\<And>lb s. \<exists>s'. f lb s = (Ok (), s')"
  shows "\<exists>s'. ignoreC (bindC LBRepository_ListAll (\<lambda>lbs. forC lbs (\<lambda>lb. whenC (P lb) (f lb)))) s = (Ok (), s')"
proof -
  have "\<exists>s'. forC xs (\<lambda>lb. whenC (P lb) (f lb)) s = (Ok (), s')" for xs s
    by (rule quiet_forC) (use assms in \<open>auto simp: run\<close>)
  then have "wp (forC xs (\<lambda>lb. whenC (P lb) (f lb))) Q s" if "\<And>s. Q (Ok ()) s" for xs Q s using that unfolding wp_def by (metis fst_conv snd_conv)
  then show ?thesis by (intro quiet_wp) (auto simp: LBRepository_ListAll_def wps intro!: wp_queryC)
qed

lemma keeps_scan:
  "(\<And>lb. confined (keeps t_load_balancers) (f lb)) \<Longrightarrow>
   confined (keeps t_load_balancers) (ignoreC (bindC LBRepository_ListAll (\<lambda>lbs. forC lbs (\<lambda>lb. whenC (P lb) (f lb)))))"
  unfolding LBRepository_ListAll_def by (intro keeps_intros) simp_all

text \<open>C16. The worker settles: a tick without faults activates every load balancer that was being created, removes
  every load balancer that was deleted, and changes no other row.\<close>

theorem LBWorker_settles:
  assumes "faults s = []" and "distinct (map lb_ID (t_load_balancers s))"
  shows "\<exists>s'. LBWorker_tick E ctx s = (Ok (), s') \<and>
    t_load_balancers s' = map (\<lambda>r. if lb_Status r = LBStatusCreating then r\<lparr>lb_Status := LBStatusActive, lb_Version := lb_Version r + 1\<rparr> else r)
      (filter (\<lambda>r. lb_Status r \<noteq> LBStatusDeleted) (t_load_balancers s))"
proof -
  have all: "LBRepository_ListAll t = (Ok (sort_key (\<lambda>x. - lb_CreatedAt x) (lbs t)), t)" if "faults t = []" for t
    using that by (simp add: LBRepository_ListAll_def run)
  have dist: "distinct (sort_key (\<lambda>x. - lb_CreatedAt x) (lbs s))" using assms(2) by (auto simp: distinct_map)
  obtain s1 where s1: "processCreatingLBs ctx s = (Ok (), s1)" "faults s1 = []" "lbs s1 = map activated (lbs s)"
    using deploy_all_nf [OF assms, of "sort_key (\<lambda>x. - lb_CreatedAt x) (lbs s)"] dist all [OF assms(1)]
    by (auto simp: processCreatingLBs_def run)
  have d1: "distinct (map lb_ID (lbs s1))" using assms(2) by (simp add: s1(3) comp_def)
  obtain s2 where s2: "processDeletingLBs ctx s1 = (Ok (), s2)" "lbs s2 = filter (\<lambda>r. lb_Status r \<noteq> LBStatusDeleted) (lbs s1)"
  proof -
    have "filter (\<lambda>y. \<not> (y \<in> set (sort_key (\<lambda>x. - lb_CreatedAt x) (lbs s1)) \<and> lb_Status y = LBStatusDeleted)) (lbs s1) =
        filter (\<lambda>r. lb_Status r \<noteq> LBStatusDeleted) (lbs s1)" by (intro filter_cong) auto
    moreover have "distinct (sort_key (\<lambda>x. - lb_CreatedAt x) (lbs s1))" using d1 by (auto simp: distinct_map)
    ultimately show thesis
      using that cleanup_all_nf [OF s1(2) d1, of "sort_key (\<lambda>x. - lb_CreatedAt x) (lbs s1)" ctx] all [OF s1(2)]
      by (auto simp: processDeletingLBs_def run)
  qed
  obtain s3 where s3: "processActiveLBs ctx s2 = (Ok (), s3)"
    using quiet_scan [where f = refreshLB and P = "\<lambda>lb. lb_Status lb = LBStatusActive", OF quiet_refreshLB] unfolding processActiveLBs_def by blast
  obtain s4 where s4: "processHealthChecks E ctx s3 = (Ok (), s4)"
    using quiet_scan [where f = "\<lambda>lb. checkLBHealth E (WithUserID ctx (lb_UserID lb)) lb" and P = "\<lambda>lb. lb_Status lb = LBStatusActive", OF quiet_checkLBHealth] unfolding processHealthChecks_def by blast
  have "lbs s3 = lbs s2"
    using confinedD [OF keeps_scan [where f = refreshLB and P = "\<lambda>lb. lb_Status lb = LBStatusActive", OF keeps_worker_lbs(1)], of s2] s3 unfolding processActiveLBs_def keeps_def by (metis snd_conv)
  moreover have "lbs s4 = lbs s3"
    using confinedD [OF keeps_scan [where f = "\<lambda>lb. checkLBHealth E (WithUserID ctx (lb_UserID lb)) lb" and P = "\<lambda>lb. lb_Status lb = LBStatusActive", OF keeps_worker_lbs(2)], of s3] s4
    unfolding processHealthChecks_def keeps_def by (metis snd_conv)
  moreover have "lbs s2 = map activated (filter (\<lambda>r. lb_Status r \<noteq> LBStatusDeleted) (lbs s))"
    unfolding s2(2) s1(3) by (simp add: filter_map comp_def)
  ultimately show ?thesis using s1(1) s2(1) s3 s4 by (simp add: LBWorker_tick_def run activated_def)
qed

section \<open>Witnesses\<close>

lemma sample_lb_simps [simp]: "lb_ID sample_lb = 30" "lb_UserID sample_lb = 1" "lb_IdempotencyKey sample_lb = ''k1''" "lb_VpcID sample_lb = 20"
  "lb_Status sample_lb = LBStatusActive" "lb_Version sample_lb = 1" "lb_CreatedAt sample_lb = 0"
  by (simp_all add: sample_lb_def)

abbreviation sample_net :: world where
  "sample_net \<equiv> sample_world\<lparr>t_vpcs := [sample_vpc]\<rparr>"

lemma sample_create:
  "\<exists>lb s1. LBService_Create sample_env (Some 1) ''lb'' 20 80 [] ''k'' sample_net = (Ok lb, s1) \<and> lb_ID lb = 100 \<and> lb_UserID lb = 1 \<and>
     lb_Status lb = LBStatusCreating \<and> lb_IdempotencyKey lb = ''k'' \<and> lbs s1 = [lb] \<and> faults s1 = [] \<and> uuid_ctr s1 = 2 \<and> t_users s1 = t_users sample_net \<and> length (t_audit_logs s1) = 1 \<and> al_ID (hd (t_audit_logs s1)) = 101"
proof -
  have "wp (LBService_Create sample_env (Some 1) ''lb'' 20 80 [] ''k'') (\<lambda>r s1. \<exists>lb. r = Ok lb \<and> lb_ID lb = 100 \<and> lb_UserID lb = 1 \<and>
     lb_Status lb = LBStatusCreating \<and> lb_IdempotencyKey lb = ''k'' \<and> lbs s1 = [lb] \<and> faults s1 = [] \<and> uuid_ctr s1 = 2 \<and> t_users s1 = t_users sample_net \<and> length (t_audit_logs s1) = 1 \<and> al_ID (hd (t_audit_logs s1)) = 101) sample_net"
    by (simp add: LBService_Create_def newLoadBalancer_def VpcRepository_GetByID_def LBRepository_Create_def LBRepository_GetByIdempotencyKey_def fk_vpc_def
       Log_def AuditRepository_Create_def Let_def wps wpnf has_user_def)
  then show ?thesis unfolding wp_def by (metis prod.collapse)
qed

lemma inj_sample: "N \<le> 10 \<Longrightarrow> inj_on (uuid_at sample_env) {..<N}"
  by (rule inj_onI) (simp add: word_of_nat_eq_iff take_bit_nat_eq_self)

theorem lb_active_deployed_witness:
  "\<exists>s. lb_reach sample_env (s, []) \<and> distinct (map lb_ID (t_load_balancers s)) \<and> t_load_balancers s \<noteq> []"
proof -
  obtain lb s1 where c: "LBService_Create sample_env (Some 1) ''lb'' 20 80 [] ''k'' sample_net = (Ok lb, s1)" "lbs s1 = [lb]" "uuid_ctr s1 = 2"
    using sample_create by blast
  have "lb_reach sample_env (s1, [])"
    using lb_reach.step [OF lb_reach.init lb_step.create, of sample_net sample_env "Some 1" "''lb''" 20 80 "[]" "''k''"] c(1) by simp
  moreover from lb_active_deployed [OF inj_sample this] c(3) have "distinct (map lb_ID (t_load_balancers s1))" by simp
  ultimately show ?thesis using c(2) by auto
qed

theorem lb_lifecycle_witness:
  "\<exists>s s' r r'. lb_reach sample_env (s, []) \<and> lb_step sample_env (s, []) (s', []) \<and> r \<in> set (t_load_balancers s) \<and> r' \<in> set (t_load_balancers s') \<and>
     lb_ID r' = lb_ID r \<and> lb_next (lb_Status r) (lb_Status r') \<and> lb_Status r' = LBStatusDeleted"
proof -
  obtain lb s1 where c: "LBService_Create sample_env (Some 1) ''lb'' 20 80 [] ''k'' sample_net = (Ok lb, s1)" "lb_ID lb = 100" "lb_UserID lb = 1"
     "lbs s1 = [lb]" "faults s1 = []" "uuid_ctr s1 = 2"
    using sample_create by blast
  have "wp (LBService_Delete sample_env (Some 1) 100) (\<lambda>r s2. uuid_ctr s2 = 3 \<and> (\<exists>x. lbs s2 = [x] \<and> lb_ID x = 100 \<and> lb_Status x = LBStatusDeleted)) s1"
    using c by (simp add: LBService_Delete_def LBRepository_GetByID_def LBRepository_Update_def lb_match_def Log_def AuditRepository_Create_def Let_def wps wpnf split: option.split)
  then obtain x where d: "uuid_ctr (snd (LBService_Delete sample_env (Some 1) 100 s1)) = 3" "lbs (snd (LBService_Delete sample_env (Some 1) 100 s1)) = [x]"
      "lb_ID x = 100" "lb_Status x = LBStatusDeleted" by (auto simp: wp_def)
  have r: "lb_reach sample_env (s1, [])"
    using lb_reach.step [OF lb_reach.init lb_step.create, of sample_net sample_env "Some 1" "''lb''" 20 80 "[]" "''k''"] c(1) by simp
  have st: "lb_step sample_env (s1, []) (snd (LBService_Delete sample_env (Some 1) 100 s1), [])" by (rule lb_step.delete)
  from lb_lifecycle [OF inj_sample r st, of lb x] c d have "lb_next (lb_Status lb) (lb_Status x)" by simp
  with r st c d show ?thesis by (metis list.set_intros(1))
qed

theorem LBService_Create_idempotent_witness:
  "\<exists>lb s1. LBService_Create sample_env (Some 1) ''lb'' 20 80 [] ''k'' sample_net = (Ok lb, s1) \<and>
     LBService_Create sample_env (Some 1) ''other'' 21 90 [] ''k'' s1 = (Ok lb, s1)"
proof -
  obtain lb s1 where c: "LBService_Create sample_env (Some 1) ''lb'' 20 80 [] ''k'' sample_net = (Ok lb, s1)" "faults s1 = []" using sample_create by blast
  with LBService_Create_idempotent [OF c(1) _ c(2)] show ?thesis by blast
qed

theorem LBService_Create_second_without_key_witness:
  "\<nexists>lb. fst (LBService_Create sample_env (Some 2) ''lb2'' 20 80 [] [] (sample_net\<lparr>t_load_balancers := [sample_lb\<lparr>lb_IdempotencyKey := []\<rparr>]\<rparr>)) = Ok lb"
  using LBService_Create_second_without_key [of "sample_net\<lparr>t_load_balancers := [sample_lb\<lparr>lb_IdempotencyKey := []\<rparr>]\<rparr>" sample_env "Some 2" "''lb2''" 20 80 "[]"]
  by (auto split: prod.splits)

abbreviation sample_balanced :: world where
  "sample_balanced \<equiv> sample_net\<lparr>t_load_balancers := [sample_lb], t_instances := [sample_instance\<lparr>inst_VpcID := Some 20\<rparr>]\<rparr>"

theorem AddTarget_ok_witness:
  "\<exists>s' t. AddTarget sample_env (Some 1) 30 40 80 0 sample_balanced = (Ok (), s') \<and> t_lb_targets s' = [t] \<and> tgt_Weight t \<noteq> 0"
proof -
  have "wp (AddTarget sample_env (Some 1) 30 40 80 0) (\<lambda>r s'. r = Ok ()) sample_balanced"
    by (auto simp: AddTarget_def LBRepository_GetByID_def InstanceRepository_GetByID_def LBRepository_AddTarget_def has_instance_def Let_def wps wpnf
        simp del: wp_ignoreC intro!: wp_ignore_Log_nf)
  then obtain s' where r: "AddTarget sample_env (Some 1) 30 40 80 0 sample_balanced = (Ok (), s')" unfolding wp_def by (metis prod.collapse)
  with AddTarget_ok [OF r] show ?thesis by auto
qed

theorem lb_service_isolation_witness:
  "filter (\<lambda>lb. lb_UserID lb \<noteq> 2) (t_load_balancers (snd (LBService_Delete sample_env (Some 2) 30 sample_balanced))) = [sample_lb]"
  using lb_service_isolation [of sample_balanced "snd (LBService_Delete sample_env (Some 2) 30 sample_balanced)" sample_env "Some 2" "[]" 0 0 "[]" "[]" 30 0 0] by simp

theorem LBWorker_settles_witness:
  "\<exists>s'. LBWorker_tick sample_env None (sample_balanced\<lparr>t_load_balancers := [sample_lb\<lparr>lb_Status := LBStatusCreating\<rparr>]\<rparr>) = (Ok (), s') \<and>
     map lb_Status (t_load_balancers s') = [LBStatusActive]"
  using LBWorker_settles [of "sample_balanced\<lparr>t_load_balancers := [sample_lb\<lparr>lb_Status := LBStatusCreating\<rparr>]\<rparr>" sample_env None] by auto

end
