(* ===== verification/AutoScaling.thy ===== *)
theory AutoScaling
  imports LoadBalancers
begin

text \<open>
  Auto-scaling groups: the repository \<^verbatim>\<open>autoscaling_repo.go\<close> with the constraints of its tables and the
  service \<^verbatim>\<open>autoscaling.go\<close>, which validates and stores groups and policies. The worker that acts on them is
  in the theory \<open>AutoScalingWorker\<close>.
\<close>

section \<open>The repository\<close>

text \<open>The \<^verbatim>\<open>CHECK\<close> constraints of \<^verbatim>\<open>scaling_groups\<close>.\<close>

definition group_checks :: "ScalingGroup \<Rightarrow> (bool \<times> string) list" where
  "group_checks g =
     [(asg_MinInstances g < 0, ''scaling_groups_min_instances_check''),
      (asg_MaxInstances g > 20, ''scaling_groups_max_instances_check''),
      (asg_MinInstances g > asg_MaxInstances g, ''scaling_groups_check''),
      (asg_DesiredCount g < asg_MinInstances g \<or> asg_DesiredCount g > asg_MaxInstances g, ''scaling_groups_check1'')]"

definition fk_lb :: "world \<Rightarrow> uuid option \<Rightarrow> bool" where
  "fk_lb s l = (case l of None \<Rightarrow> True | Some i \<Rightarrow> list_ex (\<lambda>x. lb_ID x = i) (t_load_balancers s))"

text \<open>An empty idempotency key is stored as NULL, which the unique index ignores.\<close>

definition AutoScalingRepo_CreateGroup :: "ScalingGroup \<Rightarrow> unit op" where
  "AutoScalingRepo_CreateGroup g =
     insertC (\<lambda>s. group_checks g @
        [(asg_ID g \<in> asg_ID ` set (t_scaling_groups s), ''scaling_groups_pkey''),
         (asg_IdempotencyKey g \<noteq> [] \<and> asg_IdempotencyKey g \<in> asg_IdempotencyKey ` set (t_scaling_groups s), ''scaling_groups_idempotency_key_key''),
         (asg_Name g \<in> asg_Name ` set (t_scaling_groups s), ''scaling_groups_name_key''),
         (\<not> fk_vpc s (Some (asg_VpcID g)), ''scaling_groups_vpc_id_fkey''),
         (\<not> fk_lb s (asg_LoadBalancerID g), ''scaling_groups_load_balancer_id_fkey''),
         (\<not> has_user s (asg_UserID g), ''scaling_groups_user_id_fkey'')])
       (\<lambda>s. s\<lparr>t_scaling_groups := t_scaling_groups s @ [g\<lparr>asg_FailureCount := 0, asg_LastFailureAt := None\<rparr>]\<rparr>)"

text \<open>The columns \<^verbatim>\<open>failure_count\<close> and \<^verbatim>\<open>last_failure_at\<close> are not selected: the fields keep their zero values.\<close>

definition scanGroup :: "ScalingGroup \<Rightarrow> ScalingGroup" where
  "scanGroup r = r\<lparr>asg_FailureCount := 0, asg_LastFailureAt := None\<rparr>"

definition group_err :: "error \<Rightarrow> error" where
  "group_err e = (if e = ErrNoRows then New NotFound ''scaling group not found'' else e)"

definition AutoScalingRepo_GetGroupByID :: "ctx \<Rightarrow> uuid \<Rightarrow> ScalingGroup op" where
  "AutoScalingRepo_GetGroupByID ctx i =
     mapErrC group_err (queryRowC (\<lambda>s. map_option scanGroup
       (find (\<lambda>g. asg_ID g = i \<and> asg_UserID g = UserIDFromContext ctx) (t_scaling_groups s))))"

definition AutoScalingRepo_GetGroupByIdempotencyKey :: "ctx \<Rightarrow> string \<Rightarrow> ScalingGroup op" where
  "AutoScalingRepo_GetGroupByIdempotencyKey ctx key =
     mapErrC group_err (queryRowC (\<lambda>s. map_option scanGroup
       (find (\<lambda>g. asg_IdempotencyKey g \<noteq> [] \<and> asg_IdempotencyKey g = key \<and> asg_UserID g = UserIDFromContext ctx) (t_scaling_groups s))))"

definition AutoScalingRepo_ListGroups :: "ctx \<Rightarrow> ScalingGroup list op" where
  "AutoScalingRepo_ListGroups ctx =
     queryC (\<lambda>s. map scanGroup (filter (\<lambda>g. asg_UserID g = UserIDFromContext ctx) (t_scaling_groups s)))"

definition AutoScalingRepo_ListAllGroups :: "ScalingGroup list op" where
  "AutoScalingRepo_ListAllGroups = queryC (\<lambda>s. map scanGroup (t_scaling_groups s))"

definition AutoScalingRepo_CountGroupsByVPC :: "ctx \<Rightarrow> uuid \<Rightarrow> int op" where
  "AutoScalingRepo_CountGroupsByVPC ctx vpcID =
     queryC (\<lambda>s. int (length (filter (\<lambda>g. asg_VpcID g = vpcID \<and> asg_UserID g = UserIDFromContext ctx) (t_scaling_groups s))))"

definition asg_match :: "ScalingGroup \<Rightarrow> ScalingGroup \<Rightarrow> bool" where
  "asg_match g r \<longleftrightarrow> asg_ID r = asg_ID g \<and> asg_Version r = asg_Version g \<and> asg_UserID r = asg_UserID g"

definition asg_written :: "ScalingGroup \<Rightarrow> ScalingGroup \<Rightarrow> ScalingGroup" where
  "asg_written g r = r\<lparr>asg_Name := asg_Name g, asg_MinInstances := asg_MinInstances g, asg_MaxInstances := asg_MaxInstances g,
     asg_DesiredCount := asg_DesiredCount g, asg_Status := asg_Status g, asg_UpdatedAt := asg_UpdatedAt g, asg_Version := asg_Version r + 1\<rparr>"

definition AutoScalingRepo_UpdateGroup :: "ScalingGroup \<Rightarrow> ScalingGroup op" where
  "AutoScalingRepo_UpdateGroup g =
     bindC (execC (\<lambda>s. if list_ex (asg_match g) (t_scaling_groups s)
                       then group_checks g @ [(list_ex (\<lambda>r. asg_Name r = asg_Name g \<and> \<not> asg_match g r) (t_scaling_groups s), ''scaling_groups_name_key'')]
                       else [])
             (\<lambda>s. rows_affected (asg_match g) (t_scaling_groups s))
             (\<lambda>s. s\<lparr>t_scaling_groups := upd_where (asg_match g) (asg_written g) (t_scaling_groups s)\<rparr>))
     (\<lambda>n. bindC (guardC (n = 0) (New Conflict ''scaling group update conflict or not found'')) (\<lambda>_.
     returnC (g\<lparr>asg_Version := asg_Version g + 1\<rparr>)))"

text \<open>Policies and memberships of a deleted group go with it (\<^verbatim>\<open>ON DELETE CASCADE\<close>).\<close>

definition delete_group_row :: "(ScalingGroup \<Rightarrow> bool) \<Rightarrow> uuid \<Rightarrow> world \<Rightarrow> world" where
  "delete_group_row P i s =
     (if list_ex P (t_scaling_groups s) then
        s\<lparr>t_scaling_groups := filter (\<lambda>g. \<not> P g) (t_scaling_groups s),
          t_scaling_policies := filter (\<lambda>p. pol_ScalingGroupID p \<noteq> i) (t_scaling_policies s),
          t_scaling_group_instances := filter (\<lambda>x. sgi_ScalingGroupID x \<noteq> i) (t_scaling_group_instances s)\<rparr>
      else s)"

definition AutoScalingRepo_DeleteGroup :: "ctx \<Rightarrow> uuid \<Rightarrow> unit op" where
  "AutoScalingRepo_DeleteGroup ctx i =
     (let P = (\<lambda>g. asg_ID g = i \<and> asg_UserID g = UserIDFromContext ctx) in
      bindC (execC noConstraint (\<lambda>s. rows_affected P (t_scaling_groups s)) (delete_group_row P i))
        (\<lambda>n. guardC (n = 0) (New NotFound ''scaling group not found'')))"

text \<open>The cast to \<^verbatim>\<open>DECIMAL(5,2)\<close>: two decimal places, half away from zero, below 1000 in absolute value.\<close>

definition decimal_5_2 :: "rat \<Rightarrow> rat" where
  "decimal_5_2 x = (if x < 0 then - of_int \<lfloor>- x * 100 + 1 / 2\<rfloor> / 100 else of_int \<lfloor>x * 100 + 1 / 2\<rfloor> / 100)"

definition AutoScalingRepo_CreatePolicy :: "ScalingPolicy \<Rightarrow> unit op" where
  "AutoScalingRepo_CreatePolicy p =
     (let t = decimal_5_2 (pol_TargetValue p) in
      insertC (\<lambda>s. [(t \<le> -1000 \<or> t \<ge> 1000, ''numeric field overflow''),
                    (pol_MetricType p \<noteq> ''cpu'' \<and> pol_MetricType p \<noteq> ''memory'', ''scaling_policies_metric_type_check''),
                    (t \<le> 0 \<or> t > 100, ''scaling_policies_target_value_check''),
                    (pol_ScaleOutStep p \<le> 0, ''scaling_policies_scale_out_step_check''),
                    (pol_ScaleInStep p \<le> 0, ''scaling_policies_scale_in_step_check''),
                    (pol_CooldownSec p < 60, ''scaling_policies_cooldown_sec_check''),
                    (pol_ID p \<in> pol_ID ` set (t_scaling_policies s), ''scaling_policies_pkey''),
                    (list_ex (\<lambda>q. pol_ScalingGroupID q = pol_ScalingGroupID p \<and> pol_Name q = pol_Name p) (t_scaling_policies s), ''scaling_policies_scaling_group_id_name_key''),
                    (\<not> list_ex (\<lambda>g. asg_ID g = pol_ScalingGroupID p) (t_scaling_groups s), ''scaling_policies_scaling_group_id_fkey'')])
              (\<lambda>s. s\<lparr>t_scaling_policies := t_scaling_policies s @ [p\<lparr>pol_TargetValue := t\<rparr>]\<rparr>))"

definition AutoScalingRepo_GetPoliciesForGroup :: "uuid \<Rightarrow> ScalingPolicy list op" where
  "AutoScalingRepo_GetPoliciesForGroup groupID =
     queryC (\<lambda>s. filter (\<lambda>p. pol_ScalingGroupID p = groupID) (t_scaling_policies s))"

text \<open>The batch queries return a map from group identifiers; an absent key reads as nil, the empty slice.\<close>

definition AutoScalingRepo_GetAllPolicies :: "uuid list \<Rightarrow> (uuid \<Rightarrow> ScalingPolicy list) op" where
  "AutoScalingRepo_GetAllPolicies groupIDs =
     (if groupIDs = [] then returnC (\<lambda>_. [])
      else queryC (\<lambda>s i. if i \<in> set groupIDs then filter (\<lambda>p. pol_ScalingGroupID p = i) (t_scaling_policies s) else []))"

definition AutoScalingRepo_UpdatePolicyLastScaled :: "uuid \<Rightarrow> time \<Rightarrow> unit op" where
  "AutoScalingRepo_UpdatePolicyLastScaled policyID t =
     bindC (execC noConstraint (\<lambda>s. rows_affected (\<lambda>p. pol_ID p = policyID) (t_scaling_policies s))
              (\<lambda>s. s\<lparr>t_scaling_policies := upd_where (\<lambda>p. pol_ID p = policyID) (\<lambda>p. p\<lparr>pol_LastScaledAt := Some t\<rparr>) (t_scaling_policies s)\<rparr>))
       (\<lambda>_. returnC ())"

definition AutoScalingRepo_DeletePolicy :: "uuid \<Rightarrow> unit op" where
  "AutoScalingRepo_DeletePolicy i =
     bindC (execC noConstraint (\<lambda>s. rows_affected (\<lambda>p. pol_ID p = i) (t_scaling_policies s))
              (\<lambda>s. s\<lparr>t_scaling_policies := filter (\<lambda>p. pol_ID p \<noteq> i) (t_scaling_policies s)\<rparr>))
       (\<lambda>_. returnC ())"

definition AutoScalingRepo_AddInstanceToGroup :: "uuid \<Rightarrow> uuid \<Rightarrow> unit op" where
  "AutoScalingRepo_AddInstanceToGroup groupID instanceID =
     insertC (\<lambda>s. [(list_ex (\<lambda>x. sgi_ScalingGroupID x = groupID \<and> sgi_InstanceID x = instanceID) (t_scaling_group_instances s), ''scaling_group_instances_pkey''),
                   (\<not> list_ex (\<lambda>g. asg_ID g = groupID) (t_scaling_groups s), ''scaling_group_instances_scaling_group_id_fkey''),
                   (\<not> has_instance s instanceID, ''scaling_group_instances_instance_id_fkey'')])
             (\<lambda>s. s\<lparr>t_scaling_group_instances := t_scaling_group_instances s @

                [\<lparr>sgi_ScalingGroupID = groupID, sgi_InstanceID = instanceID, sgi_JoinedAt = clock s\<rparr>]\<rparr>)"

definition AutoScalingRepo_RemoveInstanceFromGroup :: "uuid \<Rightarrow> uuid \<Rightarrow> unit op" where
  "AutoScalingRepo_RemoveInstanceFromGroup groupID instanceID =
     (let P = (\<lambda>x. sgi_ScalingGroupID x = groupID \<and> sgi_InstanceID x = instanceID) in
      bindC (execC noConstraint (\<lambda>s. rows_affected P (t_scaling_group_instances s))
               (\<lambda>s. s\<lparr>t_scaling_group_instances := filter (\<lambda>x. \<not> P x) (t_scaling_group_instances s)\<rparr>))
        (\<lambda>_. returnC ()))"

definition AutoScalingRepo_GetInstancesInGroup :: "uuid \<Rightarrow> uuid list op" where
  "AutoScalingRepo_GetInstancesInGroup groupID =
     queryC (\<lambda>s. map sgi_InstanceID (filter (\<lambda>x. sgi_ScalingGroupID x = groupID) (t_scaling_group_instances s)))"

definition AutoScalingRepo_GetAllScalingGroupInstances :: "uuid list \<Rightarrow> (uuid \<Rightarrow> uuid list) op" where
  "AutoScalingRepo_GetAllScalingGroupInstances groupIDs =
     (if groupIDs = [] then returnC (\<lambda>_. [])
      else queryC (\<lambda>s i. if i \<in> set groupIDs
             then map sgi_InstanceID (filter (\<lambda>x. sgi_ScalingGroupID x = i) (t_scaling_group_instances s)) else []))"

definition average :: "rat list \<Rightarrow> rat" where
  "average xs = (if xs = [] then 0 else sum_list xs / of_nat (length xs))"

definition AutoScalingRepo_GetAverageCPU :: "uuid list \<Rightarrow> time \<Rightarrow> rat op" where
  "AutoScalingRepo_GetAverageCPU instanceIDs since =
     (if instanceIDs = [] then returnC 0
      else queryC (\<lambda>s. average (map mp_cpu_percent
        (filter (\<lambda>m. mp_InstanceID m \<in> set instanceIDs \<and> mp_recorded_at m \<ge> since) (t_metrics_history s)))))"

section \<open>The service\<close>

record CreateScalingGroupParams =
  par_Name :: string
  par_VpcID :: uuid
  par_Image :: string
  par_Ports :: string
  par_MinInstances :: int
  par_MaxInstances :: int
  par_DesiredCount :: int
  par_LoadBalancerID :: "uuid option"
  par_IdempotencyKey :: string

record CreateScalingPolicyParams =
  pp_GroupID :: uuid
  pp_Name :: string
  pp_MetricType :: string
  pp_TargetValue :: rat
  pp_ScaleOut :: int
  pp_ScaleIn :: int
  pp_CooldownSec :: int

definition newGroup :: "env \<Rightarrow> ctx \<Rightarrow> CreateScalingGroupParams \<Rightarrow> ScalingGroup op" where
  "newGroup E ctx params =
     bindC (guardC (par_MaxInstances params > MaxInstancesHardLimit)
              (New InvalidInput (''max_instances cannot exceed '' @ int_string MaxInstancesHardLimit))) (\<lambda>_.
     bindC (guardC (par_MinInstances params < 0) (New InvalidInput ''min_instances cannot be negative'')) (\<lambda>_.
     bindC (guardC (par_MinInstances params > par_MaxInstances params)
              (New InvalidInput ''min_instances cannot be greater than max_instances'')) (\<lambda>_.
     bindC (guardC (par_DesiredCount params < par_MinInstances params \<or> par_DesiredCount params > par_MaxInstances params)
              (New InvalidInput ''desired_count must be between min and max instances'')) (\<lambda>_.
     bindC (VpcRepository_GetByID E ctx (par_VpcID params)) (\<lambda>_.
     bindC (AutoScalingRepo_CountGroupsByVPC ctx (par_VpcID params)) (\<lambda>count.
     bindC (guardC (count \<ge> MaxScalingGroupsPerVPC)
              (New ResourceLimitExceeded (''VPC already has '' @ int_string count @ '' scaling groups (max: '' @ int_string MaxScalingGroupsPerVPC @ '')''))) (\<lambda>_.
     bindC (newUUID E) (\<lambda>i.
     bindC nowC (\<lambda>now.
     let group = \<lparr>asg_ID = i, asg_UserID = UserIDFromContext ctx, asg_IdempotencyKey = par_IdempotencyKey params, asg_Name = par_Name params,
                  asg_VpcID = par_VpcID params, asg_LoadBalancerID = par_LoadBalancerID params, asg_Image = par_Image params,
                  asg_Ports = par_Ports params, asg_MinInstances = par_MinInstances params, asg_MaxInstances = par_MaxInstances params,
                  asg_DesiredCount = par_DesiredCount params, asg_CurrentCount = 0, asg_Status = ScalingGroupStatusActive,
                  asg_FailureCount = 0, asg_LastFailureAt = None, asg_Version = 1, asg_CreatedAt = now, asg_UpdatedAt = now\<rparr> in
     bindC (AutoScalingRepo_CreateGroup group) (\<lambda>_.
     bindC (ignoreC (Log E ctx (asg_UserID group) ''asg.group_create'' ''scaling_group'' (uuid_string E i) [(''name'', GStr (asg_Name group))])) (\<lambda>_.
     returnC group)))))))))))"

definition CreateGroup :: "env \<Rightarrow> ctx \<Rightarrow> CreateScalingGroupParams \<Rightarrow> ScalingGroup op" where
  "CreateGroup E ctx params =
     (if par_IdempotencyKey params \<noteq> [] then
        bindC (tryC (AutoScalingRepo_GetGroupByIdempotencyKey ctx (par_IdempotencyKey params))) (\<lambda>r.
        case r of
          Inr existing \<Rightarrow> returnC existing
        | Inl _ \<Rightarrow> newGroup E ctx params)
      else newGroup E ctx params)"

definition GetGroup :: "ctx \<Rightarrow> uuid \<Rightarrow> ScalingGroup op" where
  "GetGroup ctx i = AutoScalingRepo_GetGroupByID ctx i"

definition ListGroups :: "ctx \<Rightarrow> ScalingGroup list op" where
  "ListGroups ctx = AutoScalingRepo_ListGroups ctx"

definition DeleteGroup :: "env \<Rightarrow> ctx \<Rightarrow> uuid \<Rightarrow> unit op" where
  "DeleteGroup E ctx i =
     bindC (AutoScalingRepo_GetGroupByID ctx i) (\<lambda>group.
     bindC (AutoScalingRepo_UpdateGroup (group\<lparr>asg_Status := ScalingGroupStatusDeleting, asg_MinInstances := 0, asg_DesiredCount := 0\<rparr>)) (\<lambda>group.
     ignoreC (Log E ctx (asg_UserID group) ''asg.group_delete'' ''scaling_group'' (uuid_string E (asg_ID group)) [(''name'', GStr (asg_Name group))])))"

definition SetDesiredCapacity :: "ctx \<Rightarrow> uuid \<Rightarrow> int \<Rightarrow> unit op" where
  "SetDesiredCapacity ctx groupID desired =
     bindC (AutoScalingRepo_GetGroupByID ctx groupID) (\<lambda>group.
     bindC (guardC (desired < asg_MinInstances group \<or> desired > asg_MaxInstances group)
              (New InvalidInput (''desired must be between '' @ int_string (asg_MinInstances group) @ '' and '' @ int_string (asg_MaxInstances group)))) (\<lambda>_.
     bindC (AutoScalingRepo_UpdateGroup (group\<lparr>asg_DesiredCount := desired\<rparr>)) (\<lambda>_. returnC ())))"

definition CreatePolicy :: "env \<Rightarrow> ctx \<Rightarrow> CreateScalingPolicyParams \<Rightarrow> ScalingPolicy op" where
  "CreatePolicy E ctx params =
     bindC (AutoScalingRepo_GetGroupByID ctx (pp_GroupID params)) (\<lambda>_.
     bindC (guardC (pp_CooldownSec params < MinCooldownSeconds)
              (New InvalidInput (''cooldown must be at least '' @ int_string MinCooldownSeconds @ '' seconds''))) (\<lambda>_.
     bindC (newUUID E) (\<lambda>i.
     let policy = \<lparr>pol_ID = i, pol_ScalingGroupID = pp_GroupID params, pol_Name = pp_Name params, pol_MetricType = pp_MetricType params,
                   pol_TargetValue = pp_TargetValue params, pol_ScaleOutStep = pp_ScaleOut params, pol_ScaleInStep = pp_ScaleIn params,
                   pol_CooldownSec = pp_CooldownSec params, pol_LastScaledAt = None\<rparr> in
     bindC (AutoScalingRepo_CreatePolicy policy) (\<lambda>_.
     returnC policy))))"

definition DeletePolicy :: "ctx \<Rightarrow> uuid \<Rightarrow> unit op" where
  "DeletePolicy ctx i = AutoScalingRepo_DeletePolicy i"

section \<open>Facts\<close>

lemma scanGroup_simps [simp]:
  "asg_ID (scanGroup r) = asg_ID r" "asg_UserID (scanGroup r) = asg_UserID r" "asg_Version (scanGroup r) = asg_Version r"
  "asg_VpcID (scanGroup r) = asg_VpcID r" "asg_MinInstances (scanGroup r) = asg_MinInstances r" "asg_MaxInstances (scanGroup r) = asg_MaxInstances r"
  "asg_DesiredCount (scanGroup r) = asg_DesiredCount r" "asg_FailureCount (scanGroup r) = 0" "asg_LastFailureAt (scanGroup r) = None"
  "asg_Status (scanGroup r) = asg_Status r" "asg_Name (scanGroup r) = asg_Name r" "asg_IdempotencyKey (scanGroup r) = asg_IdempotencyKey r"
  by (simp_all add: scanGroup_def)

lemma asg_written_simps [simp]:
  "asg_ID (asg_written g r) = asg_ID r" "asg_UserID (asg_written g r) = asg_UserID r" "asg_Version (asg_written g r) = asg_Version r + 1"
  "asg_VpcID (asg_written g r) = asg_VpcID r" "asg_MinInstances (asg_written g r) = asg_MinInstances g" "asg_MaxInstances (asg_written g r) = asg_MaxInstances g"
  "asg_DesiredCount (asg_written g r) = asg_DesiredCount g" "asg_Status (asg_written g r) = asg_Status g"
  "asg_CurrentCount (asg_written g r) = asg_CurrentCount r" "asg_FailureCount (asg_written g r) = asg_FailureCount r"
  by (simp_all add: asg_written_def)

text \<open>The rows as the repository reads them satisfy the contract of a tenant-scoped repository.\<close>

abbreviation groups :: "world \<Rightarrow> ScalingGroup list" where
  "groups s \<equiv> map scanGroup (t_scaling_groups s)"

lemma GetGroupByID_ok:
  "AutoScalingRepo_GetGroupByID ctx i s = (Ok g, s') \<Longrightarrow>
     g \<in> set (groups s) \<and> asg_ID g = i \<and> asg_UserID g = UserIDFromContext ctx \<and> groups s' = groups s"
  unfolding AutoScalingRepo_GetGroupByID_def by (auto simp: ok_simps dest!: ok_queryRowC find_Some_set)

lemma DeleteGroup_ok:
  "AutoScalingRepo_DeleteGroup ctx i s = (Ok (), s') \<Longrightarrow>
     (\<exists>g \<in> set (groups s). asg_ID g = i \<and> asg_UserID g = UserIDFromContext ctx) \<and>
     groups s' = filter (\<lambda>g. \<not> (asg_ID g = i \<and> asg_UserID g = UserIDFromContext ctx)) (groups s)"
  unfolding AutoScalingRepo_DeleteGroup_def Let_def
  by (auto simp: ok_simps rows_simps delete_group_row_def list_ex_iff filter_map comp_def dest!: ok_execC)

lemma ListGroups_ok:
  "AutoScalingRepo_ListGroups ctx s = (Ok gs, s') \<Longrightarrow>
     set gs = {g \<in> set (groups s). asg_UserID g = UserIDFromContext ctx} \<and> groups s' = groups s"
  unfolding AutoScalingRepo_ListGroups_def by (auto dest!: ok_queryC)

interpretation asg_repo: tenant_list_repo groups asg_ID asg_UserID
  AutoScalingRepo_GetGroupByID AutoScalingRepo_DeleteGroup AutoScalingRepo_ListGroups
  by unfold_locales (fact GetGroupByID_ok DeleteGroup_ok ListGroups_ok)+

lemma violated_append: "violated (xs @ ys) = (case violated xs of None \<Rightarrow> violated ys | Some c \<Rightarrow> Some c)"
  by (induction xs) (auto simp: violated_def)

text \<open>The bounds of a group, and that the checks of the table state them.\<close>

definition group_ok :: "ScalingGroup \<Rightarrow> bool" where
  "group_ok g \<longleftrightarrow> 0 \<le> asg_MinInstances g \<and> asg_MinInstances g \<le> asg_DesiredCount g \<and> asg_DesiredCount g \<le> asg_MaxInstances g \<and>
     asg_MaxInstances g \<le> MaxInstancesHardLimit"

lemma group_checks_ok: "violated (group_checks g) = None \<longleftrightarrow> group_ok g"
  by (auto simp: group_checks_def group_ok_def MaxInstancesHardLimit_def)

lemma group_ok_written [simp]: "group_ok (asg_written g r) \<longleftrightarrow> group_ok g"
  by (simp add: group_ok_def)

lemma group_ok_scan [simp]: "group_ok (scanGroup g) \<longleftrightarrow> group_ok g"
  by (simp add: group_ok_def)

lemma wp_UpdateGroup:
  assumes "\<And>e fs. Q (Err e) (s\<lparr>faults := fs\<rparr>)"
    and "\<And>fs. \<exists>r \<in> set (t_scaling_groups s). asg_match g r \<Longrightarrow> group_ok g \<Longrightarrow>
      Q (Ok (g\<lparr>asg_Version := asg_Version g + 1\<rparr>))
        (s\<lparr>faults := fs, t_scaling_groups := upd_where (asg_match g) (asg_written g) (t_scaling_groups s)\<rparr>)"
  shows "wp (AutoScalingRepo_UpdateGroup g) Q s"
proof -
  have "Q (Err e) (s\<lparr>faults := fs, t_scaling_groups := t_scaling_groups s\<rparr>)" for e fs using assms(1) by simp
  then show ?thesis
    unfolding AutoScalingRepo_UpdateGroup_def
    by (auto simp: wps rows_simps upd_where_none violated_append list_ex_iff intro!: wp_execC assms split: if_splits option.splits dest: group_checks_ok [THEN iffD1])
qed

lemma UpdateGroup_ok:
  assumes "AutoScalingRepo_UpdateGroup g s = (Ok x, s')"
  shows "(\<exists>r \<in> set (t_scaling_groups s). asg_ID r = asg_ID g \<and> asg_Version r = asg_Version g \<and> asg_UserID r = asg_UserID g) \<and>
    (\<exists>f. (\<forall>r. asg_ID (f r) = asg_ID r \<and> asg_UserID (f r) = asg_UserID r \<and> asg_Version (f r) = asg_Version r + 1) \<and>
      t_scaling_groups s' = upd_where (\<lambda>r. asg_ID r = asg_ID g \<and> asg_Version r = asg_Version g \<and> asg_UserID r = asg_UserID g) f (t_scaling_groups s)) \<and>
    asg_ID x = asg_ID g \<and> asg_UserID x = asg_UserID g \<and> asg_Version x = asg_Version g + 1"
proof -
  have "wp (AutoScalingRepo_UpdateGroup g) (\<lambda>r s'. \<forall>x. r = Ok x \<longrightarrow>
    (\<exists>r \<in> set (t_scaling_groups s). asg_match g r) \<and> t_scaling_groups s' = upd_where (asg_match g) (asg_written g) (t_scaling_groups s) \<and>
    asg_ID x = asg_ID g \<and> asg_UserID x = asg_UserID g \<and> asg_Version x = asg_Version g + 1) s"
    by (rule wp_UpdateGroup) auto
  then show ?thesis using assms
    by (auto simp: wp_def asg_match_def [abs_def] intro!: exI [of _ "asg_written g"])
qed

lemma UpdateGroup_fail:
  "\<not> (\<exists>x. fst (AutoScalingRepo_UpdateGroup g s) = Ok x) \<Longrightarrow> t_scaling_groups (snd (AutoScalingRepo_UpdateGroup g s)) = t_scaling_groups s"
proof -
  have "wp (AutoScalingRepo_UpdateGroup g) (\<lambda>r s'. (\<exists>x. r = Ok x) \<or> t_scaling_groups s' = t_scaling_groups s) s"
    by (rule wp_UpdateGroup) auto
  then show "\<not> (\<exists>x. fst (AutoScalingRepo_UpdateGroup g s) = Ok x) \<Longrightarrow> ?thesis" by (simp add: wp_def)
qed

interpretation asg_versions: versioned_repo t_scaling_groups asg_ID asg_UserID asg_Version AutoScalingRepo_UpdateGroup
  by unfold_locales (fact UpdateGroup_ok UpdateGroup_fail)+

section \<open>What is kept of the groups\<close>

text \<open>
  The table of groups is in order: the counts of every group are within its bounds, and no tenant has more
  than five groups in a VPC.
\<close>

definition vpc_groups :: "world \<Rightarrow> uuid \<Rightarrow> uuid \<Rightarrow> ScalingGroup list" where
  "vpc_groups s u v = filter (\<lambda>g. asg_VpcID g = v \<and> asg_UserID g = u) (t_scaling_groups s)"

definition groups_ok :: "world \<Rightarrow> bool" where
  "groups_ok s \<longleftrightarrow> (\<forall>g \<in> set (t_scaling_groups s). group_ok g) \<and> (\<forall>u v. int (length (vpc_groups s u v)) \<le> MaxScalingGroupsPerVPC)"

definition keeps_ok :: "world \<Rightarrow> world \<Rightarrow> bool" where
  "keeps_ok s s' \<longleftrightarrow> (groups_ok s \<longrightarrow> groups_ok s')"

interpretation keeps_ok: frame_rel keeps_ok
  by unfold_locales (auto simp: keeps_ok_def)

lemma groups_ok_same: "t_scaling_groups s' = t_scaling_groups s \<Longrightarrow> keeps_ok s s'"
  by (simp add: keeps_ok_def groups_ok_def vpc_groups_def)

lemma keeps_ok_quiet: "confined (keeps t_scaling_groups) m \<Longrightarrow> confined keeps_ok m"
  by (auto simp: confined_def keeps_def intro: groups_ok_same)

lemma keeps_ok_write:
  assumes "t_scaling_groups s' = upd_where P f (t_scaling_groups s)" and "\<And>r. asg_VpcID (f r) = asg_VpcID r \<and> asg_UserID (f r) = asg_UserID r"
    and "\<And>r. group_ok r \<Longrightarrow> P r \<Longrightarrow> group_ok (f r)"
  shows "keeps_ok s s'"
proof -
  have "length (filter (\<lambda>g. asg_VpcID g = v \<and> asg_UserID g = u) (upd_where P f xs)) = length (filter (\<lambda>g. asg_VpcID g = v \<and> asg_UserID g = u) xs)" for u v xs
    using assms(2) by (induction xs) auto
  then show ?thesis using assms(1,3) unfolding keeps_ok_def groups_ok_def vpc_groups_def by (auto simp: set_upd_where)
qed

lemma keeps_ok_UpdateGroup: "confined keeps_ok (AutoScalingRepo_UpdateGroup g)"
proof (rule confinedI)
  fix s
  have "wp (AutoScalingRepo_UpdateGroup g) (\<lambda>r s'. keeps_ok s s') s"
    by (rule wp_UpdateGroup) (auto intro: groups_ok_same keeps_ok_write [where P = "asg_match g" and f = "asg_written g"])
  then show "keeps_ok s (snd (AutoScalingRepo_UpdateGroup g s))" by (simp add: wp_def)
qed

lemma stable_groups [simp]: "stable t_scaling_groups"
  by (simp add: stable_def)

lemma keeps_groups [keep]:
  "confined (keeps t_scaling_groups) (AutoScalingRepo_GetGroupByID ctx i)" "confined (keeps t_scaling_groups) (AutoScalingRepo_GetGroupByIdempotencyKey ctx k)"
  "confined (keeps t_scaling_groups) (AutoScalingRepo_CountGroupsByVPC ctx v)" "confined (keeps t_scaling_groups) (AutoScalingRepo_CreatePolicy p)"
  "confined (keeps t_scaling_groups) (AutoScalingRepo_DeletePolicy j)"
  unfolding AutoScalingRepo_GetGroupByID_def AutoScalingRepo_GetGroupByIdempotencyKey_def AutoScalingRepo_CountGroupsByVPC_def
    AutoScalingRepo_CreatePolicy_def AutoScalingRepo_DeletePolicy_def
  by (intro keeps_intros; simp)+

lemma wp_Log_groups: "(\<And>r s'. t_scaling_groups s' = t_scaling_groups s \<Longrightarrow> Q r s') \<Longrightarrow> wp (Log E ctx u a b c d) Q s"
  by (rule wp_confined [OF keeps_Log [OF stable_groups]]) (simp add: keeps_def)

lemma wp_CreateGroup_row:
  assumes "\<And>e s'. t_scaling_groups s' = t_scaling_groups s \<Longrightarrow> Q (Err e) s'"
    and "\<And>s'. asg_ID g \<notin> asg_ID ` set (t_scaling_groups s) \<Longrightarrow>
      (asg_IdempotencyKey g \<noteq> [] \<longrightarrow> asg_IdempotencyKey g \<notin> asg_IdempotencyKey ` set (t_scaling_groups s)) \<Longrightarrow>
      t_scaling_groups s' = t_scaling_groups s @ [scanGroup g] \<Longrightarrow> Q (Ok ()) s'"
  shows "wp (AutoScalingRepo_CreateGroup g) Q s"
  unfolding AutoScalingRepo_CreateGroup_def
  by (rule wp_insertC) (auto simp: violated_append scanGroup_def intro: assms split: if_splits option.splits)

lemma wp_newGroup:
  assumes err: "\<And>e s'. t_scaling_groups s' = t_scaling_groups s \<Longrightarrow> Q (Err e) s'"
    and new: "\<And>g r s'. group_ok g \<Longrightarrow> asg_UserID g = UserIDFromContext ctx \<Longrightarrow> asg_VpcID g = par_VpcID params \<Longrightarrow>
      asg_IdempotencyKey g = par_IdempotencyKey params \<Longrightarrow> asg_Status g = ScalingGroupStatusActive \<Longrightarrow> asg_ID g \<notin> asg_ID ` set (t_scaling_groups s) \<Longrightarrow>
      (asg_IdempotencyKey g \<noteq> [] \<longrightarrow> asg_IdempotencyKey g \<notin> asg_IdempotencyKey ` set (t_scaling_groups s)) \<Longrightarrow> scanGroup g = g \<Longrightarrow>
      (\<exists>v \<in> set (t_vpcs s). vpc_ID v = par_VpcID params \<and> vpc_UserID v = UserIDFromContext ctx) \<Longrightarrow>
      int (length (vpc_groups s (asg_UserID g) (asg_VpcID g))) < MaxScalingGroupsPerVPC \<Longrightarrow> (\<forall>x. r = Ok x \<longrightarrow> x = g) \<Longrightarrow>
      t_scaling_groups s' = t_scaling_groups s @ [g] \<Longrightarrow> Q r s'"
  shows "wp (newGroup E ctx params) Q s"
  unfolding newGroup_def VpcRepository_GetByID_def AutoScalingRepo_CountGroupsByVPC_def Let_def
  by (auto simp: wps wp_nowC wp_newUUID intro!: wp_queryRowC wp_queryC wp_CreateGroup_row wp_Log_groups err dest!: find_Some_set split: outcome.splits)
    (rule new; auto simp: group_ok_def vpc_groups_def scanGroup_def)+

lemma newGroup_paths:
  "wp (newGroup E ctx params) (\<lambda>r s'. (\<forall>x. r \<noteq> Ok x) \<and> t_scaling_groups s' = t_scaling_groups s \<or>
     (\<exists>g. group_ok g \<and> asg_UserID g = UserIDFromContext ctx \<and> asg_VpcID g = par_VpcID params \<and> asg_IdempotencyKey g = par_IdempotencyKey params \<and>
        asg_Status g = ScalingGroupStatusActive \<and> asg_ID g \<notin> asg_ID ` set (t_scaling_groups s) \<and>
        (asg_IdempotencyKey g \<noteq> [] \<longrightarrow> asg_IdempotencyKey g \<notin> asg_IdempotencyKey ` set (t_scaling_groups s)) \<and> scanGroup g = g \<and>
        (\<exists>v \<in> set (t_vpcs s). vpc_ID v = par_VpcID params \<and> vpc_UserID v = UserIDFromContext ctx) \<and>
        int (length (vpc_groups s (asg_UserID g) (asg_VpcID g))) < MaxScalingGroupsPerVPC \<and> (\<forall>x. r = Ok x \<longrightarrow> x = g) \<and>
        t_scaling_groups s' = t_scaling_groups s @ [g])) s"
  by (rule wp_newGroup) (simp, rule disjI2, blast)

lemma keeps_ok_newGroup: "confined keeps_ok (newGroup E ctx params)"
proof (rule confinedI)
  fix s
  have "keeps_ok s s'" if "int (length (vpc_groups s (asg_UserID g) (asg_VpcID g))) < MaxScalingGroupsPerVPC" "group_ok g" "t_scaling_groups s' = t_scaling_groups s @ [g]" for g s'
    using that by (auto simp: keeps_ok_def groups_ok_def vpc_groups_def)
  with newGroup_paths [of E ctx params s] show "keeps_ok s (snd (newGroup E ctx params s))"
    unfolding wp_def by (blast intro: groups_ok_same)
qed

lemmas keeps_ok_intros = keeps_ok.fr_intros keeps_ok_UpdateGroup keeps_ok_newGroup

lemma keeps_ok_service:
  "confined keeps_ok (CreateGroup E ctx params)" "confined keeps_ok (DeleteGroup E ctx i)" "confined keeps_ok (SetDesiredCapacity ctx i d)"
  "confined keeps_ok (CreatePolicy E ctx pparams)" "confined keeps_ok (DeletePolicy ctx j)"
  unfolding CreateGroup_def DeleteGroup_def SetDesiredCapacity_def CreatePolicy_def DeletePolicy_def
  by (intro keeps_ok_intros keeps_ok_quiet keep stable_groups)+

end
