(* ===== verification/AutoScalingWorker.thy ===== *)
theory AutoScalingWorker
  imports AutoScaling
begin

text \<open>
  The auto-scaling worker \<^verbatim>\<open>autoscaling_worker.go\<close>: on every tick it compares each group with its
  instances, launches or terminates instances to meet the desired count, and evaluates the scaling
  policies. The worker changes the group it works on through a pointer; the model passes the group on.
\<close>

definition maxFailureCount :: int where
  "maxFailureCount = 5"

definition failureBackoffMinutes :: int where
  "failureBackoffMinutes = 5"

text \<open>\<^verbatim>\<open>_ = w.repo.UpdateGroup(ctx, group)\<close>: the version of the group in memory is bumped only on success.\<close>

definition saveGroup :: "ScalingGroup \<Rightarrow> ScalingGroup op" where
  "saveGroup grp =
     bindC (tryC (AutoScalingRepo_UpdateGroup grp)) (\<lambda>r. returnC (case r of Inl _ \<Rightarrow> grp | Inr grp' \<Rightarrow> grp'))"

definition shouldSkipDueToFailures :: "ScalingGroup \<Rightarrow> bool op" where
  "shouldSkipDueToFailures grp =
     (if asg_FailureCount grp < maxFailureCount then returnC False
      else case asg_LastFailureAt grp of
        None \<Rightarrow> returnC False
      | Some t \<Rightarrow> bindC nowC (\<lambda>now. returnC (now < t + failureBackoffMinutes * Minute)))"

definition recordFailure :: "ScalingGroup \<Rightarrow> ScalingGroup op" where
  "recordFailure grp =
     bindC nowC (\<lambda>now. saveGroup (grp\<lparr>asg_FailureCount := asg_FailureCount grp + 1, asg_LastFailureAt := Some now\<rparr>))"

definition resetFailures :: "ScalingGroup \<Rightarrow> ScalingGroup op" where
  "resetFailures grp =
     (if asg_FailureCount grp > 0 then saveGroup (grp\<lparr>asg_FailureCount := 0, asg_LastFailureAt := None\<rparr>)
      else returnC grp)"

definition scaleOut :: "env \<Rightarrow> ctx \<Rightarrow> ScalingGroup \<Rightarrow> unit op" where
  "scaleOut E ctx grp =
     bindC nowC (\<lambda>now.
     let name = asg_Name grp @ ''-'' @ int_string now;
         dynamicPorts = toDynamicPorts (asg_Ports grp) in
     bindC (LaunchInstance E ctx name (asg_Image grp) dynamicPorts (Some (asg_VpcID grp)) None []) (\<lambda>inst.
     bindC (AutoScalingRepo_AddInstanceToGroup (asg_ID grp) (inst_ID inst)) (\<lambda>_.
     bindC (case asg_LoadBalancerID grp of
              None \<Rightarrow> returnC ()
            | Some lb \<Rightarrow> ignoreC (AddTarget E ctx lb (inst_ID inst) 80 1)) (\<lambda>_.
     bindC (metricC (MInc ''AutoScalingScaleOutEvents'' [])) (\<lambda>_.
     ignoreC (RecordEvent E ctx ''AUTOSCALING_SCALE_OUT'' (uuid_string E (asg_ID grp)) ''SCALING_GROUP''
       [(''instance_id'', GStr (uuid_string E (inst_ID inst))), (''trigger'', GStr ''reconciliation'')]))))))"

definition scaleIn :: "env \<Rightarrow> ctx \<Rightarrow> ScalingGroup \<Rightarrow> uuid \<Rightarrow> unit op" where
  "scaleIn E ctx grp instanceID =
     bindC (case asg_LoadBalancerID grp of
              None \<Rightarrow> returnC ()
            | Some lb \<Rightarrow> ignoreC (RemoveTarget E ctx lb instanceID)) (\<lambda>_.
     bindC (AutoScalingRepo_RemoveInstanceFromGroup (asg_ID grp) instanceID) (\<lambda>_.
     bindC (ignoreC (TerminateInstance E ctx (uuid_string E instanceID))) (\<lambda>_.
     bindC (metricC (MInc ''AutoScalingScaleInEvents'' [])) (\<lambda>_.
     ignoreC (RecordEvent E ctx ''AUTOSCALING_SCALE_IN'' (uuid_string E (asg_ID grp)) ''SCALING_GROUP''
       [(''instance_id'', GStr (uuid_string E instanceID)), (''trigger'', GStr ''reconciliation'')])))))"

text \<open>\<^verbatim>\<open>for i := 0; i < needed; i++\<close> with the remaining number of iterations.\<close>

primrec scaleOut_loop :: "env \<Rightarrow> ctx \<Rightarrow> nat \<Rightarrow> ScalingGroup \<Rightarrow> ScalingGroup op" where
  "scaleOut_loop E ctx 0 grp = returnC grp"
| "scaleOut_loop E ctx (Suc n) grp =
     bindC (tryC (scaleOut E ctx grp)) (\<lambda>r.
     case r of
       Inl _ \<Rightarrow> recordFailure grp
     | Inr _ \<Rightarrow> bindC (resetFailures grp) (\<lambda>grp. scaleOut_loop E ctx n grp))"

text \<open>\<^verbatim>\<open>for i := 0; i < excess; i++\<close> with the index and the remaining number of iterations; the instances are
  indexed from the end.\<close>

primrec scaleIn_loop :: "env \<Rightarrow> ctx \<Rightarrow> ScalingGroup \<Rightarrow> uuid list \<Rightarrow> nat \<Rightarrow> nat \<Rightarrow> unit op" where
  "scaleIn_loop E ctx grp instanceIDs i 0 = returnC ()"
| "scaleIn_loop E ctx grp instanceIDs i (Suc n) =
     (if i < length instanceIDs then
        bindC (tryC (scaleIn E ctx grp (instanceIDs ! (length instanceIDs - 1 - i)))) (\<lambda>r.
        case r of
          Inl _ \<Rightarrow> returnC ()
        | Inr _ \<Rightarrow> scaleIn_loop E ctx grp instanceIDs (Suc i) n)
      else panicC ''index out of range'')"

definition clampDesired :: "ScalingGroup \<Rightarrow> ScalingGroup op" where
  "clampDesired grp =
     bindC (if asg_DesiredCount grp < asg_MinInstances grp
            then saveGroup (grp\<lparr>asg_DesiredCount := asg_MinInstances grp\<rparr>) else returnC grp) (\<lambda>grp.
     if asg_DesiredCount grp > asg_MaxInstances grp
     then saveGroup (grp\<lparr>asg_DesiredCount := asg_MaxInstances grp\<rparr>) else returnC grp)"

definition reconcileInstances :: "env \<Rightarrow> ctx \<Rightarrow> ScalingGroup \<Rightarrow> uuid list \<Rightarrow> ScalingGroup op" where
  "reconcileInstances E ctx grp instanceIDs =
     (let current = int (length instanceIDs) in
     bindC (clampDesired grp) (\<lambda>grp.
     if current < asg_DesiredCount grp then
       bindC (shouldSkipDueToFailures grp) (\<lambda>skip.
       if skip then returnC grp
       else scaleOut_loop E ctx (nat (asg_DesiredCount grp - current)) grp)
     else if current > asg_DesiredCount grp then
       bindC (scaleIn_loop E ctx grp instanceIDs 0 (nat (current - asg_DesiredCount grp))) (\<lambda>_. returnC grp)
     else returnC grp))"

definition inCooldown :: "ScalingPolicy \<Rightarrow> time \<Rightarrow> bool" where
  "inCooldown policy now = (case pol_LastScaledAt policy of None \<Rightarrow> False | Some t \<Rightarrow> now - t < pol_CooldownSec policy * Second)"

text \<open>The new desired count a policy asks for, \<open>None\<close> when it does not trigger.\<close>

definition policyTarget :: "ScalingGroup \<Rightarrow> rat \<Rightarrow> ScalingPolicy \<Rightarrow> int option" where
  "policyTarget grp avgCPU policy =
     (if pol_MetricType policy = ''cpu'' then
        if avgCPU > pol_TargetValue policy then
          if asg_CurrentCount grp < asg_MaxInstances grp then
            let newDesired = asg_CurrentCount grp + pol_ScaleOutStep policy in
            Some (if newDesired > asg_MaxInstances grp then asg_MaxInstances grp else newDesired)
          else None
        else if avgCPU < pol_TargetValue policy - 10 then
          if asg_CurrentCount grp > asg_MinInstances grp then
            let newDesired = asg_CurrentCount grp - pol_ScaleInStep policy in
            Some (if newDesired < asg_MinInstances grp then asg_MinInstances grp else newDesired)
          else None
        else None
      else None)"

fun policies_loop :: "ScalingGroup \<Rightarrow> rat \<Rightarrow> ScalingPolicy list \<Rightarrow> unit op" where
  "policies_loop grp avgCPU [] = returnC ()"
| "policies_loop grp avgCPU (policy # policies) =
     bindC nowC (\<lambda>now.
     if inCooldown policy now then policies_loop grp avgCPU policies
     else case policyTarget grp avgCPU policy of
       None \<Rightarrow> policies_loop grp avgCPU policies
     | Some newDesired \<Rightarrow>
         bindC (saveGroup (grp\<lparr>asg_DesiredCount := newDesired\<rparr>)) (\<lambda>_.
         bindC nowC (\<lambda>now.
         ignoreC (AutoScalingRepo_UpdatePolicyLastScaled (pol_ID policy) now))))"

definition evaluatePolicies :: "ScalingGroup \<Rightarrow> uuid list \<Rightarrow> ScalingPolicy list \<Rightarrow> unit op" where
  "evaluatePolicies grp instanceIDs policies =
     (if policies = [] then returnC ()
      else
      bindC nowC (\<lambda>now.
      bindC (tryC (AutoScalingRepo_GetAverageCPU instanceIDs (now - Minute))) (\<lambda>r.
      case r of
        Inl _ \<Rightarrow> returnC ()
      | Inr avgCPU \<Rightarrow> policies_loop grp avgCPU policies)))"

definition cleanupGroup :: "env \<Rightarrow> ctx \<Rightarrow> ScalingGroup \<Rightarrow> uuid list \<Rightarrow> unit op" where
  "cleanupGroup E ctx grp instanceIDs =
     (if instanceIDs = [] then ignoreC (AutoScalingRepo_DeleteGroup ctx (asg_ID grp))
      else forC instanceIDs (\<lambda>instID. ignoreC (scaleIn E ctx (grp\<lparr>asg_DesiredCount := 0\<rparr>) instID)))"

definition evaluateGroup :: "env \<Rightarrow> ctx \<Rightarrow> uuid list \<Rightarrow> ScalingPolicy list \<Rightarrow> ScalingGroup \<Rightarrow> unit op" where
  "evaluateGroup E gCtx instances policies grp =
     (if asg_Status grp = ScalingGroupStatusDeleting then cleanupGroup E gCtx grp instances
      else
      bindC (if int (length instances) \<noteq> asg_CurrentCount grp
             then saveGroup (grp\<lparr>asg_CurrentCount := int (length instances)\<rparr>) else returnC grp) (\<lambda>grp.
      bindC (metricC (MSet ''AutoScalingCurrentInstances'' [uuid_string E (asg_ID grp)] (asg_CurrentCount grp))) (\<lambda>_.
      bindC (reconcileInstances E gCtx grp instances) (\<lambda>grp.
      evaluatePolicies grp instances policies))))"

definition Evaluate :: "env \<Rightarrow> ctx \<Rightarrow> unit op" where
  "Evaluate E ctx = ignoreC (
     bindC AutoScalingRepo_ListAllGroups (\<lambda>groups.
     let groupIDs = map asg_ID groups in
     bindC (AutoScalingRepo_GetAllScalingGroupInstances groupIDs) (\<lambda>instancesByGroup.
     bindC (AutoScalingRepo_GetAllPolicies groupIDs) (\<lambda>policiesByGroup.
     forC groups (\<lambda>grp.
       evaluateGroup E (WithUserID ctx (asg_UserID grp)) (instancesByGroup (asg_ID grp)) (policiesByGroup (asg_ID grp)) grp)))))"

text \<open>One tick of \<^verbatim>\<open>Run\<close>.\<close>

definition AutoScalingWorker_tick :: "env \<Rightarrow> ctx \<Rightarrow> unit op" where
  "AutoScalingWorker_tick E ctx =
     bindC (metricC (MInc ''AutoScalingEvaluations'' [])) (\<lambda>_. Evaluate E ctx)"

section \<open>Facts\<close>

text \<open>Launching and terminating instances leaves the groups alone.\<close>

lemma keeps_groups_instances [keep]:
  "confined (keeps t_scaling_groups) (LaunchInstance E ctx n i p v sn vs)" "confined (keeps t_scaling_groups) (TerminateInstance E ctx x)"
proof -
  have upd: "confined (keeps t_scaling_groups) (InstanceRepository_Update E inst)" for inst
    unfolding InstanceRepository_Update_def by (intro keeps_intros; simp)
  show "confined (keeps t_scaling_groups) (LaunchInstance E ctx n i p v sn vs)"
    unfolding LaunchInstance_def InstanceRepository_Create_def
    by (intro keeps_intros keep upd keeps_updateVolumesAfterLaunch) auto
  show "confined (keeps t_scaling_groups) (TerminateInstance E ctx x)"
    unfolding TerminateInstance_def InstanceRepository_Delete_def removeInstanceContainer_def
    by (intro keeps_intros keep keeps_releaseAttachedVolumes)
       (auto intro!: keeps_intros keep simp: delete_instance_row_def split: InstanceStatus.splits)
qed

lemma keeps_groups_targets [keep]:
  "confined (keeps t_scaling_groups) (AddTarget E ctx i j p w)" "confined (keeps t_scaling_groups) (RemoveTarget E ctx i j)"
  unfolding AddTarget_def RemoveTarget_def LBRepository_GetByID_def LBRepository_AddTarget_def LBRepository_RemoveTarget_def InstanceRepository_GetByID_def
  by (intro keeps_intros; simp)+

lemma keeps_groups_members [keep]:
  "confined (keeps t_scaling_groups) (AutoScalingRepo_AddInstanceToGroup i j)" "confined (keeps t_scaling_groups) (AutoScalingRepo_RemoveInstanceFromGroup i j)"
  "confined (keeps t_scaling_groups) (AutoScalingRepo_UpdatePolicyLastScaled k t)" "confined (keeps t_scaling_groups) (AutoScalingRepo_GetAverageCPU ids u)"
  "confined (keeps t_scaling_groups) AutoScalingRepo_ListAllGroups" "confined (keeps t_scaling_groups) (AutoScalingRepo_GetAllScalingGroupInstances gs)"
  "confined (keeps t_scaling_groups) (AutoScalingRepo_GetAllPolicies gs)"
  unfolding AutoScalingRepo_AddInstanceToGroup_def AutoScalingRepo_RemoveInstanceFromGroup_def AutoScalingRepo_UpdatePolicyLastScaled_def
    AutoScalingRepo_GetAverageCPU_def AutoScalingRepo_ListAllGroups_def AutoScalingRepo_GetAllScalingGroupInstances_def AutoScalingRepo_GetAllPolicies_def
  by (intro keeps_intros; simp)+

lemma keeps_groups_scale [keep]:
  "confined (keeps t_scaling_groups) (scaleOut E ctx g)" "confined (keeps t_scaling_groups) (scaleIn E ctx g i)"
  unfolding scaleOut_def scaleIn_def by (intro keeps_intros keep; simp)+

lemma keeps_ok_saveGroup: "confined keeps_ok (saveGroup g)"
  unfolding saveGroup_def by (intro keeps_ok_intros)

lemma keeps_ok_DeleteGroup: "confined keeps_ok (AutoScalingRepo_DeleteGroup ctx i)"
proof (rule confinedI)
  fix s
  have row: "keeps_ok s (delete_group_row P i s')" if same: "t_scaling_groups s' = t_scaling_groups s" for P s'
  proof -
    have "int (length (filter Q (filter P' xs))) \<le> int (length (filter Q xs))" for Q P' and xs :: "ScalingGroup list"
      using length_filter_le [of P' "filter Q xs"] by (simp add: conj_commute)
    then have "int (length (vpc_groups (delete_group_row P i s') u v)) \<le> int (length (vpc_groups s u v))" for u v
      using same by (simp add: vpc_groups_def delete_group_row_def del: filter_filter)
    moreover have "set (t_scaling_groups (delete_group_row P i s')) \<subseteq> set (t_scaling_groups s)" using same by (auto simp: delete_group_row_def)
    ultimately show ?thesis unfolding keeps_ok_def groups_ok_def by (meson order_trans subsetD)
  qed
  have "wp (AutoScalingRepo_DeleteGroup ctx i) (\<lambda>r s'. keeps_ok s s') s"
    unfolding AutoScalingRepo_DeleteGroup_def Let_def by (auto simp: wps row groups_ok_same intro!: wp_execC)
  then show "keeps_ok s (snd (AutoScalingRepo_DeleteGroup ctx i s))" by (simp add: wp_def)
qed

lemma keeps_ok_loops:
  "confined keeps_ok (scaleOut_loop E ctx n g)" "confined keeps_ok (scaleIn_loop E ctx g ids i n)" "confined keeps_ok (policies_loop g avg ps)"
proof -
  have fail: "confined keeps_ok (recordFailure g)" "confined keeps_ok (resetFailures g)" for g
    unfolding recordFailure_def resetFailures_def by (intro keeps_ok.fr_intros keeps_ok_saveGroup keeps_ok_quiet keep)+
  show "confined keeps_ok (scaleOut_loop E ctx n g)"
    by (induction n arbitrary: g) (auto intro!: keeps_ok.fr_intros fail keeps_ok_quiet [OF keeps_groups_scale(1)])
  show "confined keeps_ok (scaleIn_loop E ctx g ids i n)"
    by (induction n arbitrary: i) (auto intro!: keeps_ok.fr_intros keeps_ok_quiet [OF keeps_groups_scale(2)])
  show "confined keeps_ok (policies_loop g avg ps)"
    by (induction ps) (auto intro!: keeps_ok.fr_intros keeps_ok_saveGroup keeps_ok_quiet [OF keeps_nowC] keeps_ok_quiet [OF keeps_groups_members(3)]
      split: option.split)
qed

lemma keeps_ok_tick: "confined keeps_ok (AutoScalingWorker_tick E ctx)"
  unfolding AutoScalingWorker_tick_def Evaluate_def evaluateGroup_def cleanupGroup_def reconcileInstances_def clampDesired_def shouldSkipDueToFailures_def
    evaluatePolicies_def
  by (intro keeps_ok.fr_intros keeps_ok_saveGroup keeps_ok_DeleteGroup keeps_ok_loops keeps_ok_quiet keep stable_groups)

lemma keeps_ok_lb: "confined keeps_ok (LBWorker_tick E ctx)"
proof -
  have del: "confined keeps_ok (cleanupLB c lb)" for c lb
  proof (rule confinedI)
    fix s
    have row: "keeps_ok s (delete_lb_row P i s')" if "t_scaling_groups s' = t_scaling_groups s" for P i s'
      using that by (auto simp: delete_lb_row_def group_ok_def intro: groups_ok_same
        keeps_ok_write [where P = "\<lambda>g. asg_LoadBalancerID g = Some i" and f = "\<lambda>g. g\<lparr>asg_LoadBalancerID := None\<rparr>"])
    have "wp (cleanupLB c lb) (\<lambda>r s'. keeps_ok s s') s"
      unfolding cleanupLB_def LBRepository_Delete_def backendC_def Let_def
      by (auto simp: wps row groups_ok_same intro!: wp_extC wp_execC split: outcome.splits)
    then show "keeps_ok s (snd (cleanupLB c lb s))" by (simp add: wp_def)
  qed
  have "confined (keeps t_scaling_groups) (deployLB lb)" "confined (keeps t_scaling_groups) (refreshLB lb)" "confined (keeps t_scaling_groups) (checkLBHealth E c lb)"
      "confined (keeps t_scaling_groups) LBRepository_ListAll" for lb c
    unfolding deployLB_def LBRepository_Update_def lb_defs by (intro keeps_intros; simp)+
  then show ?thesis
    unfolding LBWorker_tick_def processCreatingLBs_def processDeletingLBs_def processActiveLBs_def processHealthChecks_def
    by (intro keeps_ok.fr_intros keeps_ok_quiet del)
qed

section \<open>Runs of the system\<close>

text \<open>Any sequence of calls of the service by any tenants, of ticks of the two workers, and of time passing, with
  whatever faults on the way.\<close>

inductive asg_reach :: "env \<Rightarrow> world \<Rightarrow> bool" for E where
  empty: "t_scaling_groups s = [] \<Longrightarrow> asg_reach E s"
| create: "asg_reach E s \<Longrightarrow> asg_reach E (snd (CreateGroup E ctx params s))"
| delete: "asg_reach E s \<Longrightarrow> asg_reach E (snd (DeleteGroup E ctx i s))"
| resize: "asg_reach E s \<Longrightarrow> asg_reach E (snd (SetDesiredCapacity ctx i d s))"
| policy: "asg_reach E s \<Longrightarrow> asg_reach E (snd (CreatePolicy E ctx pparams s))"
| drop_policy: "asg_reach E s \<Longrightarrow> asg_reach E (snd (DeletePolicy ctx j s))"
| tick: "asg_reach E s \<Longrightarrow> asg_reach E (snd (AutoScalingWorker_tick E ctx s))"
| lb_tick: "asg_reach E s \<Longrightarrow> asg_reach E (snd (LBWorker_tick E ctx s))"
| time: "asg_reach E s \<Longrightarrow> clock s \<le> t \<Longrightarrow> asg_reach E (s\<lparr>clock := t, faults := fs\<rparr>)"

lemma asg_reach_ok: "asg_reach E s \<Longrightarrow> groups_ok s"
proof (induction rule: asg_reach.induct)
  case (time s t fs)
  then show ?case by (simp add: groups_ok_def vpc_groups_def)
next
  case (empty s)
  then show ?case by (simp add: groups_ok_def vpc_groups_def MaxScalingGroupsPerVPC_def)
qed (simp_all add: keeps_ok_service [THEN confinedD, unfolded keeps_ok_def] keeps_ok_tick [THEN confinedD, unfolded keeps_ok_def]
    keeps_ok_lb [THEN confinedD, unfolded keeps_ok_def])

section \<open>Properties\<close>

text \<open>C17. The bounds of auto-scaling: in every state the system reaches, whatever tenants ask for, whatever fails and
  however often the workers run, every group has between zero and twenty instances as bounds with the
  desired count between them, and no tenant has more than five groups in a VPC.\<close>

theorem asg_bounds:
  assumes "asg_reach E s"
  shows "(\<forall>g \<in> set (t_scaling_groups s). 0 \<le> asg_MinInstances g \<and> asg_MinInstances g \<le> asg_DesiredCount g \<and>
      asg_DesiredCount g \<le> asg_MaxInstances g \<and> asg_MaxInstances g \<le> MaxInstancesHardLimit) \<and>
    (\<forall>u v. int (length (filter (\<lambda>g. asg_VpcID g = v \<and> asg_UserID g = u) (t_scaling_groups s))) \<le> MaxScalingGroupsPerVPC)"
  using asg_reach_ok [OF assms] by (simp add: groups_ok_def group_ok_def vpc_groups_def)

section \<open>Reconciliation\<close>

definition members :: "world \<Rightarrow> uuid \<Rightarrow> uuid list" where
  "members s g = map sgi_InstanceID (filter (\<lambda>x. sgi_ScalingGroupID x = g) (t_scaling_group_instances s))"

lemma clampDesired_ok: "group_ok grp \<Longrightarrow> clampDesired grp = returnC grp"
  by (rule ext) (simp add: clampDesired_def group_ok_def run)

lemma RemoveTarget_nf:
  assumes "faults s = []"
  shows "\<exists>s'. ignoreC (RemoveTarget E ctx lb i) s = (Ok (), s') \<and> core (s'\<lparr>t_lb_targets := t_lb_targets s\<rparr>) = core s \<and> faults s' = []"
proof (rule wp_returns)
  show "wp (ignoreC (RemoveTarget E ctx lb i)) (\<lambda>r s'. r = Ok () \<and> core (s'\<lparr>t_lb_targets := t_lb_targets s\<rparr>) = core s \<and> faults s' = []) s"
    using assms unfolding wp_ignoreC
    by (auto simp: RemoveTarget_def LBRepository_GetByID_def LBRepository_RemoveTarget_def Let_def wps wpnf logged_simps
        simp del: wp_ignoreC intro!: wp_ignore_Log_nf split: option.splits)
qed

lemma core_targets: "core (s\<lparr>t_lb_targets := x\<rparr>) = (core s)\<lparr>t_lb_targets := x\<rparr>" "(core s)\<lparr>t_lb_targets := t_lb_targets s\<rparr> = core s"
    "core (s\<lparr>uuid_ctr := n\<rparr>) = core s"
  by (simp_all add: core_def)

lemma wp_AddTarget_row:
  "faults s = [] \<Longrightarrow> (\<And>e. Q (Err e) s) \<Longrightarrow> Q (Ok ()) (s\<lparr>t_lb_targets := t_lb_targets s @ [t]\<rparr>) \<Longrightarrow> wp (LBRepository_AddTarget t) Q s"
  by (simp add: LBRepository_AddTarget_def wps wpnf split: option.split)

lemma AddTarget_nf:
  assumes "faults s = []"
  shows "\<exists>s'. ignoreC (AddTarget E ctx lb i p w) s = (Ok (), s') \<and> core (s'\<lparr>t_lb_targets := t_lb_targets s\<rparr>) = core s \<and> faults s' = [] \<and>
    uuid_ctr s \<le> uuid_ctr s' \<and> uuid_ctr s' \<le> uuid_ctr s + 2"
proof (rule wp_returns)
  show "wp (ignoreC (AddTarget E ctx lb i p w)) (\<lambda>r s'. r = Ok () \<and> core (s'\<lparr>t_lb_targets := t_lb_targets s\<rparr>) = core s \<and> faults s' = [] \<and>
    uuid_ctr s \<le> uuid_ctr s' \<and> uuid_ctr s' \<le> uuid_ctr s + 2) s"
    using assms unfolding wp_ignoreC
    by (auto simp: AddTarget_def LBRepository_GetByID_def InstanceRepository_GetByID_def Let_def wps wpnf logged_def core_targets
        simp del: wp_ignoreC intro!: wp_AddTarget_row wp_ignore_Log_nf split: option.splits)
qed

lemma TerminateInstance_ignored:
  assumes "faults s = []" and "uuid_parse E (uuid_string E i) = Some i" and "distinct (map vol_ID (t_volumes s))"
  shows "\<exists>s'. ignoreC (TerminateInstance E (Some u) (uuid_string E i)) s = (Ok (), s') \<and> faults s' = [] \<and> distinct (map vol_ID (t_volumes s')) \<and>
    t_instances s' = filter (\<lambda>x. \<not> (inst_ID x = i \<and> inst_UserID x = u)) (t_instances s) \<and>
    (t_scaling_group_instances s' = t_scaling_group_instances s \<or>
     t_scaling_group_instances s' = filter (\<lambda>g. sgi_InstanceID g \<noteq> i) (t_scaling_group_instances s))"
proof (cases "find (\<lambda>x. inst_ID x = i \<and> inst_UserID x = u) (t_instances s)")
  case None
  then have "\<not> (inst_ID x = i \<and> inst_UserID x = u)" if "x \<in> set (t_instances s)" for x
    using that by (auto simp: find_None_set)
  then have "filter (\<lambda>x. \<not> (inst_ID x = i \<and> inst_UserID x = u)) (t_instances s) = t_instances s"
    by (simp add: filter_id_conv)
  with None assms show ?thesis
    by (simp add: TerminateInstance_def GetInstance_def InstanceRepository_GetByID_def run)
next
  case (Some inst)
  then obtain s' where "TerminateInstance E (Some u) (uuid_string E i) s = (Ok (), s')" "faults s' = []"
      "t_instances s' = filter (\<lambda>x. \<not> (inst_ID x = i \<and> inst_UserID x = u)) (t_instances s)"
      "t_scaling_group_instances s' = filter (\<lambda>g. sgi_InstanceID g \<noteq> i) (t_scaling_group_instances s)"
      "t_volumes s' = upd_where (\<lambda>v. vol_InstanceID v = Some i) (\<lambda>v. v\<lparr>vol_InstanceID := None\<rparr>)
       (upd_where (\<lambda>r. vol_InstanceID r = Some i \<and> vol_UserID r = u)
         (\<lambda>r. r\<lparr>vol_Status := VolumeStatusAvailable, vol_InstanceID := None, vol_MountPath := [], vol_UpdatedAt := clock s\<rparr>) (t_volumes s))"
    using TerminateInstance_nf [OF assms(1,2,3)] by blast
  with assms(3) show ?thesis by (simp add: run map_upd_where_key)
qed

lemma scaleIn_nf:
  assumes "faults s = []" and "uuid_parse E (uuid_string E i) = Some i" and "distinct (map vol_ID (t_volumes s))"
  shows "\<exists>s'. scaleIn E (Some u) grp i s = (Ok (), s') \<and> faults s' = [] \<and> distinct (map vol_ID (t_volumes s')) \<and>
    t_instances s' = filter (\<lambda>x. \<not> (inst_ID x = i \<and> inst_UserID x = u)) (t_instances s) \<and>
    members s' (asg_ID grp) = filter (\<lambda>j. j \<noteq> i) (members s (asg_ID grp))"
proof -
  define rem where "rem = (case asg_LoadBalancerID grp of None \<Rightarrow> returnC () | Some lb \<Rightarrow> ignoreC (RemoveTarget E (Some u) lb i))"
  obtain s1 where s1: "rem s = (Ok (), s1)" "core (s1\<lparr>t_lb_targets := t_lb_targets s\<rparr>) = core s" "faults s1 = []"
    using RemoveTarget_nf [OF assms(1)] assms(1) by (cases "asg_LoadBalancerID grp") (auto simp: rem_def run)
  define s2 where "s2 = s1\<lparr>t_scaling_group_instances := filter (\<lambda>x. \<not> (sgi_ScalingGroupID x = asg_ID grp \<and> sgi_InstanceID x = i)) (t_scaling_group_instances s1)\<rparr>"
  have s2: "AutoScalingRepo_RemoveInstanceFromGroup (asg_ID grp) i s1 = (Ok (), s2)"
    using s1(3) by (simp add: AutoScalingRepo_RemoveInstanceFromGroup_def run s2_def)
  obtain s3 where s3: "ignoreC (TerminateInstance E (Some u) (uuid_string E i)) s2 = (Ok (), s3)" "faults s3 = []" "distinct (map vol_ID (t_volumes s3))"
    "t_instances s3 = filter (\<lambda>x. \<not> (inst_ID x = i \<and> inst_UserID x = u)) (t_instances s2)"
    "t_scaling_group_instances s3 = t_scaling_group_instances s2 \<or>
     t_scaling_group_instances s3 = filter (\<lambda>g. sgi_InstanceID g \<noteq> i) (t_scaling_group_instances s2)"
    using TerminateInstance_ignored [of s2 E i u] s1 assms by (auto simp: s2_def core_eq_iff)
  have m: "members s3 (asg_ID grp) = filter (\<lambda>j. j \<noteq> i) (members s (asg_ID grp))"
  proof -
    have same: "t_scaling_group_instances s1 = t_scaling_group_instances s" using s1(2) by (simp add: core_eq_iff)
    have "filter (\<lambda>x. sgi_ScalingGroupID x = asg_ID grp) (t_scaling_group_instances s3) =
        filter (\<lambda>x. sgi_ScalingGroupID x = asg_ID grp \<and> sgi_InstanceID x \<noteq> i) (t_scaling_group_instances s)"
      using s3(5) by (elim disjE) (auto simp: s2_def same intro!: filter_cong)
    then show ?thesis by (simp add: members_def filter_map comp_def conj_commute)
  qed
  have "wp (scaleIn E (Some u) grp i) (\<lambda>r s'. r = Ok () \<and> faults s' = [] \<and> distinct (map vol_ID (t_volumes s')) \<and>
    t_instances s' = t_instances s3 \<and> members s' (asg_ID grp) = members s3 (asg_ID grp)) s"
    unfolding scaleIn_def rem_def [symmetric] using s1(1) s2 s3(1-3)
    by (auto simp: wp_bindC wp_def [of rem] wp_def [of "AutoScalingRepo_RemoveInstanceFromGroup _ _"] wp_def [of "ignoreC (TerminateInstance _ _ _)"]
        wp_metricC logged_simps members_def intro!: wp_ignore_RecordEvent_nf)
  from wp_returns [OF this] show ?thesis using s3(4) s1(2) m by (auto simp: s2_def core_eq_iff)
qed

lemma scaleIn_loop_nf:
  assumes "faults s = []" and "\<And>i. uuid_parse E (uuid_string E i) = Some i" and "distinct (map vol_ID (t_volumes s))"
    and "k + n \<le> length ids"
  shows "\<exists>s'. scaleIn_loop E (Some u) grp ids k n s = (Ok (), s') \<and> faults s' = [] \<and> distinct (map vol_ID (t_volumes s')) \<and>
    t_instances s' = filter (\<lambda>x. \<not> (inst_ID x \<in> set (take n (drop k (rev ids))) \<and> inst_UserID x = u)) (t_instances s) \<and>
    members s' (asg_ID grp) = filter (\<lambda>j. j \<notin> set (take n (drop k (rev ids)))) (members s (asg_ID grp))"
  using assms(1,3,4)
proof (induction n arbitrary: k s)
  case (Suc n)
  let ?i = "ids ! (length ids - 1 - k)"
  have hd: "take (Suc n) (drop k (rev ids)) = ?i # take n (drop (Suc k) (rev ids))"
    using Suc.prems(3) by (simp add: Cons_nth_drop_Suc [symmetric] rev_nth)
  obtain s1 where s1: "scaleIn E (Some u) grp ?i s = (Ok (), s1)" "faults s1 = []" "distinct (map vol_ID (t_volumes s1))"
    "t_instances s1 = filter (\<lambda>x. \<not> (inst_ID x = ?i \<and> inst_UserID x = u)) (t_instances s)"
    "members s1 (asg_ID grp) = filter (\<lambda>j. j \<noteq> ?i) (members s (asg_ID grp))"
    using scaleIn_nf [OF Suc.prems(1) assms(2) Suc.prems(2)] by blast
  obtain s2 where "scaleIn_loop E (Some u) grp ids (Suc k) n s1 = (Ok (), s2)" "faults s2 = []" "distinct (map vol_ID (t_volumes s2))"
    "t_instances s2 = filter (\<lambda>x. \<not> (inst_ID x \<in> set (take n (drop (Suc k) (rev ids))) \<and> inst_UserID x = u)) (t_instances s1)"
    "members s2 (asg_ID grp) = filter (\<lambda>j. j \<notin> set (take n (drop (Suc k) (rev ids)))) (members s1 (asg_ID grp))"
    using Suc.IH [OF s1(2,3), of "Suc k"] Suc.prems(3) by auto
  with s1 Suc.prems(3) show ?case unfolding hd by (auto simp: run intro!: filter_cong)
qed (simp add: run)

lemma core_instances_iff:
  "core (s'\<lparr>t_instances := t_instances s\<rparr>) = core s \<Longrightarrow> t_users s' = t_users s \<and> t_vpcs s' = t_vpcs s \<and>
     t_scaling_groups s' = t_scaling_groups s \<and> t_scaling_group_instances s' = t_scaling_group_instances s"
  by (simp add: core_eq_iff)

text \<open>What a launch into the group needs: the owner, the VPC and the group are there, and the next \<open>k\<close>
  identifiers are distinct and not in use.\<close>

definition can_launch :: "env \<Rightarrow> uuid \<Rightarrow> ScalingGroup \<Rightarrow> nat \<Rightarrow> world \<Rightarrow> bool" where
  "can_launch E u grp k s \<longleftrightarrow> faults s = [] \<and> has_user s u \<and> list_ex (\<lambda>x. vpc_ID x = asg_VpcID grp \<and> vpc_UserID x = u) (t_vpcs s) \<and>
     list_ex (\<lambda>g. asg_ID g = asg_ID grp) (t_scaling_groups s) \<and> inj_on (uuid_at E) {uuid_ctr s ..< uuid_ctr s + k} \<and>
     (\<forall>n \<in> {uuid_ctr s ..< uuid_ctr s + k}. uuid_at E n \<notin> inst_ID ` set (t_instances s) \<and> uuid_at E n \<notin> sgi_InstanceID ` set (t_scaling_group_instances s))"

lemma scaleOut_nf:
  assumes "can_launch E u grp (Suc k) s" and "parseAndValidatePorts (asg_Ports grp) = Inr ps"
  shows "\<exists>s' inst x. scaleOut E (Some u) grp s = (Ok (), s') \<and> t_instances s' = t_instances s @ [inst] \<and> inst_ID inst = uuid_at E (uuid_ctr s) \<and>
    inst_UserID inst = u \<and> inst_VpcID inst = Some (asg_VpcID grp) \<and>
    t_scaling_group_instances s' = t_scaling_group_instances s @ [x] \<and> sgi_ScalingGroupID x = asg_ID grp \<and> sgi_InstanceID x = inst_ID inst \<and>
    faults s' = [] \<and> uuid_ctr s < uuid_ctr s' \<and> uuid_ctr s' \<le> uuid_ctr s + 6 \<and>
    t_users s' = t_users s \<and> t_vpcs s' = t_vpcs s \<and> t_scaling_groups s' = t_scaling_groups s"
proof -
  have nf: "faults s = []" "has_user s u" "uuid_at E (uuid_ctr s) \<notin> inst_ID ` set (t_instances s)"
      "uuid_at E (uuid_ctr s) \<notin> sgi_InstanceID ` set (t_scaling_group_instances s)" "list_ex (\<lambda>g. asg_ID g = asg_ID grp) (t_scaling_groups s)"
    using assms(1) by (auto simp: can_launch_def)
  obtain ps' where ps': "parseAndValidatePorts (toDynamicPorts (asg_Ports grp)) = Inr ps'"
    using dynamic_ports_valid [OF assms(2)] by blast
  obtain vpc where vpc: "find (\<lambda>x. vpc_ID x = asg_VpcID grp \<and> vpc_UserID x = u) (t_vpcs s) = Some vpc"
    using assms(1) by (cases "find (\<lambda>x. vpc_ID x = asg_VpcID grp \<and> vpc_UserID x = u) (t_vpcs s)") (auto simp: can_launch_def list_ex_iff find_None_set)
  obtain inst s1 where s1: "LaunchInstance E (Some u) (asg_Name grp @ ''-'' @ int_string (clock s)) (asg_Image grp) (toDynamicPorts (asg_Ports grp)) (Some (asg_VpcID grp)) None [] s = (Ok inst, s1)"
    "t_instances s1 = t_instances s @ [inst]" "inst_ID inst = uuid_at E (uuid_ctr s)" "inst_UserID inst = u" "inst_VpcID inst = Some (asg_VpcID grp)"
    "core (s1\<lparr>t_instances := t_instances s\<rparr>) = core s" "faults s1 = []" "uuid_ctr s1 = uuid_ctr s + 3"
    using LaunchInstance_vpc_nf [OF nf(1-3) ps' vpc] by blast
  note same = core_instances_iff [OF s1(6)]
  define x where "x = \<lparr>sgi_ScalingGroupID = asg_ID grp, sgi_InstanceID = inst_ID inst, sgi_JoinedAt = clock s1\<rparr>"
  define s2 where "s2 = s1\<lparr>t_scaling_group_instances := t_scaling_group_instances s @ [x]\<rparr>"
  have s2: "AutoScalingRepo_AddInstanceToGroup (asg_ID grp) (inst_ID inst) s1 = (Ok (), s2)"
    using s1 nf same by (auto simp: AutoScalingRepo_AddInstanceToGroup_def run has_instance_def list_ex_iff image_iff s2_def x_def)
  define add where "add = (case asg_LoadBalancerID grp of None \<Rightarrow> returnC () | Some lb \<Rightarrow> ignoreC (AddTarget E (Some u) lb (inst_ID inst) 80 1))"
  obtain s3 where s3: "add s2 = (Ok (), s3)" "core (s3\<lparr>t_lb_targets := t_lb_targets s2\<rparr>) = core s2" "faults s3 = []" "uuid_ctr s2 \<le> uuid_ctr s3" "uuid_ctr s3 \<le> uuid_ctr s2 + 2"
    using AddTarget_nf [of s2 E "Some u" _ "inst_ID inst" 80 1] s1(7) by (cases "asg_LoadBalancerID grp") (auto simp: add_def run s2_def)
  have "wp (scaleOut E (Some u) grp) (\<lambda>r s'. r = Ok () \<and> core s' = core s3 \<and> faults s' = [] \<and> uuid_ctr s' = Suc (uuid_ctr s3)) s"
    unfolding scaleOut_def Let_def using s1(1) s2 s3(1,3)
    by (auto simp: wp_bindC wp_nowC add_def [symmetric] wp_def [of add] wp_def [of "AutoScalingRepo_AddInstanceToGroup _ _"] wp_def [of "LaunchInstance _ _ _ _ _ _ _ _"]
        wp_metricC logged_simps intro!: wp_ignore_RecordEvent_nf)
  from wp_returns [OF this] obtain s' where s': "scaleOut E (Some u) grp s = (Ok (), s')" "core s' = core s3" "faults s' = []" "uuid_ctr s' = Suc (uuid_ctr s3)" by blast
  have "t_instances s' = t_instances s @ [inst]" "t_scaling_group_instances s' = t_scaling_group_instances s @ [x]"
      "t_users s' = t_users s" "t_vpcs s' = t_vpcs s" "t_scaling_groups s' = t_scaling_groups s"
    using s'(2) s3(2) same s1(2) by (auto simp: core_eq_iff s2_def)
  then show ?thesis using s' s3(4,5) s1(3-5,8) by (intro exI [of _ s'] exI [of _ inst] exI [of _ x]) (simp add: s2_def x_def)
qed

lemma can_launch_next:
  assumes "can_launch E u grp (k + 6) s" and "t_instances s' = t_instances s @ [inst]" "inst_ID inst = uuid_at E (uuid_ctr s)"
    "t_scaling_group_instances s' = t_scaling_group_instances s @ [x]" "sgi_InstanceID x = inst_ID inst"
    "faults s' = []" "uuid_ctr s < uuid_ctr s'" "uuid_ctr s' \<le> uuid_ctr s + 6" "t_users s' = t_users s" "t_vpcs s' = t_vpcs s" "t_scaling_groups s' = t_scaling_groups s"
  shows "can_launch E u grp k s'"
proof -
  have sub: "{uuid_ctr s' ..< uuid_ctr s' + k} \<subseteq> {uuid_ctr s ..< uuid_ctr s + (k + 6)}" using assms(7,8) by auto
  have inj: "inj_on (uuid_at E) {uuid_ctr s ..< uuid_ctr s + (k + 6)}" using assms(1) by (simp add: can_launch_def)
  have "uuid_at E n \<noteq> uuid_at E (uuid_ctr s)" if "n \<in> {uuid_ctr s' ..< uuid_ctr s' + k}" for n
  proof
    assume "uuid_at E n = uuid_at E (uuid_ctr s)"
    then have "n = uuid_ctr s" by (rule inj_onD [OF inj]) (use that sub in auto)
    with that assms(7) show False by simp
  qed
  with assms sub show ?thesis
    unfolding can_launch_def by (auto simp: has_user_def intro: inj_on_subset [OF inj])
qed

lemma scaleOut_loop_nf:
  assumes "can_launch E u grp (6 * n) s" and "parseAndValidatePorts (asg_Ports grp) = Inr ps" and "asg_FailureCount grp = 0"
  shows "\<exists>s' new. scaleOut_loop E (Some u) n grp s = (Ok grp, s') \<and> t_instances s' = t_instances s @ new \<and> length new = n \<and>
    distinct (map inst_ID new) \<and> (\<forall>x \<in> set new. inst_UserID x = u \<and> inst_VpcID x = Some (asg_VpcID grp) \<and> inst_ID x \<notin> inst_ID ` set (t_instances s)) \<and>
    members s' (asg_ID grp) = members s (asg_ID grp) @ map inst_ID new"
  using assms(1)
proof (induction n arbitrary: s)
  case (Suc n)
  then obtain s1 inst x where s1: "scaleOut E (Some u) grp s = (Ok (), s1)" "t_instances s1 = t_instances s @ [inst]" "inst_ID inst = uuid_at E (uuid_ctr s)"
    "inst_UserID inst = u" "inst_VpcID inst = Some (asg_VpcID grp)"
    "t_scaling_group_instances s1 = t_scaling_group_instances s @ [x]" "sgi_ScalingGroupID x = asg_ID grp" "sgi_InstanceID x = inst_ID inst"
    "faults s1 = []" "uuid_ctr s < uuid_ctr s1" "uuid_ctr s1 \<le> uuid_ctr s + 6"
    "t_users s1 = t_users s" "t_vpcs s1 = t_vpcs s" "t_scaling_groups s1 = t_scaling_groups s"
    using scaleOut_nf [of E u grp "6 * n + 5" s, OF _ assms(2)] by (auto simp: numeral_eq_Suc)
  have "can_launch E u grp (6 * n) s1" by (rule can_launch_next [OF _ s1(2,3,6,8-14)]) (use Suc.prems in \<open>simp add: algebra_simps\<close>)
  from Suc.IH [OF this] obtain s' new where s': "scaleOut_loop E (Some u) n grp s1 = (Ok grp, s')" "t_instances s' = t_instances s1 @ new" "length new = n"
    "distinct (map inst_ID new)" "\<forall>x \<in> set new. inst_UserID x = u \<and> inst_VpcID x = Some (asg_VpcID grp) \<and> inst_ID x \<notin> inst_ID ` set (t_instances s1)"
    "members s' (asg_ID grp) = members s1 (asg_ID grp) @ map inst_ID new" by blast
  have "uuid_at E (uuid_ctr s) \<notin> inst_ID ` set (t_instances s)" using Suc.prems by (auto simp: can_launch_def)
  with s1 s' show ?case
    by (intro exI [of _ s'] exI [of _ "inst # new"]) (auto simp: run assms(3) resetFailures_def members_def)
qed (simp add: run)


text \<open>C33. A policy keeps the group in bounds: from a count of instances within the bounds of the group, a policy
  whose steps are positive asks for a count within the bounds, above the current one when the load is above
  its target and below it when the load is more than ten percent points under it.\<close>

theorem policyTarget_bounds:
  assumes "policyTarget grp avg p = Some d" and "asg_MinInstances grp \<le> asg_CurrentCount grp" and "asg_CurrentCount grp \<le> asg_MaxInstances grp"
    and "pol_ScaleOutStep p > 0" and "pol_ScaleInStep p > 0"
  shows "asg_MinInstances grp \<le> d \<and> d \<le> asg_MaxInstances grp \<and>
    (avg > pol_TargetValue p \<and> asg_CurrentCount grp < d \<and> d \<le> asg_CurrentCount grp + pol_ScaleOutStep p \<or>
     avg < pol_TargetValue p - 10 \<and> d < asg_CurrentCount grp \<and> asg_CurrentCount grp - pol_ScaleInStep p \<le> d)"
  using assms by (auto simp: policyTarget_def Let_def split: if_splits)

text \<open>At most one policy acts per evaluation, and never one in its cooldown: on every path, the faults
  included, an evaluation leaves groups and policies as they were, or there is one policy out of its cooldown
  that the average load of the last minute triggers, and at most the desired count of the group and the stamp
  of that policy change.\<close>

theorem evaluatePolicies_fires_once:
  "t_scaling_groups (snd (evaluatePolicies grp ids ps s)) = t_scaling_groups s \<and> t_scaling_policies (snd (evaluatePolicies grp ids ps s)) = t_scaling_policies s \<or>
   (\<exists>p d. p \<in> set ps \<and> \<not> inCooldown p (clock s) \<and>
      policyTarget grp (if ids = [] then 0 else average (map mp_cpu_percent (filter (\<lambda>m. mp_InstanceID m \<in> set ids \<and> mp_recorded_at m \<ge> clock s - Minute) (t_metrics_history s)))) p = Some d \<and>
      t_scaling_groups (snd (evaluatePolicies grp ids ps s)) \<in>
        {t_scaling_groups s, upd_where (asg_match grp) (asg_written (grp\<lparr>asg_DesiredCount := d\<rparr>)) (t_scaling_groups s)} \<and>
      t_scaling_policies (snd (evaluatePolicies grp ids ps s)) \<in>
        {t_scaling_policies s, upd_where (\<lambda>q. pol_ID q = pol_ID p) (\<lambda>q. q\<lparr>pol_LastScaledAt := Some (clock s)\<rparr>) (t_scaling_policies s)})"
proof -
  let ?fire = "\<lambda>avg ps s' s. t_scaling_groups s' = t_scaling_groups s \<and> t_scaling_policies s' = t_scaling_policies s \<or>
   (\<exists>p d. p \<in> set ps \<and> \<not> inCooldown p (clock s) \<and> policyTarget grp avg p = Some d \<and>
      t_scaling_groups s' \<in> {t_scaling_groups s, upd_where (asg_match grp) (asg_written (grp\<lparr>asg_DesiredCount := d\<rparr>)) (t_scaling_groups s)} \<and>
      t_scaling_policies s' \<in> {t_scaling_policies s, upd_where (\<lambda>q. pol_ID q = pol_ID p) (\<lambda>q. q\<lparr>pol_LastScaledAt := Some (clock s)\<rparr>) (t_scaling_policies s)})"
  have match: "asg_match (grp\<lparr>asg_DesiredCount := d\<rparr>) = asg_match grp" for d by (auto simp: asg_match_def)
  have loop: "wp (policies_loop grp avg ps) (\<lambda>r s'. ?fire avg ps s' s) s" for avg s
  proof (induction ps)
    case (Cons p ps)
    have keep: "wp (policies_loop grp avg ps) (\<lambda>r s'. ?fire avg (p # ps) s' s) s" using Cons.IH by (rule wp_mono) auto
    have act: "wp (bindC (saveGroup (grp\<lparr>asg_DesiredCount := d\<rparr>)) (\<lambda>_. bindC nowC (\<lambda>now. ignoreC (AutoScalingRepo_UpdatePolicyLastScaled (pol_ID p) now))))
        (\<lambda>r s'. ?fire avg (p # ps) s' s) s" if fire: "\<not> inCooldown p (clock s)" "policyTarget grp avg p = Some d" for d
    proof -
      have "wp (bindC (saveGroup (grp\<lparr>asg_DesiredCount := d\<rparr>)) (\<lambda>_. bindC nowC (\<lambda>now. ignoreC (AutoScalingRepo_UpdatePolicyLastScaled (pol_ID p) now))))
        (\<lambda>r s'. t_scaling_groups s' \<in> {t_scaling_groups s, upd_where (asg_match grp) (asg_written (grp\<lparr>asg_DesiredCount := d\<rparr>)) (t_scaling_groups s)} \<and>
          t_scaling_policies s' \<in> {t_scaling_policies s, upd_where (\<lambda>q. pol_ID q = pol_ID p) (\<lambda>q. q\<lparr>pol_LastScaledAt := Some (clock s)\<rparr>) (t_scaling_policies s)}) s"
        unfolding saveGroup_def AutoScalingRepo_UpdatePolicyLastScaled_def by (auto simp: wps wp_nowC match intro!: wp_UpdateGroup wp_execC)
      then show ?thesis by (rule wp_mono) (use fire in \<open>simp, blast\<close>)
    qed
    show ?case using keep act by (auto simp: wp_bindC wp_nowC split: option.splits)
  qed (simp add: wps)
  have "wp (evaluatePolicies grp ids ps)
    (\<lambda>r s'. ?fire (if ids = [] then 0 else average (map mp_cpu_percent (filter (\<lambda>m. mp_InstanceID m \<in> set ids \<and> mp_recorded_at m \<ge> clock s - Minute) (t_metrics_history s)))) ps s' s) s"
    unfolding evaluatePolicies_def AutoScalingRepo_GetAverageCPU_def
    using loop [of _ "s\<lparr>faults := _\<rparr>"] loop [of _ s] by (auto simp: wps wp_nowC intro!: wp_queryC)
  then show ?thesis by (simp add: wp_snd)
qed

lemma wp_saveGroup:
  assumes "\<And>v s'. Q (Ok (x\<lparr>asg_Version := v\<rparr>)) s'"
  shows "wp (saveGroup x) Q s"
proof -
  have "Q (Ok x) s'" for s' using assms [of "asg_Version x"] by simp
  with assms show ?thesis unfolding saveGroup_def by (auto simp: wps intro!: wp_UpdateGroup)
qed

text \<open>A scale-out policy can shrink a group: the new desired count is computed from the current number of
  instances and not from the desired one, so that, while instances are still missing, a load above the target
  lowers the desired count.\<close>

theorem scale_out_lowers_desired:
  assumes "pol_MetricType p = ''cpu''" and "avg > pol_TargetValue p" and "asg_CurrentCount grp + pol_ScaleOutStep p < asg_DesiredCount grp"
    and "asg_DesiredCount grp \<le> asg_MaxInstances grp" and "pol_ScaleOutStep p > 0"
  shows "\<exists>d. policyTarget grp avg p = Some d \<and> d < asg_DesiredCount grp"
  using assms by (simp add: policyTarget_def)

text \<open>C34. The failure backoff is dead code: \<^verbatim>\<open>ListAllGroups\<close> does not read the failure count, so for every group
  the worker sees, with the current count it sets, reconciliation is the same operation without the check for
  recent failures.\<close>

theorem backoff_never_applies:
  assumes "AutoScalingRepo_ListAllGroups s = (Ok gs, s')" and "g \<in> set gs" and "grp = g\<lparr>asg_CurrentCount := c, asg_Version := v\<rparr>"
  shows "reconcileInstances E ctx grp ids =
    bindC (clampDesired grp) (\<lambda>grp.
      if int (length ids) < asg_DesiredCount grp then scaleOut_loop E ctx (nat (asg_DesiredCount grp - int (length ids))) grp
      else if int (length ids) > asg_DesiredCount grp then
        bindC (scaleIn_loop E ctx grp ids 0 (nat (int (length ids) - asg_DesiredCount grp))) (\<lambda>_. returnC grp)
      else returnC grp)"
proof -
  have f: "asg_FailureCount grp = 0"
    using assms by (auto simp: AutoScalingRepo_ListAllGroups_def dest!: ok_queryC)
  have clamp: "asg_FailureCount g' = 0" if "clampDesired grp t = (Ok g', t')" for g' t t'
  proof -
    have "wp (clampDesired grp) (\<lambda>r s'. \<forall>g'. r = Ok g' \<longrightarrow> asg_FailureCount g' = 0) t"
      using f by (auto simp: clampDesired_def wps intro!: wp_saveGroup)
    with that show ?thesis by (simp add: wp_def)
  qed
  show ?thesis unfolding reconcileInstances_def Let_def
  proof (rule bindC_cong_ok)
    fix x t t'
    assume "clampDesired grp t = (Ok x, t')"
    then have "shouldSkipDueToFailures x = returnC False" by (simp add: clamp shouldSkipDueToFailures_def maxFailureCount_def)
    then show "(if int (length ids) < asg_DesiredCount x then
        bindC (shouldSkipDueToFailures x) (\<lambda>skip. if skip then returnC x else scaleOut_loop E ctx (nat (asg_DesiredCount x - int (length ids))) x)
      else if int (length ids) > asg_DesiredCount x then
        bindC (scaleIn_loop E ctx x ids 0 (nat (int (length ids) - asg_DesiredCount x))) (\<lambda>_. returnC x)
      else returnC x) t' =
      (if int (length ids) < asg_DesiredCount x then scaleOut_loop E ctx (nat (asg_DesiredCount x - int (length ids))) x
      else if int (length ids) > asg_DesiredCount x then
        bindC (scaleIn_loop E ctx x ids 0 (nat (int (length ids) - asg_DesiredCount x))) (\<lambda>_. returnC x)
      else returnC x) t'"
      by (simp add: run)
  qed
qed

section \<open>Witnesses\<close>

definition sample_group :: ScalingGroup where
  "sample_group = \<lparr>asg_ID = 60, asg_UserID = 1, asg_IdempotencyKey = [], asg_Name = ''web'', asg_VpcID = 20, asg_LoadBalancerID = None,
     asg_Image = ''nginx'', asg_Ports = [], asg_MinInstances = 1, asg_MaxInstances = 5, asg_DesiredCount = 2, asg_CurrentCount = 0,
     asg_Status = ScalingGroupStatusActive, asg_FailureCount = 0, asg_LastFailureAt = None, asg_Version = 1, asg_CreatedAt = 0, asg_UpdatedAt = 0\<rparr>"

definition sample_policy :: ScalingPolicy where
  "sample_policy = \<lparr>pol_ID = 61, pol_ScalingGroupID = 60, pol_Name = ''cpu'', pol_MetricType = ''cpu'', pol_TargetValue = 50,
     pol_ScaleOutStep = 1, pol_ScaleInStep = 1, pol_CooldownSec = 60, pol_LastScaledAt = None\<rparr>"

definition sample_group_params :: CreateScalingGroupParams where
  "sample_group_params = \<lparr>par_Name = ''web'', par_VpcID = 20, par_Image = ''nginx'', par_Ports = [], par_MinInstances = 1, par_MaxInstances = 5,
     par_DesiredCount = 2, par_LoadBalancerID = None, par_IdempotencyKey = []\<rparr>"

theorem policyTarget_bounds_witness:
  "\<exists>d. policyTarget (sample_group\<lparr>asg_CurrentCount := 2\<rparr>) 80 sample_policy = Some d \<and> 2 < d \<and> d \<le> 5"
  using policyTarget_bounds [of "sample_group\<lparr>asg_CurrentCount := 2\<rparr>" 80 sample_policy 3]
  by (simp add: policyTarget_def sample_group_def sample_policy_def)

theorem scale_out_lowers_desired_witness:
  "\<exists>d. policyTarget (sample_group\<lparr>asg_DesiredCount := 5, asg_CurrentCount := 1\<rparr>) 80 sample_policy = Some d \<and> d < 5"
  using scale_out_lowers_desired [of sample_policy 80 "sample_group\<lparr>asg_DesiredCount := 5, asg_CurrentCount := 1\<rparr>"]
  by (simp add: sample_group_def sample_policy_def)

theorem backoff_never_applies_witness:
  "reconcileInstances sample_env None sample_group [] =
     bindC (clampDesired sample_group) (\<lambda>grp. if int (length ([] :: uuid list)) < asg_DesiredCount grp
      then scaleOut_loop sample_env None (nat (asg_DesiredCount grp - int (length ([] :: uuid list)))) grp
      else if int (length ([] :: uuid list)) > asg_DesiredCount grp
      then bindC (scaleIn_loop sample_env None grp [] 0 (nat (int (length ([] :: uuid list)) - asg_DesiredCount grp))) (\<lambda>_. returnC grp)
      else returnC grp)"
proof -
  have l: "AutoScalingRepo_ListAllGroups (sample_net\<lparr>t_scaling_groups := [sample_group\<lparr>asg_FailureCount := 7\<rparr>]\<rparr>) =
      (Ok [sample_group], sample_net\<lparr>t_scaling_groups := [sample_group\<lparr>asg_FailureCount := 7\<rparr>]\<rparr>)"
    by (simp add: AutoScalingRepo_ListAllGroups_def run scanGroup_def sample_group_def)
  have "sample_group = sample_group\<lparr>asg_CurrentCount := 0, asg_Version := 1\<rparr>" by (simp add: sample_group_def)
  then show ?thesis by (rule backoff_never_applies [OF l, of sample_group, rotated]) simp
qed

theorem asg_bounds_witness:
  "\<exists>g s. asg_reach sample_env s \<and> t_scaling_groups s = [g] \<and> asg_DesiredCount g \<le> asg_MaxInstances g \<and> asg_MaxInstances g \<le> 20"
proof -
  have "wp (CreateGroup sample_env (Some 1) sample_group_params) (\<lambda>r s'. \<exists>g. t_scaling_groups s' = [g]) sample_net"
    by (auto simp: CreateGroup_def newGroup_def VpcRepository_GetByID_def AutoScalingRepo_CountGroupsByVPC_def AutoScalingRepo_CreateGroup_def
        group_checks_def fk_vpc_def fk_lb_def has_user_def sample_group_params_def MaxInstancesHardLimit_def MaxScalingGroupsPerVPC_def Let_def wps wpnf
        logged_simps simp del: wp_ignoreC intro!: wp_ignore_Log_nf)
  then obtain g where g: "t_scaling_groups (snd (CreateGroup sample_env (Some 1) sample_group_params sample_net)) = [g]"
    by (auto simp: wp_def)
  have r: "asg_reach sample_env (snd (CreateGroup sample_env (Some 1) sample_group_params sample_net))"
    by (intro asg_reach.create asg_reach.empty) simp
  with asg_bounds [OF r] g show ?thesis by (auto simp: MaxInstancesHardLimit_def)
qed

abbreviation uuid_env :: env where
  "uuid_env \<equiv> sample_env\<lparr>uuid_parse := \<lambda>s. Some (word_of_nat (dec_val s))\<rparr>"


end
