(* ===== verification/Users.thy ===== *)
theory Users
  imports World
begin

text \<open>
  Accounts: the user repository \<^verbatim>\<open>user_repo.go\<close>, the API keys (\<^verbatim>\<open>identity_repo.go\<close>, \<^verbatim>\<open>identity.go\<close>) and the
  authentication service \<^verbatim>\<open>auth.go\<close> with its lockout after repeated failures. The two maps of the
  service live in memory (\<open>failedAttempts\<close>, \<open>lockouts\<close> of the world); its mutex makes each of their
  updates one step. Passwords are hashed and compared by the environment's \<open>bcrypt_hash\<close> and
  \<open>bcrypt_match\<close>.
\<close>

section \<open>The user repository\<close>

definition UserRepo_Create :: "User \<Rightarrow> unit op" where
  "UserRepo_Create user =
     mapErrC (\<lambda>e. Errorf ''failed to create user'' (Some e))
       (insertC (\<lambda>s. [(usr_ID user \<in> usr_ID ` set (t_users s), ''users_pkey''),
                      (usr_Email user \<in> usr_Email ` set (t_users s), ''users_email_key'')])
                (\<lambda>s. s\<lparr>t_users := t_users s @ [user]\<rparr>))"

definition UserRepo_GetByEmail :: "string \<Rightarrow> User op" where
  "UserRepo_GetByEmail email =
     mapErrC (\<lambda>e. Errorf ''failed to get user by email'' (Some e))
       (queryRowC (\<lambda>s. find (\<lambda>u. usr_Email u = email) (t_users s)))"

definition UserRepo_GetByID :: "uuid \<Rightarrow> User op" where
  "UserRepo_GetByID i =
     mapErrC (\<lambda>e. Errorf ''failed to get user by ID'' (Some e))
       (queryRowC (\<lambda>s. find (\<lambda>u. usr_ID u = i) (t_users s)))"

definition UserRepo_Update :: "User \<Rightarrow> unit op" where
  "UserRepo_Update user =
     mapErrC (\<lambda>e. Errorf ''failed to update user'' (Some e))
       (bindC (execC (\<lambda>s. [(list_ex (\<lambda>r. usr_ID r = usr_ID user) (t_users s) \<and>
                           list_ex (\<lambda>r. usr_ID r \<noteq> usr_ID user \<and> usr_Email r = usr_Email user) (t_users s), ''users_email_key'')])
                (\<lambda>s. rows_affected (\<lambda>r. usr_ID r = usr_ID user) (t_users s))
                (\<lambda>s. s\<lparr>t_users := upd_where (\<lambda>r. usr_ID r = usr_ID user)
                    (\<lambda>r. r\<lparr>usr_Email := usr_Email user, usr_PasswordHash := usr_PasswordHash user, usr_Name := usr_Name user,
                         usr_Role := usr_Role user, usr_UpdatedAt := usr_UpdatedAt user\<rparr>) (t_users s)\<rparr>))
         (\<lambda>_. returnC ()))"

definition UserRepo_List :: "User list op" where
  "UserRepo_List =
     mapErrC (\<lambda>e. Errorf ''failed to list users'' (Some e))
       (queryC (\<lambda>s. sort_key (\<lambda>u. - usr_CreatedAt u) (t_users s)))"

section \<open>API keys\<close>

text \<open>The zero value of \<^verbatim>\<open>time.Time\<close>, the first instant of year 1: what \<^verbatim>\<open>LastUsed\<close> reads as while the column is
  null, which it always is, as no statement writes it.\<close>

definition time_Zero :: time where
  "time_Zero = - 62135596800 * Second"

definition IdentityRepository_CreateAPIKey :: "APIKey \<Rightarrow> unit op" where
  "IdentityRepository_CreateAPIKey key =
     mapErrC (Wrap Internal ''failed to create api key'')
       (insertC (\<lambda>s. [(key_ID key \<in> key_ID ` set (t_api_keys s), ''api_keys_pkey''),
                      (key_Key key \<in> key_Key ` set (t_api_keys s), ''api_keys_key_key''),
                      (\<not> has_user s (key_UserID key), ''fk_api_keys_user'')])
                (\<lambda>s. s\<lparr>t_api_keys := t_api_keys s @ [key\<lparr>key_LastUsed := time_Zero\<rparr>]\<rparr>))"

text \<open>The error of a row lookup: a missing row and any other error.\<close>

definition key_err :: "error \<Rightarrow> error \<Rightarrow> error" where
  "key_err missing e = (if e = ErrNoRows then missing else Wrap Internal ''failed to get api key'' e)"

definition IdentityRepository_GetAPIKeyByKey :: "string \<Rightarrow> APIKey op" where
  "IdentityRepository_GetAPIKeyByKey keyStr =
     mapErrC (key_err (New Unauthorized ''invalid api key''))
       (queryRowC (\<lambda>s. find (\<lambda>k. key_Key k = keyStr) (t_api_keys s)))"

definition IdentityRepository_GetAPIKeyByID :: "uuid \<Rightarrow> APIKey op" where
  "IdentityRepository_GetAPIKeyByID i =
     mapErrC (key_err (New ObjectNotFound ''api key not found''))
       (queryRowC (\<lambda>s. find (\<lambda>k. key_ID k = i) (t_api_keys s)))"

definition IdentityRepository_ListAPIKeysByUserID :: "uuid \<Rightarrow> APIKey list op" where
  "IdentityRepository_ListAPIKeysByUserID userID =
     mapErrC (Wrap Internal ''failed to list api keys'')
       (queryC (\<lambda>s. filter (\<lambda>k. key_UserID k = userID) (t_api_keys s)))"

definition IdentityRepository_DeleteAPIKey :: "uuid \<Rightarrow> unit op" where
  "IdentityRepository_DeleteAPIKey i =
     mapErrC (Wrap Internal ''failed to delete api key'')
       (bindC (execC noConstraint (\<lambda>s. rows_affected (\<lambda>k. key_ID k = i) (t_api_keys s))
                (\<lambda>s. s\<lparr>t_api_keys := filter (\<lambda>k. key_ID k \<noteq> i) (t_api_keys s)\<rparr>))
         (\<lambda>_. returnC ()))"

definition CreateKey :: "env \<Rightarrow> ctx \<Rightarrow> uuid \<Rightarrow> string \<Rightarrow> APIKey op" where
  "CreateKey E ctx userID name =
     bindC (mapErrC (Wrap Internal ''failed to generate random key'') (randRead E 16)) (\<lambda>b.
     let keyStr = ''thecloud_'' @ hex_EncodeToString b in
     bindC (newUUID E) (\<lambda>i.
     bindC nowC (\<lambda>now.
     let key = \<lparr>key_ID = i, key_UserID = userID, key_Key = keyStr, key_Name = name, key_CreatedAt = now,
                key_LastUsed = time_Zero\<rparr> in
     bindC (IdentityRepository_CreateAPIKey key) (\<lambda>_.
     bindC (metricC (MInc ''APIKeysActive'' [])) (\<lambda>_.
     bindC (ignoreC (Log E ctx userID ''api_key.create'' ''api_key'' (uuid_string E i) [(''name'', GStr name)])) (\<lambda>_.
     returnC key))))))"

definition ValidateAPIKey :: "string \<Rightarrow> APIKey op" where
  "ValidateAPIKey key = IdentityRepository_GetAPIKeyByKey key"

definition ListKeys :: "uuid \<Rightarrow> APIKey list op" where
  "ListKeys userID = IdentityRepository_ListAPIKeysByUserID userID"

definition RevokeKey :: "env \<Rightarrow> ctx \<Rightarrow> uuid \<Rightarrow> uuid \<Rightarrow> unit op" where
  "RevokeKey E ctx userID i =
     bindC (IdentityRepository_GetAPIKeyByID i) (\<lambda>key.
     bindC (guardC (key_UserID key \<noteq> userID) (New Forbidden ''cannot revoke key owned by another user'')) (\<lambda>_.
     bindC (IdentityRepository_DeleteAPIKey i) (\<lambda>_.
     bindC (metricC (MDec ''APIKeysActive'' [])) (\<lambda>_.
     ignoreC (Log E ctx userID ''api_key.revoke'' ''api_key'' (uuid_string E i) [(''name'', GStr (key_Name key))])))))"

text \<open>When the old key cannot be deleted, the rotation still returns the new key.\<close>

definition RotateKey :: "env \<Rightarrow> ctx \<Rightarrow> uuid \<Rightarrow> uuid \<Rightarrow> APIKey op" where
  "RotateKey E ctx userID i =
     bindC (IdentityRepository_GetAPIKeyByID i) (\<lambda>key.
     bindC (guardC (key_UserID key \<noteq> userID) (New Forbidden ''cannot rotate key owned by another user'')) (\<lambda>_.
     bindC (CreateKey E ctx userID (key_Name key @ '' (rotated)'')) (\<lambda>newKey.
     bindC (tryC (IdentityRepository_DeleteAPIKey i)) (\<lambda>r.
     case r of
       Inl _ \<Rightarrow> returnC newKey
     | Inr _ \<Rightarrow>
     bindC (ignoreC (Log E ctx userID ''api_key.rotate'' ''api_key'' (uuid_string E i)
              [(''name'', GStr (key_Name key)), (''new_id'', GStr (uuid_string E (key_ID newKey)))])) (\<lambda>_.
     returnC newKey)))))"

section \<open>Authentication\<close>

definition maxFailedAttempts :: int where
  "maxFailedAttempts = 5"

definition lockoutDuration :: int where
  "lockoutDuration = 15 * Minute"

definition Register :: "env \<Rightarrow> ctx \<Rightarrow> string \<Rightarrow> string \<Rightarrow> string \<Rightarrow> User op" where
  "Register E ctx email password name =
     (case password_validate E password of
        Some msg \<Rightarrow> failC (New InvalidInput (''password is too weak: '' @ msg))
      | None \<Rightarrow>
     bindC (tryC (UserRepo_GetByEmail email)) (\<lambda>existing.
     bindC (guardC (\<not> isl existing) (New InvalidInput ''user with this email already exists'')) (\<lambda>_.
     bindC (mapErrC (\<lambda>e. Errorf ''failed to hash password'' (Some e)) (bcryptC E password)) (\<lambda>hashedPassword.
     bindC (newUUID E) (\<lambda>i.
     bindC nowC (\<lambda>now.
     let user = \<lparr>usr_ID = i, usr_Email = email, usr_PasswordHash = hashedPassword, usr_Name = name, usr_Role = ''user'',
                 usr_CreatedAt = now, usr_UpdatedAt = now\<rparr> in
     bindC (UserRepo_Create user) (\<lambda>_.
     bindC (ignoreC (Log E ctx i ''user.register'' ''user'' (uuid_string E i) [(''email'', GStr email)])) (\<lambda>_.
     returnC user))))))))"

text \<open>\<^verbatim>\<open>s.failedAttempts[email]\<close> reads zero for an absent key.\<close>

definition failures :: "world \<Rightarrow> string \<Rightarrow> int" where
  "failures s email = (case failedAttempts s email of None \<Rightarrow> 0 | Some n \<Rightarrow> n)"

definition incrementFailure :: "string \<Rightarrow> unit op" where
  "incrementFailure email =
     bindC (modifyC (\<lambda>s. s\<lparr>failedAttempts := (failedAttempts s)(email \<mapsto> failures s email + 1)\<rparr>)) (\<lambda>_.
     bindC (metricC (MInc ''AuthAttemptsTotal'' [''failure_incorrect_password''])) (\<lambda>_.
     bindC (getC (\<lambda>s. failures s email)) (\<lambda>n.
     bindC nowC (\<lambda>now.
     whenC (n \<ge> maxFailedAttempts)
       (bindC (modifyC (\<lambda>s. s\<lparr>lockouts := (lockouts s)(email \<mapsto> now + lockoutDuration)\<rparr>)) (\<lambda>_.
        metricC (MInc ''AuthAttemptsTotal'' [''failure_lockout''])))))))"

text \<open>The first critical section of \<^verbatim>\<open>Login\<close>: refuse while locked, clear an expired lock.\<close>

definition checkLockout :: "string \<Rightarrow> unit op" where
  "checkLockout email =
     bindC (getC (\<lambda>s. lockouts s email)) (\<lambda>lockoutTime.
     bindC nowC (\<lambda>now.
     case lockoutTime of
       None \<Rightarrow> returnC ()
     | Some t \<Rightarrow>
         if now < t then failC (New Unauthorized ''account is locked due to too many failed attempts'')
         else modifyC (\<lambda>s. s\<lparr>lockouts := (lockouts s)(email := None), failedAttempts := (failedAttempts s)(email := None)\<rparr>)))"

text \<open>The rest of \<^verbatim>\<open>Login\<close>: look the user up, compare the password, issue a key.\<close>

definition authenticate :: "env \<Rightarrow> ctx \<Rightarrow> string \<Rightarrow> string \<Rightarrow> (User \<times> string) op" where
  "authenticate E ctx email password =
     bindC (tryC (UserRepo_GetByEmail email)) (\<lambda>r.
     case r of
       Inl _ \<Rightarrow>
         bindC (incrementFailure email) (\<lambda>_.
         bindC (metricC (MInc ''AuthAttemptsTotal'' [''failure_not_found''])) (\<lambda>_.
         failC (New Unauthorized ''invalid email or password'')))
     | Inr user \<Rightarrow>
         if \<not> bcrypt_match E (usr_PasswordHash user) password
         then bindC (incrementFailure email) (\<lambda>_. failC (New Unauthorized ''invalid email or password''))
         else
         bindC (modifyC (\<lambda>s. s\<lparr>failedAttempts := (failedAttempts s)(email := None)\<rparr>)) (\<lambda>_.
         bindC (mapErrC (\<lambda>e. Errorf ''failed to create initial API key'' (Some e)) (CreateKey E ctx (usr_ID user) ''Default Key'')) (\<lambda>key.
         bindC (ignoreC (Log E ctx (usr_ID user) ''user.login'' ''user'' (uuid_string E (usr_ID user)) [])) (\<lambda>_.
         bindC (metricC (MInc ''AuthAttemptsTotal'' [''success''])) (\<lambda>_.
         returnC (user, key_Key key))))))"

definition Login :: "env \<Rightarrow> ctx \<Rightarrow> string \<Rightarrow> string \<Rightarrow> (User \<times> string) op" where
  "Login E ctx email password = bindC (checkLockout email) (\<lambda>_. authenticate E ctx email password)"

definition ValidateUser :: "uuid \<Rightarrow> User op" where
  "ValidateUser userID = UserRepo_GetByID userID"

section \<open>The lockout automaton\<close>

text \<open>
  What the two maps of the authentication service promise for one account: it is open with a number of
  failures below five, or locked until an instant. An attempt at an account whose lock has expired
  finds it open without failures; a failed attempt at an open account counts, the fifth one locks.
\<close>

datatype lock_state = Open nat | Locked time

fun lock_expire :: "time \<Rightarrow> lock_state \<Rightarrow> lock_state" where
  "lock_expire now (Open n) = Open n"
| "lock_expire now (Locked t) = (if now < t then Locked t else Open 0)"

fun lock_attempt :: "time \<Rightarrow> bool \<Rightarrow> lock_state \<Rightarrow> lock_state" where
  "lock_attempt now good (Open n) =
     (if good then Open 0 else if Suc n \<ge> 5 then Locked (now + 15 * Minute) else Open (Suc n))"
| "lock_attempt now good (Locked t) = Locked t"

definition lock_step :: "time \<Rightarrow> bool \<Rightarrow> lock_state \<Rightarrow> lock_state" where
  "lock_step now good l = lock_attempt now good (lock_expire now l)"

text \<open>The abstraction of the maps, and the invariant that makes it exact.\<close>

definition lock_abs :: "world \<Rightarrow> string \<Rightarrow> lock_state" where
  "lock_abs s email = (case lockouts s email of Some t \<Rightarrow> Locked t | None \<Rightarrow> Open (nat (failures s email)))"

definition lock_ok :: "time \<Rightarrow> int \<Rightarrow> time option \<Rightarrow> bool" where
  "lock_ok now n lock = (case lock of None \<Rightarrow> 0 \<le> n \<and> n < 5 | Some t \<Rightarrow> n = 5 \<and> t \<le> now + 15 * Minute)"

lemma lock_ok_simps [simp]: "lock_ok now n None \<longleftrightarrow> 0 \<le> n \<and> n < 5" "lock_ok now n (Some t) \<longleftrightarrow> n = 5 \<and> t \<le> now + 15 * Minute"
  by (simp_all add: lock_ok_def)

lemma lock_ok_mono: "lock_ok now n l \<Longrightarrow> now \<le> now' \<Longrightarrow> lock_ok now' n l"
  by (cases l) auto

definition lock_inv :: "world \<Rightarrow> bool" where
  "lock_inv s \<longleftrightarrow> (\<forall>email. lock_ok (clock s) (failures s email) (lockouts s email))"

text \<open>Whether an attempt presents the right password of an account the lookup finds.\<close>

definition presents :: "env \<Rightarrow> world \<Rightarrow> string \<Rightarrow> string \<Rightarrow> bool" where
  "presents E s email password =
     (case fst (UserRepo_GetByEmail email s) of Ok user \<Rightarrow> bcrypt_match E (usr_PasswordHash user) password | _ \<Rightarrow> False)"

inductive auth_reach :: "env \<Rightarrow> world \<Rightarrow> bool" for E where
  init: "failedAttempts s = Map.empty \<Longrightarrow> lockouts s = Map.empty \<Longrightarrow> auth_reach E s"
| login: "auth_reach E s \<Longrightarrow> auth_reach E (snd (Login E ctx email password s))"
| other: "auth_reach E s \<Longrightarrow> failedAttempts s' = failedAttempts s \<Longrightarrow> lockouts s' = lockouts s \<Longrightarrow> clock s \<le> clock s' \<Longrightarrow> auth_reach E s'"

section \<open>Facts\<close>

lemma wp_bcryptC [wpnf]:
  "wp (bcryptC E p) Q s \<longleftrightarrow> (case bcrypt_hash E (rand_ctr s) p of
      None \<Rightarrow> Q (Err (Errorf ''bcrypt: password length exceeds 72 bytes'' None)) s
    | Some h \<Rightarrow> Q (Ok h) (s\<lparr>rand_ctr := Suc (rand_ctr s)\<rparr>))"
  by (simp add: wp_def bcryptC_def split: option.split)

lemma keeps_CreateKey:
  "stable f \<Longrightarrow> (\<And>s x. f (s\<lparr>t_api_keys := x\<rparr>) = f s) \<Longrightarrow> confined (keeps f) (CreateKey E ctx u n)"
  unfolding CreateKey_def IdentityRepository_CreateAPIKey_def by (intro keeps_intros) auto

lemma keeps_GetByEmail [keep]: "stable f \<Longrightarrow> confined (keeps f) (UserRepo_GetByEmail email)"
  unfolding UserRepo_GetByEmail_def by (intro keeps_intros)

lemma GetByEmail_memory [simp]:
  "fst (UserRepo_GetByEmail email (s\<lparr>lockouts := x, failedAttempts := y\<rparr>)) = fst (UserRepo_GetByEmail email s)"
  by (simp add: UserRepo_GetByEmail_def run_mapErrC queryRowC_def extC_def split: list.split option.split)

lemma GetByEmail_snd: "\<exists>fs. snd (UserRepo_GetByEmail email s) = s\<lparr>faults := fs\<rparr>"
proof -
  have "\<exists>fs. snd (queryRowC f s) = s\<lparr>faults := fs\<rparr>" for f :: "world \<Rightarrow> User option"
    by (cases "faults s") (auto simp: queryRowC_def extC_def split: list.split option.split intro: exI [of _ "[]"] dest: faults_self)
  then show ?thesis by (simp add: UserRepo_GetByEmail_def run_mapErrC)
qed

lemma GetByEmail_no_panic: "fst (UserRepo_GetByEmail email s) \<noteq> Panic p"
  by (auto simp: UserRepo_GetByEmail_def run_mapErrC queryRowC_def extC_def split: list.split option.split)

lemma wp_GetByEmail:
  "(\<And>r fs. r = fst (UserRepo_GetByEmail email s) \<Longrightarrow> (\<And>p. r \<noteq> Panic p) \<Longrightarrow> Q r (s\<lparr>faults := fs\<rparr>)) \<Longrightarrow> wp (UserRepo_GetByEmail email) Q s"
  unfolding wp_def using GetByEmail_snd [of email s] GetByEmail_no_panic [of email s] by metis

text \<open>The in-memory state of the service, and the calls that keep it.\<close>

definition auth_memory :: "world \<Rightarrow> time \<times> (string \<Rightarrow> int option) \<times> (string \<Rightarrow> time option)" where
  "auth_memory s = (clock s, failedAttempts s, lockouts s)"

lemma stable_auth_memory [simp]: "stable auth_memory"
  by (simp add: stable_def auth_memory_def)

lemma wp_CreateKey_memory:
  "(\<And>r s'. auth_memory s' = auth_memory s \<Longrightarrow> Q r s') \<Longrightarrow> wp (CreateKey E ctx u n) Q s"
  by (rule wp_confined [OF keeps_CreateKey [of auth_memory]]) (simp_all add: keeps_def auth_memory_def)

lemma wp_Log_memory:
  "(\<And>r s'. auth_memory s' = auth_memory s \<Longrightarrow> Q r s') \<Longrightarrow> wp (Log E ctx u a b c d) Q s"
  by (rule wp_confined [OF keeps_Log [of auth_memory]]) (simp_all add: keeps_def)

lemmas lock_simps = lock_abs_def lock_step_def failures_def maxFailedAttempts_def lockoutDuration_def auth_memory_def

lemma wp_incrementFailure:
  "wp (incrementFailure email) Q s \<longleftrightarrow>
     Q (Ok ()) (if failures s email + 1 \<ge> 5
       then s\<lparr>failedAttempts := (failedAttempts s)(email \<mapsto> failures s email + 1), lockouts := (lockouts s)(email \<mapsto> clock s + 15 * Minute),
              metrics := metrics s @ [MInc ''AuthAttemptsTotal'' [''failure_incorrect_password''], MInc ''AuthAttemptsTotal'' [''failure_lockout'']]\<rparr>
       else s\<lparr>failedAttempts := (failedAttempts s)(email \<mapsto> failures s email + 1),
              metrics := metrics s @ [MInc ''AuthAttemptsTotal'' [''failure_incorrect_password'']]\<rparr>)"
  by (simp add: incrementFailure_def wps wpnf failures_def maxFailedAttempts_def lockoutDuration_def)

text \<open>The effect of an attempt on the memory of the service.\<close>

type_synonym memory = "time \<times> (string \<Rightarrow> int option) \<times> (string \<Rightarrow> time option)"

definition mem_count :: "(string \<Rightarrow> int option) \<Rightarrow> string \<Rightarrow> int" where
  "mem_count fa email = (case fa email of None \<Rightarrow> 0 | Some n \<Rightarrow> n)"

definition mem_try :: "bool \<Rightarrow> string \<Rightarrow> memory \<Rightarrow> memory" where
  "mem_try good email = (\<lambda>(now, fa, lo).
     if good then (now, fa(email := None), lo)
     else (now, fa(email \<mapsto> mem_count fa email + 1), if mem_count fa email + 1 \<ge> 5 then lo(email \<mapsto> now + 15 * Minute) else lo))"

definition mem_step :: "bool \<Rightarrow> string \<Rightarrow> memory \<Rightarrow> memory" where
  "mem_step good email = (\<lambda>(now, fa, lo). case lo email of
      None \<Rightarrow> mem_try good email (now, fa, lo)
    | Some t \<Rightarrow> if now < t then (now, fa, lo) else mem_try good email (now, fa(email := None), lo(email := None)))"

lemma mem_count [simp]: "mem_count (failedAttempts s) = failures s"
  by (simp add: mem_count_def failures_def fun_eq_iff)

lemma wp_authenticate_memory:
  "wp (authenticate E ctx email password) (\<lambda>r s'. auth_memory s' = mem_try (presents E s email password) email (auth_memory s)) s"
proof -
  obtain fs where f: "UserRepo_GetByEmail email s = (fst (UserRepo_GetByEmail email s), s\<lparr>faults := fs\<rparr>)"
    using GetByEmail_snd [of email s] by (metis prod.collapse)
  show ?thesis
  proof (cases "fst (UserRepo_GetByEmail email s)")
    case (Ok user)
    with f have w: "wp (UserRepo_GetByEmail email) Q s = Q (Ok user) (s\<lparr>faults := fs\<rparr>)" for Q by (simp add: wp_def)
    have p: "presents E s email password = bcrypt_match E (usr_PasswordHash user) password" by (simp add: presents_def Ok)
    show ?thesis unfolding authenticate_def wp_bindC wp_tryC w p
      by (simp add: wps wpnf wp_incrementFailure mem_try_def auth_memory_def failures_def)
        (auto simp: wps wpnf auth_memory_def intro!: wp_CreateKey_memory wp_Log_memory split: outcome.splits)
  next
    case (Err e)
    with f have w: "wp (UserRepo_GetByEmail email) Q s = Q (Err e) (s\<lparr>faults := fs\<rparr>)" for Q by (simp add: wp_def)
    have p: "presents E s email password = False" by (simp add: presents_def Err)
    show ?thesis unfolding authenticate_def wp_bindC wp_tryC w p
      by (simp add: wps wpnf wp_incrementFailure mem_try_def auth_memory_def failures_def)
  qed (use GetByEmail_no_panic [of email s] in auto)
qed

lemma presents_memory [simp]: "presents E (s\<lparr>lockouts := x, failedAttempts := y\<rparr>) = presents E s"
  by (simp add: presents_def fun_eq_iff)

lemma wp_Login_memory:
  "wp (Login E ctx email password) (\<lambda>r s'. auth_memory s' = mem_step (presents E s email password) email (auth_memory s)) s"
  using wp_authenticate_memory [of E ctx email password s]
    wp_authenticate_memory [of E ctx email password "s\<lparr>lockouts := (lockouts s)(email := None), failedAttempts := (failedAttempts s)(email := None)\<rparr>"]
  by (simp add: Login_def checkLockout_def wps wpnf mem_step_def auth_memory_def split: option.split)

lemma Login_memory:
  "auth_memory (snd (Login E ctx email password s)) = mem_step (presents E s email password) email (auth_memory s)"
  using wp_Login_memory [of E ctx email password s] by (simp add: wp_def)

text \<open>On the memory, the automaton is exact and the invariant is kept.\<close>

definition mem_abs :: "memory \<Rightarrow> string \<Rightarrow> lock_state" where
  "mem_abs = (\<lambda>(now, fa, lo) email. case lo email of Some t \<Rightarrow> Locked t | None \<Rightarrow> Open (nat (mem_count fa email)))"

definition mem_inv :: "memory \<Rightarrow> bool" where
  "mem_inv = (\<lambda>(now, fa, lo). \<forall>email. lock_ok now (mem_count fa email) (lo email))"

lemma mem_count_upd [simp]: "mem_count (fa(e := x)) e' = (if e' = e then (case x of None \<Rightarrow> 0 | Some n \<Rightarrow> n) else mem_count fa e')"
  by (simp add: mem_count_def)

lemma lock_abs_mem: "lock_abs s = mem_abs (auth_memory s)"
  by (simp add: lock_abs_def mem_abs_def auth_memory_def fun_eq_iff split: option.split)

lemma lock_inv_mem: "lock_inv s = mem_inv (auth_memory s)"
  by (simp add: lock_inv_def mem_inv_def auth_memory_def)

lemma mem_inv_open: "mem_inv (now, fa, lo) \<Longrightarrow> lo email = None \<Longrightarrow> 0 \<le> mem_count fa email \<and> mem_count fa email < 5"
  by (auto simp: mem_inv_def lock_ok_def dest: spec [of _ email])

lemma mem_inv_try: "mem_inv (now, fa, lo) \<Longrightarrow> lo email = None \<Longrightarrow> mem_inv (mem_try good email (now, fa, lo))"
  by (frule (1) mem_inv_open) (auto simp: mem_inv_def mem_try_def)

lemma mem_inv_clear: "mem_inv (now, fa, lo) \<Longrightarrow> mem_inv (now, fa(email := None), lo(email := None))"
  by (auto simp: mem_inv_def)

lemma mem_inv_step: "mem_inv m \<Longrightarrow> mem_inv (mem_step good email m)"
  by (cases m) (auto simp: mem_step_def split: option.splits intro!: mem_inv_try intro: mem_inv_clear)

lemma mem_abs_try:
  assumes "mem_inv (now, fa, lo)" and "lo email = None"
  shows "mem_abs (mem_try good email (now, fa, lo)) email = lock_attempt now good (mem_abs (now, fa, lo) email)"
proof -
  have "0 \<le> mem_count fa email \<and> mem_count fa email < 5"
    using mem_inv_open [OF assms] .
  then show ?thesis
    using assms(2) by (auto simp: mem_abs_def mem_try_def nat_add_distrib)
qed

lemma mem_abs_step:
  "mem_inv (now, fa, lo) \<Longrightarrow> mem_abs (mem_step good email (now, fa, lo)) email = lock_step now good (mem_abs (now, fa, lo) email)"
  using mem_abs_try [OF mem_inv_clear, of now fa lo email email good] mem_abs_try [of now fa lo email good]
  by (auto simp: mem_step_def lock_step_def mem_abs_def mem_count_def split: option.splits)

lemma mem_abs_other: "e \<noteq> email \<Longrightarrow> mem_abs (mem_step good email m) e = mem_abs m e"
  by (cases m) (auto simp: mem_step_def mem_abs_def mem_try_def mem_count_def split: option.splits)

lemma clock_Login: "clock (snd (Login E ctx email password s)) = clock s"
  using Login_memory [of E ctx email password s]
  by (auto simp: auth_memory_def mem_step_def mem_try_def split: option.splits if_splits)

lemma Login_step:
  assumes "lock_inv s"
  shows "lock_inv (snd (Login E ctx email password s)) \<and>
    lock_abs (snd (Login E ctx email password s)) =
      (lock_abs s)(email := lock_step (clock s) (presents E s email password) (lock_abs s email))"
proof -
  have m: "mem_inv (auth_memory s)" using assms by (simp add: lock_inv_mem)
  then have "mem_abs (mem_step g email (auth_memory s)) email = lock_step (clock s) g (mem_abs (auth_memory s) email)" for g
    by (metis mem_abs_step auth_memory_def)
  with m mem_abs_other [of _ email _ "auth_memory s"] show ?thesis
    by (auto simp: lock_inv_mem lock_abs_mem Login_memory fun_eq_iff intro: mem_inv_step)
qed


lemma auth_reach_lock_inv: "auth_reach E s \<Longrightarrow> lock_inv s"
proof (induction rule: auth_reach.induct)
  case (init s)
  then show ?case by (simp add: lock_inv_def lock_ok_def failures_def)
next
  case (login s ctx email password)
  then show ?case by (simp add: Login_step)
next
  case (other s s')
  then show ?case
    unfolding lock_inv_def failures_def by (auto intro: lock_ok_mono)
qed

lemma presents_no_fault:
  "faults s = [] \<Longrightarrow> presents E s email password \<longleftrightarrow>
     (\<exists>user. find (\<lambda>u. usr_Email u = email) (t_users s) = Some user \<and> bcrypt_match E (usr_PasswordHash user) password)"
  by (auto simp: presents_def UserRepo_GetByEmail_def run split: option.split)

lemma Login_wrong_keeps:
  assumes "faults s = []" and "\<not> presents E s email password"
  shows "faults (snd (Login E ctx email password s)) = [] \<and> t_users (snd (Login E ctx email password s)) = t_users s \<and>
    t_api_keys (snd (Login E ctx email password s)) = t_api_keys s \<and> (\<exists>e. fst (Login E ctx email password s) = Err e \<and> Is e Unauthorized)"
proof -
  have "wp (authenticate E ctx email password) (\<lambda>r s'. faults s' = [] \<and> t_users s' = t_users s \<and> t_api_keys s' = t_api_keys s \<and>
      (\<exists>e. r = Err e \<and> Is e Unauthorized)) s1" if "faults s1 = []" "t_users s1 = t_users s" "t_api_keys s1 = t_api_keys s" for s1
    using assms that by (simp add: authenticate_def UserRepo_GetByEmail_def presents_no_fault wps wpnf wp_incrementFailure split: option.split)
  then have "wp (Login E ctx email password) (\<lambda>r s'. faults s' = [] \<and> t_users s' = t_users s \<and> t_api_keys s' = t_api_keys s \<and>
      (\<exists>e. r = Err e \<and> Is e Unauthorized)) s"
    using assms(1) unfolding Login_def by (simp add: checkLockout_def wps wpnf split: option.split)
  then show ?thesis by (simp add: wp_def)
qed

lemma presents_cong: "faults s = [] \<Longrightarrow> faults s' = [] \<Longrightarrow> t_users s' = t_users s \<Longrightarrow> presents E s' = presents E s"
  by (simp add: presents_no_fault fun_eq_iff)

lemma failed_logins:
  assumes "lock_inv s" and "faults s = []" and "\<forall>p \<in> set ps. \<not> presents E s email p"
  shows "let s' = fold (\<lambda>p s. snd (Login E ctx email p s)) ps s in
    lock_inv s' \<and> clock s' = clock s \<and> t_api_keys s' = t_api_keys s \<and>
    lock_abs s' email = (lock_step (clock s) False ^^ length ps) (lock_abs s email)"
  using assms
proof (induction ps arbitrary: s)
  case Nil
  then show ?case by (simp add: Let_def)
next
  case (Cons p ps)
  let ?s = "snd (Login E ctx email p s)"
  have w: "\<not> presents E s email p" using Cons.prems by simp
  note k = Login_wrong_keeps [OF Cons.prems(2) w, of ctx]
  have st: "lock_inv ?s" "lock_abs ?s email = lock_step (clock s) False (lock_abs s email)"
    using Login_step [OF Cons.prems(1), of E ctx email p] w by simp_all
  have p: "\<forall>q \<in> set ps. \<not> presents E ?s email q"
    using Cons.prems(2,3) presents_cong [of s ?s E] k by simp
  show ?case
    using Cons.IH [OF st(1) _ p] k st(2) by (simp add: Let_def clock_Login funpow_swap1)
qed

lemma Minute_pos [simp]: "0 < Minute"
  by (simp add: Minute_def Second_def)

lemma lock_step_locks:
  "n < 5 \<Longrightarrow> (lock_step now False ^^ k) (Open n) = (if n + k < 5 then Open (n + k) else Locked (now + 15 * Minute))"
proof (induction k)
  case (Suc k)
  then show ?case by (auto simp: lock_step_def)
qed simp

lemma Login_locked:
  assumes "lock_abs s email = Locked t" and "clock s < t"
  shows "Login E ctx email password s = (Err (New Unauthorized ''account is locked due to too many failed attempts''), s)"
  using assms by (auto simp: lock_abs_def Login_def checkLockout_def run split: option.splits)

section \<open>Properties\<close>

text \<open>C1. Refinement of the lockout automaton: an attempt to log in, whatever its outcome, takes one step of the
  automaton on its account, driven by the clock and by whether the right password was presented, and
  leaves every other account's state alone.\<close>

theorem Login_refines_lockout:
  assumes "auth_reach E s"
  shows "lock_abs (snd (Login E ctx email password s)) =
    (lock_abs s)(email := lock_step (clock s) (presents E s email password) (lock_abs s email))"
  using Login_step [OF auth_reach_lock_inv [OF assms]] by blast

text \<open>In every reachable state of the authentication service the number of recorded failures of an account
  is at most five, it is five exactly while a lock is recorded, and a lock ends at most fifteen minutes
  ahead.\<close>

theorem lockout_invariant:
  assumes "auth_reach E s"
  shows "(case lockouts s email of None \<Rightarrow> 0 \<le> failures s email \<and> failures s email < maxFailedAttempts
    | Some t \<Rightarrow> failures s email = maxFailedAttempts \<and> t \<le> clock s + lockoutDuration)"
  using auth_reach_lock_inv [OF assms]
  by (auto simp: lock_inv_def lock_ok_def maxFailedAttempts_def lockoutDuration_def split: option.splits dest: spec [of _ email])

text \<open>Five wrong passwords in a row lock the account: from a reachable state in which the account is not
  locked, after five or more failed attempts no password, not even the right one, logs in before
  fifteen minutes have passed, and no attempt issues a key.\<close>

theorem lockout_after_five_failures:
  assumes "auth_reach E s" and "faults s = []" and "lockouts s email = None"
    and "\<forall>p \<in> set ps. \<not> presents E s email p" and "5 \<le> length ps" and "now < clock s + lockoutDuration"
  shows "let s' = (fold (\<lambda>p s. snd (Login E ctx email p s)) ps s)\<lparr>clock := now\<rparr> in
    t_api_keys s' = t_api_keys s \<and>
    Login E ctx email password s' = (Err (New Unauthorized ''account is locked due to too many failed attempts''), s')"
proof -
  let ?s = "fold (\<lambda>p s. snd (Login E ctx email p s)) ps s"
  have inv: "lock_inv s" using assms(1) by (rule auth_reach_lock_inv)
  have "0 \<le> failures s email \<and> failures s email < 5" using inv assms(3) by (auto simp: lock_inv_def dest: spec [of _ email])
  then obtain n where n: "lock_abs s email = Open n" "n < 5" using assms(3) by (auto simp: lock_abs_def nat_less_iff)
  have "t_api_keys ?s = t_api_keys s \<and> lock_abs ?s email = Locked (clock s + 15 * Minute)"
    using failed_logins [OF inv assms(2,4), of ctx] lock_step_locks [OF n(2)] n(1) assms(5) by (simp add: Let_def)
  moreover have "lock_abs (?s\<lparr>clock := now\<rparr>) = lock_abs ?s" by (simp add: lock_abs_def failures_def fun_eq_iff split: option.split)
  ultimately show ?thesis
    using assms(6) by (simp add: Let_def Login_locked lockoutDuration_def)
qed


lemma sample_reach: "auth_reach E sample_world"
  by (rule auth_reach.init) simp_all

theorem Login_refines_lockout_witness:
  "lock_abs (snd (Login sample_env None ''a@x'' ''wrong'' sample_world)) ''a@x'' = Open 1"
  using Login_refines_lockout [OF sample_reach, of sample_env None "''a@x''" "''wrong''"]
  by (simp add: presents_no_fault lock_step_def lock_abs_def failures_def)

theorem lockout_invariant_witness:
  "case lockouts (snd (Login sample_env None ''a@x'' ''wrong'' sample_world)) ''a@x'' of
     None \<Rightarrow> 0 \<le> failures (snd (Login sample_env None ''a@x'' ''wrong'' sample_world)) ''a@x'' \<and>
             failures (snd (Login sample_env None ''a@x'' ''wrong'' sample_world)) ''a@x'' < maxFailedAttempts
   | Some t \<Rightarrow> failures (snd (Login sample_env None ''a@x'' ''wrong'' sample_world)) ''a@x'' = maxFailedAttempts \<and>
             t \<le> clock (snd (Login sample_env None ''a@x'' ''wrong'' sample_world)) + lockoutDuration"
  by (rule lockout_invariant [OF auth_reach.login [OF sample_reach]])

theorem lockout_after_five_failures_witness:
  "fst (Login sample_env None ''a@x'' ''correct horse''
     ((fold (\<lambda>p s. snd (Login sample_env None ''a@x'' p s)) [''1'', ''2'', ''3'', ''4'', ''5''] sample_world)\<lparr>clock := 100\<rparr>)) =
   Err (New Unauthorized ''account is locked due to too many failed attempts'')"
  using lockout_after_five_failures [OF sample_reach, of "''a@x''" "[''1'', ''2'', ''3'', ''4'', ''5'']" sample_env 100 None "''correct horse''"]
  by (simp add: presents_no_fault lockoutDuration_def Minute_def Second_def Let_def)

lemma wp_CreateKey_nf:
  assumes "faults s = []" and "has_user s u" and "uuid_at E (uuid_ctr s) \<notin> key_ID ` set (t_api_keys s)"
    and "''thecloud_'' @ hex_EncodeToString (rand_at E (rand_ctr s) 16) \<notin> key_Key ` set (t_api_keys s)"
    and "\<And>k s'. key_UserID k = u \<Longrightarrow> key_Name k = n \<Longrightarrow> key_ID k = uuid_at E (uuid_ctr s) \<Longrightarrow>
      key_Key k = ''thecloud_'' @ hex_EncodeToString (rand_at E (rand_ctr s) 16) \<Longrightarrow>
      t_api_keys s' = t_api_keys s @ [k] \<Longrightarrow> faults s' = [] \<Longrightarrow> t_users s' = t_users s \<Longrightarrow> auth_memory s' = auth_memory s \<Longrightarrow> Q (Ok k) s'"
  shows "wp (CreateKey E ctx u n) Q s"
  using assms unfolding CreateKey_def IdentityRepository_CreateAPIKey_def
  by (auto simp: wps wpnf Let_def has_user_def logged_simps auth_memory_def simp del: wp_ignoreC intro!: wp_ignore_Log_nf)

text \<open>What the calls of the account services that only log keep.\<close>

definition accounts :: "world \<Rightarrow> memory \<times> User list \<times> APIKey list" where
  "accounts s = (auth_memory s, t_users s, t_api_keys s)"

lemma stable_accounts [simp]: "stable accounts"
  by (simp add: stable_def accounts_def auth_memory_def)

lemma wp_Log_accounts: "(\<And>r s'. accounts s' = accounts s \<Longrightarrow> Q r s') \<Longrightarrow> wp (Log E ctx u a b c d) Q s"
  by (rule wp_confined [OF keeps_Log [of accounts]]) (simp_all add: keeps_def)

lemma wp_newUUID_accounts: "(\<And>i s'. accounts s' = accounts s \<Longrightarrow> Q (Ok i) s') \<Longrightarrow> wp (newUUID E) Q s"
  by (simp add: wpnf accounts_def auth_memory_def)

lemma wp_randRead_accounts:
  "(\<And>e s'. Q (Err e) s') \<Longrightarrow> (\<And>b s'. accounts s' = accounts s \<Longrightarrow> Q (Ok b) s') \<Longrightarrow> wp (randRead E n) Q s"
  unfolding randRead_def by (rule wp_extC) (simp_all add: wp_def accounts_def auth_memory_def)

lemma wp_CreateKey:
  assumes "\<And>e s'. Q (Err e) s'" and "\<And>p s'. Q (Panic p) s'"
    and "\<And>k s'. t_api_keys s' = t_api_keys s @ [k] \<Longrightarrow> key_UserID k = u \<Longrightarrow> auth_memory s' = auth_memory s \<Longrightarrow> t_users s' = t_users s \<Longrightarrow> Q (Ok k) s'"
  shows "wp (CreateKey E ctx u n) Q s"
  unfolding CreateKey_def IdentityRepository_CreateAPIKey_def Let_def
  by (auto simp: wps wp_nowC wp_metricC accounts_def auth_memory_def intro!: wp_randRead_accounts wp_newUUID_accounts wp_insertC wp_Log_accounts assms
      split: outcome.splits)

text \<open>A successful login comes from the right password of an account that is not locked, and the returned key
  is stored for that user: it authenticates its bearer as the user who logged in.\<close>

theorem Login_ok:
  assumes "Login E ctx email password s = (Ok (user, key), s')"
  shows "user \<in> set (t_users s) \<and> usr_Email user = email \<and> bcrypt_match E (usr_PasswordHash user) password \<and>
    (case lockouts s email of None \<Rightarrow> True | Some t \<Rightarrow> t \<le> clock s) \<and> lockouts s' email = None \<and> failures s' email = 0 \<and>
    (\<exists>k \<in> set (t_api_keys s'). key_Key k = key \<and> key_UserID k = usr_ID user)"
proof -
  have "wp (Login E ctx email password) (\<lambda>r s'. r = Ok (user, key) \<longrightarrow> 
    user \<in> set (t_users s) \<and> usr_Email user = email \<and> bcrypt_match E (usr_PasswordHash user) password \<and>
    (case lockouts s email of None \<Rightarrow> True | Some t \<Rightarrow> t \<le> clock s) \<and> lockouts s' email = None \<and> failures s' email = 0 \<and>
    (\<exists>k \<in> set (t_api_keys s'). key_Key k = key \<and> key_UserID k = usr_ID user)) s"
    unfolding Login_def checkLockout_def authenticate_def UserRepo_GetByEmail_def
    by (auto simp: wps wp_nowC wp_metricC wp_incrementFailure accounts_def auth_memory_def failures_def
        intro!: wp_queryRowC wp_CreateKey wp_Log_accounts dest!: find_Some_set split: outcome.splits option.splits)
  then show ?thesis using assms by (simp add: wp_def)
qed

lemma find_key_neq: "x \<notin> key_Key ` set ks \<Longrightarrow> find (\<lambda>k. key_Key k = x) ks = None"
  by (auto simp: find_None_set)

lemma ValidateAPIKey_nf:
  "faults s = [] \<Longrightarrow> ValidateAPIKey x s =
     (case find (\<lambda>k. key_Key k = x) (t_api_keys s) of None \<Rightarrow> (Err (New Unauthorized ''invalid api key''), s) | Some k \<Rightarrow> (Ok k, s))"
  by (simp add: ValidateAPIKey_def IdentityRepository_GetAPIKeyByKey_def run key_err_def split: option.split)

lemma ValidateAPIKey_ok: "ValidateAPIKey x s = (Ok k, s') \<Longrightarrow> k \<in> set (t_api_keys s) \<and> key_Key k = x"
  unfolding ValidateAPIKey_def IdentityRepository_GetAPIKeyByKey_def
  by (auto simp: ok_simps dest!: ok_queryRowC find_Some_set)

text \<open>C11. Registration and login compose: when no call fails, a user who registers with a new e-mail and an acceptable password logs in with the
  same password, and the key this login returns is accepted as a key of that user, provided that no lock is in force for the e-mail. Failed
  logins are counted for e-mails without an account too, so that such a lock may precede the registration. Identifiers and keys are relied on to be
  new, and hashes to match their passwords.\<close>

theorem Register_Login_roundtrip:
  assumes "faults s = []" and "password_validate E password = None" and "email \<notin> usr_Email ` set (t_users s)"
    and "uuid_at E (uuid_ctr s) \<notin> usr_ID ` set (t_users s)" and "\<forall>n. uuid_at E n \<notin> key_ID ` set (t_api_keys s)"
    and "bcrypt_hash E (rand_ctr s) password = Some h" and "bcrypt_match E h password"
    and "''thecloud_'' @ hex_EncodeToString (rand_at E (Suc (rand_ctr s)) 16) \<notin> key_Key ` set (t_api_keys s)"
    and "\<forall>t. lockouts s email = Some t \<longrightarrow> t \<le> clock s"
  shows "\<exists>user s1 key s2 k. Register E ctx email password name s = (Ok user, s1) \<and> usr_Email user = email \<and>
    Login E ctx' email password s1 = (Ok (user, key), s2) \<and>
    ValidateAPIKey key s2 = (Ok k, s2) \<and> key_UserID k = usr_ID user"
proof -
  have find: "find (\<lambda>u. usr_Email u = email) (t_users s) = None" using assms(3) by (auto simp: find_None_set)
  have "wp (Register E ctx email password name) (\<lambda>r s1. \<exists>user. r = Ok user \<and> usr_Email user = email \<and> usr_PasswordHash user = h \<and>
     t_users s1 = t_users s @ [user] \<and> t_api_keys s1 = t_api_keys s \<and> faults s1 = [] \<and> rand_ctr s1 = Suc (rand_ctr s) \<and> auth_memory s1 = auth_memory s) s"
    using assms(1-6) find
    by (auto simp: Register_def UserRepo_GetByEmail_def UserRepo_Create_def Let_def wps wpnf logged_simps auth_memory_def
        simp del: wp_ignoreC intro!: wp_ignore_Log_nf)
  then obtain user s1 where r: "Register E ctx email password name s = (Ok user, s1)"
    and u: "usr_Email user = email" "usr_PasswordHash user = h" "t_users s1 = t_users s @ [user]" "t_api_keys s1 = t_api_keys s"
      "faults s1 = []" "rand_ctr s1 = Suc (rand_ctr s)" "auth_memory s1 = auth_memory s"
    unfolding wp_def by (metis prod.collapse)
  have lo: "\<forall>t. lockouts s1 email = Some t \<longrightarrow> t \<le> clock s1" using u(7) assms(9) by (simp add: auth_memory_def)
  have "wp (Login E ctx' email password) (\<lambda>r s2. \<exists>k. r = Ok (user, key_Key k) \<and> key_UserID k = usr_ID user \<and> faults s2 = [] \<and>
     t_api_keys s2 = t_api_keys s @ [k] \<and> key_Key k = ''thecloud_'' @ hex_EncodeToString (rand_at E (Suc (rand_ctr s)) 16)) s1"
    using u lo find assms(5) [rule_format, of "uuid_ctr s1"] assms(7,8)
    by (cases "lockouts s1 email") (auto simp: Login_def checkLockout_def authenticate_def UserRepo_GetByEmail_def wps wpnf logged_simps has_user_def
        simp del: wp_ignoreC intro!: wp_CreateKey_nf wp_ignore_Log_nf)
  then obtain k s2 where "Login E ctx' email password s1 = (Ok (user, key_Key k), s2)" "key_UserID k = usr_ID user" "faults s2 = []"
     "t_api_keys s2 = t_api_keys s @ [k]" "key_Key k \<notin> key_Key ` set (t_api_keys s)"
    using assms(8) unfolding wp_def by (metis prod.collapse)
  with r u(1) find_key_neq [of "key_Key k" "t_api_keys s"] show ?thesis
    by (auto simp: ValidateAPIKey_nf intro!: exI [of _ user])
qed

theorem Register_Login_roundtrip_witness:
  "\<exists>user s1 key s2 k. Register sample_env None ''c@x'' ''a long password'' ''C'' sample_world = (Ok user, s1) \<and>
    Login sample_env None ''c@x'' ''a long password'' s1 = (Ok (user, key), s2) \<and> ValidateAPIKey key s2 = (Ok k, s2)"
  using Register_Login_roundtrip [of sample_world sample_env "''a long password''" "''c@x''" "''hash:a long password''" None "''C''" None]
  by auto

text \<open>A revocation that reports success removed a key of the caller: exactly the key with that identifier is
  gone, its secret is no longer accepted, and the keys of other users are untouched.\<close>

theorem RevokeKey_ok:
  assumes "RevokeKey E ctx userID i s = (Ok (), s')"
    and "distinct (map key_ID (t_api_keys s))" and "distinct (map key_Key (t_api_keys s))"
  shows "\<exists>k \<in> set (t_api_keys s). key_ID k = i \<and> key_UserID k = userID \<and>
    t_api_keys s' = filter (\<lambda>k. key_ID k \<noteq> i) (t_api_keys s) \<and>
    (\<forall>x. fst (ValidateAPIKey (key_Key k) s') \<noteq> Ok x) \<and>
    others key_UserID userID (t_api_keys s') = others key_UserID userID (t_api_keys s)"
proof -
  have "wp (RevokeKey E ctx userID i) (\<lambda>r s'. r = Ok () \<longrightarrow> (\<exists>k \<in> set (t_api_keys s). key_ID k = i \<and> key_UserID k = userID \<and>
      t_api_keys s' = filter (\<lambda>k. key_ID k \<noteq> i) (t_api_keys s))) s"
    unfolding RevokeKey_def IdentityRepository_GetAPIKeyByID_def IdentityRepository_DeleteAPIKey_def
    by (auto simp: wps wp_metricC accounts_def intro!: wp_queryRowC wp_execC wp_Log_accounts dest!: find_Some_set split: outcome.splits)
  then obtain k where k: "k \<in> set (t_api_keys s)" "key_ID k = i" "key_UserID k = userID"
      and s': "t_api_keys s' = filter (\<lambda>k. key_ID k \<noteq> i) (t_api_keys s)"
    using assms(1) by (auto simp: wp_def)
  have "fst (ValidateAPIKey (key_Key k) s') \<noteq> Ok x" for x
    using ValidateAPIKey_ok [of "key_Key k" s' x "snd (ValidateAPIKey (key_Key k) s')"] s' k assms(3)
    by (metis (mono_tags, lifting) distinct_key_unique mem_Collect_eq prod.collapse set_filter)
  moreover have "others key_UserID userID (t_api_keys s') = others key_UserID userID (t_api_keys s)"
    unfolding s' others_def filter_filter
    by (rule filter_cong) (use k assms(2) in \<open>auto dest: distinct_key_unique\<close>)
  ultimately show ?thesis using k s' by blast
qed


definition sample_key :: APIKey where
  "sample_key = \<lparr>key_ID = 5, key_UserID = 1, key_Key = ''thecloud_x'', key_Name = ''k'', key_CreatedAt = 0, key_LastUsed = time_Zero\<rparr>"

theorem RevokeKey_ok_witness:
  "\<exists>s'. RevokeKey sample_env None 1 5 (sample_world\<lparr>t_api_keys := [sample_key]\<rparr>) = (Ok (), s') \<and> t_api_keys s' = []"
proof -
  let ?s = "sample_world\<lparr>t_api_keys := [sample_key]\<rparr>"
  have "wp (RevokeKey sample_env None 1 5) (\<lambda>r s'. r = Ok ()) ?s"
    by (auto simp: RevokeKey_def IdentityRepository_GetAPIKeyByID_def IdentityRepository_DeleteAPIKey_def wps wpnf sample_key_def
        simp del: wp_ignoreC intro!: wp_ignore_Log_nf)
  then obtain s' where r: "RevokeKey sample_env None 1 5 ?s = (Ok (), s')" unfolding wp_def by (metis prod.collapse)
  with RevokeKey_ok [OF r] show ?thesis by (auto simp: sample_key_def)
qed

text \<open>Rotating a key replaces it: without faults the new secret is accepted for the same user and the old one
  is not accepted any more.\<close>

theorem RotateKey_replaces:
  assumes "faults s = []" and "find (\<lambda>k. key_ID k = i) (t_api_keys s) = Some old" and "key_UserID old = userID" and "has_user s userID"
    and "distinct (map key_Key (t_api_keys s))" and "uuid_at E (uuid_ctr s) \<notin> key_ID ` set (t_api_keys s)"
    and "''thecloud_'' @ hex_EncodeToString (rand_at E (rand_ctr s) 16) \<notin> key_Key ` set (t_api_keys s)"
  shows "\<exists>new s'. RotateKey E ctx userID i s = (Ok new, s') \<and> key_UserID new = userID \<and> key_Name new = key_Name old @ '' (rotated)'' \<and>
    t_api_keys s' = filter (\<lambda>k. key_ID k \<noteq> i) (t_api_keys s) @ [new] \<and>
    ValidateAPIKey (key_Key new) s' = (Ok new, s') \<and>
    ValidateAPIKey (key_Key old) s' = (Err (New Unauthorized ''invalid api key''), s')"
proof -
  have old: "old \<in> set (t_api_keys s)" "key_ID old = i" using assms(2) by (auto dest: find_Some_set)
  have "wp (RotateKey E ctx userID i) (\<lambda>r s'. \<exists>new. r = Ok new \<and> key_UserID new = userID \<and> key_Name new = key_Name old @ '' (rotated)'' \<and>
      key_Key new = ''thecloud_'' @ hex_EncodeToString (rand_at E (rand_ctr s) 16) \<and> faults s' = [] \<and>
      t_api_keys s' = filter (\<lambda>k. key_ID k \<noteq> i) (t_api_keys s) @ [new]) s"
    using assms(1-4,6,7) old
    by (auto simp: RotateKey_def IdentityRepository_GetAPIKeyByID_def IdentityRepository_DeleteAPIKey_def wps wpnf logged_simps image_iff
        simp del: wp_ignoreC intro!: wp_CreateKey_nf wp_ignore_Log_nf)
  then obtain new s' where n: "RotateKey E ctx userID i s = (Ok new, s')" "key_UserID new = userID" "key_Name new = key_Name old @ '' (rotated)''"
      "key_Key new \<notin> key_Key ` set (t_api_keys s)" "faults s' = []" "t_api_keys s' = filter (\<lambda>k. key_ID k \<noteq> i) (t_api_keys s) @ [new]"
    using assms(7) unfolding wp_def by (metis prod.collapse)
  have "key_Key new \<notin> key_Key ` set (filter (\<lambda>k. key_ID k \<noteq> i) (t_api_keys s))" using n(4) by auto
  moreover have "key_Key old \<notin> key_Key ` set (filter (\<lambda>k. key_ID k \<noteq> i) (t_api_keys s))"
    using assms(5) old by (auto dest: distinct_key_unique)
  moreover have "key_Key old \<noteq> key_Key new" using n(4) old(1) by (metis image_eqI)
  ultimately have "ValidateAPIKey (key_Key new) s' = (Ok new, s')" "ValidateAPIKey (key_Key old) s' = (Err (New Unauthorized ''invalid api key''), s')"
    using n(5,6) by (auto simp: ValidateAPIKey_nf find_key_neq)
  with n show ?thesis by blast
qed

theorem RotateKey_replaces_witness:
  "\<exists>new s'. RotateKey sample_env None 1 5 (sample_world\<lparr>t_api_keys := [sample_key]\<rparr>) = (Ok new, s') \<and> t_api_keys s' = [new]"
proof -
  have "length (hex_EncodeToString (replicate 16 (0 :: 8 word))) = 32" by (simp add: length_hex_EncodeToString)
  then have "hex_EncodeToString (replicate 16 0) \<noteq> ''x''" by auto
  then show ?thesis
    using RotateKey_replaces [of "sample_world\<lparr>t_api_keys := [sample_key]\<rparr>" 5 sample_key 1 sample_env None]
    by (auto simp: sample_key_def has_user_def)
qed


theorem Login_ok_witness:
  "\<exists>user key s'. Login sample_env None ''a@x'' ''correct horse'' sample_world = (Ok (user, key), s') \<and> user \<in> set (t_users sample_world) \<and>
     (\<exists>k \<in> set (t_api_keys s'). key_Key k = key \<and> key_UserID k = usr_ID user)"
proof -
  have "wp (Login sample_env None ''a@x'' ''correct horse'') (\<lambda>r s'. \<exists>x. r = Ok x) sample_world"
    by (auto simp: Login_def checkLockout_def authenticate_def UserRepo_GetByEmail_def wps wpnf logged_simps has_user_def
        simp del: wp_ignoreC intro!: wp_CreateKey_nf wp_ignore_Log_nf)
  then obtain user key s' where r: "Login sample_env None ''a@x'' ''correct horse'' sample_world = (Ok (user, key), s')"
    unfolding wp_def by (metis prod.collapse)
  with Login_ok [OF r] show ?thesis by blast
qed

end
