(* ===== verification/PasswordReset.thy ===== *)
theory PasswordReset
  imports Users
begin

text \<open>
  Password reset: the token repository \<^verbatim>\<open>postgres/password_reset.go\<close> and the service \<^verbatim>\<open>password_reset.go\<close>.
  The token is a random string; the table keeps its SHA-256 digest in hexadecimal. Binding a string to
  a column of type \<^verbatim>\<open>uuid\<close> parses it.
\<close>

definition PasswordResetRepository_Create :: "PasswordResetToken \<Rightarrow> unit op" where
  "PasswordResetRepository_Create token =
     insertC (\<lambda>s. [(prt_ID token \<in> prt_ID ` set (t_reset_tokens s), ''password_reset_tokens_pkey''),
                   (prt_TokenHash token \<in> prt_TokenHash ` set (t_reset_tokens s), ''password_reset_tokens_token_hash_key''),
                   (\<not> has_user s (prt_UserID token), ''password_reset_tokens_user_id_fkey'')])
             (\<lambda>s. s\<lparr>t_reset_tokens := t_reset_tokens s @ [token]\<rparr>)"

definition PasswordResetRepository_GetByTokenHash :: "string \<Rightarrow> PasswordResetToken op" where
  "PasswordResetRepository_GetByTokenHash hash =
     mapErrC (\<lambda>e. if e = ErrNoRows then Errorf ''token not found'' None else e)
       (queryRowC (\<lambda>s. find (\<lambda>t. prt_TokenHash t = hash) (t_reset_tokens s)))"

definition PasswordResetRepository_MarkAsUsed :: "env \<Rightarrow> string \<Rightarrow> unit op" where
  "PasswordResetRepository_MarkAsUsed E tokenID =
     (let P = (\<lambda>t. uuid_parse E tokenID = Some (prt_ID t)) in
      bindC (execC (\<lambda>s. [(uuid_parse E tokenID = None, ''invalid input syntax for type uuid'')])
               (\<lambda>s. rows_affected P (t_reset_tokens s))
               (\<lambda>s. s\<lparr>t_reset_tokens := upd_where P (\<lambda>t. t\<lparr>prt_Used := True\<rparr>) (t_reset_tokens s)\<rparr>))
        (\<lambda>_. returnC ()))"

definition PasswordResetRepository_DeleteExpired :: "unit op" where
  "PasswordResetRepository_DeleteExpired =
     bindC nowC (\<lambda>now.
     bindC (execC noConstraint (\<lambda>s. rows_affected (\<lambda>t. prt_ExpiresAt t < now) (t_reset_tokens s))
              (\<lambda>s. s\<lparr>t_reset_tokens := filter (\<lambda>t. \<not> prt_ExpiresAt t < now) (t_reset_tokens s)\<rparr>))
       (\<lambda>_. returnC ()))"

definition tokenDuration :: int where
  "tokenDuration = 60 * Minute"

text \<open>The digest stored for a token.\<close>

definition token_digest :: "env \<Rightarrow> string \<Rightarrow> string" where
  "token_digest E token = hex_EncodeToString (sha256 E token)"

definition RequestReset :: "env \<Rightarrow> string \<Rightarrow> unit op" where
  "RequestReset E email =
     bindC (tryC (UserRepo_GetByEmail email)) (\<lambda>r.
     case r of
       Inl _ \<Rightarrow> returnC ()
     | Inr user \<Rightarrow>
     bindC (mapErrC (\<lambda>e. Errorf ''failed to generate token'' (Some e)) (randRead E 32)) (\<lambda>tokenBytes.
     let token = hex_EncodeToString tokenBytes; hashStr = token_digest E token in
     bindC (newUUID E) (\<lambda>i.
     bindC nowC (\<lambda>now.
     PasswordResetRepository_Create \<lparr>prt_ID = i, prt_UserID = usr_ID user, prt_TokenHash = hashStr,
       prt_ExpiresAt = now + tokenDuration, prt_Used = False, prt_CreatedAt = now\<rparr>))))"

definition ResetPassword :: "env \<Rightarrow> string \<Rightarrow> string \<Rightarrow> unit op" where
  "ResetPassword E token newPassword =
     bindC (mapErrC (\<lambda>_. Errorf ''invalid or expired token'' None)
              (PasswordResetRepository_GetByTokenHash (token_digest E token))) (\<lambda>resetToken.
     bindC (guardC (prt_Used resetToken) (Errorf ''token already used'' None)) (\<lambda>_.
     bindC nowC (\<lambda>now.
     bindC (guardC (now > prt_ExpiresAt resetToken) (Errorf ''token expired'' None)) (\<lambda>_.
     bindC (bcryptC E newPassword) (\<lambda>hashedPassword.
     bindC (UserRepo_GetByID (prt_UserID resetToken)) (\<lambda>user.
     bindC (UserRepo_Update (user\<lparr>usr_PasswordHash := hashedPassword\<rparr>)) (\<lambda>_.
     PasswordResetRepository_MarkAsUsed E (uuid_string E (prt_ID resetToken)))))))))"

section \<open>Facts\<close>

lemma wp_GetByID:
  "(\<And>e s'. Q (Err e) (s\<lparr>faults := s'\<rparr>)) \<Longrightarrow> (\<And>u fs. u \<in> set (t_users s) \<Longrightarrow> usr_ID u = i \<Longrightarrow> Q (Ok u) (s\<lparr>faults := fs\<rparr>)) \<Longrightarrow>
    wp (UserRepo_GetByID i) Q s"
  unfolding UserRepo_GetByID_def by (auto simp: wps intro!: wp_queryRowC dest!: find_Some_set)

lemma wp_GetByTokenHash:
  "(\<And>e fs. Q (Err e) (s\<lparr>faults := fs\<rparr>)) \<Longrightarrow>
   (\<And>t fs. find (\<lambda>t. prt_TokenHash t = h) (t_reset_tokens s) = Some t \<Longrightarrow> Q (Ok t) (s\<lparr>faults := fs\<rparr>)) \<Longrightarrow>
    wp (PasswordResetRepository_GetByTokenHash h) Q s"
  unfolding PasswordResetRepository_GetByTokenHash_def by (auto simp: wps intro!: wp_queryRowC)

lemma ResetPassword_token:
  assumes "ResetPassword E token p s = (Ok (), s')"
  shows "\<exists>t h n. find (\<lambda>t. prt_TokenHash t = token_digest E token) (t_reset_tokens s) = Some t \<and>
    \<not> prt_Used t \<and> clock s \<le> prt_ExpiresAt t \<and> bcrypt_hash E n p = Some h \<and>
    (\<exists>u \<in> set (t_users s). usr_ID u = prt_UserID t \<and> t_users s' = upd_where (\<lambda>r. usr_ID r = prt_UserID t)
       (\<lambda>r. r\<lparr>usr_Email := usr_Email u, usr_PasswordHash := h, usr_Name := usr_Name u, usr_Role := usr_Role u, usr_UpdatedAt := usr_UpdatedAt u\<rparr>) (t_users s)) \<and>
    t_reset_tokens s' = upd_where (\<lambda>r. uuid_parse E (uuid_string E (prt_ID t)) = Some (prt_ID r)) (\<lambda>r. r\<lparr>prt_Used := True\<rparr>) (t_reset_tokens s)"
proof -
  have "wp (ResetPassword E token p) (\<lambda>r s'. r = Ok () \<longrightarrow> (\<exists>t h n. find (\<lambda>t. prt_TokenHash t = token_digest E token) (t_reset_tokens s) = Some t \<and>
    \<not> prt_Used t \<and> clock s \<le> prt_ExpiresAt t \<and> bcrypt_hash E n p = Some h \<and>
    (\<exists>u \<in> set (t_users s). usr_ID u = prt_UserID t \<and> t_users s' = upd_where (\<lambda>r. usr_ID r = prt_UserID t)
       (\<lambda>r. r\<lparr>usr_Email := usr_Email u, usr_PasswordHash := h, usr_Name := usr_Name u, usr_Role := usr_Role u, usr_UpdatedAt := usr_UpdatedAt u\<rparr>) (t_users s)) \<and>
    t_reset_tokens s' = upd_where (\<lambda>r. uuid_parse E (uuid_string E (prt_ID t)) = Some (prt_ID r)) (\<lambda>r. r\<lparr>prt_Used := True\<rparr>) (t_reset_tokens s))) s"
    unfolding ResetPassword_def UserRepo_Update_def PasswordResetRepository_MarkAsUsed_def Let_def
    by (auto simp: wps wp_nowC wp_bcryptC intro!: wp_GetByTokenHash wp_GetByID wp_execC split: outcome.splits option.split) blast
  then show ?thesis using assms by (simp add: wp_def)
qed

section \<open>Properties\<close>

text \<open>A reset that reports success was authorised by a stored token that was neither used nor expired, and sets
  the password of the token's user and of nobody else: the new password matches, every other column of
  every user is as before.\<close>

theorem ResetPassword_ok:
  assumes "ResetPassword E token newPassword s = (Ok (), s')" and "distinct (map usr_ID (t_users s))"
    and "\<forall>n h. bcrypt_hash E n newPassword = Some h \<longrightarrow> bcrypt_match E h newPassword"
  shows "\<exists>t \<in> set (t_reset_tokens s). prt_TokenHash t = token_digest E token \<and> \<not> prt_Used t \<and> clock s \<le> prt_ExpiresAt t \<and>
    (\<exists>h. bcrypt_match E h newPassword \<and>
      t_users s' = upd_where (\<lambda>u. usr_ID u = prt_UserID t) (\<lambda>u. u\<lparr>usr_PasswordHash := h\<rparr>) (t_users s))"
proof -
  obtain t h n u where t: "find (\<lambda>t. prt_TokenHash t = token_digest E token) (t_reset_tokens s) = Some t" "\<not> prt_Used t" "clock s \<le> prt_ExpiresAt t"
      and h: "bcrypt_hash E n newPassword = Some h" and u: "u \<in> set (t_users s)" "usr_ID u = prt_UserID t"
      and s': "t_users s' = upd_where (\<lambda>r. usr_ID r = prt_UserID t)
       (\<lambda>r. r\<lparr>usr_Email := usr_Email u, usr_PasswordHash := h, usr_Name := usr_Name u, usr_Role := usr_Role u, usr_UpdatedAt := usr_UpdatedAt u\<rparr>) (t_users s)"
    using ResetPassword_token [OF assms(1)] by blast
  have "t_users s' = upd_where (\<lambda>u. usr_ID u = prt_UserID t) (\<lambda>u. u\<lparr>usr_PasswordHash := h\<rparr>) (t_users s)"
    unfolding s' upd_where_def by (rule map_cong) (use u assms(2) in \<open>auto dest: distinct_key_unique [OF assms(2) u(1)]\<close>)
  with t h assms(3) show ?thesis by (blast dest: find_Some_set)
qed

text \<open>C35. A token is used at most once: after a successful reset, every further reset with the same token, at
  whatever later time and with whatever password, fails and changes no password.\<close>

theorem ResetPassword_single_use:
  assumes "ResetPassword E token newPassword s = (Ok (), s1)" and "\<forall>u. uuid_parse E (uuid_string E u) = Some u"
    and "t_reset_tokens s2 = t_reset_tokens s1"
  shows "fst (ResetPassword E token p s2) \<noteq> Ok () \<and> t_users (snd (ResetPassword E token p s2)) = t_users s2"
proof -
  obtain t where t: "find (\<lambda>t. prt_TokenHash t = token_digest E token) (t_reset_tokens s) = Some t"
      and s1: "t_reset_tokens s1 = upd_where (\<lambda>r. prt_ID t = prt_ID r) (\<lambda>r. r\<lparr>prt_Used := True\<rparr>) (t_reset_tokens s)"
    using ResetPassword_token [OF assms(1)] assms(2) by auto
  have "find (\<lambda>t. prt_TokenHash t = h) (upd_where P (\<lambda>r. r\<lparr>prt_Used := True\<rparr>) xs) =
      map_option (\<lambda>x. if P x then x\<lparr>prt_Used := True\<rparr> else x) (find (\<lambda>t. prt_TokenHash t = h) xs)" for h P and xs :: "PasswordResetToken list"
    by (rule find_upd_where_key) simp
  with t s1 assms(3) have f: "find (\<lambda>t. prt_TokenHash t = token_digest E token) (t_reset_tokens s2) = Some (t\<lparr>prt_Used := True\<rparr>)" by simp
  have "wp (ResetPassword E token p) (\<lambda>r s'. r \<noteq> Ok () \<and> t_users s' = t_users s2) s2"
    unfolding ResetPassword_def using f by (auto simp: wps intro!: wp_GetByTokenHash)
  then show ?thesis by (simp add: wp_def)
qed

text \<open>A request for an unknown address is indistinguishable from one for a known address by its result:
  without faults it reports success and stores nothing, while for a known address exactly one token,
  unused and valid for an hour, is stored for that user.\<close>

theorem RequestReset_masks:
  assumes "faults s = []"
    and "uuid_at E (uuid_ctr s) \<notin> prt_ID ` set (t_reset_tokens s)"
    and "token_digest E (hex_EncodeToString (rand_at E (rand_ctr s) 32)) \<notin> prt_TokenHash ` set (t_reset_tokens s)"
  shows "fst (RequestReset E email s) = Ok () \<and>
    (case find (\<lambda>u. usr_Email u = email) (t_users s) of
       None \<Rightarrow> snd (RequestReset E email s) = s
     | Some u \<Rightarrow> \<exists>t. t_reset_tokens (snd (RequestReset E email s)) = t_reset_tokens s @ [t] \<and> prt_UserID t = usr_ID u \<and>
         \<not> prt_Used t \<and> prt_ExpiresAt t = clock s + tokenDuration \<and>
         prt_TokenHash t = token_digest E (hex_EncodeToString (rand_at E (rand_ctr s) 32)))"
proof -
  have "has_user s (usr_ID u)" if "find (\<lambda>u. usr_Email u = email) (t_users s) = Some u" for u
    using that by (auto simp: has_user_def list_ex_iff dest: find_Some_set)
  then show ?thesis
    using assms by (auto simp: RequestReset_def UserRepo_GetByEmail_def PasswordResetRepository_Create_def run Let_def has_user_def split: option.splits)
qed


definition sample_token :: PasswordResetToken where
  "sample_token = \<lparr>prt_ID = 9, prt_UserID = 1, prt_TokenHash = token_digest sample_env ''t'', prt_ExpiresAt = 100,
     prt_Used = False, prt_CreatedAt = 0\<rparr>"

text \<open>The sample environment with a rendering of identifiers that is parsed back.\<close>

definition unary_env :: env where
  "unary_env = sample_env\<lparr>uuid_string := (\<lambda>u. replicate (unat u) CHR ''1''), uuid_parse := (\<lambda>t. Some (word_of_nat (length t)))\<rparr>"

lemma unary_env_simps [simp]:
  "uuid_string unary_env u = replicate (unat u) CHR ''1''" "uuid_parse unary_env t = Some (word_of_nat (length t))"
  "bcrypt_hash unary_env = bcrypt_hash sample_env" "bcrypt_match unary_env = bcrypt_match sample_env"
  "token_digest unary_env = token_digest sample_env"
  by (simp_all add: unary_env_def token_digest_def fun_eq_iff)

lemma sample_reset_run:
  "\<exists>s'. ResetPassword unary_env ''t'' ''a new password'' (sample_world\<lparr>t_reset_tokens := [sample_token]\<rparr>) = (Ok (), s')"
proof -
  have "wp (ResetPassword unary_env ''t'' ''a new password'') (\<lambda>r s'. r = Ok ()) (sample_world\<lparr>t_reset_tokens := [sample_token]\<rparr>)"
    by (auto simp: ResetPassword_def PasswordResetRepository_GetByTokenHash_def UserRepo_GetByID_def UserRepo_Update_def
        PasswordResetRepository_MarkAsUsed_def sample_token_def Let_def wps wpnf)
  then show ?thesis unfolding wp_def by (metis prod.collapse)
qed

theorem ResetPassword_ok_witness:
  "\<exists>s' h. ResetPassword unary_env ''t'' ''a new password'' (sample_world\<lparr>t_reset_tokens := [sample_token]\<rparr>) = (Ok (), s') \<and>
     bcrypt_match unary_env h ''a new password'' \<and>
     t_users s' = upd_where (\<lambda>u. usr_ID u = 1) (\<lambda>u. u\<lparr>usr_PasswordHash := h\<rparr>) (t_users sample_world)"
proof -
  obtain s' where r: "ResetPassword unary_env ''t'' ''a new password'' (sample_world\<lparr>t_reset_tokens := [sample_token]\<rparr>) = (Ok (), s')"
    using sample_reset_run by blast
  from ResetPassword_ok [OF r] r show ?thesis by (auto simp: sample_token_def)
qed

theorem ResetPassword_single_use_witness:
  "\<exists>s1. ResetPassword unary_env ''t'' ''a new password'' (sample_world\<lparr>t_reset_tokens := [sample_token]\<rparr>) = (Ok (), s1) \<and>
     fst (ResetPassword unary_env ''t'' ''another'' (s1\<lparr>clock := 5\<rparr>)) \<noteq> Ok ()"
proof -
  obtain s1 where r: "ResetPassword unary_env ''t'' ''a new password'' (sample_world\<lparr>t_reset_tokens := [sample_token]\<rparr>) = (Ok (), s1)"
    using sample_reset_run by blast
  with ResetPassword_single_use [OF r, of "s1\<lparr>clock := 5\<rparr>" "''another''"] show ?thesis by auto
qed

theorem RequestReset_masks_witness:
  "fst (RequestReset sample_env ''nobody@x'' sample_world) = Ok () \<and> snd (RequestReset sample_env ''nobody@x'' sample_world) = sample_world"
  using RequestReset_masks [of sample_world sample_env "''nobody@x''"] by simp

end
