(* ===== verification/Rbac.thy ===== *)
theory Rbac
  imports PasswordReset Transactions
begin

text \<open>
  Role-based access control: the role repository \<^verbatim>\<open>rbac_repo.go\<close> over the tables \<^verbatim>\<open>roles\<close> and \<^verbatim>\<open>role_permissions\<close>,
  whose writes of a role with its permissions are transactions, and the service \<^verbatim>\<open>rbac.go\<close> that decides
  whether a user may act.
\<close>

section \<open>The role repository\<close>

definition insertPermission :: "uuid \<Rightarrow> Permission \<Rightarrow> unit op" where
  "insertPermission roleID p =
     insertC (\<lambda>s. [((roleID, p) \<in> set (t_role_permissions s), ''role_permissions_pkey''),
                   (roleID \<notin> fst ` set (t_roles s), ''role_permissions_role_id_fkey'')])
             (\<lambda>s. s\<lparr>t_role_permissions := t_role_permissions s @ [(roleID, p)]\<rparr>)"

definition RbacRepository_CreateRole :: "Role \<Rightarrow> unit op" where
  "RbacRepository_CreateRole role = txC (
     bindC (insertC (\<lambda>s. [(role_ID role \<in> fst ` set (t_roles s), ''roles_pkey''),
                          (role_Name role \<in> (\<lambda>r. fst (snd r)) ` set (t_roles s), ''roles_name_key'')])
              (\<lambda>s. s\<lparr>t_roles := t_roles s @ [(role_ID role, role_Name role, role_Description role)]\<rparr>)) (\<lambda>_.
     forC (role_Permissions role) (insertPermission (role_ID role))))"

definition RbacRepository_GetPermissionsForRole :: "uuid \<Rightarrow> Permission list op" where
  "RbacRepository_GetPermissionsForRole roleID =
     queryC (\<lambda>s. map snd (filter (\<lambda>rp. fst rp = roleID) (t_role_permissions s)))"

definition withPermissions :: "uuid \<times> string \<times> string \<Rightarrow> Role op" where
  "withPermissions r = (case r of (i, name, descr) \<Rightarrow>
     bindC (RbacRepository_GetPermissionsForRole i) (\<lambda>perms.
     returnC \<lparr>role_ID = i, role_Name = name, role_Description = descr, role_Permissions = perms\<rparr>))"

definition RbacRepository_GetRoleByID :: "uuid \<Rightarrow> Role op" where
  "RbacRepository_GetRoleByID i =
     bindC (queryRowC (\<lambda>s. find (\<lambda>r. fst r = i) (t_roles s))) withPermissions"

definition RbacRepository_GetRoleByName :: "string \<Rightarrow> Role op" where
  "RbacRepository_GetRoleByName name =
     bindC (queryRowC (\<lambda>s. find (\<lambda>r. fst (snd r) = name) (t_roles s))) withPermissions"

definition RbacRepository_ListRoles :: "Role list op" where
  "RbacRepository_ListRoles = bindC (queryC t_roles) (\<lambda>roles. mapC roles withPermissions)"

definition RbacRepository_UpdateRole :: "Role \<Rightarrow> unit op" where
  "RbacRepository_UpdateRole role = txC (
     bindC (execC (\<lambda>s. [(role_ID role \<in> fst ` set (t_roles s) \<and>
                        list_ex (\<lambda>r. fst r \<noteq> role_ID role \<and> fst (snd r) = role_Name role) (t_roles s), ''roles_name_key'')])
              (\<lambda>s. rows_affected (\<lambda>r. fst r = role_ID role) (t_roles s))
              (\<lambda>s. s\<lparr>t_roles := upd_where (\<lambda>r. fst r = role_ID role)
                 (\<lambda>r. (fst r, role_Name role, role_Description role)) (t_roles s)\<rparr>)) (\<lambda>_.
     bindC (execC noConstraint (\<lambda>s. rows_affected (\<lambda>rp. fst rp = role_ID role) (t_role_permissions s))
              (\<lambda>s. s\<lparr>t_role_permissions := filter (\<lambda>rp. fst rp \<noteq> role_ID role) (t_role_permissions s)\<rparr>)) (\<lambda>_.
     forC (role_Permissions role) (insertPermission (role_ID role)))))"

definition RbacRepository_DeleteRole :: "uuid \<Rightarrow> unit op" where
  "RbacRepository_DeleteRole i =
     bindC (execC noConstraint (\<lambda>s. rows_affected (\<lambda>r. fst r = i) (t_roles s))
              (\<lambda>s. if i \<in> fst ` set (t_roles s)
                 then s\<lparr>t_roles := filter (\<lambda>r. fst r \<noteq> i) (t_roles s),
                        t_role_permissions := filter (\<lambda>rp. fst rp \<noteq> i) (t_role_permissions s)\<rparr>
                 else s)) (\<lambda>_. returnC ())"

text \<open>\<^verbatim>\<open>ON CONFLICT DO NOTHING\<close>: an existing pair is not an error.\<close>

definition RbacRepository_AddPermissionToRole :: "uuid \<Rightarrow> Permission \<Rightarrow> unit op" where
  "RbacRepository_AddPermissionToRole roleID p =
     insertC (\<lambda>s. [((roleID, p) \<notin> set (t_role_permissions s) \<and> roleID \<notin> fst ` set (t_roles s), ''role_permissions_role_id_fkey'')])
             (\<lambda>s. if (roleID, p) \<in> set (t_role_permissions s) then s
                  else s\<lparr>t_role_permissions := t_role_permissions s @ [(roleID, p)]\<rparr>)"

definition RbacRepository_RemovePermissionFromRole :: "uuid \<Rightarrow> Permission \<Rightarrow> unit op" where
  "RbacRepository_RemovePermissionFromRole roleID p =
     bindC (execC noConstraint (\<lambda>s. rows_affected (\<lambda>rp. rp = (roleID, p)) (t_role_permissions s))
              (\<lambda>s. s\<lparr>t_role_permissions := filter (\<lambda>rp. rp \<noteq> (roleID, p)) (t_role_permissions s)\<rparr>)) (\<lambda>_. returnC ())"

section \<open>The service\<close>

definition hasDefaultPermission :: "string \<Rightarrow> Permission \<Rightarrow> bool" where
  "hasDefaultPermission roleName permission =
     (if roleName = RoleAdmin then True
      else if roleName = RoleViewer then
        permission = PermissionInstanceRead \<or> permission = PermissionVolumeRead \<or> permission = PermissionVpcRead
      else if roleName = RoleDeveloper then permission \<noteq> PermissionFullAccess
      else False)"

definition HasPermission :: "uuid \<Rightarrow> Permission \<Rightarrow> bool op" where
  "HasPermission userID permission =
     bindC (mapErrC (\<lambda>e. Errorf ''failed to get user'' (Some e)) (UserRepo_GetByID userID)) (\<lambda>user.
     bindC (tryC (RbacRepository_GetRoleByName (usr_Role user))) (\<lambda>r.
     case r of
       Inl _ \<Rightarrow> returnC (hasDefaultPermission (usr_Role user) permission)
     | Inr role \<Rightarrow> returnC (list_ex (\<lambda>p. p = PermissionFullAccess \<or> p = permission) (role_Permissions role))))"

definition Authorize :: "uuid \<Rightarrow> Permission \<Rightarrow> unit op" where
  "Authorize userID permission =
     bindC (HasPermission userID permission) (\<lambda>allowed.
     guardC (\<not> allowed) (New Forbidden (''permission denied: '' @ permission)))"

text \<open>The role passed by reference gets its identifier; the model returns it.\<close>

definition CreateRole :: "env \<Rightarrow> Role \<Rightarrow> Role op" where
  "CreateRole E role =
     bindC (if role_ID role = uuid_Nil then bindC (newUUID E) (\<lambda>i. returnC (role\<lparr>role_ID := i\<rparr>)) else returnC role) (\<lambda>role.
     bindC (RbacRepository_CreateRole role) (\<lambda>_. returnC role))"

definition GetRoleByID :: "uuid \<Rightarrow> Role op" where
  "GetRoleByID i = RbacRepository_GetRoleByID i"

definition GetRoleByName :: "string \<Rightarrow> Role op" where
  "GetRoleByName name = RbacRepository_GetRoleByName name"

definition ListRoles :: "Role list op" where
  "ListRoles = RbacRepository_ListRoles"

definition UpdateRole :: "Role \<Rightarrow> unit op" where
  "UpdateRole role = RbacRepository_UpdateRole role"

definition DeleteRole :: "uuid \<Rightarrow> unit op" where
  "DeleteRole i = RbacRepository_DeleteRole i"

definition AddPermissionToRole :: "uuid \<Rightarrow> Permission \<Rightarrow> unit op" where
  "AddPermissionToRole roleID permission = RbacRepository_AddPermissionToRole roleID permission"

definition RemovePermissionFromRole :: "uuid \<Rightarrow> Permission \<Rightarrow> unit op" where
  "RemovePermissionFromRole roleID permission = RbacRepository_RemovePermissionFromRole roleID permission"

definition BindRole :: "env \<Rightarrow> string \<Rightarrow> string \<Rightarrow> unit op" where
  "BindRole E userIdentifier roleName =
     bindC (mapErrC (\<lambda>e. Errorf (''role '' @ roleName @ '' does not exist'') (Some e)) (RbacRepository_GetRoleByName roleName)) (\<lambda>_.
     bindC (mapErrC (\<lambda>e. Errorf ''user not found'' (Some e))
              (case uuid_parse E userIdentifier of
                 Some userID \<Rightarrow> UserRepo_GetByID userID
               | None \<Rightarrow> UserRepo_GetByEmail userIdentifier)) (\<lambda>user.
     UserRepo_Update (user\<lparr>usr_Role := roleName\<rparr>)))"

definition ListRoleBindings :: "User list op" where
  "ListRoleBindings = UserRepo_List"

section \<open>Facts\<close>

lemma withPermissions_nf:
  "faults s = [] \<Longrightarrow> withPermissions (i, n, d) s =
     (Ok \<lparr>role_ID = i, role_Name = n, role_Description = d, role_Permissions = map snd (filter (\<lambda>rp. fst rp = i) (t_role_permissions s))\<rparr>, s)"
  by (simp add: withPermissions_def RbacRepository_GetPermissionsForRole_def run)

lemma GetRoleByName_nf:
  "faults s = [] \<Longrightarrow> RbacRepository_GetRoleByName name s =
     (case find (\<lambda>r. fst (snd r) = name) (t_roles s) of
        None \<Rightarrow> (Err ErrNoRows, s)
      | Some (i, n, d) \<Rightarrow> (Ok \<lparr>role_ID = i, role_Name = n, role_Description = d,
            role_Permissions = map snd (filter (\<lambda>rp. fst rp = i) (t_role_permissions s))\<rparr>, s))"
  by (auto simp: RbacRepository_GetRoleByName_def run withPermissions_nf split: option.split)

text \<open>The specification of a decision: what the tables say about a user.\<close>

definition permitted :: "world \<Rightarrow> User \<Rightarrow> Permission \<Rightarrow> bool" where
  "permitted s user permission = (case find (\<lambda>r. fst (snd r) = usr_Role user) (t_roles s) of
      None \<Rightarrow> hasDefaultPermission (usr_Role user) permission
    | Some r \<Rightarrow> (fst r, PermissionFullAccess) \<in> set (t_role_permissions s) \<or> (fst r, permission) \<in> set (t_role_permissions s))"

lemma HasPermission_nf:
  "faults s = [] \<Longrightarrow> find (\<lambda>u. usr_ID u = i) (t_users s) = Some user \<Longrightarrow> HasPermission i p s = (Ok (permitted s user p), s)"
  by (auto simp: HasPermission_def UserRepo_GetByID_def run GetRoleByName_nf permitted_def list_ex_iff split: option.split)

lemma ok_insertPermissions:
  "forC ps (insertPermission i) s = (Ok u, s') \<Longrightarrow>
     t_role_permissions s' = t_role_permissions s @ map (Pair i) ps \<and> t_roles s' = t_roles s"
proof (induction ps arbitrary: s)
  case Nil
  then show ?case by (simp add: run)
next
  case (Cons p ps)
  then obtain v s1 where "insertPermission i p s = (Ok v, s1)" and f: "forC ps (insertPermission i) s1 = (Ok u, s')"
    by (auto simp: ok_bindC)
  then obtain fs where "s1 = s\<lparr>faults := fs, t_role_permissions := t_role_permissions s @ [(i, p)]\<rparr>"
    unfolding insertPermission_def by (auto dest!: ok_insertC)
  with Cons.IH [OF f] show ?case by simp
qed

interpretation create_role: atomic "RbacRepository_CreateRole role" for role
  unfolding RbacRepository_CreateRole_def by (rule tx.atomic_axioms)

interpretation update_role: atomic "RbacRepository_UpdateRole role" for role
  unfolding RbacRepository_UpdateRole_def by (rule tx.atomic_axioms)

lemma CreateRole_atomic: "(\<exists>x. fst (CreateRole E role s) = Ok x) \<or> core (snd (CreateRole E role s)) = core s"
proof -
  have "wp (CreateRole E role) (\<lambda>r s'. (\<exists>x. r = Ok x) \<or> core s' = core s) s"
    unfolding CreateRole_def
    by (auto simp: wps wp_newUUID core_eq_iff intro!: create_role.wp_atomic split: outcome.splits)
  then show ?thesis by (simp add: wp_def)
qed

lemma ok_RbacRepository_CreateRole:
  assumes "RbacRepository_CreateRole role s = (Ok u, s')"
  shows "t_roles s' = t_roles s @ [(role_ID role, role_Name role, role_Description role)] \<and>
    t_role_permissions s' = t_role_permissions s @ map (Pair (role_ID role)) (role_Permissions role)"
  using assms unfolding RbacRepository_CreateRole_def
  by (auto simp: ok_bindC dest!: ok_txC ok_insertC ok_insertPermissions)

lemma ok_CreateRole:
  assumes "CreateRole E role s = (Ok r, s')"
  shows "t_roles s' = t_roles s @ [(role_ID r, role_Name role, role_Description role)] \<and>
    t_role_permissions s' = t_role_permissions s @ map (Pair (role_ID r)) (role_Permissions role)"
  using assms unfolding CreateRole_def
  by (auto simp: ok_bindC ok_returnC run_newUUID split: if_splits dest!: ok_RbacRepository_CreateRole)

lemma ok_UpdateRole:
  assumes "RbacRepository_UpdateRole role s = (Ok u, s')"
  shows "t_role_permissions s' = filter (\<lambda>rp. fst rp \<noteq> role_ID role) (t_role_permissions s) @ map (Pair (role_ID role)) (role_Permissions role)"
  using assms unfolding RbacRepository_UpdateRole_def
  by (auto simp: ok_bindC dest!: ok_txC ok_execC ok_insertPermissions)

lemma wp_queryRowC_fault: "faults s = Some msg # fs \<Longrightarrow> wp (queryRowC f) Q s \<longleftrightarrow> Q (Err (ExtError msg)) (s\<lparr>faults := fs\<rparr>)"
  by (simp add: queryRowC_def wp_extC_script)

section \<open>Properties\<close>

text \<open>Authorisation decides by the tables: a known user passes exactly if the user's role is stored with the
  permission or with full access, or the role is not stored and the built-in defaults grant it;
  otherwise the request is refused as forbidden. The decision changes nothing.\<close>

theorem Authorize_decides:
  assumes "faults s = []" and "find (\<lambda>u. usr_ID u = userID) (t_users s) = Some user"
  shows "Authorize userID permission s =
    (if permitted s user permission then Ok () else Err (New Forbidden (''permission denied: '' @ permission)), s)"
  using HasPermission_nf [OF assms] by (simp add: Authorize_def run)

text \<open>Granting and withdrawing: after a permission was added to the role of a user the user passes, and after
  it was removed from a stored role without full access the user is refused.\<close>

theorem permission_grant_withdraw:
  assumes "faults s = []" and "find (\<lambda>u. usr_ID u = userID) (t_users s) = Some user"
    and "find (\<lambda>r. fst (snd r) = usr_Role user) (t_roles s) = Some (i, n, d)"
    and "(i, PermissionFullAccess) \<notin> set (t_role_permissions s)" and "p \<noteq> PermissionFullAccess"
  shows "\<exists>s1 s2. AddPermissionToRole i p s = (Ok (), s1) \<and> fst (Authorize userID p s1) = Ok () \<and>
    RemovePermissionFromRole i p s1 = (Ok (), s2) \<and> fst (Authorize userID p s2) = Err (New Forbidden (''permission denied: '' @ p))"
proof -
  let ?s1 = "s\<lparr>t_role_permissions := if (i, p) \<in> set (t_role_permissions s) then t_role_permissions s else t_role_permissions s @ [(i, p)]\<rparr>"
  let ?s2 = "?s1\<lparr>t_role_permissions := filter (\<lambda>rp. rp \<noteq> (i, p)) (t_role_permissions ?s1)\<rparr>"
  have "i \<in> fst ` set (t_roles s)" using assms(3) by (force dest: find_Some_set)
  then have add: "AddPermissionToRole i p s = (Ok (), ?s1)"
    using assms(1) by (simp add: AddPermissionToRole_def RbacRepository_AddPermissionToRole_def run)
  have remove: "RemovePermissionFromRole i p ?s1 = (Ok (), ?s2)"
    using assms(1) by (simp add: RemovePermissionFromRole_def RbacRepository_RemovePermissionFromRole_def run)
  have perm: "permitted ?s1 user p" "\<not> permitted ?s2 user p"
    using assms(3-5) by (auto simp: permitted_def)
  have "fst (Authorize userID p ?s1) = Ok ()"
    using HasPermission_nf [of ?s1 userID user p] perm(1) assms(1,2) by (simp add: Authorize_def run)
  moreover have "fst (Authorize userID p ?s2) = Err (New Forbidden (''permission denied: '' @ p))"
    using HasPermission_nf [of ?s2 userID user p] perm(2) assms(1,2) by (simp add: Authorize_def run)
  ultimately show ?thesis using add remove by blast
qed

text \<open>C12. Creating and updating a role are all or nothing: a call that fails, at whatever statement, leaves every
  table as it was, and a call that succeeds stores the role with exactly its permissions.\<close>

theorem role_writes_atomic:
  "((\<exists>x. fst (CreateRole E role s) = Ok x) \<or> core (snd (CreateRole E role s)) = core s) \<and>
   ((\<exists>x. fst (UpdateRole role s) = Ok x) \<or> core (snd (UpdateRole role s)) = core s) \<and>
   (CreateRole E role s = (Ok r, s1) \<longrightarrow> t_roles s1 = t_roles s @ [(role_ID r, role_Name role, role_Description role)] \<and>
     t_role_permissions s1 = t_role_permissions s @ map (Pair (role_ID r)) (role_Permissions role)) \<and>
   (UpdateRole role s = (Ok (), s2) \<longrightarrow>
     t_role_permissions s2 = filter (\<lambda>rp. fst rp \<noteq> role_ID role) (t_role_permissions s) @ map (Pair (role_ID role)) (role_Permissions role))"
  unfolding UpdateRole_def
proof (intro conjI CreateRole_atomic update_role.all_or_nothing)
  show "CreateRole E role s = (Ok r, s1) \<longrightarrow> t_roles s1 = t_roles s @ [(role_ID r, role_Name role, role_Description role)] \<and>
     t_role_permissions s1 = t_role_permissions s @ map (Pair (role_ID r)) (role_Permissions role)"
    using ok_CreateRole [of E role s r s1] by (rule impI)
  show "RbacRepository_UpdateRole role s = (Ok (), s2) \<longrightarrow>
     t_role_permissions s2 = filter (\<lambda>rp. fst rp \<noteq> role_ID role) (t_role_permissions s) @ map (Pair (role_ID role)) (role_Permissions role)"
    using ok_UpdateRole [of role s "()" s2] by (rule impI)
qed

theorem role_writes_atomic_witness:
  "\<exists>r s1. CreateRole sample_env \<lparr>role_ID = 5, role_Name = ''ops'', role_Description = [], role_Permissions = [''vpc:read'', ''lb:read'']\<rparr> sample_world =
      (Ok r, s1) \<and> t_roles s1 = [(5, ''ops'', [])] \<and> t_role_permissions s1 = [(5, ''vpc:read''), (5, ''lb:read'')]"
proof -
  let ?role = "\<lparr>role_ID = 5, role_Name = ''ops'', role_Description = [], role_Permissions = [''vpc:read'', ''lb:read'']\<rparr> :: Role"
  have r: "CreateRole sample_env ?role sample_world = (Ok ?role, snd (CreateRole sample_env ?role sample_world))"
    by (simp add: CreateRole_def RbacRepository_CreateRole_def insertPermission_def txC_nf run uuid_Nil_def)
  then show ?thesis
    using role_writes_atomic [of sample_env ?role sample_world ?role "snd (CreateRole sample_env ?role sample_world)"] by auto
qed

text \<open>The decision fails open: when the lookup of a stored role fails for any reason, the built-in default of
  that role name decides, so that a developer whose stored role grants nothing passes every check but
  that for full access while the database is failing.\<close>

theorem HasPermission_fails_open:
  assumes "faults s = [None, Some msg]" and "find (\<lambda>u. usr_ID u = userID) (t_users s) = Some user" and "usr_Role user = RoleDeveloper"
  shows "fst (HasPermission userID permission s) = Ok (permission \<noteq> PermissionFullAccess)"
proof -
  have "wp (HasPermission userID permission) (\<lambda>r s'. r = Ok (permission \<noteq> PermissionFullAccess)) s"
    using assms
    by (simp add: HasPermission_def UserRepo_GetByID_def RbacRepository_GetRoleByName_def hasDefaultPermission_def RoleDeveloper_def
        RoleAdmin_def RoleViewer_def wps wp_script wp_queryRowC_fault)
  then show ?thesis by (simp add: wp_def)
qed


abbreviation sample_roles :: world where
  "sample_roles \<equiv> sample_world\<lparr>t_roles := [(2, ''developer'', [])], t_role_permissions := [(2, ''vpc:read'')]\<rparr>"

theorem Authorize_decides_witness:
  "Authorize 1 ''vpc:read'' sample_roles = (Ok (), sample_roles) \<and>
   fst (Authorize 1 ''vpc:create'' sample_roles) = Err (New Forbidden (''permission denied: '' @ ''vpc:create''))"
  using Authorize_decides [of sample_roles 1 "sample_user 1 ''a@x''" "''vpc:read''"]
    Authorize_decides [of sample_roles 1 "sample_user 1 ''a@x''" "''vpc:create''"]
  by (simp add: permitted_def PermissionFullAccess_def)

theorem permission_grant_withdraw_witness:
  "\<exists>s1 s2. AddPermissionToRole 2 ''vpc:create'' sample_roles = (Ok (), s1) \<and> fst (Authorize 1 ''vpc:create'' s1) = Ok () \<and>
     RemovePermissionFromRole 2 ''vpc:create'' s1 = (Ok (), s2) \<and>
     fst (Authorize 1 ''vpc:create'' s2) = Err (New Forbidden (''permission denied: '' @ ''vpc:create''))"
  by (rule permission_grant_withdraw [of sample_roles 1 "sample_user 1 ''a@x''" 2 "''developer''" "[]" "''vpc:create''"])
    (simp_all add: PermissionFullAccess_def)

theorem HasPermission_fails_open_witness:
  "fst (HasPermission 1 ''db:delete'' (sample_roles\<lparr>faults := [None, Some ''conn closed'']\<rparr>)) = Ok True \<and>
   fst (HasPermission 1 ''db:delete'' sample_roles) = Ok False"
  using HasPermission_fails_open [of "sample_roles\<lparr>faults := [None, Some ''conn closed'']\<rparr>" "''conn closed''" 1 "sample_user 1 ''a@x''" "''db:delete''"]
    HasPermission_nf [of sample_roles 1 "sample_user 1 ''a@x''" "''db:delete''"]
  by (simp add: RoleDeveloper_def PermissionFullAccess_def permitted_def)

end
