(* ===== verification/Frames.thy ===== *)
theory Frames
  imports Transactions
begin

text \<open>
  Relations between states that do not look at the bookkeeping of calls. What such a relation says of a
  command (an invariant is kept, the rows of others stay) has to be shown for the statements that write
  the tables in question only; every other primitive call is confined to it.
\<close>

locale core_frame = frame_rel R for R :: "world \<Rightarrow> world \<Rightarrow> bool" +
  assumes core_R: "core s' = core s \<Longrightarrow> R s s'"
begin

lemma cf_core: "confined (keeps core) m \<Longrightarrow> confined R m"
  by (auto simp: confined_def keeps_def intro: core_R)

lemma cf_ext: "confined R m \<Longrightarrow> confined R (extC m)"
proof (rule confinedI)
  fix s
  assume m: "confined R m"
  have "R s (snd (m (s\<lparr>faults := fs\<rparr>)))" for fs
    using frame_trans [OF core_R confinedD [OF m, of "s\<lparr>faults := fs\<rparr>"]] by simp
  then show "R s (snd (extC m s))"
    using confinedD [OF m, of s] core_R [of "s\<lparr>faults := _\<rparr>" s] by (auto simp: extC_def split: list.split option.split)
qed

lemma cf_exec: "(\<And>s. R s (g s)) \<Longrightarrow> confined R (execC viol n g)"
  unfolding execC_def by (rule cf_ext) (auto simp: confined_def frame_refl split: option.split)

lemma cf_insert: "(\<And>s. R s (g s)) \<Longrightarrow> confined R (insertC viol g)"
  unfolding insertC_def by (intro fr_intros cf_exec)

lemma cf_query: "confined R (queryC f)" "confined R (queryRowC g)"
  by (intro cf_core keep stable_core)+

lemma cf_calls:
  "confined R (newUUID E)" "confined R nowC" "confined R (randRead E n)" "confined R (bcryptC E p)" "confined R (backendC c)"
  "confined R (backendCreateC E c)" "confined R (metricC x)" "confined R (RecordEvent E ctx a b c' d)" "confined R (Log E ctx u a b c' d)"
  by (intro cf_core keep stable_core)+

lemma cf_undo:
  assumes "confined R m"
  shows "confined R (undoC m)"
proof (rule confinedI)
  fix s
  show "R s (snd (undoC m s))"
    using confinedD [OF assms, of s] core_R [OF core_rollback_to] by (simp add: undoC_snd split: outcome.split)
qed

lemma cf_ping: "confined R pingC"
  by (intro cf_core keeps_pingC stable_core)

lemma cf_tx: "confined R m \<Longrightarrow> confined R (txC m)"
  unfolding txC_def by (intro fr_intros cf_undo cf_ping)

lemma cf_go: "(\<And>s. R s (s\<lparr>tasks := tasks s @ [t]\<rparr>)) \<Longrightarrow> confined R (goC t)"
  by (simp add: confined_def goC_def)

lemmas cf_intros = fr_intros cf_exec cf_insert cf_query cf_calls cf_undo cf_ping cf_tx cf_go

end

text \<open>The smallest such relation: nothing but bookkeeping changed.\<close>

interpretation core_keep: core_frame "keeps core"
  by unfold_locales (simp add: keeps_def)

section \<open>Calls of which only the bookkeeping is seen\<close>

text \<open>Rules for every path of the calls whose outcome the services ignore: what follows runs in a state with the
  same core.\<close>

lemma wp_True [simp]: "wp m (\<lambda>_ _. True) s"
  by (simp add: wp_def)

lemma wp_ignore_rel:
  "confined R m \<Longrightarrow> (\<And>p. fst (m s) \<noteq> Panic p) \<Longrightarrow> (\<And>s'. R s s' \<Longrightarrow> Q (Ok ()) s') \<Longrightarrow> wp (ignoreC m) Q s"
  by (auto simp: wp_def ignoreC_def confined_def split: prod.split outcome.split) (metis fst_conv snd_conv)+

lemma wp_ignore_core:
  "confined (keeps core) m \<Longrightarrow> (\<And>p. fst (m s) \<noteq> Panic p) \<Longrightarrow> (\<And>s'. core s' = core s \<Longrightarrow> Q (Ok ()) s') \<Longrightarrow> wp (ignoreC m) Q s"
  by (rule wp_ignore_rel [where R = "keeps core"]) (simp_all add: keeps_def)

lemma no_panic_ext: "(\<And>s' p. fst (m s') \<noteq> Panic p) \<Longrightarrow> fst (extC m s) \<noteq> Panic p"
  by (auto simp: extC_def split: list.split option.split)

lemma no_panic_mapErr [simp]: "fst (mapErrC f m s) = Panic p \<longleftrightarrow> fst (m s) = Panic p"
  by (simp add: mapErrC_def split: prod.split outcome.split)

lemma no_panic_insert: "fst (insertC viol g s) \<noteq> Panic p"
  unfolding insertC_def execC_def bindC_def by (auto simp: extC_def returnC_def split: list.split option.split prod.split outcome.split)

lemma no_panic_calls:
  "fst (backendC c s) \<noteq> Panic p" "fst (RecordEvent E ctx a b c' d s) \<noteq> Panic p" "fst (Log E ctx u a b c' d s) \<noteq> Panic p"
proof -
  show "fst (backendC c s) \<noteq> Panic p" unfolding backendC_def by (rule no_panic_ext) simp
  show "fst (RecordEvent E ctx a b c' d s) \<noteq> Panic p" by (simp add: RecordEvent_def EventRepository_Create_def run no_panic_insert)
  show "fst (Log E ctx u a b c' d s) \<noteq> Panic p" by (simp add: Log_def AuditRepository_Create_def bindC_def run_newUUID run_nowC no_panic_insert)
qed

lemmas wp_ignore_event = wp_ignore_core [OF keeps_RecordEvent [OF stable_core] no_panic_calls(2)]
lemmas wp_ignore_log = wp_ignore_core [OF keeps_Log [OF stable_core] no_panic_calls(3)]
lemmas wp_ignore_backend = wp_ignore_core [OF keeps_backendC [OF stable_core] no_panic_calls(1)]

lemmas wp_ignored = wp_ignore_event wp_ignore_log wp_ignore_backend

lemmas wp_ignored_grow = wp_ignore_rel [OF extends_log(1) no_panic_calls(2)] wp_ignore_rel [OF extends_log(2) no_panic_calls(3)]

lemma wp_ignore_backend_nf: "faults s = [] \<Longrightarrow> Q (Ok ()) (s\<lparr>calls := calls s @ [c]\<rparr>) \<Longrightarrow> wp (ignoreC (backendC c)) Q s"
  unfolding wp_ignoreC by (simp add: wpnf)

section \<open>How many calls may still fail\<close>

definition failing :: "string option list \<Rightarrow> nat" where
  "failing fs = length (filter (\<lambda>f. f \<noteq> None) fs)"

lemma wp_extC_failing:
  "(\<And>msg fs. failing (faults s) = Suc (failing fs) \<Longrightarrow> Q (Err (ExtError msg)) (s\<lparr>faults := fs\<rparr>)) \<Longrightarrow>
   (\<And>fs. failing fs = failing (faults s) \<Longrightarrow> wp m Q (s\<lparr>faults := fs\<rparr>)) \<Longrightarrow> wp (extC m) Q s"
proof -
  assume err: "\<And>msg fs. failing (faults s) = Suc (failing fs) \<Longrightarrow> Q (Err (ExtError msg)) (s\<lparr>faults := fs\<rparr>)"
    and m: "\<And>fs. failing fs = failing (faults s) \<Longrightarrow> wp m Q (s\<lparr>faults := fs\<rparr>)"
  show "wp (extC m) Q s"
  proof (cases "faults s")
    case Nil
    with m [of "[]"] show ?thesis by (simp add: wp_def extC_def faults_self)
  next
    case (Cons f fs)
    with err m [of fs] show ?thesis by (cases f) (auto simp: wp_def extC_def failing_def)
  qed
qed

lemma wp_backendC_failing:
  "(\<And>msg fs. failing (faults s) = Suc (failing fs) \<Longrightarrow> Q (Err (ExtError msg)) (s\<lparr>faults := fs\<rparr>)) \<Longrightarrow>
   (\<And>fs. failing fs = failing (faults s) \<Longrightarrow> Q (Ok ()) (s\<lparr>faults := fs, calls := calls s @ [c]\<rparr>)) \<Longrightarrow> wp (backendC c) Q s"
  unfolding backendC_def by (rule wp_extC_failing) (auto simp: wps)

lemma wp_backendCreateC_failing:
  "(\<And>msg fs. failing (faults s) = Suc (failing fs) \<Longrightarrow> Q (Err (ExtError msg)) (s\<lparr>faults := fs\<rparr>)) \<Longrightarrow>
   (\<And>fs. failing fs = failing (faults s) \<Longrightarrow> Q (Ok (cid_at E (length (calls s)))) (s\<lparr>faults := fs, calls := calls s @ [c]\<rparr>)) \<Longrightarrow>
   wp (backendCreateC E c) Q s"
  unfolding backendCreateC_def by (rule wp_extC_failing) (auto simp: wp_def)

lemma wp_execC_failing:
  "(\<And>msg fs. failing (faults s) = Suc (failing fs) \<Longrightarrow> Q (Err (ExtError msg)) (s\<lparr>faults := fs\<rparr>)) \<Longrightarrow>
   (\<And>fs c. failing fs = failing (faults s) \<Longrightarrow> violated (viol (s\<lparr>faults := fs\<rparr>)) = Some c \<Longrightarrow> Q (Err (Constraint c)) (s\<lparr>faults := fs\<rparr>)) \<Longrightarrow>
   (\<And>fs. failing fs = failing (faults s) \<Longrightarrow> violated (viol (s\<lparr>faults := fs\<rparr>)) = None \<Longrightarrow> Q (Ok (n (s\<lparr>faults := fs\<rparr>))) (f (s\<lparr>faults := fs\<rparr>))) \<Longrightarrow>
   wp (execC viol n f) Q s"
  unfolding execC_def by (rule wp_extC_failing) (auto simp: wp_def split: option.split)

lemma wp_ignore_backend_failing:
  "(\<And>fs. failing (faults s) = Suc (failing fs) \<Longrightarrow> Q (Ok ()) (s\<lparr>faults := fs\<rparr>)) \<Longrightarrow>
   (\<And>fs. failing fs = failing (faults s) \<Longrightarrow> Q (Ok ()) (s\<lparr>faults := fs, calls := calls s @ [c]\<rparr>)) \<Longrightarrow> wp (ignoreC (backendC c)) Q s"
  unfolding wp_ignoreC by (rule wp_backendC_failing) auto

lemma wp_queryRowC_failing:
  "(\<And>msg fs. failing (faults s) = Suc (failing fs) \<Longrightarrow> Q (Err (ExtError msg)) (s\<lparr>faults := fs\<rparr>)) \<Longrightarrow>
   (\<And>fs. f (s\<lparr>faults := fs\<rparr>) = None \<Longrightarrow> Q (Err ErrNoRows) (s\<lparr>faults := fs\<rparr>)) \<Longrightarrow>
   (\<And>fs r. failing fs = failing (faults s) \<Longrightarrow> f (s\<lparr>faults := fs\<rparr>) = Some r \<Longrightarrow> Q (Ok r) (s\<lparr>faults := fs\<rparr>)) \<Longrightarrow> wp (queryRowC f) Q s"
  unfolding queryRowC_def by (rule wp_extC_failing) (auto simp: wp_def split: option.split)

lemma wp_insertC_failing:
  "(\<And>msg fs. failing (faults s) = Suc (failing fs) \<Longrightarrow> Q (Err (ExtError msg)) (s\<lparr>faults := fs\<rparr>)) \<Longrightarrow>
   (\<And>fs c. failing fs = failing (faults s) \<Longrightarrow> violated (viol (s\<lparr>faults := fs\<rparr>)) = Some c \<Longrightarrow> Q (Err (Constraint c)) (s\<lparr>faults := fs\<rparr>)) \<Longrightarrow>
   (\<And>fs. failing fs = failing (faults s) \<Longrightarrow> violated (viol (s\<lparr>faults := fs\<rparr>)) = None \<Longrightarrow> Q (Ok ()) (f (s\<lparr>faults := fs\<rparr>))) \<Longrightarrow>
   wp (insertC viol f) Q s"
  unfolding insertC_def execC_def wp_bindC by (rule wp_extC_failing) (auto simp: wp_def returnC_def split: option.split)

lemmas wp_failing = wp_backendC_failing wp_backendCreateC_failing wp_execC_failing wp_ignore_backend_failing wp_queryRowC_failing wp_insertC_failing

section \<open>Requests of the HTTP client\<close>

definition httpC :: "env \<Rightarrow> string \<Rightarrow> string \<Rightarrow> string \<Rightarrow> (int \<times> string) op" where
  "httpC E meth url body = extC (\<lambda>s. (Ok (http_at E (length (calls s))), s\<lparr>calls := calls s @ [BHttp meth url body]\<rparr>))"

lemma keeps_httpC [keep]: "stable f \<Longrightarrow> confined (keeps f) (httpC E m u b)"
  unfolding httpC_def by (rule keeps_extC) (auto simp: confined_def keeps_def stable_def)

lemma run_httpC [run]:
  "faults s = [] \<Longrightarrow> httpC E m u b s = (Ok (http_at E (length (calls s))), s\<lparr>calls := calls s @ [BHttp m u b]\<rparr>)"
  by (simp add: httpC_def extC_no_fault)

lemma wp_httpC_nf [wpnf]:
  "faults s = [] \<Longrightarrow> wp (httpC E m u b) Q s \<longleftrightarrow> Q (Ok (http_at E (length (calls s)))) (s\<lparr>calls := calls s @ [BHttp m u b]\<rparr>)"
  by (simp add: wp_def run)

end
