(* ===== verification/Snapshots.thy ===== *)
theory Snapshots
  imports Volumes Frames
begin

text \<open>
  Volume snapshots: the repository \<^verbatim>\<open>snapshot_repo.go\<close> and the service \<^verbatim>\<open>snapshot.go\<close>. Taking a snapshot is a goroutine
  that the creation starts; restoring one creates a volume of the backend before the row of the volume is
  written, and removes it again when a later step fails.
\<close>

section \<open>The repository\<close>

definition SnapshotRepository_Create :: "Snapshot \<Rightarrow> unit op" where
  "SnapshotRepository_Create x =
     insertC (\<lambda>s. [(snap_ID x \<in> snap_ID ` set (t_snapshots s), ''snapshots_pkey''),
                   (\<not> has_user s (snap_UserID x), ''snapshots_user_id_fkey''),
                   (\<not> list_ex (\<lambda>v. vol_ID v = snap_VolumeID x) (t_volumes s), ''snapshots_volume_id_fkey'')])
             (\<lambda>s. s\<lparr>t_snapshots := t_snapshots s @ [x]\<rparr>)"

definition SnapshotRepository_GetByID :: "ctx \<Rightarrow> uuid \<Rightarrow> Snapshot op" where
  "SnapshotRepository_GetByID ctx i =
     queryRowC (\<lambda>s. find (\<lambda>r. snap_ID r = i \<and> snap_UserID r = UserIDFromContext ctx) (t_snapshots s))"

definition SnapshotRepository_ListByVolumeID :: "ctx \<Rightarrow> uuid \<Rightarrow> Snapshot list op" where
  "SnapshotRepository_ListByVolumeID ctx volumeID =
     queryC (\<lambda>s. sort_key (\<lambda>r. - snap_CreatedAt r)
       (filter (\<lambda>r. snap_VolumeID r = volumeID \<and> snap_UserID r = UserIDFromContext ctx) (t_snapshots s)))"

definition SnapshotRepository_ListByUserID :: "uuid \<Rightarrow> Snapshot list op" where
  "SnapshotRepository_ListByUserID userID =
     queryC (\<lambda>s. sort_key (\<lambda>r. - snap_CreatedAt r) (filter (\<lambda>r. snap_UserID r = userID) (t_snapshots s)))"

definition SnapshotRepository_Update :: "Snapshot \<Rightarrow> unit op" where
  "SnapshotRepository_Update x =
     (let P = (\<lambda>r. snap_ID r = snap_ID x \<and> snap_UserID r = snap_UserID x) in
     bindC (execC noConstraint (\<lambda>s. rows_affected P (t_snapshots s))
       (\<lambda>s. s\<lparr>t_snapshots := upd_where P (\<lambda>r. r\<lparr>snap_Status := snap_Status x, snap_Description := snap_Description x\<rparr>) (t_snapshots s)\<rparr>))
       (\<lambda>_. returnC ()))"

definition SnapshotRepository_Delete :: "ctx \<Rightarrow> uuid \<Rightarrow> unit op" where
  "SnapshotRepository_Delete ctx i =
     (let P = (\<lambda>r. snap_ID r = i \<and> snap_UserID r = UserIDFromContext ctx) in
     bindC (execC noConstraint (\<lambda>s. rows_affected P (t_snapshots s)) (\<lambda>s. s\<lparr>t_snapshots := filter (\<lambda>r. \<not> P r) (t_snapshots s)\<rparr>))
       (\<lambda>n. guardC (n = 0) (New NotFound ''snapshot not found'')))"

section \<open>The service\<close>

text \<open>The path of a snapshot below the working directory; making it absolute is left out.\<close>

definition snapshotPath :: "env \<Rightarrow> uuid \<Rightarrow> string" where
  "snapshotPath E i = ''thecloud-data/snapshots/'' @ uuid_string E i @ ''.tar.gz''"

definition CreateSnapshot :: "env \<Rightarrow> ctx \<Rightarrow> uuid \<Rightarrow> string \<Rightarrow> Snapshot op" where
  "CreateSnapshot E ctx volumeID description =
     bindC (VolumeRepository_GetByID ctx volumeID) (\<lambda>vol.
     bindC (newUUID E) (\<lambda>i.
     bindC nowC (\<lambda>now.
     let snapshot = \<lparr>snap_ID = i, snap_UserID = UserIDFromContext ctx, snap_VolumeID = volumeID, snap_VolumeName = vol_Name vol,
                     snap_SizeGB = vol_SizeGB vol, snap_Status = SnapshotStatusCreating, snap_Description = description, snap_CreatedAt = now\<rparr> in
     bindC (SnapshotRepository_Create snapshot) (\<lambda>_.
     bindC (goC (TSnapshot vol snapshot)) (\<lambda>_.
     bindC (ignoreC (RecordEvent E ctx ''SNAPSHOT_CREATE'' (uuid_string E i) ''SNAPSHOT'' [(''volume_id'', GStr (uuid_string E volumeID))])) (\<lambda>_.
     bindC (ignoreC (Log E ctx (snap_UserID snapshot) ''snapshot.create'' ''snapshot'' (uuid_string E i)
              [(''volume_id'', GStr (uuid_string E volumeID))])) (\<lambda>_.
     returnC snapshot)))))))"

definition performSnapshot :: "env \<Rightarrow> Volume \<Rightarrow> Snapshot \<Rightarrow> unit op" where
  "performSnapshot E vol snapshot =
     mapErrC (\<lambda>e. Errorf ''failed to create volume snapshot'' (Some e))
       (backendC (BCreateVolumeSnapshot (dockerVolName E (vol_ID vol)) (snapshotPath E (snap_ID snapshot))))"

text \<open>The goroutine.\<close>

definition takeSnapshot :: "env \<Rightarrow> Volume \<Rightarrow> Snapshot \<Rightarrow> unit op" where
  "takeSnapshot E vol snapshot =
     bindC (tryC (performSnapshot E vol snapshot)) (\<lambda>r.
     ignoreC (SnapshotRepository_Update (snapshot\<lparr>snap_Status := (case r of Inl _ \<Rightarrow> SnapshotStatusError | Inr _ \<Rightarrow> SnapshotStatusAvailable)\<rparr>)))"

definition ListSnapshots :: "ctx \<Rightarrow> Snapshot list op" where
  "ListSnapshots ctx = SnapshotRepository_ListByUserID (UserIDFromContext ctx)"

definition GetSnapshot :: "ctx \<Rightarrow> uuid \<Rightarrow> Snapshot op" where
  "GetSnapshot ctx i = SnapshotRepository_GetByID ctx i"

definition DeleteSnapshot :: "env \<Rightarrow> ctx \<Rightarrow> uuid \<Rightarrow> unit op" where
  "DeleteSnapshot E ctx i =
     bindC (SnapshotRepository_GetByID ctx i) (\<lambda>snapshot.
     bindC (ignoreC (backendC (BRemoveFile (snapshotPath E (snap_ID snapshot))))) (\<lambda>_.
     bindC (SnapshotRepository_Delete ctx i) (\<lambda>_.
     bindC (ignoreC (RecordEvent E ctx ''SNAPSHOT_DELETE'' (uuid_string E i) ''SNAPSHOT'' [])) (\<lambda>_.
     ignoreC (Log E ctx (snap_UserID snapshot) ''snapshot.delete'' ''snapshot'' (uuid_string E i) [])))))"

definition RestoreSnapshot :: "env \<Rightarrow> ctx \<Rightarrow> uuid \<Rightarrow> string \<Rightarrow> Volume op" where
  "RestoreSnapshot E ctx snapshotID newVolumeName =
     bindC (SnapshotRepository_GetByID ctx snapshotID) (\<lambda>snapshot.
     bindC (guardC (snap_Status snapshot \<noteq> SnapshotStatusAvailable)
              (New InvalidInput ''cannot restore from snapshot that is not available'')) (\<lambda>_.
     bindC (newUUID E) (\<lambda>i.
     bindC nowC (\<lambda>now.
     let vol = \<lparr>vol_ID = i, vol_UserID = snap_UserID snapshot, vol_Name = newVolumeName, vol_SizeGB = snap_SizeGB snapshot,
                vol_Status = VolumeStatusAvailable, vol_InstanceID = None, vol_MountPath = [], vol_CreatedAt = now, vol_UpdatedAt = now\<rparr>;
         dockerName = dockerVolName E i
     in
     bindC (mapErrC (Wrap Internal ''failed to create docker volume for restore'') (backendC (BCreateVolume dockerName))) (\<lambda>_.
     bindC (tryC (backendC (BRestoreVolumeSnapshot dockerName (snapshotPath E (snap_ID snapshot))))) (\<lambda>r.
     case r of
       Inl err \<Rightarrow> bindC (ignoreC (backendC (BDeleteVolume dockerName))) (\<lambda>_.
                  failC (Errorf ''failed to restore volume snapshot'' (Some err)))
     | Inr _ \<Rightarrow>
     bindC (tryC (VolumeRepository_Create vol)) (\<lambda>r.
     case r of
       Inl err \<Rightarrow> bindC (ignoreC (backendC (BDeleteVolume dockerName))) (\<lambda>_. failC err)
     | Inr _ \<Rightarrow>
     bindC (ignoreC (RecordEvent E ctx ''VOLUME_RESTORE'' (uuid_string E i) ''VOLUME'' [(''snapshot_id'', GStr (uuid_string E snapshotID))])) (\<lambda>_.
     bindC (ignoreC (Log E ctx (vol_UserID vol) ''volume.restore'' ''volume'' (uuid_string E i)
              [(''snapshot_id'', GStr (uuid_string E snapshotID))])) (\<lambda>_.
     returnC vol)))))))))"

section \<open>Facts\<close>

lemma SnapshotRepository_GetByID_ok:
  "SnapshotRepository_GetByID ctx i s = (Ok x, s') \<Longrightarrow>
     x \<in> set (t_snapshots s) \<and> snap_ID x = i \<and> snap_UserID x = UserIDFromContext ctx \<and> t_snapshots s' = t_snapshots s"
  unfolding SnapshotRepository_GetByID_def by (auto dest!: ok_queryRowC find_Some_set)

lemma SnapshotRepository_Delete_ok:
  "SnapshotRepository_Delete ctx i s = (Ok (), s') \<Longrightarrow>
     (\<exists>x \<in> set (t_snapshots s). snap_ID x = i \<and> snap_UserID x = UserIDFromContext ctx) \<and>
     t_snapshots s' = filter (\<lambda>x. \<not> (snap_ID x = i \<and> snap_UserID x = UserIDFromContext ctx)) (t_snapshots s)"
  unfolding SnapshotRepository_Delete_def Let_def by (auto simp: ok_simps rows_simps dest!: ok_execC)

interpretation snap_repo: tenant_repo t_snapshots snap_ID snap_UserID SnapshotRepository_GetByID SnapshotRepository_Delete
  by unfold_locales (fact SnapshotRepository_GetByID_ok SnapshotRepository_Delete_ok)+

text \<open>Which snapshots are reported available: no call but the goroutine's own update adds to them.\<close>

definition available :: "world \<Rightarrow> uuid set" where
  "available s = snap_ID ` set (filter (\<lambda>r. snap_Status r = SnapshotStatusAvailable) (t_snapshots s))"

definition no_new :: "world \<Rightarrow> world \<Rightarrow> bool" where
  "no_new s s' \<longleftrightarrow> available s' \<subseteq> available s"

lemma no_new_same: "t_snapshots s' = t_snapshots s \<Longrightarrow> no_new s s'"
  by (simp add: no_new_def available_def)

interpretation quiet: core_frame no_new
  by unfold_locales (auto simp: no_new_def intro!: no_new_same [unfolded no_new_def] simp: core_eq_iff)

lemma quiet_snapshots:
  "confined no_new (CreateSnapshot E ctx i d)" "confined no_new (DeleteSnapshot E ctx i)" "confined no_new (RestoreSnapshot E ctx i n)"
  "confined no_new (CreateVolume E ctx n k)" "confined no_new (DeleteVolume E ctx n)"
  unfolding CreateSnapshot_def DeleteSnapshot_def RestoreSnapshot_def CreateVolume_def DeleteVolume_def GetVolume_def Let_def
    VolumeRepository_GetByID_def VolumeRepository_GetByName_def VolumeRepository_Create_def VolumeRepository_Delete_def
    SnapshotRepository_Create_def SnapshotRepository_GetByID_def SnapshotRepository_Delete_def
  by (intro quiet.cf_intros; auto simp: no_new_def available_def)+

lemma grow_snapshots:
  "confined extends (CreateSnapshot E ctx i d)" "confined extends (DeleteSnapshot E ctx i)" "confined extends (RestoreSnapshot E ctx i n)"
  "confined extends (CreateVolume E ctx n k)" "confined extends (DeleteVolume E ctx n)"
  unfolding CreateSnapshot_def DeleteSnapshot_def RestoreSnapshot_def CreateVolume_def DeleteVolume_def GetVolume_def Let_def
    VolumeRepository_GetByID_def VolumeRepository_GetByName_def VolumeRepository_Create_def VolumeRepository_Delete_def
    SnapshotRepository_Create_def SnapshotRepository_GetByID_def SnapshotRepository_Delete_def
  by (intro extends_intros grow; simp)+

text \<open>An available snapshot was taken: the backend has written its archive.\<close>

definition taken :: "env \<Rightarrow> world \<Rightarrow> bool" where
  "taken E s \<longleftrightarrow> (\<forall>i \<in> available s. \<exists>n. BCreateVolumeSnapshot n (snapshotPath E i) \<in> set (calls s))"

lemma taken_kept: "confined no_new m \<Longrightarrow> confined extends m \<Longrightarrow> taken E s \<Longrightarrow> taken E (snd (m s))"
  unfolding taken_def confined_def no_new_def by (meson extends_mem subsetD)

lemma taken_takeSnapshot:
  assumes "taken E s"
  shows "taken E (snd (takeSnapshot E vol x s))"
proof -
  have "wp (takeSnapshot E vol x) (\<lambda>r s'. taken E s') s"
    using assms unfolding takeSnapshot_def performSnapshot_def SnapshotRepository_Update_def backendC_def Let_def
    by (auto simp: wps intro!: wp_extC wp_execC) (fastforce simp: taken_def available_def set_upd_where)+
  then show ?thesis by (simp add: wp_snd)
qed

inductive snap_reach :: "env \<Rightarrow> world \<Rightarrow> bool" for E where
  empty: "t_snapshots s = [] \<Longrightarrow> snap_reach E s"
| create: "snap_reach E s \<Longrightarrow> snap_reach E (snd (CreateSnapshot E ctx i d s))"
| take_one: "snap_reach E s \<Longrightarrow> TSnapshot vol x \<in> set (tasks s) \<Longrightarrow>
    snap_reach E (snd (takeSnapshot E vol x (s\<lparr>tasks := remove1 (TSnapshot vol x) (tasks s)\<rparr>)))"
| delete: "snap_reach E s \<Longrightarrow> snap_reach E (snd (DeleteSnapshot E ctx i s))"
| restore: "snap_reach E s \<Longrightarrow> snap_reach E (snd (RestoreSnapshot E ctx i n s))"
| create_volume: "snap_reach E s \<Longrightarrow> snap_reach E (snd (CreateVolume E ctx n k s))"
| delete_volume: "snap_reach E s \<Longrightarrow> snap_reach E (snd (DeleteVolume E ctx n s))"
| env: "snap_reach E s \<Longrightarrow> snap_reach E (s\<lparr>clock := t, faults := fs\<rparr>)"

lemma snap_reach_taken: "snap_reach E s \<Longrightarrow> taken E s"
proof (induction rule: snap_reach.induct)
  case (empty s)
  then show ?case by (simp add: taken_def available_def)
next
  case (take_one s vol x)
  then show ?case by (intro taken_takeSnapshot) (simp add: taken_def available_def)
next
  case (env s t fs)
  then show ?case by (simp add: taken_def available_def)
qed (simp_all add: taken_kept quiet_snapshots grow_snapshots)

section \<open>Properties\<close>

text \<open>C26. A volume is only ever restored from a snapshot that was taken: in every state the service and its goroutines
  reach, with whatever failures, a restoration that succeeds reads an archive the backend has written before.\<close>

theorem restored_snapshot_taken:
  assumes "snap_reach E s" and "RestoreSnapshot E ctx i n s = (Ok vol, s')"
  shows "\<exists>name. BCreateVolumeSnapshot name (snapshotPath E i) \<in> set (calls s) \<and>
    BRestoreVolumeSnapshot (dockerVolName E (vol_ID vol)) (snapshotPath E i) \<in> set (calls s')"
proof -
  have "wp (RestoreSnapshot E ctx i n) (\<lambda>r s'. \<forall>vol. r = Ok vol \<longrightarrow> i \<in> available s \<and>
      BRestoreVolumeSnapshot (dockerVolName E (vol_ID vol)) (snapshotPath E i) \<in> set (calls s')) s"
    unfolding RestoreSnapshot_def SnapshotRepository_GetByID_def VolumeRepository_Create_def backendC_def Let_def
    by (auto simp: wps wp_newUUID wp_nowC available_def extends_mem simp del: wp_ignoreC intro!: wp_queryRowC wp_extC wp_insertC wp_ignored_grow
        dest!: find_Some_set split: outcome.split)
  then show ?thesis using assms snap_reach_taken [OF assms(1)] by (auto simp: wp_def taken_def)
qed

text \<open>A restoration that fails leaves nothing behind: if no more than one call fails, be it by a fault or because the row of the
  volume is rejected, the volumes are as they were, and a volume that was created in the backend has been deleted
  from it again.\<close>

theorem restore_cleans_up:
  assumes "failing (faults s) \<le> (if n \<in> vol_Name ` set (t_volumes s) \<or> uuid_at E (uuid_ctr s) \<in> vol_ID ` set (t_volumes s) \<or>
      \<not> has_user s (UserIDFromContext ctx) then 0 else 1)" and "RestoreSnapshot E ctx i n s = (Err e, s')"
  shows "t_volumes s' = t_volumes s \<and>
    (calls s' = calls s \<or> (\<exists>vol cs. calls s' = calls s @ BCreateVolume vol # cs @ [BDeleteVolume vol]))"
proof -
  have "wp (RestoreSnapshot E ctx i n) (\<lambda>r s'. \<forall>e. r = Err e \<longrightarrow> t_volumes s' = t_volumes s \<and>
    (calls s' = calls s \<or> (\<exists>vol cs. calls s' = calls s @ BCreateVolume vol # cs @ [BDeleteVolume vol]))) s"
    using assms(1) unfolding RestoreSnapshot_def SnapshotRepository_GetByID_def VolumeRepository_Create_def Let_def
    by (auto simp: wps wp_newUUID wp_nowC fk_instance_def has_user_def simp del: wp_ignoreC intro!: wp_failing wp_ignore_event wp_ignore_log
        dest!: find_Some_set split: outcome.split if_splits)
  with assms(2) show ?thesis by (simp add: wp_def)
qed

section \<open>Witnesses\<close>

definition sample_snapshot :: Snapshot where
  "sample_snapshot = \<lparr>snap_ID = 75, snap_UserID = 1, snap_VolumeID = 7, snap_VolumeName = ''v1'', snap_SizeGB = 10,
     snap_Status = SnapshotStatusAvailable, snap_Description = [], snap_CreatedAt = 0\<rparr>"

theorem restore_cleans_up_witness:
  "\<exists>e s'. RestoreSnapshot sample_env (Some 1) 75 ''v2'' (sample_world\<lparr>t_snapshots := [sample_snapshot], faults := [None, None, Some ''disk full'']\<rparr>) = (Err e, s') \<and>
     t_volumes s' = [] \<and> (calls s' = [] \<or> (\<exists>vol cs. calls s' = BCreateVolume vol # cs @ [BDeleteVolume vol]))"
proof -
  let ?s = "sample_world\<lparr>t_snapshots := [sample_snapshot], faults := [None, None, Some ''disk full'']\<rparr>"
  obtain e s' where r: "RestoreSnapshot sample_env (Some 1) 75 ''v2'' ?s = (Err e, s')"
    by (simp add: RestoreSnapshot_def SnapshotRepository_GetByID_def queryRowC_def backendC_def extC_def bindC_def guardC_def
        run_newUUID run_nowC mapErrC_def tryC_def sample_snapshot_def Let_def failC_def returnC_def modifyC_def ignoreC_def)
  with restore_cleans_up [OF _ r] show ?thesis by (auto simp: failing_def has_user_def)
qed

theorem restored_snapshot_taken_witness:
  "\<exists>s vol s'. snap_reach sample_env s \<and> RestoreSnapshot sample_env (Some 1) 100 ''v2'' s = (Ok vol, s') \<and>
     BRestoreVolumeSnapshot (dockerVolName sample_env (vol_ID vol)) (snapshotPath sample_env 100) \<in> set (calls s')"
proof -
  let ?s0 = "sample_world\<lparr>t_volumes := [sample_volume VolumeStatusAvailable]\<rparr>"
  let ?s1 = "snd (CreateSnapshot sample_env (Some 1) 7 [] ?s0)"
  let ?x = "\<lparr>snap_ID = 100, snap_UserID = 1, snap_VolumeID = 7, snap_VolumeName = ''v1'', snap_SizeGB = 10,
     snap_Status = SnapshotStatusCreating, snap_Description = [], snap_CreatedAt = 0\<rparr>"
  let ?t = "TSnapshot (sample_volume VolumeStatusAvailable) ?x"
  let ?s2 = "snd (takeSnapshot sample_env (sample_volume VolumeStatusAvailable) ?x (?s1\<lparr>tasks := remove1 ?t (tasks ?s1)\<rparr>))"
  have s1: "tasks ?s1 = [?t]" "t_snapshots ?s1 = [?x]" "faults ?s1 = []" "calls ?s1 = []" "t_volumes ?s1 = t_volumes ?s0" "t_users ?s1 = t_users sample_world"
      "uuid_ctr ?s1 = 3"
    by (simp_all add: CreateSnapshot_def VolumeRepository_GetByID_def SnapshotRepository_Create_def RecordEvent_def EventRepository_Create_def
        Log_def AuditRepository_Create_def run sample_volume_def has_user_def Let_def)
  have s2: "t_snapshots ?s2 = [?x\<lparr>snap_Status := SnapshotStatusAvailable\<rparr>]" "faults ?s2 = []" "t_volumes ?s2 = t_volumes ?s0" "t_users ?s2 = t_users sample_world"
      "uuid_ctr ?s2 = 3"
    using s1 by (simp_all add: takeSnapshot_def performSnapshot_def SnapshotRepository_Update_def run Let_def)
  have r: "snap_reach sample_env ?s2"
    using s1(1) by (intro snap_reach.take_one snap_reach.create snap_reach.empty) simp_all
  have "\<exists>vol s'. RestoreSnapshot sample_env (Some 1) 100 ''v2'' ?s2 = (Ok vol, s')"
    using s2 by (simp add: RestoreSnapshot_def SnapshotRepository_GetByID_def VolumeRepository_Create_def run Let_def sample_volume_def has_user_def
        fk_instance_def RecordEvent_def EventRepository_Create_def Log_def AuditRepository_Create_def split: option.split)
  then obtain vol s' where v: "RestoreSnapshot sample_env (Some 1) 100 ''v2'' ?s2 = (Ok vol, s')" by blast
  show ?thesis using r v restored_snapshot_taken [OF r v] by blast
qed

end
