(* ===== verification/Stacks.thy ===== *)
theory Stacks
  imports Instances Snapshots
begin

text \<open>
  Stacks: the repository \<^verbatim>\<open>stack_repo.go\<close> and the service \<^verbatim>\<open>stack.go\<close>, which creates the resources of a template in a goroutine, in passes by
  type, through the services of the networks, volumes, instances and snapshots, and deletes them again in reverse order when one of them fails.
\<close>

section \<open>The repository\<close>

definition stackRepository_Create :: "Stack \<Rightarrow> unit op" where
  "stackRepository_Create x =
     insertC (\<lambda>s. [(stk_ID x \<in> stk_ID ` set (t_stacks s), ''stacks_pkey''),
                   ((stk_UserID x, stk_Name x) \<in> (\<lambda>r. (stk_UserID r, stk_Name r)) ` set (t_stacks s), ''stacks_user_id_name_key''),
                   (\<not> has_user s (stk_UserID x), ''stacks_user_id_fkey'')])
             (\<lambda>s. s\<lparr>t_stacks := t_stacks s @ [x\<lparr>stk_StatusReason := None, stk_Resources := []\<rparr>]\<rparr>)"

text \<open>The reason is scanned into a \<^verbatim>\<open>string\<close>, which a NULL cannot be. No order is asked of the resources: they come as they were added.\<close>

definition scanStack :: "Stack \<Rightarrow> Stack op" where
  "scanStack x = (if stk_StatusReason x = None then failC (ExtError ''cannot scan NULL into *string'') else returnC x)"

definition stackRepository_ListResources :: "uuid \<Rightarrow> StackResource list op" where
  "stackRepository_ListResources stackID = queryC (\<lambda>s. filter (\<lambda>r. sr_StackID r = stackID) (t_stack_resources s))"

definition stackRepository_GetByID :: "uuid \<Rightarrow> Stack op" where
  "stackRepository_GetByID i =
     bindC (queryRowC (\<lambda>s. find (\<lambda>r. stk_ID r = i) (t_stacks s))) (\<lambda>row.
     bindC (scanStack row) (\<lambda>x.
     bindC (tryC (stackRepository_ListResources i)) (\<lambda>r.
     returnC (case r of Inl _ \<Rightarrow> x | Inr resources \<Rightarrow> x\<lparr>stk_Resources := resources\<rparr>))))"

definition stackRepository_GetByName :: "uuid \<Rightarrow> string \<Rightarrow> Stack op" where
  "stackRepository_GetByName userID name =
     bindC (queryRowC (\<lambda>s. find (\<lambda>r. stk_UserID r = userID \<and> stk_Name r = name) (t_stacks s))) scanStack"

definition stackRepository_ListByUserID :: "uuid \<Rightarrow> Stack list op" where
  "stackRepository_ListByUserID userID =
     bindC (queryC (\<lambda>s. sort_key (\<lambda>r. - stk_CreatedAt r) (filter (\<lambda>r. stk_UserID r = userID) (t_stacks s)))) (\<lambda>rows.
     mapC rows scanStack)"

definition stackRepository_Update :: "Stack \<Rightarrow> unit op" where
  "stackRepository_Update x =
     (let P = (\<lambda>r. stk_ID r = stk_ID x) in
     bindC (execC noConstraint (\<lambda>s. rows_affected P (t_stacks s))
       (\<lambda>s. s\<lparr>t_stacks := upd_where P (\<lambda>r. r\<lparr>stk_Status := stk_Status x, stk_StatusReason := stk_StatusReason x, stk_UpdatedAt := stk_UpdatedAt x\<rparr>)
                (t_stacks s)\<rparr>)) (\<lambda>_. returnC ()))"

definition stackRepository_Delete :: "uuid \<Rightarrow> unit op" where
  "stackRepository_Delete i =
     bindC (execC noConstraint (\<lambda>s. rows_affected (\<lambda>r. stk_ID r = i) (t_stacks s))
       (\<lambda>s. s\<lparr>t_stacks := filter (\<lambda>r. stk_ID r \<noteq> i) (t_stacks s), t_stack_resources := filter (\<lambda>r. sr_StackID r \<noteq> i) (t_stack_resources s)\<rparr>))
       (\<lambda>_. returnC ())"

definition stackRepository_AddResource :: "StackResource \<Rightarrow> unit op" where
  "stackRepository_AddResource res =
     insertC (\<lambda>s. [(sr_ID res \<in> sr_ID ` set (t_stack_resources s), ''stack_resources_pkey''),
                   ((sr_StackID res, sr_LogicalID res) \<in> (\<lambda>r. (sr_StackID r, sr_LogicalID r)) ` set (t_stack_resources s),
                      ''stack_resources_stack_id_logical_id_key''),
                   (\<not> list_ex (\<lambda>x. stk_ID x = sr_StackID res) (t_stacks s), ''stack_resources_stack_id_fkey'')])
             (\<lambda>s. s\<lparr>t_stack_resources := t_stack_resources s @ [res]\<rparr>)"

definition stackRepository_DeleteResources :: "uuid \<Rightarrow> unit op" where
  "stackRepository_DeleteResources stackID =
     bindC (execC noConstraint (\<lambda>s. rows_affected (\<lambda>r. sr_StackID r = stackID) (t_stack_resources s))
       (\<lambda>s. s\<lparr>t_stack_resources := filter (\<lambda>r. sr_StackID r \<noteq> stackID) (t_stack_resources s)\<rparr>)) (\<lambda>_. returnC ())"

section \<open>The service\<close>

type_synonym props = "(string \<times> yval) list"
type_synonym refs = "string \<rightharpoonup> uuid"

definition CreateStack :: "env \<Rightarrow> ctx \<Rightarrow> string \<Rightarrow> string \<Rightarrow> (string \<times> string) list \<Rightarrow> Stack op" where
  "CreateStack E ctx name templateStr parameters =
     bindC (newUUID E) (\<lambda>i.
     bindC nowC (\<lambda>now.
     let stack = \<lparr>stk_ID = i, stk_UserID = UserIDFromContext ctx, stk_Name = name, stk_Template = templateStr, stk_Parameters = json_params E parameters,
                  stk_Status = StackStatusCreateInProgress, stk_StatusReason = Some [], stk_Resources = [], stk_CreatedAt = now, stk_UpdatedAt = now\<rparr> in
     bindC (stackRepository_Create stack) (\<lambda>_.
     bindC (goC (TStack stack)) (\<lambda>_.
     returnC stack))))"

definition updateStackStatus :: "Stack \<Rightarrow> StackStatus \<Rightarrow> string \<Rightarrow> unit op" where
  "updateStackStatus stack status reason =
     bindC nowC (\<lambda>now.
     ignoreC (stackRepository_Update (stack\<lparr>stk_Status := status, stk_StatusReason := Some reason, stk_UpdatedAt := now\<rparr>)))"

definition str_prop :: "props \<Rightarrow> string \<Rightarrow> string" where
  "str_prop props k = (case map_of props k of Some (YStr v) \<Rightarrow> v | _ \<Rightarrow> [])"

definition int_prop :: "props \<Rightarrow> string \<Rightarrow> int" where
  "int_prop props k = (case map_of props k of Some (YInt v) \<Rightarrow> v | _ \<Rightarrow> 0)"

definition uuid_prop :: "props \<Rightarrow> string \<Rightarrow> uuid option" where
  "uuid_prop props k = (case map_of props k of Some (YUuid v) \<Rightarrow> Some v | _ \<Rightarrow> None)"

definition default_name :: "env \<Rightarrow> string \<Rightarrow> uuid \<Rightarrow> string \<Rightarrow> string" where
  "default_name E name stackID logicalID = (if name = [] then logicalID @ ''-'' @ id8 E stackID else name)"

definition resolve :: "refs \<Rightarrow> yval \<Rightarrow> yval" where
  "resolve refs v =
     (case v of
        YMap m \<Rightarrow> (case map_of m ''Ref'' of
                     Some (YStr refID) \<Rightarrow> (case refs refID of Some physicalID \<Rightarrow> YUuid physicalID | None \<Rightarrow> v)
                   | _ \<Rightarrow> v)
      | _ \<Rightarrow> v)"

definition resolveRefs :: "props \<Rightarrow> refs \<Rightarrow> props" where
  "resolveRefs props refs = map (\<lambda>(k, v). (k, resolve refs v)) props"

text \<open>The record of a created resource; that it cannot be written is ignored.\<close>

definition addResource :: "env \<Rightarrow> uuid \<Rightarrow> string \<Rightarrow> uuid \<Rightarrow> string \<Rightarrow> string \<Rightarrow> unit op" where
  "addResource E stackID logicalID physicalID resourceType status =
     bindC (newUUID E) (\<lambda>i.
     bindC nowC (\<lambda>now.
     ignoreC (stackRepository_AddResource \<lparr>sr_ID = i, sr_StackID = stackID, sr_LogicalID = logicalID, sr_PhysicalID = uuid_string E physicalID,
        sr_ResourceType = resourceType, sr_Status = status, sr_CreatedAt = now\<rparr>)))"

definition stack_createVPC :: "env \<Rightarrow> string \<Rightarrow> ctx \<Rightarrow> uuid \<Rightarrow> string \<Rightarrow> props \<Rightarrow> uuid op" where
  "stack_createVPC E defaultCIDR ctx stackID logicalID props =
     bindC (CreateVPC E defaultCIDR ctx (default_name E (str_prop props ''Name'') stackID logicalID) (str_prop props ''CIDRBlock'')) (\<lambda>vpc.
     bindC (addResource E stackID logicalID (vpc_ID vpc) ''VPC'' ''CREATE_COMPLETE'') (\<lambda>_.
     returnC (vpc_ID vpc)))"

definition stack_createVolume :: "env \<Rightarrow> ctx \<Rightarrow> uuid \<Rightarrow> string \<Rightarrow> props \<Rightarrow> uuid op" where
  "stack_createVolume E ctx stackID logicalID props =
     (let size' = (if int_prop props ''Size'' = 0 then 10 else int_prop props ''Size'') in
     bindC (CreateVolume E ctx (default_name E (str_prop props ''Name'') stackID logicalID) size') (\<lambda>vol.
     bindC (addResource E stackID logicalID (vol_ID vol) ''Volume'' ''CREATE_COMPLETE'') (\<lambda>_.
     returnC (vol_ID vol))))"

definition stack_createSnapshot :: "env \<Rightarrow> ctx \<Rightarrow> uuid \<Rightarrow> string \<Rightarrow> props \<Rightarrow> uuid op" where
  "stack_createSnapshot E ctx stackID logicalID props =
     (case uuid_prop props ''VolumeID'' of
        None \<Rightarrow> failC (Errorf ''VolumeID is required for Snapshot'' None)
      | Some volumeID \<Rightarrow>
     bindC (CreateSnapshot E ctx volumeID (default_name E (str_prop props ''Name'') stackID logicalID)) (\<lambda>snap.
     bindC (addResource E stackID logicalID (snap_ID snap) ''Snapshot'' ''CREATE_IN_PROGRESS'') (\<lambda>_.
     returnC (snap_ID snap))))"

definition stack_createInstance :: "env \<Rightarrow> ctx \<Rightarrow> uuid \<Rightarrow> string \<Rightarrow> props \<Rightarrow> uuid op" where
  "stack_createInstance E ctx stackID logicalID props =
     (let vpcID = (case uuid_prop props ''VpcID'' of None \<Rightarrow> uuid_Nil | Some v \<Rightarrow> v); vpcIDPtr = (if vpcID \<noteq> uuid_Nil then Some vpcID else None) in
     bindC (LaunchInstance E ctx (default_name E (str_prop props ''Name'') stackID logicalID) (str_prop props ''Image'') ''80'' vpcIDPtr None []) (\<lambda>inst.
     bindC (addResource E stackID logicalID (inst_ID inst) ''Instance'' ''CREATE_COMPLETE'') (\<lambda>_.
     returnC (inst_ID inst))))"

definition deletePhysicalResource :: "env \<Rightarrow> ctx \<Rightarrow> string \<Rightarrow> string \<Rightarrow> unit op" where
  "deletePhysicalResource E ctx resourceType physicalID =
     (if resourceType = ''Instance'' then ignoreC (TerminateInstance E ctx physicalID)
      else if resourceType = ''VPC'' then ignoreC (DeleteVPC E ctx physicalID)
      else if resourceType = ''Volume'' then ignoreC (DeleteVolume E ctx physicalID)
      else if resourceType = ''Snapshot''
      then (case uuid_parse E physicalID of Some i \<Rightarrow> ignoreC (DeleteSnapshot E ctx i) | None \<Rightarrow> returnC ())
      else returnC ())"

definition deleteResources :: "env \<Rightarrow> ctx \<Rightarrow> StackResource list \<Rightarrow> unit op" where
  "deleteResources E ctx resources = forC (rev resources) (\<lambda>r. deletePhysicalResource E ctx (sr_ResourceType r) (sr_PhysicalID r))"

definition rollbackStack :: "env \<Rightarrow> ctx \<Rightarrow> uuid \<Rightarrow> unit op" where
  "rollbackStack E ctx stackID =
     bindC (stackRepository_ListResources stackID) (\<lambda>resources.
     bindC (deleteResources E ctx resources) (\<lambda>_.
     stackRepository_DeleteResources stackID))"

definition startRollback :: "env \<Rightarrow> ctx \<Rightarrow> Stack \<Rightarrow> string \<Rightarrow> unit op" where
  "startRollback E ctx stack reason =
     bindC (updateStackStatus stack StackStatusRollbackInProgress reason) (\<lambda>_.
     bindC (tryC (rollbackStack E ctx (stk_ID stack))) (\<lambda>r.
     case r of
       Inl err \<Rightarrow> updateStackStatus stack StackStatusRollbackFailed (''Rollback failed: '' @ Error_Error err)
     | Inr _ \<Rightarrow> updateStackStatus stack StackStatusRollbackComplete reason))"

text \<open>One pass over the resources of a type: it ends at the first that cannot be created.\<close>

fun pass :: "string \<Rightarrow> (string \<Rightarrow> props \<Rightarrow> refs \<Rightarrow> uuid op) \<Rightarrow> (string \<times> ResourceDefinition) list \<Rightarrow> refs \<Rightarrow> (string + refs) op" where
  "pass ty create [] refs = returnC (Inr refs)"
| "pass ty create ((logicalID, res) # rest) refs =
     (if res_Type res = ty
      then bindC (tryC (create logicalID (res_Properties res) refs)) (\<lambda>r.
           case r of
             Inl err \<Rightarrow> returnC (Inl (''Failed to create '' @ ty @ '' '' @ logicalID @ '': '' @ Error_Error err))
           | Inr i \<Rightarrow> pass ty create rest (refs(logicalID \<mapsto> i)))
      else pass ty create rest refs)"

text \<open>The identifiers of snapshots are not kept for references, but nothing refers to them after the last pass.\<close>

definition processStack :: "env \<Rightarrow> string \<Rightarrow> Stack \<Rightarrow> unit op" where
  "processStack E defaultCIDR stack =
     (let ctx = WithUserID None (stk_UserID stack); i = stk_ID stack in
     case yaml_template E (stk_Template stack) of
       Inl _ \<Rightarrow> updateStackStatus stack StackStatusCreateFailed ''Invalid template YAML''
     | Inr resources \<Rightarrow>
     bindC (pass ''VPC'' (\<lambda>l p refs. stack_createVPC E defaultCIDR ctx i l p) (resource_range E 1 resources) Map.empty) (\<lambda>r.
     case r of Inl reason \<Rightarrow> startRollback E ctx stack reason
     | Inr refs \<Rightarrow>
     bindC (pass ''Volume'' (\<lambda>l p refs. stack_createVolume E ctx i l p) (resource_range E 2 resources) refs) (\<lambda>r.
     case r of Inl reason \<Rightarrow> startRollback E ctx stack reason
     | Inr refs \<Rightarrow>
     bindC (pass ''Instance'' (\<lambda>l p refs. stack_createInstance E ctx i l (resolveRefs p refs)) (resource_range E 3 resources) refs) (\<lambda>r.
     case r of Inl reason \<Rightarrow> startRollback E ctx stack reason
     | Inr refs \<Rightarrow>
     bindC (pass ''Snapshot'' (\<lambda>l p refs. stack_createSnapshot E ctx i l (resolveRefs p refs)) (resource_range E 4 resources) refs) (\<lambda>r.
     case r of Inl reason \<Rightarrow> startRollback E ctx stack reason
     | Inr refs \<Rightarrow> updateStackStatus stack StackStatusCreateComplete [])))))"

definition GetStack :: "uuid \<Rightarrow> Stack op" where
  "GetStack i = stackRepository_GetByID i"

definition ListStacks :: "ctx \<Rightarrow> Stack list op" where
  "ListStacks ctx = stackRepository_ListByUserID (UserIDFromContext ctx)"

definition DeleteStack :: "uuid \<Rightarrow> unit op" where
  "DeleteStack i = bindC (stackRepository_GetByID i) (\<lambda>stack. goC (TStackDelete stack))"

text \<open>The goroutine of the deletion, with the rights of the owner.\<close>

definition deleteStackTask :: "env \<Rightarrow> Stack \<Rightarrow> unit op" where
  "deleteStackTask E stack =
     (let ctx = WithUserID None (stk_UserID stack); i = stk_ID stack in
     bindC (tryC (stackRepository_ListResources i)) (\<lambda>r.
     bindC (deleteResources E ctx (case r of Inl _ \<Rightarrow> [] | Inr resources \<Rightarrow> resources)) (\<lambda>_.
     ignoreC (stackRepository_Delete i))))"

record TemplateValidateResponse =
  tv_Valid :: bool
  tv_Errors :: "string list"

definition ValidateTemplate :: "env \<Rightarrow> string \<Rightarrow> TemplateValidateResponse" where
  "ValidateTemplate E template =
     (case yaml_template E template of
        Inl err \<Rightarrow> \<lparr>tv_Valid = False, tv_Errors = [''YAML parse error: '' @ err]\<rparr>
      | Inr resources \<Rightarrow>
          if resources = [] then \<lparr>tv_Valid = False, tv_Errors = [''Template must contain at least one resource'']\<rparr>
          else \<lparr>tv_Valid = True, tv_Errors = []\<rparr>)"


section \<open>Facts\<close>

text \<open>The port mapping that every instance of a stack is launched with is rejected, before anything has happened.\<close>

lemma ports_80: "\<exists>e. parseAndValidatePorts ''80'' = Inl e"
proof -
  have "checkMapping ''80'' \<noteq> Inr u" for u by (simp add: checkMapping_def)
  then obtain e where "checkMapping ''80'' = Inl e" by (cases "checkMapping ''80''") auto
  then show ?thesis by (simp add: parseAndValidatePorts_def MaxPortsPerInstance_def)
qed

lemma stack_createInstance_fails: "\<exists>e. stack_createInstance E ctx i l p = failC e"
proof -
  obtain e where "parseAndValidatePorts ''80'' = Inl e" using ports_80 by blast
  then have "stack_createInstance E ctx i l p = failC e"
    by (simp add: stack_createInstance_def LaunchInstance_def liftC_def fun_eq_iff bindC_def failC_def Let_def)
  then show ?thesis by blast
qed

lemma pass_Instance_fails:
  assumes "\<exists>l r. (l, r) \<in> set rs \<and> res_Type r = ''Instance''"
  shows "\<exists>reason. pass ''Instance'' (\<lambda>l p refs. stack_createInstance E ctx i l (resolveRefs p refs)) rs refs = returnC (Inl reason)"
  using assms
proof (induction rs arbitrary: refs)
  case (Cons x rs)
  obtain l r where x: "x = (l, r)" by (cases x)
  show ?case
  proof (cases "res_Type r = ''Instance''")
    case True
    obtain e where "stack_createInstance E ctx i l (resolveRefs (res_Properties r) refs) = failC e" using stack_createInstance_fails by blast
    then show ?thesis using True x by (auto simp: fun_eq_iff bindC_def tryC_def failC_def returnC_def)
  next
    case False
    then show ?thesis using Cons x by auto
  qed
qed simp

text \<open>What completes a stack: nothing but the last step of its processing.\<close>

definition completed :: "uuid \<Rightarrow> world \<Rightarrow> bool" where
  "completed i s \<longleftrightarrow> (\<exists>r \<in> set (t_stacks s). stk_ID r = i \<and> stk_Status r = StackStatusCreateComplete)"

definition not_completing :: "uuid \<Rightarrow> world \<Rightarrow> world \<Rightarrow> bool" where
  "not_completing i s s' \<longleftrightarrow> (completed i s' \<longrightarrow> completed i s)"

lemma not_completing_same: "t_stacks s' = t_stacks s \<Longrightarrow> not_completing i s s'"
  by (simp add: not_completing_def completed_def)

interpretation pending: core_frame "not_completing i" for i
  by unfold_locales (auto simp: not_completing_def completed_def core_eq_iff)

lemma pending_updateStackStatus: "status \<noteq> StackStatusCreateComplete \<Longrightarrow> confined (not_completing i) (updateStackStatus stack status reason)"
  unfolding updateStackStatus_def stackRepository_Update_def Let_def
  by (intro pending.cf_intros; auto simp: not_completing_def completed_def set_upd_where split: if_splits)

lemma pending_resources:
  "confined (not_completing i) (addResource E a b c d e)" "confined (not_completing i) (stackRepository_ListResources j)"
  "confined (not_completing i) (stackRepository_DeleteResources j)"
  unfolding addResource_def stackRepository_AddResource_def stackRepository_ListResources_def stackRepository_DeleteResources_def
  by (intro pending.cf_intros; simp add: not_completing_same)+

lemma pending_services:
  "confined (not_completing i) (CreateVPC E d ctx n c)" "confined (not_completing i) (DeleteVPC E ctx n)"
  "confined (not_completing i) (CreateVolume E ctx n k)" "confined (not_completing i) (DeleteVolume E ctx n)"
  "confined (not_completing i) (DeleteSnapshot E ctx j)"
  unfolding CreateVPC_def DeleteVPC_def CreateVolume_def DeleteVolume_def DeleteSnapshot_def GetVolume_def GetVPC_def Let_def
    VolumeRepository_GetByID_def VolumeRepository_GetByName_def VolumeRepository_Create_def VolumeRepository_Delete_def
    VpcRepository_GetByID_def VpcRepository_GetByName_def VpcRepository_Create_def VpcRepository_Delete_def
    SnapshotRepository_GetByID_def SnapshotRepository_Delete_def
  by (intro pending.cf_intros; simp add: not_completing_same delete_vpc_row_def)+

lemma pending_TerminateInstance: "confined (not_completing i) (TerminateInstance E ctx n)"
proof -
  have st: "stable t_stacks" by (simp add: stable_def)
  have "confined (keeps t_stacks) (TerminateInstance E ctx n)"
    unfolding TerminateInstance_def InstanceRepository_Delete_def removeInstanceContainer_def
    by (intro keeps_intros keep keeps_releaseAttachedVolumes)
       (auto intro!: keeps_intros keep st simp: st delete_instance_row_def split: InstanceStatus.splits)
  then show ?thesis by (auto simp: confined_def keeps_def intro: not_completing_same)
qed

lemma pending_deleteResources: "confined (not_completing i) (deleteResources E ctx rs)"
  unfolding deleteResources_def deletePhysicalResource_def by (intro pending.cf_intros pending_services pending_TerminateInstance)

lemma pending_startRollback: "confined (not_completing i) (startRollback E ctx stack reason)"
  unfolding startRollback_def rollbackStack_def
  by (intro pending.cf_intros pending_updateStackStatus pending_resources pending_deleteResources) simp_all

lemma pending_pass: "(\<And>l p refs. confined (not_completing i) (create l p refs)) \<Longrightarrow> confined (not_completing i) (pass ty create rs refs)"
proof (induction rs arbitrary: refs)
  case (Cons x rs)
  then show ?case by (cases x) (simp, intro conjI impI pending.cf_intros)
qed (simp add: pending.cf_intros)

section \<open>Properties\<close>

text \<open>C32. A stack with an instance never completes: its instances are launched with a port mapping that the instance service rejects, so that
  whatever else the template holds, in whatever order its resources are visited and whatever fails on the way, the processing ends in
  a rollback and does not report the stack complete.\<close>

theorem stack_with_instance_never_completes:
  assumes "yaml_template E (stk_Template stack) = Inr resources" and "(l, res) \<in> set (resource_range E 3 resources)" and "res_Type res = ''Instance''"
    and "\<not> completed (stk_ID stack) s"
  shows "\<not> completed (stk_ID stack) (snd (processStack E defaultCIDR stack s))"
proof -
  let ?ctx = "WithUserID None (stk_UserID stack)" and ?i = "stk_ID stack"
  have "\<exists>reason. pass ''Instance'' (\<lambda>l p refs. stack_createInstance E ?ctx ?i l (resolveRefs p refs)) (resource_range E 3 resources) refs = returnC (Inl reason)" for refs
    by (rule pass_Instance_fails) (use assms(2,3) in blast)
  then obtain why where why:
    "pass ''Instance'' (\<lambda>l p refs. stack_createInstance E ?ctx ?i l (resolveRefs p refs)) (resource_range E 3 resources) refs = returnC (Inl (why refs))" for refs
    by metis
  have ret: "bindC (returnC x) f = f x" for x and f :: "string + refs \<Rightarrow> unit op" by (simp add: bindC_def returnC_def fun_eq_iff)
  have vpc: "confined (not_completing ?i) (stack_createVPC E defaultCIDR ?ctx ?i l p)" for l p
    unfolding stack_createVPC_def by (intro pending.cf_intros pending_services pending_resources)
  have vol: "confined (not_completing ?i) (stack_createVolume E ?ctx ?i l p)" for l p
    unfolding stack_createVolume_def Let_def by (intro pending.cf_intros pending_services pending_resources)
  have "confined (not_completing ?i) (processStack E defaultCIDR stack)"
    unfolding processStack_def Let_def assms(1) sum.case why ret
    by (intro pending.cf_intros pending_pass vpc vol pending_startRollback)
  then show ?thesis using assms(4) by (auto simp: confined_def not_completing_def)
qed


text \<open>A new stack cannot be read: the column of its reason is NULL until the goroutine writes a status, and the scan of a NULL fails, so that
  right after a stack was created neither it nor the list of its owner's stacks can be read.\<close>

theorem new_stack_unreadable:
  assumes "CreateStack E ctx name template ps s = (Ok stack, s')"
  shows "fst (GetStack (stk_ID stack) s') \<noteq> Ok x \<and> fst (ListStacks ctx s') \<noteq> Ok xs"
proof -
  have "wp (CreateStack E ctx name template ps) (\<lambda>r s'. \<forall>stack. r = Ok stack \<longrightarrow> (\<exists>row rows. t_stacks s' = rows @ [row] \<and> stk_ID row = stk_ID stack \<and>
      stk_UserID row = UserIDFromContext ctx \<and> stk_StatusReason row = None \<and> stk_ID row \<notin> stk_ID ` set rows)) s"
    unfolding CreateStack_def stackRepository_Create_def goC_def Let_def
    by (auto simp: wps wp_newUUID wp_nowC intro!: wp_insertC split: if_splits)
  then obtain row rows where row: "t_stacks s' = rows @ [row]" "stk_ID row = stk_ID stack" "stk_UserID row = UserIDFromContext ctx"
      "stk_StatusReason row = None" "stk_ID row \<notin> stk_ID ` set rows"
    using assms by (auto simp: wp_def)
  have "find (\<lambda>r. stk_ID r = stk_ID stack) (t_stacks s') = Some row"
  proof -
    have "find (\<lambda>r. stk_ID r = stk_ID stack) rows = None" using row(2,5) by (auto simp: find_None_iff image_iff)
    then show ?thesis using row(1,2) by (simp add: find_append)
  qed
  then have "wp (GetStack (stk_ID stack)) (\<lambda>r _. r \<noteq> Ok x) s'"
    using row(4) unfolding GetStack_def stackRepository_GetByID_def scanStack_def by (auto simp: wps intro!: wp_queryRowC)
  moreover have "wp (mapC rs scanStack) (\<lambda>r _. r \<noteq> Ok ys) s1" if "row \<in> set rs" for rs s1 ys
    using that row(4)
  proof (induction rs arbitrary: s1 ys)
    case (Cons r rs)
    show ?case
    proof (cases "stk_StatusReason r = None")
      case False
      then have "row \<in> set rs" using Cons.prems by auto
      from Cons.IH [OF this Cons.prems(2)] have "fst (mapC rs scanStack s1) \<noteq> Ok zs" for zs by (simp add: wp_def split_beta)
      then show ?thesis using False by (auto simp: scanStack_def [of r] wp_def run split: outcome.splits)
    qed (simp add: wps scanStack_def)
  qed simp
  then have "wp (ListStacks ctx) (\<lambda>r _. r \<noteq> Ok xs) s'"
    using row(1,3) unfolding ListStacks_def stackRepository_ListByUserID_def by (auto simp: wps intro!: wp_queryC)
  ultimately show ?thesis by (simp add: wp_def split_beta)
qed


section \<open>Witnesses\<close>

definition sample_stack :: Stack where
  "sample_stack = \<lparr>stk_ID = 66, stk_UserID = 1, stk_Name = ''st'', stk_Template = [], stk_Parameters = [], stk_Status = StackStatusCreateInProgress,
     stk_StatusReason = None, stk_Resources = [], stk_CreatedAt = 0, stk_UpdatedAt = 0\<rparr>"

abbreviation stack_env :: env where
  "stack_env \<equiv> sample_env\<lparr>yaml_template := \<lambda>_. Inr [(''Web'', \<lparr>res_Type = ''Instance'', res_Properties = []\<rparr>)]\<rparr>"

theorem stack_with_instance_never_completes_witness:
  "\<not> completed 66 (snd (processStack stack_env ''10.0.0.0/16'' sample_stack (sample_world\<lparr>t_stacks := [sample_stack]\<rparr>)))"
proof -
  have "stk_ID sample_stack = 66" by (simp add: sample_stack_def)
  then show ?thesis
    using stack_with_instance_never_completes [of stack_env sample_stack "[(''Web'', \<lparr>res_Type = ''Instance'', res_Properties = []\<rparr>)]" "''Web''"
        "\<lparr>res_Type = ''Instance'', res_Properties = []\<rparr>" "sample_world\<lparr>t_stacks := [sample_stack]\<rparr>"]
    by (simp add: completed_def) (simp add: sample_stack_def)
qed

theorem new_stack_unreadable_witness:
  "\<exists>stack s'. CreateStack sample_env (Some 1) ''st'' [] [] sample_world = (Ok stack, s') \<and> fst (GetStack (stk_ID stack) s') \<noteq> Ok stack \<and>
     fst (ListStacks (Some 1) s') \<noteq> Ok [stack]"
proof -
  obtain stack s' where r: "CreateStack sample_env (Some 1) ''st'' [] [] sample_world = (Ok stack, s')"
    by (simp add: CreateStack_def stackRepository_Create_def run has_user_def Let_def)
  with new_stack_unreadable [OF r] show ?thesis by blast
qed

end
