(* ===== verification/Databases.thy ===== *)
theory Databases
  imports Networks Frames
begin

text \<open>
  Managed databases: the passwords of \<^verbatim>\<open>util\<close>, the repository \<^verbatim>\<open>database_repo.go\<close> and the service \<^verbatim>\<open>database.go\<close>, which starts a
  container, records it, and removes it again when it cannot be recorded.
\<close>

section \<open>Generated passwords\<close>

text \<open>\<^verbatim>\<open>rand.Int\<close> draws a number below its bound; which one is up to the random source. Every number below 256 is the remainder
  of some byte.\<close>

definition rand_Int :: "env \<Rightarrow> nat \<Rightarrow> nat op" where
  "rand_Int E bound = bindC (randRead E 1) (\<lambda>bs. returnC (foldl (\<lambda>a b. 256 * a + unat b) 0 bs mod bound))"

definition passwordChars :: string where
  "passwordChars = ''abcdefghijklmnopqrstuvwxyzABCDEFGHIJKLMNOPQRSTUVWXYZ0123456789!@#$%^&*()-_=+''"

definition charAt :: "string \<Rightarrow> nat \<Rightarrow> char op" where
  "charAt s i = (if i < length s then returnC (s ! i) else panicC ''index out of range'')"

fun GenerateRandomPassword :: "env \<Rightarrow> nat \<Rightarrow> string op" where
  "GenerateRandomPassword E 0 = returnC []"
| "GenerateRandomPassword E (Suc n) =
     bindC (rand_Int E (length passwordChars)) (\<lambda>num.
     bindC (charAt passwordChars num) (\<lambda>c.
     bindC (GenerateRandomPassword E n) (\<lambda>rest.
     returnC (c # rest))))"

section \<open>The repository\<close>

definition DatabaseRepository_Create :: "Database \<Rightarrow> unit op" where
  "DatabaseRepository_Create db =
     mapErrC (Wrap Internal ''failed to create database'')
       (insertC (\<lambda>s. [(db_ID db \<in> db_ID ` set (t_databases s), ''databases_pkey''),
                      ((db_Name db, db_UserID db) \<in> (\<lambda>r. (db_Name r, db_UserID r)) ` set (t_databases s), ''idx_databases_name_user''),
                      (\<not> has_user s (db_UserID db), ''databases_user_id_fkey''),
                      (case db_VpcID db of None \<Rightarrow> False | Some v \<Rightarrow> \<not> list_ex (\<lambda>r. vpc_ID r = v) (t_vpcs s), ''databases_vpc_id_fkey'')])
                (\<lambda>s. s\<lparr>t_databases := t_databases s @ [db]\<rparr>))"

definition DatabaseRepository_GetByID :: "env \<Rightarrow> ctx \<Rightarrow> uuid \<Rightarrow> Database op" where
  "DatabaseRepository_GetByID E ctx i =
     mapErrC (row_err (New NotFound (''database '' @ uuid_string E i @ '' not found'')) ''failed to get database'')
       (queryRowC (\<lambda>s. find (\<lambda>r. db_ID r = i \<and> db_UserID r = UserIDFromContext ctx) (t_databases s)))"

definition DatabaseRepository_List :: "ctx \<Rightarrow> Database list op" where
  "DatabaseRepository_List ctx =
     mapErrC (Wrap Internal ''failed to list databases'')
       (queryC (\<lambda>s. sort_key (\<lambda>r. - db_CreatedAt r) (filter (\<lambda>r. db_UserID r = UserIDFromContext ctx) (t_databases s))))"

text \<open>The name of another database of the tenant cannot be taken over. The stamp of the object in memory is set as well.\<close>

definition DatabaseRepository_Update :: "Database \<Rightarrow> Database op" where
  "DatabaseRepository_Update db =
     (let P = (\<lambda>r. db_ID r = db_ID db \<and> db_UserID r = db_UserID db) in
     bindC nowC (\<lambda>now.
     bindC (mapErrC (Wrap Internal ''failed to update database'')
       (execC (\<lambda>s. [(list_ex P (t_databases s) \<and>
                      list_ex (\<lambda>r. \<not> P r \<and> db_Name r = db_Name db \<and> db_UserID r = db_UserID db) (t_databases s), ''idx_databases_name_user'')])
          (\<lambda>s. rows_affected P (t_databases s))
          (\<lambda>s. s\<lparr>t_databases := upd_where P (\<lambda>r. r\<lparr>db_Name := db_Name db, db_Status := db_Status db, db_ContainerID := db_ContainerID db,
                   db_Port := db_Port db, db_UpdatedAt := now\<rparr>) (t_databases s)\<rparr>))) (\<lambda>n.
     bindC (guardC (n = 0) (New NotFound ''database not found'')) (\<lambda>_.
     returnC (db\<lparr>db_UpdatedAt := now\<rparr>)))))"

definition DatabaseRepository_Delete :: "env \<Rightarrow> ctx \<Rightarrow> uuid \<Rightarrow> unit op" where
  "DatabaseRepository_Delete E ctx i =
     (let P = (\<lambda>r. db_ID r = i \<and> db_UserID r = UserIDFromContext ctx) in
     bindC (mapErrC (Wrap Internal ''failed to delete database'')
       (execC noConstraint (\<lambda>s. rows_affected P (t_databases s)) (\<lambda>s. s\<lparr>t_databases := filter (\<lambda>r. \<not> P r) (t_databases s)\<rparr>)))
       (\<lambda>n. guardC (n = 0) (New NotFound (''database '' @ uuid_string E i @ '' not found''))))"

section \<open>The service\<close>

text \<open>The host port a container's port is mapped to.\<close>

definition GetInstancePort :: "env \<Rightarrow> string \<Rightarrow> string \<Rightarrow> int op" where
  "GetInstancePort E cid port = bindC (backendC (BGetInstancePort cid port)) (\<lambda>_. returnC (backend_port E cid port))"

definition port_or_zero :: "env \<Rightarrow> string \<Rightarrow> string \<Rightarrow> int op" where
  "port_or_zero E cid port = bindC (tryC (GetInstancePort E cid port)) (\<lambda>r. returnC (case r of Inl _ \<Rightarrow> 0 | Inr p \<Rightarrow> p))"

definition db_config :: "string \<Rightarrow> string \<Rightarrow> string \<Rightarrow> string \<Rightarrow> string \<Rightarrow> string \<times> string list \<times> string" where
  "db_config engine version name username password =
     (if engine = EnginePostgres
      then (''postgres:'' @ version @ ''-alpine'',
            [''POSTGRES_USER='' @ username, ''POSTGRES_PASSWORD='' @ password, ''POSTGRES_DB='' @ name], ''5432'')
      else if engine = EngineMySQL
      then (''mysql:'' @ version, [''MYSQL_ROOT_PASSWORD='' @ password, ''MYSQL_DATABASE='' @ name], ''3306'')
      else ([], [], []))"

text \<open>The part of the creation that starts the container, records it, and deletes it when it cannot be recorded.\<close>

definition start_database :: "env \<Rightarrow> string \<Rightarrow> string \<times> string list \<times> string \<Rightarrow> string \<Rightarrow> Database \<Rightarrow> Database op" where
  "start_database E dockerName config networkID db =
     (let (imageName, envs, defaultPort) = config in
     bindC (mapErrC (Wrap Internal ''failed to launch database container'')
              (backendCreateC E (BCreateInstance dockerName imageName [''0:'' @ defaultPort] networkID [] envs []))) (\<lambda>containerID.
     bindC (port_or_zero E containerID defaultPort) (\<lambda>hostPort.
     let db = db\<lparr>db_ContainerID := containerID, db_Port := hostPort, db_Status := DatabaseStatusRunning\<rparr> in
     bindC (tryC (DatabaseRepository_Create db)) (\<lambda>r.
     case r of
       Inl err \<Rightarrow> bindC (ignoreC (backendC (BDeleteInstance containerID))) (\<lambda>_. failC err)
     | Inr _ \<Rightarrow> returnC db))))"

definition vpc_network :: "env \<Rightarrow> ctx \<Rightarrow> uuid option \<Rightarrow> string op" where
  "vpc_network E ctx vpcID =
     (case vpcID of None \<Rightarrow> returnC [] | Some v \<Rightarrow> bindC (VpcRepository_GetByID E ctx v) (\<lambda>vpc. returnC (vpc_NetworkID vpc)))"

definition CreateDatabase :: "env \<Rightarrow> ctx \<Rightarrow> string \<Rightarrow> string \<Rightarrow> string \<Rightarrow> uuid option \<Rightarrow> Database op" where
  "CreateDatabase E ctx name engine version vpcID =
     (let userID = UserIDFromContext ctx in
     bindC (guardC (engine \<noteq> EnginePostgres \<and> engine \<noteq> EngineMySQL) (New InvalidInput ''unsupported database engine'')) (\<lambda>_.
     bindC (mapErrC (Wrap Internal ''failed to generate password'') (GenerateRandomPassword E 16)) (\<lambda>password.
     let username = (if engine = EngineMySQL then ''root'' else ''cloud_user'') in
     bindC (newUUID E) (\<lambda>i.
     bindC nowC (\<lambda>now.
     let db = \<lparr>db_ID = i, db_UserID = userID, db_Name = name, db_Engine = engine, db_Version = version, db_Status = DatabaseStatusCreating,
               db_VpcID = vpcID, db_ContainerID = [], db_Port = 0, db_Username = username, db_Password = password,
               db_CreatedAt = now, db_UpdatedAt = now\<rparr> in
     bindC (mapErrC (Wrap NotFound ''vpc not found'') (vpc_network E ctx vpcID)) (\<lambda>networkID.
     bindC (start_database E (''cloud-db-'' @ name @ ''-'' @ id8 E i) (db_config engine version name username password) networkID db) (\<lambda>db.
     bindC (ignoreC (RecordEvent E ctx ''DATABASE_CREATE'' (uuid_string E i) ''DATABASE'' [(''name'', GStr name), (''engine'', GStr engine)])) (\<lambda>_.
     bindC (ignoreC (Log E ctx userID ''database.create'' ''database'' (uuid_string E i) [(''name'', GStr name), (''engine'', GStr engine)])) (\<lambda>_.
     bindC (metricC (MInc ''RDSInstancesTotal'' [engine, ''running''])) (\<lambda>_.
     returnC db))))))))))"

definition GetDatabase :: "env \<Rightarrow> ctx \<Rightarrow> uuid \<Rightarrow> Database op" where
  "GetDatabase E ctx i = DatabaseRepository_GetByID E ctx i"

definition ListDatabases :: "ctx \<Rightarrow> Database list op" where
  "ListDatabases ctx = DatabaseRepository_List ctx"

definition DeleteDatabase :: "env \<Rightarrow> ctx \<Rightarrow> uuid \<Rightarrow> unit op" where
  "DeleteDatabase E ctx i =
     bindC (DatabaseRepository_GetByID E ctx i) (\<lambda>db.
     bindC (if db_ContainerID db \<noteq> [] then ignoreC (backendC (BDeleteInstance (db_ContainerID db))) else returnC ()) (\<lambda>_.
     bindC (DatabaseRepository_Delete E ctx i) (\<lambda>_.
     bindC (ignoreC (RecordEvent E ctx ''DATABASE_DELETE'' (uuid_string E i) ''DATABASE'' [])) (\<lambda>_.
     bindC (ignoreC (Log E ctx (db_UserID db) ''database.delete'' ''database'' (uuid_string E (db_ID db)) [(''name'', GStr (db_Name db))])) (\<lambda>_.
     metricC (MDec ''RDSInstancesTotal'' [db_Engine db, ''running'']))))))"

definition DatabaseService_GetConnectionString :: "env \<Rightarrow> ctx \<Rightarrow> uuid \<Rightarrow> string op" where
  "DatabaseService_GetConnectionString E ctx i =
     bindC (DatabaseRepository_GetByID E ctx i) (\<lambda>db.
     if db_Engine db = EnginePostgres
     then returnC (''postgres://'' @ db_Username db @ '':'' @ db_Password db @ ''@localhost:'' @ int_string (db_Port db) @ ''/'' @ db_Name db)
     else if db_Engine db = EngineMySQL
     then returnC (db_Username db @ '':'' @ db_Password db @ ''@tcp(localhost:'' @ int_string (db_Port db) @ '')/'' @ db_Name db)
     else failC (New Internal ''unknown engine''))"

section \<open>Facts\<close>

lemma DatabaseRepository_GetByID_ok:
  "DatabaseRepository_GetByID E ctx i s = (Ok v, s') \<Longrightarrow>
     v \<in> set (t_databases s) \<and> db_ID v = i \<and> db_UserID v = UserIDFromContext ctx \<and> t_databases s' = t_databases s"
  unfolding DatabaseRepository_GetByID_def by (auto simp: ok_simps dest!: ok_queryRowC find_Some_set)

lemma DatabaseRepository_Delete_ok:
  "DatabaseRepository_Delete E ctx i s = (Ok (), s') \<Longrightarrow>
     (\<exists>v \<in> set (t_databases s). db_ID v = i \<and> db_UserID v = UserIDFromContext ctx) \<and>
     t_databases s' = filter (\<lambda>v. \<not> (db_ID v = i \<and> db_UserID v = UserIDFromContext ctx)) (t_databases s)"
  unfolding DatabaseRepository_Delete_def Let_def
  by (auto simp: ok_simps rows_simps dest!: ok_execC)

lemma DatabaseRepository_List_ok:
  "DatabaseRepository_List ctx s = (Ok vs, s') \<Longrightarrow>
     set vs = {v \<in> set (t_databases s). db_UserID v = UserIDFromContext ctx} \<and> t_databases s' = t_databases s"
  unfolding DatabaseRepository_List_def by (auto simp: ok_simps dest!: ok_queryC)

interpretation db_repo: tenant_list_repo t_databases db_ID db_UserID
  "DatabaseRepository_GetByID E" "DatabaseRepository_Delete E" DatabaseRepository_List for E
  by unfold_locales (fact DatabaseRepository_GetByID_ok DatabaseRepository_Delete_ok DatabaseRepository_List_ok)+


lemma wp_rand_Int:
  "(\<And>msg fs. failing (faults s) = Suc (failing fs) \<Longrightarrow> Q (Err (ExtError msg)) (s\<lparr>faults := fs\<rparr>)) \<Longrightarrow>
   (\<And>fs n. n < bound \<Longrightarrow> failing fs = failing (faults s) \<Longrightarrow> Q (Ok n) (s\<lparr>faults := fs, rand_ctr := Suc (rand_ctr s)\<rparr>)) \<Longrightarrow> 0 < bound \<Longrightarrow>
   wp (rand_Int E bound) Q s"
  unfolding rand_Int_def randRead_def wp_bindC by (rule wp_extC_failing) (simp_all add: wps wp_def returnC_def)

text \<open>A password has the length asked for and only the letters of the alphabet, and the draw touches nothing else.\<close>

lemma wp_GenerateRandomPassword:
  assumes "\<And>msg fs k. failing (faults s) = Suc (failing fs) \<Longrightarrow> Q (Err (ExtError msg)) (s\<lparr>faults := fs, rand_ctr := k\<rparr>)"
    and "\<And>p fs k. length p = n \<Longrightarrow> set p \<subseteq> set passwordChars \<Longrightarrow> failing fs = failing (faults s) \<Longrightarrow>
       Q (Ok p) (s\<lparr>faults := fs, rand_ctr := k\<rparr>)"
  shows "wp (GenerateRandomPassword E n) Q s"
  using assms
proof (induction n arbitrary: s Q)
  case 0
  from "0.prems"(2) [of "[]" "faults s" "rand_ctr s"] show ?case by (simp add: wps)
next
  case (Suc n)
  let ?rest = "\<lambda>num. bindC (charAt passwordChars num) (\<lambda>c. bindC (GenerateRandomPassword E n) (\<lambda>rest. returnC (c # rest)))"
  have ok: "wp (?rest num) Q (s\<lparr>faults := fs, rand_ctr := Suc (rand_ctr s)\<rparr>)"
    if "num < length passwordChars" "failing fs = failing (faults s)" for num fs
  proof -
    have "wp (bindC (GenerateRandomPassword E n) (\<lambda>rest. returnC (passwordChars ! num # rest))) Q (s\<lparr>faults := fs, rand_ctr := Suc (rand_ctr s)\<rparr>)"
      unfolding wp_bindC by (rule Suc.IH) (use that Suc.prems in \<open>simp_all add: wps\<close>)
    moreover have "charAt passwordChars num = returnC (passwordChars ! num)" using that(1) by (simp add: charAt_def)
    ultimately show ?thesis unfolding wp_bindC [of "charAt _ _"] by (simp add: wps)
  qed
  show ?case unfolding GenerateRandomPassword.simps wp_bindC
  proof (rule wp_rand_Int)
    show "0 < length passwordChars" by (simp add: passwordChars_def)
  qed (use ok [unfolded wp_bindC] Suc.prems(1) [of _ _ "rand_ctr s"] in simp_all)
qed

lemma wp_port_or_zero:
  assumes "\<And>p fs cs. failing fs \<le> failing (faults s) \<Longrightarrow> cs \<in> {[], [BGetInstancePort cid port]} \<Longrightarrow> Q (Ok p) (s\<lparr>faults := fs, calls := calls s @ cs\<rparr>)"
  shows "wp (port_or_zero E cid port) Q s"
proof -
  have "Q (Ok 0) (s\<lparr>faults := fs\<rparr>)" if "failing (faults s) = Suc (failing fs)" for fs
    using assms [of fs "[]"] that by simp
  then show ?thesis unfolding port_or_zero_def GetInstancePort_def wp_bindC wp_tryC
    by (intro wp_backendC_failing) (simp_all add: wps assms)
qed

lemma wp_vpc_network:
  "(\<And>e fs. Q (Err e) (s\<lparr>faults := fs\<rparr>)) \<Longrightarrow>
   (\<And>n fs. failing fs = failing (faults s) \<Longrightarrow> (\<And>v. vpcID = Some v \<Longrightarrow> v \<in> vpc_ID ` set (t_vpcs s)) \<Longrightarrow> Q (Ok n) (s\<lparr>faults := fs\<rparr>)) \<Longrightarrow>
   wp (vpc_network E ctx vpcID) Q s"
proof (cases vpcID)
  case None
  assume "\<And>n fs. failing fs = failing (faults s) \<Longrightarrow> (\<And>v. vpcID = Some v \<Longrightarrow> v \<in> vpc_ID ` set (t_vpcs s)) \<Longrightarrow> Q (Ok n) (s\<lparr>faults := fs\<rparr>)"
  from this [of "faults s" "[]"] None show ?thesis by (simp add: vpc_network_def wps)
next
  case (Some v)
  assume "\<And>e fs. Q (Err e) (s\<lparr>faults := fs\<rparr>)"
    and "\<And>n fs. failing fs = failing (faults s) \<Longrightarrow> (\<And>v. vpcID = Some v \<Longrightarrow> v \<in> vpc_ID ` set (t_vpcs s)) \<Longrightarrow> Q (Ok n) (s\<lparr>faults := fs\<rparr>)"
  with Some show ?thesis unfolding vpc_network_def VpcRepository_GetByID_def
    by (auto simp: wps intro!: wp_queryRowC_failing dest!: find_Some_set)
qed

text \<open>A start that fails deletes what it started, unless the deletion fails as well.\<close>

definition row_ok :: "Database \<Rightarrow> world \<Rightarrow> bool" where
  "row_ok db s \<longleftrightarrow> db_ID db \<notin> db_ID ` set (t_databases s) \<and>
     (db_Name db, db_UserID db) \<notin> (\<lambda>r. (db_Name r, db_UserID r)) ` set (t_databases s) \<and> has_user s (db_UserID db)"

definition is_create :: "backend_call \<Rightarrow> bool" where
  "is_create c \<longleftrightarrow> (case c of BCreateInstance name img ports net binds envs cmd \<Rightarrow> True | _ \<Rightarrow> False)"

definition cleaned :: "env \<Rightarrow> world \<Rightarrow> world \<Rightarrow> bool" where
  "cleaned E s s' \<longleftrightarrow> t_databases s' = t_databases s \<and>
     (calls s' = calls s \<or> (\<exists>c cs. is_create c \<and> calls s' = calls s @ c # cs @ [BDeleteInstance (cid_at E (length (calls s)))]))"

lemma wp_start_database:
  assumes "failing (faults s) \<le> (if row_ok db s then 1 else 0)" and "\<And>v. db_VpcID db = Some v \<Longrightarrow> v \<in> vpc_ID ` set (t_vpcs s)"
  shows "wp (start_database E dn config n db) (\<lambda>r s'. (\<exists>e. r = Err e) \<longrightarrow> cleaned E s s') s"
proof -
  have v: "db_VpcID db = None \<or> (\<exists>v. db_VpcID db = Some v \<and> list_ex (\<lambda>r. vpc_ID r = v) (t_vpcs s))"
    using assms(2) by (cases "db_VpcID db") (auto simp: list_ex_iff)
  show ?thesis
    using assms(1) v unfolding start_database_def DatabaseRepository_Create_def Let_def row_ok_def cleaned_def has_user_def
    by (elim disjE exE; auto simp: wps split_beta is_create_def simp del: wp_ignoreC intro!: wp_port_or_zero wp_failing split: if_splits)
qed

section \<open>Properties\<close>

text \<open>Generated passwords: whatever the random source returns, a password that is generated has the length asked for and only
  characters of the alphabet, the index into the alphabet is never out of range, and an error only comes from the random source.\<close>

theorem password_well_formed:
  "case fst (GenerateRandomPassword E n s) of
     Ok p \<Rightarrow> length p = n \<and> set p \<subseteq> set passwordChars
   | Err e \<Rightarrow> failing (faults s) > 0
   | Panic _ \<Rightarrow> False"
proof -
  have "wp (GenerateRandomPassword E n) (\<lambda>r _. case r of Ok p \<Rightarrow> length p = n \<and> set p \<subseteq> set passwordChars
     | Err e \<Rightarrow> failing (faults s) > 0 | Panic _ \<Rightarrow> False) s"
    by (rule wp_GenerateRandomPassword) simp_all
  then show ?thesis by (simp add: wp_def split_beta)
qed

text \<open>C29. A database that cannot be created gives back what it was given: when the creation ends in an error, the table of the databases is as it was, and
  either the backend has reported no container as created or the one it has reported has been deleted again by the last call. At most one call may fail, and none if the row
  is rejected by a constraint of the table, since the deletion of the container could be the second one. A container that the backend leaves behind while it
  reports an error, as the Docker adapter does when the start fails, is unknown to the service and not covered.\<close>

theorem create_database_cleans_up:
  assumes "failing (faults s) \<le> (if (name, UserIDFromContext ctx) \<in> (\<lambda>r. (db_Name r, db_UserID r)) ` set (t_databases s) \<or>
        uuid_at E (uuid_ctr s) \<in> db_ID ` set (t_databases s) \<or> \<not> has_user s (UserIDFromContext ctx) then 0 else 1)"
    and "CreateDatabase E ctx name engine version vpcID s = (Err e, s')"
  shows "t_databases s' = t_databases s \<and>
    (calls s' = calls s \<or> (\<exists>c cs. is_create c \<and> calls s' = calls s @ c # cs @ [BDeleteInstance (cid_at E (length (calls s)))]))"
proof -
  let ?P = "\<lambda>r s'. (\<exists>e. r = Err e) \<longrightarrow> cleaned E s s'"
  have start: "wp (start_database E dn config n db) ?P s1"
    if "failing (faults s1) \<le> failing (faults s)" "row_ok db s1 = row_ok db s" "\<And>v. db_VpcID db = Some v \<Longrightarrow> v \<in> vpc_ID ` set (t_vpcs s1)"
      "calls s1 = calls s" "t_databases s1 = t_databases s" "db_ID db = uuid_at E (uuid_ctr s)" "db_Name db = name" "db_UserID db = UserIDFromContext ctx"
    for s1 dn config n db
    using wp_start_database [of s1 db E dn config n] that assms(1) by (auto simp: cleaned_def row_ok_def split: if_splits)
  have "wp (CreateDatabase E ctx name engine version vpcID) ?P s"
    unfolding CreateDatabase_def Let_def
    by (auto simp: wps wp_newUUID wp_nowC wp_metricC core_eq_iff cleaned_def row_ok_def has_user_def simp del: wp_ignoreC intro!: wp_GenerateRandomPassword
        wp_vpc_network wp_mono [OF start] wp_ignored split: outcome.split)
  with assms(2) show ?thesis by (simp add: wp_def cleaned_def)
qed


section \<open>Witnesses\<close>

lemma GenerateRandomPassword_unfailing:
  "\<exists>p k. GenerateRandomPassword E n (s\<lparr>faults := replicate n None @ fs\<rparr>) = (Ok p, s\<lparr>faults := fs, rand_ctr := k\<rparr>)"
proof (induction n arbitrary: s)
  case 0
  have "s\<lparr>faults := fs\<rparr> = s\<lparr>faults := fs, rand_ctr := rand_ctr s\<rparr>" by simp
  then show ?case unfolding GenerateRandomPassword.simps returnC_def replicate_0 append_Nil by blast
next
  case (Suc n)
  have "s\<lparr>rand_ctr := Suc (rand_ctr s), faults := fs'\<rparr> = s\<lparr>faults := fs', rand_ctr := Suc (rand_ctr s)\<rparr>" for fs' by simp
  with Suc [of "s\<lparr>rand_ctr := Suc (rand_ctr s)\<rparr>"]
  obtain p k where "GenerateRandomPassword E n (s\<lparr>faults := replicate n None @ fs, rand_ctr := Suc (rand_ctr s)\<rparr>) = (Ok p, s\<lparr>faults := fs, rand_ctr := k\<rparr>)"
    by auto
  moreover have "0 < length passwordChars" by (simp add: passwordChars_def)
  ultimately show ?case
    by (auto simp: bindC_def rand_Int_def randRead_def extC_def returnC_def charAt_def)
qed

theorem create_database_cleans_up_witness:
  "\<exists>e s'. CreateDatabase sample_env (Some 1) ''db'' ''postgres'' ''16'' None
       (sample_world\<lparr>faults := replicate 16 None @ [None, None, Some ''disk full'']\<rparr>) = (Err e, s') \<and>
     t_databases s' = [] \<and> (calls s' = [] \<or> (\<exists>c cs. is_create c \<and> calls s' = c # cs @ [BDeleteInstance (cid_at sample_env 0)]))"
proof -
  let ?s = "sample_world\<lparr>faults := replicate 16 None @ [None, None, Some ''disk full'']\<rparr>"
  obtain p k where "GenerateRandomPassword sample_env 16 ?s = (Ok p, sample_world\<lparr>faults := [None, None, Some ''disk full''], rand_ctr := k\<rparr>)"
    using GenerateRandomPassword_unfailing by blast
  then obtain e s' where r: "CreateDatabase sample_env (Some 1) ''db'' ''postgres'' ''16'' None ?s = (Err e, s')"
    by (simp add: CreateDatabase_def start_database_def db_config_def vpc_network_def port_or_zero_def GetInstancePort_def DatabaseRepository_Create_def
        bindC_def guardC_def mapErrC_def tryC_def returnC_def failC_def ignoreC_def run_newUUID run_nowC backendC_def backendCreateC_def insertC_def execC_def
        extC_def modifyC_def EnginePostgres_def EngineMySQL_def Let_def)
  with create_database_cleans_up [OF _ r] show ?thesis by (simp add: failing_def has_user_def)
qed

end
