(* ===== verification/Paths.thy ===== *)
theory Paths
  imports GoLib
begin

text \<open>
  Prefixes of strings and \<^verbatim>\<open>filepath.Clean\<close> and \<^verbatim>\<open>filepath.Join\<close> of the standard library, on Unix: the lexical processing of a
  path by its elements, with a stack for the elements kept so far.
\<close>

definition HasPrefix :: "string \<Rightarrow> string \<Rightarrow> bool" where
  "HasPrefix s pfx = (take (length pfx) s = pfx)"

definition TrimPrefix :: "string \<Rightarrow> string \<Rightarrow> string" where
  "TrimPrefix s pfx = (if HasPrefix s pfx then drop (length pfx) s else s)"

lemma HasPrefix_append [simp]: "HasPrefix (p @ s) p"
  by (simp add: HasPrefix_def)

lemma TrimPrefix_append [simp]: "TrimPrefix (p @ s) p = s"
  by (simp add: TrimPrefix_def)

lemma HasPrefix_iff: "HasPrefix s p \<longleftrightarrow> (\<exists>r. s = p @ r)"
  by (auto simp: HasPrefix_def) (metis append_take_drop_id)

definition rooted :: "string \<Rightarrow> bool" where
  "rooted p = HasPrefix p ''/''"

definition clean_step :: "bool \<Rightarrow> string \<Rightarrow> string list \<Rightarrow> string list" where
  "clean_step ab e st =
     (if e = [] \<or> e = ''.'' then st
      else if e = ''..'' then (case st of [] \<Rightarrow> (if ab then [] else [''..'']) | x # xs \<Rightarrow> (if x = ''..'' then ''..'' # st else xs))
      else e # st)"

definition walk :: "bool \<Rightarrow> string \<Rightarrow> string list" where
  "walk ab p = fold (clean_step ab) (Split (CHR ''/'') p) []"

definition Clean :: "string \<Rightarrow> string" where
  "Clean p = (let st = rev (walk (rooted p) p) in if rooted p then ''/'' @ Join ''/'' st else if st = [] then ''.'' else Join ''/'' st)"

fun Join_path :: "string list \<Rightarrow> string" where
  "Join_path [] = []"
| "Join_path (e # es) = (if e = [] then Join_path es else Clean (Join ''/'' (e # es)))"

section \<open>Clean paths\<close>

text \<open>A stack of elements as the loop builds it: the parent element occurs below all others only, and not in a rooted
  path.\<close>

definition plain_elem :: "string \<Rightarrow> bool" where
  "plain_elem e \<longleftrightarrow> e \<noteq> [] \<and> e \<noteq> ''.'' \<and> e \<noteq> ''..'' \<and> CHR ''/'' \<notin> set e"

definition normal :: "bool \<Rightarrow> string list \<Rightarrow> bool" where
  "normal ab st \<longleftrightarrow> (\<exists>xs k. st = xs @ replicate k ''..'' \<and> list_all plain_elem xs \<and> (ab \<longrightarrow> k = 0))"

lemma normal_step:
  assumes "normal ab st" and "CHR ''/'' \<notin> set e"
  shows "normal ab (clean_step ab e st)"
proof -
  obtain xs k where st: "st = xs @ replicate k ''..''" "list_all plain_elem xs" "ab \<longrightarrow> k = 0" using assms(1) by (auto simp: normal_def)
  show ?thesis
  proof (cases "e = ''..''")
    case True
    show ?thesis
    proof (cases xs)
      case Nil
      then have "clean_step ab e st = (if ab then [] else replicate (Suc k) ''..'')" using st(1,3) True by (cases k) (auto simp: clean_step_def)
      then show ?thesis unfolding normal_def by (intro exI [of _ "[]"] exI [of _ "if ab then 0 else Suc k"]) auto
    next
      case (Cons x ys)
      then have "clean_step ab e st = ys @ replicate k ''..''" using st True by (auto simp: clean_step_def plain_elem_def)
      then show ?thesis using st(2,3) Cons unfolding normal_def by auto
    qed
  next
    case False
    then have "clean_step ab e st = (if e = [] \<or> e = ''.'' then st else (e # xs) @ replicate k ''..'')" using st(1) by (simp add: clean_step_def)
    moreover have "list_all plain_elem (e # xs)" if "e \<noteq> []" "e \<noteq> ''.''" using that False assms(2) st(2) by (simp add: plain_elem_def)
    ultimately show ?thesis using assms(1) st(3) unfolding normal_def by metis
  qed
qed

lemma normal_fold: "normal ab st \<Longrightarrow> (\<And>e. e \<in> set es \<Longrightarrow> CHR ''/'' \<notin> set e) \<Longrightarrow> normal ab (fold (clean_step ab) es st)"
  by (induction es arbitrary: st) (simp_all add: normal_step)

lemma normal_walk: "normal ab (walk ab p)"
proof -
  have "normal ab []" unfolding normal_def by (intro exI [of _ "[]"] exI [of _ 0]) simp
  then show ?thesis unfolding walk_def by (rule normal_fold) (rule Split_no_sep)
qed

lemma normal_elems: "normal ab st \<Longrightarrow> e \<in> set st \<Longrightarrow> CHR ''/'' \<notin> set e \<and> e \<noteq> []"
proof -
  assume "normal ab st" and e: "e \<in> set st"
  then obtain xs k where "st = xs @ replicate k ''..''" "list_all plain_elem xs" unfolding normal_def by blast
  with e have "plain_elem e \<or> e = ''..''" by (auto simp: list_all_iff split: if_splits)
  then show ?thesis by (auto simp: plain_elem_def)
qed

text \<open>Walking over the elements of a stack rebuilds it.\<close>

lemma walk_rebuild:
  assumes "normal ab st"
  shows "fold (clean_step ab) (rev st) [] = st"
proof -
  obtain xs k where st: "st = xs @ replicate k ''..''" "list_all plain_elem xs" "ab \<longrightarrow> k = 0" using assms by (auto simp: normal_def)
  have "fold (clean_step False) (replicate k ''..'') (replicate j ''..'') = replicate (k + j) ''..''" for k j
  proof (induction k arbitrary: j)
    case (Suc k)
    have "clean_step False ''..'' (replicate j ''..'') = replicate (Suc j) ''..''" by (cases j) (simp_all add: clean_step_def)
    then show ?case using Suc [of "Suc j"] by simp
  qed simp
  from this [of k 0] have dots: "fold (clean_step False) (replicate k ''..'') [] = replicate k ''..''" by simp
  have "fold (clean_step ab) (rev xs) ys = xs @ ys" if "list_all plain_elem xs" for ys
    using that by (induction xs) (auto simp: clean_step_def plain_elem_def)
  then show ?thesis using st dots by (cases ab) simp_all
qed

lemma Split_append: "Split c (x @ c # y) = Split c x @ Split c y"
  by (induction x) (auto split: list.splits)

lemma walk_append: "walk ab (p @ CHR ''/'' # q) = fold (clean_step ab) (Split (CHR ''/'') q) (walk ab p)"
  by (simp add: walk_def Split_append)

lemma walk_Join: "normal ab st \<Longrightarrow> walk ab (Join ''/'' (rev st)) = st"
proof (cases "st = []")
  case True
  then show ?thesis by (simp add: walk_def clean_step_def)
next
  case False
  assume n: "normal ab st"
  then have "Split (CHR ''/'') (Join ''/'' (rev st)) = rev st" using False by (intro Split_Join) (auto dest: normal_elems)
  then show ?thesis using walk_rebuild [OF n] by (simp add: walk_def)
qed

lemma hd_Join: "st \<noteq> [] \<Longrightarrow> hd st \<noteq> [] \<Longrightarrow> hd (Join sep st) = hd (hd st) \<and> Join sep st \<noteq> []"
  by (cases "(sep, st)" rule: Join.cases) auto

lemma rooted_iff: "rooted p \<longleftrightarrow> p \<noteq> [] \<and> hd p = CHR ''/''"
  by (cases p) (auto simp: rooted_def HasPrefix_def)

lemma Clean_neq [simp]: "Clean p \<noteq> []"
proof -
  have "Join ''/'' (rev (walk (rooted p) p)) \<noteq> []" if "walk (rooted p) p \<noteq> []"
    using that hd_Join [of "rev (walk (rooted p) p)" "''/''"] normal_elems [OF normal_walk last_in_set [OF that]] by (simp add: hd_rev)
  then show ?thesis by (auto simp: Clean_def Let_def)
qed

lemma rooted_Clean: "rooted (Clean p) = rooted p"
proof (cases "rooted p \<or> walk (rooted p) p = []")
  case True
  then show ?thesis by (auto simp: Clean_def rooted_iff Let_def)
next
  case False
  let ?st = "walk (rooted p) p"
  have "?st \<noteq> []" using False by blast
  from normal_elems [OF normal_walk last_in_set [OF this]] have "CHR ''/'' \<notin> set (last ?st)" "last ?st \<noteq> []" by simp_all
  then have "hd (Join ''/'' (rev ?st)) \<noteq> CHR ''/''" using hd_Join [of "rev ?st" "''/''"] False by (auto simp: hd_rev)
  then show ?thesis using False by (simp add: Clean_def rooted_iff Let_def)
qed

lemma walk_Clean: "walk (rooted p) (Clean p) = walk (rooted p) p"
proof -
  have slash: "walk ab (CHR ''/'' # q) = walk ab q" for ab q by (simp add: walk_def clean_step_def)
  have "walk (rooted p) ''.'' = []" by (simp add: walk_def clean_step_def)
  then show ?thesis using walk_Join [OF normal_walk, of "rooted p" p] by (auto simp: Clean_def Let_def slash)
qed

lemma Clean_cong: "rooted p = rooted q \<Longrightarrow> walk (rooted p) p = walk (rooted q) q \<Longrightarrow> Clean p = Clean q"
  by (simp add: Clean_def)

text \<open>Cleaning in steps or at once is the same.\<close>

lemma Clean_Clean_append: "p \<noteq> [] \<Longrightarrow> Clean (Clean p @ ''/'' @ q) = Clean (p @ ''/'' @ q)"
proof -
  assume p: "p \<noteq> []"
  have r: "rooted (Clean p @ ''/'' @ q) = rooted p" "rooted (p @ ''/'' @ q) = rooted p"
    using rooted_Clean [of p] p by (simp_all add: rooted_iff)
  have "walk (rooted p) (Clean p @ ''/'' @ q) = walk (rooted p) (p @ ''/'' @ q)" by (simp add: walk_append walk_Clean)
  then show ?thesis by (intro Clean_cong) (simp_all only: r)
qed

text \<open>A rooted clean path has no parent element.\<close>

lemma Clean_rooted_elems:
  assumes "rooted p" and "e \<in> set (Split (CHR ''/'') (Clean p))"
  shows "e \<noteq> ''..''"
proof -
  let ?st = "rev (walk True p)"
  have n: "normal True (walk True p)" by (rule normal_walk)
  have "Split (CHR ''/'') (Clean p) = [] # Split (CHR ''/'') (Join ''/'' ?st)" using assms(1) by (simp add: Clean_def Let_def)
  moreover have "Split (CHR ''/'') (Join ''/'' ?st) = (if ?st = [] then [[]] else ?st)"
    using n by (auto intro!: Split_Join dest: normal_elems)
  ultimately have "e \<in> set (walk True p) \<or> e = []" using assms(2) by (auto split: if_splits)
  moreover have "plain_elem e" if "e \<in> set (walk True p)" using n that unfolding normal_def by (auto simp: list_all_iff)
  ultimately show ?thesis by (auto simp: plain_elem_def)
qed

end
