(* ===== verification/Caches.thy ===== *)
theory Caches
  imports Databases Paths
begin

text \<open>
  Managed caches: the repository \<^verbatim>\<open>cache_repo.go\<close>, whose queries by identifier are not scoped to a tenant, the service
  \<^verbatim>\<open>cache.go\<close> and its reading of the text that \<^verbatim>\<open>redis-cli INFO\<close> prints.
\<close>

section \<open>Reading the server's report\<close>

text \<open>\<^verbatim>\<open>strings.Split(s, "\r\n")\<close>, \<^verbatim>\<open>strings.Contains\<close> and \<^verbatim>\<open>strconv.Atoi\<close>, or \<^verbatim>\<open>ParseInt(s, 10, 64)\<close>, with the error dropped: zero for what is
  not a number, the nearest bound for what is out of range.\<close>

fun SplitCRLF :: "string \<Rightarrow> string list" where
  "SplitCRLF [] = [[]]"
| "SplitCRLF [c] = [[c]]"
| "SplitCRLF (c # d # s) =
     (if c = CHR 0x0D \<and> d = CHR 0x0A then [] # SplitCRLF s
      else case SplitCRLF (d # s) of [] \<Rightarrow> [[c]] | x # xs \<Rightarrow> (c # x) # xs)"

fun Contains :: "string \<Rightarrow> string \<Rightarrow> bool" where
  "Contains [] p = HasPrefix [] p"
| "Contains (c # s) p = (HasPrefix (c # s) p \<or> Contains s p)"

definition Atoi_val :: "string \<Rightarrow> int" where
  "Atoi_val s =
     (let neg = (case s of [] \<Rightarrow> False | c # _ \<Rightarrow> c = CHR ''-'');
          ds = (case s of [] \<Rightarrow> [] | c # cs \<Rightarrow> if c = CHR ''-'' \<or> c = CHR ''+'' then cs else s)
      in if ds = [] \<or> \<not> list_all is_digit ds then 0
         else if neg then max (- int (dec_val ds)) (- (2 ^ 63)) else min (int (dec_val ds)) (2 ^ 63 - 1))"

fun clients_loop :: "string list \<Rightarrow> int" where
  "clients_loop [] = 0"
| "clients_loop (line # lines) =
     (if HasPrefix line ''connected_clients:''
      then (case Split (CHR '':'') line of [_, p] \<Rightarrow> Atoi_val p | _ \<Rightarrow> clients_loop lines)
      else clients_loop lines)"

definition parseRedisClients :: "string \<Rightarrow> int" where
  "parseRedisClients info = clients_loop (SplitCRLF info)"

definition pair_keys :: "string \<Rightarrow> int" where
  "pair_keys pair =
     (if HasPrefix pair ''keys=''
      then (case Split (CHR ''='') pair of [_, v] \<Rightarrow> Atoi_val v | _ \<Rightarrow> 0)
      else 0)"

definition line_pairs :: "string \<Rightarrow> string list" where
  "line_pairs line =
     (if HasPrefix line ''db'' \<and> Contains line ''keys=''
      then (case Split (CHR '':'') line of _ # stats # _ \<Rightarrow> Split (CHR '','') stats | _ \<Rightarrow> [])
      else [])"

text \<open>The total is an \<^verbatim>\<open>int64\<close>.\<close>

definition parseRedisKeys :: "string \<Rightarrow> 64 word" where
  "parseRedisKeys info =
     fold (\<lambda>line total. fold (\<lambda>pair total. total + word_of_int (pair_keys pair)) (line_pairs line) total) (SplitCRLF info) 0"

section \<open>The repository\<close>

definition CacheRepository_Create :: "Cache \<Rightarrow> unit op" where
  "CacheRepository_Create ca =
     mapErrC (Wrap Internal ''failed to create cache'')
       (insertC (\<lambda>s. [(ca_ID ca \<in> ca_ID ` set (t_caches s), ''caches_pkey''),
                      ((ca_UserID ca, ca_Name ca) \<in> (\<lambda>r. (ca_UserID r, ca_Name r)) ` set (t_caches s), ''caches_user_id_name_key''),
                      (\<not> has_user s (ca_UserID ca), ''caches_user_id_fkey''),
                      (case ca_VpcID ca of None \<Rightarrow> False | Some v \<Rightarrow> \<not> list_ex (\<lambda>r. vpc_ID r = v) (t_vpcs s), ''caches_vpc_id_fkey'')])
                (\<lambda>s. s\<lparr>t_caches := t_caches s @ [ca]\<rparr>))"

definition CacheRepository_GetByID :: "uuid \<Rightarrow> Cache op" where
  "CacheRepository_GetByID i =
     mapErrC (row_err (New NotFound ''cache not found'') ''failed to get cache'')
       (queryRowC (\<lambda>s. find (\<lambda>r. ca_ID r = i) (t_caches s)))"

definition CacheRepository_GetByName :: "uuid \<Rightarrow> string \<Rightarrow> Cache op" where
  "CacheRepository_GetByName userID name =
     mapErrC (row_err (New NotFound ''cache not found'') ''failed to get cache by name'')
       (queryRowC (\<lambda>s. find (\<lambda>r. ca_UserID r = userID \<and> ca_Name r = name) (t_caches s)))"

definition CacheRepository_List :: "uuid \<Rightarrow> Cache list op" where
  "CacheRepository_List userID =
     mapErrC (Wrap Internal ''failed to list caches'')
       (queryC (\<lambda>s. sort_key (\<lambda>r. - ca_CreatedAt r) (filter (\<lambda>r. ca_UserID r = userID) (t_caches s))))"

definition CacheRepository_Update :: "Cache \<Rightarrow> unit op" where
  "CacheRepository_Update ca =
     (let P = (\<lambda>r. ca_ID r = ca_ID ca) in
     bindC (mapErrC (Wrap Internal ''failed to update cache'')
       (execC noConstraint (\<lambda>s. rows_affected P (t_caches s))
          (\<lambda>s. s\<lparr>t_caches := upd_where P (\<lambda>r. r\<lparr>ca_Status := ca_Status ca, ca_ContainerID := ca_ContainerID ca, ca_Port := ca_Port ca,
                   ca_UpdatedAt := ca_UpdatedAt ca\<rparr>) (t_caches s)\<rparr>)))
       (\<lambda>_. returnC ()))"

definition CacheRepository_Delete :: "uuid \<Rightarrow> unit op" where
  "CacheRepository_Delete i =
     bindC (mapErrC (Wrap Internal ''failed to delete cache'')
       (execC noConstraint (\<lambda>s. rows_affected (\<lambda>r. ca_ID r = i) (t_caches s)) (\<lambda>s. s\<lparr>t_caches := filter (\<lambda>r. ca_ID r \<noteq> i) (t_caches s)\<rparr>)))
       (\<lambda>_. returnC ())"

section \<open>The service\<close>

definition redis_cmd :: "string \<Rightarrow> int \<Rightarrow> string list" where
  "redis_cmd password memoryMB =
     [''redis-server'', ''--appendonly'', ''yes'', ''--save'', [], ''--requirepass'', password, ''--maxmemory'', int_string memoryMB @ ''mb'',
      ''--maxmemory-policy'', ''allkeys-lru'', ''--tcp-keepalive'', ''300'']"

definition CreateCache :: "env \<Rightarrow> ctx \<Rightarrow> string \<Rightarrow> string \<Rightarrow> int \<Rightarrow> uuid option \<Rightarrow> Cache op" where
  "CreateCache E ctx name version memoryMB vpcID =
     (let userID = UserIDFromContext ctx in
     bindC (mapErrC (Wrap Internal ''failed to generate password'') (GenerateRandomPassword E 16)) (\<lambda>password.
     bindC (newUUID E) (\<lambda>i.
     bindC nowC (\<lambda>now.
     let ca = \<lparr>ca_ID = i, ca_UserID = userID, ca_Name = name, ca_Engine = EngineRedis, ca_Version = version, ca_Status = CacheStatusCreating,
               ca_VpcID = vpcID, ca_ContainerID = [], ca_Port = 0, ca_Password = password, ca_MemoryMB = memoryMB,
               ca_CreatedAt = now, ca_UpdatedAt = now\<rparr> in
     bindC (CacheRepository_Create ca) (\<lambda>_.
     bindC (vpc_network E ctx vpcID) (\<lambda>networkID.
     bindC (tryC (backendCreateC E (BCreateInstance (''thecloud-cache-'' @ id8 E i) (''redis:'' @ version @ ''-alpine'') [''0:6379''] networkID [] []
                    (redis_cmd password memoryMB)))) (\<lambda>r.
     case r of
       Inl err \<Rightarrow> bindC (ignoreC (CacheRepository_Delete i)) (\<lambda>_. failC (Wrap Internal ''failed to launch cache container'' err))
     | Inr containerID \<Rightarrow>
     bindC (port_or_zero E containerID ''6379'') (\<lambda>port.
     let ca = ca\<lparr>ca_Status := CacheStatusRunning, ca_ContainerID := containerID, ca_Port := port\<rparr> in
     bindC (ignoreC (CacheRepository_Update ca)) (\<lambda>_.
     bindC (ignoreC (RecordEvent E ctx ''CACHE_CREATE'' (uuid_string E i) ''CACHE''
              [(''name'', GStr name), (''version'', GStr version), (''memory'', GInt memoryMB)])) (\<lambda>_.
     bindC (ignoreC (Log E ctx userID ''cache.create'' ''cache'' (uuid_string E i) [(''name'', GStr name)])) (\<lambda>_.
     bindC (metricC (MInc ''CacheInstancesTotal'' [''running''])) (\<lambda>_.
     returnC ca))))))))))))"

definition getCacheByIDOrName :: "env \<Rightarrow> ctx \<Rightarrow> string \<Rightarrow> Cache op" where
  "getCacheByIDOrName E ctx idOrName =
     (case uuid_parse E idOrName of
        Some i \<Rightarrow> CacheRepository_GetByID i
      | None \<Rightarrow> CacheRepository_GetByName (UserIDFromContext ctx) idOrName)"

definition GetCache :: "env \<Rightarrow> ctx \<Rightarrow> string \<Rightarrow> Cache op" where
  "GetCache E ctx idOrName = getCacheByIDOrName E ctx idOrName"

definition ListCaches :: "ctx \<Rightarrow> Cache list op" where
  "ListCaches ctx = CacheRepository_List (UserIDFromContext ctx)"

definition DeleteCache :: "env \<Rightarrow> ctx \<Rightarrow> string \<Rightarrow> unit op" where
  "DeleteCache E ctx idOrName =
     bindC (getCacheByIDOrName E ctx idOrName) (\<lambda>ca.
     bindC (if ca_ContainerID ca \<noteq> []
            then bindC (ignoreC (backendC (BStopInstance (ca_ContainerID ca)))) (\<lambda>_. ignoreC (backendC (BDeleteInstance (ca_ContainerID ca))))
            else returnC ()) (\<lambda>_.
     bindC (CacheRepository_Delete (ca_ID ca)) (\<lambda>_.
     bindC (ignoreC (RecordEvent E ctx ''CACHE_DELETE'' (uuid_string E (ca_ID ca)) ''CACHE'' [])) (\<lambda>_.
     bindC (ignoreC (Log E ctx (ca_UserID ca) ''cache.delete'' ''cache'' (uuid_string E (ca_ID ca)) [(''name'', GStr (ca_Name ca))])) (\<lambda>_.
     metricC (MDec ''CacheInstancesTotal'' [''running'']))))))"

definition CacheService_GetConnectionString :: "env \<Rightarrow> ctx \<Rightarrow> string \<Rightarrow> string op" where
  "CacheService_GetConnectionString E ctx idOrName =
     bindC (getCacheByIDOrName E ctx idOrName) (\<lambda>ca.
     returnC (''redis://:'' @ ca_Password ca @ ''@localhost:'' @ int_string (ca_Port ca)))"

text \<open>A command of the client in the container; the output of one that fails is part of the error.\<close>

definition ExecC :: "env \<Rightarrow> string \<Rightarrow> string list \<Rightarrow> string op" where
  "ExecC E cid cmd = bindC (backendC (BExec cid cmd)) (\<lambda>_. returnC (backend_exec E cid cmd))"

definition redis_cli :: "Cache \<Rightarrow> string \<Rightarrow> string list" where
  "redis_cli ca command = ''redis-cli'' # (if ca_Password ca \<noteq> [] then [''-a'', ca_Password ca] else []) @ [command]"

definition FlushCache :: "env \<Rightarrow> ctx \<Rightarrow> string \<Rightarrow> unit op" where
  "FlushCache E ctx idOrName =
     bindC (getCacheByIDOrName E ctx idOrName) (\<lambda>ca.
     bindC (guardC (ca_Status ca \<noteq> CacheStatusRunning) (New InstanceNotRunning ''cache is not running'')) (\<lambda>_.
     bindC (mapErrC (Wrap Internal (''failed to flush cache: '' @ backend_exec_err E (ca_ContainerID ca) (redis_cli ca ''FLUSHALL'')))
              (ExecC E (ca_ContainerID ca) (redis_cli ca ''FLUSHALL''))) (\<lambda>_.
     ignoreC (Log E ctx (ca_UserID ca) ''cache.flush'' ''cache'' (uuid_string E (ca_ID ca)) []))))"

record CacheStats =
  cs_UsedMemoryBytes :: int
  cs_MaxMemoryBytes :: int
  cs_ConnectedClients :: int
  cs_TotalKeys :: int

definition GetCacheStats :: "env \<Rightarrow> ctx \<Rightarrow> string \<Rightarrow> CacheStats op" where
  "GetCacheStats E ctx idOrName =
     bindC (getCacheByIDOrName E ctx idOrName) (\<lambda>ca.
     bindC (guardC (ca_Status ca \<noteq> CacheStatusRunning) (New InstanceNotRunning ''cache is not running'')) (\<lambda>_.
     bindC (backendC (BGetInstanceStats (ca_ContainerID ca))) (\<lambda>_.
     case backend_stats E (ca_ContainerID ca) of
       None \<Rightarrow> failC (Wrap Internal ''failed to decode stats'' (ExtError ''invalid character''))
     | Some st \<Rightarrow>
     let result = \<lparr>cs_UsedMemoryBytes = sint (word_of_nat (mem_usage st) :: 64 word), cs_MaxMemoryBytes = sint (word_of_nat (mem_limit st) :: 64 word), cs_ConnectedClients = 0, cs_TotalKeys = 0\<rparr> in
     bindC (tryC (ExecC E (ca_ContainerID ca) (redis_cli ca ''INFO''))) (\<lambda>r.
     returnC (case r of
       Inl _ \<Rightarrow> result
     | Inr output \<Rightarrow> result\<lparr>cs_ConnectedClients := parseRedisClients output, cs_TotalKeys := sint (parseRedisKeys output)\<rparr>)))))"


section \<open>Facts\<close>

lemma SplitCRLF_plain: "CHR 0x0D \<notin> set l \<Longrightarrow> SplitCRLF l = [l]"
  by (induction l rule: SplitCRLF.induct) auto

lemma SplitCRLF_append: "CHR 0x0D \<notin> set l \<Longrightarrow> SplitCRLF (l @ CHR 0x0D # CHR 0x0A # r) = l # SplitCRLF r"
proof (induction l)
  case (Cons c l)
  then show ?case by (cases l) auto
qed simp

lemma SplitCRLF_Join: "ls \<noteq> [] \<Longrightarrow> (\<And>l. l \<in> set ls \<Longrightarrow> CHR 0x0D \<notin> set l) \<Longrightarrow> SplitCRLF (Join [CHR 0x0D, CHR 0x0A] ls) = ls"
proof (induction ls)
  case (Cons l ls)
  then show ?case by (cases ls) (simp_all add: SplitCRLF_plain SplitCRLF_append)
qed simp

lemma digits_only: "list_all is_digit p \<Longrightarrow> \<not> is_digit c \<Longrightarrow> c \<notin> set p"
  by (auto simp: list_all_iff)

lemma nat_string_no [simp]: "\<not> is_digit c \<Longrightarrow> c \<notin> set (nat_string n)"
  by (rule digits_only) (simp_all add: nat_string_digits)

lemma not_digit_text [simp]: "\<not> is_digit CHR 0x0D" "\<not> is_digit CHR ''=''" "\<not> is_digit CHR ''k''"
  by (simp_all add: is_digit_def)

lemma Atoi_val_nat_string: "int n < 2 ^ 63 \<Longrightarrow> Atoi_val (nat_string n) = int n"
proof -
  assume "int n < 2 ^ 63"
  moreover obtain c cs where eq: "nat_string n = c # cs" using nat_string_digits [of n] by (cases "nat_string n") auto
  moreover have "c \<noteq> CHR ''-''" "c \<noteq> CHR ''+''" using nat_string_hd [OF eq] by auto
  ultimately show ?thesis using nat_string_digits [of n] by (simp add: Atoi_val_def)
qed

lemma sint_small: "int n < 2 ^ 63 \<Longrightarrow> sint (word_of_nat n :: 64 word) = int n"
proof -
  assume "int n < 2 ^ 63"
  then show ?thesis using int_word_sint [of "int n", where 'a = 64] by simp
qed

text \<open>The lines of a report: its clients, and a line for each database with its keys and further pairs, such as \<^verbatim>\<open>expires=0\<close> and
  \<^verbatim>\<open>avg_ttl=0\<close>.\<close>

definition clients_line :: "nat \<Rightarrow> string" where
  "clients_line n = ''connected_clients:'' @ nat_string n"

definition db_line :: "nat \<times> nat \<times> string list \<Rightarrow> string" where
  "db_line d = (case d of (i, keys, pairs) \<Rightarrow> ''db'' @ nat_string i @ '':'' @ Join '','' ((''keys='' @ nat_string keys) # pairs))"

text \<open>A pair that a database line may carry beside its keys.\<close>

definition other_pair :: "string \<Rightarrow> bool" where
  "other_pair p \<longleftrightarrow> CHR '':'' \<notin> set p \<and> CHR '','' \<notin> set p \<and> CHR 0x0D \<notin> set p \<and> \<not> HasPrefix p ''keys=''"

lemma Contains_append: "Contains q p \<Longrightarrow> Contains (s @ q) p"
  by (induction s) auto

lemma Contains_prefix: "Contains (p @ q) p"
  using HasPrefix_append [of p q] by (cases "p @ q") auto

lemma set_Join: "set (Join sep xs) \<subseteq> set sep \<union> (\<Union>x\<in>set xs. set x)"
  by (induction sep xs rule: Join.induct) auto

lemma Split_Join_comma:
  "xs \<noteq> [] \<Longrightarrow> \<forall>x\<in>set xs. c \<notin> set x \<Longrightarrow> Split c (Join [c] xs) = xs"
  by (induction "[c]" xs rule: Join.induct) (simp_all add: Split_no_occ Split_append_sep)

lemma line_pairs_db:
  assumes "\<forall>p\<in>set pairs. other_pair p"
  shows "line_pairs (db_line (i, k, pairs)) = (''keys='' @ nat_string k) # pairs"
proof -
  let ?ps = "(''keys='' @ nat_string k) # pairs"
  let ?stats = "Join '','' ?ps"
  have "Contains ?stats ''keys=''"
    using Contains_prefix [of "''keys=''"] by (cases pairs) simp_all
  then have "Contains (db_line (i, k, pairs)) ''keys=''"
    using Contains_append [of ?stats "''keys=''" "''db'' @ nat_string i @ '':''"] by (simp add: db_line_def)
  moreover have "CHR '':'' \<notin> set ?stats"
    using set_Join [of "'',''" ?ps] assms by (auto simp: other_pair_def)
  then have "Split (CHR '':'') (db_line (i, k, pairs)) = [''db'' @ nat_string i, ?stats]"
    using Split_append_sep [of "CHR '':''" "''db'' @ nat_string i" ?stats] by (simp add: db_line_def Split_no_occ)
  moreover have "Split (CHR '','') ?stats = ?ps"
    using assms by (intro Split_Join_comma) (auto simp: other_pair_def)
  moreover have "HasPrefix (db_line (i, k, pairs)) ''db''" by (simp add: db_line_def HasPrefix_def)
  ultimately show ?thesis by (simp add: line_pairs_def)
qed

lemma line_pairs_clients: "line_pairs (clients_line n) = []"
  by (simp add: line_pairs_def clients_line_def HasPrefix_def)

lemma pair_keys_number: "int k < 2 ^ 63 \<Longrightarrow> pair_keys (''keys='' @ nat_string k) = int k"
  using Split_append_sep [of "CHR ''=''" "''keys''" "nat_string k"] by (simp add: pair_keys_def HasPrefix_def Split_no_occ Atoi_val_nat_string)

lemma fold_pairs:
  "\<forall>p\<in>set pairs. other_pair p \<Longrightarrow> fold (\<lambda>pair total. total + word_of_int (pair_keys pair)) pairs w = w"
  by (induction pairs) (simp_all add: other_pair_def pair_keys_def)

lemma fold_dbs:
  assumes "\<And>d. d \<in> set dbs \<Longrightarrow> int (fst (snd d)) < 2 ^ 63 \<and> (\<forall>p\<in>set (snd (snd d)). other_pair p)"
  shows "fold (\<lambda>line total. fold (\<lambda>pair total. total + word_of_int (pair_keys pair)) (line_pairs line) total) (map db_line dbs) w =
    w + word_of_nat (sum_list (map (\<lambda>d. fst (snd d)) dbs))"
  using assms
proof (induction dbs arbitrary: w)
  case (Cons d dbs)
  obtain i k e where d: "d = (i, k, e)" by (cases d)
  have "fold (\<lambda>pair total. total + word_of_int (pair_keys pair)) (line_pairs (db_line d)) w = w + word_of_nat k"
    using Cons.prems [of d] d by (simp add: line_pairs_db fold_pairs pair_keys_number [simplified])
  moreover note Cons.IH [of "w + word_of_nat k", OF Cons.prems [OF list.set_intros(2)]]
  ultimately show ?case using d by (simp add: add.assoc)
qed simp

text \<open>A line that is not read as one of a database.\<close>

definition no_db_line :: "string \<Rightarrow> bool" where
  "no_db_line l \<longleftrightarrow> \<not> (HasPrefix l ''db'' \<and> Contains l ''keys='')"

lemma fold_other:
  assumes "\<And>l. l \<in> set ls \<Longrightarrow> no_db_line l"
  shows "fold (\<lambda>line total. fold (\<lambda>pair total. total + word_of_int (pair_keys pair)) (line_pairs line) total) ls w = w"
  using assms by (induction ls) (auto simp: line_pairs_def no_db_line_def)

section \<open>Properties\<close>

text \<open>C31. The report of the server is read back: the number of clients and the sum of the keys of all databases are the numbers that were printed, as long as
  they fit an \<^verbatim>\<open>int64\<close>. A line of a database may carry any further pairs without a colon, a comma or a second count of keys; before, between and after these lines
  there may be any lines without a carriage return that are not read as the line of a database, the first ones not as that of the clients either.\<close>

theorem redis_report_roundtrip:
  fixes dbs :: "(nat \<times> nat \<times> string list) list"
  assumes "\<forall>l \<in> set (before @ between @ after). CHR 0x0D \<notin> set l \<and> no_db_line l" and "\<forall>l \<in> set before. \<not> HasPrefix l ''connected_clients:''"
    and "\<forall>d \<in> set dbs. \<forall>p \<in> set (snd (snd d)). other_pair p"
    and "int n < 2 ^ 63" and "int (sum_list (map (\<lambda>d. fst (snd d)) dbs)) < 2 ^ 63"
    and "info = Join [CHR 0x0D, CHR 0x0A] (before @ [clients_line n] @ between @ map db_line dbs @ after)"
  shows "parseRedisClients info = int n \<and> sint (parseRedisKeys info) = int (sum_list (map (\<lambda>d. fst (snd d)) dbs))"
proof -
  let ?ls = "before @ [clients_line n] @ between @ map db_line dbs @ after"
  let ?sum = "sum_list (map (\<lambda>d. fst (snd d)) dbs)"
  have "CHR 0x0D \<notin> set (db_line d)" if "d \<in> set dbs" for d
    using that assms(3) set_Join [of "'',''" "(''keys='' @ nat_string (fst (snd d))) # snd (snd d)"]
    by (auto simp: db_line_def other_pair_def split: prod.split)
  then have "CHR 0x0D \<notin> set l" if "l \<in> set ?ls" for l
    using that assms(1) by (auto simp: clients_line_def)
  then have ls: "SplitCRLF info = ?ls" unfolding assms(6) by (intro SplitCRLF_Join) simp_all
  have "clients_loop (before @ clients_line n # rest) = int n" for rest
  proof -
    have "Split (CHR '':'') (clients_line n) = [''connected_clients'', nat_string n]"
      using Split_append_sep [of "CHR '':''" "''connected_clients''" "nat_string n"] by (simp add: clients_line_def Split_no_occ)
    then have "clients_loop (clients_line n # rest) = int n" using assms(4) by (simp add: clients_line_def HasPrefix_def Atoi_val_nat_string)
    moreover have "clients_loop (ls @ rest') = clients_loop rest'" if "\<forall>l \<in> set ls. \<not> HasPrefix l ''connected_clients:''" for ls rest'
      using that by (induction ls) auto
    ultimately show ?thesis using assms(2) by simp
  qed
  then have "parseRedisClients info = int n" by (simp add: parseRedisClients_def ls)
  moreover have "int (fst (snd d)) < 2 ^ 63" if "d \<in> set dbs" for d
    using that assms(5) member_le_sum_list [of "fst (snd d)" "map (\<lambda>d. fst (snd d)) dbs"] by (auto simp: image_iff intro: le_less_trans)
  then have "parseRedisKeys info = word_of_nat ?sum"
    using assms(1,3) unfolding parseRedisKeys_def ls by (simp add: fold_dbs fold_other line_pairs_clients)
  then have "sint (parseRedisKeys info) = int ?sum"
    using assms(5) sint_small [of ?sum] by simp
  ultimately show ?thesis by blast
qed

text \<open>Caches are not scoped to tenants: whoever knows the identifier of a cache obtains its password, and can delete it with its
  container, whoever owns it.\<close>

theorem cache_unscoped:
  assumes "uuid_parse E text = Some i" and "find (\<lambda>r. ca_ID r = i) (t_caches s) = Some ca" and "ca_ContainerID ca \<noteq> []" and "faults s = []"
  shows "fst (CacheService_GetConnectionString E ctx text s) = Ok (''redis://:'' @ ca_Password ca @ ''@localhost:'' @ int_string (ca_Port ca)) \<and>
    (\<exists>s'. DeleteCache E ctx text s = (Ok (), s') \<and> t_caches s' = filter (\<lambda>r. ca_ID r \<noteq> i) (t_caches s) \<and>
       calls s' = calls s @ [BStopInstance (ca_ContainerID ca), BDeleteInstance (ca_ContainerID ca)])"
proof
  show "fst (CacheService_GetConnectionString E ctx text s) = Ok (''redis://:'' @ ca_Password ca @ ''@localhost:'' @ int_string (ca_Port ca))"
    using assms by (simp add: CacheService_GetConnectionString_def getCacheByIDOrName_def CacheRepository_GetByID_def run)
  have "ca_ID ca = i" using find_Some_set [OF assms(2)] by simp
  then have "wp (DeleteCache E ctx text) (\<lambda>r s'. r = Ok () \<and> t_caches s' = filter (\<lambda>r. ca_ID r \<noteq> i) (t_caches s) \<and>
      calls s' = calls s @ [BStopInstance (ca_ContainerID ca), BDeleteInstance (ca_ContainerID ca)]) s"
    using assms unfolding DeleteCache_def getCacheByIDOrName_def CacheRepository_GetByID_def CacheRepository_Delete_def
    by (auto simp: wps wpnf wp_metricC logged_simps simp del: wp_ignoreC intro!: wp_ignore_RecordEvent_nf wp_ignore_Log_nf wp_ignore_backend_nf)
  then show "\<exists>s'. DeleteCache E ctx text s = (Ok (), s') \<and> t_caches s' = filter (\<lambda>r. ca_ID r \<noteq> i) (t_caches s) \<and>
       calls s' = calls s @ [BStopInstance (ca_ContainerID ca), BDeleteInstance (ca_ContainerID ca)]"
    by (rule wp_returns)
qed


text \<open>A cache is asked for in a network that is there but belongs to another tenant: the request fails, but its row stays in the table,
  being created forever, with no container; asking for the same name again fails because of it.\<close>

theorem cache_left_creating:
  assumes "v \<in> set (t_vpcs s)" and "\<And>r. r \<in> set (t_vpcs s) \<Longrightarrow> vpc_ID r = vpc_ID v \<Longrightarrow> vpc_UserID r \<noteq> UserIDFromContext ctx"
    and "faults s = []" and "has_user s (UserIDFromContext ctx)" and "name \<notin> ca_Name ` set (t_caches s)"
    and "uuid_at E (uuid_ctr s) \<notin> ca_ID ` set (t_caches s)"
  shows "\<exists>e s' ca. CreateCache E ctx name version mem (Some (vpc_ID v)) s = (Err e, s') \<and> t_caches s' = t_caches s @ [ca] \<and>
    ca_Status ca = CacheStatusCreating \<and> ca_ContainerID ca = [] \<and> ca_Name ca = name \<and> calls s' = calls s \<and>
    (\<forall>version' mem' vpcID' ca'. fst (CreateCache E ctx name version' mem' vpcID' s') \<noteq> Ok ca')"
proof -
  have v: "find (\<lambda>r. vpc_ID r = vpc_ID v \<and> vpc_UserID r = UserIDFromContext ctx) (t_vpcs s) = None" "list_ex (\<lambda>r. vpc_ID r = vpc_ID v) (t_vpcs s)"
    using assms(1,2) by (auto simp: find_None_iff list_ex_iff)
  have fl: "failing (faults s) = 0" using assms(3) by (simp add: failing_def)
  have "wp (CreateCache E ctx name version mem (Some (vpc_ID v))) (\<lambda>r s'. \<exists>e ca. r = Err e \<and> t_caches s' = t_caches s @ [ca] \<and>
    ca_Status ca = CacheStatusCreating \<and> ca_ContainerID ca = [] \<and> ca_Name ca = name \<and> ca_UserID ca = UserIDFromContext ctx \<and> calls s' = calls s) s"
    using assms(4-) v fl unfolding CreateCache_def CacheRepository_Create_def VpcRepository_GetByID_def vpc_network_def Let_def
    by (auto simp: wps wp_newUUID wp_nowC has_user_def image_iff intro!: wp_GenerateRandomPassword wp_failing)
  then obtain e s' ca where s': "CreateCache E ctx name version mem (Some (vpc_ID v)) s = (Err e, s')" "t_caches s' = t_caches s @ [ca]"
      "ca_Status ca = CacheStatusCreating" "ca_ContainerID ca = []" "ca_Name ca = name" "ca_UserID ca = UserIDFromContext ctx" "calls s' = calls s"
    by (cases "CreateCache E ctx name version mem (Some (vpc_ID v)) s") (auto simp: wp_def)
  have "fst (CreateCache E ctx name version' mem' vpcID' s') \<noteq> Ok ca'" for version' mem' vpcID' ca'
  proof -
    have "wp (CreateCache E ctx name version' mem' vpcID') (\<lambda>r s''. r \<noteq> Ok ca') s'"
      unfolding CreateCache_def CacheRepository_Create_def Let_def
      using s'(2,5,6) by (auto simp: wps wp_newUUID wp_nowC violated_def intro!: wp_GenerateRandomPassword wp_insertC split: if_splits)
    then show ?thesis by (auto simp: wp_def split: prod.splits)
  qed
  with s' show ?thesis by blast
qed


section \<open>Witnesses\<close>

definition sample_cache :: Cache where
  "sample_cache = \<lparr>ca_ID = 85, ca_UserID = 1, ca_Name = ''c1'', ca_Engine = EngineRedis, ca_Version = ''7'', ca_Status = CacheStatusRunning,
     ca_VpcID = None, ca_ContainerID = ''cid'', ca_Port = 7001, ca_Password = ''pw'', ca_MemoryMB = 64, ca_CreatedAt = 0, ca_UpdatedAt = 0\<rparr>"

definition sample_report :: string where
  "sample_report = Join [CHR 0x0D, CHR 0x0A] ([''# Clients''] @ [clients_line 3] @ [''# Keyspace''] @
     map db_line [(0, 12, [''expires=4'', ''avg_ttl=86400'']), (1, 30, [])] @ [[]])"

theorem redis_report_roundtrip_witness: "parseRedisClients sample_report = 3 \<and> sint (parseRedisKeys sample_report) = 42"
  using redis_report_roundtrip [OF _ _ _ _ _ sample_report_def] by (simp add: HasPrefix_def no_db_line_def other_pair_def)

theorem cache_unscoped_witness:
  "ca_UserID sample_cache = 1 \<and>
   fst (CacheService_GetConnectionString (sample_env\<lparr>uuid_parse := \<lambda>_. Some 85\<rparr>) (Some 2) ''85'' (sample_world\<lparr>t_caches := [sample_cache]\<rparr>)) =
     Ok (''redis://:pw@localhost:'' @ int_string 7001) \<and>
   (\<exists>s'. DeleteCache (sample_env\<lparr>uuid_parse := \<lambda>_. Some 85\<rparr>) (Some 2) ''85'' (sample_world\<lparr>t_caches := [sample_cache]\<rparr>) = (Ok (), s') \<and> t_caches s' = [])"
  using cache_unscoped [of "sample_env\<lparr>uuid_parse := \<lambda>_. Some 85\<rparr>" "''85''" 85 "sample_world\<lparr>t_caches := [sample_cache]\<rparr>" sample_cache "Some 2"]
  by (auto simp: sample_cache_def)

theorem cache_left_creating_witness:
  "\<exists>e s' ca. CreateCache sample_env (Some 2) ''c2'' ''7'' 64 (Some 20) (sample_world\<lparr>t_vpcs := [sample_vpc]\<rparr>) = (Err e, s') \<and> t_caches s' = [ca] \<and>
     ca_Status ca = CacheStatusCreating \<and> (\<forall>version' mem' vpcID' ca'. fst (CreateCache sample_env (Some 2) ''c2'' version' mem' vpcID' s') \<noteq> Ok ca')"
proof -
  have "vpc_ID sample_vpc = 20" "vpc_UserID sample_vpc = 1" by (simp_all add: sample_vpc_def)
  then show ?thesis
    using cache_left_creating [of sample_vpc "sample_world\<lparr>t_vpcs := [sample_vpc]\<rparr>" "Some 2" "''c2''" sample_env "''7''" 64]
    by (auto simp: has_user_def)
qed

end
