(* ===== verification/Storage.thy ===== *)
theory Storage
  imports Networks Frames Paths
begin

text \<open>
  Object storage: the local file store \<^verbatim>\<open>filesystem/adapter.go\<close>, the metadata repository \<^verbatim>\<open>storage_repo.go\<close> and the service
  \<^verbatim>\<open>storage.go\<close>. The file system is a map from paths to contents; what else can go wrong on a disk (directories in the
  way, permissions, space) is a fault of the call.
\<close>

section \<open>The file store\<close>

definition basePath :: string where
  "basePath = ''./thecloud-data/local/storage''"

definition store_path :: "string \<Rightarrow> string \<Rightarrow> string" where
  "store_path bucket key = Join_path [basePath, Clean bucket, Clean key]"

definition traversal :: error where
  "traversal = New InvalidInput ''invalid path: traversal detected''"

text \<open>Creating a file truncates it; a copy that fails leaves the truncated file.\<close>

definition LocalFileStore_Write :: "string \<Rightarrow> string \<Rightarrow> string \<Rightarrow> int op" where
  "LocalFileStore_Write bucket key content =
     (let bucketPath = Join_path [basePath, Clean bucket]; filePath = Join_path [bucketPath, Clean key] in
     bindC (guardC (\<not> HasPrefix filePath (Clean basePath)) traversal) (\<lambda>_.
     bindC (mapErrC (Wrap Internal ''failed to create directories'') (extC (returnC ()))) (\<lambda>_.
     bindC (mapErrC (Wrap Internal ''failed to create file'') (extC (modifyC (\<lambda>s. s\<lparr>files := (files s)(filePath \<mapsto> [])\<rparr>)))) (\<lambda>_.
     bindC (mapErrC (Wrap Internal ''failed to write file'') (extC (modifyC (\<lambda>s. s\<lparr>files := (files s)(filePath \<mapsto> content)\<rparr>)))) (\<lambda>_.
     returnC (int (length content)))))))"

definition LocalFileStore_Read :: "string \<Rightarrow> string \<Rightarrow> string op" where
  "LocalFileStore_Read bucket key =
     (let filePath = store_path bucket key in
     bindC (guardC (\<not> HasPrefix filePath (Clean basePath)) traversal) (\<lambda>_.
     bindC (mapErrC (Wrap Internal ''failed to open file'') (extC (getC (\<lambda>s. files s filePath)))) (\<lambda>f.
     case f of None \<Rightarrow> failC (New ObjectNotFound ''object not found on disk'') | Some content \<Rightarrow> returnC content)))"

definition LocalFileStore_Delete :: "string \<Rightarrow> string \<Rightarrow> unit op" where
  "LocalFileStore_Delete bucket key =
     (let filePath = store_path bucket key in
     bindC (guardC (\<not> HasPrefix filePath (Clean basePath)) traversal) (\<lambda>_.
     mapErrC (Wrap Internal ''failed to delete file'') (extC (modifyC (\<lambda>s. s\<lparr>files := (files s)(filePath := None)\<rparr>)))))"

section \<open>The repository\<close>

text \<open>A row with the same bucket and key is overwritten, its owner included, unless the new one would violate a constraint.\<close>

definition same_object :: "Object \<Rightarrow> Object \<Rightarrow> bool" where
  "same_object x r \<longleftrightarrow> obj_Bucket r = obj_Bucket x \<and> obj_Key r = obj_Key x"

definition StorageRepository_SaveMeta :: "Object \<Rightarrow> unit op" where
  "StorageRepository_SaveMeta x =
     mapErrC (Wrap Internal ''failed to save object metadata'')
       (insertC (\<lambda>s. [(\<not> has_user s (obj_UserID x), ''objects_user_id_fkey''),
                      (\<not> list_ex (same_object x) (t_objects s) \<and> obj_ID x \<in> obj_ID ` set (t_objects s), ''objects_pkey''),
                      (\<not> list_ex (same_object x) (t_objects s) \<and> obj_ARN x \<in> obj_ARN ` set (t_objects s), ''objects_arn_key'')])
                (\<lambda>s. if list_ex (same_object x) (t_objects s)
                     then s\<lparr>t_objects := upd_where (same_object x) (\<lambda>r. r\<lparr>obj_SizeBytes := obj_SizeBytes x, obj_ContentType := obj_ContentType x,
                              obj_CreatedAt := obj_CreatedAt x, obj_DeletedAt := None, obj_UserID := obj_UserID x\<rparr>) (t_objects s)\<rparr>
                     else s\<lparr>t_objects := t_objects s @ [x]\<rparr>))"

definition live_object :: "ctx \<Rightarrow> string \<Rightarrow> string \<Rightarrow> Object \<Rightarrow> bool" where
  "live_object ctx bucket key r \<longleftrightarrow>
     obj_Bucket r = bucket \<and> obj_Key r = key \<and> obj_DeletedAt r = None \<and> obj_UserID r = UserIDFromContext ctx"

definition StorageRepository_GetMeta :: "ctx \<Rightarrow> string \<Rightarrow> string \<Rightarrow> Object op" where
  "StorageRepository_GetMeta ctx bucket key =
     mapErrC (row_err (New ObjectNotFound ''object metadata not found'') ''failed to get object metadata'')
       (queryRowC (\<lambda>s. find (live_object ctx bucket key) (t_objects s)))"


definition StorageRepository_List :: "ctx \<Rightarrow> string \<Rightarrow> Object list op" where
  "StorageRepository_List ctx bucket =
     mapErrC (Wrap Internal ''failed to list objects'')
       (queryC (\<lambda>s. sort_key (\<lambda>r. - obj_CreatedAt r)
          (filter (\<lambda>r. obj_Bucket r = bucket \<and> obj_DeletedAt r = None \<and> obj_UserID r = UserIDFromContext ctx) (t_objects s))))"

definition StorageRepository_SoftDelete :: "ctx \<Rightarrow> string \<Rightarrow> string \<Rightarrow> unit op" where
  "StorageRepository_SoftDelete ctx bucket key =
     (let P = live_object ctx bucket key in
     bindC nowC (\<lambda>now.
     bindC (mapErrC (Wrap Internal ''failed to soft delete object'')
       (execC noConstraint (\<lambda>s. rows_affected P (t_objects s))
          (\<lambda>s. s\<lparr>t_objects := upd_where P (\<lambda>r. r\<lparr>obj_DeletedAt := Some now\<rparr>) (t_objects s)\<rparr>)))
       (\<lambda>n. guardC (n = 0) (New ObjectNotFound ''object not found or already deleted''))))"

section \<open>The service\<close>

definition Upload :: "env \<Rightarrow> ctx \<Rightarrow> string \<Rightarrow> string \<Rightarrow> string \<Rightarrow> Object op" where
  "Upload E ctx bucket key content =
     bindC (LocalFileStore_Write bucket key content) (\<lambda>size'.
     bindC (newUUID E) (\<lambda>i.
     bindC nowC (\<lambda>now.
     let obj = \<lparr>obj_ID = i, obj_UserID = UserIDFromContext ctx, obj_ARN = ''arn:thecloud:storage:local:default:object/'' @ bucket @ ''/'' @ key,
                obj_Bucket = bucket, obj_Key = key, obj_SizeBytes = size', obj_ContentType = ''application/octet-stream'',
                obj_CreatedAt = now, obj_DeletedAt = None\<rparr> in
     bindC (tryC (StorageRepository_SaveMeta obj)) (\<lambda>r.
     case r of
       Inl err \<Rightarrow> bindC (ignoreC (LocalFileStore_Delete bucket key)) (\<lambda>_. failC err)
     | Inr _ \<Rightarrow>
     bindC (ignoreC (Log E ctx (obj_UserID obj) ''storage.object_upload'' ''storage'' (uuid_string E i)
              [(''bucket'', GStr bucket), (''key'', GStr key)])) (\<lambda>_.
     bindC (metricC (MInc ''StorageOperationsTotal'' [''object_upload''])) (\<lambda>_.
     returnC obj))))))"

definition Download :: "ctx \<Rightarrow> string \<Rightarrow> string \<Rightarrow> (string \<times> Object) op" where
  "Download ctx bucket key =
     bindC (StorageRepository_GetMeta ctx bucket key) (\<lambda>obj.
     bindC (LocalFileStore_Read bucket key) (\<lambda>content.
     returnC (content, obj)))"

definition ListObjects :: "ctx \<Rightarrow> string \<Rightarrow> Object list op" where
  "ListObjects ctx bucket = StorageRepository_List ctx bucket"

definition DeleteObject :: "env \<Rightarrow> ctx \<Rightarrow> string \<Rightarrow> string \<Rightarrow> unit op" where
  "DeleteObject E ctx bucket key =
     bindC (StorageRepository_SoftDelete ctx bucket key) (\<lambda>_.
     bindC (ignoreC (Log E ctx (UserIDFromContext ctx) ''storage.object_delete'' ''storage'' (bucket @ ''/'' @ key)
              [(''bucket'', GStr bucket), (''key'', GStr key)])) (\<lambda>_.
     metricC (MInc ''StorageOperationsTotal'' [''object_delete''])))"

section \<open>Facts\<close>

text \<open>The path that a write joins in two steps is the one the other operations join at once.\<close>

lemma store_path_steps: "Join_path [Join_path [basePath, Clean bucket], Clean key] = store_path bucket key"
proof -
  have "Clean (Clean (basePath @ ''/'' @ Clean bucket) @ ''/'' @ Clean key) = Clean ((basePath @ ''/'' @ Clean bucket) @ ''/'' @ Clean key)"
    by (rule Clean_Clean_append) (simp add: basePath_def)
  then show ?thesis by (simp add: store_path_def basePath_def)
qed

text \<open>What the table has to say of an object for its owner to find it; saving a row brings this about and leaves what it
  says of every other object.\<close>

definition rows_of :: "string \<Rightarrow> string \<Rightarrow> Object list \<Rightarrow> Object list" where
  "rows_of bucket key rows = filter (\<lambda>r. obj_Bucket r = bucket \<and> obj_Key r = key) rows"

definition recorded :: "uuid \<Rightarrow> string \<Rightarrow> string \<Rightarrow> int \<Rightarrow> Object list \<Rightarrow> bool" where
  "recorded u bucket key n rows \<longleftrightarrow> rows_of bucket key rows \<noteq> [] \<and>
     (\<forall>r \<in> set (rows_of bucket key rows). obj_UserID r = u \<and> obj_DeletedAt r = None \<and> obj_SizeBytes r = n)"

definition saved :: "uuid \<Rightarrow> string \<Rightarrow> string \<Rightarrow> int \<Rightarrow> Object list \<Rightarrow> Object list \<Rightarrow> bool" where
  "saved u bucket key n rows rows' \<longleftrightarrow> recorded u bucket key n rows' \<and>
     (\<forall>v b k m. (b, k) \<noteq> (bucket, key) \<longrightarrow> recorded v b k m rows' = recorded v b k m rows)"

lemma saved_other: "saved u b k n rows rows' \<Longrightarrow> (b', k') \<noteq> (b, k) \<Longrightarrow> recorded v b' k' m rows' = recorded v b' k' m rows"
  by (simp only: saved_def not_False_eq_True)

lemma saved_append:
  assumes "obj_DeletedAt x = None" and "\<not> list_ex (same_object x) rows"
  shows "saved (obj_UserID x) (obj_Bucket x) (obj_Key x) (obj_SizeBytes x) rows (rows @ [x])"
proof -
  have "rows_of (obj_Bucket x) (obj_Key x) rows = []" using assms(2) by (auto simp: rows_of_def list_ex_iff same_object_def filter_empty_conv)
  then show ?thesis using assms(1) unfolding saved_def recorded_def by (auto simp: rows_of_def)
qed

lemma saved_upd:
  assumes "list_ex (same_object x) rows"
    and "\<And>r. obj_Bucket (f r) = obj_Bucket r \<and> obj_Key (f r) = obj_Key r \<and> obj_UserID (f r) = obj_UserID x \<and> obj_DeletedAt (f r) = None \<and>
           obj_SizeBytes (f r) = obj_SizeBytes x"
  shows "saved (obj_UserID x) (obj_Bucket x) (obj_Key x) (obj_SizeBytes x) rows (upd_where (same_object x) f rows)"
proof -
  have "rows_of b k (upd_where (same_object x) f rows) = rows_of b k rows" if "(b, k) \<noteq> (obj_Bucket x, obj_Key x)" for b k
    using that assms(2) by (induction rows) (auto simp: rows_of_def upd_where_def same_object_def)
  moreover have "rows_of (obj_Bucket x) (obj_Key x) (upd_where (same_object x) f rows) = map f (rows_of (obj_Bucket x) (obj_Key x) rows)"
    using assms(2) by (induction rows) (auto simp: rows_of_def upd_where_def same_object_def)
  moreover have "rows_of (obj_Bucket x) (obj_Key x) rows \<noteq> []" using assms(1) by (auto simp: rows_of_def list_ex_iff same_object_def filter_empty_conv)
  ultimately show ?thesis using assms(2) by (simp add: saved_def recorded_def)
qed

lemma wp_SaveMeta:
  assumes "obj_DeletedAt x = None" and "\<And>e fs. Q (Err e) (s\<lparr>faults := fs\<rparr>)"
    and "\<And>fs rows. saved (obj_UserID x) (obj_Bucket x) (obj_Key x) (obj_SizeBytes x) (t_objects s) rows \<Longrightarrow>
           Q (Ok ()) (s\<lparr>faults := fs, t_objects := rows\<rparr>)"
  shows "wp (StorageRepository_SaveMeta x) Q s"
  unfolding StorageRepository_SaveMeta_def
  by (auto simp: wps intro!: wp_insertC assms saved_append saved_upd)

lemma wp_Write:
  assumes "\<And>msg fs. HasPrefix (store_path b k) (Clean basePath) \<Longrightarrow> Q (Err msg) (s\<lparr>faults := fs\<rparr>)"
    and "\<not> HasPrefix (store_path b k) (Clean basePath) \<Longrightarrow> Q (Err traversal) s"
    and "\<And>msg fs. HasPrefix (store_path b k) (Clean basePath) \<Longrightarrow> Q (Err msg) (s\<lparr>files := (files s)(store_path b k \<mapsto> []), faults := fs\<rparr>)"
    and "\<And>fs. HasPrefix (store_path b k) (Clean basePath) \<Longrightarrow>
       Q (Ok (int (length c))) (s\<lparr>faults := fs, files := (files s)(store_path b k \<mapsto> c)\<rparr>)"
  shows "wp (LocalFileStore_Write b k c) Q s"
  unfolding LocalFileStore_Write_def Let_def store_path_steps
  by (auto simp: wps intro!: wp_extC assms)


lemma wp_ignore_Delete:
  assumes "\<And>fs F. (\<And>p. p \<noteq> store_path b k \<Longrightarrow> F p = files s p) \<Longrightarrow> Q (Ok ()) (s\<lparr>faults := fs, files := F\<rparr>)"
  shows "wp (ignoreC (LocalFileStore_Delete b k)) Q s"
proof -
  have *: "s\<lparr>faults := fs\<rparr> = s\<lparr>faults := fs, files := files s\<rparr>" "s = s\<lparr>faults := faults s, files := files s\<rparr>" for fs by simp_all
  have "Q (Ok ()) (s\<lparr>faults := fs\<rparr>)" "Q (Ok ()) s" for fs using assms [of "files s"] *(1) [of fs] *(2) by metis+
  then show ?thesis
    unfolding LocalFileStore_Delete_def Let_def by (auto simp: wps intro!: wp_extC assms)
qed

text \<open>Every way an upload ends: with its file written and its row recorded, or with an error that leaves the table alone.\<close>

lemma wp_Upload:
  assumes "\<And>obj s'. HasPrefix (store_path b k) (Clean basePath) \<Longrightarrow>
      saved (UserIDFromContext ctx) b k (int (length c)) (t_objects s) (t_objects s') \<Longrightarrow>
      files s' = (files s)(store_path b k \<mapsto> c) \<Longrightarrow> Q (Ok obj) s'"
    and "\<And>e s'. t_objects s' = t_objects s \<Longrightarrow> (\<And>p. p \<noteq> store_path b k \<Longrightarrow> files s' p = files s p) \<Longrightarrow> Q (Err e) s'"
  shows "wp (Upload E ctx b k c) Q s"
  unfolding Upload_def Let_def wp_bindC
  by (rule wp_Write)
    (auto simp: wps wp_newUUID wp_nowC wp_metricC core_eq_iff simp del: wp_ignoreC intro!: wp_SaveMeta wp_ignored wp_ignore_Delete assms)

lemma Upload_Ok:
  assumes "Upload E ctx b k c s = (Ok obj, s')"
  shows "HasPrefix (store_path b k) (Clean basePath)" "saved (UserIDFromContext ctx) b k (int (length c)) (t_objects s) (t_objects s')"
    "files s' = (files s)(store_path b k \<mapsto> c)"
proof -
  have "wp (Upload E ctx b k c) (\<lambda>r s'. \<forall>obj. r = Ok obj \<longrightarrow> HasPrefix (store_path b k) (Clean basePath) \<and>
      saved (UserIDFromContext ctx) b k (int (length c)) (t_objects s) (t_objects s') \<and> files s' = (files s)(store_path b k \<mapsto> c)) s"
    by (rule wp_Upload) simp_all
  with assms show "HasPrefix (store_path b k) (Clean basePath)" "saved (UserIDFromContext ctx) b k (int (length c)) (t_objects s) (t_objects s')"
    "files s' = (files s)(store_path b k \<mapsto> c)" by (simp_all add: wp_def)
qed

lemma Upload_elsewhere:
  assumes "store_path b' k' \<noteq> store_path b k"
  shows "recorded u b k n (t_objects (snd (Upload E ctx b' k' c s))) = recorded u b k n (t_objects s) \<and>
    files (snd (Upload E ctx b' k' c s)) (store_path b k) = files s (store_path b k)"
proof -
  have "wp (Upload E ctx b' k' c) (\<lambda>r s'. recorded u b k n (t_objects s') = recorded u b k n (t_objects s) \<and>
      files s' (store_path b k) = files s (store_path b k)) s"
  proof (rule wp_Upload)
    have "(b, k) \<noteq> (b', k')" using assms by auto
    then show "recorded u b k n (t_objects s') = recorded u b k n (t_objects s) \<and> files s' (store_path b k) = files s (store_path b k)"
      if "saved (UserIDFromContext ctx) b' k' (int (length c)) (t_objects s) (t_objects s')" "files s' = (files s)(store_path b' k' \<mapsto> c)" for s'
      using saved_other [OF that(1)] that(2) assms by simp
  qed (use assms in auto)
  then show ?thesis by (simp add: wp_snd)
qed

text \<open>What a download finds.\<close>

lemma Download_recorded:
  assumes "recorded (UserIDFromContext ctx) b k n (t_objects s)" and "files s (store_path b k) = Some c"
    and "HasPrefix (store_path b k) (Clean basePath)" and "faults s = []"
  shows "\<exists>obj. Download ctx b k s = (Ok (c, obj), s) \<and> obj_Bucket obj = b \<and> obj_Key obj = k \<and> obj_SizeBytes obj = n"
proof -
  obtain r where r: "find (live_object ctx b k) (t_objects s) = Some r"
    using assms(1) by (cases "find (live_object ctx b k) (t_objects s)") (auto simp: recorded_def rows_of_def live_object_def find_None_iff filter_empty_conv)
  then have "r \<in> set (t_objects s)" "live_object ctx b k r" by (auto dest: find_Some_set)
  with assms r show ?thesis
    by (auto simp: Download_def StorageRepository_GetMeta_def LocalFileStore_Read_def run extC_no_fault getC_def recorded_def rows_of_def live_object_def guardC_def Let_def)
qed

section \<open>Properties\<close>

text \<open>C20. Objects round trip: once an upload has succeeded, whatever failed on the way, its owner downloads what was uploaded and the size
  that was recorded, even after another upload, of any tenant and with any outcome, whose file is another one.\<close>

theorem object_roundtrip:
  assumes "Upload E ctx b k c s = (Ok obj, s1)" and "store_path b' k' \<noteq> store_path b k"
    and "Upload E ctx' b' k' c' s1 = (r, s2)"
  shows "\<exists>obj. fst (Download ctx b k (s2\<lparr>faults := []\<rparr>)) = Ok (c, obj) \<and> obj_Bucket obj = b \<and> obj_Key obj = k \<and> obj_SizeBytes obj = int (length c)"
proof -
  have "recorded (UserIDFromContext ctx) b k (int (length c)) (t_objects s2)" "files s2 (store_path b k) = Some c"
    using Upload_Ok [OF assms(1)] Upload_elsewhere [OF assms(2), of _ _ E ctx' c' s1] assms(3) by (auto simp: saved_def)
  then show ?thesis using Download_recorded [of ctx b k _ "s2\<lparr>faults := []\<rparr>"] Upload_Ok(1) [OF assms(1)] by fastforce
qed

text \<open>Two objects of one path are one file: when the path of an object of one tenant, recorded in its bucket, is also that of
  an object of another bucket, which a parent element in the key suffices for, then what is uploaded there by another tenant is what
  the first tenant downloads, and what the first had uploaded is gone.\<close>

theorem aliased_objects:
  assumes "Upload E ctx b k c s = (Ok obj, s1)" and "(b', k') \<noteq> (b, k)" and "store_path b' k' = store_path b k"
    and "Upload E ctx' b' k' c' s1 = (Ok obj', s2)"
  shows "\<exists>obj. fst (Download ctx b k (s2\<lparr>faults := []\<rparr>)) = Ok (c', obj)"
proof -
  have "recorded (UserIDFromContext ctx) b k (int (length c)) (t_objects s2)" "files s2 (store_path b k) = Some c'"
    using Upload_Ok [OF assms(1)] Upload_Ok [OF assms(4)] saved_other [OF Upload_Ok(2) [OF assms(4)] not_sym [OF assms(2)]] assms(3) by (auto simp: saved_def)
  then show ?thesis using Download_recorded [of ctx b k _ "s2\<lparr>faults := []\<rparr>"] Upload_Ok(1) [OF assms(1)] by fastforce
qed

section \<open>Witnesses\<close>

lemma Upload_sample:
  assumes "faults s = []" and "HasPrefix (store_path b k) (Clean basePath)" and "has_user s (UserIDFromContext ctx)"
    and "uuid_at E (uuid_ctr s) \<notin> obj_ID ` set (t_objects s)"
    and "''arn:thecloud:storage:local:default:object/'' @ b @ ''/'' @ k \<notin> obj_ARN ` set (t_objects s)"
    and "\<not> (\<exists>r \<in> set (t_objects s). obj_Bucket r = b \<and> obj_Key r = k)"
  shows "\<exists>obj s'. Upload E ctx b k c s = (Ok obj, s') \<and> faults s' = [] \<and> t_users s' = t_users s \<and> uuid_ctr s' = Suc (Suc (uuid_ctr s)) \<and>
     t_objects s' = t_objects s @ [obj] \<and> obj_ID obj = uuid_at E (uuid_ctr s) \<and> obj_Bucket obj = b \<and> obj_Key obj = k \<and>
     obj_ARN obj = ''arn:thecloud:storage:local:default:object/'' @ b @ ''/'' @ k"
proof -
  have "\<not> list_ex (same_object (x\<lparr>obj_Bucket := b, obj_Key := k\<rparr>)) (t_objects s)" for x
    using assms(6) by (simp add: list_ex_iff same_object_def)
  then have "\<not> list_ex (\<lambda>r. obj_Bucket r = b \<and> obj_Key r = k) (t_objects s)" by (simp add: same_object_def [abs_def])
  with assms(1-5) show ?thesis
    by (simp add: Upload_def LocalFileStore_Write_def store_path_steps StorageRepository_SaveMeta_def Log_def AuditRepository_Create_def
        run extC_no_fault modifyC_def guardC_def has_user_def same_object_def [abs_def] Let_def del: Join_path.simps)
qed

lemma sample_paths:
  "store_path ''a'' ''k'' = ''thecloud-data/local/storage/a/k''" "store_path ''b'' ''../a/k'' = ''thecloud-data/local/storage/a/k''"
  "store_path ''b'' ''k'' = ''thecloud-data/local/storage/b/k''" "Clean basePath = ''thecloud-data/local/storage''"
  by code_simp+

theorem object_roundtrip_witness:
  "\<exists>obj s1 s2. Upload sample_env (Some 1) ''a'' ''k'' ''hello'' sample_world = (Ok obj, s1) \<and>
     s2 = snd (Upload sample_env (Some 2) ''b'' ''k'' ''bye'' s1) \<and>
     (\<exists>obj. fst (Download (Some 1) ''a'' ''k'' (s2\<lparr>faults := []\<rparr>)) = Ok (''hello'', obj) \<and> obj_SizeBytes obj = 5)"
proof -
  obtain obj s1 where u: "Upload sample_env (Some 1) ''a'' ''k'' ''hello'' sample_world = (Ok obj, s1)"
    using Upload_sample [of sample_world "''a''" "''k''" "Some 1" sample_env "''hello''"] by (auto simp: sample_paths HasPrefix_def has_user_def)
  let ?r = "Upload sample_env (Some 2) ''b'' ''k'' ''bye'' s1"
  from object_roundtrip [OF u _ prod.collapse [of ?r, symmetric]] u show ?thesis by (auto simp: sample_paths)
qed

theorem aliased_objects_witness:
  "\<exists>obj s1 obj' s2. Upload sample_env (Some 1) ''a'' ''k'' ''hello'' sample_world = (Ok obj, s1) \<and>
     Upload sample_env (Some 2) ''b'' ''../a/k'' ''evil'' s1 = (Ok obj', s2) \<and>
     (\<exists>obj. fst (Download (Some 1) ''a'' ''k'' (s2\<lparr>faults := []\<rparr>)) = Ok (''evil'', obj))"
proof -
  obtain obj s1 where u: "Upload sample_env (Some 1) ''a'' ''k'' ''hello'' sample_world = (Ok obj, s1)" "faults s1 = []"
      "t_users s1 = t_users sample_world" "uuid_ctr s1 = 2" "t_objects s1 = [obj]" "obj_ID obj = 100" "obj_Bucket obj = ''a''"
      "obj_ARN obj = ''arn:thecloud:storage:local:default:object/a/k''"
    using Upload_sample [of sample_world "''a''" "''k''" "Some 1" sample_env "''hello''"] by (auto simp: sample_paths HasPrefix_def has_user_def)
  obtain obj' s2 where v: "Upload sample_env (Some 2) ''b'' ''../a/k'' ''evil'' s1 = (Ok obj', s2)"
    using Upload_sample [of s1 "''b''" "''../a/k''" "Some 2" sample_env "''evil''"] u(2-) by (auto simp: sample_paths HasPrefix_def has_user_def)
  show ?thesis using u(1) v aliased_objects [OF u(1) _ _ v] by (auto simp: sample_paths)
qed

end
