(* ===== verification/Functions.thy ===== *)
theory Functions
  imports Storage
begin

text \<open>
  Functions: the repository \<^verbatim>\<open>function_repo.go\<close>, whose queries by identifier are not scoped to a tenant, and the service \<^verbatim>\<open>function.go\<close>, which
  keeps the code of a function in the file store that also holds the objects of the tenants, unpacks it into a temporary directory and runs
  it in a container.
\<close>

section \<open>The repository\<close>

definition FunctionRepository_Create :: "Function \<Rightarrow> unit op" where
  "FunctionRepository_Create f =
     mapErrC (Wrap Internal ''failed to create function'')
       (insertC (\<lambda>s. [(fn_ID f \<in> fn_ID ` set (t_functions s), ''functions_pkey''),
                      ((fn_UserID f, fn_Name f) \<in> (\<lambda>r. (fn_UserID r, fn_Name r)) ` set (t_functions s), ''functions_user_id_name_key''),
                      (\<not> has_user s (fn_UserID f), ''functions_user_id_fkey'')])
                (\<lambda>s. s\<lparr>t_functions := t_functions s @ [f]\<rparr>))"

definition FunctionRepository_GetByID :: "uuid \<Rightarrow> Function op" where
  "FunctionRepository_GetByID i =
     mapErrC (Wrap NotFound ''function not found'') (queryRowC (\<lambda>s. find (\<lambda>r. fn_ID r = i) (t_functions s)))"

definition FunctionRepository_GetByName :: "uuid \<Rightarrow> string \<Rightarrow> Function op" where
  "FunctionRepository_GetByName userID name =
     mapErrC (Wrap NotFound ''function not found'') (queryRowC (\<lambda>s. find (\<lambda>r. fn_UserID r = userID \<and> fn_Name r = name) (t_functions s)))"

definition FunctionRepository_List :: "uuid \<Rightarrow> Function list op" where
  "FunctionRepository_List userID =
     mapErrC (Wrap Internal ''failed to list functions'')
       (queryC (\<lambda>s. sort_key (\<lambda>r. - fn_CreatedAt r) (filter (\<lambda>r. fn_UserID r = userID) (t_functions s))))"

text \<open>The invocations of a function go with it.\<close>

definition FunctionRepository_Delete :: "uuid \<Rightarrow> unit op" where
  "FunctionRepository_Delete i =
     bindC (mapErrC (Wrap Internal ''failed to delete function'')
       (execC noConstraint (\<lambda>s. rows_affected (\<lambda>r. fn_ID r = i) (t_functions s))
          (\<lambda>s. s\<lparr>t_functions := filter (\<lambda>r. fn_ID r \<noteq> i) (t_functions s),
                  t_invocations := filter (\<lambda>r. inv_FunctionID r \<noteq> i) (t_invocations s)\<rparr>)))
       (\<lambda>_. returnC ())"

definition FunctionRepository_CreateInvocation :: "Invocation \<Rightarrow> unit op" where
  "FunctionRepository_CreateInvocation i =
     mapErrC (Wrap Internal ''failed to create invocation'')
       (insertC (\<lambda>s. [(inv_ID i \<in> inv_ID ` set (t_invocations s), ''invocations_pkey''),
                      (\<not> list_ex (\<lambda>f. fn_ID f = inv_FunctionID i) (t_functions s), ''invocations_function_id_fkey'')])
                (\<lambda>s. s\<lparr>t_invocations := t_invocations s @ [i]\<rparr>))"

definition FunctionRepository_GetInvocations :: "uuid \<Rightarrow> int \<Rightarrow> Invocation list op" where
  "FunctionRepository_GetInvocations functionID limit =
     mapErrC (Wrap Internal ''failed to get invocations'')
       (bindC (guardC (limit < 0) (ExtError ''LIMIT must not be negative'')) (\<lambda>_.
        queryC (\<lambda>s. take (nat limit) (sort_key (\<lambda>r. - inv_StartedAt r) (filter (\<lambda>r. inv_FunctionID r = functionID) (t_invocations s))))))"

section \<open>The service\<close>

record RuntimeConfig =
  rt_Image :: string
  rt_Entrypoint :: "string list"
  rt_Extension :: string

definition runtimes :: "string \<rightharpoonup> RuntimeConfig" where
  "runtimes = map_of
     [(''nodejs20'', \<lparr>rt_Image = ''node:20-alpine'', rt_Entrypoint = [''node''], rt_Extension = ''.js''\<rparr>),
      (''python312'', \<lparr>rt_Image = ''python:3.12-alpine'', rt_Entrypoint = [''python''], rt_Extension = ''.py''\<rparr>),
      (''go122'', \<lparr>rt_Image = ''golang:1.22-alpine'', rt_Entrypoint = [''go'', ''run''], rt_Extension = ''.go''\<rparr>),
      (''ruby33'', \<lparr>rt_Image = ''ruby:3.3-alpine'', rt_Entrypoint = [''ruby''], rt_Extension = ''.rb''\<rparr>),
      (''java21'', \<lparr>rt_Image = ''eclipse-temurin:21-alpine'', rt_Entrypoint = [''java'', ''-jar''], rt_Extension = ''.jar''\<rparr>)]"

definition runtime_config :: "string \<Rightarrow> RuntimeConfig" where
  "runtime_config name = (case runtimes name of Some c \<Rightarrow> c | None \<Rightarrow> \<lparr>rt_Image = [], rt_Entrypoint = [], rt_Extension = []\<rparr>)"

definition CreateFunction :: "env \<Rightarrow> ctx \<Rightarrow> string \<Rightarrow> string \<Rightarrow> string \<Rightarrow> string \<Rightarrow> Function op" where
  "CreateFunction E ctx name runtime handler code =
     (let userID = UserIDFromContext ctx in
     bindC (guardC (userID = uuid_Nil) (New Unauthorized ''user not authenticated'')) (\<lambda>_.
     bindC (guardC (runtimes runtime = None) (New InvalidInput (''unsupported runtime: '' @ runtime))) (\<lambda>_.
     bindC (newUUID E) (\<lambda>i.
     let codeKey = uuid_string E userID @ ''/'' @ uuid_string E i @ ''/code.zip'' in
     bindC (mapErrC (Wrap Internal ''failed to store function code'') (LocalFileStore_Write ''functions'' codeKey code)) (\<lambda>_.
     bindC nowC (\<lambda>now.
     let f = \<lparr>fn_ID = i, fn_UserID = userID, fn_Name = name, fn_Runtime = runtime, fn_Handler = handler, fn_CodePath = codeKey,
              fn_Timeout = 30, fn_MemoryMB = 128, fn_Status = ''ACTIVE'', fn_CreatedAt = now, fn_UpdatedAt = now\<rparr> in
     bindC (FunctionRepository_Create f) (\<lambda>_.
     bindC (ignoreC (Log E ctx userID ''function.create'' ''function'' (uuid_string E i) [(''name'', GStr name), (''runtime'', GStr runtime)])) (\<lambda>_.
     returnC f))))))))"

definition GetFunction :: "uuid \<Rightarrow> Function op" where
  "GetFunction i = FunctionRepository_GetByID i"

definition ListFunctions :: "ctx \<Rightarrow> Function list op" where
  "ListFunctions ctx =
     bindC (guardC (UserIDFromContext ctx = uuid_Nil) (New Unauthorized ''user not authenticated'')) (\<lambda>_.
     FunctionRepository_List (UserIDFromContext ctx))"

definition DeleteFunction :: "env \<Rightarrow> ctx \<Rightarrow> uuid \<Rightarrow> unit op" where
  "DeleteFunction E ctx i =
     bindC (FunctionRepository_GetByID i) (\<lambda>f.
     bindC (FunctionRepository_Delete i) (\<lambda>_.
     bindC (goC (TDeleteFile ''functions'' (fn_CodePath f))) (\<lambda>_.
     ignoreC (Log E ctx (fn_UserID f) ''function.delete'' ''function'' (uuid_string E (fn_ID f)) [(''name'', GStr (fn_Name f))]))))"

text \<open>The goroutine of the deletion.\<close>

definition deleteCode :: "string \<Rightarrow> string \<Rightarrow> unit op" where
  "deleteCode bucket key = ignoreC (LocalFileStore_Delete bucket key)"

definition GetFunctionLogs :: "uuid \<Rightarrow> int \<Rightarrow> Invocation list op" where
  "GetFunctionLogs i limit = FunctionRepository_GetInvocations i limit"

text \<open>The random part of the name of a temporary directory.\<close>

definition MkdirTemp :: "env \<Rightarrow> string \<Rightarrow> string op" where
  "MkdirTemp E pattern = extC (\<lambda>s. (Ok (tmp_dir E (rand_ctr s) pattern), s\<lparr>rand_ctr := Suc (rand_ctr s)\<rparr>))"

definition extractFile :: "string \<Rightarrow> string \<times> bool \<times> string \<Rightarrow> unit op" where
  "extractFile tmpDir entry =
     (let (name, isDir, content) = entry; path = Join_path [tmpDir, name] in
     bindC (guardC (\<not> HasPrefix path (Clean tmpDir @ ''/'')) (Errorf (''invalid file path in zip: '' @ name) None)) (\<lambda>_.
     bindC (extC (returnC ())) (\<lambda>_.
     if isDir then returnC ()
     else bindC (extC (modifyC (\<lambda>s. s\<lparr>files := (files s)(path \<mapsto> [])\<rparr>))) (\<lambda>_.
          extC (modifyC (\<lambda>s. s\<lparr>files := (files s)(path \<mapsto> content)\<rparr>))))))"

text \<open>Copying the code into memory, opening it as an archive and extracting its entries.\<close>

definition unpack :: "env \<Rightarrow> string \<Rightarrow> string \<Rightarrow> string op" where
  "unpack E rc tmpDir =
     bindC (extC (returnC ())) (\<lambda>_.
     case zip_entries E rc of
       Inl err \<Rightarrow> failC (ExtError err)
     | Inr entries \<Rightarrow> bindC (forC entries (extractFile tmpDir)) (\<lambda>_. returnC tmpDir))"

definition prepareCode :: "env \<Rightarrow> Function \<Rightarrow> string op" where
  "prepareCode E f =
     bindC (LocalFileStore_Read ''functions'' (fn_CodePath f)) (\<lambda>rc.
     bindC (MkdirTemp E (''fn-'' @ uuid_string E (fn_ID f))) (\<lambda>tmpDir.
     unpack E rc tmpDir))"

definition RemoveAll :: "string \<Rightarrow> unit op" where
  "RemoveAll dir = extC (modifyC (\<lambda>s. s\<lparr>files := (\<lambda>p. if p = dir \<or> HasPrefix p (dir @ ''/'') then None else files s p), calls := calls s @ [BRemoveAll dir]\<rparr>))"

text \<open>What the container printed; of a log that cannot be read nothing is kept.\<close>

definition taskLogs :: "env \<Rightarrow> string \<Rightarrow> string op" where
  "taskLogs E cid =
     bindC (tryC (bindC (backendC (BGetInstanceLogs cid)) (\<lambda>_. extC (returnC (backend_logs E cid))))) (\<lambda>r.
     returnC (case r of Inl _ \<Rightarrow> [] | Inr text \<Rightarrow> text))"

definition WaitTask :: "env \<Rightarrow> string \<Rightarrow> int \<Rightarrow> int op" where
  "WaitTask E cid timeout = bindC (backendC (BWaitTask cid timeout)) (\<lambda>_. returnC (task_exit E cid))"

definition DeadlineExceeded :: error where
  "DeadlineExceeded = ExtError ''context deadline exceeded''"

definition wait_result :: "Invocation \<Rightarrow> string \<Rightarrow> time \<Rightarrow> error + int \<Rightarrow> Invocation" where
  "wait_result i logs now r =
     (let i = i\<lparr>inv_Logs := logs, inv_EndedAt := Some now, inv_DurationMs := (now - inv_StartedAt i) div 1000000\<rparr> in
     case r of
       Inl err \<Rightarrow> i\<lparr>inv_StatusCode := 0, inv_Status := ''FAILED'',
                    inv_Logs := logs @ (if err = DeadlineExceeded then CHR 0x0A # ''Error: Execution timed out'' else CHR 0x0A # ''Error: '' @ Error_Error err)\<rparr>
     | Inr code \<Rightarrow> i\<lparr>inv_StatusCode := code, inv_Status := (if code \<noteq> 0 then ''FAILED'' else ''SUCCESS'')\<rparr>)"

definition runTask :: "env \<Rightarrow> Function \<Rightarrow> Invocation \<Rightarrow> string \<Rightarrow> string \<Rightarrow> Invocation op" where
  "runTask E f i payload tmpDir =
     (let config = runtime_config (fn_Runtime f) in
     bindC (tryC (backendCreateC E (BRunTask (rt_Image config) (rt_Entrypoint config @ [fn_Handler f]) (''PAYLOAD='' @ payload) (fn_MemoryMB f)
                    (tmpDir @ '':/var/task:ro'')))) (\<lambda>r.
     case r of
       Inl err \<Rightarrow> bindC (ignoreC (FunctionRepository_CreateInvocation (i\<lparr>inv_Status := ''FAILED'', inv_Logs := ''Error running task: '' @ Error_Error err\<rparr>)))
                    (\<lambda>_. failC err)
     | Inr containerID \<Rightarrow>
     bindC (tryC (WaitTask E containerID (fn_Timeout f * Second))) (\<lambda>w.
     bindC (taskLogs E containerID) (\<lambda>logs.
     bindC nowC (\<lambda>now.
     let i = wait_result i logs now w in
     bindC (ignoreC (FunctionRepository_CreateInvocation i)) (\<lambda>_.
     bindC (ignoreC (backendC (BDeleteInstance containerID))) (\<lambda>_.
     returnC i)))))))"

text \<open>The deferred removal of the temporary directory runs on every path once the code is unpacked.\<close>

definition runInvocation :: "env \<Rightarrow> Function \<Rightarrow> Invocation \<Rightarrow> string \<Rightarrow> Invocation op" where
  "runInvocation E f i payload =
     (let i = i\<lparr>inv_Status := ''RUNNING''\<rparr> in
     bindC (tryC (prepareCode E f)) (\<lambda>r.
     case r of
       Inl err \<Rightarrow> bindC (ignoreC (FunctionRepository_CreateInvocation (i\<lparr>inv_Status := ''FAILED'', inv_Logs := ''Error preparing code: '' @ Error_Error err\<rparr>)))
                    (\<lambda>_. failC err)
     | Inr tmpDir \<Rightarrow>
     bindC (tryC (runTask E f i payload tmpDir)) (\<lambda>r.
     bindC (ignoreC (RemoveAll tmpDir)) (\<lambda>_.
     case r of Inl err \<Rightarrow> failC err | Inr i \<Rightarrow> returnC i))))"

definition InvokeFunction :: "env \<Rightarrow> ctx \<Rightarrow> uuid \<Rightarrow> string \<Rightarrow> bool \<Rightarrow> Invocation op" where
  "InvokeFunction E ctx i payload async =
     bindC (FunctionRepository_GetByID i) (\<lambda>f.
     bindC (newUUID E) (\<lambda>invID.
     bindC nowC (\<lambda>now.
     let invocation = \<lparr>inv_ID = invID, inv_FunctionID = fn_ID f, inv_Status = ''PENDING'', inv_StartedAt = now, inv_EndedAt = None,
                       inv_DurationMs = 0, inv_StatusCode = 0, inv_Logs = []\<rparr> in
     if async
     then bindC (ignoreC (Log E ctx (fn_UserID f) ''function.invoke_async'' ''function'' (uuid_string E (fn_ID f)) [])) (\<lambda>_.
          bindC (goC (TInvoke f invocation payload)) (\<lambda>_.
          returnC invocation))
     else bindC (ignoreC (Log E ctx (fn_UserID f) ''function.invoke'' ''function'' (uuid_string E (fn_ID f)) [])) (\<lambda>_.
          runInvocation E f invocation payload))))"

section \<open>Facts\<close>

text \<open>What is below a directory, with no element that leads out of it.\<close>

definition below :: "string \<Rightarrow> string \<Rightarrow> bool" where
  "below dir p \<longleftrightarrow> HasPrefix p (Clean dir @ ''/'') \<and> ''..'' \<notin> set (Split (CHR ''/'') p)"

definition only_below :: "string \<Rightarrow> world \<Rightarrow> world \<Rightarrow> bool" where
  "only_below dir s s' \<longleftrightarrow> (\<forall>p. \<not> below dir p \<longrightarrow> files s' p = files s p)"

interpretation only_below: core_frame "only_below dir" for dir
  by unfold_locales (auto simp: only_below_def core_eq_iff)

lemma Join_path_below:
  assumes "rooted dir" and "HasPrefix (Join_path [dir, name]) (Clean dir @ ''/'')"
  shows "below dir (Join_path [dir, name])"
proof -
  have "dir \<noteq> []" using assms(1) by (auto simp: rooted_iff)
  moreover have "rooted (Join ''/'' [dir, name])" using assms(1) by (cases dir) (auto simp: rooted_iff)
  ultimately show ?thesis using assms(2) Clean_rooted_elems unfolding below_def by fastforce
qed

lemma only_below_upd: "below dir p \<Longrightarrow> only_below dir s (s\<lparr>files := (files s)(p \<mapsto> c)\<rparr>)"
  by (auto simp: only_below_def)

lemma wp_extractFile:
  assumes "rooted dir"
  shows "wp (extractFile dir entry) (\<lambda>_ s'. only_below dir s s') s"
proof -
  obtain name isDir content where e: "entry = (name, isDir, content)" by (cases entry)
  let ?p = "Join_path [dir, name]"
  show ?thesis
  proof (cases "HasPrefix ?p (Clean dir @ ''/'')")
    case True
    from Join_path_below [OF assms True] have b: "below dir ?p" .
    then show ?thesis using True unfolding extractFile_def e Let_def prod.case
      by (auto simp: wps only_below_def simp del: Join_path.simps intro!: wp_extC)
  next
    case False
    then show ?thesis unfolding extractFile_def e Let_def prod.case by (simp add: wps only_below_def del: Join_path.simps)
  qed
qed

lemma confined_extractFile: "rooted dir \<Longrightarrow> confined (only_below dir) (extractFile dir entry)"
  using wp_extractFile by (auto simp: confined_def wp_def split_beta)

lemma confined_unpack: "rooted dir \<Longrightarrow> confined (only_below dir) (unpack E rc dir)"
  unfolding unpack_def by (intro only_below.cf_intros only_below.cf_ext confined_extractFile; simp)

definition code_dir :: "env \<Rightarrow> Function \<Rightarrow> world \<Rightarrow> string" where
  "code_dir E f s = tmp_dir E (rand_ctr s) (''fn-'' @ uuid_string E (fn_ID f))"

lemma wp_MkdirTemp:
  "(\<And>msg fs. Q (Err (ExtError msg)) (s\<lparr>faults := fs\<rparr>)) \<Longrightarrow>
   (\<And>fs. Q (Ok (tmp_dir E (rand_ctr s) pattern)) (s\<lparr>faults := fs, rand_ctr := Suc (rand_ctr s)\<rparr>)) \<Longrightarrow> wp (MkdirTemp E pattern) Q s"
  unfolding MkdirTemp_def by (rule wp_extC) (simp_all add: wp_def)

lemma wp_prepareCode:
  assumes "\<And>e fs. Q (Err e) (s\<lparr>faults := fs\<rparr>)"
    and "\<And>rc fs. files s (store_path ''functions'' (fn_CodePath f)) = Some rc \<Longrightarrow>
       wp (unpack E rc (code_dir E f s)) Q (s\<lparr>faults := fs, rand_ctr := Suc (rand_ctr s)\<rparr>)"
  shows "wp (prepareCode E f) Q s"
proof -
  have self: "Q (Err e) s" for e using assms(1) [of e "faults s"] by simp
  show ?thesis unfolding prepareCode_def LocalFileStore_Read_def Let_def
    using assms(2) by (auto simp: wps code_dir_def simp del: Join_path.simps intro!: wp_extC wp_MkdirTemp assms(1) self split: option.split)
qed

text \<open>Extraction without a fault.\<close>

definition fits :: "string \<Rightarrow> string \<times> bool \<times> string \<Rightarrow> bool" where
  "fits dir e \<longleftrightarrow> HasPrefix (Join_path [dir, fst e]) (Clean dir @ ''/'')"

lemma run_extractFile:
  assumes "faults s = []" and "fits dir e"
  shows "extractFile dir e s = (Ok (), s\<lparr>files := (if fst (snd e) then files s else (files s)(Join_path [dir, fst e] \<mapsto> snd (snd e)))\<rparr>)"
  using assms by (simp add: extractFile_def fits_def run extC_no_fault guardC_def modifyC_def split_beta Let_def del: Join_path.simps)

lemma run_extract:
  assumes "faults s = []" and "list_all (fits dir) es"
  shows "\<exists>F. forC es (extractFile dir) s = (Ok (), s\<lparr>files := F\<rparr>) \<and> (\<forall>p. \<not> HasPrefix p (Clean dir @ ''/'') \<longrightarrow> F p = files s p)"
  using assms
proof (induction es arbitrary: s)
  case Nil
  have "s = s\<lparr>files := files s\<rparr>" by simp
  then show ?case unfolding forC.simps returnC_def by blast
next
  case (Cons e es)
  let ?s = "s\<lparr>files := (if fst (snd e) then files s else (files s)(Join_path [dir, fst e] \<mapsto> snd (snd e)))\<rparr>"
  obtain F where "forC es (extractFile dir) ?s = (Ok (), ?s\<lparr>files := F\<rparr>)" "\<forall>p. \<not> HasPrefix p (Clean dir @ ''/'') \<longrightarrow> F p = files ?s p"
    using Cons.IH [of ?s] Cons.prems by auto
  then show ?case using run_extractFile [of s dir e] Cons.prems
    by (intro exI [of _ F]) (auto simp: bindC_def fits_def simp del: Join_path.simps)
qed

lemma run_prepareCode:
  assumes "faults s = []" and "HasPrefix (store_path ''functions'' (fn_CodePath f)) (Clean basePath)"
    and "files s (store_path ''functions'' (fn_CodePath f)) = Some rc" and "zip_entries E rc = Inr es" and "list_all (fits (code_dir E f s)) es"
  shows "\<exists>F. prepareCode E f s = (Ok (code_dir E f s), s\<lparr>rand_ctr := Suc (rand_ctr s), files := F\<rparr>) \<and>
    (\<forall>p. \<not> HasPrefix p (Clean (code_dir E f s) @ ''/'') \<longrightarrow> F p = files s p)"
proof -
  obtain F where "forC es (extractFile (code_dir E f s)) (s\<lparr>rand_ctr := Suc (rand_ctr s)\<rparr>) = (Ok (), s\<lparr>rand_ctr := Suc (rand_ctr s), files := F\<rparr>)"
      "\<forall>p. \<not> HasPrefix p (Clean (code_dir E f s) @ ''/'') \<longrightarrow> F p = files s p"
    using run_extract [of "s\<lparr>rand_ctr := Suc (rand_ctr s)\<rparr>" "code_dir E f s" es] assms(1,5) by auto
  then show ?thesis using assms(1-4) unfolding prepareCode_def LocalFileStore_Read_def MkdirTemp_def unpack_def Let_def
    by (intro exI [of _ F]) (simp add: run extC_no_fault guardC_def getC_def code_dir_def del: Join_path.simps)
qed

lemma run_runTask:
  assumes "faults s = []" and "list_ex (\<lambda>r. fn_ID r = inv_FunctionID i) (t_functions s)" and "inv_ID i \<notin> inv_ID ` set (t_invocations s)"
  shows "\<exists>inv cs. runTask E f i payload dir s = (Ok inv, s\<lparr>calls := calls s @ cs, t_invocations := t_invocations s @ [inv]\<rparr>) \<and>
    (inv_Status inv = ''SUCCESS'' \<longleftrightarrow> task_exit E (cid_at E (length (calls s))) = 0) \<and> BDeleteInstance (cid_at E (length (calls s))) \<in> set cs"
proof -
  let ?cid = "cid_at E (length (calls s))"
  let ?inv = "wait_result i (backend_logs E ?cid) (clock s) (Inr (task_exit E ?cid))"
  let ?cs = "[BRunTask (rt_Image (runtime_config (fn_Runtime f))) (rt_Entrypoint (runtime_config (fn_Runtime f)) @ [fn_Handler f]) (''PAYLOAD='' @ payload)
      (fn_MemoryMB f) (dir @ '':/var/task:ro''), BWaitTask ?cid (fn_Timeout f * Second), BGetInstanceLogs ?cid, BDeleteInstance ?cid]"
  have "inv_ID ?inv = inv_ID i" "inv_FunctionID ?inv = inv_FunctionID i" "inv_Status ?inv = ''SUCCESS'' \<longleftrightarrow> task_exit E ?cid = 0"
    by (simp_all add: wait_result_def Let_def)
  with assms show ?thesis
    by (intro exI [of _ ?inv] exI [of _ ?cs]) (simp add: runTask_def WaitTask_def taskLogs_def FunctionRepository_CreateInvocation_def run extC_no_fault run_nowC Let_def)
qed

lemma run_runInvocation:
  assumes "faults s = []" and "HasPrefix (store_path ''functions'' (fn_CodePath f)) (Clean basePath)"
    and "files s (store_path ''functions'' (fn_CodePath f)) = Some rc" and "zip_entries E rc = Inr es" and "list_all (fits (code_dir E f s)) es"
    and "Clean (code_dir E f s) = code_dir E f s" and "list_ex (\<lambda>r. fn_ID r = inv_FunctionID i) (t_functions s)"
    and "inv_ID i \<notin> inv_ID ` set (t_invocations s)"
  shows "\<exists>inv s'. runInvocation E f i payload s = (Ok inv, s') \<and> t_invocations s' = t_invocations s @ [inv] \<and>
    (inv_Status inv = ''SUCCESS'' \<longleftrightarrow> task_exit E (cid_at E (length (calls s))) = 0) \<and>
    BDeleteInstance (cid_at E (length (calls s))) \<in> set (calls s') \<and>
    files s' = (\<lambda>p. if p = code_dir E f s \<or> HasPrefix p (code_dir E f s @ ''/'') then None else files s p)"
proof -
  obtain F where F: "prepareCode E f s = (Ok (code_dir E f s), s\<lparr>rand_ctr := Suc (rand_ctr s), files := F\<rparr>)"
      "\<forall>p. \<not> HasPrefix p (code_dir E f s @ ''/'') \<longrightarrow> F p = files s p"
    using run_prepareCode [OF assms(1-5)] assms(6) by auto
  let ?s = "s\<lparr>rand_ctr := Suc (rand_ctr s), files := F\<rparr>"
  obtain inv cs where r: "runTask E f (i\<lparr>inv_Status := ''RUNNING''\<rparr>) payload (code_dir E f s) ?s =
        (Ok inv, ?s\<lparr>calls := calls s @ cs, t_invocations := t_invocations s @ [inv]\<rparr>)"
      "inv_Status inv = ''SUCCESS'' \<longleftrightarrow> task_exit E (cid_at E (length (calls s))) = 0" "BDeleteInstance (cid_at E (length (calls s))) \<in> set cs"
    using run_runTask [of ?s "i\<lparr>inv_Status := ''RUNNING''\<rparr>" E f payload "code_dir E f s"] assms(1,7,8) by auto
  show ?thesis using F r assms(1) unfolding runInvocation_def RemoveAll_def Let_def
    by (auto simp: run extC_no_fault modifyC_def fun_eq_iff)
qed

section \<open>Properties\<close>

text \<open>C19. An archive cannot write outside its directory: whatever the names of its entries, and whatever fails on the way, every file that the
  preparation of a function's code creates or changes is below the temporary directory made for it, and its path has no parent element.\<close>

theorem extraction_confined:
  assumes "rooted (code_dir E f s)" and "prepareCode E f s = (r, s')" and "files s' p \<noteq> files s p"
  shows "HasPrefix p (Clean (code_dir E f s) @ ''/'') \<and> ''..'' \<notin> set (Split (CHR ''/'') p)"
proof -
  have "wp (prepareCode E f) (\<lambda>r s'. only_below (code_dir E f s) s s') s"
  proof (rule wp_prepareCode)
    fix rc fs
    have "only_below (code_dir E f s) (s\<lparr>faults := fs, rand_ctr := Suc (rand_ctr s)\<rparr>)
        (snd (unpack E rc (code_dir E f s) (s\<lparr>faults := fs, rand_ctr := Suc (rand_ctr s)\<rparr>)))"
      by (rule confinedD) (rule confined_unpack [OF assms(1)])
    then show "wp (unpack E rc (code_dir E f s)) (\<lambda>r s'. only_below (code_dir E f s) s s') (s\<lparr>faults := fs, rand_ctr := Suc (rand_ctr s)\<rparr>)"
      by (simp add: wp_def split_beta only_below_def)
  qed (simp add: only_below_def)
  then have "only_below (code_dir E f s) s s'" using assms(2) by (simp add: wp_def)
  then show ?thesis using assms(3) unfolding only_below_def below_def by blast
qed


text \<open>An invocation is recorded and cleans up after itself: with valid code and no failing call, one invocation is added, which reports
  success exactly when the program exits with zero, the container it ran in is deleted, and the directory the code was unpacked into is removed,
  while no other file changes.\<close>

theorem invocation_recorded:
  assumes "faults s = []" and "find (\<lambda>r. fn_ID r = i) (t_functions s) = Some f" and "HasPrefix (store_path ''functions'' (fn_CodePath f)) (Clean basePath)"
    and "files s (store_path ''functions'' (fn_CodePath f)) = Some rc" and "zip_entries E rc = Inr es" and "list_all (fits (code_dir E f s)) es"
    and "Clean (code_dir E f s) = code_dir E f s" and "uuid_at E (uuid_ctr s) \<notin> inv_ID ` set (t_invocations s)"
  shows "\<exists>inv s'. InvokeFunction E ctx i payload False s = (Ok inv, s') \<and> t_invocations s' = t_invocations s @ [inv] \<and>
    (inv_Status inv = ''SUCCESS'' \<longleftrightarrow> task_exit E (cid_at E (length (calls s))) = 0) \<and>
    BDeleteInstance (cid_at E (length (calls s))) \<in> set (calls s') \<and>
    files s' = (\<lambda>p. if p = code_dir E f s \<or> HasPrefix p (code_dir E f s @ ''/'') then None else files s p)"
proof -
  let ?new = "\<lparr>inv_ID = uuid_at E (uuid_ctr s), inv_FunctionID = fn_ID f, inv_Status = ''PENDING'', inv_StartedAt = clock s, inv_EndedAt = None,
      inv_DurationMs = 0, inv_StatusCode = 0, inv_Logs = []\<rparr>"
  let ?Q = "\<lambda>r s'. \<exists>inv. r = Ok inv \<and> t_invocations s' = t_invocations s @ [inv] \<and>
    (inv_Status inv = ''SUCCESS'' \<longleftrightarrow> task_exit E (cid_at E (length (calls s))) = 0) \<and>
    BDeleteInstance (cid_at E (length (calls s))) \<in> set (calls s') \<and>
    files s' = (\<lambda>p. if p = code_dir E f s \<or> HasPrefix p (code_dir E f s @ ''/'') then None else files s p)"
  have "list_ex (\<lambda>r. fn_ID r = fn_ID f) (t_functions s)" using find_Some_set [OF assms(2)] by (auto simp: list_ex_iff)
  then have run: "wp (runInvocation E f ?new payload) ?Q s1"
    if "t_functions s1 = t_functions s" "t_invocations s1 = t_invocations s" "files s1 = files s" "calls s1 = calls s" "rand_ctr s1 = rand_ctr s" "faults s1 = []" for s1
    using that assms run_runInvocation [of s1 f rc E es ?new payload] by (auto simp: code_dir_def wp_def fun_eq_iff)
  have "wp (InvokeFunction E ctx i payload False) ?Q s"
    using assms(1,2) unfolding InvokeFunction_def FunctionRepository_GetByID_def Let_def
    by (auto simp: wps wpnf logged_simps simp del: wp_ignoreC intro!: wp_ignore_Log_nf run)
  then show ?thesis by (cases "InvokeFunction E ctx i payload False s") (auto simp: wp_def)
qed

text \<open>The code of a function is within reach of every tenant: the file store is shared, so that an object any tenant uploads to the bucket
  of the code, under the key of a function's archive, is what is unpacked and run when the function is invoked, whoever owns it.\<close>

theorem uploaded_code_runs:
  assumes "Upload E ctx ''functions'' (fn_CodePath f) evil s = (Ok obj, s1)" and "zip_entries E evil = Inr [(name, False, code)]"
    and "fits (code_dir E f s1) (name, False, code)"
  shows "\<exists>s2. prepareCode E f (s1\<lparr>faults := []\<rparr>) = (Ok (code_dir E f s1), s2) \<and> files s2 (Join_path [code_dir E f s1, name]) = Some code"
  using Upload_Ok [OF assms(1)] assms(2,3)
  by (simp add: prepareCode_def LocalFileStore_Read_def MkdirTemp_def unpack_def code_dir_def run extC_no_fault guardC_def getC_def run_extractFile
      Let_def del: Join_path.simps)


section \<open>Witnesses\<close>

definition sample_function :: Function where
  "sample_function = \<lparr>fn_ID = 65, fn_UserID = 1, fn_Name = ''f1'', fn_Runtime = ''python312'', fn_Handler = ''main.py'', fn_CodePath = ''1/65/code.zip'',
     fn_Timeout = 30, fn_MemoryMB = 128, fn_Status = ''ACTIVE'', fn_CreatedAt = 0, fn_UpdatedAt = 0\<rparr>"

definition zip_env :: env where
  "zip_env = sample_env\<lparr>zip_entries := \<lambda>z. Inr [(''main.py'', False, z)], tmp_dir := \<lambda>n p. ''/tmp/fn''\<rparr>"

lemma sample_code:
  "fits ''/tmp/fn'' (''main.py'', False, c)" "Clean ''/tmp/fn'' = ''/tmp/fn''" "rooted ''/tmp/fn''" "Join_path [''/tmp/fn'', ''main.py''] = ''/tmp/fn/main.py''"
  "store_path ''functions'' ''1/65/code.zip'' = ''thecloud-data/local/storage/functions/1/65/code.zip''" "Clean basePath = ''thecloud-data/local/storage''"
  "HasPrefix (''thecloud-data/local/storage/functions/1/65/code.zip'') (''thecloud-data/local/storage'')"
proof -
  have "HasPrefix (Join_path [''/tmp/fn'', ''main.py'']) (Clean ''/tmp/fn'' @ ''/'')" by code_simp
  then show "fits ''/tmp/fn'' (''main.py'', False, c)" by (simp only: fits_def fst_conv)
  show "Clean ''/tmp/fn'' = ''/tmp/fn''" by code_simp
  show "rooted ''/tmp/fn''" by code_simp
  show "Join_path [''/tmp/fn'', ''main.py''] = ''/tmp/fn/main.py''" by code_simp
  show "store_path ''functions'' ''1/65/code.zip'' = ''thecloud-data/local/storage/functions/1/65/code.zip''" by code_simp
  show "Clean basePath = ''thecloud-data/local/storage''" by code_simp
  show "HasPrefix (''thecloud-data/local/storage/functions/1/65/code.zip'') (''thecloud-data/local/storage'')" by code_simp
qed

definition code_world :: world where
  "code_world = sample_world\<lparr>t_functions := [sample_function], files := [''thecloud-data/local/storage/functions/1/65/code.zip'' \<mapsto> ''print(1)'']\<rparr>"

lemma sample_code_dir: "code_dir zip_env f s = ''/tmp/fn''"
  by (simp add: code_dir_def zip_env_def)

lemma sample_code_world:
  "faults code_world = []" "t_functions code_world = [sample_function]" "t_invocations code_world = []" "t_users code_world = t_users sample_world"
  "files code_world (''thecloud-data/local/storage/functions/1/65/code.zip'') = Some ''print(1)''" "t_objects code_world = []"
  by (simp_all add: code_world_def)

lemma sample_function_simps:
  "fn_ID sample_function = 65" "fn_CodePath sample_function = ''1/65/code.zip''" "zip_entries zip_env z = Inr [(''main.py'', False, z)]" "task_exit zip_env c = 0"
  by (simp_all add: sample_function_def zip_env_def)

theorem invocation_recorded_witness:
  "\<exists>inv s'. InvokeFunction zip_env (Some 1) 65 ''{}'' False code_world = (Ok inv, s') \<and> t_invocations s' = [inv] \<and> inv_Status inv = ''SUCCESS'' \<and>
     files s' ''/tmp/fn/main.py'' = None"
  using invocation_recorded [of code_world 65 sample_function "''print(1)''" zip_env "[(''main.py'', False, ''print(1)'')]" "Some 1" "''{}''"]
  by (simp add: sample_code_world sample_code_dir sample_code sample_function_simps) (auto simp: HasPrefix_def)

theorem extraction_confined_witness:
  "\<exists>s'. prepareCode zip_env sample_function code_world = (Ok ''/tmp/fn'', s') \<and> files s' ''/tmp/fn/main.py'' \<noteq> files code_world ''/tmp/fn/main.py'' \<and>
     HasPrefix ''/tmp/fn/main.py'' ''/tmp/fn/'' \<and> ''..'' \<notin> set (Split (CHR ''/'') ''/tmp/fn/main.py'')"
proof -
  have "zip_entries zip_env z = Inr [(''main.py'', False, z)]" for z by (simp add: zip_env_def)
  then have "\<exists>s'. prepareCode zip_env sample_function code_world = (Ok ''/tmp/fn'', s') \<and> files s' ''/tmp/fn/main.py'' = Some ''print(1)''"
    by (simp add: prepareCode_def LocalFileStore_Read_def MkdirTemp_def unpack_def sample_function_def sample_code sample_code_world run extC_no_fault
        guardC_def getC_def run_extractFile Let_def zip_env_def del: Join_path.simps)
  then obtain s' where s': "prepareCode zip_env sample_function code_world = (Ok ''/tmp/fn'', s')" "files s' ''/tmp/fn/main.py'' = Some ''print(1)''" by blast
  have "files s' ''/tmp/fn/main.py'' \<noteq> files code_world ''/tmp/fn/main.py''" using s'(2) by (simp add: code_world_def)
  with extraction_confined [OF _ s'(1) this] s'(1) show ?thesis by (simp add: sample_code_dir sample_code)
qed

theorem uploaded_code_runs_witness:
  "\<exists>obj s1 s2. Upload zip_env (Some 2) ''functions'' ''1/65/code.zip'' ''evil'' code_world = (Ok obj, s1) \<and>
     prepareCode zip_env sample_function (s1\<lparr>faults := []\<rparr>) = (Ok ''/tmp/fn'', s2) \<and> files s2 ''/tmp/fn/main.py'' = Some ''evil''"
proof -
  obtain obj s1 where u: "Upload zip_env (Some 2) ''functions'' ''1/65/code.zip'' ''evil'' code_world = (Ok obj, s1)"
    using Upload_sample [of code_world "''functions''" "''1/65/code.zip''" "Some 2" zip_env "''evil''"]
    by (auto simp: sample_code sample_code_world has_user_def)
  from u have u': "Upload zip_env (Some 2) ''functions'' (fn_CodePath sample_function) ''evil'' code_world = (Ok obj, s1)"
    by (simp add: sample_function_simps)
  from uploaded_code_runs [OF u', of "''main.py''" "''evil''"] u show ?thesis by (simp add: sample_code_dir sample_code sample_function_simps del: Join_path.simps)
qed

end
