(* ===== verification/Containers.thy ===== *)
theory Containers
  imports AutoScalingWorker Frames
begin

text \<open>
  Container deployments: the repository \<^verbatim>\<open>container_repo.go\<close>, the service \<^verbatim>\<open>container.go\<close> and the worker
  \<^verbatim>\<open>container_worker.go\<close>, which launches and terminates instances until a deployment has its replicas.
\<close>

section \<open>The repository\<close>

definition ContainerRepository_CreateDeployment :: "Deployment \<Rightarrow> unit op" where
  "ContainerRepository_CreateDeployment d =
     insertC (\<lambda>s. [(dep_ID d \<in> dep_ID ` set (t_deployments s), ''deployments_pkey''),
                   (list_ex (\<lambda>r. dep_UserID r = dep_UserID d \<and> dep_Name r = dep_Name d) (t_deployments s), ''deployments_user_id_name_key''),
                   (\<not> has_user s (dep_UserID d), ''deployments_user_id_fkey'')])
             (\<lambda>s. s\<lparr>t_deployments := t_deployments s @ [d]\<rparr>)"

definition ContainerRepository_GetDeploymentByID :: "uuid \<Rightarrow> uuid \<Rightarrow> Deployment op" where
  "ContainerRepository_GetDeploymentByID i userID = queryRowC (\<lambda>s. find (\<lambda>r. dep_ID r = i \<and> dep_UserID r = userID) (t_deployments s))"

definition ContainerRepository_ListDeployments :: "uuid \<Rightarrow> Deployment list op" where
  "ContainerRepository_ListDeployments userID =
     queryC (\<lambda>s. sort_key (\<lambda>r. - dep_CreatedAt r) (filter (\<lambda>r. dep_UserID r = userID) (t_deployments s)))"

definition dep_written :: "Deployment \<Rightarrow> time \<Rightarrow> Deployment \<Rightarrow> Deployment" where
  "dep_written d now r =
     r\<lparr>dep_Replicas := dep_Replicas d, dep_CurrentCount := dep_CurrentCount d, dep_Status := dep_Status d, dep_UpdatedAt := now\<rparr>"

definition ContainerRepository_UpdateDeployment :: "Deployment \<Rightarrow> unit op" where
  "ContainerRepository_UpdateDeployment d =
     (let P = (\<lambda>r. dep_ID r = dep_ID d) in
     bindC (execC noConstraint (\<lambda>s. rows_affected P (t_deployments s))
       (\<lambda>s. s\<lparr>t_deployments := upd_where P (dep_written d (clock s)) (t_deployments s)\<rparr>)) (\<lambda>_. returnC ()))"

text \<open>The memberships of a deleted deployment go with it (\<^verbatim>\<open>ON DELETE CASCADE\<close>).\<close>

definition ContainerRepository_DeleteDeployment :: "uuid \<Rightarrow> unit op" where
  "ContainerRepository_DeleteDeployment i =
     bindC (execC noConstraint (\<lambda>s. rows_affected (\<lambda>r. dep_ID r = i) (t_deployments s))
       (\<lambda>s. s\<lparr>t_deployments := filter (\<lambda>r. dep_ID r \<noteq> i) (t_deployments s),
              t_deployment_containers := filter (\<lambda>r. dc_DeploymentID r \<noteq> i) (t_deployment_containers s)\<rparr>)) (\<lambda>_. returnC ())"

definition ContainerRepository_AddContainer :: "uuid \<Rightarrow> uuid \<Rightarrow> unit op" where
  "ContainerRepository_AddContainer deploymentID instanceID =
     insertC (\<lambda>s. [(list_ex (\<lambda>r. dc_InstanceID r = instanceID) (t_deployment_containers s), ''deployment_containers_instance_id_key''),
                   (\<not> list_ex (\<lambda>r. dep_ID r = deploymentID) (t_deployments s), ''deployment_containers_deployment_id_fkey''),
                   (\<not> has_instance s instanceID, ''deployment_containers_instance_id_fkey'')])
             (\<lambda>s. s\<lparr>t_deployment_containers := t_deployment_containers s @ [\<lparr>dc_DeploymentID = deploymentID, dc_InstanceID = instanceID\<rparr>]\<rparr>)"

definition ContainerRepository_RemoveContainer :: "uuid \<Rightarrow> uuid \<Rightarrow> unit op" where
  "ContainerRepository_RemoveContainer deploymentID instanceID =
     (let P = (\<lambda>r. dc_DeploymentID r = deploymentID \<and> dc_InstanceID r = instanceID) in
     bindC (execC noConstraint (\<lambda>s. rows_affected P (t_deployment_containers s))
       (\<lambda>s. s\<lparr>t_deployment_containers := filter (\<lambda>r. \<not> P r) (t_deployment_containers s)\<rparr>)) (\<lambda>_. returnC ()))"

definition ContainerRepository_GetContainers :: "uuid \<Rightarrow> uuid list op" where
  "ContainerRepository_GetContainers deploymentID =
     queryC (\<lambda>s. map dc_InstanceID (filter (\<lambda>r. dc_DeploymentID r = deploymentID) (t_deployment_containers s)))"

definition ContainerRepository_ListAllDeployments :: "Deployment list op" where
  "ContainerRepository_ListAllDeployments = queryC t_deployments"

section \<open>The service\<close>

definition CreateDeployment :: "env \<Rightarrow> ctx \<Rightarrow> string \<Rightarrow> string \<Rightarrow> int \<Rightarrow> string \<Rightarrow> Deployment op" where
  "CreateDeployment E ctx name image' replicas ports =
     (let userID = UserIDFromContext ctx in
     bindC (guardC (userID = uuid_Nil) (Errorf ''unauthorized'' None)) (\<lambda>_.
     bindC (newUUID E) (\<lambda>i.
     bindC nowC (\<lambda>now.
     let dep = \<lparr>dep_ID = i, dep_UserID = userID, dep_Name = name, dep_Image = image', dep_Replicas = replicas, dep_CurrentCount = 0,
                dep_Ports = ports, dep_Status = DeploymentStatusScaling, dep_CreatedAt = now, dep_UpdatedAt = now\<rparr> in
     bindC (ContainerRepository_CreateDeployment dep) (\<lambda>_.
     bindC (ignoreC (RecordEvent E ctx ''DEPLOYMENT_CREATED'' (uuid_string E i) ''DEPLOYMENT'' [])) (\<lambda>_.
     bindC (ignoreC (Log E ctx userID ''container.deployment_create'' ''deployment'' (uuid_string E i)
              [(''name'', GStr name), (''image'', GStr image')])) (\<lambda>_.
     returnC dep)))))))"

definition ListDeployments :: "ctx \<Rightarrow> Deployment list op" where
  "ListDeployments ctx =
     (let userID = UserIDFromContext ctx in
     bindC (guardC (userID = uuid_Nil) (Errorf ''unauthorized'' None)) (\<lambda>_. ContainerRepository_ListDeployments userID))"

definition GetDeployment :: "ctx \<Rightarrow> uuid \<Rightarrow> Deployment op" where
  "GetDeployment ctx i =
     (let userID = UserIDFromContext ctx in
     bindC (guardC (userID = uuid_Nil) (Errorf ''unauthorized'' None)) (\<lambda>_. ContainerRepository_GetDeploymentByID i userID))"

definition ScaleDeployment :: "env \<Rightarrow> ctx \<Rightarrow> uuid \<Rightarrow> int \<Rightarrow> unit op" where
  "ScaleDeployment E ctx i replicas =
     (let userID = UserIDFromContext ctx in
     bindC (ContainerRepository_GetDeploymentByID i userID) (\<lambda>dep.
     bindC (ContainerRepository_UpdateDeployment (dep\<lparr>dep_Replicas := replicas, dep_Status := DeploymentStatusScaling\<rparr>)) (\<lambda>_.
     ignoreC (Log E ctx userID ''container.deployment_scale'' ''deployment'' (uuid_string E i) [(''replicas'', GInt replicas)]))))"

definition DeleteDeployment :: "env \<Rightarrow> ctx \<Rightarrow> uuid \<Rightarrow> unit op" where
  "DeleteDeployment E ctx i =
     (let userID = UserIDFromContext ctx in
     bindC (ContainerRepository_GetDeploymentByID i userID) (\<lambda>dep.
     bindC (ContainerRepository_UpdateDeployment (dep\<lparr>dep_Status := DeploymentStatusDeleting\<rparr>)) (\<lambda>_.
     ignoreC (Log E ctx userID ''container.deployment_delete'' ''deployment'' (uuid_string E i) []))))"

section \<open>The worker\<close>

definition launchContainer :: "env \<Rightarrow> ctx \<Rightarrow> Deployment \<Rightarrow> unit op" where
  "launchContainer E ctx dep =
     bindC nowC (\<lambda>now.
     bindC (LaunchInstance E ctx (''dep-'' @ dep_Name dep @ ''-'' @ int_string now) (dep_Image dep) (dep_Ports dep) None None []) (\<lambda>inst.
     bindC (tryC (ContainerRepository_AddContainer (dep_ID dep) (inst_ID inst))) (\<lambda>r.
     case r of
       Inl err \<Rightarrow> bindC (ignoreC (TerminateInstance E ctx (uuid_string E (inst_ID inst)))) (\<lambda>_. failC err)
     | Inr _ \<Rightarrow> returnC ())))"

definition terminateContainer :: "env \<Rightarrow> ctx \<Rightarrow> Deployment \<Rightarrow> uuid \<Rightarrow> unit op" where
  "terminateContainer E ctx dep instanceID =
     bindC (ContainerRepository_RemoveContainer (dep_ID dep) instanceID) (\<lambda>_.
     TerminateInstance E ctx (uuid_string E instanceID))"

text \<open>The loops end at the first error, which is logged.\<close>

definition reconcileDeployment :: "env \<Rightarrow> Deployment \<Rightarrow> unit op" where
  "reconcileDeployment E dep =
     (let uCtx = WithUserID None (dep_UserID dep) in
     bindC (tryC (ContainerRepository_GetContainers (dep_ID dep))) (\<lambda>r.
     case r of
       Inl _ \<Rightarrow> returnC ()
     | Inr containerIDs \<Rightarrow>
     (let current = int (length containerIDs) in
     if dep_Status dep = DeploymentStatusDeleting
     then if current = 0 then ignoreC (ContainerRepository_DeleteDeployment (dep_ID dep))
          else forC containerIDs (\<lambda>i. ignoreC (terminateContainer E uCtx dep i))
     else
     bindC (if current < dep_Replicas dep
            then ignoreC (forC [0..<nat (dep_Replicas dep - current)] (\<lambda>_. launchContainer E uCtx dep))
            else if current > dep_Replicas dep
            then if dep_Replicas dep < 0
                 then bindC (tryC (forC containerIDs (terminateContainer E uCtx dep))) (\<lambda>r.
                      case r of Inl _ \<Rightarrow> returnC () | Inr _ \<Rightarrow> panicC ''runtime error: index out of range'')
                 else ignoreC (forC (take (nat (current - dep_Replicas dep)) containerIDs) (terminateContainer E uCtx dep))
            else returnC ()) (\<lambda>_.
     let newStatus = (if current \<noteq> dep_Replicas dep then DeploymentStatusScaling else DeploymentStatusReady) in
     whenC (dep_Status dep \<noteq> newStatus \<or> dep_CurrentCount dep \<noteq> current)
       (ignoreC (ContainerRepository_UpdateDeployment (dep\<lparr>dep_Status := newStatus, dep_CurrentCount := current\<rparr>)))))))"

definition ContainerWorker_Reconcile :: "env \<Rightarrow> unit op" where
  "ContainerWorker_Reconcile E =
     bindC (tryC ContainerRepository_ListAllDeployments) (\<lambda>r.
     case r of Inl _ \<Rightarrow> returnC () | Inr deployments \<Rightarrow> forC deployments (reconcileDeployment E))"

section \<open>Facts\<close>

definition replicas_of :: "uuid \<Rightarrow> world \<Rightarrow> uuid list" where
  "replicas_of d s = map dc_InstanceID (filter (\<lambda>r. dc_DeploymentID r = d) (t_deployment_containers s))"

text \<open>Terminating an instance leaves the deployments alone and at most removes memberships.\<close>

definition fewer :: "world \<Rightarrow> world \<Rightarrow> bool" where
  "fewer s s' \<longleftrightarrow> t_deployments s' = t_deployments s \<and> set (t_deployment_containers s') \<subseteq> set (t_deployment_containers s)"

interpretation fewer: core_frame fewer
  by unfold_locales (auto simp: fewer_def core_eq_iff)

lemma fewer_tables:
  "t_deployments s' = t_deployments s \<Longrightarrow> t_deployment_containers s' = t_deployment_containers s \<Longrightarrow> fewer s s'"
  by (simp add: fewer_def)

lemma fewer_terminate: "confined fewer (TerminateInstance E ctx n)"
proof -
  have "confined fewer (case st of StatusRunning \<Rightarrow> metricC a | StatusStopped \<Rightarrow> metricC b | _ \<Rightarrow> returnC ())" for st a b
    by (cases st) (auto intro: fewer.cf_intros)
  moreover have "fewer s (delete_instance_row P i s)" for P i s
    by (auto simp: delete_instance_row_def fewer_def)
  ultimately show ?thesis
    unfolding TerminateInstance_def removeInstanceContainer_def releaseAttachedVolumes_def releaseVolume_def GetInstance_def
      InstanceRepository_GetByID_def InstanceRepository_GetByName_def InstanceRepository_Delete_def VolumeRepository_ListByInstanceID_def
      VolumeRepository_Update_def Let_def
    by (intro fewer.cf_intros; simp add: fewer_tables)
qed

lemma terminateContainer_nf:
  assumes "faults s = []" and "uuid_parse E (uuid_string E i) = Some i" and "distinct (map vol_ID (t_volumes s))"
  shows "\<exists>s'. ignoreC (terminateContainer E (Some u) dep i) s = (Ok (), s') \<and> faults s' = [] \<and> distinct (map vol_ID (t_volumes s')) \<and>
    t_deployments s' = t_deployments s \<and> set (replicas_of (dep_ID dep) s') \<subseteq> set (replicas_of (dep_ID dep) s) - {i} \<and>
    t_instances s' = filter (\<lambda>x. \<not> (inst_ID x = i \<and> inst_UserID x = u)) (t_instances s)"
proof -
  let ?s = "s\<lparr>t_deployment_containers := filter (\<lambda>r. \<not> (dc_DeploymentID r = dep_ID dep \<and> dc_InstanceID r = i)) (t_deployment_containers s)\<rparr>"
  have rem: "ContainerRepository_RemoveContainer (dep_ID dep) i s = (Ok (), ?s)"
    using assms(1) by (simp add: ContainerRepository_RemoveContainer_def Let_def run)
  obtain s' where s': "ignoreC (TerminateInstance E (Some u) (uuid_string E i)) ?s = (Ok (), s')" "faults s' = []" "distinct (map vol_ID (t_volumes s'))"
    "t_instances s' = filter (\<lambda>x. \<not> (inst_ID x = i \<and> inst_UserID x = u)) (t_instances ?s)"
    using TerminateInstance_ignored [of ?s E i u] assms by auto
  have "fewer ?s s'" using confinedD [OF fewer.fr_ignore [OF fewer_terminate [of E "Some u" "uuid_string E i"]], of ?s] s'(1) by simp
  moreover have "ignoreC (terminateContainer E (Some u) dep i) s = (Ok (), s')"
    using rem s'(1) by (simp add: terminateContainer_def ignoreC_def bindC_def)
  ultimately show ?thesis using s' by (auto simp: fewer_def replicas_of_def)
qed

lemma drain_nf:
  assumes "faults s = []" and "\<And>i. uuid_parse E (uuid_string E i) = Some i" and "distinct (map vol_ID (t_volumes s))"
  shows "\<exists>s'. forC ids (\<lambda>i. ignoreC (terminateContainer E (Some u) dep i)) s = (Ok (), s') \<and> faults s' = [] \<and>
    t_deployments s' = t_deployments s \<and> set (replicas_of (dep_ID dep) s') \<subseteq> set (replicas_of (dep_ID dep) s) - set ids \<and>
    t_instances s' = filter (\<lambda>x. \<not> (inst_ID x \<in> set ids \<and> inst_UserID x = u)) (t_instances s)"
  using assms(1,3)
proof (induction ids arbitrary: s)
  case (Cons i ids)
  from terminateContainer_nf [OF Cons.prems(1) assms(2) Cons.prems(2)]
  obtain s1 where s1: "ignoreC (terminateContainer E (Some u) dep i) s = (Ok (), s1)" "faults s1 = []" "distinct (map vol_ID (t_volumes s1))"
    "t_deployments s1 = t_deployments s" "set (replicas_of (dep_ID dep) s1) \<subseteq> set (replicas_of (dep_ID dep) s) - {i}"
    "t_instances s1 = filter (\<lambda>x. \<not> (inst_ID x = i \<and> inst_UserID x = u)) (t_instances s)" by blast
  from Cons.IH [OF s1(2,3)] obtain s' where s': "forC ids (\<lambda>i. ignoreC (terminateContainer E (Some u) dep i)) s1 = (Ok (), s')" "faults s' = []"
    "t_deployments s' = t_deployments s1" "set (replicas_of (dep_ID dep) s') \<subseteq> set (replicas_of (dep_ID dep) s1) - set ids"
    "t_instances s' = filter (\<lambda>x. \<not> (inst_ID x \<in> set ids \<and> inst_UserID x = u)) (t_instances s1)" by blast
  have "t_instances s' = filter (\<lambda>x. \<not> (inst_ID x \<in> set (i # ids) \<and> inst_UserID x = u)) (t_instances s)"
    unfolding s'(5) s1(6) filter_filter by (rule filter_cong) auto
  then show ?case using s1 s' by (intro exI [of _ s']) (auto simp: bindC_def)
qed (auto simp: run)

lemma WithUserID_Some: "WithUserID None u = Some u"
  by (simp add: WithUserID_def)

lemma reconcile_deleting_nf:
  assumes "faults s = []" and "\<And>i. uuid_parse E (uuid_string E i) = Some i" and "distinct (map vol_ID (t_volumes s))"
    and "dep_Status dep = DeploymentStatusDeleting"
  shows "\<exists>s'. reconcileDeployment E dep s = (Ok (), s') \<and> faults s' = [] \<and> replicas_of (dep_ID dep) s' = [] \<and>
    t_instances s' = filter (\<lambda>x. \<not> (inst_ID x \<in> set (replicas_of (dep_ID dep) s) \<and> inst_UserID x = dep_UserID dep)) (t_instances s) \<and>
    (replicas_of (dep_ID dep) s = [] \<longrightarrow> t_deployments s' = filter (\<lambda>r. dep_ID r \<noteq> dep_ID dep) (t_deployments s))"
proof (cases "replicas_of (dep_ID dep) s = []")
  case True
  then show ?thesis using assms(1,4)
    by (simp add: reconcileDeployment_def ContainerRepository_GetContainers_def ContainerRepository_DeleteDeployment_def replicas_of_def run Let_def)
next
  case False
  from drain_nf [OF assms(1-3), of "replicas_of (dep_ID dep) s" "dep_UserID dep" dep] obtain s' where s':
    "forC (replicas_of (dep_ID dep) s) (\<lambda>i. ignoreC (terminateContainer E (Some (dep_UserID dep)) dep i)) s = (Ok (), s')" "faults s' = []"
    "set (replicas_of (dep_ID dep) s') \<subseteq> {}"
    "t_instances s' = filter (\<lambda>x. \<not> (inst_ID x \<in> set (replicas_of (dep_ID dep) s) \<and> inst_UserID x = dep_UserID dep)) (t_instances s)" by auto
  have "reconcileDeployment E dep s = (Ok (), s')"
    using False assms(1,4) s'(1) by (simp add: reconcileDeployment_def ContainerRepository_GetContainers_def replicas_of_def run Let_def WithUserID_Some)
  then show ?thesis using s' False by auto
qed

section \<open>Properties\<close>

text \<open>C28. A deleted deployment is drained and removed: without faults the worker's first round terminates its replicas and its
  second round removes the deployment. Identifiers are relied on to print and parse back.\<close>

theorem deployment_drains:
  assumes "faults s = []" and "\<forall>i. uuid_parse E (uuid_string E i) = Some i" and "distinct (map vol_ID (t_volumes s))"
    and "dep_Status dep = DeploymentStatusDeleting"
  shows "\<exists>s1 s2. reconcileDeployment E dep s = (Ok (), s1) \<and> replicas_of (dep_ID dep) s1 = [] \<and>
    t_instances s1 = filter (\<lambda>x. \<not> (inst_ID x \<in> set (replicas_of (dep_ID dep) s) \<and> inst_UserID x = dep_UserID dep)) (t_instances s) \<and>
    reconcileDeployment E dep s1 = (Ok (), s2) \<and> dep_ID dep \<notin> dep_ID ` set (t_deployments s2) \<and> t_instances s2 = t_instances s1"
proof -
  obtain s1 where s1: "reconcileDeployment E dep s = (Ok (), s1)" "faults s1 = []" "replicas_of (dep_ID dep) s1 = []"
    "t_instances s1 = filter (\<lambda>x. \<not> (inst_ID x \<in> set (replicas_of (dep_ID dep) s) \<and> inst_UserID x = dep_UserID dep)) (t_instances s)"
    using reconcile_deleting_nf [OF assms(1) _ assms(3,4)] assms(2) by blast
  have "reconcileDeployment E dep s1 = (Ok (), s1\<lparr>t_deployments := filter (\<lambda>r. dep_ID r \<noteq> dep_ID dep) (t_deployments s1),
      t_deployment_containers := filter (\<lambda>r. dc_DeploymentID r \<noteq> dep_ID dep) (t_deployment_containers s1)\<rparr>)"
    using s1(2,3) assms(4)
    by (simp add: reconcileDeployment_def ContainerRepository_GetContainers_def ContainerRepository_DeleteDeployment_def replicas_of_def run Let_def)
  with s1 show ?thesis by auto
qed

text \<open>A deletion is lost when the worker is at the deployment: the worker writes the row it read before the deletion back, and
  the deployment is ready again.\<close>

theorem deployment_deletion_lost:
  assumes "faults s = []" and "distinct (map dep_ID (t_deployments s))" and "dep \<in> set (t_deployments s)"
    and "dep_Status dep = DeploymentStatusScaling" and "int (length (replicas_of (dep_ID dep) s)) = dep_Replicas dep"
  shows "\<exists>s1 s2. DeleteDeployment E (Some (dep_UserID dep)) (dep_ID dep) s = (Ok (), s1) \<and>
    (\<forall>r \<in> set (t_deployments s1). dep_ID r = dep_ID dep \<longrightarrow> dep_Status r = DeploymentStatusDeleting) \<and>
    reconcileDeployment E dep s1 = (Ok (), s2) \<and>
    (\<forall>r \<in> set (t_deployments s2). dep_ID r = dep_ID dep \<longrightarrow> dep_Status r = DeploymentStatusReady)"
proof -
  have f: "find (\<lambda>r. dep_ID r = dep_ID dep \<and> dep_UserID r = dep_UserID dep) (t_deployments s) = Some dep"
    by (rule find_key_and [OF assms(2,3)]) simp
  have "wp (DeleteDeployment E (Some (dep_UserID dep)) (dep_ID dep)) (\<lambda>r s1. r = Ok () \<and> faults s1 = [] \<and>
      replicas_of (dep_ID dep) s1 = replicas_of (dep_ID dep) s \<and>
      t_deployments s1 = upd_where (\<lambda>r. dep_ID r = dep_ID dep) (dep_written (dep\<lparr>dep_Status := DeploymentStatusDeleting\<rparr>) (clock s)) (t_deployments s)) s"
    using assms(1) f
    by (auto simp: DeleteDeployment_def ContainerRepository_GetDeploymentByID_def ContainerRepository_UpdateDeployment_def Let_def wps wpnf
        logged_simps replicas_of_def simp del: wp_ignoreC intro!: wp_ignore_Log_nf)
  from wp_returns [OF this] obtain s1 where s1: "DeleteDeployment E (Some (dep_UserID dep)) (dep_ID dep) s = (Ok (), s1)" "faults s1 = []"
      "replicas_of (dep_ID dep) s1 = replicas_of (dep_ID dep) s"
      "t_deployments s1 = upd_where (\<lambda>r. dep_ID r = dep_ID dep) (dep_written (dep\<lparr>dep_Status := DeploymentStatusDeleting\<rparr>) (clock s)) (t_deployments s)" by blast
  let ?d = "dep\<lparr>dep_Status := DeploymentStatusReady, dep_CurrentCount := dep_Replicas dep\<rparr>"
  have "length (filter (\<lambda>r. dc_DeploymentID r = dep_ID dep) (t_deployment_containers s1)) = nat (dep_Replicas dep)"
    using assms(5) s1(3) by (simp add: replicas_of_def) (metis length_map nat_int)
  moreover have "dep_Replicas dep \<ge> 0" using assms(5) by linarith
  ultimately have "reconcileDeployment E dep s1 = (Ok (), s1\<lparr>t_deployments := upd_where (\<lambda>r. dep_ID r = dep_ID dep) (dep_written ?d (clock s1)) (t_deployments s1)\<rparr>)"
    using s1(2) assms(4)
    by (simp add: reconcileDeployment_def ContainerRepository_GetContainers_def ContainerRepository_UpdateDeployment_def run Let_def whenC_def)
  then show ?thesis using s1(1,4) by (auto simp: set_upd_where dep_written_def)
qed

text \<open>A negative number of replicas kills the worker: the service stores it unchecked, and the round that finds no
  container left runs past the end of the list.\<close>

theorem negative_replicas_panic:
  assumes "faults s = []" and "dep_Replicas dep < 0" and "dep_Status dep \<noteq> DeploymentStatusDeleting" and "replicas_of (dep_ID dep) s = []"
  shows "\<exists>p. fst (reconcileDeployment E dep s) = Panic p"
  using assms by (simp add: reconcileDeployment_def ContainerRepository_GetContainers_def replicas_of_def run Let_def)

section \<open>Witnesses\<close>

definition sample_deployment :: Deployment where
  "sample_deployment = \<lparr>dep_ID = 95, dep_UserID = 1, dep_Name = ''app'', dep_Image = ''nginx'', dep_Replicas = 1, dep_CurrentCount = 0, dep_Ports = [],
     dep_Status = DeploymentStatusScaling, dep_CreatedAt = 0, dep_UpdatedAt = 0\<rparr>"

abbreviation sample_deployed :: world where
  "sample_deployed \<equiv> sample_world\<lparr>t_instances := [sample_instance], t_deployments := [sample_deployment],
     t_deployment_containers := [\<lparr>dc_DeploymentID = 95, dc_InstanceID = 40\<rparr>]\<rparr>"

theorem deployment_drains_witness:
  "\<exists>s1 s2. reconcileDeployment uuid_env (sample_deployment\<lparr>dep_Status := DeploymentStatusDeleting\<rparr>) sample_deployed = (Ok (), s1) \<and> t_instances s1 = [] \<and>
     reconcileDeployment uuid_env (sample_deployment\<lparr>dep_Status := DeploymentStatusDeleting\<rparr>) s1 = (Ok (), s2) \<and> 95 \<notin> dep_ID ` set (t_deployments s2)"
  using deployment_drains [of sample_deployed uuid_env "sample_deployment\<lparr>dep_Status := DeploymentStatusDeleting\<rparr>"]
  by (auto simp: sample_deployment_def replicas_of_def sample_instance_def nat_string_digits)

theorem deployment_deletion_lost_witness:
  "\<exists>s1 s2. DeleteDeployment sample_env (Some 1) 95 sample_deployed = (Ok (), s1) \<and> reconcileDeployment sample_env sample_deployment s1 = (Ok (), s2) \<and>
     (\<forall>r \<in> set (t_deployments s2). dep_ID r = 95 \<longrightarrow> dep_Status r = DeploymentStatusReady)"
  using deployment_deletion_lost [of sample_deployed sample_deployment sample_env] by (auto simp: sample_deployment_def replicas_of_def)

theorem negative_replicas_panic_witness:
  "\<exists>p. fst (reconcileDeployment sample_env (sample_deployment\<lparr>dep_Replicas := -1\<rparr>) sample_world) = Panic p"
  using negative_replicas_panic [of sample_world "sample_deployment\<lparr>dep_Replicas := -1\<rparr>" sample_env] by (simp add: sample_deployment_def replicas_of_def)

end
