(* ===== verification/Queues.thy ===== *)
theory Queues
  imports Transactions
begin

text \<open>
  The message queue service: the repository \<^verbatim>\<open>queue_repo.go\<close>, which keeps the messages in a table and
  hides received ones until a visibility timeout, and the service \<^verbatim>\<open>queue.go\<close>. The empty receipt handle
  of a row stands for SQL's null, which is equal to nothing; a polling transaction sees the table
  without concurrent locks, in the order of the rows.
\<close>

section \<open>The repository\<close>

definition QueueRepository_Create :: "Queue \<Rightarrow> unit op" where
  "QueueRepository_Create q =
     insertC (\<lambda>s. [(q_ID q \<in> q_ID ` set (t_queues s), ''queues_pkey''),
                   (list_ex (\<lambda>r. q_UserID r = q_UserID q \<and> q_Name r = q_Name q) (t_queues s), ''queues_user_id_name_key''),
                   (\<not> has_user s (q_UserID q), ''queues_user_id_fkey'')])
             (\<lambda>s. s\<lparr>t_queues := t_queues s @ [q]\<rparr>)"

text \<open>A missing row is a nil queue and not an error.\<close>

definition QueueRepository_GetByID :: "uuid \<Rightarrow> uuid \<Rightarrow> Queue option op" where
  "QueueRepository_GetByID i userID = queryC (\<lambda>s. find (\<lambda>q. q_ID q = i \<and> q_UserID q = userID) (t_queues s))"

definition QueueRepository_GetByName :: "string \<Rightarrow> uuid \<Rightarrow> Queue option op" where
  "QueueRepository_GetByName name userID = queryC (\<lambda>s. find (\<lambda>q. q_Name q = name \<and> q_UserID q = userID) (t_queues s))"

definition QueueRepository_List :: "uuid \<Rightarrow> Queue list op" where
  "QueueRepository_List userID = queryC (\<lambda>s. filter (\<lambda>q. q_UserID q = userID) (t_queues s))"

definition QueueRepository_Delete :: "uuid \<Rightarrow> unit op" where
  "QueueRepository_Delete i =
     bindC (execC noConstraint (\<lambda>s. rows_affected (\<lambda>q. q_ID q = i) (t_queues s))
              (\<lambda>s. if list_ex (\<lambda>q. q_ID q = i) (t_queues s)
                 then s\<lparr>t_queues := filter (\<lambda>q. q_ID q \<noteq> i) (t_queues s),
                        t_queue_messages := filter (\<lambda>m. msg_QueueID m \<noteq> i) (t_queue_messages s)\<rparr>
                 else s))
       (\<lambda>n. guardC (n = 0) (New NotFound ''queue not found''))"

text \<open>Both inserts write the row with the current time when no time passes between the two readings of the clock.\<close>

definition QueueRepository_SendMessage :: "env \<Rightarrow> uuid \<Rightarrow> string \<Rightarrow> Message op" where
  "QueueRepository_SendMessage E queueID body =
     bindC (newUUID E) (\<lambda>i.
     bindC nowC (\<lambda>visibleAt.
     bindC nowC (\<lambda>now.
     let m = \<lparr>msg_ID = i, msg_QueueID = queueID, msg_Body = body, msg_ReceiptHandle = [], msg_VisibleAt = visibleAt,
              msg_ReceivedCount = 0, msg_CreatedAt = visibleAt\<rparr>;
         viol = (\<lambda>s. [(msg_ID m \<in> msg_ID ` set (t_queue_messages s), ''queue_messages_pkey''),
                      (\<not> list_ex (\<lambda>q. q_ID q = queueID) (t_queues s), ''queue_messages_queue_id_fkey'')])
     in
     bindC (if now - visibleAt < Second \<and> visibleAt - now < Second
            then insertC viol (\<lambda>s. s\<lparr>t_queue_messages := t_queue_messages s @ [m\<lparr>msg_VisibleAt := clock s, msg_CreatedAt := clock s\<rparr>]\<rparr>)
            else insertC viol (\<lambda>s. s\<lparr>t_queue_messages := t_queue_messages s @ [m]\<rparr>)) (\<lambda>_.
     returnC m))))"

text \<open>The rows a poll selects, and the message it returns for each: hidden until the timeout, under a fresh
  receipt handle.\<close>

definition visible :: "uuid \<Rightarrow> time \<Rightarrow> Message \<Rightarrow> bool" where
  "visible queueID now m \<longleftrightarrow> msg_QueueID m = queueID \<and> msg_VisibleAt m \<le> now"

definition receiveOne :: "env \<Rightarrow> time \<Rightarrow> int \<Rightarrow> Message \<Rightarrow> Message op" where
  "receiveOne E now visibilityTimeout row =
     bindC (newUUID E) (\<lambda>u.
     returnC (row\<lparr>msg_ReceiptHandle := uuid_string E u, msg_VisibleAt := now + visibilityTimeout * Second,
                  msg_ReceivedCount := msg_ReceivedCount row + 1\<rparr>))"

definition markReceived :: "Message \<Rightarrow> unit op" where
  "markReceived m =
     bindC (execC noConstraint (\<lambda>s. rows_affected (\<lambda>r. msg_ID r = msg_ID m) (t_queue_messages s))
              (\<lambda>s. s\<lparr>t_queue_messages := upd_where (\<lambda>r. msg_ID r = msg_ID m)
                 (\<lambda>r. r\<lparr>msg_ReceiptHandle := msg_ReceiptHandle m, msg_VisibleAt := msg_VisibleAt m,
                      msg_ReceivedCount := msg_ReceivedCount r + 1\<rparr>) (t_queue_messages s)\<rparr>)) (\<lambda>_. returnC ())"

definition QueueRepository_ReceiveMessages :: "env \<Rightarrow> uuid \<Rightarrow> int \<Rightarrow> int \<Rightarrow> Message list op" where
  "QueueRepository_ReceiveMessages E queueID maxMessages visibilityTimeout = txC (
     bindC (guardC (maxMessages < 0) (Constraint ''LIMIT must not be negative'')) (\<lambda>_.
     bindC (queryC (\<lambda>s. take (nat maxMessages) (filter (visible queueID (clock s)) (t_queue_messages s)))) (\<lambda>rows.
     bindC nowC (\<lambda>now.
     bindC (mapC rows (receiveOne E now visibilityTimeout)) (\<lambda>messages.
     bindC (forC messages markReceived) (\<lambda>_.
     returnC messages))))))"

definition QueueRepository_DeleteMessage :: "uuid \<Rightarrow> string \<Rightarrow> unit op" where
  "QueueRepository_DeleteMessage queueID receiptHandle =
     (let P = (\<lambda>m. msg_QueueID m = queueID \<and> msg_ReceiptHandle m \<noteq> [] \<and> msg_ReceiptHandle m = receiptHandle) in
      bindC (execC noConstraint (\<lambda>s. rows_affected P (t_queue_messages s))
               (\<lambda>s. s\<lparr>t_queue_messages := filter (\<lambda>m. \<not> P m) (t_queue_messages s)\<rparr>))
        (\<lambda>n. guardC (n = 0) (New NotFound ''message not found or receipt handle expired'')))"

definition QueueRepository_PurgeMessages :: "uuid \<Rightarrow> nat op" where
  "QueueRepository_PurgeMessages queueID =
     execC noConstraint (\<lambda>s. rows_affected (\<lambda>m. msg_QueueID m = queueID) (t_queue_messages s))
       (\<lambda>s. s\<lparr>t_queue_messages := filter (\<lambda>m. msg_QueueID m \<noteq> queueID) (t_queue_messages s)\<rparr>)"

definition QueueRepository_GetQueueStats :: "uuid \<Rightarrow> (nat \<times> nat) op" where
  "QueueRepository_GetQueueStats queueID =
     queryC (\<lambda>s. (length (filter (visible queueID (clock s)) (t_queue_messages s)),
                  length (filter (\<lambda>m. msg_QueueID m = queueID \<and> msg_VisibleAt m > clock s) (t_queue_messages s))))"

section \<open>The service\<close>

record CreateQueueOptions =
  opt_VisibilityTimeout :: "int option"
  opt_RetentionDays :: "int option"
  opt_MaxMessageSize :: "int option"

definition the_or :: "'a \<Rightarrow> 'a option \<Rightarrow> 'a" where
  "the_or d x = (case x of None \<Rightarrow> d | Some y \<Rightarrow> y)"

definition CreateQueue :: "env \<Rightarrow> ctx \<Rightarrow> string \<Rightarrow> CreateQueueOptions option \<Rightarrow> Queue op" where
  "CreateQueue E ctx name opts =
     (let userID = UserIDFromContext ctx in
     bindC (guardC (userID = uuid_Nil) (Errorf ''unauthorized'' None)) (\<lambda>_.
     bindC (QueueRepository_GetByName name userID) (\<lambda>existing.
     bindC (guardC (existing \<noteq> None) (Errorf (''queue with name '' @ name @ '' already exists'') None)) (\<lambda>_.
     bindC (newUUID E) (\<lambda>qID.
     bindC nowC (\<lambda>now.
     let q = \<lparr>q_ID = qID, q_UserID = userID, q_Name = name,
              q_ARN = ''arn:thecloud:queue:local:'' @ uuid_string E userID @ '':queue/'' @ uuid_string E qID,
              q_VisibilityTimeout = (case opts of None \<Rightarrow> 30 | Some o' \<Rightarrow> the_or 30 (opt_VisibilityTimeout o')),
              q_RetentionDays = (case opts of None \<Rightarrow> 4 | Some o' \<Rightarrow> the_or 4 (opt_RetentionDays o')),
              q_MaxMessageSize = (case opts of None \<Rightarrow> 262144 | Some o' \<Rightarrow> the_or 262144 (opt_MaxMessageSize o')),
              q_Status = QueueStatusActive, q_CreatedAt = now, q_UpdatedAt = now\<rparr> in
     bindC (QueueRepository_Create q) (\<lambda>_.
     bindC (ignoreC (RecordEvent E ctx ''QUEUE_CREATED'' (uuid_string E qID) ''QUEUE'' [])) (\<lambda>_.
     bindC (ignoreC (Log E ctx userID ''queue.create'' ''queue'' (uuid_string E qID) [(''name'', GStr name)])) (\<lambda>_.
     returnC q)))))))))"

definition GetQueue :: "ctx \<Rightarrow> uuid \<Rightarrow> Queue op" where
  "GetQueue ctx i =
     (let userID = UserIDFromContext ctx in
     bindC (guardC (userID = uuid_Nil) (Errorf ''unauthorized'' None)) (\<lambda>_.
     bindC (QueueRepository_GetByID i userID) (\<lambda>q.
     case q of None \<Rightarrow> failC (Errorf ''queue not found'' None) | Some q \<Rightarrow> returnC q)))"

definition ListQueues :: "ctx \<Rightarrow> Queue list op" where
  "ListQueues ctx =
     (let userID = UserIDFromContext ctx in
     bindC (guardC (userID = uuid_Nil) (Errorf ''unauthorized'' None)) (\<lambda>_. QueueRepository_List userID))"

definition DeleteQueue :: "env \<Rightarrow> ctx \<Rightarrow> uuid \<Rightarrow> unit op" where
  "DeleteQueue E ctx i =
     bindC (GetQueue ctx i) (\<lambda>q.
     bindC (QueueRepository_Delete (q_ID q)) (\<lambda>_.
     bindC (ignoreC (RecordEvent E ctx ''QUEUE_DELETED'' (uuid_string E (q_ID q)) ''QUEUE'' [])) (\<lambda>_.
     ignoreC (Log E ctx (q_UserID q) ''queue.delete'' ''queue'' (uuid_string E (q_ID q)) [(''name'', GStr (q_Name q))]))))"

definition SendMessage :: "env \<Rightarrow> ctx \<Rightarrow> uuid \<Rightarrow> string \<Rightarrow> Message op" where
  "SendMessage E ctx queueID body =
     bindC (GetQueue ctx queueID) (\<lambda>q.
     bindC (guardC (int (length body) > q_MaxMessageSize q)
              (Errorf (''message size exceeds limit of '' @ int_string (q_MaxMessageSize q) @ '' bytes'') None)) (\<lambda>_.
     bindC (QueueRepository_SendMessage E (q_ID q) body) (\<lambda>m.
     bindC (ignoreC (RecordEvent E ctx ''MESSAGE_SENT'' (uuid_string E (msg_ID m)) ''MESSAGE'' [(''queue_id'', GUuid (q_ID q))])) (\<lambda>_.
     bindC (metricC (MInc ''QueueMessagesTotal'' [uuid_string E (q_ID q), ''send''])) (\<lambda>_.
     returnC m)))))"

definition clampMessages :: "int \<Rightarrow> int" where
  "clampMessages maxMessages = (let n = (if maxMessages \<le> 0 then 1 else maxMessages) in if n > 10 then 10 else n)"

definition ReceiveMessages :: "env \<Rightarrow> ctx \<Rightarrow> uuid \<Rightarrow> int \<Rightarrow> Message list op" where
  "ReceiveMessages E ctx queueID maxMessages =
     bindC (GetQueue ctx queueID) (\<lambda>q.
     bindC (QueueRepository_ReceiveMessages E (q_ID q) (clampMessages maxMessages) (q_VisibilityTimeout q)) (\<lambda>msgs.
     bindC (forC msgs (\<lambda>m.
       bindC (ignoreC (RecordEvent E ctx ''MESSAGE_RECEIVED'' (uuid_string E (msg_ID m)) ''MESSAGE'' [(''queue_id'', GUuid (q_ID q))])) (\<lambda>_.
       metricC (MInc ''QueueMessagesTotal'' [uuid_string E (q_ID q), ''receive''])))) (\<lambda>_.
     returnC msgs)))"

definition DeleteMessage :: "env \<Rightarrow> ctx \<Rightarrow> uuid \<Rightarrow> string \<Rightarrow> unit op" where
  "DeleteMessage E ctx queueID receiptHandle =
     bindC (GetQueue ctx queueID) (\<lambda>q.
     bindC (QueueRepository_DeleteMessage (q_ID q) receiptHandle) (\<lambda>_.
     bindC (ignoreC (RecordEvent E ctx ''MESSAGE_DELETED'' receiptHandle ''MESSAGE'' [(''queue_id'', GUuid (q_ID q))])) (\<lambda>_.
     metricC (MInc ''QueueMessagesTotal'' [uuid_string E (q_ID q), ''delete'']))))"

definition PurgeQueue :: "env \<Rightarrow> ctx \<Rightarrow> uuid \<Rightarrow> unit op" where
  "PurgeQueue E ctx queueID =
     bindC (GetQueue ctx queueID) (\<lambda>q.
     bindC (QueueRepository_PurgeMessages (q_ID q)) (\<lambda>_.
     bindC (ignoreC (RecordEvent E ctx ''QUEUE_PURGED'' (uuid_string E (q_ID q)) ''QUEUE'' [])) (\<lambda>_.
     ignoreC (Log E ctx (q_UserID q) ''queue.purge'' ''queue'' (uuid_string E (q_ID q)) []))))"

section \<open>Facts\<close>

text \<open>The message returned for a row by the \<open>k\<close>-th generated identifier, and the effect of a poll on the table.\<close>

definition deliver :: "env \<Rightarrow> time \<Rightarrow> int \<Rightarrow> Message \<Rightarrow> nat \<Rightarrow> Message" where
  "deliver E now timeout row k = row\<lparr>msg_ReceiptHandle := uuid_string E (uuid_at E k), msg_VisibleAt := now + timeout * Second,
     msg_ReceivedCount := msg_ReceivedCount row + 1\<rparr>"

lemma deliver_simps [simp]:
  "msg_ID (deliver E now t r k) = msg_ID r" "msg_QueueID (deliver E now t r k) = msg_QueueID r"
  "msg_Body (deliver E now t r k) = msg_Body r" "msg_VisibleAt (deliver E now t r k) = now + t * Second"
  "msg_ReceivedCount (deliver E now t r k) = msg_ReceivedCount r + 1"
  "msg_ReceiptHandle (deliver E now t r k) = uuid_string E (uuid_at E k)"
  by (simp_all add: deliver_def)

primrec delivered :: "env \<Rightarrow> time \<Rightarrow> int \<Rightarrow> Message list \<Rightarrow> nat \<Rightarrow> Message list" where
  "delivered E now timeout [] k = []"
| "delivered E now timeout (row # rows) k = deliver E now timeout row k # delivered E now timeout rows (Suc k)"

lemma map_msg_ID_delivered [simp]: "map msg_ID (delivered E now t rows k) = map msg_ID rows"
  by (induction rows arbitrary: k) auto

lemma length_delivered [simp]: "length (delivered E now t rows k) = length rows"
  by (induction rows arbitrary: k) auto

lemma set_deliveredD: "m \<in> set (delivered E now t rows k) \<Longrightarrow> \<exists>r \<in> set rows. \<exists>j. m = deliver E now t r j \<and> k \<le> j"
  by (induction rows arbitrary: k) (auto, meson Suc_leD)

lemma run_receiveOne: "receiveOne E now t r s = (Ok (deliver E now t r (uuid_ctr s)), s\<lparr>uuid_ctr := Suc (uuid_ctr s)\<rparr>)"
  by (simp add: receiveOne_def deliver_def run)

lemma mapC_receiveOne:
  "mapC rows (receiveOne E now t) s = (Ok (delivered E now t rows (uuid_ctr s)), s\<lparr>uuid_ctr := uuid_ctr s + length rows\<rparr>)"
  by (induction rows arbitrary: s) (simp_all add: run run_receiveOne)

definition stamp :: "Message \<Rightarrow> Message \<Rightarrow> Message" where
  "stamp m r = r\<lparr>msg_ReceiptHandle := msg_ReceiptHandle m, msg_VisibleAt := msg_VisibleAt m, msg_ReceivedCount := msg_ReceivedCount r + 1\<rparr>"

lemma msg_ID_stamp [simp]: "msg_ID (stamp m r) = msg_ID r"
  by (simp add: stamp_def)

lemma ok_markReceived:
  "forC ms markReceived s = (Ok u, s') \<Longrightarrow>
     \<exists>fs. s' = s\<lparr>faults := fs, t_queue_messages := fold (\<lambda>m. upd_where (\<lambda>r. msg_ID r = msg_ID m) (stamp m)) ms (t_queue_messages s)\<rparr>"
proof (induction ms arbitrary: s)
  case Nil
  then show ?case by (auto simp: run intro: exI [of _ "faults s"])
next
  case (Cons m ms)
  then obtain v s1 where "markReceived m s = (Ok v, s1)" and f: "forC ms markReceived s1 = (Ok u, s')"
    by (auto simp: ok_bindC)
  then obtain fs where "s1 = s\<lparr>faults := fs, t_queue_messages := upd_where (\<lambda>r. msg_ID r = msg_ID m) (stamp m) (t_queue_messages s)\<rparr>"
    unfolding markReceived_def stamp_def by (auto simp: ok_bindC ok_returnC dest!: ok_execC)
  with Cons.IH [OF f] show ?case by auto
qed

lemma fold_stamp:
  "distinct (map msg_ID ms) \<Longrightarrow> fold (\<lambda>m. upd_where (\<lambda>r. msg_ID r = msg_ID m) (stamp m)) ms xs =
     map (\<lambda>r. case find (\<lambda>m. msg_ID m = msg_ID r) ms of None \<Rightarrow> r | Some m \<Rightarrow> stamp m r) xs"
proof (induction ms arbitrary: xs)
  case (Cons m ms)
  have "find (\<lambda>x. msg_ID x = msg_ID m) ms = None" using Cons.prems by (simp add: find_None_set) (metis image_eqI)
  then show ?case using Cons by (auto simp: upd_where_def split: option.split)
qed simp

text \<open>The table after a poll: exactly the rows that were delivered are replaced by the messages returned.\<close>

definition replace_by :: "Message list \<Rightarrow> Message list \<Rightarrow> Message list" where
  "replace_by ms = map (\<lambda>r. case find (\<lambda>m. msg_ID m = msg_ID r) ms of None \<Rightarrow> r | Some m \<Rightarrow> m)"

lemma fold_stamp_delivered:
  assumes "distinct (map msg_ID xs)" and "set rows \<subseteq> set xs" and "distinct rows"
  shows "fold (\<lambda>m. upd_where (\<lambda>r. msg_ID r = msg_ID m) (stamp m)) (delivered E now t rows k) xs = replace_by (delivered E now t rows k) xs"
proof -
  let ?ms = "delivered E now t rows k"
  have "inj_on msg_ID (set xs)" using assms(1) by (simp add: distinct_map)
  then have d: "distinct (map msg_ID ?ms)"
    using assms(2,3) by (auto simp: distinct_map intro: inj_on_subset)
  have "stamp m r = m" if "r \<in> set xs" "find (\<lambda>m. msg_ID m = msg_ID r) ?ms = Some m" for r m
  proof -
    have "m \<in> set ?ms" "msg_ID m = msg_ID r" using that(2) by (auto dest: find_Some_set)
    then obtain r0 j where r0: "r0 \<in> set rows" "m = deliver E now t r0 j" by (auto dest: set_deliveredD)
    with \<open>msg_ID m = msg_ID r\<close> assms(1,2) that(1) have "r0 = r" by (auto dest: distinct_key_unique)
    with r0 show ?thesis by (simp add: stamp_def deliver_def)
  qed
  then show ?thesis unfolding fold_stamp [OF d] replace_by_def by (intro map_cong refl) (auto split: option.split)
qed

lemma ReceiveMessages_repo_ok:
  assumes "QueueRepository_ReceiveMessages E q n t s = (Ok ms, s')" and "distinct (map msg_ID (t_queue_messages s))"
  shows "ms = delivered E (clock s) t (take (nat n) (filter (visible q (clock s)) (t_queue_messages s))) (uuid_ctr s) \<and>
    t_queue_messages s' = replace_by ms (t_queue_messages s) \<and> t_queues s' = t_queues s \<and> clock s' = clock s \<and> uuid_ctr s' = uuid_ctr s + length ms"
proof -
  let ?rows = "take (nat n) (filter (visible q (clock s)) (t_queue_messages s))"
  have sub: "set ?rows \<subseteq> set (t_queue_messages s)" by (auto dest: in_set_takeD)
  have d: "distinct ?rows" using assms(2) by (auto simp: distinct_map)
  show ?thesis
    using assms(1) fold_stamp_delivered [OF assms(2) sub d]
    unfolding QueueRepository_ReceiveMessages_def
    by (auto simp: ok_simps run_nowC mapC_receiveOne dest!: ok_txC ok_queryC ok_markReceived)
qed


text \<open>The tables of the service; recording events and audit entries keeps them.\<close>

definition queue_state :: "world \<Rightarrow> time \<times> Queue list \<times> Message list" where
  "queue_state s = (clock s, t_queues s, t_queue_messages s)"

lemma stable_queue_state [simp]: "stable queue_state"
  by (simp add: stable_def queue_state_def)

lemma wp_GetQueue:
  assumes "\<And>e fs. Q (Err e) (s\<lparr>faults := fs\<rparr>)"
    and "\<And>q fs. find (\<lambda>q. q_ID q = i \<and> q_UserID q = UserIDFromContext ctx) (t_queues s) = Some q \<Longrightarrow> q_ID q = i \<Longrightarrow> q_UserID q = UserIDFromContext ctx \<Longrightarrow>
      q \<in> set (t_queues s) \<Longrightarrow> Q (Ok q) (s\<lparr>faults := fs\<rparr>)"
  shows "wp (GetQueue ctx i) Q s"
proof -
  have "Q (Err e) s" for e using assms(1) [of e "faults s"] by simp
  then show ?thesis
    unfolding GetQueue_def QueueRepository_GetByID_def Let_def
    by (auto simp: wps intro!: wp_queryC assms dest: find_Some_set split: option.split)
qed

lemma wp_event_queue: "(\<And>r s'. queue_state s' = queue_state s \<Longrightarrow> Q r s') \<Longrightarrow> wp (RecordEvent E ctx a b c d) Q s"
  by (rule wp_confined [OF keeps_RecordEvent [of queue_state]]) (simp_all add: keeps_def)

lemma wp_Log_queue: "(\<And>r s'. queue_state s' = queue_state s \<Longrightarrow> Q r s') \<Longrightarrow> wp (Log E ctx u a b c d) Q s"
  by (rule wp_confined [OF keeps_Log [of queue_state]]) (simp_all add: keeps_def)

lemma keeps_receive_events:
  "stable f \<Longrightarrow> confined (keeps f) (forC ms (\<lambda>m. bindC (ignoreC (RecordEvent E ctx a (g m) b c)) (\<lambda>_. metricC (h m))))"
  by (intro keeps_intros)

text \<open>A poll, on every path: it fails and leaves the tables, or delivers visible rows of the caller's queue.\<close>

interpretation receive: atomic "QueueRepository_ReceiveMessages E q n t" for E q n t
  unfolding QueueRepository_ReceiveMessages_def by (rule tx.atomic_axioms)

lemma queue_state_core: "core s' = core s \<Longrightarrow> queue_state s' = queue_state s"
  by (simp add: queue_state_def core_eq_iff)

lemma wp_Receive_repo:
  assumes "distinct (map msg_ID (t_queue_messages s))"
    and "\<And>r s'. (\<And>x. r \<noteq> Ok x) \<Longrightarrow> queue_state s' = queue_state s \<Longrightarrow> Q r s'"
    and "\<And>ms s'. ms = delivered E (clock s) t (take (nat n) (filter (visible q (clock s)) (t_queue_messages s))) (uuid_ctr s) \<Longrightarrow>
      queue_state s' = (clock s, t_queues s, replace_by ms (t_queue_messages s)) \<Longrightarrow> Q (Ok ms) s'"
  shows "wp (QueueRepository_ReceiveMessages E q n t) Q s"
proof (rule receive.wp_atomic)
  fix ms s' assume "QueueRepository_ReceiveMessages E q n t s = (Ok ms, s')"
  from ReceiveMessages_repo_ok [OF this assms(1)] show "Q (Ok ms) s'" by (intro assms(3)) (auto simp: queue_state_def)
next
  fix r :: "(error, Message list) outcome" and s' assume "core s' = core s" "\<nexists>x. r = Ok x"
  then show "Q r s'" by (intro assms(2) queue_state_core) auto
qed

lemma wp_receive_events:
  "(\<And>r s'. queue_state s' = queue_state s \<Longrightarrow> Q r s') \<Longrightarrow>
    wp (forC ms (\<lambda>m. bindC (ignoreC (RecordEvent E ctx a (g m) b c)) (\<lambda>_. metricC (h m)))) Q s"
  by (rule wp_confined [OF keeps_receive_events [of queue_state]]) (simp_all add: keeps_def)

lemma ReceiveMessages_paths:
  assumes "distinct (map msg_ID (t_queue_messages s))"
  shows "wp (ReceiveMessages E ctx i n) (\<lambda>r s'. (\<forall>x. r \<noteq> Ok x) \<and> queue_state s' = queue_state s \<or>
    (\<exists>q ms. find (\<lambda>q. q_ID q = i \<and> q_UserID q = UserIDFromContext ctx) (t_queues s) = Some q \<and>
      ms = delivered E (clock s) (q_VisibilityTimeout q) (take (nat (clampMessages n)) (filter (visible i (clock s)) (t_queue_messages s))) (uuid_ctr s) \<and>
      (\<forall>x. r = Ok x \<longrightarrow> x = ms) \<and> queue_state s' = (clock s, t_queues s, replace_by ms (t_queue_messages s)))) s"
  unfolding ReceiveMessages_def
  by (auto simp: wps queue_state_def assms intro!: wp_GetQueue wp_Receive_repo wp_receive_events split: outcome.splits)

section \<open>Sequences of operations\<close>

text \<open>Any interleaving of calls by any tenants and of time passing.\<close>

datatype queue_op =
    OCreate ctx string "CreateQueueOptions option"
  | ODeleteQueue ctx uuid
  | OSend ctx uuid string
  | OReceive ctx uuid int
  | ODelete ctx uuid string
  | OPurge ctx uuid
  | OTick time

fun queue_exec :: "env \<Rightarrow> queue_op \<Rightarrow> world \<Rightarrow> world" where
  "queue_exec E (OCreate c n opts) s = snd (CreateQueue E c n opts s)"
| "queue_exec E (ODeleteQueue c i) s = snd (DeleteQueue E c i s)"
| "queue_exec E (OSend c i b) s = snd (SendMessage E c i b s)"
| "queue_exec E (OReceive c i n) s = snd (ReceiveMessages E c i n s)"
| "queue_exec E (ODelete c i h) s = snd (DeleteMessage E c i h s)"
| "queue_exec E (OPurge c i) s = snd (PurgeQueue E c i s)"
| "queue_exec E (OTick t) s = (if clock s \<le> t then s\<lparr>clock := t\<rparr> else s)"

definition queue_run :: "env \<Rightarrow> queue_op list \<Rightarrow> world \<Rightarrow> world" where
  "queue_run E ops = fold (queue_exec E) ops"

lemma queue_run_simps [simp]: "queue_run E [] s = s" "queue_run E (x # ops) s = queue_run E ops (queue_exec E x s)"
  by (simp_all add: queue_run_def)

lemma later_GetQueue [late]: "confined later (GetQueue ctx i)"
  unfolding GetQueue_def QueueRepository_GetByID_def by (intro later_intros)

lemma later_queue_exec: "later s (queue_exec E x s)"
proof -
  have "confined later (CreateQueue E c n opts)" for c n opts
    unfolding CreateQueue_def QueueRepository_Create_def QueueRepository_GetByName_def by (intro later_intros late) simp
  moreover have "confined later (DeleteQueue E c i)" for c i
    unfolding DeleteQueue_def QueueRepository_Delete_def by (intro later_intros late) simp
  moreover have "confined later (SendMessage E c i b)" for c i b
    unfolding SendMessage_def QueueRepository_SendMessage_def by (intro later_intros late) simp_all
  moreover have "confined later (ReceiveMessages E c i n)" for c i n
    unfolding ReceiveMessages_def QueueRepository_ReceiveMessages_def receiveOne_def markReceived_def by (intro later_intros late) simp
  moreover have "confined later (DeleteMessage E c i h)" for c i h
    unfolding DeleteMessage_def QueueRepository_DeleteMessage_def by (intro later_intros late) simp
  moreover have "confined later (PurgeQueue E c i)" for c i
    unfolding PurgeQueue_def QueueRepository_PurgeMessages_def by (intro later_intros late) simp
  ultimately show ?thesis by (cases x) (auto simp: confined_def later_def)
qed

text \<open>What each call may do to the messages.\<close>

lemma SendMessage_paths:
  "wp (SendMessage E ctx i b) (\<lambda>r s'. (\<forall>x. r \<noteq> Ok x) \<and> queue_state s' = queue_state s \<or>
     (\<exists>m. msg_ID m = uuid_at E (uuid_ctr s) \<and> msg_ID m \<notin> msg_ID ` set (t_queue_messages s) \<and> msg_QueueID m = i \<and> msg_Body m = b \<and>
        msg_VisibleAt m = clock s \<and> (\<forall>x. r = Ok x \<longrightarrow> x = m) \<and> queue_state s' = (clock s, t_queues s, t_queue_messages s @ [m]))) s"
  unfolding SendMessage_def QueueRepository_SendMessage_def Let_def
  by (auto simp: wps wp_nowC wp_newUUID wp_metricC queue_state_def Second_def intro!: wp_GetQueue wp_insertC wp_event_queue split: outcome.splits if_splits)

lemma keeps_CreateQueue_messages: "t_queue_messages (snd (CreateQueue E c n opts s)) = t_queue_messages s \<and> clock (snd (CreateQueue E c n opts s)) = clock s"
proof -
  have "confined (keeps (\<lambda>s. (t_queue_messages s, clock s))) (CreateQueue E c n opts)"
    unfolding CreateQueue_def QueueRepository_Create_def QueueRepository_GetByName_def by (intro keeps_intros) (simp_all add: stable_def)
  from confinedD [OF this, of s] show ?thesis by (simp add: keeps_def)
qed

definition shrunk :: "world \<Rightarrow> world \<Rightarrow> bool" where
  "shrunk s s' \<longleftrightarrow> clock s' = clock s \<and> (\<exists>P. t_queue_messages s' = filter P (t_queue_messages s))"

lemma shrunkI: "clock s' = clock s \<Longrightarrow> t_queue_messages s' = filter P (t_queue_messages s) \<Longrightarrow> shrunk s s'"
  unfolding shrunk_def by blast

lemma shrunk_same: "clock s' = clock s \<Longrightarrow> t_queue_messages s' = t_queue_messages s \<Longrightarrow> shrunk s s'"
  by (rule shrunkI [where P = "\<lambda>_. True"]) simp_all

interpretation shrunk: frame_rel shrunk
proof
  show "shrunk s s" for s by (rule shrunk_same) simp_all
  show "shrunk s u" if st: "shrunk s t" and tu: "shrunk t u" for s t u
  proof -
    obtain P where "t_queue_messages t = filter P (t_queue_messages s)" "clock t = clock s" using st by (auto simp: shrunk_def)
    moreover obtain P' where "t_queue_messages u = filter P' (t_queue_messages t)" "clock u = clock t" using tu by (auto simp: shrunk_def)
    ultimately show ?thesis by (intro shrunkI [where P = "\<lambda>x. P x \<and> P' x"]) (simp_all add: conj_commute)
  qed
qed

lemma shrunk_keeps: "confined (keeps queue_state) m \<Longrightarrow> confined shrunk m"
  by (auto simp: confined_def keeps_def queue_state_def intro!: shrunk_same)

lemma shrunk_extC: "confined shrunk m \<Longrightarrow> confined shrunk (extC m)"
proof (rule confinedI)
  fix s assume m: "confined shrunk m"
  have "shrunk (s\<lparr>faults := fs\<rparr>) (snd (m (s\<lparr>faults := fs\<rparr>)))" for fs using m by (rule confinedD)
  then have "shrunk s (snd (m (s\<lparr>faults := fs\<rparr>)))" for fs by (simp add: shrunk_def)
  moreover have "shrunk s (snd (m s))" using m by (rule confinedD)
  ultimately show "shrunk s (snd (extC m s))" by (auto simp: extC_def shrunk_same split: list.split option.split)
qed

lemma shrunk_execC: "(\<And>s. shrunk s (f s)) \<Longrightarrow> confined shrunk (execC viol n f)"
  unfolding execC_def by (rule shrunk_extC) (auto simp: confined_def shrunk_same split: option.split)

lemma shrunk_calls:
  "confined shrunk (GetQueue ctx i)" "confined shrunk (RecordEvent E ctx a b c d)" "confined shrunk (Log E ctx u a' b' c' d')" "confined shrunk (metricC x)"
  unfolding GetQueue_def QueueRepository_GetByID_def by (rule shrunk_keeps, intro keeps_intros keep; simp)+

lemma removals:
  "confined shrunk (DeleteQueue E c i)" "confined shrunk (DeleteMessage E c i h)" "confined shrunk (PurgeQueue E c i)"
  unfolding DeleteQueue_def QueueRepository_Delete_def DeleteMessage_def QueueRepository_DeleteMessage_def PurgeQueue_def
    QueueRepository_PurgeMessages_def
  by (intro shrunk.fr_intros shrunk_execC shrunk_calls; auto intro: shrunkI shrunk_same)+

text \<open>A message that is in flight stays hidden from every poll until its timeout.\<close>

definition hidden :: "uuid \<Rightarrow> time \<Rightarrow> world \<Rightarrow> bool" where
  "hidden i t s \<longleftrightarrow> distinct (map msg_ID (t_queue_messages s)) \<and> clock s < t \<and> (\<forall>m \<in> set (t_queue_messages s). msg_ID m = i \<longrightarrow> t \<le> msg_VisibleAt m)"

fun tick_before :: "time \<Rightarrow> queue_op \<Rightarrow> bool" where
  "tick_before t (OTick t') \<longleftrightarrow> t' < t"
| "tick_before t _ \<longleftrightarrow> True"

lemma map_msg_ID_replace_by [simp]: "map msg_ID (replace_by ms xs) = map msg_ID xs"
  by (auto simp: replace_by_def dest: find_Some_set split: option.split)

lemma set_replace_byD: "m \<in> set (replace_by ms xs) \<Longrightarrow> m \<in> set ms \<or> m \<in> set xs"
  by (auto simp: replace_by_def dest: find_Some_set split: option.splits)

lemma hidden_shrunk: "hidden i t s \<Longrightarrow> shrunk s s' \<Longrightarrow> hidden i t s'"
  by (auto simp: hidden_def shrunk_def distinct_map_filterI)

lemma hidden_not_delivered:
  assumes "hidden i t s" and "m \<in> set (delivered E (clock s) v (take n (filter (visible q (clock s)) (t_queue_messages s))) k)"
  shows "msg_ID m \<noteq> i"
proof -
  obtain r j where "r \<in> set (take n (filter (visible q (clock s)) (t_queue_messages s)))" "m = deliver E (clock s) v r j"
    using assms(2) by (auto dest: set_deliveredD)
  then have "r \<in> set (t_queue_messages s)" "msg_VisibleAt r \<le> clock s" "msg_ID m = msg_ID r"
    by (auto simp: visible_def dest!: in_set_takeD)
  with assms(1) show ?thesis by (auto simp: hidden_def)
qed

lemma hidden_exec:
  assumes "hidden i t s" and "tick_before t x" and "uuid_at E (uuid_ctr s) \<noteq> i"
  shows "hidden i t (queue_exec E x s)"
proof (cases x)
  case (OCreate c n opts)
  with assms(1) keeps_CreateQueue_messages [of E c n opts s] show ?thesis by (simp add: hidden_def)
next
  case (ODeleteQueue c q)
  with assms(1) confinedD [OF removals(1) [of E c q], of s] show ?thesis by (auto intro: hidden_shrunk)
next
  case (OSend c q b)
  with assms SendMessage_paths [of E c q b s] show ?thesis by (auto simp: wp_def hidden_def queue_state_def)
next
  case (OReceive c q n)
  have d: "distinct (map msg_ID (t_queue_messages s))" using assms(1) by (simp add: hidden_def)
  from ReceiveMessages_paths [OF d, of E c q n] OReceive assms(1) show ?thesis
    by (auto simp: wp_def queue_state_def hidden_def dest!: set_replace_byD dest: hidden_not_delivered [OF assms(1)])
next
  case (ODelete c q h)
  with assms(1) confinedD [OF removals(2) [of E c q h], of s] show ?thesis by (auto intro: hidden_shrunk)
next
  case (OPurge c q)
  with assms(1) confinedD [OF removals(3) [of E c q], of s] show ?thesis by (auto intro: hidden_shrunk)
next
  case (OTick t')
  with assms show ?thesis by (auto simp: hidden_def)
qed

lemma hidden_run:
  "hidden i t s \<Longrightarrow> \<forall>x \<in> set ops. tick_before t x \<Longrightarrow> \<forall>k \<ge> uuid_ctr s. uuid_at E k \<noteq> i \<Longrightarrow> hidden i t (queue_run E ops s)"
proof (induction ops arbitrary: s)
  case (Cons x ops)
  have "uuid_ctr s \<le> uuid_ctr (queue_exec E x s)" using later_queue_exec [of s E x] by (simp add: later_def)
  with Cons.prems(3) have "\<forall>k \<ge> uuid_ctr (queue_exec E x s). uuid_at E k \<noteq> i" by auto
  moreover have "hidden i t (queue_exec E x s)" using Cons.prems by (intro hidden_exec) auto
  ultimately show ?case using Cons by simp
qed simp

lemma ReceiveMessages_ok:
  assumes "ReceiveMessages E ctx i n s = (Ok ms, s')" and "distinct (map msg_ID (t_queue_messages s))"
  shows "\<exists>q. find (\<lambda>q. q_ID q = i \<and> q_UserID q = UserIDFromContext ctx) (t_queues s) = Some q \<and>
      ms = delivered E (clock s) (q_VisibilityTimeout q) (take (nat (clampMessages n)) (filter (visible i (clock s)) (t_queue_messages s))) (uuid_ctr s) \<and>
      queue_state s' = (clock s, t_queues s, replace_by ms (t_queue_messages s))"
  using ReceiveMessages_paths [OF assms(2), of E ctx i n] assms(1) by (auto simp: wp_def)

lemma clampMessages_bounds: "1 \<le> clampMessages n \<and> clampMessages n \<le> 10"
  by (simp add: clampMessages_def)

lemma in_replace_by:
  assumes "distinct (map msg_ID xs)" and "distinct (map msg_ID ms)" and "msg_ID ` set ms \<subseteq> msg_ID ` set xs"
  shows "m \<in> set ms \<Longrightarrow> m \<in> set (replace_by ms xs)"
proof -
  assume m: "m \<in> set ms"
  then obtain r where r: "r \<in> set xs" "msg_ID r = msg_ID m" using assms(3) by auto
  have "find (\<lambda>x. msg_ID x = msg_ID r) ms = Some m" unfolding r(2) using m assms(2) by (rule distinct_key_find [rotated])
  then show ?thesis using r(1) by (force simp: replace_by_def)
qed

lemma delivered_ids:
  assumes "distinct (map msg_ID xs)"
  shows "distinct (map msg_ID (delivered E now v (take n (filter P xs)) k)) \<and> msg_ID ` set (delivered E now v (take n (filter P xs)) k) \<subseteq> msg_ID ` set xs"
proof
  have "distinct (map msg_ID (filter P xs))" using assms by (rule distinct_map_filterI)
  then show "distinct (map msg_ID (delivered E now v (take n (filter P xs)) k))" by (simp add: take_map [symmetric])
  show "msg_ID ` set (delivered E now v (take n (filter P xs)) k) \<subseteq> msg_ID ` set xs"
    by (auto dest!: set_deliveredD in_set_takeD)
qed

fun destructive :: "queue_op \<Rightarrow> bool" where
  "destructive (ODeleteQueue c i) \<longleftrightarrow> True"
| "destructive (ODelete c i h) \<longleftrightarrow> True"
| "destructive (OPurge c i) \<longleftrightarrow> True"
| "destructive _ \<longleftrightarrow> False"

lemma survives_exec:
  assumes "distinct (map msg_ID (t_queue_messages s))" and "m \<in> set (t_queue_messages s)" and "\<not> destructive x"
  shows "distinct (map msg_ID (t_queue_messages (queue_exec E x s))) \<and>
    (\<exists>m' \<in> set (t_queue_messages (queue_exec E x s)). msg_ID m' = msg_ID m \<and> msg_QueueID m' = msg_QueueID m \<and> msg_Body m' = msg_Body m)"
proof (cases x)
  case (OCreate c n opts)
  with assms keeps_CreateQueue_messages [of E c n opts s] show ?thesis by auto
next
  case (OSend c q b)
  with assms SendMessage_paths [of E c q b s] show ?thesis by (auto simp: wp_def queue_state_def)
next
  case (OReceive c q n)
  have "\<exists>m' \<in> set (replace_by (delivered E now v (take k (filter P (t_queue_messages s))) j) (t_queue_messages s)).
      msg_ID m' = msg_ID m \<and> msg_QueueID m' = msg_QueueID m \<and> msg_Body m' = msg_Body m" for now v k P j
  proof (cases "find (\<lambda>x. msg_ID x = msg_ID m) (delivered E now v (take k (filter P (t_queue_messages s))) j)")
    case None
    with assms(2) show ?thesis by (force simp: replace_by_def)
  next
    case (Some m')
    then obtain r l where "r \<in> set (t_queue_messages s)" "m' = deliver E now v r l" "msg_ID r = msg_ID m"
      by (auto dest!: find_Some_set set_deliveredD in_set_takeD)
    moreover from this assms(1,2) have "r = m" by (auto dest: distinct_key_unique)
    ultimately show ?thesis using Some assms(2) by (force simp: replace_by_def)
  qed
  with ReceiveMessages_paths [OF assms(1), of E c q n] OReceive assms show ?thesis by (auto simp: wp_def queue_state_def)
next
  case (OTick t')
  with assms show ?thesis by auto
qed (use assms(3) in simp_all)

text \<open>Recording an event never panics, so ignoring its error always goes on.\<close>

lemma wp_ignore_RecordEvent_ok:
  "(\<And>s'. queue_state s' = queue_state s \<Longrightarrow> Q (Ok ()) s') \<Longrightarrow> wp (ignoreC (RecordEvent E ctx a b c d)) Q s"
  unfolding RecordEvent_def EventRepository_Create_def wp_ignoreC
  by (auto simp: wps wpnf(1,2) queue_state_def intro!: wp_insertC)

text \<open>Isolation: a call for a queue the caller does not own stops at the lookup, any other call changes rows of
  its own queue only.\<close>

abbreviation in_queue :: "uuid \<Rightarrow> world \<Rightarrow> Message list" where
  "in_queue i s \<equiv> filter (\<lambda>m. msg_QueueID m = i) (t_queue_messages s)"

lemma foreign_stop:
  "find (\<lambda>q. q_ID q = i \<and> q_UserID q = UserIDFromContext ctx) (t_queues s) = None \<Longrightarrow> queue_state (snd (bindC (GetQueue ctx i) f s)) = queue_state s"
  using wp_GetQueue [where Q = "\<lambda>r s'. (\<forall>x. r \<noteq> Ok x) \<and> queue_state s' = queue_state s" and s = s and i = i and ctx = ctx]
  by (auto simp: wp_def run_bindC queue_state_def split: outcome.splits)

lemma foreign_queue:
  assumes "find (\<lambda>q. q_ID q = i \<and> q_UserID q = UserIDFromContext ctx) (t_queues s) = None"
    and "x \<in> {ODeleteQueue ctx i, OSend ctx i body, OReceive ctx i n, ODelete ctx i h, OPurge ctx i}"
  shows "queue_state (queue_exec E x s) = queue_state s"
  using assms(2)
  by (auto simp: foreign_stop [OF assms(1)] DeleteQueue_def SendMessage_def ReceiveMessages_def DeleteMessage_def PurgeQueue_def)

text \<open>What belongs to one queue.\<close>

definition queue_view :: "uuid \<Rightarrow> world \<Rightarrow> Queue list \<times> Message list" where
  "queue_view j s = (filter (\<lambda>q. q_ID q = j) (t_queues s), filter (\<lambda>m. msg_QueueID m = j) (t_queue_messages s))"

lemma stable_queue_view [simp]: "stable (queue_view j)"
  by (simp add: stable_def queue_view_def)

lemma keeps_GetQueue [keep]: "stable f \<Longrightarrow> confined (keeps f) (GetQueue ctx i)"
  unfolding GetQueue_def QueueRepository_GetByID_def by (intro keeps_intros)

lemma GetQueue_ID: "GetQueue ctx i s = (Ok q, s') \<Longrightarrow> q_ID q = i"
  using wp_GetQueue [where Q = "\<lambda>r s'. \<forall>q. r = Ok q \<longrightarrow> q_ID q = i" and s = s and i = i and ctx = ctx] by (simp add: wp_def)

lemma queue_view_bind:
  "(\<And>q. q_ID q = i \<Longrightarrow> confined (keeps (queue_view j)) (g q)) \<Longrightarrow> confined (keeps (queue_view j)) (bindC (GetQueue ctx i) g)"
  by (rule keeps.fr_bind_ok) (auto intro!: keep dest: GetQueue_ID)

lemma queue_view_other:
  assumes "i \<noteq> j"
  shows "confined (keeps (queue_view j)) (DeleteQueue E ctx i)" "confined (keeps (queue_view j)) (SendMessage E ctx i b)"
    "confined (keeps (queue_view j)) (DeleteMessage E ctx i h)" "confined (keeps (queue_view j)) (PurgeQueue E ctx i)"
  unfolding DeleteQueue_def SendMessage_def DeleteMessage_def PurgeQueue_def QueueRepository_Delete_def QueueRepository_SendMessage_def
    QueueRepository_DeleteMessage_def QueueRepository_PurgeMessages_def
  using assms by (intro queue_view_bind keeps_intros keep; auto simp: queue_view_def intro!: filter_cong)+

lemma queue_view_receive:
  assumes "i \<noteq> j" and "distinct (map msg_ID (t_queue_messages s))"
  shows "queue_view j (snd (ReceiveMessages E ctx i n s)) = queue_view j s"
proof -
  have "filter (\<lambda>m. msg_QueueID m = j) (replace_by (delivered E now v (take k (filter (visible i t) (t_queue_messages s))) l) (t_queue_messages s)) =
      filter (\<lambda>m. msg_QueueID m = j) (t_queue_messages s)" for now v k t l
  proof -
    let ?ms = "delivered E now v (take k (filter (visible i t) (t_queue_messages s))) l"
    have own: "(case find (\<lambda>m. msg_ID m = msg_ID r) ?ms of None \<Rightarrow> r | Some m \<Rightarrow> m) = r \<or>
        msg_QueueID r = i \<and> msg_QueueID (case find (\<lambda>m. msg_ID m = msg_ID r) ?ms of None \<Rightarrow> r | Some m \<Rightarrow> m) = i" if r: "r \<in> set (t_queue_messages s)" for r
    proof (cases "find (\<lambda>m. msg_ID m = msg_ID r) ?ms")
      case (Some m)
      then obtain r' x where "r' \<in> set (t_queue_messages s)" "m = deliver E now v r' x" "msg_ID r' = msg_ID r" "msg_QueueID r' = i"
        by (auto simp: visible_def dest!: find_Some_set set_deliveredD in_set_takeD)
      moreover from this r assms(2) have "r' = r" by (auto dest: distinct_key_unique)
      ultimately show ?thesis using Some by simp
    qed simp
    show ?thesis unfolding replace_by_def
    proof (rule filter_map_other)
      fix r assume "r \<in> set (t_queue_messages s)"
      from own [OF this] assms(1) show "(case find (\<lambda>m. msg_ID m = msg_ID r) ?ms of None \<Rightarrow> r | Some m \<Rightarrow> m) = r \<or>
        msg_QueueID r \<noteq> j \<and> msg_QueueID (case find (\<lambda>m. msg_ID m = msg_ID r) ?ms of None \<Rightarrow> r | Some m \<Rightarrow> m) \<noteq> j" by (elim disjE) simp_all
    qed
  qed
  with ReceiveMessages_paths [OF assms(2), of E ctx i n] show ?thesis by (auto simp: wp_def queue_state_def queue_view_def)
qed

lemma queue_view_create:
  assumes "q \<in> set (t_queues s)" shows "q \<in> set (t_queues (snd (CreateQueue E ctx n opts s)))"
proof -
  have "wp (CreateQueue E ctx n opts) (\<lambda>r s'. set (t_queues s) \<subseteq> set (t_queues s')) s"
    unfolding CreateQueue_def QueueRepository_Create_def QueueRepository_GetByName_def Let_def
    by (auto simp: wps wp_nowC wp_newUUID queue_state_def intro!: wp_queryC wp_insertC wp_event_queue wp_Log_queue split: outcome.splits)
  with assms show ?thesis by (auto simp: wp_def)
qed

section \<open>Properties\<close>

text \<open>A poll returns between one and ten messages' worth of the request: as many visible messages of the
  caller's queue as there are, up to the requested number, with their bodies, each hidden from now on
  for the queue's visibility timeout under the receipt handle returned for it; no other message changes.\<close>

theorem ReceiveMessages_delivers:
  assumes "ReceiveMessages E ctx i n s = (Ok ms, s')" and "distinct (map msg_ID (t_queue_messages s))"
  shows "\<exists>q \<in> set (t_queues s). q_ID q = i \<and> q_UserID q = UserIDFromContext ctx \<and>
    length ms = min (nat (clampMessages n)) (length (filter (visible i (clock s)) (t_queue_messages s))) \<and> length ms \<le> 10 \<and>
    (\<forall>m \<in> set ms. m \<in> set (t_queue_messages s') \<and> msg_VisibleAt m = clock s + q_VisibilityTimeout q * Second \<and>
      (\<exists>row \<in> set (t_queue_messages s). visible i (clock s) row \<and> msg_ID m = msg_ID row \<and> msg_Body m = msg_Body row \<and>
         msg_ReceivedCount m = msg_ReceivedCount row + 1)) \<and>
    t_queue_messages s' = map (\<lambda>r. case find (\<lambda>m. msg_ID m = msg_ID r) ms of None \<Rightarrow> r | Some m \<Rightarrow> m) (t_queue_messages s)"
proof -
  obtain q where q: "find (\<lambda>q. q_ID q = i \<and> q_UserID q = UserIDFromContext ctx) (t_queues s) = Some q"
    and ms: "ms = delivered E (clock s) (q_VisibilityTimeout q) (take (nat (clampMessages n)) (filter (visible i (clock s)) (t_queue_messages s))) (uuid_ctr s)"
    and s': "t_queue_messages s' = replace_by ms (t_queue_messages s)"
    using ReceiveMessages_ok [OF assms] by (auto simp: queue_state_def)
  have "length ms = min (nat (clampMessages n)) (length (filter (visible i (clock s)) (t_queue_messages s)))"
    unfolding ms by (simp add: min.commute)
  moreover from this have "length ms \<le> 10" using clampMessages_bounds [of n] by linarith
  moreover have "\<forall>m \<in> set ms. msg_VisibleAt m = clock s + q_VisibilityTimeout q * Second \<and>
      (\<exists>row \<in> set (t_queue_messages s). visible i (clock s) row \<and> msg_ID m = msg_ID row \<and> msg_Body m = msg_Body row \<and>
         msg_ReceivedCount m = msg_ReceivedCount row + 1)"
    unfolding ms by (force dest!: set_deliveredD in_set_takeD)
  moreover have "\<forall>m \<in> set ms. m \<in> set (t_queue_messages s')"
    unfolding s' using in_replace_by [OF assms(2)] delivered_ids [OF assms(2)] unfolding ms by blast
  ultimately show ?thesis using q s' by (auto simp: replace_by_def dest!: find_Some_set)
qed

text \<open>C2. No message is delivered twice within its visibility timeout: after a poll returned a message, no poll
  by anyone, after any interleaving of operations on the queues and as long as the clock is before the
  end of the timeout, returns a message with its identifier.\<close>

theorem no_double_delivery:
  assumes "ReceiveMessages E ctx i n s = (Ok ms, s1)" and "distinct (map msg_ID (t_queue_messages s))" and "m \<in> set ms"
    and "clock s < msg_VisibleAt m" and "\<forall>x \<in> set ops. tick_before (msg_VisibleAt m) x"
    and "\<forall>k \<ge> uuid_ctr s1. uuid_at E k \<noteq> msg_ID m"
    and "ReceiveMessages E ctx' i' n' (queue_run E ops s1) = (Ok ms', s2)"
  shows "msg_ID m \<notin> msg_ID ` set ms'"
proof -
  obtain q where "find (\<lambda>q. q_ID q = i \<and> q_UserID q = UserIDFromContext ctx) (t_queues s) = Some q"
    and ms: "ms = delivered E (clock s) (q_VisibilityTimeout q) (take (nat (clampMessages n)) (filter (visible i (clock s)) (t_queue_messages s))) (uuid_ctr s)"
    and s1: "t_queue_messages s1 = replace_by ms (t_queue_messages s)" "clock s1 = clock s"
    using ReceiveMessages_ok [OF assms(1,2)] by (auto simp: queue_state_def)
  have d: "distinct (map msg_ID (t_queue_messages s1))" using assms(2) by (simp add: s1)
  have "m \<in> set (t_queue_messages s1)"
    unfolding s1 using in_replace_by [OF assms(2)] delivered_ids [OF assms(2)] assms(3) unfolding ms by blast
  then have "hidden (msg_ID m) (msg_VisibleAt m) s1"
    using d assms(4) s1(2) by (auto simp: hidden_def dest: distinct_key_unique)
  then have h: "hidden (msg_ID m) (msg_VisibleAt m) (queue_run E ops s1)" using assms(5,6) by (intro hidden_run)
  then have d': "distinct (map msg_ID (t_queue_messages (queue_run E ops s1)))" by (simp add: hidden_def)
  from ReceiveMessages_ok [OF assms(7) d'] show ?thesis by (auto dest: hidden_not_delivered [OF h])
qed

text \<open>C13. Only acknowledging, purging or deleting the queue removes messages: a message stays in its queue, with its body, through any sequence of sends, polls
  and queue creations by anyone and any passing of time. This includes time beyond the retention period that the queue carries: no operation and no
  worker enforces \<^verbatim>\<open>retention_days\<close>.\<close>

theorem unacknowledged_message_survives:
  assumes "distinct (map msg_ID (t_queue_messages s))" and "m \<in> set (t_queue_messages s)" and "\<forall>x \<in> set ops. \<not> destructive x"
  shows "\<exists>m' \<in> set (t_queue_messages (queue_run E ops s)). msg_ID m' = msg_ID m \<and> msg_QueueID m' = msg_QueueID m \<and> msg_Body m' = msg_Body m"
  using assms
proof (induction ops arbitrary: s m)
  case (Cons x ops)
  obtain m1 where "distinct (map msg_ID (t_queue_messages (queue_exec E x s)))" "m1 \<in> set (t_queue_messages (queue_exec E x s))"
      "msg_ID m1 = msg_ID m" "msg_QueueID m1 = msg_QueueID m" "msg_Body m1 = msg_Body m"
    using survives_exec [OF Cons.prems(1,2), of x E] Cons.prems(3) by auto
  with Cons.IH [of "queue_exec E x s" m1] Cons.prems(3) show ?case by auto
qed auto


text \<open>Acknowledging is exact: a deletion that reports success removed the messages of the caller's queue that
  carry the receipt handle, at least one, and nothing else; in particular a handle that was replaced by
  a later delivery is refused, and a refused deletion changes no message.\<close>

theorem DeleteMessage_exact:
  "case DeleteMessage E ctx i h s of (r, s') \<Rightarrow>
     let P = (\<lambda>m. msg_QueueID m = i \<and> msg_ReceiptHandle m \<noteq> [] \<and> msg_ReceiptHandle m = h) in
     if (\<exists>m \<in> set (t_queue_messages s). P m) \<and> (\<nexists>e. r = Err e) then
       t_queue_messages s' = filter (\<lambda>m. \<not> P m) (t_queue_messages s) \<and> (\<exists>q \<in> set (t_queues s). q_ID q = i \<and> q_UserID q = UserIDFromContext ctx)
     else t_queue_messages s' = t_queue_messages s \<and> (\<exists>e. r = Err e)"
proof -
  have "wp (DeleteMessage E ctx i h) (\<lambda>r s'. let P = (\<lambda>m. msg_QueueID m = i \<and> msg_ReceiptHandle m \<noteq> [] \<and> msg_ReceiptHandle m = h) in
     if (\<exists>m \<in> set (t_queue_messages s). P m) \<and> (\<nexists>e. r = Err e) then
       t_queue_messages s' = filter (\<lambda>m. \<not> P m) (t_queue_messages s) \<and> (\<exists>q \<in> set (t_queues s). q_ID q = i \<and> q_UserID q = UserIDFromContext ctx)
     else t_queue_messages s' = t_queue_messages s \<and> (\<exists>e. r = Err e)) s"
    unfolding DeleteMessage_def QueueRepository_DeleteMessage_def Let_def
    by (auto simp: wps wp_metricC rows_simps queue_state_def intro!: wp_GetQueue wp_execC wp_event_queue wp_ignore_RecordEvent_ok simp del: wp_ignoreC split: outcome.splits)
  then show ?thesis unfolding wp_def by (cases "DeleteMessage E ctx i h s") (simp only: prod.case fst_conv snd_conv)
qed

text \<open>C14. Tenant isolation of the queue service: whatever a caller does with the service, the queue of another tenant
  and the messages in it stay as they are.\<close>

theorem queue_service_isolation:
  assumes "distinct (map q_ID (t_queues s))" and "distinct (map msg_ID (t_queue_messages s))" and "q \<in> set (t_queues s)"
    and "q_UserID q \<noteq> UserIDFromContext ctx"
    and "x \<in> {OCreate ctx name opts, ODeleteQueue ctx i, OSend ctx i body, OReceive ctx i n, ODelete ctx i h, OPurge ctx i}"
  shows "q \<in> set (t_queues (queue_exec E x s)) \<and>
    filter (\<lambda>m. msg_QueueID m = q_ID q) (t_queue_messages (queue_exec E x s)) = filter (\<lambda>m. msg_QueueID m = q_ID q) (t_queue_messages s)"
proof (cases "i = q_ID q")
  case True
  then have "find (\<lambda>q. q_ID q = i \<and> q_UserID q = UserIDFromContext ctx) (t_queues s) = None"
    using assms(1,3,4) by (auto simp: find_None_set dest: distinct_key_unique)
  then show ?thesis
    using assms(3,5) foreign_queue [of i ctx s x body n h E] keeps_CreateQueue_messages [of E ctx name opts s] queue_view_create [OF assms(3)]
    by (auto simp: queue_state_def)
next
  case False
  have view: "q \<in> set (t_queues s') \<and> filter (\<lambda>m. msg_QueueID m = q_ID q) (t_queue_messages s') = filter (\<lambda>m. msg_QueueID m = q_ID q) (t_queue_messages s)"
    if "queue_view (q_ID q) s' = queue_view (q_ID q) s" for s'
  proof -
    have "q \<in> set (filter (\<lambda>x. q_ID x = q_ID q) (t_queues s))" using assms(3) by simp
    also have "filter (\<lambda>x. q_ID x = q_ID q) (t_queues s) = filter (\<lambda>x. q_ID x = q_ID q) (t_queues s')"
      using that by (simp add: queue_view_def)
    finally have "q \<in> set (t_queues s')" by simp
    with that show ?thesis by (simp add: queue_view_def)
  qed
  have c: "queue_view (q_ID q) (snd (DeleteQueue E ctx i s)) = queue_view (q_ID q) s"
    "queue_view (q_ID q) (snd (SendMessage E ctx i body s)) = queue_view (q_ID q) s"
    "queue_view (q_ID q) (snd (DeleteMessage E ctx i h s)) = queue_view (q_ID q) s"
    "queue_view (q_ID q) (snd (PurgeQueue E ctx i s)) = queue_view (q_ID q) s"
    using queue_view_other [OF False, THEN confinedD, of s E ctx] unfolding keeps_def by blast+
  then have "queue_view (q_ID q) (queue_exec E y s) = queue_view (q_ID q) s"
      if "y \<in> {ODeleteQueue ctx i, OSend ctx i body, OReceive ctx i n, ODelete ctx i h, OPurge ctx i}" for y
    using that by (elim insertE emptyE) (simp_all only: queue_exec.simps c queue_view_receive [OF False assms(2)])
  note other = this [THEN view]
  show ?thesis
  proof (cases "x = OCreate ctx name opts")
    case True
    then show ?thesis
      using keeps_CreateQueue_messages [of E ctx name opts s] queue_view_create [OF assms(3), of E ctx name opts] by simp
  next
    case False
    with assms(5) show ?thesis by (intro other) blast
  qed
qed

text \<open>Without faults a poll of an own queue succeeds.\<close>

lemma markReceived_nf: "faults s = [] \<Longrightarrow> \<exists>s'. forC ms markReceived s = (Ok (), s') \<and> faults s' = []"
proof (induction ms arbitrary: s)
  case (Cons m ms)
  have "\<exists>s'. markReceived m s = (Ok (), s') \<and> faults s' = []" using Cons.prems by (simp add: markReceived_def run)
  with Cons.IH show ?case by (fastforce simp: run)
qed (simp add: run)

lemma receive_events_nf:
  "faults s = [] \<Longrightarrow> \<exists>s'. forC ms (\<lambda>m. bindC (ignoreC (RecordEvent E ctx a (g m) b c)) (\<lambda>_. metricC (h m))) s = (Ok (), s')"
proof (induction ms arbitrary: s)
  case (Cons m ms)
  have "wp (bindC (ignoreC (RecordEvent E ctx a (g m) b c)) (\<lambda>_. metricC (h m))) (\<lambda>r s'. r = Ok () \<and> faults s' = []) s"
    using Cons.prems by (auto simp: wps wpnf logged_simps simp del: wp_ignoreC intro!: wp_ignore_RecordEvent_nf)
  with Cons.IH show ?case by (simp add: wp_def run_bindC [of "bindC _ _"])
qed (simp add: run)

lemma ReceiveMessages_nf:
  assumes "faults s = []" and "find (\<lambda>q. q_ID q = i \<and> q_UserID q = u) (t_queues s) = Some q" and "u \<noteq> uuid_Nil"
  shows "\<exists>ms s'. ReceiveMessages E (Some u) i n s = (Ok ms, s')"
proof -
  let ?repo = "QueueRepository_ReceiveMessages E (q_ID q) (clampMessages n) (q_VisibilityTimeout q)"
  have "\<exists>ms s'. ?repo s = (Ok ms, s') \<and> faults s' = []"
  proof -
    let ?rows = "take (nat (clampMessages n)) (filter (visible (q_ID q) (clock s)) (t_queue_messages s))"
    let ?ms = "delivered E (clock s) (q_VisibilityTimeout q) ?rows (uuid_ctr s)"
    obtain s1 where s1: "forC ?ms markReceived (s\<lparr>uuid_ctr := uuid_ctr s + length ?rows\<rparr>) = (Ok (), s1)" "faults s1 = []"
      using markReceived_nf [of "s\<lparr>uuid_ctr := uuid_ctr s + length ?rows\<rparr>" ?ms] assms(1) by auto
    have "\<not> clampMessages n < 0" using clampMessages_bounds [of n] by linarith
    with s1 assms(1) show ?thesis
      unfolding QueueRepository_ReceiveMessages_def by (subst txC_nf) (simp_all add: run mapC_receiveOne)
  qed
  moreover have "GetQueue (Some u) i s = (Ok q, s)"
    using assms by (simp add: GetQueue_def QueueRepository_GetByID_def run)
  ultimately show ?thesis
    unfolding ReceiveMessages_def using receive_events_nf by (fastforce simp: ok_bindC ok_returnC)
qed

text \<open>What is sent is received: without faults, a message within the size limit sent to an empty queue of the
  caller is accepted, and the next poll returns exactly this message, with its body.\<close>

theorem Send_Receive_roundtrip:
  assumes "faults s = []" and "find (\<lambda>q. q_ID q = i \<and> q_UserID q = u) (t_queues s) = Some q" and "u \<noteq> uuid_Nil"
    and "int (length body) \<le> q_MaxMessageSize q" and "filter (\<lambda>m. msg_QueueID m = i) (t_queue_messages s) = []"
    and "uuid_at E (uuid_ctr s) \<notin> msg_ID ` set (t_queue_messages s)"
    and "distinct (map msg_ID (t_queue_messages s))"
  shows "\<exists>m s1 m' s2. SendMessage E (Some u) i body s = (Ok m, s1) \<and> ReceiveMessages E (Some u) i n s1 = (Ok [m'], s2) \<and>
    msg_ID m' = msg_ID m \<and> msg_Body m' = body \<and> msg_ReceivedCount m' = 1"
proof -
  have q: "q_ID q = i" "list_ex (\<lambda>q. q_ID q = i) (t_queues s)" using assms(2) by (auto simp: list_ex_iff dest: find_Some_set)
  have "wp (SendMessage E (Some u) i body) (\<lambda>r s1. \<exists>m. r = Ok m \<and> faults s1 = [] \<and> t_queues s1 = t_queues s \<and> clock s1 = clock s \<and>
      msg_QueueID m = i \<and> msg_Body m = body \<and> msg_ReceivedCount m = 0 \<and> msg_VisibleAt m = clock s \<and>
      msg_ID m = uuid_at E (uuid_ctr s) \<and> t_queue_messages s1 = t_queue_messages s @ [m]) s"
    using assms(1-4,6) q
    by (auto simp: SendMessage_def GetQueue_def QueueRepository_GetByID_def QueueRepository_SendMessage_def Let_def wps wpnf logged_simps Second_def
        simp del: wp_ignoreC intro!: wp_ignore_RecordEvent_nf)
  then obtain m s1 where s1: "SendMessage E (Some u) i body s = (Ok m, s1)" "faults s1 = []" "t_queues s1 = t_queues s" "clock s1 = clock s"
      "msg_QueueID m = i" "msg_Body m = body" "msg_ReceivedCount m = 0" "msg_VisibleAt m = clock s"
      "msg_ID m = uuid_at E (uuid_ctr s)" "t_queue_messages s1 = t_queue_messages s @ [m]"
    unfolding wp_def by (metis prod.collapse)
  have d: "distinct (map msg_ID (t_queue_messages s1))" using assms(6,7) s1(9,10) by simp
  have "filter (visible i (clock s1)) (t_queue_messages s) = []"
    using assms(5) by (auto simp: filter_empty_conv visible_def)
  moreover have "nat (clampMessages n) = Suc (nat (clampMessages n - 1))" using clampMessages_bounds [of n] by linarith
  ultimately have rows: "take (nat (clampMessages n)) (filter (visible i (clock s1)) (t_queue_messages s1)) = [m]"
    using s1 by (simp add: visible_def)
  obtain ms s2 where s2: "ReceiveMessages E (Some u) i n s1 = (Ok ms, s2)"
    using ReceiveMessages_nf [of s1 i u q E n] assms(2,3) s1(2,3) by auto
  from ReceiveMessages_ok [OF s2 d] obtain v k where "ms = [deliver E (clock s1) v m k]" by (auto simp: rows)
  with s1 s2 show ?thesis by (intro exI [of _ m] exI [of _ s1] exI [of _ "deliver E (clock s1) v m k"] exI [of _ s2]) simp
qed


definition sample_queue :: Queue where
  "sample_queue = \<lparr>q_ID = 10, q_UserID = 1, q_Name = ''jobs'', q_ARN = [], q_VisibilityTimeout = 30, q_RetentionDays = 4,
     q_MaxMessageSize = 100, q_Status = QueueStatusActive, q_CreatedAt = 0, q_UpdatedAt = 0\<rparr>"

definition sample_message :: Message where
  "sample_message = \<lparr>msg_ID = 20, msg_QueueID = 10, msg_Body = ''job'', msg_ReceiptHandle = [], msg_VisibleAt = 0,
     msg_ReceivedCount = 0, msg_CreatedAt = 0\<rparr>"

lemma sample_queue_simps [simp]:
  "q_ID sample_queue = 10" "q_UserID sample_queue = 1" "q_VisibilityTimeout sample_queue = 30" "q_MaxMessageSize sample_queue = 100"
  "msg_ID sample_message = 20" "msg_QueueID sample_message = 10" "msg_VisibleAt sample_message = 0" "msg_Body sample_message = ''job''"
  by (simp_all add: sample_queue_def sample_message_def)

abbreviation sample_queues :: world where
  "sample_queues \<equiv> sample_world\<lparr>t_queues := [sample_queue], t_queue_messages := [sample_message]\<rparr>"

lemma sample_poll: "\<exists>ms s'. ReceiveMessages E (Some 1) 10 5 sample_queues = (Ok ms, s')"
  by (rule ReceiveMessages_nf) (simp_all add: uuid_Nil_def)

theorem Send_Receive_roundtrip_witness:
  "\<exists>m s1 m' s2. SendMessage sample_env (Some 1) 10 ''job'' (sample_world\<lparr>t_queues := [sample_queue]\<rparr>) = (Ok m, s1) \<and>
    ReceiveMessages sample_env (Some 1) 10 5 s1 = (Ok [m'], s2) \<and> msg_Body m' = ''job''"
  using Send_Receive_roundtrip [of "sample_world\<lparr>t_queues := [sample_queue]\<rparr>" 10 1 sample_queue "''job''" sample_env 5]
  by (auto simp: uuid_Nil_def)

theorem ReceiveMessages_delivers_witness:
  "\<exists>ms s'. ReceiveMessages sample_env (Some 1) 10 5 sample_queues = (Ok ms, s') \<and> length ms = 1"
  using sample_poll ReceiveMessages_delivers [of sample_env "Some 1" 10 5 sample_queues]
  by (fastforce simp: visible_def clampMessages_def)

theorem no_double_delivery_witness:
  "\<exists>m s1. ReceiveMessages (sample_env\<lparr>uuid_at := \<lambda>_. 99\<rparr>) (Some 1) 10 5 sample_queues = (Ok [m], s1) \<and>
    (\<forall>s2. ReceiveMessages (sample_env\<lparr>uuid_at := \<lambda>_. 99\<rparr>) (Some 1) 10 5 (queue_run (sample_env\<lparr>uuid_at := \<lambda>_. 99\<rparr>) [OTick 7] s1) \<noteq> (Ok [m], s2))"
proof -
  let ?E = "sample_env\<lparr>uuid_at := \<lambda>_. 99\<rparr>"
  obtain ms s1 where r: "ReceiveMessages ?E (Some 1) 10 5 sample_queues = (Ok ms, s1)" using sample_poll by blast
  from ReceiveMessages_ok [OF r]
  have ms: "ms = [deliver ?E 0 30 sample_message 0]" by (simp add: visible_def clampMessages_def)
  from no_double_delivery [OF r, of "hd ms" "[OTick 7]" "Some 1" 10 5] r show ?thesis
    by (fastforce simp: ms Second_def simp del: queue_run_simps)
qed

theorem unacknowledged_message_survives_witness:
  "\<exists>m' \<in> set (t_queue_messages (queue_run sample_env [OSend (Some 1) 10 ''x'', OReceive (Some 1) 10 5, OTick (5 * 24 * 60 * Minute)] sample_queues)). msg_ID m' = 20 \<and> msg_Body m' = ''job''"
  using unacknowledged_message_survives [of sample_queues sample_message "[OSend (Some 1) 10 ''x'', OReceive (Some 1) 10 5, OTick (5 * 24 * 60 * Minute)]" sample_env] by (auto split: if_splits)

theorem queue_service_isolation_witness:
  "sample_queue \<in> set (t_queues (queue_exec sample_env (OPurge (Some 2) 10) sample_queues))"
  using queue_service_isolation [of sample_queues sample_queue "Some 2" "OPurge (Some 2) 10"] by auto

end
