(* ===== verification/Notify.thy ===== *)
theory Notify
  imports Queues Frames
begin

text \<open>
  Notifications: the repository \<^verbatim>\<open>notify_repo.go\<close> over topics, subscriptions and published messages, and the service
  \<^verbatim>\<open>notify.go\<close>, which starts one goroutine per subscription to deliver a message to a queue or a webhook.
\<close>

section \<open>The repository\<close>

definition NotifyRepository_CreateTopic :: "Topic \<Rightarrow> unit op" where
  "NotifyRepository_CreateTopic x =
     insertC (\<lambda>s. [(tp_ID x \<in> tp_ID ` set (t_topics s), ''topics_pkey''),
                   (list_ex (\<lambda>r. tp_UserID r = tp_UserID x \<and> tp_Name r = tp_Name x) (t_topics s), ''topics_user_id_name_key''),
                   (\<not> has_user s (tp_UserID x), ''topics_user_id_fkey'')])
             (\<lambda>s. s\<lparr>t_topics := t_topics s @ [x]\<rparr>)"

definition NotifyRepository_GetTopicByID :: "uuid \<Rightarrow> uuid \<Rightarrow> Topic op" where
  "NotifyRepository_GetTopicByID i userID = queryRowC (\<lambda>s. find (\<lambda>r. tp_ID r = i \<and> tp_UserID r = userID) (t_topics s))"

definition NotifyRepository_GetTopicByName :: "string \<Rightarrow> uuid \<Rightarrow> Topic op" where
  "NotifyRepository_GetTopicByName name userID = queryRowC (\<lambda>s. find (\<lambda>r. tp_Name r = name \<and> tp_UserID r = userID) (t_topics s))"

definition NotifyRepository_ListTopics :: "uuid \<Rightarrow> Topic list op" where
  "NotifyRepository_ListTopics userID =
     queryC (\<lambda>s. sort_key (\<lambda>r. - tp_CreatedAt r) (filter (\<lambda>r. tp_UserID r = userID) (t_topics s)))"

text \<open>Subscriptions and messages of a deleted topic go with it (\<^verbatim>\<open>ON DELETE CASCADE\<close>).\<close>

definition NotifyRepository_DeleteTopic :: "uuid \<Rightarrow> unit op" where
  "NotifyRepository_DeleteTopic i =
     bindC (execC noConstraint (\<lambda>s. rows_affected (\<lambda>r. tp_ID r = i) (t_topics s))
       (\<lambda>s. s\<lparr>t_topics := filter (\<lambda>r. tp_ID r \<noteq> i) (t_topics s),
              t_subscriptions := filter (\<lambda>r. sb_TopicID r \<noteq> i) (t_subscriptions s),
              t_notify_messages := filter (\<lambda>r. nm_TopicID r \<noteq> i) (t_notify_messages s)\<rparr>)) (\<lambda>_. returnC ())"

definition NotifyRepository_CreateSubscription :: "Subscription \<Rightarrow> unit op" where
  "NotifyRepository_CreateSubscription x =
     insertC (\<lambda>s. [(sb_ID x \<in> sb_ID ` set (t_subscriptions s), ''subscriptions_pkey''),
                   (list_ex (\<lambda>r. sb_TopicID r = sb_TopicID x \<and> sb_Protocol r = sb_Protocol x \<and> sb_Endpoint r = sb_Endpoint x) (t_subscriptions s),
                    ''subscriptions_topic_id_protocol_endpoint_key''),
                   (\<not> has_user s (sb_UserID x), ''subscriptions_user_id_fkey''),
                   (\<not> list_ex (\<lambda>r. tp_ID r = sb_TopicID x) (t_topics s), ''subscriptions_topic_id_fkey'')])
             (\<lambda>s. s\<lparr>t_subscriptions := t_subscriptions s @ [x]\<rparr>)"

definition NotifyRepository_GetSubscriptionByID :: "uuid \<Rightarrow> uuid \<Rightarrow> Subscription op" where
  "NotifyRepository_GetSubscriptionByID i userID = queryRowC (\<lambda>s. find (\<lambda>r. sb_ID r = i \<and> sb_UserID r = userID) (t_subscriptions s))"

definition NotifyRepository_ListSubscriptions :: "uuid \<Rightarrow> Subscription list op" where
  "NotifyRepository_ListSubscriptions topicID =
     queryC (\<lambda>s. sort_key (\<lambda>r. - sb_CreatedAt r) (filter (\<lambda>r. sb_TopicID r = topicID) (t_subscriptions s)))"

definition NotifyRepository_DeleteSubscription :: "uuid \<Rightarrow> unit op" where
  "NotifyRepository_DeleteSubscription i =
     bindC (execC noConstraint (\<lambda>s. rows_affected (\<lambda>r. sb_ID r = i) (t_subscriptions s))
       (\<lambda>s. s\<lparr>t_subscriptions := filter (\<lambda>r. sb_ID r \<noteq> i) (t_subscriptions s)\<rparr>)) (\<lambda>_. returnC ())"

definition NotifyRepository_SaveMessage :: "NotifyMessage \<Rightarrow> unit op" where
  "NotifyRepository_SaveMessage x =
     insertC (\<lambda>s. [(nm_ID x \<in> nm_ID ` set (t_notify_messages s), ''notify_messages_pkey''),
                   (\<not> list_ex (\<lambda>r. tp_ID r = nm_TopicID x) (t_topics s), ''notify_messages_topic_id_fkey'')])
             (\<lambda>s. s\<lparr>t_notify_messages := t_notify_messages s @ [x]\<rparr>)"

section \<open>The service\<close>

text \<open>The error of the lookup by name is dropped: only a topic that was found stops the creation.\<close>

definition CreateTopic :: "env \<Rightarrow> ctx \<Rightarrow> string \<Rightarrow> Topic op" where
  "CreateTopic E ctx name =
     (let userID = UserIDFromContext ctx in
     bindC (guardC (userID = uuid_Nil) (Errorf ''unauthorized'' None)) (\<lambda>_.
     bindC (tryC (NotifyRepository_GetTopicByName name userID)) (\<lambda>existing.
     bindC (guardC (\<not> isl existing) (Errorf (''topic with name '' @ name @ '' already exists'') None)) (\<lambda>_.
     bindC (newUUID E) (\<lambda>i.
     bindC nowC (\<lambda>now.
     let topic = \<lparr>tp_ID = i, tp_UserID = userID, tp_Name = name,
                  tp_ARN = ''arn:thecloud:notify:local:'' @ uuid_string E userID @ '':topic/'' @ name, tp_CreatedAt = now, tp_UpdatedAt = now\<rparr> in
     bindC (NotifyRepository_CreateTopic topic) (\<lambda>_.
     bindC (ignoreC (RecordEvent E ctx ''TOPIC_CREATED'' (uuid_string E i) ''TOPIC'' [])) (\<lambda>_.
     bindC (ignoreC (Log E ctx userID ''notify.topic_create'' ''topic'' (uuid_string E i) [(''name'', GStr name)])) (\<lambda>_.
     returnC topic)))))))))"

definition ListTopics :: "ctx \<Rightarrow> Topic list op" where
  "ListTopics ctx =
     (let userID = UserIDFromContext ctx in
     bindC (guardC (userID = uuid_Nil) (Errorf ''unauthorized'' None)) (\<lambda>_. NotifyRepository_ListTopics userID))"

definition DeleteTopic :: "env \<Rightarrow> ctx \<Rightarrow> uuid \<Rightarrow> unit op" where
  "DeleteTopic E ctx i =
     (let userID = UserIDFromContext ctx in
     bindC (guardC (userID = uuid_Nil) (Errorf ''unauthorized'' None)) (\<lambda>_.
     bindC (NotifyRepository_GetTopicByID i userID) (\<lambda>topic.
     bindC (NotifyRepository_DeleteTopic i) (\<lambda>_.
     bindC (ignoreC (RecordEvent E ctx ''TOPIC_DELETED'' (uuid_string E i) ''TOPIC'' [])) (\<lambda>_.
     ignoreC (Log E ctx (tp_UserID topic) ''notify.topic_delete'' ''topic'' (uuid_string E (tp_ID topic)) [(''name'', GStr (tp_Name topic))]))))))"

definition Subscribe :: "env \<Rightarrow> ctx \<Rightarrow> uuid \<Rightarrow> string \<Rightarrow> string \<Rightarrow> Subscription op" where
  "Subscribe E ctx topicID protocol endpoint =
     (let userID = UserIDFromContext ctx in
     bindC (guardC (userID = uuid_Nil) (Errorf ''unauthorized'' None)) (\<lambda>_.
     bindC (NotifyRepository_GetTopicByID topicID userID) (\<lambda>topic.
     bindC (newUUID E) (\<lambda>i.
     bindC nowC (\<lambda>now.
     let sub = \<lparr>sb_ID = i, sb_UserID = userID, sb_TopicID = tp_ID topic, sb_Protocol = protocol, sb_Endpoint = endpoint,
                sb_CreatedAt = now, sb_UpdatedAt = now\<rparr> in
     bindC (NotifyRepository_CreateSubscription sub) (\<lambda>_.
     bindC (ignoreC (RecordEvent E ctx ''SUBSCRIPTION_CREATED'' (uuid_string E i) ''SUBSCRIPTION'' [(''topic_id'', GUuid topicID)])) (\<lambda>_.
     bindC (ignoreC (Log E ctx userID ''notify.subscribe'' ''subscription'' (uuid_string E i)
              [(''topic_id'', GStr (uuid_string E topicID)), (''protocol'', GStr protocol), (''endpoint'', GStr endpoint)])) (\<lambda>_.
     returnC sub))))))))"

definition ListSubscriptions :: "ctx \<Rightarrow> uuid \<Rightarrow> Subscription list op" where
  "ListSubscriptions ctx topicID =
     (let userID = UserIDFromContext ctx in
     bindC (guardC (userID = uuid_Nil) (Errorf ''unauthorized'' None)) (\<lambda>_.
     bindC (NotifyRepository_GetTopicByID topicID userID) (\<lambda>_.
     NotifyRepository_ListSubscriptions topicID)))"

definition Unsubscribe :: "env \<Rightarrow> ctx \<Rightarrow> uuid \<Rightarrow> unit op" where
  "Unsubscribe E ctx i =
     (let userID = UserIDFromContext ctx in
     bindC (guardC (userID = uuid_Nil) (Errorf ''unauthorized'' None)) (\<lambda>_.
     bindC (NotifyRepository_GetSubscriptionByID i userID) (\<lambda>sub.
     bindC (NotifyRepository_DeleteSubscription (sb_ID sub)) (\<lambda>_.
     bindC (ignoreC (RecordEvent E ctx ''SUBSCRIPTION_DELETED'' (uuid_string E i) ''SUBSCRIPTION'' [])) (\<lambda>_.
     ignoreC (Log E ctx (sb_UserID sub) ''notify.unsubscribe'' ''subscription'' (uuid_string E (sb_ID sub))
        [(''topic_id'', GStr (uuid_string E (sb_TopicID sub)))]))))))"

definition Publish :: "env \<Rightarrow> ctx \<Rightarrow> uuid \<Rightarrow> string \<Rightarrow> unit op" where
  "Publish E ctx topicID body =
     (let userID = UserIDFromContext ctx in
     bindC (guardC (userID = uuid_Nil) (Errorf ''unauthorized'' None)) (\<lambda>_.
     bindC (NotifyRepository_GetTopicByID topicID userID) (\<lambda>topic.
     bindC (newUUID E) (\<lambda>i.
     bindC nowC (\<lambda>now.
     bindC (NotifyRepository_SaveMessage \<lparr>nm_ID = i, nm_TopicID = tp_ID topic, nm_Body = body, nm_CreatedAt = now\<rparr>) (\<lambda>_.
     bindC (NotifyRepository_ListSubscriptions topicID) (\<lambda>subs.
     bindC (forC subs (\<lambda>sub. goC (TDeliver sub body))) (\<lambda>_.
     bindC (ignoreC (RecordEvent E ctx ''TOPIC_PUBLISHED'' (uuid_string E (tp_ID topic)) ''TOPIC'' [(''message_id'', GUuid i)])) (\<lambda>_.
     ignoreC (Log E ctx (tp_UserID topic) ''notify.publish'' ''topic'' (uuid_string E (tp_ID topic))
        [(''message_id'', GStr (uuid_string E i))]))))))))))"

text \<open>The goroutine. The error of building the request is dropped, and the request that was not built is used all the same.\<close>

definition deliverNotification :: "env \<Rightarrow> Subscription \<Rightarrow> string \<Rightarrow> unit op" where
  "deliverNotification E sub body =
     (if sb_Protocol sub = ProtocolQueue
      then case uuid_parse E (sb_Endpoint sub) of
             None \<Rightarrow> returnC ()
           | Some qID \<Rightarrow> ignoreC (SendMessage E (WithUserID None (sb_UserID sub)) qID body)
      else if sb_Protocol sub = ProtocolWebhook
      then case http_request_err E ''POST'' (sb_Endpoint sub) of
             Some _ \<Rightarrow> panicC ''runtime error: invalid memory address or nil pointer dereference''
           | None \<Rightarrow> ignoreC (httpC E ''POST'' (sb_Endpoint sub) body)
      else returnC ())"

section \<open>Facts\<close>

text \<open>A message that is sent without faults to a queue of the sender with room for it is in the queue.\<close>

lemma SendMessage_nf:
  assumes "faults s = []" and "find (\<lambda>q. q_ID q = i \<and> q_UserID q = u) (t_queues s) = Some q" and "u \<noteq> uuid_Nil"
    and "int (length body) \<le> q_MaxMessageSize q" and "uuid_at E (uuid_ctr s) \<notin> msg_ID ` set (t_queue_messages s)"
  shows "\<exists>m s'. SendMessage E (Some u) i body s = (Ok m, s') \<and> t_queue_messages s' = t_queue_messages s @ [m] \<and> msg_QueueID m = i \<and> msg_Body m = body"
proof -
  have q: "q_ID q = i" "list_ex (\<lambda>q. q_ID q = i) (t_queues s)" using assms(2) by (auto simp: list_ex_iff dest: find_Some_set)
  have "wp (SendMessage E (Some u) i body) (\<lambda>r s'. \<exists>m. r = Ok m \<and> t_queue_messages s' = t_queue_messages s @ [m] \<and> msg_QueueID m = i \<and> msg_Body m = body) s"
    using assms q
    by (auto simp: SendMessage_def GetQueue_def QueueRepository_GetByID_def QueueRepository_SendMessage_def Let_def Second_def wps wpnf logged_simps
        simp del: wp_ignoreC intro!: wp_ignore_RecordEvent_nf)
  then show ?thesis unfolding wp_def by (cases "SendMessage E (Some u) i body s") auto
qed

lemma Publish_nf:
  assumes "faults s = []" and "find (\<lambda>t. tp_ID t = i \<and> tp_UserID t = u) (t_topics s) = Some topic" and "u \<noteq> uuid_Nil"
    and "uuid_at E (uuid_ctr s) \<notin> nm_ID ` set (t_notify_messages s)"
  shows "\<exists>s'. Publish E (Some u) i body s = (Ok (), s') \<and>
    tasks s' = tasks s @ map (\<lambda>sub. TDeliver sub body) (sort_key (\<lambda>r. - sb_CreatedAt r) (filter (\<lambda>r. sb_TopicID r = i) (t_subscriptions s))) \<and>
    faults s' = [] \<and> t_queues s' = t_queues s \<and> t_queue_messages s' = t_queue_messages s \<and> uuid_ctr s' = uuid_ctr s + 3 \<and>
    (\<exists>m. t_notify_messages s' = t_notify_messages s @ [m] \<and> nm_Body m = body \<and> nm_TopicID m = i)"
proof (rule wp_returns)
  have starts: "wp (forC subs (\<lambda>sub. goC (TDeliver sub body))) Q t \<longleftrightarrow> Q (Ok ()) (t\<lparr>tasks := tasks t @ map (\<lambda>sub. TDeliver sub body) subs\<rparr>)" for subs Q t
    by (induction subs arbitrary: t) (simp_all add: wps)
  have "tp_ID topic = i" "list_ex (\<lambda>t. tp_ID t = i) (t_topics s)" using assms(2) by (auto simp: list_ex_iff dest: find_Some_set)
  then show "wp (Publish E (Some u) i body) (\<lambda>r s'. r = Ok () \<and>
    tasks s' = tasks s @ map (\<lambda>sub. TDeliver sub body) (sort_key (\<lambda>r. - sb_CreatedAt r) (filter (\<lambda>r. sb_TopicID r = i) (t_subscriptions s))) \<and>
    faults s' = [] \<and> t_queues s' = t_queues s \<and> t_queue_messages s' = t_queue_messages s \<and> uuid_ctr s' = uuid_ctr s + 3 \<and>
    (\<exists>m. t_notify_messages s' = t_notify_messages s @ [m] \<and> nm_Body m = body \<and> nm_TopicID m = i)) s"
    using assms
    by (auto simp: Publish_def NotifyRepository_GetTopicByID_def NotifyRepository_SaveMessage_def NotifyRepository_ListSubscriptions_def Let_def starts
        wps wpnf logged_simps simp del: wp_ignoreC intro!: wp_ignore_RecordEvent_nf wp_ignore_Log_nf)
qed

section \<open>Properties\<close>

text \<open>C23. A published message reaches the subscribed queues: without faults a publication keeps the message, starts one delivery per
  subscription of the topic, and the delivery to a queue of the subscriber with room for the message appends it
  there.\<close>

theorem published_message_delivered:
  assumes "faults s = []" and "find (\<lambda>t. tp_ID t = i \<and> tp_UserID t = u) (t_topics s) = Some topic" and "u \<noteq> uuid_Nil"
    and "uuid_at E (uuid_ctr s) \<notin> nm_ID ` set (t_notify_messages s)"
    and "sub \<in> set (t_subscriptions s)" and "sb_TopicID sub = i" and "sb_Protocol sub = ProtocolQueue" and "sb_UserID sub \<noteq> uuid_Nil"
    and "uuid_parse E (sb_Endpoint sub) = Some k" and "find (\<lambda>q. q_ID q = k \<and> q_UserID q = sb_UserID sub) (t_queues s) = Some q"
    and "int (length body) \<le> q_MaxMessageSize q" and "uuid_at E (uuid_ctr s + 3) \<notin> msg_ID ` set (t_queue_messages s)"
  shows "\<exists>s1 s2 m. Publish E (Some u) i body s = (Ok (), s1) \<and> TDeliver sub body \<in> set (tasks s1) \<and>
    length (tasks s1) = length (tasks s) + length (filter (\<lambda>r. sb_TopicID r = i) (t_subscriptions s)) \<and>
    deliverNotification E sub body s1 = (Ok (), s2) \<and> t_queue_messages s2 = t_queue_messages s @ [m] \<and> msg_QueueID m = k \<and> msg_Body m = body"
proof -
  obtain s1 where s1: "Publish E (Some u) i body s = (Ok (), s1)"
    "tasks s1 = tasks s @ map (\<lambda>sub. TDeliver sub body) (sort_key (\<lambda>r. - sb_CreatedAt r) (filter (\<lambda>r. sb_TopicID r = i) (t_subscriptions s)))"
    "faults s1 = []" "t_queues s1 = t_queues s" "t_queue_messages s1 = t_queue_messages s" "uuid_ctr s1 = uuid_ctr s + 3"
    using Publish_nf [OF assms(1-4)] by blast
  obtain m s2 where s2: "SendMessage E (Some (sb_UserID sub)) k body s1 = (Ok m, s2)" "t_queue_messages s2 = t_queue_messages s1 @ [m]" "msg_QueueID m = k" "msg_Body m = body"
    using SendMessage_nf [of s1 k "sb_UserID sub" q body E] assms s1 by auto
  have "deliverNotification E sub body s1 = (Ok (), s2)"
    using assms(7,9) s2(1) by (simp add: deliverNotification_def WithUserID_def ignoreC_def)
  then show ?thesis using s1 s2 assms(5,6) by (intro exI [of _ s1] exI [of _ s2] exI [of _ m]) auto
qed

text \<open>C24. A delivery stays within the tenant: whatever endpoint a subscription names, and whatever fails, its delivery leaves
  the messages in the queues of other users as they are.\<close>

theorem delivery_within_tenant:
  assumes "distinct (map q_ID (t_queues s))" and "q \<in> set (t_queues s)" and "q_UserID q \<noteq> sb_UserID sub"
  shows "filter (\<lambda>m. msg_QueueID m = q_ID q) (t_queue_messages (snd (deliverNotification E sub body s))) =
    filter (\<lambda>m. msg_QueueID m = q_ID q) (t_queue_messages s)"
proof -
  have send: "filter (\<lambda>m. msg_QueueID m = q_ID q) (t_queue_messages (snd (SendMessage E (Some (sb_UserID sub)) k body s))) =
      filter (\<lambda>m. msg_QueueID m = q_ID q) (t_queue_messages s)" for k
  proof (cases "k = q_ID q")
    case True
    then have "find (\<lambda>q. q_ID q = k \<and> q_UserID q = UserIDFromContext (Some (sb_UserID sub))) (t_queues s) = None"
      using assms by (auto simp: find_None_set dest: distinct_key_unique)
    then have "queue_state (snd (SendMessage E (Some (sb_UserID sub)) k body s)) = queue_state s"
      unfolding SendMessage_def by (rule foreign_stop)
    then show ?thesis by (simp add: queue_state_def)
  next
    case False
    then show ?thesis using SendMessage_paths [of E "Some (sb_UserID sub)" k body s] by (auto simp: wp_def queue_state_def)
  qed
  have "t_queue_messages (snd (httpC E m u b s)) = t_queue_messages s" for m u b
    using confinedD [OF keeps_httpC [of t_queue_messages E m u b], of s] by (simp add: keeps_def stable_def)
  then show ?thesis using send
    by (auto simp: deliverNotification_def WithUserID_def run_ignoreC run panicC_def split: option.split)
qed

text \<open>A webhook endpoint that is no URL kills the process: the subscription is accepted, and its delivery dereferences the
  request that could not be built.\<close>

theorem bad_webhook_panics:
  assumes "sb_Protocol sub = ProtocolWebhook" and "http_request_err E ''POST'' (sb_Endpoint sub) = Some err"
  shows "\<exists>p. fst (deliverNotification E sub body s) = Panic p"
  using assms by (simp add: deliverNotification_def ProtocolQueue_def ProtocolWebhook_def panicC_def)

section \<open>Witnesses\<close>

definition sample_topic :: Topic where
  "sample_topic = \<lparr>tp_ID = 50, tp_UserID = 1, tp_Name = ''news'', tp_ARN = [], tp_CreatedAt = 0, tp_UpdatedAt = 0\<rparr>"

definition sample_sub :: Subscription where
  "sample_sub = \<lparr>sb_ID = 51, sb_UserID = 1, sb_TopicID = 50, sb_Protocol = ''queue'', sb_Endpoint = ''10'', sb_CreatedAt = 0, sb_UpdatedAt = 0\<rparr>"

theorem published_message_delivered_witness:
  "\<exists>s1 s2 m. Publish (sample_env\<lparr>uuid_parse := \<lambda>_. Some 10\<rparr>) (Some 1) 50 ''hello'' (sample_queues\<lparr>t_topics := [sample_topic], t_subscriptions := [sample_sub]\<rparr>) = (Ok (), s1) \<and>
    deliverNotification (sample_env\<lparr>uuid_parse := \<lambda>_. Some 10\<rparr>) sample_sub ''hello'' s1 = (Ok (), s2) \<and> t_queue_messages s2 = [sample_message, m] \<and> msg_Body m = ''hello''"
  using published_message_delivered [of "sample_queues\<lparr>t_topics := [sample_topic], t_subscriptions := [sample_sub]\<rparr>" 50 1 sample_topic
      "sample_env\<lparr>uuid_parse := \<lambda>_. Some 10\<rparr>" sample_sub 10 sample_queue "''hello''"]
  by (auto simp: sample_topic_def sample_sub_def ProtocolQueue_def uuid_Nil_def)

theorem delivery_within_tenant_witness:
  "filter (\<lambda>m. msg_QueueID m = 10) (t_queue_messages (snd (deliverNotification sample_env (sample_sub\<lparr>sb_UserID := 2\<rparr>) ''x'' sample_queues))) = [sample_message]"
  using delivery_within_tenant [of sample_queues sample_queue "sample_sub\<lparr>sb_UserID := 2\<rparr>" sample_env "''x''"] by (simp add: sample_sub_def)

theorem bad_webhook_panics_witness:
  "\<exists>p. fst (deliverNotification (sample_env\<lparr>http_request_err := \<lambda>m u. Some ''parse error''\<rparr>) (sample_sub\<lparr>sb_Protocol := ''webhook''\<rparr>) ''x'' sample_world) = Panic p"
  using bad_webhook_panics [of "sample_sub\<lparr>sb_Protocol := ''webhook''\<rparr>" "sample_env\<lparr>http_request_err := \<lambda>m u. Some ''parse error''\<rparr>"]
  by (simp add: ProtocolWebhook_def)

end
