(* ===== verification/SecurityGroups.thy ===== *)
theory SecurityGroups
  imports AutoScaling Frames
begin

text \<open>
  Security groups: the repository \<^verbatim>\<open>security_group_repo.go\<close> over the tables \<^verbatim>\<open>security_groups\<close>,
  \<^verbatim>\<open>security_rules\<close> and \<^verbatim>\<open>instance_security_groups\<close>, and the service \<^verbatim>\<open>security_group.go\<close>, which translates
  rules to flows of the network backend. The rows of \<^verbatim>\<open>security_groups\<close> are records without rules; the
  lookups fill them in.
\<close>

section \<open>The repository\<close>

definition SecurityGroupRepository_Create :: "SecurityGroup \<Rightarrow> unit op" where
  "SecurityGroupRepository_Create sg =
     mapErrC (Wrap Internal ''failed to create security group'')
       (insertC (\<lambda>s. [(sg_ID sg \<in> sg_ID ` set (t_security_groups s), ''security_groups_pkey''),
                      (list_ex (\<lambda>r. sg_VPCID r = sg_VPCID sg \<and> sg_Name r = sg_Name sg) (t_security_groups s), ''security_groups_vpc_id_name_key''),
                      (\<not> has_user s (sg_UserID sg), ''security_groups_user_id_fkey''),
                      (\<not> fk_vpc s (Some (sg_VPCID sg)), ''security_groups_vpc_id_fkey'')])
                (\<lambda>s. s\<lparr>t_security_groups := t_security_groups s @ [sg\<lparr>sg_Rules := []\<rparr>]\<rparr>))"

definition getRulesForGroup :: "uuid \<Rightarrow> SecurityRule list op" where
  "getRulesForGroup groupID =
     queryC (\<lambda>s. sort_key (\<lambda>r. - rule_Priority r) (filter (\<lambda>r. rule_GroupID r = groupID) (t_security_rules s)))"

definition SecurityGroupRepository_GetByID :: "ctx \<Rightarrow> uuid \<Rightarrow> SecurityGroup op" where
  "SecurityGroupRepository_GetByID ctx i =
     bindC (mapErrC (row_err (New NotFound ''security group not found'') ''failed to get security group'')
              (queryRowC (\<lambda>s. find (\<lambda>g. sg_ID g = i \<and> sg_UserID g = UserIDFromContext ctx) (t_security_groups s)))) (\<lambda>sg.
     bindC (getRulesForGroup (sg_ID sg)) (\<lambda>rules.
     returnC (sg\<lparr>sg_Rules := rules\<rparr>)))"

definition SecurityGroupRepository_GetByName :: "ctx \<Rightarrow> uuid \<Rightarrow> string \<Rightarrow> SecurityGroup op" where
  "SecurityGroupRepository_GetByName ctx vpcID name =
     bindC (mapErrC (row_err (New NotFound ''security group not found'') ''failed to get security group by name'')
              (queryRowC (\<lambda>s. find (\<lambda>g. sg_VPCID g = vpcID \<and> sg_Name g = name \<and> sg_UserID g = UserIDFromContext ctx) (t_security_groups s)))) (\<lambda>sg.
     bindC (getRulesForGroup (sg_ID sg)) (\<lambda>rules.
     returnC (sg\<lparr>sg_Rules := rules\<rparr>)))"

definition SecurityGroupRepository_ListByVPC :: "ctx \<Rightarrow> uuid \<Rightarrow> SecurityGroup list op" where
  "SecurityGroupRepository_ListByVPC ctx vpcID =
     mapErrC (Wrap Internal ''failed to list security groups'')
       (queryC (\<lambda>s. sort_key (\<lambda>g. - sg_CreatedAt g)
          (filter (\<lambda>g. sg_VPCID g = vpcID \<and> sg_UserID g = UserIDFromContext ctx) (t_security_groups s))))"

definition SecurityGroupRepository_AddRule :: "SecurityRule \<Rightarrow> unit op" where
  "SecurityGroupRepository_AddRule rule =
     mapErrC (Wrap Internal ''failed to add security rule'')
       (insertC (\<lambda>s. [(rule_Direction rule \<noteq> ''ingress'' \<and> rule_Direction rule \<noteq> ''egress'', ''security_rules_direction_check''),
                      (rule_ID rule \<in> rule_ID ` set (t_security_rules s), ''security_rules_pkey''),
                      (\<not> list_ex (\<lambda>g. sg_ID g = rule_GroupID rule) (t_security_groups s), ''security_rules_group_id_fkey'')])
                (\<lambda>s. s\<lparr>t_security_rules := t_security_rules s @ [rule]\<rparr>))"

definition SecurityGroupRepository_DeleteRule :: "uuid \<Rightarrow> unit op" where
  "SecurityGroupRepository_DeleteRule ruleID =
     bindC (execC noConstraint (\<lambda>s. rows_affected (\<lambda>r. rule_ID r = ruleID) (t_security_rules s))
              (\<lambda>s. s\<lparr>t_security_rules := filter (\<lambda>r. rule_ID r \<noteq> ruleID) (t_security_rules s)\<rparr>)) (\<lambda>_. returnC ())"

text \<open>Rules and memberships of a deleted group go with it (\<^verbatim>\<open>ON DELETE CASCADE\<close>).\<close>

definition delete_sg_row :: "(SecurityGroup \<Rightarrow> bool) \<Rightarrow> uuid \<Rightarrow> world \<Rightarrow> world" where
  "delete_sg_row P i s =
     (if list_ex P (t_security_groups s) then
        s\<lparr>t_security_groups := filter (\<lambda>g. \<not> P g) (t_security_groups s),
          t_security_rules := filter (\<lambda>r. rule_GroupID r \<noteq> i) (t_security_rules s),
          t_instance_security_groups := filter (\<lambda>p. snd p \<noteq> i) (t_instance_security_groups s)\<rparr>
      else s)"

definition SecurityGroupRepository_Delete :: "ctx \<Rightarrow> uuid \<Rightarrow> unit op" where
  "SecurityGroupRepository_Delete ctx i =
     (let P = (\<lambda>g. sg_ID g = i \<and> sg_UserID g = UserIDFromContext ctx) in
      bindC (execC noConstraint (\<lambda>s. rows_affected P (t_security_groups s)) (delete_sg_row P i)) (\<lambda>_. returnC ()))"

text \<open>The ownership checks that the two membership operations share.\<close>

definition verifyOwnership :: "ctx \<Rightarrow> uuid \<Rightarrow> uuid \<Rightarrow> unit op" where
  "verifyOwnership ctx instanceID groupID =
     bindC (mapErrC (row_err (New NotFound ''instance not found'') ''failed to verify instance ownership'')
              (queryRowC (\<lambda>s. map_option inst_UserID (find (\<lambda>x. inst_ID x = instanceID) (t_instances s))))) (\<lambda>instanceOwner.
     bindC (guardC (instanceOwner \<noteq> UserIDFromContext ctx) (New Forbidden ''you do not own this instance'')) (\<lambda>_.
     bindC (mapErrC (row_err (New NotFound ''security group not found'') ''failed to verify security group ownership'')
              (queryRowC (\<lambda>s. map_option sg_UserID (find (\<lambda>g. sg_ID g = groupID) (t_security_groups s))))) (\<lambda>groupOwner.
     guardC (groupOwner \<noteq> UserIDFromContext ctx) (New Forbidden ''you do not own this security group''))))"

definition sgTxC :: "unit op \<Rightarrow> unit op" where
  "sgTxC body =
     bindC (mapErrC (Wrap Internal ''failed to start transaction'') pingC) (\<lambda>_. undoC (bindC body (\<lambda>_. pingC)))"

text \<open>\<^verbatim>\<open>ON CONFLICT DO NOTHING\<close>: a membership that exists already is not an error.\<close>

definition AddInstanceToGroup :: "ctx \<Rightarrow> uuid \<Rightarrow> uuid \<Rightarrow> unit op" where
  "AddInstanceToGroup ctx instanceID groupID = sgTxC (
     bindC (verifyOwnership ctx instanceID groupID) (\<lambda>_.
     mapErrC (Wrap Internal ''failed to add instance to group'')
       (insertC (\<lambda>s. if (instanceID, groupID) \<in> set (t_instance_security_groups s) then []
                     else [(\<not> has_instance s instanceID, ''instance_security_groups_instance_id_fkey''),
                           (\<not> list_ex (\<lambda>g. sg_ID g = groupID) (t_security_groups s), ''instance_security_groups_group_id_fkey'')])
                (\<lambda>s. if (instanceID, groupID) \<in> set (t_instance_security_groups s) then s
                     else s\<lparr>t_instance_security_groups := t_instance_security_groups s @ [(instanceID, groupID)]\<rparr>))))"

definition RemoveInstanceFromGroup :: "ctx \<Rightarrow> uuid \<Rightarrow> uuid \<Rightarrow> unit op" where
  "RemoveInstanceFromGroup ctx instanceID groupID = sgTxC (
     bindC (verifyOwnership ctx instanceID groupID) (\<lambda>_.
     mapErrC (Wrap Internal ''failed to remove instance from group'')
       (bindC (execC noConstraint (\<lambda>s. rows_affected (\<lambda>p. p = (instanceID, groupID)) (t_instance_security_groups s))
                (\<lambda>s. s\<lparr>t_instance_security_groups := filter (\<lambda>p. p \<noteq> (instanceID, groupID)) (t_instance_security_groups s)\<rparr>))
          (\<lambda>_. returnC ()))))"

definition ListInstanceGroups :: "uuid \<Rightarrow> SecurityGroup list op" where
  "ListInstanceGroups instanceID =
     queryC (\<lambda>s. concat (map (\<lambda>p. filter (\<lambda>g. sg_ID g = snd p) (t_security_groups s))
       (filter (\<lambda>p. fst p = instanceID) (t_instance_security_groups s))))"

section \<open>The service\<close>

definition SecurityGroupService_CreateGroup :: "env \<Rightarrow> ctx \<Rightarrow> uuid \<Rightarrow> string \<Rightarrow> string \<Rightarrow> SecurityGroup op" where
  "SecurityGroupService_CreateGroup E ctx vpcID name description =
     (let userID = UserIDFromContext ctx in
     bindC (newUUID E) (\<lambda>sgID.
     bindC nowC (\<lambda>now.
     let sg = \<lparr>sg_ID = sgID, sg_UserID = userID, sg_VPCID = vpcID, sg_Name = name, sg_Description = description,
               sg_ARN = ''arn:thecloud:vpc:local:'' @ uuid_string E userID @ '':security-group/'' @ uuid_string E sgID,
               sg_Rules = [], sg_CreatedAt = now\<rparr> in
     bindC (mapErrC (Wrap Internal ''failed to create security group'') (SecurityGroupRepository_Create sg)) (\<lambda>_.
     bindC (ignoreC (Log E ctx userID ''security_group.create'' ''security_group'' (uuid_string E sgID)
              [(''name'', GStr name), (''vpc_id'', GUuid vpcID)])) (\<lambda>_.
     returnC sg)))))"

definition SecurityGroupService_GetGroup :: "env \<Rightarrow> ctx \<Rightarrow> string \<Rightarrow> uuid \<Rightarrow> SecurityGroup op" where
  "SecurityGroupService_GetGroup E ctx idOrName vpcID =
     (case uuid_parse E idOrName of
        Some i \<Rightarrow> SecurityGroupRepository_GetByID ctx i
      | None \<Rightarrow> SecurityGroupRepository_GetByName ctx vpcID idOrName)"

definition SecurityGroupService_ListGroups :: "ctx \<Rightarrow> uuid \<Rightarrow> SecurityGroup list op" where
  "SecurityGroupService_ListGroups ctx vpcID = SecurityGroupRepository_ListByVPC ctx vpcID"

definition SecurityGroupService_DeleteGroup :: "env \<Rightarrow> ctx \<Rightarrow> uuid \<Rightarrow> unit op" where
  "SecurityGroupService_DeleteGroup E ctx i =
     bindC (mapErrC (Wrap Internal ''failed to delete security group'') (SecurityGroupRepository_Delete ctx i)) (\<lambda>_.
     ignoreC (Log E ctx (UserIDFromContext ctx) ''security_group.delete'' ''security_group'' (uuid_string E i) []))"

text \<open>The match of a flow: protocol, address, port.\<close>

definition translateToFlow :: "SecurityRule \<Rightarrow> FlowRule" where
  "translateToFlow rule =
     (let proto = (if rule_Protocol rule = ''tcp'' then [''tcp''] else if rule_Protocol rule = ''udp'' then [''udp'']
                   else if rule_Protocol rule = ''icmp'' then [''icmp''] else []);
          addr = (if rule_CIDR rule \<noteq> [] \<and> rule_CIDR rule \<noteq> ''0.0.0.0/0''
                  then if rule_Direction rule = RuleIngress then [''nw_src='' @ rule_CIDR rule] else [''nw_dst='' @ rule_CIDR rule]
                  else []);
          port = (if rule_PortMin rule > 0
                  then if rule_PortMin rule = rule_PortMax rule
                       then if rule_Protocol rule = ''tcp'' \<or> rule_Protocol rule = ''udp'' then [''tp_dst='' @ int_string (rule_PortMin rule)] else []
                       else if rule_PortMax rule > rule_PortMin rule then [''tp_dst='' @ int_string (rule_PortMin rule)] else []
                  else [])
      in \<lparr>flow_Priority = rule_Priority rule, flow_Match = Join '','' (proto @ addr @ port), flow_Actions = ''allow''\<rparr>)"

definition syncGroupFlows :: "env \<Rightarrow> ctx \<Rightarrow> SecurityGroup \<Rightarrow> unit op" where
  "syncGroupFlows E ctx sg =
     bindC (VpcRepository_GetByID E ctx (sg_VPCID sg)) (\<lambda>vpc.
     forC (sg_Rules sg) (\<lambda>rule. backendC (BAddFlowRule (vpc_NetworkID vpc) (translateToFlow rule))))"

text \<open>The rule is the request's, with identifier, group and time filled in.\<close>

definition SecurityGroupService_AddRule :: "env \<Rightarrow> ctx \<Rightarrow> uuid \<Rightarrow> SecurityRule \<Rightarrow> SecurityRule op" where
  "SecurityGroupService_AddRule E ctx groupID rule =
     bindC (SecurityGroupRepository_GetByID ctx groupID) (\<lambda>sg.
     bindC (newUUID E) (\<lambda>i.
     bindC nowC (\<lambda>now.
     let rule = rule\<lparr>rule_ID := i, rule_GroupID := groupID, rule_CreatedAt := now\<rparr> in
     bindC (mapErrC (Wrap Internal ''failed to add security rule'') (SecurityGroupRepository_AddRule rule)) (\<lambda>_.
     bindC (ignoreC (syncGroupFlows E ctx sg)) (\<lambda>_.
     bindC (ignoreC (Log E ctx (sg_UserID sg) ''security_group.add_rule'' ''security_group'' (uuid_string E groupID)
              [(''rule_id'', GStr (uuid_string E i))])) (\<lambda>_.
     returnC rule))))))"

text \<open>The method is a stub.\<close>

definition SecurityGroupService_RemoveRule :: "ctx \<Rightarrow> uuid \<Rightarrow> unit op" where
  "SecurityGroupService_RemoveRule ctx ruleID = returnC ()"

definition AttachToInstance :: "env \<Rightarrow> ctx \<Rightarrow> uuid \<Rightarrow> uuid \<Rightarrow> unit op" where
  "AttachToInstance E ctx instanceID groupID =
     bindC (AddInstanceToGroup ctx instanceID groupID) (\<lambda>_.
     bindC (SecurityGroupRepository_GetByID ctx groupID) (\<lambda>sg.
     syncGroupFlows E ctx sg))"

definition DetachFromInstance :: "ctx \<Rightarrow> uuid \<Rightarrow> uuid \<Rightarrow> unit op" where
  "DetachFromInstance ctx instanceID groupID = RemoveInstanceFromGroup ctx instanceID groupID"

section \<open>Facts\<close>

lemma stable_sg [simp]: "stable (\<lambda>s. others sg_UserID u (t_security_groups s))"
  by (simp add: stable_def)


text \<open>What the memberships rest on: who owns which instance and which group.\<close>

definition owned :: "world \<Rightarrow> bool" where
  "owned s \<longleftrightarrow> (\<forall>(i, g) \<in> set (t_instance_security_groups s). \<exists>x \<in> set (t_instances s). \<exists>y \<in> set (t_security_groups s).
     inst_ID x = i \<and> sg_ID y = g \<and> inst_UserID x = sg_UserID y)"

definition keeps_owned :: "world \<Rightarrow> world \<Rightarrow> bool" where
  "keeps_owned s s' \<longleftrightarrow> (owned s \<longrightarrow> owned s')"

interpretation own: core_frame keeps_owned
  by unfold_locales (auto simp: keeps_owned_def owned_def core_eq_iff)

text \<open>Statements that leave the memberships and what they rest on alone.\<close>

lemma owned_same:
  "t_instance_security_groups s' = t_instance_security_groups s \<Longrightarrow> t_instances s' = t_instances s \<Longrightarrow> t_security_groups s' = t_security_groups s \<Longrightarrow>
    keeps_owned s s'"
  by (simp add: keeps_owned_def owned_def)

lemma owned_instances:
  assumes "t_instance_security_groups s' = t_instance_security_groups s" and "t_security_groups s' = t_security_groups s"
    and "(\<lambda>x. (inst_ID x, inst_UserID x)) ` set (t_instances s) \<subseteq> (\<lambda>x. (inst_ID x, inst_UserID x)) ` set (t_instances s')"
  shows "keeps_owned s s'"
proof -
  have "\<exists>x' \<in> set (t_instances s'). inst_ID x' = inst_ID x \<and> inst_UserID x' = inst_UserID x" if "x \<in> set (t_instances s)" for x
    using assms(3) that by (auto simp: image_iff subset_iff) (metis (mono_tags, lifting))
  then show ?thesis unfolding keeps_owned_def owned_def assms(1,2) by (fastforce split: prod.splits)
qed

lemma owned_delete_instance: "keeps_owned s (delete_instance_row P i s)" if "\<And>x. P x \<Longrightarrow> inst_ID x = i"
  using that unfolding keeps_owned_def owned_def delete_instance_row_def by fastforce

lemma owned_delete_sg: "keeps_owned s (delete_sg_row P i s)" if "\<And>x. P x \<Longrightarrow> sg_ID x = i"
  using that unfolding keeps_owned_def owned_def delete_sg_row_def by fastforce

lemma owned_delete_vpc: "keeps_owned s (delete_vpc_row P i s)"
proof (cases "list_ex P (t_vpcs s)")
  case True
  show ?thesis unfolding keeps_owned_def
  proof
    assume o: "owned s"
    show "owned (delete_vpc_row P i s)" unfolding owned_def
    proof clarify
      fix a g
      assume "(a, g) \<in> set (t_instance_security_groups (delete_vpc_row P i s))"
      with True have m: "(a, g) \<in> set (t_instance_security_groups s)" and g: "\<not> in_vpc s i g" by (simp_all add: delete_vpc_row_def)
      from o m obtain x y where "x \<in> set (t_instances s)" "y \<in> set (t_security_groups s)" "inst_ID x = a" "sg_ID y = g" "inst_UserID x = sg_UserID y"
        unfolding owned_def by fastforce
      with g True show "\<exists>x \<in> set (t_instances (delete_vpc_row P i s)). \<exists>y \<in> set (t_security_groups (delete_vpc_row P i s)).
          inst_ID x = a \<and> sg_ID y = g \<and> inst_UserID x = sg_UserID y"
        by (auto simp: delete_vpc_row_def in_vpc_def list_ex_iff)
    qed
  qed
qed (simp add: delete_vpc_row_def own.frame_refl)

lemma own_instances:
  "confined keeps_owned (InstanceRepository_Create E inst)" "confined keeps_owned (InstanceRepository_Update E inst)"
  "confined keeps_owned (InstanceRepository_Delete E ctx i)"
proof -
  show "confined keeps_owned (InstanceRepository_Create E inst)" unfolding InstanceRepository_Create_def
    by (intro own.cf_intros owned_instances) auto
  have "keeps_owned s (s\<lparr>t_instances := upd_where (inst_match inst) (inst_written E inst now) (t_instances s)\<rparr>)" for s now
  proof (rule owned_instances)
    have "map (\<lambda>x. (inst_ID x, inst_UserID x)) (upd_where (inst_match inst) (inst_written E inst now) (t_instances s)) =
        map (\<lambda>x. (inst_ID x, inst_UserID x)) (t_instances s)" by (rule map_upd_where_key) simp
    then show "(\<lambda>x. (inst_ID x, inst_UserID x)) ` set (t_instances s) \<subseteq>
        (\<lambda>x. (inst_ID x, inst_UserID x)) ` set (t_instances (s\<lparr>t_instances := upd_where (inst_match inst) (inst_written E inst now) (t_instances s)\<rparr>))"
      by (simp del: set_map add: set_map [symmetric])
  qed simp_all
  then show "confined keeps_owned (InstanceRepository_Update E inst)" unfolding InstanceRepository_Update_def
    by (intro own.cf_intros)
  show "confined keeps_owned (InstanceRepository_Delete E ctx i)" unfolding InstanceRepository_Delete_def
    by (intro own.cf_intros owned_delete_instance) simp
qed

lemma own_lookups:
  "confined keeps_owned (VpcRepository_GetByID E ctx v)" "confined keeps_owned (VpcRepository_GetByName ctx n)"
  "confined keeps_owned (SecurityGroupRepository_GetByID ctx g)" "confined keeps_owned (GetInstance E ctx n)"
  "confined keeps_owned (syncGroupFlows E ctx sg)" "confined keeps_owned (verifyOwnership ctx i g)"
  unfolding VpcRepository_GetByID_def VpcRepository_GetByName_def SecurityGroupRepository_GetByID_def getRulesForGroup_def GetInstance_def
    InstanceRepository_GetByID_def InstanceRepository_GetByName_def syncGroupFlows_def verifyOwnership_def
  by (intro own.cf_intros)+


lemma own_volumes: "confined keeps_owned (VolumeRepository_Update v)" "confined keeps_owned (VolumeRepository_ListByInstanceID ctx i)"
  unfolding VolumeRepository_Update_def VolumeRepository_ListByInstanceID_def by (intro own.cf_intros owned_same; simp)+

lemma own_launch: "confined keeps_owned (LaunchInstance E ctx n img p v sn vs)"
  unfolding LaunchInstance_def resolveNetworkConfig_def SubnetRepository_GetByID_def allocateIP_def InstanceRepository_ListBySubnet_def
    resolveVolumes_def resolveVolume_def getVolumeByIDOrName_def VolumeRepository_GetByID_def VolumeRepository_GetByName_def plumbNetwork_def
    updateVolumesAfterLaunch_def
  by (intro own.cf_intros own_instances own_lookups own_volumes)

lemma own_stop: "confined keeps_owned (StopInstance E ctx n)"
  unfolding StopInstance_def by (intro own.cf_intros own_instances own_lookups)

lemma own_terminate: "confined keeps_owned (TerminateInstance E ctx n)"
proof -
  have "confined keeps_owned (case st of StatusRunning \<Rightarrow> metricC a | StatusStopped \<Rightarrow> metricC b | _ \<Rightarrow> returnC ())" for st a b
    by (cases st) (auto intro: own.cf_intros)
  then show ?thesis unfolding TerminateInstance_def removeInstanceContainer_def releaseAttachedVolumes_def releaseVolume_def
    by (intro own.cf_intros own_instances own_lookups own_volumes)
qed

lemma own_vpc: "confined keeps_owned (DeleteVPC E ctx n)"
  unfolding DeleteVPC_def GetVPC_def VpcRepository_Delete_def by (intro own.cf_intros own_lookups owned_delete_vpc)

lemma own_groups:
  "confined keeps_owned (SecurityGroupService_CreateGroup E ctx v n d)" "confined keeps_owned (SecurityGroupService_DeleteGroup E ctx i)"
  "confined keeps_owned (SecurityGroupService_AddRule E ctx i rule)"
  unfolding SecurityGroupService_CreateGroup_def SecurityGroupService_DeleteGroup_def SecurityGroupService_AddRule_def
    SecurityGroupRepository_Create_def SecurityGroupRepository_Delete_def SecurityGroupRepository_AddRule_def
  by (intro own.cf_intros own_lookups owned_delete_sg; auto simp: keeps_owned_def owned_def; fastforce)+


text \<open>A membership is written only after both ownership checks.\<close>

lemma owned_join:
  assumes "x \<in> set (t_instances s)" "y \<in> set (t_security_groups s)" "inst_ID x = i" "sg_ID y = g" "inst_UserID x = sg_UserID y"
    and "t_instance_security_groups s' = t_instance_security_groups s @ [(i, g)]" "t_instances s' = t_instances s" "t_security_groups s' = t_security_groups s"
  shows "keeps_owned s s'"
  using assms unfolding keeps_owned_def owned_def by auto

lemma own_sgTx: "confined keeps_owned m \<Longrightarrow> confined keeps_owned (sgTxC m)"
  unfolding sgTxC_def by (intro own.cf_intros)

lemma own_join: "confined keeps_owned (AddInstanceToGroup ctx i g)"
proof -
  let ?body = "bindC (verifyOwnership ctx i g) (\<lambda>_. mapErrC (Wrap Internal ''failed to add instance to group'')
       (insertC (\<lambda>s. if (i, g) \<in> set (t_instance_security_groups s) then []
                     else [(\<not> has_instance s i, ''instance_security_groups_instance_id_fkey''),
                           (\<not> list_ex (\<lambda>x. sg_ID x = g) (t_security_groups s), ''instance_security_groups_group_id_fkey'')])
                (\<lambda>s. if (i, g) \<in> set (t_instance_security_groups s) then s
                     else s\<lparr>t_instance_security_groups := t_instance_security_groups s @ [(i, g)]\<rparr>)))"
  have "confined keeps_owned ?body"
  proof (rule confinedI)
    fix s
    have "wp ?body (\<lambda>r s'. keeps_owned s s') s"
      unfolding verifyOwnership_def
      by (auto simp: wps owned_same intro!: wp_queryRowC wp_insertC dest!: find_Some_set)
        (rule owned_join, assumption, assumption, simp_all)
    then show "keeps_owned s (snd (?body s))" by (simp add: wp_snd)
  qed
  then show ?thesis unfolding AddInstanceToGroup_def by (rule own_sgTx)
qed

lemma own_leave: "confined keeps_owned (RemoveInstanceFromGroup ctx i g)"
  unfolding RemoveInstanceFromGroup_def sgTxC_def
  by (intro own.cf_intros own_lookups) (auto simp: keeps_owned_def owned_def)

section \<open>Runs of the system\<close>

inductive sg_reach :: "env \<Rightarrow> world \<Rightarrow> bool" for E where
  empty: "t_instance_security_groups s = [] \<Longrightarrow> sg_reach E s"
| create: "sg_reach E s \<Longrightarrow> sg_reach E (snd (SecurityGroupService_CreateGroup E ctx v n d s))"
| delete: "sg_reach E s \<Longrightarrow> sg_reach E (snd (SecurityGroupService_DeleteGroup E ctx i s))"
| add_rule: "sg_reach E s \<Longrightarrow> sg_reach E (snd (SecurityGroupService_AddRule E ctx i rule s))"
| attach: "sg_reach E s \<Longrightarrow> sg_reach E (snd (AttachToInstance E ctx i g s))"
| detach: "sg_reach E s \<Longrightarrow> sg_reach E (snd (DetachFromInstance ctx i g s))"
| launch: "sg_reach E s \<Longrightarrow> sg_reach E (snd (LaunchInstance E ctx n img p v' sn vs s))"
| stop: "sg_reach E s \<Longrightarrow> sg_reach E (snd (StopInstance E ctx n s))"
| terminate: "sg_reach E s \<Longrightarrow> sg_reach E (snd (TerminateInstance E ctx n s))"
| delete_vpc: "sg_reach E s \<Longrightarrow> sg_reach E (snd (DeleteVPC E ctx n s))"
| time: "sg_reach E s \<Longrightarrow> clock s \<le> t \<Longrightarrow> sg_reach E (s\<lparr>clock := t, faults := fs\<rparr>)"

lemma own_attach: "confined keeps_owned (AttachToInstance E ctx i g)" "confined keeps_owned (DetachFromInstance ctx i g)"
  unfolding AttachToInstance_def DetachFromInstance_def by (intro own.cf_intros own_join own_leave own_lookups)+

lemmas own_steps = own_groups own_attach own_launch own_stop own_terminate own_vpc

lemma sg_reach_owned: "sg_reach E s \<Longrightarrow> owned s"
proof (induction rule: sg_reach.induct)
  case (time s t fs)
  then show ?case by (simp add: owned_def)
next
  case (empty s)
  then show ?case by (simp add: owned_def)
qed (simp_all add: own_steps [THEN confinedD, unfolded keeps_owned_def])

section \<open>Properties\<close>

text \<open>C25. Membership stays within a tenant: in every state the system reaches, an instance is a member of security
  groups of its own owner only, and both still exist, whatever is attached, terminated or deleted, by whom,
  and whatever fails.\<close>

theorem membership_within_tenant:
  assumes "sg_reach E s" and "(i, g) \<in> set (t_instance_security_groups s)"
  shows "\<exists>x \<in> set (t_instances s). \<exists>y \<in> set (t_security_groups s). inst_ID x = i \<and> sg_ID y = g \<and> inst_UserID x = sg_UserID y"
  using sg_reach_owned [OF assms(1)] assms(2) by (auto simp: owned_def)

text \<open>A rule that is added is not enforced: without faults the flows sent to the network are those of the rules
  the group had before the call, and the new rule's flow is not among them.\<close>

theorem AddRule_not_enforced:
  assumes "faults s = []" and "find (\<lambda>g. sg_ID g = i \<and> sg_UserID g = u) (t_security_groups s) = Some sg"
    and "find (\<lambda>v. vpc_ID v = sg_VPCID sg \<and> vpc_UserID v = u) (t_vpcs s) = Some vpc"
    and "rule_Direction rule = ''ingress'' \<or> rule_Direction rule = ''egress''"
    and "uuid_at E (uuid_ctr s) \<notin> rule_ID ` set (t_security_rules s)"
  shows "\<exists>rule' s'. SecurityGroupService_AddRule E (Some u) i rule s = (Ok rule', s') \<and>
    t_security_rules s' = t_security_rules s @ [rule'] \<and> rule_GroupID rule' = i \<and>
    calls s' = calls s @ map (\<lambda>r. BAddFlowRule (vpc_NetworkID vpc) (translateToFlow r))
      (sort_key (\<lambda>r. - rule_Priority r) (filter (\<lambda>r. rule_GroupID r = i) (t_security_rules s)))"
proof -
  have flows: "forC rs (\<lambda>r. backendC (BAddFlowRule n (translateToFlow r))) t =
      (Ok (), t\<lparr>calls := calls t @ map (\<lambda>r. BAddFlowRule n (translateToFlow r)) rs\<rparr>)" if "faults t = []" for rs n t
    using that by (induction rs arbitrary: t) (simp_all add: run)
  have sg: "sg_ID sg = i" "sg \<in> set (t_security_groups s)" using assms(2) by (auto dest: find_Some_set)
  have "wp (SecurityGroupService_AddRule E (Some u) i rule) (\<lambda>r s'. \<exists>rule'. r = Ok rule' \<and>
    t_security_rules s' = t_security_rules s @ [rule'] \<and> rule_GroupID rule' = i \<and>
    calls s' = calls s @ map (\<lambda>r. BAddFlowRule (vpc_NetworkID vpc) (translateToFlow r))
      (sort_key (\<lambda>r. - rule_Priority r) (filter (\<lambda>r. rule_GroupID r = i) (t_security_rules s)))) s"
    using assms sg
    by (auto simp: SecurityGroupService_AddRule_def SecurityGroupRepository_GetByID_def getRulesForGroup_def SecurityGroupRepository_AddRule_def
        syncGroupFlows_def VpcRepository_GetByID_def Let_def wps wpnf wp_def [of "forC _ _"] flows list_ex_iff logged_simps
        intro!: wp_Log_nf split: outcome.splits)
  then show ?thesis unfolding wp_def by (cases "SecurityGroupService_AddRule E (Some u) i rule s") auto
qed

text \<open>A port range is narrowed to its first port: the flow of a rule for several ports is the flow of the rule for
  the lowest of them.\<close>

theorem port_range_truncated:
  assumes "0 < rule_PortMin rule" and "rule_PortMin rule < rule_PortMax rule" and "rule_Protocol rule = ''tcp'' \<or> rule_Protocol rule = ''udp''"
  shows "translateToFlow rule = translateToFlow (rule\<lparr>rule_PortMax := rule_PortMin rule\<rparr>)"
  using assms by (auto simp: translateToFlow_def Let_def)

section \<open>Witnesses\<close>

definition sample_sg :: SecurityGroup where
  "sample_sg = \<lparr>sg_ID = 70, sg_UserID = 1, sg_VPCID = 20, sg_Name = ''web'', sg_Description = [], sg_ARN = [], sg_Rules = [], sg_CreatedAt = 0\<rparr>"

definition sample_rule :: SecurityRule where
  "sample_rule = \<lparr>rule_ID = 71, rule_GroupID = 70, rule_Direction = ''ingress'', rule_Protocol = ''tcp'', rule_PortMin = 80, rule_PortMax = 90,
     rule_CIDR = ''0.0.0.0/0'', rule_Priority = 100, rule_CreatedAt = 0\<rparr>"

abbreviation sample_firewall :: world where
  "sample_firewall \<equiv> sample_net\<lparr>t_security_groups := [sample_sg], t_instances := [sample_instance]\<rparr>"

theorem port_range_truncated_witness:
  "translateToFlow sample_rule = translateToFlow (sample_rule\<lparr>rule_PortMax := 80\<rparr>)"
  using port_range_truncated [of sample_rule] by (simp add: sample_rule_def)

theorem AddRule_not_enforced_witness:
  "\<exists>rule' s'. SecurityGroupService_AddRule sample_env (Some 1) 70 sample_rule sample_firewall = (Ok rule', s') \<and>
     t_security_rules s' = [rule'] \<and> calls s' = []"
  using AddRule_not_enforced [of sample_firewall 70 1 sample_sg sample_vpc sample_rule sample_env] by (auto simp: sample_sg_def sample_rule_def)

theorem membership_within_tenant_witness:
  "\<exists>s. sg_reach sample_env s \<and> (40, 70) \<in> set (t_instance_security_groups s) \<and>
     (\<exists>x \<in> set (t_instances s). \<exists>y \<in> set (t_security_groups s). inst_ID x = 40 \<and> sg_ID y = 70 \<and> inst_UserID x = sg_UserID y)"
proof -
  let ?s = "snd (AttachToInstance sample_env (Some 1) 40 70 sample_firewall)"
  have r: "sg_reach sample_env ?s" by (intro sg_reach.attach sg_reach.empty) simp
  have "(40, 70) \<in> set (t_instance_security_groups ?s)"
    by (simp add: AttachToInstance_def AddInstanceToGroup_def sgTxC_def undoC_def verifyOwnership_def pingC_nf run has_instance_def sample_sg_def
        SecurityGroupRepository_GetByID_def getRulesForGroup_def syncGroupFlows_def VpcRepository_GetByID_def)
  with membership_within_tenant [OF r this] r show ?thesis by blast
qed

end
