(* ===== verification/Crypto.thy ===== *)
theory Crypto
  imports World
begin

text \<open>
  The package \<^verbatim>\<open>pkg/crypto\<close> and the part of \<^verbatim>\<open>encoding/base64\<close> it uses. The key derivation and the
  authenticated cipher are parameters; what the secret service relies on of them is the locale
  \<open>sealed_env\<close>.
\<close>

section \<open>Base64\<close>

definition alphabet :: string where
  "alphabet = ''ABCDEFGHIJKLMNOPQRSTUVWXYZabcdefghijklmnopqrstuvwxyz0123456789+/''"

fun index_from :: "nat \<Rightarrow> char \<Rightarrow> string \<Rightarrow> nat option" where
  "index_from n c [] = None"
| "index_from n c (d # ds) = (if c = d then Some n else index_from (Suc n) c ds)"

definition sextet :: "char \<Rightarrow> nat option" where
  "sextet c = index_from 0 c alphabet"

definition enc :: "nat \<Rightarrow> char" where
  "enc k = alphabet ! (k mod 64)"

text \<open>Three bytes become four characters; a last group of one or two bytes is padded.\<close>

fun EncodeToString :: "8 word list \<Rightarrow> string" where
  "EncodeToString [] = []"
| "EncodeToString [a] =
     (let v = unat a * 65536 in [enc (v div 262144), enc (v div 4096), CHR ''='', CHR ''=''])"
| "EncodeToString [a, b] =
     (let v = unat a * 65536 + unat b * 256 in [enc (v div 262144), enc (v div 4096), enc (v div 64), CHR ''=''])"
| "EncodeToString (a # b # c # bs) =
     (let v = unat a * 65536 + unat b * 256 + unat c
      in enc (v div 262144) # enc (v div 4096) # enc (v div 64) # enc v # EncodeToString bs)"

definition quantum :: "nat \<Rightarrow> nat \<Rightarrow> nat \<Rightarrow> nat \<Rightarrow> 8 word list" where
  "quantum i j k l = (let v = i * 262144 + j * 4096 + k * 64 + l in [word_of_nat (v div 65536), word_of_nat (v div 256), word_of_nat v])"

text \<open>The decoder takes groups of four; padding is allowed in the last group only.\<close>

fun decode_groups :: "string \<Rightarrow> 8 word list option" where
  "decode_groups [] = Some []"
| "decode_groups (a # b # c # d # cs) =
     (case (sextet a, sextet b) of
        (Some i, Some j) \<Rightarrow>
          (if c = CHR ''='' then if d = CHR ''='' \<and> cs = [] then Some (take 1 (quantum i j 0 0)) else None
           else case sextet c of
             None \<Rightarrow> None
           | Some k \<Rightarrow>
               (if d = CHR ''='' then if cs = [] then Some (take 2 (quantum i j k 0)) else None
                else case sextet d of
                  None \<Rightarrow> None
                | Some l \<Rightarrow> map_option (\<lambda>bs. quantum i j k l @ bs) (decode_groups cs)))
      | _ \<Rightarrow> None)"
| "decode_groups _ = None"

text \<open>Line breaks are skipped wherever they stand.\<close>

definition DecodeString :: "string \<Rightarrow> 8 word list option" where
  "DecodeString s = decode_groups (filter (\<lambda>c. c \<noteq> CHR 0x0D \<and> c \<noteq> CHR 0x0A) s)"

lemma alphabet_table: "list_all (\<lambda>k. sextet (enc k) = Some k \<and> enc k \<noteq> CHR ''='' \<and> enc k \<noteq> CHR 0x0D \<and> enc k \<noteq> CHR 0x0A) [0..<64]"
  by code_simp

lemma enc_mod: "enc (k mod 64) = enc k"
  by (simp add: enc_def)

lemma enc_facts: "sextet (enc k) = Some (k mod 64)" "enc k \<noteq> CHR ''=''" "enc k \<noteq> CHR 0x0D" "enc k \<noteq> CHR 0x0A"
  using alphabet_table enc_mod [of k] unfolding list_all_iff by (auto dest: bspec [of _ _ "k mod 64"])

lemma byte_lt: "unat (a :: 8 word) < 256"
  using unsigned_less [of a] by simp

lemma split_sextets:
  assumes "v < 16777216"
  shows "v div 262144 mod 64 * 262144 + v div 4096 mod 64 * 4096 + v div 64 mod 64 * 64 + v mod 64 = (v :: nat)"
proof -
  define q where "q = v div 64"
  define r where "r = q div 64"
  have v: "v = q * 64 + v mod 64" and q: "q = r * 64 + q mod 64" and r: "r = (r div 64) * 64 + r mod 64"
    unfolding q_def r_def by simp_all
  have "v div 4096 = r" "v div 262144 = r div 64" unfolding q_def r_def by (simp_all add: div_mult2_eq [symmetric])
  moreover have "r div 64 mod 64 = r div 64" using assms unfolding q_def r_def by (simp add: div_mult2_eq [symmetric])
  ultimately have "v div 262144 mod 64 = r div 64" "v div 4096 mod 64 = r mod 64" by simp_all
  then show ?thesis using v q r unfolding q_def [symmetric] by linarith
qed

lemma byte_wrap: "x * (256 :: 8 word) = 0" "x * (65536 :: 8 word) = 0"
proof -
  have z: "(256 :: 8 word) = 0" using word_exp_length_eq_0 [where 'a = 8] by simp
  then show "x * 256 = 0" by (simp only: mult_zero_right)
  have "x * 65536 = x * 256 * (256 :: 8 word)" by (simp add: mult.assoc)
  then show "x * 65536 = 0" by (simp only: z mult_zero_right)
qed

lemma split_bytes:
  "word_of_nat ((unat (a :: 8 word) * 65536 + unat (b :: 8 word) * 256 + unat (c :: 8 word)) div 65536) = a"
  "word_of_nat ((unat a * 65536 + unat b * 256 + unat c) div 256) = b"
  "word_of_nat (unat a * 65536 + unat b * 256 + unat c) = c"
proof -
  let ?v = "unat a * 65536 + unat b * 256 + unat c"
  have "?v = unat a * 65536 + (unat b * 256 + unat c)" "unat b * 256 + unat c < 65536" using byte_lt [of b] byte_lt [of c] by simp_all
  then have "?v div 65536 = unat a" by (metis add.commute div_mult_self1 div_less add_0_right zero_neq_numeral add_0)
  then show "word_of_nat (?v div 65536) = a" by simp
  have "?v div 256 = unat a * 256 + unat b" using byte_lt [of c] by simp
  then show "word_of_nat (?v div 256) = b" by (simp add: byte_wrap)
  show "word_of_nat ?v = c" by (simp add: byte_wrap)
qed

lemma decode_encode_groups: "decode_groups (EncodeToString bs) = Some bs"
proof (induction bs rule: EncodeToString.induct)
  case (2 a)
  let ?v = "unat a * 65536 + unat (0 :: 8 word) * 256 + unat (0 :: 8 word)"
  have "?v div 64 mod 64 = 0" "?v mod 64 = 0" by (simp_all add: mult.commute [of "unat a"])
  then show ?case using split_sextets [of ?v] split_bytes [of a 0 0] byte_lt [of a] by (simp add: enc_facts quantum_def Let_def)
next
  case (3 a b)
  let ?v = "unat a * 65536 + unat b * 256 + unat (0 :: 8 word)"
  have "?v = 64 * (unat a * 1024 + unat b * 4)" by simp
  then have "?v mod 64 = 0" by (metis mod_mult_self1_is_0)
  then show ?case using split_sextets [of ?v] split_bytes [of a b 0] byte_lt [of a] byte_lt [of b] by (simp add: enc_facts quantum_def Let_def)
next
  case (4 a b c bs)
  then show ?case
    using split_sextets [of "unat a * 65536 + unat b * 256 + unat c"] split_bytes [of a b c] byte_lt [of a] byte_lt [of b] byte_lt [of c]
    by (simp add: enc_facts quantum_def Let_def)
qed simp

lemma EncodeToString_chars: "c \<in> set (EncodeToString bs) \<Longrightarrow> c \<noteq> CHR 0x0D \<and> c \<noteq> CHR 0x0A"
  by (induction bs rule: EncodeToString.induct) (auto simp: Let_def enc_facts)

lemma base64_roundtrip: "DecodeString (EncodeToString bs) = Some bs"
  unfolding DecodeString_def using EncodeToString_chars by (simp add: filter_True decode_encode_groups)

section \<open>Keys and ciphertexts\<close>

definition DeriveKey :: "env \<Rightarrow> string \<Rightarrow> 8 word list \<Rightarrow> 8 word list" where
  "DeriveKey E masterKey' salt = hkdf E masterKey' salt"

definition nonceSize :: nat where
  "nonceSize = 12"

definition aes_key_error :: "8 word list \<Rightarrow> error option" where
  "aes_key_error key =
     (if length key \<in> {16, 24, 32} then None else Some (Errorf (''crypto/aes: invalid key size '' @ nat_string (length key)) None))"

definition Encrypt :: "env \<Rightarrow> string \<Rightarrow> 8 word list \<Rightarrow> string op" where
  "Encrypt E plaintext key =
     (case aes_key_error key of
        Some err \<Rightarrow> failC err
      | None \<Rightarrow>
     bindC (randRead E nonceSize) (\<lambda>nonce.
     returnC (EncodeToString (nonce @ gcm_seal E key nonce plaintext))))"

text \<open>The offset in the text of a decoding error is left out.\<close>

definition Decrypt :: "env \<Rightarrow> string \<Rightarrow> 8 word list \<Rightarrow> error + string" where
  "Decrypt E encodedCiphertext key =
     (case DecodeString encodedCiphertext of
        None \<Rightarrow> Inl (Errorf ''illegal base64 data'' None)
      | Some ciphertext \<Rightarrow>
     (case aes_key_error key of
        Some err \<Rightarrow> Inl err
      | None \<Rightarrow>
     if length ciphertext < nonceSize then Inl (Errorf ''ciphertext too short'' None)
     else case gcm_open E key (take nonceSize ciphertext) (drop nonceSize ciphertext) of
        None \<Rightarrow> Inl (Errorf ''cipher: message authentication failed'' None)
      | Some plaintext \<Rightarrow> Inr plaintext))"

text \<open>What is relied on of the third-party code: keys of 32 bytes, reads of the length asked for, and a cipher
  that opens what it sealed under the same key and nonce.\<close>

definition sealing :: "env \<Rightarrow> bool" where
  "sealing E \<longleftrightarrow> (\<forall>k salt. length (hkdf E k salt) = 32) \<and> (\<forall>n k. length (rand_at E n k) = k) \<and>
     (\<forall>key nonce p. gcm_open E key nonce (gcm_seal E key nonce p) = Some p)"

lemma key_ok: "sealing E \<Longrightarrow> aes_key_error (DeriveKey E k salt) = None"
  by (simp add: aes_key_error_def DeriveKey_def sealing_def)

lemma decrypt_sealed:
  "sealing E \<Longrightarrow> aes_key_error key = None \<Longrightarrow> length nonce = nonceSize \<Longrightarrow>
    Decrypt E (EncodeToString (nonce @ gcm_seal E key nonce p)) key = Inr p"
  by (simp add: Decrypt_def base64_roundtrip sealing_def)

text \<open>Encryption either fails for want of random bytes or gives a text that decrypts to the plaintext.\<close>

lemma wp_Encrypt:
  assumes "sealing E" and "aes_key_error key = None"
    and "\<And>msg fs. Q (Err (ExtError msg)) (s\<lparr>faults := fs\<rparr>)"
    and "\<And>c fs. Decrypt E c key = Inr p \<Longrightarrow> Q (Ok c) (s\<lparr>faults := fs, rand_ctr := Suc (rand_ctr s)\<rparr>)"
  shows "wp (Encrypt E p key) Q s"
proof -
  have "Decrypt E (EncodeToString (rand_at E n nonceSize @ gcm_seal E key (rand_at E n nonceSize) p)) key = Inr p" for n
    using assms(1) by (intro decrypt_sealed assms) (simp add: sealing_def)
  then show ?thesis using assms unfolding Encrypt_def randRead_def by (auto simp: wps intro!: wp_extC) (auto simp: wp_def returnC_def)
qed

lemma byte_char: "char_of (unat (word_of_nat (of_char c) :: 8 word)) = c"
  by (simp add: unat_of_nat)

lemma sealing_sample [simp]: "sealing sample_env"
  by (auto simp: sealing_def comp_def byte_char min_def)

end
