(* ===== verification/Secrets.thy ===== *)
theory Secrets
  imports Crypto Frames "HOL-Library.List_Lexorder" "HOL-Library.Char_ord"
begin

text \<open>
  The secret service \<^verbatim>\<open>secret.go\<close> over the table \<^verbatim>\<open>secrets\<close> (\<^verbatim>\<open>secret_repo.go\<close>): values are stored encrypted
  under a key derived from the configured master key and the owner.
\<close>

section \<open>The repository\<close>

definition SecretRepository_Create :: "Secret \<Rightarrow> unit op" where
  "SecretRepository_Create x =
     mapErrC (\<lambda>e. Errorf ''failed to create secret'' (Some e))
       (insertC (\<lambda>s. [(sec_ID x \<in> sec_ID ` set (t_secrets s), ''secrets_pkey''),
                      (list_ex (\<lambda>r. sec_Name r = sec_Name x \<and> sec_UserID r = sec_UserID x) (t_secrets s), ''secrets_name_user_key''),
                      (\<not> has_user s (sec_UserID x), ''secrets_user_id_fkey'')])
                (\<lambda>s. s\<lparr>t_secrets := t_secrets s @ [x]\<rparr>))"

definition secret_err :: "string \<Rightarrow> error \<Rightarrow> error" where
  "secret_err msg e = (if e = ErrNoRows then New NotFound ''secret not found'' else Errorf msg (Some e))"

definition SecretRepository_GetByID :: "ctx \<Rightarrow> uuid \<Rightarrow> Secret op" where
  "SecretRepository_GetByID ctx i =
     mapErrC (secret_err ''failed to get secret'')
       (queryRowC (\<lambda>s. find (\<lambda>r. sec_ID r = i \<and> sec_UserID r = UserIDFromContext ctx) (t_secrets s)))"

definition SecretRepository_GetByName :: "ctx \<Rightarrow> string \<Rightarrow> Secret op" where
  "SecretRepository_GetByName ctx name =
     mapErrC (secret_err ''failed to get secret by name'')
       (queryRowC (\<lambda>s. find (\<lambda>r. sec_Name r = name \<and> sec_UserID r = UserIDFromContext ctx) (t_secrets s)))"

definition SecretRepository_List :: "ctx \<Rightarrow> Secret list op" where
  "SecretRepository_List ctx =
     mapErrC (\<lambda>e. Errorf ''failed to list secrets'' (Some e))
       (queryC (\<lambda>s. sort_key sec_Name (filter (\<lambda>r. sec_UserID r = UserIDFromContext ctx) (t_secrets s))))"

definition SecretRepository_Update :: "Secret \<Rightarrow> unit op" where
  "SecretRepository_Update x =
     (let P = (\<lambda>r. sec_ID r = sec_ID x \<and> sec_UserID r = sec_UserID x) in
     bindC nowC (\<lambda>now.
     mapErrC (\<lambda>e. Errorf ''failed to update secret'' (Some e))
       (bindC (execC noConstraint (\<lambda>s. rows_affected P (t_secrets s))
          (\<lambda>s. s\<lparr>t_secrets := upd_where P (\<lambda>r. r\<lparr>sec_EncryptedValue := sec_EncryptedValue x, sec_Description := sec_Description x,
                 sec_UpdatedAt := now, sec_LastAccessedAt := sec_LastAccessedAt x\<rparr>) (t_secrets s)\<rparr>)) (\<lambda>_. returnC ()))))"

definition SecretRepository_Delete :: "ctx \<Rightarrow> uuid \<Rightarrow> unit op" where
  "SecretRepository_Delete ctx i =
     (let P = (\<lambda>r. sec_ID r = i \<and> sec_UserID r = UserIDFromContext ctx) in
     mapErrC (\<lambda>e. Errorf ''failed to delete secret'' (Some e))
       (bindC (execC noConstraint (\<lambda>s. rows_affected P (t_secrets s))
          (\<lambda>s. s\<lparr>t_secrets := filter (\<lambda>r. \<not> P r) (t_secrets s)\<rparr>)) (\<lambda>_. returnC ())))"

section \<open>The service\<close>

text \<open>\<open>None\<close> is the exit of the process: without a key a production server does not start.\<close>

definition NewSecretService_masterKey :: "string \<Rightarrow> string \<Rightarrow> string option" where
  "NewSecretService_masterKey key environment =
     (if key = [] then if environment = ''production'' then None else Some ''default-thecloud-development-key-32chars'' else Some key)"

definition uuid_bytes :: "uuid \<Rightarrow> 8 word list" where
  "uuid_bytes u = map (\<lambda>k. ucast (drop_bit (8 * (15 - k)) u)) [0..<16]"

definition getDerivedKey :: "env \<Rightarrow> uuid \<Rightarrow> 8 word list" where
  "getDerivedKey E userID = DeriveKey E (masterKey E) (uuid_bytes userID)"

definition CreateSecret :: "env \<Rightarrow> ctx \<Rightarrow> string \<Rightarrow> string \<Rightarrow> string \<Rightarrow> Secret op" where
  "CreateSecret E ctx name value description =
     (let userID = UserIDFromContext ctx in
     bindC (mapErrC (Wrap Internal ''failed to encrypt secret'') (Encrypt E value (getDerivedKey E userID))) (\<lambda>encrypted.
     bindC (newUUID E) (\<lambda>i.
     bindC nowC (\<lambda>now.
     let secret = \<lparr>sec_ID = i, sec_UserID = userID, sec_Name = name, sec_EncryptedValue = encrypted, sec_Description = description,
                   sec_CreatedAt = now, sec_UpdatedAt = now, sec_LastAccessedAt = None\<rparr> in
     bindC (SecretRepository_Create secret) (\<lambda>_.
     bindC (ignoreC (RecordEvent E ctx ''SECRET_CREATE'' (uuid_string E i) ''SECRET'' [(''name'', GStr name)])) (\<lambda>_.
     bindC (ignoreC (Log E ctx userID ''secret.create'' ''secret'' (uuid_string E i) [(''name'', GStr name)])) (\<lambda>_.
     returnC secret)))))))"

text \<open>What the two lookups do with the row they found.\<close>

definition accessSecret :: "env \<Rightarrow> ctx \<Rightarrow> Secret \<Rightarrow> Secret op" where
  "accessSecret E ctx secret =
     bindC (mapErrC (Wrap Internal ''failed to decrypt secret'')
              (liftC (Decrypt E (sec_EncryptedValue secret) (getDerivedKey E (sec_UserID secret))))) (\<lambda>decrypted.
     bindC nowC (\<lambda>now.
     let secret = secret\<lparr>sec_LastAccessedAt := Some now\<rparr> in
     bindC (ignoreC (SecretRepository_Update secret)) (\<lambda>_.
     bindC (ignoreC (RecordEvent E ctx ''SECRET_ACCESS'' (uuid_string E (sec_ID secret)) ''SECRET'' [(''name'', GStr (sec_Name secret))])) (\<lambda>_.
     bindC (ignoreC (Log E ctx (sec_UserID secret) ''secret.access'' ''secret'' (uuid_string E (sec_ID secret))
              [(''name'', GStr (sec_Name secret))])) (\<lambda>_.
     returnC (secret\<lparr>sec_EncryptedValue := decrypted\<rparr>))))))"

definition GetSecret :: "env \<Rightarrow> ctx \<Rightarrow> uuid \<Rightarrow> Secret op" where
  "GetSecret E ctx i = bindC (SecretRepository_GetByID ctx i) (accessSecret E ctx)"

definition GetSecretByName :: "env \<Rightarrow> ctx \<Rightarrow> string \<Rightarrow> Secret op" where
  "GetSecretByName E ctx name = bindC (SecretRepository_GetByName ctx name) (accessSecret E ctx)"

definition ListSecrets :: "ctx \<Rightarrow> Secret list op" where
  "ListSecrets ctx =
     bindC (SecretRepository_List ctx) (\<lambda>secrets. returnC (map (\<lambda>x. x\<lparr>sec_EncryptedValue := ''[REDACTED]''\<rparr>) secrets))"

definition DeleteSecret :: "env \<Rightarrow> ctx \<Rightarrow> uuid \<Rightarrow> unit op" where
  "DeleteSecret E ctx i =
     bindC (SecretRepository_GetByID ctx i) (\<lambda>secret.
     bindC (SecretRepository_Delete ctx i) (\<lambda>_.
     bindC (ignoreC (RecordEvent E ctx ''SECRET_DELETE'' (uuid_string E i) ''SECRET'' [(''name'', GStr (sec_Name secret))])) (\<lambda>_.
     ignoreC (Log E ctx (sec_UserID secret) ''secret.delete'' ''secret'' (uuid_string E i) [(''name'', GStr (sec_Name secret))]))))"

section \<open>What a stored secret says\<close>

text \<open>The plaintext of a row, and the statement that the vault holds a value under an identifier, an owner and a
  name.\<close>

definition plain :: "env \<Rightarrow> Secret \<Rightarrow> string option" where
  "plain E x = (case Decrypt E (sec_EncryptedValue x) (getDerivedKey E (sec_UserID x)) of Inl _ \<Rightarrow> None | Inr p \<Rightarrow> Some p)"

definition holds :: "env \<Rightarrow> uuid \<Rightarrow> uuid \<Rightarrow> string \<Rightarrow> string \<Rightarrow> world \<Rightarrow> bool" where
  "holds E i u name value s \<longleftrightarrow> distinct (map sec_ID (t_secrets s)) \<and>
     (\<exists>r \<in> set (t_secrets s). sec_ID r = i \<and> sec_UserID r = u \<and> sec_Name r = name \<and> plain E r = Some value)"

definition keeps_held :: "env \<Rightarrow> uuid \<Rightarrow> uuid \<Rightarrow> string \<Rightarrow> string \<Rightarrow> world \<Rightarrow> world \<Rightarrow> bool" where
  "keeps_held E i u name value s s' \<longleftrightarrow> (holds E i u name value s \<longrightarrow> holds E i u name value s')"

lemma held_same: "core s' = core s \<Longrightarrow> keeps_held E i u name v s s'"
  by (simp add: keeps_held_def holds_def core_eq_iff)

interpretation held: core_frame "keeps_held E i u name v" for E i u name v
proof unfold_locales
  show "keeps_held E i u name v s s" for s by (simp add: keeps_held_def)
  show "keeps_held E i u name v a c" if "keeps_held E i u name v a b" "keeps_held E i u name v b c" for a b c
    using that by (simp add: keeps_held_def)
qed (rule held_same)

text \<open>A secret is added, its access time is written, or another one is deleted.\<close>

lemma held_append:
  "t_secrets s' = t_secrets s @ [x] \<Longrightarrow> sec_ID x \<notin> sec_ID ` set (t_secrets s) \<Longrightarrow> keeps_held E i u name v s s'"
  by (auto simp: keeps_held_def holds_def)

lemma held_filter:
  "(\<And>r. sec_ID r = i \<Longrightarrow> sec_UserID r = u \<Longrightarrow> Q r) \<Longrightarrow> keeps_held E i u name v s (s\<lparr>t_secrets := filter Q (t_secrets s)\<rparr>)"
  by (auto simp: keeps_held_def holds_def distinct_map_filter)

lemma held_faults: "keeps_held E i u name v s (s\<lparr>faults := fs\<rparr>)"
  by (simp add: held_same)

lemma held_create: "confined (keeps_held E i u name v) (SecretRepository_Create x)"
proof (rule confinedI)
  fix s
  have "wp (SecretRepository_Create x) (\<lambda>r s'. keeps_held E i u name v s s') s"
    unfolding SecretRepository_Create_def
    by (auto simp: wps held_faults intro!: wp_insertC held_append split: if_splits)
  then show "keeps_held E i u name v s (snd (SecretRepository_Create x s))" by (simp add: wp_snd)
qed

lemma held_delete: "(j, UserIDFromContext ctx) \<noteq> (i, u) \<Longrightarrow> confined (keeps_held E i u name v) (SecretRepository_Delete ctx j)"
  unfolding SecretRepository_Delete_def Let_def by (intro held.cf_intros held_filter) auto

text \<open>The write-back of an access changes no ciphertext, because the row is the only one with its key.\<close>

lemma map_upd_where_same: "(\<And>r. r \<in> set rows \<Longrightarrow> P r \<Longrightarrow> g (f r) = g r) \<Longrightarrow> map g (upd_where P f rows) = map g rows"
  by (induction rows) (auto simp: upd_where_def)

definition vault :: "env \<Rightarrow> world \<Rightarrow> (uuid \<times> uuid \<times> string \<times> string option) list" where
  "vault E s = map (\<lambda>r. (sec_ID r, sec_UserID r, sec_Name r, plain E r)) (t_secrets s)"

lemma holds_vault:
  "holds E i u name value s \<longleftrightarrow> distinct (map fst (vault E s)) \<and> (i, u, name, Some value) \<in> set (vault E s)"
  by (auto simp: holds_def vault_def comp_def image_iff)

lemma plain_upd: "plain E (r\<lparr>sec_EncryptedValue := sec_EncryptedValue r, sec_Description := d, sec_UpdatedAt := t, sec_LastAccessedAt := a\<rparr>) = plain E r"
  by (simp add: plain_def)

lemma access_vault:
  assumes "distinct (map sec_ID (t_secrets s))" and "x \<in> set (t_secrets s)"
  shows "vault E (s\<lparr>t_secrets := upd_where (\<lambda>r. sec_ID r = sec_ID x \<and> sec_UserID r = sec_UserID x)
     (\<lambda>r. r\<lparr>sec_EncryptedValue := sec_EncryptedValue x, sec_Description := d, sec_UpdatedAt := t, sec_LastAccessedAt := a\<rparr>) (t_secrets s)\<rparr>) = vault E s"
proof -
  have "r = x" if "r \<in> set (t_secrets s)" "sec_ID r = sec_ID x" for r
    using distinct_key_unique [OF assms(1) that(1) assms(2) that(2)] .
  then have "plain E (r\<lparr>sec_EncryptedValue := sec_EncryptedValue x, sec_Description := d, sec_UpdatedAt := t, sec_LastAccessedAt := a\<rparr>) = plain E r"
    if "r \<in> set (t_secrets s)" "sec_ID r = sec_ID x" for r using that plain_upd by metis
  then show ?thesis unfolding vault_def by (auto intro!: map_upd_where_same)
qed

text \<open>An access returns the plaintext and leaves the vault as it is, whatever fails on the way.\<close>

lemma vault_core: "core s' = core s \<Longrightarrow> vault E s' = vault E s"
  by (simp add: vault_def core_eq_iff)

lemma wp_accessSecret:
  assumes x: "x \<in> set (t_secrets s)" "distinct (map sec_ID (t_secrets s))"
  shows "wp (accessSecret E ctx x) (\<lambda>r s'. vault E s' = vault E s \<and>
    (case plain E x of None \<Rightarrow> \<exists>e. r = Err e
     | Some p \<Rightarrow> \<exists>y. r = Ok y \<and> sec_ID y = sec_ID x \<and> sec_UserID y = sec_UserID x \<and> sec_Name y = sec_Name x \<and> sec_EncryptedValue y = p)) s"
proof (cases "Decrypt E (sec_EncryptedValue x) (getDerivedKey E (sec_UserID x))")
  case (Inl e)
  then show ?thesis by (simp add: accessSecret_def wps plain_def)
next
  case (Inr p)
  have upd: "wp (ignoreC (SecretRepository_Update (x\<lparr>sec_LastAccessedAt := a\<rparr>))) (\<lambda>r s'. r = Ok () \<and> vault E s' = vault E s) s" for a
    using access_vault [OF x(2,1), of E] unfolding SecretRepository_Update_def Let_def
    by (auto simp: wps wp_nowC intro!: wp_execC) (simp add: vault_def)+
  show ?thesis
    unfolding accessSecret_def
    by (auto simp: Inr plain_def wps wp_nowC Let_def simp del: wp_ignoreC intro!: wp_ignored wp_mono [OF upd] dest!: vault_core [where E = E])
qed

section \<open>Runs of the service\<close>

lemma held_vault: "vault E s' = vault E s \<Longrightarrow> keeps_held E i u name v s s'"
  by (simp add: keeps_held_def holds_vault)

text \<open>An access keeps every held secret: where identifiers are not unique nothing is held.\<close>

lemma held_access:
  "confined (keeps_held E i u name v) (bindC (mapErrC f (queryRowC (\<lambda>s. find (P s) (t_secrets s)))) (accessSecret E ctx))" (is "confined _ ?m")
proof (rule confinedI)
  fix s
  show "keeps_held E i u name v s (snd (?m s))"
  proof (cases "distinct (map sec_ID (t_secrets s))")
    case True
    have "wp (accessSecret E ctx r) (\<lambda>_ s'. vault E s' = vault E s) (s\<lparr>faults := fs\<rparr>)" if "r \<in> set (t_secrets s)" for r fs
      by (rule wp_mono [OF wp_accessSecret]) (use that True in \<open>auto simp: vault_def\<close>)
    then have "wp ?m (\<lambda>_ s'. vault E s' = vault E s) s"
      by (auto simp: wps vault_def intro!: wp_queryRowC dest!: find_Some_set)
    then show ?thesis by (simp add: wp_snd held_vault)
  qed (simp add: keeps_held_def holds_def)
qed

datatype secret_op = SCreate ctx string string string | SGet ctx uuid | SGetByName ctx string | SList ctx | SDelete ctx uuid
  | SEnv time "string option list"

fun secret_exec :: "env \<Rightarrow> secret_op \<Rightarrow> world \<Rightarrow> world" where
  "secret_exec E (SCreate ctx n val d) s = snd (CreateSecret E ctx n val d s)"
| "secret_exec E (SGet ctx i) s = snd (GetSecret E ctx i s)"
| "secret_exec E (SGetByName ctx n) s = snd (GetSecretByName E ctx n s)"
| "secret_exec E (SList ctx) s = snd (ListSecrets ctx s)"
| "secret_exec E (SDelete ctx i) s = snd (DeleteSecret E ctx i s)"
| "secret_exec E (SEnv t fs) s = s\<lparr>clock := t, faults := fs\<rparr>"

definition secret_run :: "env \<Rightarrow> secret_op list \<Rightarrow> world \<Rightarrow> world" where
  "secret_run E ops s = fold (secret_exec E) ops s"

fun deletes :: "uuid \<Rightarrow> uuid \<Rightarrow> secret_op \<Rightarrow> bool" where
  "deletes u i (SDelete ctx j) = (UserIDFromContext ctx = u \<and> j = i)"
| "deletes u i _ = False"

lemma held_GetByID: "confined (keeps_held E i u name v) (GetSecret E ctx j)" "confined (keeps_held E i u name v) (GetSecretByName E ctx n)"
  unfolding GetSecret_def SecretRepository_GetByID_def GetSecretByName_def SecretRepository_GetByName_def by (rule held_access)+

lemma held_step:
  assumes "\<not> deletes u i op'"
  shows "keeps_held E i u name v s (secret_exec E op' s)"
proof (cases op')
  case (SCreate ctx n val d)
  have "confined (keeps_held E i u name v) (CreateSecret E ctx n val d)"
    unfolding CreateSecret_def Encrypt_def by (intro held.cf_intros held_create)
  with SCreate show ?thesis by (simp add: confined_def)
next
  case (SDelete ctx j)
  with assms have "confined (keeps_held E i u name v) (DeleteSecret E ctx j)"
    unfolding DeleteSecret_def SecretRepository_GetByID_def by (intro held.cf_intros held_delete) auto
  with SDelete show ?thesis by (simp add: confined_def)
next
  case (SList ctx)
  have "confined (keeps_held E i u name v) (ListSecrets ctx)"
    unfolding ListSecrets_def SecretRepository_List_def by (intro held.cf_intros)
  with SList show ?thesis by (simp add: confined_def)
next
  case (SEnv t fs)
  then show ?thesis by (simp add: keeps_held_def holds_def)
qed (simp_all add: held_GetByID [THEN confinedD])

lemma held_run: "list_all (\<lambda>op'. \<not> deletes u i op') ops \<Longrightarrow> holds E i u name v s \<Longrightarrow> holds E i u name v (secret_run E ops s)"
  unfolding secret_run_def by (induction ops arbitrary: s) (simp_all add: held_step [unfolded keeps_held_def])

text \<open>Without faults the owner reads the value of a held secret.\<close>

lemma held_read:
  assumes "holds E i u name v s" "faults s = []"
  shows "\<exists>x s'. GetSecret E (Some u) i s = (Ok x, s') \<and> sec_ID x = i \<and> sec_Name x = name \<and> sec_EncryptedValue x = v"
proof -
  obtain r where r: "r \<in> set (t_secrets s)" "sec_ID r = i" "sec_UserID r = u" "sec_Name r = name" "plain E r = Some v"
    and d: "distinct (map sec_ID (t_secrets s))" using assms(1) by (auto simp: holds_def)
  have "find (\<lambda>r. sec_ID r = i \<and> sec_UserID r = u) (t_secrets s) = Some r"
    using find_key_and [OF d r(1), of "\<lambda>r. sec_UserID r = u"] r by simp
  then have "GetSecret E (Some u) i s = accessSecret E (Some u) r s"
    using assms(2) by (simp add: GetSecret_def SecretRepository_GetByID_def run)
  moreover have "wp (accessSecret E (Some u) r) (\<lambda>o' s'. \<exists>y. o' = Ok y \<and> sec_ID y = i \<and> sec_Name y = name \<and> sec_EncryptedValue y = v) s"
    by (rule wp_mono [OF wp_accessSecret [OF r(1) d]]) (use r in auto)
  ultimately show ?thesis by (cases "accessSecret E (Some u) r s") (auto simp: wp_def)
qed

text \<open>A secret that was created is held.\<close>

lemma created_held:
  assumes "sealing E" and "distinct (map sec_ID (t_secrets s))" and "CreateSecret E (Some u) name v d s = (Ok x, s')"
  shows "holds E (sec_ID x) u name v s'"
proof -
  have "wp (CreateSecret E (Some u) name v d) (\<lambda>r s'. \<forall>x. r = Ok x \<longrightarrow> holds E (sec_ID x) u name v s') s"
    unfolding CreateSecret_def Let_def UserIDFromContext_Some
    apply (simp only: wp_bindC wp_mapErrC)
    apply (rule wp_Encrypt [OF assms(1)])
    subgoal by (simp add: getDerivedKey_def key_ok assms(1))
    subgoal by simp
    subgoal for c fs
      using assms(2) unfolding SecretRepository_Create_def
      by (auto simp: wps wp_newUUID wp_nowC holds_def core_eq_iff plain_def simp del: wp_ignoreC intro!: wp_insertC wp_ignored split: if_splits)
    done
  with assms(3) show ?thesis by (simp add: wp_def)
qed

section \<open>Properties\<close>

text \<open>C22. A secret keeps its value until its owner deletes it: whatever is created, read, listed and deleted after a
  successful creation, by whom and with what failures, the owner then reads the value that was stored, under its
  name. The cipher is relied on to open what it sealed.\<close>

theorem secret_roundtrip:
  assumes "sealing E" and "distinct (map sec_ID (t_secrets s))" and "CreateSecret E (Some u) name v d s = (Ok x, s1)"
    and "list_all (\<lambda>op'. \<not> deletes u (sec_ID x) op') ops" and "faults (secret_run E ops s1) = []"
  shows "\<exists>y s2. GetSecret E (Some u) (sec_ID x) (secret_run E ops s1) = (Ok y, s2) \<and> sec_Name y = name \<and> sec_EncryptedValue y = v"
  using held_read [OF held_run [OF assms(4) created_held [OF assms(1-3)]] assms(5)] by blast

section \<open>Witnesses\<close>

theorem secret_roundtrip_witness:
  "\<exists>x s1 y s2. CreateSecret sample_env (Some 1) ''db'' ''hunter2'' [] sample_world = (Ok x, s1) \<and>
     GetSecret sample_env (Some 1) (sec_ID x) (secret_run sample_env [SGet (Some 1) 100, SDelete (Some 2) 100, SEnv 5 []] s1) = (Ok y, s2) \<and>
     sec_EncryptedValue y = ''hunter2''"
proof -
  obtain x s1 where c: "CreateSecret sample_env (Some 1) ''db'' ''hunter2'' [] sample_world = (Ok x, s1)"
    by (simp add: CreateSecret_def Encrypt_def aes_key_error_def getDerivedKey_def DeriveKey_def SecretRepository_Create_def run min_def uuid_bytes_def Let_def
        RecordEvent_def EventRepository_Create_def Log_def AuditRepository_Create_def has_user_def)
  show ?thesis
    using c secret_roundtrip [OF sealing_sample _ c, of "[SGet (Some 1) 100, SDelete (Some 2) 100, SEnv 5 []]"]
    by (auto simp: secret_run_def)
qed

end
