(* ===== verification/Cron.thy ===== *)
theory Cron
  imports Frames "HOL-Library.Multiset"
begin

text \<open>
  Scheduled jobs: the repository \<^verbatim>\<open>cron_repo.go\<close> over \<^verbatim>\<open>cron_jobs\<close> and \<^verbatim>\<open>cron_job_runs\<close>, the service \<^verbatim>\<open>cron.go\<close>
  and the worker \<^verbatim>\<open>cron_worker.go\<close>, which starts one goroutine per due job.
\<close>

section \<open>The repository\<close>

definition CronRepository_CreateJob :: "CronJob \<Rightarrow> unit op" where
  "CronRepository_CreateJob job =
     insertC (\<lambda>s. [(cj_ID job \<in> cj_ID ` set (t_cron_jobs s), ''cron_jobs_pkey''),
                   (list_ex (\<lambda>r. cj_UserID r = cj_UserID job \<and> cj_Name r = cj_Name job) (t_cron_jobs s), ''cron_jobs_user_id_name_key''),
                   (\<not> has_user s (cj_UserID job), ''cron_jobs_user_id_fkey'')])
             (\<lambda>s. s\<lparr>t_cron_jobs := t_cron_jobs s @ [job]\<rparr>)"

definition CronRepository_GetJobByID :: "uuid \<Rightarrow> uuid \<Rightarrow> CronJob op" where
  "CronRepository_GetJobByID i userID = queryRowC (\<lambda>s. find (\<lambda>r. cj_ID r = i \<and> cj_UserID r = userID) (t_cron_jobs s))"

definition CronRepository_ListJobs :: "uuid \<Rightarrow> CronJob list op" where
  "CronRepository_ListJobs userID =
     queryC (\<lambda>s. sort_key (\<lambda>r. - cj_CreatedAt r) (filter (\<lambda>r. cj_UserID r = userID) (t_cron_jobs s)))"

definition job_written :: "CronJob \<Rightarrow> time \<Rightarrow> CronJob \<Rightarrow> CronJob" where
  "job_written job now r =
     r\<lparr>cj_Status := cj_Status job, cj_LastRunAt := cj_LastRunAt job, cj_NextRunAt := cj_NextRunAt job, cj_UpdatedAt := now\<rparr>"

definition CronRepository_UpdateJob :: "CronJob \<Rightarrow> unit op" where
  "CronRepository_UpdateJob job =
     (let P = (\<lambda>r. cj_ID r = cj_ID job) in
     bindC (execC noConstraint (\<lambda>s. rows_affected P (t_cron_jobs s))
       (\<lambda>s. s\<lparr>t_cron_jobs := upd_where P (job_written job (clock s)) (t_cron_jobs s)\<rparr>)) (\<lambda>_. returnC ()))"

text \<open>The runs of a deleted job go with it (\<^verbatim>\<open>ON DELETE CASCADE\<close>).\<close>

definition CronRepository_DeleteJob :: "uuid \<Rightarrow> unit op" where
  "CronRepository_DeleteJob i =
     bindC (execC noConstraint (\<lambda>s. rows_affected (\<lambda>r. cj_ID r = i) (t_cron_jobs s))
       (\<lambda>s. s\<lparr>t_cron_jobs := filter (\<lambda>r. cj_ID r \<noteq> i) (t_cron_jobs s),
              t_cron_job_runs := filter (\<lambda>r. cjr_JobID r \<noteq> i) (t_cron_job_runs s)\<rparr>)) (\<lambda>_. returnC ())"

definition due :: "time \<Rightarrow> CronJob \<Rightarrow> bool" where
  "due now r = (cj_Status r = CronStatusActive \<and> (case cj_NextRunAt r of None \<Rightarrow> False | Some t \<Rightarrow> t \<le> now))"

definition CronRepository_GetNextJobsToRun :: "CronJob list op" where
  "CronRepository_GetNextJobsToRun = queryC (\<lambda>s. filter (due (clock s)) (t_cron_jobs s))"

definition CronRepository_SaveJobRun :: "CronJobRun \<Rightarrow> unit op" where
  "CronRepository_SaveJobRun run' =
     insertC (\<lambda>s. [(cjr_ID run' \<in> cjr_ID ` set (t_cron_job_runs s), ''cron_job_runs_pkey''),
                   (\<not> list_ex (\<lambda>r. cj_ID r = cjr_JobID run') (t_cron_jobs s), ''cron_job_runs_job_id_fkey'')])
             (\<lambda>s. s\<lparr>t_cron_job_runs := t_cron_job_runs s @ [run']\<rparr>)"

section \<open>The service\<close>

definition CreateJob :: "env \<Rightarrow> ctx \<Rightarrow> string \<Rightarrow> string \<Rightarrow> string \<Rightarrow> string \<Rightarrow> string \<Rightarrow> CronJob op" where
  "CreateJob E ctx name schedule targetURL targetMethod targetPayload =
     (let userID = UserIDFromContext ctx in
     bindC (guardC (userID = uuid_Nil) (Errorf ''unauthorized'' None)) (\<lambda>_.
     case cron_next E True schedule of
       Inl err \<Rightarrow> failC (Errorf ''invalid cron schedule'' (Some (ExtError err)))
     | Inr next \<Rightarrow>
     bindC nowC (\<lambda>now.
     bindC (newUUID E) (\<lambda>i.
     let job = \<lparr>cj_ID = i, cj_UserID = userID, cj_Name = name, cj_Schedule = schedule, cj_TargetURL = targetURL,
                cj_TargetMethod = targetMethod, cj_TargetPayload = targetPayload, cj_Status = CronStatusActive,
                cj_LastRunAt = None, cj_NextRunAt = Some (next now), cj_CreatedAt = now, cj_UpdatedAt = now\<rparr> in
     bindC (CronRepository_CreateJob job) (\<lambda>_.
     bindC (ignoreC (RecordEvent E ctx ''CRON_JOB_CREATED'' (uuid_string E i) ''CRON_JOB'' [])) (\<lambda>_.
     bindC (ignoreC (Log E ctx userID ''cron.job_create'' ''cron_job'' (uuid_string E i)
              [(''name'', GStr name), (''schedule'', GStr schedule)])) (\<lambda>_.
     returnC job)))))))"

definition ListJobs :: "ctx \<Rightarrow> CronJob list op" where
  "ListJobs ctx =
     (let userID = UserIDFromContext ctx in
     bindC (guardC (userID = uuid_Nil) (Errorf ''unauthorized'' None)) (\<lambda>_. CronRepository_ListJobs userID))"

definition GetJob :: "ctx \<Rightarrow> uuid \<Rightarrow> CronJob op" where
  "GetJob ctx i =
     (let userID = UserIDFromContext ctx in
     bindC (guardC (userID = uuid_Nil) (Errorf ''unauthorized'' None)) (\<lambda>_. CronRepository_GetJobByID i userID))"

definition PauseJob :: "ctx \<Rightarrow> uuid \<Rightarrow> unit op" where
  "PauseJob ctx i =
     bindC (CronRepository_GetJobByID i (UserIDFromContext ctx)) (\<lambda>job.
     CronRepository_UpdateJob (job\<lparr>cj_Status := CronStatusPaused, cj_NextRunAt := None\<rparr>))"

definition ResumeJob :: "env \<Rightarrow> ctx \<Rightarrow> uuid \<Rightarrow> unit op" where
  "ResumeJob E ctx i =
     bindC (CronRepository_GetJobByID i (UserIDFromContext ctx)) (\<lambda>job.
     case cron_next E True (cj_Schedule job) of
       Inl err \<Rightarrow> failC (Errorf ''invalid schedule in job'' (Some (ExtError err)))
     | Inr next \<Rightarrow>
     bindC nowC (\<lambda>now.
     CronRepository_UpdateJob (job\<lparr>cj_Status := CronStatusActive, cj_NextRunAt := Some (next now)\<rparr>)))"

definition DeleteJob :: "env \<Rightarrow> ctx \<Rightarrow> uuid \<Rightarrow> unit op" where
  "DeleteJob E ctx i =
     (let userID = UserIDFromContext ctx in
     bindC (CronRepository_GetJobByID i userID) (\<lambda>_.
     bindC (CronRepository_DeleteJob i) (\<lambda>_.
     ignoreC (Log E ctx userID ''cron.job_delete'' ''cron_job'' (uuid_string E i) []))))"

section \<open>The worker\<close>

text \<open>The parser of the worker takes no named schedules; its error is dropped and the schedule it did not return is
  used all the same.\<close>

definition recordRun :: "env \<Rightarrow> CronJob \<Rightarrow> string \<Rightarrow> int \<Rightarrow> string \<Rightarrow> int \<Rightarrow> unit op" where
  "recordRun E job status code response duration =
     bindC (newUUID E) (\<lambda>i.
     bindC nowC (\<lambda>now.
     bindC (ignoreC (CronRepository_SaveJobRun \<lparr>cjr_ID = i, cjr_JobID = cj_ID job, cjr_Status = status, cjr_StatusCode = code,
              cjr_Response = response, cjr_DurationMs = duration div 1000000, cjr_StartedAt = now - duration\<rparr>)) (\<lambda>_.
     case cron_next E False (cj_Schedule job) of
       Inl _ \<Rightarrow> panicC ''runtime error: invalid memory address or nil pointer dereference''
     | Inr next \<Rightarrow>
     bindC nowC (\<lambda>now.
     ignoreC (CronRepository_UpdateJob (job\<lparr>cj_LastRunAt := Some now, cj_NextRunAt := Some (next now)\<rparr>))))))"

definition runJob :: "env \<Rightarrow> CronJob \<Rightarrow> unit op" where
  "runJob E job =
     bindC nowC (\<lambda>start.
     case http_request_err E (cj_TargetMethod job) (cj_TargetURL job) of
       Some err \<Rightarrow> bindC nowC (\<lambda>t. recordRun E job ''FAILED'' 0 err (t - start))
     | None \<Rightarrow>
     bindC (tryC (httpC E (cj_TargetMethod job) (cj_TargetURL job) (cj_TargetPayload job))) (\<lambda>resp.
     bindC nowC (\<lambda>t.
     let duration = t - start in
     case resp of
       Inl err \<Rightarrow> recordRun E job ''FAILED'' 0 (Error_Error err) duration
     | Inr (code, status) \<Rightarrow> recordRun E job (if code \<ge> 400 then ''FAILED'' else ''SUCCESS'') code status duration)))"

definition ProcessJobs :: "unit op" where
  "ProcessJobs =
     bindC (tryC CronRepository_GetNextJobsToRun) (\<lambda>r.
     case r of Inl _ \<Rightarrow> returnC () | Inr jobs \<Rightarrow> forC jobs (\<lambda>job. goC (TCronJob job)))"

section \<open>Facts\<close>

text \<open>What the goroutine of a job leaves behind without faults: one run, and the job as it was read, rescheduled.\<close>

definition ran :: "env \<Rightarrow> CronJob \<Rightarrow> time \<Rightarrow> world \<Rightarrow> world \<Rightarrow> bool" where
  "ran E job next s s' \<longleftrightarrow> faults s' = [] \<and> clock s' = clock s \<and> uuid_ctr s' = Suc (uuid_ctr s) \<and> tasks s' = tasks s \<and>
     t_cron_jobs s' = upd_where (\<lambda>r. cj_ID r = cj_ID job)
       (job_written (job\<lparr>cj_LastRunAt := Some (clock s), cj_NextRunAt := Some next\<rparr>) (clock s)) (t_cron_jobs s) \<and>
     (\<exists>run'. t_cron_job_runs s' = t_cron_job_runs s @ [run'] \<and> cjr_ID run' = uuid_at E (uuid_ctr s) \<and> cjr_JobID run' = cj_ID job)"

lemma runJob_nf:
  assumes "faults s = []" and "cron_next E False (cj_Schedule job) = Inr next"
    and "uuid_at E (uuid_ctr s) \<notin> cjr_ID ` set (t_cron_job_runs s)" and "cj_ID job \<in> cj_ID ` set (t_cron_jobs s)"
  shows "\<exists>s'. runJob E job s = (Ok (), s') \<and> ran E job (next (clock s)) s s'"
proof -
  have job: "list_ex (\<lambda>r. cj_ID r = cj_ID job) (t_cron_jobs s)" using assms(4) by (auto simp: list_ex_iff)
  have rec: "wp (recordRun E job st code resp dur) (\<lambda>r s'. r = Ok () \<and> ran E job (next (clock s)) s s') (s\<lparr>calls := cs\<rparr>)" for st code resp dur cs
    using assms(1-3) job
    by (auto simp: recordRun_def CronRepository_SaveJobRun_def CronRepository_UpdateJob_def Let_def wps wpnf ran_def)
  have "wp (runJob E job) (\<lambda>r s'. r = Ok () \<and> ran E job (next (clock s)) s s') s"
    unfolding runJob_def using rec [of _ _ _ _ "calls s"] rec assms(1)
    by (auto simp: wps wpnf Let_def split: option.split prod.split)
  then show ?thesis by (rule wp_returns)
qed

lemma cj_ID_written: "cj_ID (job_written j t r) = cj_ID r"
  by (simp add: job_written_def)

lemma not_due_written: "t < n \<Longrightarrow> \<not> due t (job_written (job\<lparr>cj_LastRunAt := l, cj_NextRunAt := Some n\<rparr>) t' r)"
  by (simp add: job_written_def due_def)

lemma ids_written: "cj_ID ` set (upd_where P (job_written j t) rows) = cj_ID ` set rows"
  using arg_cong [OF map_upd_where_key [of P cj_ID "job_written j t" rows], of set] by (simp add: cj_ID_written)

text \<open>The goroutines of several jobs, one after the other.\<close>

lemma runJobs_nf:
  assumes "faults s = []" and "\<And>job. job \<in> set js \<Longrightarrow> \<exists>next. cron_next E False (cj_Schedule job) = Inr next \<and> clock s < next (clock s)"
    and "\<And>job. job \<in> set js \<Longrightarrow> cj_ID job \<in> cj_ID ` set (t_cron_jobs s)"
    and "inj_on (uuid_at E) {uuid_ctr s ..< uuid_ctr s + length js}"
    and "uuid_at E ` {uuid_ctr s ..< uuid_ctr s + length js} \<inter> cjr_ID ` set (t_cron_job_runs s) = {}"
    and "\<And>r. r \<in> set (t_cron_jobs s) \<Longrightarrow> due (clock s) r \<Longrightarrow> cj_ID r \<in> cj_ID ` set js"
  shows "\<exists>s' news. forC js (runJob E) s = (Ok (), s') \<and> (\<forall>r \<in> set (t_cron_jobs s'). \<not> due (clock s) r) \<and>
    t_cron_job_runs s' = t_cron_job_runs s @ news \<and> map cjr_JobID news = map cj_ID js"
  using assms
proof (induction js arbitrary: s)
  case Nil
  then show ?case by (auto simp: run)
next
  case (Cons job js)
  obtain next' where n: "cron_next E False (cj_Schedule job) = Inr next'" "clock s < next' (clock s)" using Cons.prems(2) [of job] by auto
  have f: "uuid_at E (uuid_ctr s) \<notin> cjr_ID ` set (t_cron_job_runs s)" using Cons.prems(5) by (fastforce simp: disjoint_iff)
  obtain s1 where s1: "runJob E job s = (Ok (), s1)" "ran E job (next' (clock s)) s s1"
    using runJob_nf [OF Cons.prems(1) n(1) f Cons.prems(3)] by auto
  obtain run' where r: "t_cron_job_runs s1 = t_cron_job_runs s @ [run']" "cjr_ID run' = uuid_at E (uuid_ctr s)" "cjr_JobID run' = cj_ID job"
    using s1(2) by (auto simp: ran_def)
  have ids: "cj_ID ` set (t_cron_jobs s1) = cj_ID ` set (t_cron_jobs s)"
    using s1(2) by (simp add: ran_def ids_written)
  have fresh: "uuid_at E (uuid_ctr s) \<notin> uuid_at E ` {Suc (uuid_ctr s) ..< Suc (uuid_ctr s) + length js}"
    by (subst inj_on_image_mem_iff [OF Cons.prems(4)]) auto
  have sub: "uuid_at E ` {Suc (uuid_ctr s) ..< Suc (uuid_ctr s + length js)} \<subseteq> uuid_at E ` {uuid_ctr s ..< Suc (uuid_ctr s + length js)}"
    by (rule image_mono) auto
  have "\<exists>s' news. forC js (runJob E) s1 = (Ok (), s') \<and> (\<forall>r \<in> set (t_cron_jobs s'). \<not> due (clock s1) r) \<and>
    t_cron_job_runs s' = t_cron_job_runs s1 @ news \<and> map cjr_JobID news = map cj_ID js"
  proof (rule Cons.IH)
    show "faults s1 = []" using s1(2) by (simp add: ran_def)
    show "\<exists>next. cron_next E False (cj_Schedule job) = Inr next \<and> clock s1 < next (clock s1)" if "job \<in> set js" for job
      using Cons.prems(2) [of job] that s1(2) by (simp add: ran_def)
    show "cj_ID job \<in> cj_ID ` set (t_cron_jobs s1)" if "job \<in> set js" for job using Cons.prems(3) [of job] that ids by simp
    show "inj_on (uuid_at E) {uuid_ctr s1 ..< uuid_ctr s1 + length js}"
      by (rule inj_on_subset [OF Cons.prems(4)]) (use s1(2) in \<open>auto simp: ran_def\<close>)
    show "uuid_at E ` {uuid_ctr s1 ..< uuid_ctr s1 + length js} \<inter> cjr_ID ` set (t_cron_job_runs s1) = {}"
    proof -
      have "uuid_at E ` {Suc (uuid_ctr s) ..< Suc (uuid_ctr s + length js)} \<inter> cjr_ID ` set (t_cron_job_runs s) = {}"
        using sub Cons.prems(5) by (metis add_Suc_right inf_mono le_bot length_Cons order_refl)
      then show ?thesis using fresh r s1(2) by (simp add: ran_def)
    qed
    show "cj_ID r \<in> cj_ID ` set js" if "r \<in> set (t_cron_jobs s1)" "due (clock s1) r" for r
      using that s1(2) n(2) Cons.prems(6) [of r] by (auto simp: ran_def set_upd_where not_due_written)
  qed
  then show ?case using s1 r by (auto simp: run ran_def)
qed

lemma ProcessJobs_nf:
  assumes "faults s = []"
  shows "ProcessJobs s = (Ok (), s\<lparr>tasks := tasks s @ map TCronJob (filter (due (clock s)) (t_cron_jobs s))\<rparr>)"
proof -
  have "forC js (\<lambda>job. goC (TCronJob job)) s' = (Ok (), s'\<lparr>tasks := tasks s' @ map TCronJob js\<rparr>)" for js s'
    by (induction js arbitrary: s') (simp_all add: run)
  then show ?thesis using assms by (simp add: ProcessJobs_def CronRepository_GetNextJobsToRun_def run)
qed

section \<open>Properties\<close>

text \<open>C27. Every due job is run, if no call fails and the schedules of the due jobs parse in the parser of the worker, which knows no descriptors, and name a later
  instant: a tick of the worker starts one goroutine per due job and no other; when those have run, in any order, each due job has exactly one new run on record
  and no job is due any more. The conditions on the schedules are not checked when a job is created: a job with a descriptor ends the worker instead, and one whose schedule never
  matches stays due.\<close>

theorem due_jobs_run_once:
  assumes "faults s = []" and "mset js = mset (filter (due (clock s)) (t_cron_jobs s))"
    and "\<forall>job \<in> set js. \<exists>next. cron_next E False (cj_Schedule job) = Inr next \<and> clock s < next (clock s)"
    and "inj_on (uuid_at E) {uuid_ctr s ..< uuid_ctr s + length js}"
    and "uuid_at E ` {uuid_ctr s ..< uuid_ctr s + length js} \<inter> cjr_ID ` set (t_cron_job_runs s) = {}"
  shows "\<exists>s1 s2 news. ProcessJobs s = (Ok (), s1) \<and> mset (tasks s1) = mset (tasks s) + mset (map TCronJob js) \<and>
    forC js (runJob E) s1 = (Ok (), s2) \<and> (\<forall>r \<in> set (t_cron_jobs s2). \<not> due (clock s) r) \<and>
    t_cron_job_runs s2 = t_cron_job_runs s @ news \<and> map cjr_JobID news = map cj_ID js"
proof -
  let ?s = "s\<lparr>tasks := tasks s @ map TCronJob (filter (due (clock s)) (t_cron_jobs s))\<rparr>"
  have set: "set js = {r \<in> set (t_cron_jobs s). due (clock s) r}" using mset_eq_setD [OF assms(2)] by simp
  have "mset (tasks ?s) = mset (tasks s) + mset (map TCronJob js)" using assms(2) by (simp add: mset_map)
  moreover have "\<exists>s2 news. forC js (runJob E) ?s = (Ok (), s2) \<and> (\<forall>r \<in> set (t_cron_jobs s2). \<not> due (clock ?s) r) \<and>
    t_cron_job_runs s2 = t_cron_job_runs ?s @ news \<and> map cjr_JobID news = map cj_ID js"
    by (rule runJobs_nf) (use assms set in \<open>auto\<close>)
  ultimately show ?thesis using ProcessJobs_nf [OF assms(1)] by auto
qed

text \<open>A named schedule kills the worker: the service accepts it, and the goroutine of such a job ends in a nil
  dereference, whatever the request and the database answer.\<close>

theorem descriptor_job_panics:
  assumes "cron_next E False (cj_Schedule job) = Inl err"
  shows "\<exists>p. fst (runJob E job s) = Panic p"
proof -
  have rec: "\<exists>p. fst (recordRun E job st code resp dur s') = Panic p" for st code resp dur s'
    using assms no_panic_insert by (auto simp: recordRun_def CronRepository_SaveJobRun_def bindC_def run_newUUID run_nowC ignoreC_def panicC_def split: prod.split outcome.split)
  show ?thesis
    using rec by (auto simp: runJob_def bindC_def run_nowC tryC_def httpC_def extC_def Let_def split: option.split list.split prod.split)
qed

text \<open>A pause is lost when a run of the job is under way: the goroutine that was started before the pause writes the
  status it had read back, and the paused job is active and scheduled again.\<close>

theorem pause_lost:
  assumes "faults s = []" and "distinct (map cj_ID (t_cron_jobs s))" and "job \<in> set (t_cron_jobs s)" and "due (clock s) job"
    and "cron_next E False (cj_Schedule job) = Inr next" and "uuid_at E (uuid_ctr s) \<notin> cjr_ID ` set (t_cron_job_runs s)"
  shows "\<exists>s1 s2 s3. ProcessJobs s = (Ok (), s1) \<and> TCronJob job \<in> set (tasks s1) \<and>
    PauseJob (Some (cj_UserID job)) (cj_ID job) s1 = (Ok (), s2) \<and>
    (\<forall>r \<in> set (t_cron_jobs s2). cj_ID r = cj_ID job \<longrightarrow> cj_Status r = CronStatusPaused) \<and>
    runJob E job s2 = (Ok (), s3) \<and>
    (\<forall>r \<in> set (t_cron_jobs s3). cj_ID r = cj_ID job \<longrightarrow> cj_Status r = CronStatusActive \<and> cj_NextRunAt r = Some (next (clock s)))"
proof -
  let ?s1 = "s\<lparr>tasks := tasks s @ map TCronJob (filter (due (clock s)) (t_cron_jobs s))\<rparr>"
  have "find (\<lambda>r. cj_ID r = cj_ID job \<and> cj_UserID r = cj_UserID job) (t_cron_jobs s) = Some job"
    by (rule find_key_and [OF assms(2,3)]) simp
  then have p: "PauseJob (Some (cj_UserID job)) (cj_ID job) ?s1 = (Ok (), ?s1\<lparr>t_cron_jobs := upd_where (\<lambda>r. cj_ID r = cj_ID job)
      (job_written (job\<lparr>cj_Status := CronStatusPaused, cj_NextRunAt := None\<rparr>) (clock s)) (t_cron_jobs s)\<rparr>)" (is "_ = (_, ?s2)")
    using assms(1) by (simp add: PauseJob_def CronRepository_GetJobByID_def CronRepository_UpdateJob_def Let_def run)
  have "\<exists>s'. runJob E job ?s2 = (Ok (), s') \<and> ran E job (next (clock ?s2)) ?s2 s'"
    by (rule runJob_nf) (use assms in \<open>auto simp: ids_written\<close>)
  then obtain s3 where s3: "runJob E job ?s2 = (Ok (), s3)" "ran E job (next (clock ?s2)) ?s2 s3" by blast
  have "cj_Status job = CronStatusActive" using assms(4) by (simp add: due_def)
  then have "\<forall>r \<in> set (t_cron_jobs s3). cj_ID r = cj_ID job \<longrightarrow> cj_Status r = CronStatusActive \<and> cj_NextRunAt r = Some (next (clock s))"
    using s3(2) by (auto simp: ran_def set_upd_where job_written_def)
  moreover have "\<forall>r \<in> set (t_cron_jobs ?s2). cj_ID r = cj_ID job \<longrightarrow> cj_Status r = CronStatusPaused"
    by (auto simp: set_upd_where job_written_def)
  ultimately show ?thesis using ProcessJobs_nf [OF assms(1)] p s3(1) assms(3,4) by auto
qed

section \<open>Witnesses\<close>

definition sample_job :: CronJob where
  "sample_job = \<lparr>cj_ID = 80, cj_UserID = 1, cj_Name = ''tick'', cj_Schedule = ''* * * * *'', cj_TargetURL = ''http://x'', cj_TargetMethod = ''GET'',
     cj_TargetPayload = [], cj_Status = CronStatusActive, cj_LastRunAt = None, cj_NextRunAt = Some 0, cj_CreatedAt = 0, cj_UpdatedAt = 0\<rparr>"

theorem due_jobs_run_once_witness:
  "\<exists>s1 s2 run'. ProcessJobs (sample_world\<lparr>t_cron_jobs := [sample_job]\<rparr>) = (Ok (), s1) \<and> tasks s1 = [TCronJob sample_job] \<and>
    forC [sample_job] (runJob sample_env) s1 = (Ok (), s2) \<and> t_cron_job_runs s2 = [run'] \<and> cjr_JobID run' = 80"
  using due_jobs_run_once [of "sample_world\<lparr>t_cron_jobs := [sample_job]\<rparr>" "[sample_job]" sample_env]
  by (auto simp: sample_job_def due_def Minute_def Second_def)

theorem descriptor_job_panics_witness:
  "cron_next sample_env True ''@hourly'' = Inr (\<lambda>t. t + Minute) \<and> (\<exists>p. fst (runJob sample_env (sample_job\<lparr>cj_Schedule := ''@hourly''\<rparr>) sample_world) = Panic p)"
  using descriptor_job_panics [of sample_env "sample_job\<lparr>cj_Schedule := ''@hourly''\<rparr>"] by simp

theorem pause_lost_witness:
  "\<exists>s1 s2 s3. ProcessJobs (sample_world\<lparr>t_cron_jobs := [sample_job]\<rparr>) = (Ok (), s1) \<and> PauseJob (Some 1) 80 s1 = (Ok (), s2) \<and>
     runJob sample_env sample_job s2 = (Ok (), s3) \<and>
     (\<forall>r \<in> set (t_cron_jobs s3). cj_ID r = 80 \<longrightarrow> cj_Status r = CronStatusActive \<and> cj_NextRunAt r = Some Minute)"
  using pause_lost [of "sample_world\<lparr>t_cron_jobs := [sample_job]\<rparr>" sample_job sample_env "\<lambda>t. t + Minute"]
  by (auto simp: sample_job_def due_def)

end
