(* ===== verification/Gateway.thy ===== *)
theory Gateway
  imports Frames Paths "HOL-Library.Multiset"
begin

text \<open>
  The API gateway: the repository \<^verbatim>\<open>gateway_repo.go\<close> and the service \<^verbatim>\<open>gateway.go\<close>, which keeps a map from path prefixes
  to reverse proxies in memory and reloads it after every change. The map of the model holds the routes; the
  proxy of a route is what its director makes of a request's path.
\<close>

section \<open>The repository\<close>

definition GatewayRepository_CreateRoute :: "GatewayRoute \<Rightarrow> unit op" where
  "GatewayRepository_CreateRoute r =
     insertC (\<lambda>s. [(gw_ID r \<in> gw_ID ` set (t_gateway_routes s), ''gateway_routes_pkey''),
                   (list_ex (\<lambda>x. gw_UserID x = gw_UserID r \<and> gw_Name x = gw_Name r) (t_gateway_routes s), ''gateway_routes_user_id_name_key''),
                   (gw_PathPrefix r \<in> gw_PathPrefix ` set (t_gateway_routes s), ''gateway_routes_path_prefix_key''),
                   (\<not> has_user s (gw_UserID r), ''gateway_routes_user_id_fkey'')])
             (\<lambda>s. s\<lparr>t_gateway_routes := t_gateway_routes s @ [r]\<rparr>)"

definition GatewayRepository_GetRouteByID :: "uuid \<Rightarrow> uuid \<Rightarrow> GatewayRoute op" where
  "GatewayRepository_GetRouteByID i userID = queryRowC (\<lambda>s. find (\<lambda>r. gw_ID r = i \<and> gw_UserID r = userID) (t_gateway_routes s))"

definition GatewayRepository_ListRoutes :: "uuid \<Rightarrow> GatewayRoute list op" where
  "GatewayRepository_ListRoutes userID =
     queryC (\<lambda>s. sort_key (\<lambda>r. - gw_CreatedAt r) (filter (\<lambda>r. gw_UserID r = userID) (t_gateway_routes s)))"

definition GatewayRepository_DeleteRoute :: "uuid \<Rightarrow> unit op" where
  "GatewayRepository_DeleteRoute i =
     bindC (execC noConstraint (\<lambda>s. rows_affected (\<lambda>r. gw_ID r = i) (t_gateway_routes s))
       (\<lambda>s. s\<lparr>t_gateway_routes := filter (\<lambda>r. gw_ID r \<noteq> i) (t_gateway_routes s)\<rparr>)) (\<lambda>_. returnC ())"

definition GatewayRepository_GetAllActiveRoutes :: "GatewayRoute list op" where
  "GatewayRepository_GetAllActiveRoutes = queryC t_gateway_routes"

section \<open>The service\<close>

text \<open>Storing a route under its prefix replaces what the map had there.\<close>

definition put_route :: "GatewayRoute \<Rightarrow> GatewayRoute list \<Rightarrow> GatewayRoute list" where
  "put_route r m = filter (\<lambda>x. gw_PathPrefix x \<noteq> gw_PathPrefix r) m @ [r]"

definition RefreshRoutes :: "env \<Rightarrow> unit op" where
  "RefreshRoutes E =
     bindC GatewayRepository_GetAllActiveRoutes (\<lambda>routes.
     modifyC (\<lambda>s. s\<lparr>gw_table := fold (\<lambda>r m. case url_host E (gw_TargetURL r) of None \<Rightarrow> m | Some _ \<Rightarrow> put_route r m) routes []\<rparr>))"

definition CreateRoute :: "env \<Rightarrow> ctx \<Rightarrow> string \<Rightarrow> string \<Rightarrow> string \<Rightarrow> bool \<Rightarrow> int \<Rightarrow> GatewayRoute op" where
  "CreateRoute E ctx name pfx target strip rateLimit =
     (let userID = UserIDFromContext ctx in
     bindC (guardC (userID = uuid_Nil) (Errorf ''unauthorized'' None)) (\<lambda>_.
     bindC (newUUID E) (\<lambda>i.
     bindC nowC (\<lambda>now.
     let route = \<lparr>gw_ID = i, gw_UserID = userID, gw_Name = name, gw_PathPrefix = pfx, gw_TargetURL = target, gw_StripPrefix = strip,
                  gw_RateLimit = rateLimit, gw_CreatedAt = now, gw_UpdatedAt = now\<rparr> in
     bindC (GatewayRepository_CreateRoute route) (\<lambda>_.
     bindC (ignoreC (Log E ctx userID ''gateway.route_create'' ''gateway'' (uuid_string E i)
              [(''name'', GStr name), (''prefix'', GStr pfx)])) (\<lambda>_.
     bindC (ignoreC (RefreshRoutes E)) (\<lambda>_.
     returnC route)))))))"

definition ListRoutes :: "ctx \<Rightarrow> GatewayRoute list op" where
  "ListRoutes ctx =
     (let userID = UserIDFromContext ctx in
     bindC (guardC (userID = uuid_Nil) (Errorf ''unauthorized'' None)) (\<lambda>_. GatewayRepository_ListRoutes userID))"

definition DeleteRoute :: "env \<Rightarrow> ctx \<Rightarrow> uuid \<Rightarrow> unit op" where
  "DeleteRoute E ctx i =
     bindC (GatewayRepository_GetRouteByID i (UserIDFromContext ctx)) (\<lambda>route.
     bindC (GatewayRepository_DeleteRoute i) (\<lambda>_.
     bindC (ignoreC (Log E ctx (gw_UserID route) ''gateway.route_delete'' ''gateway'' (uuid_string E (gw_ID route))
              [(''name'', GStr (gw_Name route))])) (\<lambda>_.
     RefreshRoutes E)))"

text \<open>The first entry that matches, in the order \<^verbatim>\<open>range\<close> visits the map.\<close>

definition GetProxy :: "env \<Rightarrow> string \<Rightarrow> GatewayRoute option op" where
  "GetProxy E path = getC (\<lambda>s. find (\<lambda>r. HasPrefix path (gw_PathPrefix r)) (route_range E (gw_table s)))"

text \<open>The standard director joins the path of the target and the path of the request with one slash (\<^verbatim>\<open>net/http/httputil\<close>); the
  director of the gateway then strips the prefix from the result.\<close>

definition singleJoiningSlash :: "string \<Rightarrow> string \<Rightarrow> string" where
  "singleJoiningSlash a b =
     (let aslash = (a \<noteq> [] \<and> last a = CHR ''/''); bslash = HasPrefix b ''/'' in
      if aslash \<and> bslash then a @ drop 1 b else if \<not> aslash \<and> \<not> bslash then a @ ''/'' @ b else a @ b)"

definition director_path :: "string \<Rightarrow> GatewayRoute \<Rightarrow> string \<Rightarrow> string" where
  "director_path targetPath r path =
     (let path = singleJoiningSlash targetPath path in
      if gw_StripPrefix r
      then let p = TrimPrefix path (''/gw'' @ gw_PathPrefix r) in if HasPrefix p ''/'' then p else ''/'' @ p
      else path)"

text \<open>The handler of \<^verbatim>\<open>/gw/*proxy\<close>: the route that serves a path and the path it is asked for, or 404.\<close>

definition GatewayHandler_Proxy :: "env \<Rightarrow> (GatewayRoute \<Rightarrow> string) \<Rightarrow> string \<Rightarrow> (GatewayRoute \<times> string) option op" where
  "GatewayHandler_Proxy E targetPath proxy =
     (let path = (if HasPrefix proxy ''/'' then proxy else ''/'' @ proxy) in
     bindC (GetProxy E path) (\<lambda>r. returnC (map_option (\<lambda>r. (r, director_path (targetPath r) r (''/gw'' @ path))) r)))"

section \<open>Facts\<close>

text \<open>The table after a reload: the rows whose target parses, one per prefix.\<close>

definition loaded :: "env \<Rightarrow> GatewayRoute list \<Rightarrow> GatewayRoute list" where
  "loaded E routes = fold (\<lambda>r m. case url_host E (gw_TargetURL r) of None \<Rightarrow> m | Some _ \<Rightarrow> put_route r m) routes []"

lemma fold_put_subset:
  "set (fold (\<lambda>r m. case url_host E (gw_TargetURL r) of None \<Rightarrow> m | Some _ \<Rightarrow> put_route r m) routes m) \<subseteq> set routes \<union> set m"
  by (induction routes arbitrary: m) (fastforce simp: put_route_def split: option.splits)+

lemma loaded_subset: "set (loaded E routes) \<subseteq> set routes"
  unfolding loaded_def using fold_put_subset [of E routes "[]"] by simp

lemma wp_RefreshRoutes:
  "(\<And>msg fs. Q (Err (ExtError msg)) (s\<lparr>faults := fs\<rparr>)) \<Longrightarrow> (\<And>fs. Q (Ok ()) (s\<lparr>faults := fs, gw_table := loaded E (t_gateway_routes s)\<rparr>)) \<Longrightarrow>
    wp (RefreshRoutes E) Q s"
  unfolding RefreshRoutes_def GatewayRepository_GetAllActiveRoutes_def loaded_def by (auto simp: wps intro!: wp_queryC)

section \<open>Properties\<close>

text \<open>A deleted route serves nothing: whenever the deletion returns without error, whatever else failed, no path leads to
  a route with its identifier.\<close>

theorem deleted_route_unserved:
  assumes "mset (route_range E (gw_table s')) = mset (gw_table s')" and "DeleteRoute E ctx i s = (Ok (), s')"
  shows "\<exists>r. GetProxy E path s' = (Ok r, s') \<and> (\<forall>route. r = Some route \<longrightarrow> gw_ID route \<noteq> i \<and> HasPrefix path (gw_PathPrefix route))"
proof -
  have "wp (DeleteRoute E ctx i) (\<lambda>r s'. r = Ok () \<longrightarrow> (\<forall>x \<in> set (gw_table s'). gw_ID x \<noteq> i)) s"
    unfolding DeleteRoute_def GatewayRepository_GetRouteByID_def GatewayRepository_DeleteRoute_def
    by (auto simp: wps core_eq_iff simp del: wp_ignoreC intro!: wp_queryRowC wp_execC wp_ignored wp_RefreshRoutes dest!: subsetD [OF loaded_subset])
  then have "\<forall>x \<in> set (gw_table s'). gw_ID x \<noteq> i" using assms(2) by (simp add: wp_def)
  moreover have "set (route_range E (gw_table s')) = set (gw_table s')" using assms(1) by (rule mset_eq_setD)
  ultimately show ?thesis by (auto simp: GetProxy_def run dest!: find_Some_set)
qed

text \<open>C30. Requests reach the route of their prefix: where of all prefixes of the table only that of one route, which begins with a slash, matches the
  path, the handler picks that route in whatever order the map is visited. A target without a path of its own is asked for the rest of the path, with a
  slash before it, if the route strips its prefix, and otherwise for the path as it was requested, \<^verbatim>\<open>/gw\<close> included.\<close>

theorem proxy_reaches_route:
  assumes "mset (route_range E (gw_table s)) = mset (gw_table s)" and "r \<in> set (gw_table s)"
    and "\<forall>x \<in> set (gw_table s). HasPrefix (gw_PathPrefix r @ rest) (gw_PathPrefix x) \<longrightarrow> x = r"
    and "HasPrefix (gw_PathPrefix r) ''/''" and "targetPath r = []"
  shows "GatewayHandler_Proxy E targetPath (gw_PathPrefix r @ rest) s =
    (Ok (Some (r, if \<not> gw_StripPrefix r then ''/gw'' @ gw_PathPrefix r @ rest else if HasPrefix rest ''/'' then rest else ''/'' @ rest)), s)"
proof -
  have set: "set (route_range E (gw_table s)) = set (gw_table s)" using assms(1) by (rule mset_eq_setD)
  then have "find (\<lambda>x. HasPrefix (gw_PathPrefix r @ rest) (gw_PathPrefix x)) (route_range E (gw_table s)) = Some r"
  proof (cases "find (\<lambda>x. HasPrefix (gw_PathPrefix r @ rest) (gw_PathPrefix x)) (route_range E (gw_table s))")
    case None
    then show ?thesis using set assms(2) by (auto simp: find_None_set)
  next
    case (Some x)
    then show ?thesis using set assms(3) by (auto dest!: find_Some_set)
  qed
  moreover have "HasPrefix (gw_PathPrefix r @ rest) ''/''" using assms(4) by (cases "gw_PathPrefix r") (auto simp: HasPrefix_def)
  moreover have "director_path [] r (''/gw'' @ gw_PathPrefix r @ rest) =
    (if \<not> gw_StripPrefix r then ''/gw'' @ gw_PathPrefix r @ rest else if HasPrefix rest ''/'' then rest else ''/'' @ rest)"
  proof -
    have "singleJoiningSlash [] (''/gw'' @ gw_PathPrefix r @ rest) = (''/gw'' @ gw_PathPrefix r) @ rest" by (simp add: singleJoiningSlash_def HasPrefix_def)
    then show ?thesis by (simp only: director_path_def TrimPrefix_append Let_def) simp
  qed
  ultimately show ?thesis using assms(5) by (simp add: GatewayHandler_Proxy_def GetProxy_def run Let_def)
qed

text \<open>The prefix is not stripped when the target has a path: the request is forwarded with the gateway's own prefix in the
  middle, although the route asks for stripping.\<close>

theorem prefix_not_stripped:
  assumes "base = CHR ''/'' # b # bs" and "b \<noteq> CHR ''g''" and "last base \<noteq> CHR ''/''"
  shows "director_path base r (''/gw'' @ gw_PathPrefix r @ rest) = base @ ''/gw'' @ gw_PathPrefix r @ rest"
  using assms by (auto simp: director_path_def singleJoiningSlash_def TrimPrefix_def HasPrefix_def Let_def)

section \<open>Witnesses\<close>

definition sample_route :: GatewayRoute where
  "sample_route = \<lparr>gw_ID = 90, gw_UserID = 1, gw_Name = ''api'', gw_PathPrefix = ''/api'', gw_TargetURL = ''http://host'', gw_StripPrefix = True,
     gw_RateLimit = 100, gw_CreatedAt = 0, gw_UpdatedAt = 0\<rparr>"

theorem deleted_route_unserved_witness:
  "\<exists>s' r. DeleteRoute sample_env (Some 1) 90 (sample_world\<lparr>t_gateway_routes := [sample_route], gw_table := [sample_route]\<rparr>) = (Ok (), s') \<and>
     GetProxy sample_env ''/api/x'' s' = (Ok r, s') \<and> (\<forall>route. r = Some route \<longrightarrow> gw_ID route \<noteq> 90)"
proof -
  let ?s = "sample_world\<lparr>t_gateway_routes := [sample_route], gw_table := [sample_route]\<rparr>"
  have d: "\<exists>s'. DeleteRoute sample_env (Some 1) 90 ?s = (Ok (), s')"
    by (simp add: DeleteRoute_def GatewayRepository_GetRouteByID_def GatewayRepository_DeleteRoute_def RefreshRoutes_def
        GatewayRepository_GetAllActiveRoutes_def Log_def AuditRepository_Create_def run sample_route_def has_user_def)
  then obtain s' where s': "DeleteRoute sample_env (Some 1) 90 ?s = (Ok (), s')" by blast
  with deleted_route_unserved [OF _ s', of "''/api/x''"] show ?thesis by auto
qed

theorem proxy_reaches_route_witness:
  "GatewayHandler_Proxy sample_env (\<lambda>r. []) ''/api/users'' (sample_world\<lparr>gw_table := [sample_route]\<rparr>) =
     (Ok (Some (sample_route, ''/users'')), sample_world\<lparr>gw_table := [sample_route]\<rparr>) \<and>
   fst (GatewayHandler_Proxy sample_env (\<lambda>r. []) ''/api/users'' (sample_world\<lparr>gw_table := [sample_route\<lparr>gw_StripPrefix := False\<rparr>]\<rparr>)) =
     Ok (Some (sample_route\<lparr>gw_StripPrefix := False\<rparr>, ''/gw/api/users''))"
  using proxy_reaches_route [of sample_env "sample_world\<lparr>gw_table := [sample_route]\<rparr>" sample_route "''/users''" "\<lambda>r. []"]
    proxy_reaches_route [of sample_env "sample_world\<lparr>gw_table := [sample_route\<lparr>gw_StripPrefix := False\<rparr>]\<rparr>" "sample_route\<lparr>gw_StripPrefix := False\<rparr>" "''/users''" "\<lambda>r. []"]
  by (simp add: sample_route_def HasPrefix_def)

theorem prefix_not_stripped_witness:
  "director_path ''/base'' sample_route ''/gw/api/users'' = ''/base/gw/api/users''"
  using prefix_not_stripped [of "''/base''" "CHR ''b''" "''ase''" sample_route "''/users''"] by (simp add: sample_route_def)

end
