(* ===== verification/Http.thy ===== *)
theory Http
  imports Rbac Stacks Caches Functions Containers Notify SecurityGroups Secrets Cron Gateway AutoScaling PasswordReset Queues
begin

text \<open>
  The HTTP layer around the handlers: responses (\<^verbatim>\<open>pkg/httputil/response.go\<close>), the middleware of \<^verbatim>\<open>pkg/httputil\<close>
  (request identifier, metrics, CORS, security headers, API key authentication, permission check) and the rate limiter
  \<^verbatim>\<open>pkg/ratelimit/limiter.go\<close>. A gin handler that calls \<^verbatim>\<open>c.Next()\<close> takes the rest of its chain as an argument; one that
  calls \<^verbatim>\<open>c.Abort()\<close> does not use it. The token bucket of \<^verbatim>\<open>golang.org/x/time/rate\<close> is a parameter.
\<close>

section \<open>Requests and responses\<close>

text \<open>
  A request as gin hands it to a handler: \<open>rq_FullPath\<close> is the pattern of the matched route, \<open>rq_Param\<close> the path parameters,
  \<open>rq_Header\<close> the headers (both \<open>[]\<close> when absent), \<open>rq_Query\<close> the query parameters. \<open>rq_ctx\<close> is \<^verbatim>\<open>c.Request.Context()\<close>, and
  \<open>rq_userID\<close> and \<open>rq_requestID\<close> are the two keys the middleware stores in the gin context.
\<close>

record request =
  rq_Method :: string
  rq_FullPath :: string
  rq_ClientIP :: string
  rq_Param :: "string \<Rightarrow> string"
  rq_Query :: "string \<Rightarrow> string option"
  rq_Header :: "string \<Rightarrow> string"
  rq_Body :: string
  rq_ctx :: ctx
  rq_userID :: "uuid option"
  rq_requestID :: "string option"

definition DefaultQuery :: "request \<Rightarrow> string \<Rightarrow> string \<Rightarrow> string" where
  "DefaultQuery rq key d = (case rq_Query rq key of None \<Rightarrow> d | Some v \<Rightarrow> v)"

definition Query :: "request \<Rightarrow> string \<Rightarrow> string" where
  "Query rq key = DefaultQuery rq key []"

record ResourceSummary =
  rsm_TotalInstances :: int
  rsm_RunningInstances :: int
  rsm_StoppedInstances :: int
  rsm_TotalVolumes :: int
  rsm_AttachedVolumes :: int
  rsm_TotalVPCs :: int
  rsm_TotalStorageMB :: int

record DashboardStats =
  dst_Summary :: ResourceSummary
  dst_RecentEvents :: "Event list"
  dst_CPUHistory :: "(time \<times> rat \<times> string) list"
  dst_MemoryHistory :: "(time \<times> rat \<times> string) list"

record HealthCheckResult =
  hc_Status :: string
  hc_Checks :: "(string \<times> string) list"
  hc_Time :: time

text \<open>The values the handlers hand to the JSON encoder as \<^verbatim>\<open>interface{}\<close>, by service.\<close>

datatype compute_data =
    DInstance Instance | DInstances "Instance list" | DInstanceStats InstanceStats | DVolume Volume | DVolumes "Volume list"
  | DSnapshot Snapshot | DSnapshots "Snapshot list" | DFunction Function | DFunctions "Function list"
  | DInvocation Invocation | DInvocations "Invocation list"

datatype network_data =
    DVPC VPC | DVPCs "VPC list" | DSubnet Subnet | DSubnets "Subnet list" | DLB LoadBalancer | DLBs "LoadBalancer list"
  | DTargets "LBTarget list" | DSecurityGroup SecurityGroup | DSecurityGroups "SecurityGroup list" | DSecurityRule SecurityRule
  | DRoute GatewayRoute | DRoutes "GatewayRoute list"

datatype account_data =
    DUser User | DUsers "User list" | DLogin User string | DAPIKey APIKey | DAPIKeys "APIKey list" | DRole Role | DRoles "Role list"
  | DSecret Secret | DSecrets "Secret list" | DEvents "Event list" | DAuditLogs "AuditLog list"

datatype managed_data =
    DDatabase Database | DDatabases "Database list" | DCache Cache | DCaches "Cache list" | DCacheStats CacheStats
  | DQueue Queue | DQueues "Queue list" | DMessage Message | DMessages "Message list" | DObject Object | DObjects "Object list"

datatype platform_data =
    DTopic Topic | DTopics "Topic list" | DSubscription Subscription | DSubscriptions "Subscription list" | DCronJob CronJob
  | DCronJobs "CronJob list" | DDeployment Deployment | DDeployments "Deployment list" | DGroup ScalingGroup | DGroups "ScalingGroup list"
  | DPolicy ScalingPolicy

datatype system_data =
    DStack Stack | DStacks "Stack list" | DValidation TemplateValidateResponse | DSummary ResourceSummary | DStats DashboardStats
  | DHealth HealthCheckResult

datatype jdata = JNull | JFields "(string \<times> string) list" | JCompute compute_data | JNetwork network_data | JAccount account_data
  | JManaged managed_data | JPlatform platform_data | JSystem system_data

text \<open>\<^verbatim>\<open>Meta\<close>: the identifier of the request, empty when there is none, and the moment of the response.\<close>

record Meta =
  meta_RequestID :: string
  meta_Timestamp :: time

text \<open>
  What a response carries: \<^verbatim>\<open>Response{Data, Meta}\<close>, \<^verbatim>\<open>Response{Error, Meta}\<close>, a plain JSON value, a text, the bytes of a
  file, server-sent events, or what the proxy of a route answers to a path.
\<close>

datatype body = BEmpty | BData jdata Meta | BError error_json Meta | BJSON jdata | BText string | BStream string
  | BEvents "(string \<times> jdata) list" | BProxied GatewayRoute string

text \<open>Headers in the order in which they are set; a later one replaces an earlier one of the same name.\<close>

record response =
  rs_Status :: nat
  rs_Headers :: "(string \<times> string) list"
  rs_Body :: body

definition JSON :: "nat \<Rightarrow> jdata \<Rightarrow> response" where
  "JSON code x = \<lparr>rs_Status = code, rs_Headers = [], rs_Body = BJSON x\<rparr>"

definition JSON_error :: "nat \<Rightarrow> string \<Rightarrow> response" where
  "JSON_error code msg = JSON code (JFields [(''error'', msg)])"

definition Status :: "nat \<Rightarrow> response" where
  "Status code = \<lparr>rs_Status = code, rs_Headers = [], rs_Body = BEmpty\<rparr>"

definition newMeta :: "request \<Rightarrow> Meta op" where
  "newMeta rq = bindC nowC (\<lambda>now. returnC \<lparr>meta_RequestID = (case rq_requestID rq of None \<Rightarrow> [] | Some r \<Rightarrow> r), meta_Timestamp = now\<rparr>)"

definition Success :: "request \<Rightarrow> nat \<Rightarrow> jdata \<Rightarrow> response op" where
  "Success rq code x = bindC (newMeta rq) (\<lambda>m. returnC \<lparr>rs_Status = code, rs_Headers = [], rs_Body = BData x m\<rparr>)"

text \<open>\<^verbatim>\<open>httputil.Error\<close>: the status and the JSON of the error, by its type.\<close>

definition ErrorResponse :: "request \<Rightarrow> error \<Rightarrow> response op" where
  "ErrorResponse rq err =
     (let (code, j) = httputil_Error err in
      bindC (newMeta rq) (\<lambda>m. returnC \<lparr>rs_Status = code, rs_Headers = [], rs_Body = BError j m\<rparr>))"

text \<open>\<^verbatim>\<open>x, err := m(); if err != nil { httputil.Error(c, err); return }\<close>\<close>

definition orError :: "request \<Rightarrow> 'a op \<Rightarrow> ('a \<Rightarrow> response op) \<Rightarrow> response op" where
  "orError rq m k = bindC (tryC m) (\<lambda>r. case r of Inl err \<Rightarrow> ErrorResponse rq err | Inr x \<Rightarrow> k x)"

section \<open>The server\<close>

text \<open>
  \<open>limits\<close> is \<^verbatim>\<open>rate.NewLimiter\<close> and \<^verbatim>\<open>Limiter.Allow\<close>: whether a token is available at an instant, and the limiter
  afterwards. The state of the server is the world of the services and the two rate limiters of the router.
\<close>

record 'l limits =
  NewLimiter :: "rat \<Rightarrow> int \<Rightarrow> 'l"
  Allow :: "'l \<Rightarrow> time \<Rightarrow> bool \<times> 'l"

record 'l IPRateLimiter =
  ips :: "string \<Rightarrow> 'l option"
  rl_rate :: rat
  rl_burst :: int

record 'l server =
  sv_world :: world
  sv_limiter :: "'l IPRateLimiter"
  sv_authLimiter :: "'l IPRateLimiter"

type_synonym ('l, 'a) srv = "('l server, error, 'a) cmd"

type_synonym 'l handler = "request \<Rightarrow> ('l, response) srv"

definition onWorld :: "'a op \<Rightarrow> ('l, 'a) srv" where
  "onWorld m = (\<lambda>s. let (r, w) = m (sv_world s) in (r, s\<lparr>sv_world := w\<rparr>))"

definition add_headers :: "(string \<times> string) list \<Rightarrow> response \<Rightarrow> response" where
  "add_headers hs resp = resp\<lparr>rs_Headers := hs @ rs_Headers resp\<rparr>"

definition NewIPRateLimiter :: "rat \<Rightarrow> int \<Rightarrow> 'l IPRateLimiter" where
  "NewIPRateLimiter r b = \<lparr>ips = Map.empty, rl_rate = r, rl_burst = b\<rparr>"

definition GetLimiter :: "'l limits \<Rightarrow> string \<Rightarrow> 'l IPRateLimiter \<Rightarrow> 'l \<times> 'l IPRateLimiter" where
  "GetLimiter L key i =
     (case ips i key of
        Some l \<Rightarrow> (l, i)
      | None \<Rightarrow> let l = NewLimiter L (rl_rate i) (rl_burst i) in (l, i\<lparr>ips := (ips i)(key \<mapsto> l)\<rparr>))"

text \<open>One round of the clean-up loop, every ten minutes.\<close>

definition cleanup :: "'l IPRateLimiter \<Rightarrow> 'l IPRateLimiter" where
  "cleanup i = i\<lparr>ips := Map.empty\<rparr>"

definition limit_key :: "request \<Rightarrow> string" where
  "limit_key rq =
     (let key = rq_Header rq ''X-API-Key'' in
      if key = [] then rq_ClientIP rq else if length key > 5 then ''apikey:'' @ take 5 key else key)"

text \<open>The pointer that \<^verbatim>\<open>GetLimiter\<close> returns is shared with the map, so taking a token changes the entry of the map.\<close>

definition ratelimit_Middleware ::
  "'l limits \<Rightarrow> ('l server \<Rightarrow> 'l IPRateLimiter) \<Rightarrow> (('l IPRateLimiter \<Rightarrow> 'l IPRateLimiter) \<Rightarrow> 'l server \<Rightarrow> 'l server) \<Rightarrow> 'l handler \<Rightarrow> 'l handler" where
  "ratelimit_Middleware L get upd next1 rq = (\<lambda>s.
     let key = limit_key rq;
         (l, i) = GetLimiter L key (get s);
         (ok, l') = Allow L l (clock (sv_world s));
         s' = upd (\<lambda>_. i\<lparr>ips := (ips i)(key \<mapsto> l')\<rparr>) s
     in if \<not> ok then (Ok (JSON_error 429 ''rate limit exceeded''), s') else next1 rq s')"

section \<open>Middleware\<close>

definition HeaderXRequestID :: string where
  "HeaderXRequestID = ''X-Request-ID''"

definition RequestID :: "env \<Rightarrow> 'l handler \<Rightarrow> 'l handler" where
  "RequestID E next1 rq =
     bindC (if rq_Header rq HeaderXRequestID = [] then bindC (onWorld (newUUID E)) (\<lambda>i. returnC (uuid_string E i))
            else returnC (rq_Header rq HeaderXRequestID)) (\<lambda>requestID.
     bindC (next1 (rq\<lparr>rq_requestID := Some requestID\<rparr>)) (\<lambda>resp.
     returnC (add_headers [(HeaderXRequestID, requestID)] resp)))"

text \<open>The path of the metric is the pattern of the route; an operation takes no time, so the duration observed is 0.\<close>

definition Metrics :: "'l handler \<Rightarrow> 'l handler" where
  "Metrics next1 rq =
     (let path = (if rq_FullPath rq = [] then ''unknown'' else rq_FullPath rq) in
     bindC (next1 rq) (\<lambda>resp.
     bindC (onWorld (metricC (MInc ''HTTPRequestsTotal'' [rq_Method rq, path, nat_string (rs_Status resp)]))) (\<lambda>_.
     bindC (onWorld (metricC (MObserve ''HTTPRequestDuration'' [rq_Method rq, path] 0))) (\<lambda>_.
     returnC resp))))"

definition CORS_headers :: "(string \<times> string) list" where
  "CORS_headers = [(''Access-Control-Allow-Origin'', ''*''),
     (''Access-Control-Allow-Methods'', ''POST, GET, OPTIONS, PUT, DELETE, PATCH''),
     (''Access-Control-Allow-Headers'', ''Accept, Content-Type, Content-Length, Accept-Encoding, X-CSRF-Token, Authorization, x-api-key''),
     (''Access-Control-Expose-Headers'', ''Content-Length''),
     (''Access-Control-Allow-Credentials'', ''true'')]"

definition CORS :: "'l handler \<Rightarrow> 'l handler" where
  "CORS next1 rq =
     (if rq_Method rq = ''OPTIONS'' then returnC (add_headers CORS_headers (Status 204))
      else bindC (next1 rq) (\<lambda>resp. returnC (add_headers CORS_headers resp)))"

definition security_headers :: "(string \<times> string) list" where
  "security_headers = [(''X-Content-Type-Options'', ''nosniff''), (''X-Frame-Options'', ''DENY''), (''X-XSS-Protection'', ''1; mode=block''),
     (''Strict-Transport-Security'', ''max-age=31536000; includeSubDomains''), (''Referrer-Policy'', ''strict-origin-when-cross-origin''),
     (''Content-Security-Policy'', ''default-src '' @ [CHR 0x27] @ ''self'' @ [CHR 0x27])]"

definition SecurityHeadersMiddleware :: "'l handler \<Rightarrow> 'l handler" where
  "SecurityHeadersMiddleware next1 rq = bindC (next1 rq) (\<lambda>resp. returnC (add_headers security_headers resp))"

text \<open>\<^verbatim>\<open>gin.Recovery()\<close> answers 500 when the rest of the chain panics and keeps the headers \<open>hs\<close> that were set before: those of the
  security middleware, which is the next in the chain (no handler of the router panics after it has set a header of its own). A call that does not return is no panic.\<close>

definition Recovery :: "(string \<times> string) list \<Rightarrow> 'l handler \<Rightarrow> 'l handler" where
  "Recovery hs next1 rq = (\<lambda>s.
     case next1 rq s of
       (Panic p, s') \<Rightarrow> if p = noReturn then (Panic p, s') else (Ok (add_headers hs (Status 500)), s')
     | r \<Rightarrow> r)"

definition abort :: "request \<Rightarrow> error \<Rightarrow> ('l, response) srv" where
  "abort rq err = onWorld (ErrorResponse rq err)"

definition Auth :: "'l handler \<Rightarrow> 'l handler" where
  "Auth next1 rq =
     (let apiKey = rq_Header rq ''X-API-Key'' in
     if apiKey = [] then abort rq (New Unauthorized ''API key required'')
     else bindC (tryC (onWorld (ValidateAPIKey apiKey))) (\<lambda>r.
       case r of
         Inl err \<Rightarrow> abort rq (New Unauthorized ''invalid API key'')
       | Inr apiKeyObj \<Rightarrow> next1 (rq\<lparr>rq_ctx := WithUserID (rq_ctx rq) (key_UserID apiKeyObj), rq_userID := Some (key_UserID apiKeyObj)\<rparr>)))"

definition GetUserID :: "request \<Rightarrow> uuid" where
  "GetUserID rq = (case rq_userID rq of None \<Rightarrow> uuid_Nil | Some u \<Rightarrow> u)"

definition Permission_mw :: "Permission \<Rightarrow> 'l handler \<Rightarrow> 'l handler" where
  "Permission_mw permission next1 rq =
     (let userID = GetUserID rq in
     if userID = uuid_Nil then abort rq (New Unauthorized ''authentication required'')
     else bindC (tryC (onWorld (Authorize userID permission))) (\<lambda>r.
       case r of Inl err \<Rightarrow> abort rq err | Inr _ \<Rightarrow> next1 rq))"

end
