(* ===== verification/Dashboard.thy ===== *)
theory Dashboard
  imports Http
begin

text \<open>
  The dashboard service \<^verbatim>\<open>dashboard.go\<close>, which counts the resources of the caller, and the health service \<^verbatim>\<open>health.go\<close>.
\<close>

section \<open>The dashboard\<close>

text \<open>The loop over the instances and its switch on the status, and the loop over the volumes.\<close>

definition count_instance :: "Instance \<Rightarrow> ResourceSummary \<Rightarrow> ResourceSummary" where
  "count_instance inst summary =
     (if inst_Status inst = StatusRunning then summary\<lparr>rsm_RunningInstances := rsm_RunningInstances summary + 1\<rparr>
      else if inst_Status inst = StatusStopped then summary\<lparr>rsm_StoppedInstances := rsm_StoppedInstances summary + 1\<rparr>
      else summary)"

definition count_volume :: "Volume \<Rightarrow> ResourceSummary \<Rightarrow> ResourceSummary" where
  "count_volume vol summary =
     (let summary = summary\<lparr>rsm_TotalStorageMB := rsm_TotalStorageMB summary + vol_SizeGB vol * 1024\<rparr> in
      if vol_InstanceID vol \<noteq> None then summary\<lparr>rsm_AttachedVolumes := rsm_AttachedVolumes summary + 1\<rparr> else summary)"

definition empty_summary :: ResourceSummary where
  "empty_summary = \<lparr>rsm_TotalInstances = 0, rsm_RunningInstances = 0, rsm_StoppedInstances = 0, rsm_TotalVolumes = 0,
     rsm_AttachedVolumes = 0, rsm_TotalVPCs = 0, rsm_TotalStorageMB = 0\<rparr>"

definition GetSummary :: "env \<Rightarrow> ctx \<Rightarrow> ResourceSummary op" where
  "GetSummary E ctx =
     bindC (InstanceRepository_List ctx) (\<lambda>instances.
     let summary = fold count_instance instances (empty_summary\<lparr>rsm_TotalInstances := int (length instances)\<rparr>) in
     bindC (VolumeRepository_List ctx) (\<lambda>volumes.
     let summary = fold count_volume volumes (summary\<lparr>rsm_TotalVolumes := int (length volumes)\<rparr>) in
     bindC (VpcRepository_List ctx) (\<lambda>vpcs.
     returnC (summary\<lparr>rsm_TotalVPCs := int (length vpcs)\<rparr>))))"

definition GetRecentEvents :: "ctx \<Rightarrow> int \<Rightarrow> Event list op" where
  "GetRecentEvents ctx limit = EventRepository_List ctx limit"

definition GetStats :: "env \<Rightarrow> ctx \<Rightarrow> DashboardStats op" where
  "GetStats E ctx =
     bindC (GetSummary E ctx) (\<lambda>summary.
     bindC (GetRecentEvents ctx 10) (\<lambda>events.
     returnC \<lparr>dst_Summary = summary, dst_RecentEvents = events, dst_CPUHistory = [], dst_MemoryHistory = []\<rparr>))"

section \<open>Health\<close>

definition Check :: "HealthCheckResult op" where
  "Check =
     bindC (tryC (extC (returnC ()))) (\<lambda>db.
     bindC (tryC (backendC BPing)) (\<lambda>docker.
     bindC nowC (\<lambda>now.
     let text = (\<lambda>r. case r of Inl err \<Rightarrow> ''DISCONNECTED: '' @ Error_Error err | Inr _ \<Rightarrow> ''CONNECTED'') in
     returnC \<lparr>hc_Status = (if isl db \<or> isl docker then ''DEGRADED'' else ''UP''),
              hc_Checks = [(''database'', text db), (''docker'', text docker)], hc_Time = now\<rparr>)))"

section \<open>Facts\<close>

lemma fold_count_instance:
  "fold count_instance xs y = y\<lparr>rsm_RunningInstances := rsm_RunningInstances y + int (length (filter (\<lambda>i. inst_Status i = StatusRunning) xs)),
     rsm_StoppedInstances := rsm_StoppedInstances y + int (length (filter (\<lambda>i. inst_Status i = StatusStopped) xs))\<rparr>"
  by (induction xs arbitrary: y) (auto simp: count_instance_def)

lemma fold_count_volume:
  "fold count_volume xs y = y\<lparr>rsm_AttachedVolumes := rsm_AttachedVolumes y + int (length (filter (\<lambda>v. vol_InstanceID v \<noteq> None) xs)),
     rsm_TotalStorageMB := rsm_TotalStorageMB y + 1024 * (\<Sum>v\<leftarrow>xs. vol_SizeGB v)\<rparr>"
  by (induction xs arbitrary: y) (auto simp: count_volume_def Let_def)

text \<open>The summary of a caller counts exactly the rows of the caller.\<close>

theorem GetSummary_counts:
  assumes "faults s = []"
  shows "GetSummary E ctx s = (Ok \<lparr>rsm_TotalInstances = int (length (filter (\<lambda>x. inst_UserID x = UserIDFromContext ctx) (t_instances s))),
     rsm_RunningInstances = int (length (filter (\<lambda>i. inst_Status i = StatusRunning) (filter (\<lambda>x. inst_UserID x = UserIDFromContext ctx) (t_instances s)))),
     rsm_StoppedInstances = int (length (filter (\<lambda>i. inst_Status i = StatusStopped) (filter (\<lambda>x. inst_UserID x = UserIDFromContext ctx) (t_instances s)))),
     rsm_TotalVolumes = int (length (filter (\<lambda>v. vol_UserID v = UserIDFromContext ctx) (t_volumes s))),
     rsm_AttachedVolumes = int (length (filter (\<lambda>v. vol_InstanceID v \<noteq> None) (filter (\<lambda>v. vol_UserID v = UserIDFromContext ctx) (t_volumes s)))),
     rsm_TotalVPCs = int (length (filter (\<lambda>v. vpc_UserID v = UserIDFromContext ctx) (t_vpcs s))),
     rsm_TotalStorageMB = 1024 * (\<Sum>v\<leftarrow>filter (\<lambda>v. vol_UserID v = UserIDFromContext ctx) (t_volumes s). vol_SizeGB v)\<rparr>, s)"
proof -
  have sums: "(\<Sum>v\<leftarrow>sort_key f xs. g v) = (\<Sum>v\<leftarrow>xs. (g v :: int))" for f :: "Volume \<Rightarrow> time" and g xs
    by (metis mset_map mset_sort sum_mset_sum_list)
  have lens: "length (filter P (sort_key f xs)) = length (filter P xs)" for P and f :: "'x \<Rightarrow> time" and xs
    by (simp add: filter_sort)
  show ?thesis
    using assms(1)
    by (simp add: GetSummary_def InstanceRepository_List_def VolumeRepository_List_def VpcRepository_List_def run Let_def
        fold_count_instance fold_count_volume empty_summary_def sums lens)
qed

end
