(* ===== verification/Requests.thy ===== *)
theory Requests
  imports Dashboard
begin

text \<open>
  The bodies of the requests (\<^verbatim>\<open>internal/handlers\<close>): one record per request struct, the decoding and tag validation that gin performs as
  the parameter \<open>binding\<close>, and the checks the handlers make themselves, with the parts of \<^verbatim>\<open>unicode/utf8\<close> and \<^verbatim>\<open>fmt.Sscanf\<close> they use.
\<close>

section \<open>Request bodies\<close>

record VolumeAttachmentRequest =
  va_VolumeID :: string
  va_MountPath :: string

record LaunchRequest =
  lr_Name :: string
  lr_Image :: string
  lr_Ports :: string
  lr_VpcID :: string
  lr_SubnetID :: string
  lr_Volumes :: "VolumeAttachmentRequest list"

record CreateLBRequest =
  clb_Name :: string
  clb_VpcID :: string
  clb_Port :: int
  clb_Algorithm :: string

record AddTargetRequest =
  at_InstanceID :: string
  at_Port :: int
  at_Weight :: int

record CreateGroupRequest =
  cg_Name :: string
  cg_VpcID :: uuid
  cg_LoadBalancerID :: "uuid option"
  cg_Image :: string
  cg_Ports :: string
  cg_MinInstances :: int
  cg_MaxInstances :: int
  cg_DesiredCount :: int

record CreateASPolicyRequest =
  cp_Name :: string
  cp_MetricType :: string
  cp_TargetValue :: rat
  cp_ScaleOut :: int
  cp_ScaleIn :: int
  cp_CooldownSec :: int

record CreateRoleRequest =
  crr_Name :: string
  crr_Description :: string
  crr_Permissions :: "Permission list"

record CreateJobRequest =
  cj_req_Name :: string
  cj_req_Schedule :: string
  cj_req_TargetURL :: string
  cj_req_TargetMethod :: string
  cj_req_TargetPayload :: string

record CreateRouteRequest =
  crt_Name :: string
  crt_PathPrefix :: string
  crt_TargetURL :: string
  crt_StripPrefix :: bool
  crt_RateLimit :: int

text \<open>
  \<^verbatim>\<open>ShouldBindJSON\<close> and \<^verbatim>\<open>ShouldBind\<close> for each struct: the text of the error, or the struct. Small anonymous structs are tuples of
  their fields in order. \<open>formFile\<close> finds an uploaded file in the body. \<open>unicode_letter\<close> and \<open>unicode_digit\<close> are the tables of
  the package \<^verbatim>\<open>unicode\<close> beyond ASCII, \<open>proxy_path\<close> is the path of a route's target URL and \<open>upstream\<close> the status with which it answers a path. \<open>defaultCIDR\<close> is configured, \<open>network_type\<close> is
  the kind of the network backend and \<open>metrics_page\<close> and \<open>swagger_page\<close> are the handlers of the third-party packages.
\<close>

record binding =
  bindRegister :: "string \<Rightarrow> string + string \<times> string \<times> string"
  bindLogin :: "string \<Rightarrow> string + string \<times> string"
  bindForgotPassword :: "string \<Rightarrow> string + string"
  bindResetPassword :: "string \<Rightarrow> string + string \<times> string"
  bindCreateKey :: "string \<Rightarrow> string + string"
  bindLaunch :: "string \<Rightarrow> string + LaunchRequest"
  bindVPC :: "string \<Rightarrow> string + string \<times> string"
  bindSubnet :: "string \<Rightarrow> string + string \<times> string \<times> string"
  bindVolume :: "string \<Rightarrow> string + string \<times> int"
  bindCreateLB :: "string \<Rightarrow> string + CreateLBRequest"
  bindAddTarget :: "string \<Rightarrow> string + AddTargetRequest"
  bindCreateGroup :: "string \<Rightarrow> string + CreateGroupRequest"
  bindCreatePolicy :: "string \<Rightarrow> string + CreateASPolicyRequest"
  bindCreateRole :: "string \<Rightarrow> string + CreateRoleRequest"
  bindPermission :: "string \<Rightarrow> string + Permission"
  bindRole :: "string \<Rightarrow> string + string \<times> string"
  bindSnapshot :: "string \<Rightarrow> string + uuid \<times> string"
  bindRestore :: "string \<Rightarrow> string + string"
  bindSecurityGroup :: "string \<Rightarrow> string + uuid \<times> string \<times> string"
  bindSecurityRule :: "string \<Rightarrow> string + SecurityRule"
  bindAttach :: "string \<Rightarrow> string + uuid \<times> uuid"
  bindQueue :: "string \<Rightarrow> string + string \<times> CreateQueueOptions"
  bindMessage :: "string \<Rightarrow> string + string"
  bindSecret :: "string \<Rightarrow> string + string \<times> string \<times> string"
  bindTopic :: "string \<Rightarrow> string + string"
  bindSubscribe :: "string \<Rightarrow> string + string \<times> string"
  bindPublish :: "string \<Rightarrow> string + string"
  bindFunction :: "string \<Rightarrow> string + string \<times> string \<times> string"
  bindStack :: "string \<Rightarrow> string + string \<times> string \<times> (string \<times> string) list"
  bindTemplate :: "string \<Rightarrow> string + string"
  bindJob :: "string \<Rightarrow> string + CreateJobRequest"
  bindDatabase :: "string \<Rightarrow> string + string \<times> string \<times> string \<times> uuid option"
  bindCache :: "string \<Rightarrow> string + string \<times> string \<times> int \<times> uuid option"
  bindDeployment :: "string \<Rightarrow> string + string \<times> string \<times> int \<times> string"
  bindScale :: "string \<Rightarrow> string + int"
  bindRoute :: "string \<Rightarrow> string + CreateRouteRequest"
  formFile :: "string \<Rightarrow> string \<Rightarrow> string + string"
  unicode_letter :: "nat \<Rightarrow> bool"
  unicode_digit :: "nat \<Rightarrow> bool"
  proxy_path :: "GatewayRoute \<Rightarrow> string"
  upstream :: "GatewayRoute \<Rightarrow> string \<Rightarrow> nat"
  defaultCIDR :: string
  network_type :: string
  metrics_page :: "world \<Rightarrow> string"
  swagger_page :: "string \<Rightarrow> string"

text \<open>\<^verbatim>\<open>if err := c.ShouldBindJSON(&req); err != nil { ...; return }\<close> and the same with \<^verbatim>\<open>uuid.Parse\<close>.\<close>

definition orBad :: "'e + 'a \<Rightarrow> ('e \<Rightarrow> response op) \<Rightarrow> ('a \<Rightarrow> response op) \<Rightarrow> response op" where
  "orBad r bad k = (case r of Inl err \<Rightarrow> bad err | Inr x \<Rightarrow> k x)"

definition parseID :: "env \<Rightarrow> string \<Rightarrow> response op \<Rightarrow> (uuid \<Rightarrow> response op) \<Rightarrow> response op" where
  "parseID E s bad k = (case uuid_parse E s of None \<Rightarrow> bad | Some i \<Rightarrow> k i)"

text \<open>The four ways in which handlers answer a request they cannot read: \<^verbatim>\<open>httputil.Error(c, err)\<close> on the error of the package,
  \<^verbatim>\<open>errors.New(errors.InvalidInput, ...)\<close> with the text of the error or with a fixed text, and a plain 400.\<close>

definition rawError :: "request \<Rightarrow> string \<Rightarrow> response op" where
  "rawError rq err = ErrorResponse rq (Errorf err None)"

definition invalidInput :: "request \<Rightarrow> string \<Rightarrow> response op" where
  "invalidInput rq msg = ErrorResponse rq (New InvalidInput msg)"

definition badRequest :: "string \<Rightarrow> response op" where
  "badRequest msg = returnC (JSON_error 400 msg)"

definition invalidUUID :: "request \<Rightarrow> response op" where
  "invalidUUID rq = rawError rq ''invalid UUID''"

definition SuccessMessage :: "request \<Rightarrow> string \<Rightarrow> response op" where
  "SuccessMessage rq msg = Success rq 200 (JFields [(''message'', msg)])"

section \<open>Runes\<close>

text \<open>Ranging over a string decodes UTF-8; a byte that starts no valid sequence is the rune U+FFFD of width one.\<close>

definition byte_at :: "nat list \<Rightarrow> nat \<Rightarrow> nat" where
  "byte_at bs i = (if i < length bs then bs ! i else 0)"

definition cont :: "nat \<Rightarrow> bool" where
  "cont b \<longleftrightarrow> 0x80 \<le> b \<and> b \<le> 0xBF"

definition decode_rune :: "nat list \<Rightarrow> nat \<times> nat" where
  "decode_rune bs =
     (let a = byte_at bs 0; b = byte_at bs 1; c = byte_at bs 2; d = byte_at bs 3 in
      if a < 0x80 then (a, 1)
      else if 0xC2 \<le> a \<and> a \<le> 0xDF \<and> cont b then ((a - 0xC0) * 64 + (b - 0x80), 2)
      else if 0xE0 \<le> a \<and> a \<le> 0xEF \<and> cont b \<and> cont c \<and> (a = 0xE0 \<longrightarrow> 0xA0 \<le> b) \<and> (a = 0xED \<longrightarrow> b \<le> 0x9F)
      then ((a - 0xE0) * 4096 + (b - 0x80) * 64 + (c - 0x80), 3)
      else if 0xF0 \<le> a \<and> a \<le> 0xF4 \<and> cont b \<and> cont c \<and> cont d \<and> (a = 0xF0 \<longrightarrow> 0x90 \<le> b) \<and> (a = 0xF4 \<longrightarrow> b \<le> 0x8F)
      then ((a - 0xF0) * 262144 + (b - 0x80) * 4096 + (c - 0x80) * 64 + (d - 0x80), 4)
      else (0xFFFD, 1))"

function runes_of :: "nat list \<Rightarrow> nat list" where
  "runes_of bs = (if bs = [] then [] else let (r, w) = decode_rune bs in r # runes_of (drop w bs))"
  by pat_completeness auto
termination
proof (relation "measure length")
  fix bs :: "nat list" and p r w
  assume "bs \<noteq> []" and "p = decode_rune bs" and "(r, w) = p"
  moreover have "0 < snd (decode_rune bs)"
    by (simp add: decode_rune_def Let_def)
  ultimately have "0 < w" by (metis snd_conv)
  with \<open>bs \<noteq> []\<close> show "(drop w bs, bs) \<in> measure length" by simp
qed simp

declare runes_of.simps [simp del]

definition runes :: "string \<Rightarrow> nat list" where
  "runes s = runes_of (map of_char s)"

definition IsLetter :: "binding \<Rightarrow> nat \<Rightarrow> bool" where
  "IsLetter B r = (if r < 128 then 65 \<le> r \<and> r \<le> 90 \<or> 97 \<le> r \<and> r \<le> 122 else unicode_letter B r)"

definition IsDigit :: "binding \<Rightarrow> nat \<Rightarrow> bool" where
  "IsDigit B r = (if r < 128 then 48 \<le> r \<and> r \<le> 57 else unicode_digit B r)"

section \<open>Validation of a launch\<close>

definition maxNameLength :: nat where
  "maxNameLength = 64"

definition minNameLength :: nat where
  "minNameLength = 1"

definition maxImageLength :: nat where
  "maxImageLength = 256"

definition isValidResourceName :: "binding \<Rightarrow> string \<Rightarrow> bool" where
  "isValidResourceName B name =
     list_all (\<lambda>r. \<not> (\<not> IsLetter B r \<and> \<not> IsDigit B r \<and> r \<noteq> 45 \<and> r \<noteq> 95)) (runes name)"

definition validateAttachment :: "VolumeAttachmentRequest \<Rightarrow> error + VolumeAttachmentRequest" where
  "validateAttachment v =
     (if TrimSpace (va_VolumeID v) = [] then Inl (New InvalidInput ''volume_id is required for volume attachment'')
      else if TrimSpace (va_MountPath v) = [] then Inl (New InvalidInput ''mount_path is required for volume attachment'')
      else if \<not> HasPrefix (va_MountPath v) ''/'' then Inl (New InvalidInput ''mount_path must be an absolute path starting with /'')
      else Inr \<lparr>va_VolumeID = TrimSpace (va_VolumeID v), va_MountPath = TrimSpace (va_MountPath v)\<rparr>)"

fun validateAttachments :: "VolumeAttachmentRequest list \<Rightarrow> error + VolumeAttachmentRequest list" where
  "validateAttachments [] = Inr []"
| "validateAttachments (v # vs) =
     (case validateAttachment v of
        Inl err \<Rightarrow> Inl err
      | Inr v \<Rightarrow> (case validateAttachments vs of Inl err \<Rightarrow> Inl err | Inr vs \<Rightarrow> Inr (v # vs)))"

text \<open>The request is trimmed in place; the model returns it.\<close>

definition validateLaunchRequest :: "binding \<Rightarrow> LaunchRequest \<Rightarrow> error + LaunchRequest" where
  "validateLaunchRequest B req =
     (let name = TrimSpace (lr_Name req); img = TrimSpace (lr_Image req) in
      if length name < minNameLength \<or> length name > maxNameLength
      then Inl (New InvalidInput ''name must be between 1 and 64 characters'')
      else if \<not> isValidResourceName B name
      then Inl (New InvalidInput ''name must contain only alphanumeric characters, hyphens, and underscores'')
      else if img = [] then Inl (New InvalidInput ''image is required'')
      else if length img > maxImageLength then Inl (New InvalidInput ''image name too long (max 256 characters)'')
      else case validateAttachments (lr_Volumes req) of
             Inl err \<Rightarrow> Inl err
           | Inr vs \<Rightarrow> Inr (req\<lparr>lr_Name := name, lr_Image := img, lr_Volumes := vs\<rparr>))"

section \<open>Numbers in queries\<close>

text \<open>\<^verbatim>\<open>fmt.Sscanf(s, "%d", &v)\<close>: white space without a newline, an optional sign, the longest run of digits; what follows is ignored. \<open>None\<close> is
  an error, after which the variable keeps its value.\<close>

definition Sscanf_int :: "string \<Rightarrow> int option" where
  "Sscanf_int s = (case scan_skip s of None \<Rightarrow> None | Some t \<Rightarrow>
     let sign = takeWhile (\<lambda>c. c = CHR ''+'' \<or> c = CHR ''-'') (take 1 t);
         digits = takeWhile is_digit (drop (length sign) t) in
     if digits = [] then None else Atoi (sign @ digits))"

section \<open>Facts\<close>

text \<open>Decoding skips no ASCII byte: the bytes of a longer sequence are all at least 128.\<close>

lemma decode_rune_conts:
  "1 < snd (decode_rune bs) \<Longrightarrow> cont (byte_at bs 1)" "2 < snd (decode_rune bs) \<Longrightarrow> cont (byte_at bs 2)"
  "3 < snd (decode_rune bs) \<Longrightarrow> cont (byte_at bs 3)" "snd (decode_rune bs) \<le> 4"
  "byte_at bs 0 < 128 \<Longrightarrow> decode_rune bs = (byte_at bs 0, 1)"
  by (simp_all add: decode_rune_def Let_def split: if_splits)

lemma decode_rune_ascii:
  assumes "x \<in> set (take (snd (decode_rune bs)) bs)" and "x < 128"
  shows "x = fst (decode_rune bs)"
proof -
  obtain i where "x = bs ! i" "i < length bs" "i < snd (decode_rune bs)"
    using assms(1) by (auto simp: in_set_conv_nth)
  then have i: "x = byte_at bs i" "i < snd (decode_rune bs)" by (simp_all add: byte_at_def)
  with decode_rune_conts(4) [of bs] have "i = 0 \<or> i = 1 \<or> i = 2 \<or> i = 3" by linarith
  then have "i = 0" using decode_rune_conts(1-3) [of bs] i assms(2) by (auto simp: cont_def)
  then show ?thesis using decode_rune_conts(5) [of bs] i(1) assms(2) by simp
qed

lemma runes_of_ascii: "x \<in> set bs \<Longrightarrow> x < 128 \<Longrightarrow> x \<in> set (runes_of bs)"
proof (induction bs rule: runes_of.induct)
  case (1 bs)
  then obtain b bs' where bs: "bs = b # bs'" by (cases bs) auto
  obtain r w where d: "decode_rune bs = (r, w)" by fastforce
  have "x \<in> set (take w bs) \<or> x \<in> set (drop w bs)" using "1.prems" by (metis append_take_drop_id Un_iff set_append)
  then show ?case
    using "1.IH" [of "(r, w)" r w] decode_rune_ascii [of x bs] "1.prems" bs d by (subst runes_of.simps) auto
qed

lemma of_char_marks: "(of_char c :: nat) = 45 \<longleftrightarrow> c = CHR ''-''" "(of_char c :: nat) = 95 \<longleftrightarrow> c = CHR ''_''"
proof -
  have "(of_char CHR ''-'' :: nat) = 45" "(of_char CHR ''_'' :: nat) = 95" by simp_all
  then show "(of_char c :: nat) = 45 \<longleftrightarrow> c = CHR ''-''" "(of_char c :: nat) = 95 \<longleftrightarrow> c = CHR ''_''"
    by (metis of_char_eq_iff)+
qed

lemma valid_name_chars:
  assumes "isValidResourceName B name" and "c \<in> set name" and "(of_char c :: nat) < 128"
  shows "is_digit c \<or> 65 \<le> (of_char c :: nat) \<and> (of_char c :: nat) \<le> 90 \<or> 97 \<le> (of_char c :: nat) \<and> (of_char c :: nat) \<le> 122 \<or> c = CHR ''-'' \<or> c = CHR ''_''"
proof -
  have "(of_char c :: nat) \<in> set (runes name)"
    unfolding runes_def using assms(2,3) by (intro runes_of_ascii) auto
  then have "IsLetter B (of_char c) \<or> IsDigit B (of_char c) \<or> c = CHR ''-'' \<or> c = CHR ''_''"
    using assms(1) by (auto simp: isValidResourceName_def list_all_iff of_char_marks)
  then show ?thesis
    using assms(3) by (auto simp: IsLetter_def IsDigit_def is_digit_def)
qed

lemma trim_right_rev_suffix: "suffix (trim_right_rev r) r"
proof (induction r rule: trim_right_rev.induct)
  case (1 r)
  show ?case
  proof (cases "find (\<lambda>p. p \<noteq> [] \<and> prefix (rev p) r) utf8_spaces")
    case None
    then show ?thesis by (subst trim_right_rev.simps) simp
  next
    case (Some p)
    then show ?thesis
      using "1.IH" [OF Some] suffix_drop suffix_order.trans by (subst trim_right_rev.simps) fastforce
  qed
qed

lemma spaces_no_slash: "p \<in> set utf8_spaces \<Longrightarrow> p \<noteq> [] \<and> hd p \<noteq> CHR ''/''"
  by (auto simp: utf8_spaces_def)

lemma trim_left_slash:
  assumes "HasPrefix s ''/''"
  shows "trim_left s = s"
proof -
  obtain s' where s: "s = CHR ''/'' # s'" using assms by (cases s) (auto simp: HasPrefix_def)
  have "find (\<lambda>p. p \<noteq> [] \<and> prefix p s) utf8_spaces = None"
    by (auto simp: find_None_iff s prefix_Cons dest!: spaces_no_slash)
  then show ?thesis by (subst trim_left.simps) simp
qed

lemma TrimSpace_slash:
  assumes "HasPrefix s ''/''" and "TrimSpace s \<noteq> []"
  shows "HasPrefix (TrimSpace s) ''/''"
proof -
  have "prefix (TrimSpace s) s"
    using trim_right_rev_suffix [of "rev s"] by (simp add: TrimSpace_def trim_left_slash [OF assms(1)] suffix_to_prefix)
  with assms show ?thesis by (cases s; cases "TrimSpace s") (auto simp: HasPrefix_def)
qed

lemma validateAttachments_ok:
  "validateAttachments vs = Inr vs' \<Longrightarrow> v \<in> set vs' \<Longrightarrow> va_VolumeID v \<noteq> [] \<and> HasPrefix (va_MountPath v) ''/''"
  by (induction vs arbitrary: vs') (auto simp: validateAttachment_def TrimSpace_slash split: sum.splits if_splits)

text \<open>C37. What a launch request that passes validation looks like: the name has between 1 and 64 bytes, and those of them that are ASCII
  are letters, digits, hyphens and underscores (no slash, no blank, no dot, nothing a shell would read); the image has between 1 and 256
  bytes; every attachment names a volume and an absolute mount path.\<close>

theorem launch_request_well_formed:
  assumes "validateLaunchRequest B req = Inr req'"
  shows "1 \<le> length (lr_Name req') \<and> length (lr_Name req') \<le> 64 \<and>
    (\<forall>c\<in>set (lr_Name req'). (of_char c :: nat) < 128 \<longrightarrow> is_digit c \<or> 65 \<le> (of_char c :: nat) \<and> (of_char c :: nat) \<le> 90 \<or>
       97 \<le> (of_char c :: nat) \<and> (of_char c :: nat) \<le> 122 \<or> c = CHR ''-'' \<or> c = CHR ''_'') \<and>
    1 \<le> length (lr_Image req') \<and> length (lr_Image req') \<le> 256 \<and>
    (\<forall>v\<in>set (lr_Volumes req'). va_VolumeID v \<noteq> [] \<and> HasPrefix (va_MountPath v) ''/'')"
proof -
  from assms obtain vs where req: "req' = req\<lparr>lr_Name := TrimSpace (lr_Name req), lr_Image := TrimSpace (lr_Image req), lr_Volumes := vs\<rparr>"
    and vs: "validateAttachments (lr_Volumes req) = Inr vs" and name: "isValidResourceName B (TrimSpace (lr_Name req))"
    and len: "TrimSpace (lr_Name req) \<noteq> []" "length (TrimSpace (lr_Name req)) \<le> 64" "TrimSpace (lr_Image req) \<noteq> []"
      "length (TrimSpace (lr_Image req)) \<le> 256"
    by (auto simp: validateLaunchRequest_def Let_def minNameLength_def maxNameLength_def maxImageLength_def split: if_splits sum.splits)
  then show ?thesis
    using valid_name_chars [OF name] validateAttachments_ok [OF vs] by (auto simp: Suc_le_eq)
qed

section \<open>Witness\<close>

definition sample_binding :: binding where
  "sample_binding = \<lparr>bindRegister = (\<lambda>_. Inl ''EOF''), bindLogin = (\<lambda>_. Inl ''EOF''), bindForgotPassword = (\<lambda>_. Inl ''EOF''), bindResetPassword = (\<lambda>_. Inl ''EOF''),
     bindCreateKey = (\<lambda>_. Inl ''EOF''), bindLaunch = (\<lambda>_. Inl ''EOF''), bindVPC = (\<lambda>_. Inl ''EOF''), bindSubnet = (\<lambda>_. Inl ''EOF''),
     bindVolume = (\<lambda>_. Inl ''EOF''), bindCreateLB = (\<lambda>_. Inl ''EOF''), bindAddTarget = (\<lambda>_. Inl ''EOF''), bindCreateGroup = (\<lambda>_. Inl ''EOF''),
     bindCreatePolicy = (\<lambda>_. Inl ''EOF''), bindCreateRole = (\<lambda>_. Inl ''EOF''), bindPermission = (\<lambda>_. Inl ''EOF''), bindRole = (\<lambda>_. Inl ''EOF''),
     bindSnapshot = (\<lambda>_. Inl ''EOF''), bindRestore = (\<lambda>_. Inl ''EOF''), bindSecurityGroup = (\<lambda>_. Inl ''EOF''), bindSecurityRule = (\<lambda>_. Inl ''EOF''),
     bindAttach = (\<lambda>_. Inl ''EOF''), bindQueue = (\<lambda>_. Inl ''EOF''), bindMessage = (\<lambda>_. Inl ''EOF''), bindSecret = (\<lambda>_. Inl ''EOF''),
     bindTopic = (\<lambda>_. Inl ''EOF''), bindSubscribe = (\<lambda>_. Inl ''EOF''), bindPublish = (\<lambda>_. Inl ''EOF''), bindFunction = (\<lambda>_. Inl ''EOF''),
     bindStack = (\<lambda>_. Inl ''EOF''), bindTemplate = (\<lambda>_. Inl ''EOF''), bindJob = (\<lambda>_. Inl ''EOF''), bindDatabase = (\<lambda>_. Inl ''EOF''),
     bindCache = (\<lambda>_. Inl ''EOF''), bindDeployment = (\<lambda>_. Inl ''EOF''), bindScale = (\<lambda>_. Inl ''EOF''), bindRoute = (\<lambda>_. Inl ''EOF''),
     formFile = (\<lambda>_ _. Inl ''no such file''), unicode_letter = (\<lambda>_. False), unicode_digit = (\<lambda>_. False), proxy_path = (\<lambda>_. []),
     upstream = (\<lambda>_ _. 200), defaultCIDR = ''10.0.0.0/16'', network_type = ''ovs'', metrics_page = (\<lambda>_. []),
     swagger_page = (\<lambda>_. [])\<rparr>"

definition sample_launch :: LaunchRequest where
  "sample_launch = \<lparr>lr_Name = '' web-1'', lr_Image = ''nginx'', lr_Ports = [], lr_VpcID = [], lr_SubnetID = [],
     lr_Volumes = [\<lparr>va_VolumeID = ''data '', va_MountPath = ''/srv''\<rparr>]\<rparr>"

lemma sample_launch_trim: "TrimSpace '' web-1'' = ''web-1''" "TrimSpace ''nginx'' = ''nginx''" "TrimSpace ''data '' = ''data''" "TrimSpace ''/srv'' = ''/srv''"
  by (simp_all add: TrimSpace_def trim_left.simps trim_right_rev.simps utf8_spaces_def)

lemma sample_launch_runes: "runes ''web-1'' = [119, 101, 98, 45, 49]"
  by (simp add: runes_def runes_of.simps decode_rune_def byte_at_def Let_def)

theorem launch_request_well_formed_witness:
  "\<exists>req'. validateLaunchRequest sample_binding sample_launch = Inr req' \<and> length (lr_Name req') \<le> 64 \<and> lr_Name req' = ''web-1'' \<and>
     (\<forall>v\<in>set (lr_Volumes req'). HasPrefix (va_MountPath v) ''/'')"
proof -
  have "validateLaunchRequest sample_binding sample_launch = Inr (sample_launch\<lparr>lr_Name := ''web-1'', lr_Volumes := [\<lparr>va_VolumeID = ''data'', va_MountPath = ''/srv''\<rparr>]\<rparr>)"
    by (simp add: validateLaunchRequest_def sample_launch_def sample_launch_trim validateAttachment_def isValidResourceName_def sample_launch_runes
        IsLetter_def IsDigit_def HasPrefix_def minNameLength_def maxNameLength_def maxImageLength_def)
  then show ?thesis using launch_request_well_formed [of sample_binding sample_launch] by auto
qed

end
