(* ===== verification/Handlers.thy ===== *)
theory Handlers
  imports Requests
begin

text \<open>
  The HTTP handlers of accounts, compute and networks (\<^verbatim>\<open>internal/handlers\<close>): one definition per handler method. A handler reads the
  request, calls one service and renders the result or the error; the response is its value and it never returns an error of its own.
\<close>

section \<open>Accounts and keys\<close>

definition AuthHandler_Register :: "env \<Rightarrow> binding \<Rightarrow> request \<Rightarrow> response op" where
  "AuthHandler_Register E B rq =
     orBad (bindRegister B (rq_Body rq)) (invalidInput rq) (\<lambda>(email, password, name).
     orError rq (Register E (rq_ctx rq) email password name) (\<lambda>x.
     Success rq 201 (JAccount (DUser x))))"

definition AuthHandler_Login :: "env \<Rightarrow> binding \<Rightarrow> request \<Rightarrow> response op" where
  "AuthHandler_Login E B rq =
     orBad (bindLogin B (rq_Body rq)) (invalidInput rq) (\<lambda>(email, password).
     orError rq (Login E (rq_ctx rq) email password) (\<lambda>(user, apiKey).
     Success rq 200 (JAccount (DLogin user apiKey))))"

text \<open>The error of the reset is dropped, so that the answer does not tell whether the account exists.\<close>

definition AuthHandler_ForgotPassword :: "env \<Rightarrow> binding \<Rightarrow> request \<Rightarrow> response op" where
  "AuthHandler_ForgotPassword E B rq =
     orBad (bindForgotPassword B (rq_Body rq)) (invalidInput rq) (\<lambda>email.
     bindC (ignoreC (RequestReset E email)) (\<lambda>_.
     SuccessMessage rq ''If the email exists, a reset token has been sent.''))"

definition AuthHandler_ResetPassword :: "env \<Rightarrow> binding \<Rightarrow> request \<Rightarrow> response op" where
  "AuthHandler_ResetPassword E B rq =
     orBad (bindResetPassword B (rq_Body rq)) (invalidInput rq) (\<lambda>(token, newPassword).
     orError rq (ResetPassword E token newPassword) (\<lambda>_.
     SuccessMessage rq ''password updated successfully''))"

definition IdentityHandler_CreateKey :: "env \<Rightarrow> binding \<Rightarrow> request \<Rightarrow> response op" where
  "IdentityHandler_CreateKey E B rq =
     orBad (bindCreateKey B (rq_Body rq)) (rawError rq) (\<lambda>name.
     orError rq (CreateKey E (rq_ctx rq) (GetUserID rq) name) (\<lambda>x.
     Success rq 201 (JAccount (DAPIKey x))))"

definition IdentityHandler_ListKeys :: "request \<Rightarrow> response op" where
  "IdentityHandler_ListKeys rq =
     orError rq (ListKeys (GetUserID rq)) (\<lambda>x.
     Success rq 200 (JAccount (DAPIKeys x)))"

definition IdentityHandler_RevokeKey :: "env \<Rightarrow> request \<Rightarrow> response op" where
  "IdentityHandler_RevokeKey E rq =
     parseID E (rq_Param rq ''id'') (invalidUUID rq) (\<lambda>i.
     orError rq (RevokeKey E (rq_ctx rq) (GetUserID rq) i) (\<lambda>_.
     returnC (Status 204)))"

definition IdentityHandler_RotateKey :: "env \<Rightarrow> request \<Rightarrow> response op" where
  "IdentityHandler_RotateKey E rq =
     parseID E (rq_Param rq ''id'') (invalidUUID rq) (\<lambda>i.
     orError rq (RotateKey E (rq_ctx rq) (GetUserID rq) i) (\<lambda>x.
     Success rq 200 (JAccount (DAPIKey x))))"

definition IdentityHandler_RegenerateKey :: "env \<Rightarrow> request \<Rightarrow> response op" where
  "IdentityHandler_RegenerateKey E rq =
     IdentityHandler_RotateKey E rq"

definition RBACHandler_CreateRole :: "env \<Rightarrow> binding \<Rightarrow> request \<Rightarrow> response op" where
  "RBACHandler_CreateRole E B rq =
     orBad (bindCreateRole B (rq_Body rq)) (rawError rq) (\<lambda>req.
     orError rq (CreateRole E \<lparr>role_ID = uuid_Nil, role_Name = crr_Name req, role_Description = crr_Description req, role_Permissions = crr_Permissions req\<rparr>) (\<lambda>x.
     returnC (JSON 201 (JAccount (DRole x)))))"

definition RBACHandler_ListRoles :: "request \<Rightarrow> response op" where
  "RBACHandler_ListRoles rq =
     orError rq (ListRoles) (\<lambda>x.
     returnC (JSON 200 (JAccount (DRoles x))))"

definition RBACHandler_GetRole :: "env \<Rightarrow> request \<Rightarrow> response op" where
  "RBACHandler_GetRole E rq =
     (case uuid_parse E (rq_Param rq ''id'') of
        Some i \<Rightarrow> orError rq (GetRoleByID i) (\<lambda>x.
     returnC (JSON 200 (JAccount (DRole x))))
      | None \<Rightarrow> orError rq (GetRoleByName (rq_Param rq ''id'')) (\<lambda>x.
     returnC (JSON 200 (JAccount (DRole x)))))"

definition RBACHandler_UpdateRole :: "env \<Rightarrow> binding \<Rightarrow> request \<Rightarrow> response op" where
  "RBACHandler_UpdateRole E B rq =
     parseID E (rq_Param rq ''id'') (invalidUUID rq) (\<lambda>i.
     orBad (bindCreateRole B (rq_Body rq)) (rawError rq) (\<lambda>req.
     let role = \<lparr>role_ID = i, role_Name = crr_Name req, role_Description = crr_Description req, role_Permissions = crr_Permissions req\<rparr> in
     orError rq (UpdateRole role) (\<lambda>_.
     returnC (JSON 200 (JAccount (DRole role))))))"

definition RBACHandler_DeleteRole :: "env \<Rightarrow> request \<Rightarrow> response op" where
  "RBACHandler_DeleteRole E rq =
     parseID E (rq_Param rq ''id'') (invalidUUID rq) (\<lambda>i.
     orError rq (DeleteRole i) (\<lambda>_.
     returnC (Status 204)))"

definition RBACHandler_AddPermission :: "env \<Rightarrow> binding \<Rightarrow> request \<Rightarrow> response op" where
  "RBACHandler_AddPermission E B rq =
     parseID E (rq_Param rq ''id'') (invalidUUID rq) (\<lambda>i.
     orBad (bindPermission B (rq_Body rq)) (rawError rq) (\<lambda>permission.
     orError rq (AddPermissionToRole i permission) (\<lambda>_.
     returnC (Status 204))))"

definition RBACHandler_RemovePermission :: "env \<Rightarrow> request \<Rightarrow> response op" where
  "RBACHandler_RemovePermission E rq =
     parseID E (rq_Param rq ''id'') (invalidUUID rq) (\<lambda>i.
     orError rq (RemovePermissionFromRole i (rq_Param rq ''permission'')) (\<lambda>_.
     returnC (Status 204)))"

definition RBACHandler_BindRole :: "env \<Rightarrow> binding \<Rightarrow> request \<Rightarrow> response op" where
  "RBACHandler_BindRole E B rq =
     orBad (bindRole B (rq_Body rq)) (rawError rq) (\<lambda>(userIdentifier, roleName).
     orError rq (BindRole E userIdentifier roleName) (\<lambda>_.
     returnC (Status 204)))"

definition RBACHandler_ListRoleBindings :: "request \<Rightarrow> response op" where
  "RBACHandler_ListRoleBindings rq =
     orError rq (ListRoleBindings) (\<lambda>x.
     returnC (JSON 200 (JAccount (DUsers x))))"

definition EventHandler_List :: "request \<Rightarrow> response op" where
  "EventHandler_List rq =
     (let limit = Atoi_val (DefaultQuery rq ''limit'' ''50'') in
     orError rq (ListEvents (rq_ctx rq) limit) (\<lambda>x.
     Success rq 200 (JAccount (DEvents x))))"

definition AuditHandler_ListLogs :: "request \<Rightarrow> response op" where
  "AuditHandler_ListLogs rq =
     (let limit = Atoi_val (DefaultQuery rq ''limit'' ''50'') in
     orError rq (ListLogs (GetUserID rq) limit) (\<lambda>x.
     Success rq 200 (JAccount (DAuditLogs x))))"

definition SecretHandler_Create :: "env \<Rightarrow> binding \<Rightarrow> request \<Rightarrow> response op" where
  "SecretHandler_Create E B rq =
     orBad (bindSecret B (rq_Body rq)) (invalidInput rq) (\<lambda>(name, secretValue, description).
     orError rq (CreateSecret E (rq_ctx rq) name secretValue description) (\<lambda>x.
     Success rq 201 (JAccount (DSecret x))))"

definition SecretHandler_List :: "request \<Rightarrow> response op" where
  "SecretHandler_List rq =
     orError rq (ListSecrets (rq_ctx rq)) (\<lambda>x.
     Success rq 200 (JAccount (DSecrets x)))"

definition SecretHandler_Get :: "env \<Rightarrow> request \<Rightarrow> response op" where
  "SecretHandler_Get E rq =
     (case uuid_parse E (rq_Param rq ''id'') of
        None \<Rightarrow> orError rq (GetSecretByName E (rq_ctx rq) (rq_Param rq ''id'')) (\<lambda>x.
     Success rq 200 (JAccount (DSecret x)))
      | Some i \<Rightarrow> orError rq (GetSecret E (rq_ctx rq) i) (\<lambda>x.
     Success rq 200 (JAccount (DSecret x))))"

definition SecretHandler_Delete :: "env \<Rightarrow> request \<Rightarrow> response op" where
  "SecretHandler_Delete E rq =
     orError rq (case uuid_parse E (rq_Param rq ''id'') of
        None \<Rightarrow> bindC (GetSecretByName E (rq_ctx rq) (rq_Param rq ''id'')) (\<lambda>secret. returnC (sec_ID secret))
      | Some i \<Rightarrow> returnC i) (\<lambda>i.
     orError rq (DeleteSecret E (rq_ctx rq) i) (\<lambda>_.
     SuccessMessage rq ''secret deleted''))"

section \<open>Compute\<close>

text \<open>A malformed VPC identifier is refused, a malformed subnet identifier is dropped.\<close>

definition InstanceHandler_Launch :: "env \<Rightarrow> binding \<Rightarrow> request \<Rightarrow> response op" where
  "InstanceHandler_Launch E B rq =
     orBad (bindLaunch B (rq_Body rq)) (\<lambda>_. invalidInput rq ''invalid request body'') (\<lambda>req.
     orBad (validateLaunchRequest B req) (ErrorResponse rq) (\<lambda>req.
     case (if lr_VpcID req = [] then Inr None else case uuid_parse E (lr_VpcID req) of None \<Rightarrow> Inl () | Some i \<Rightarrow> Inr (Some i)) of
       Inl _ \<Rightarrow> badRequest ''invalid vpc_id format''
     | Inr vpcUUID \<Rightarrow>
     let volumes = map (\<lambda>v. \<lparr>VolumeIDOrName = va_VolumeID v, MountPath = va_MountPath v\<rparr>) (lr_Volumes req);
         subnetUUID = (if lr_SubnetID req = [] then None else uuid_parse E (lr_SubnetID req)) in
     orError rq (LaunchInstance E (rq_ctx rq) (lr_Name req) (lr_Image req) (lr_Ports req) vpcUUID subnetUUID volumes) (\<lambda>x.
     Success rq 201 (JCompute (DInstance x)))))"

definition InstanceHandler_List :: "request \<Rightarrow> response op" where
  "InstanceHandler_List rq =
     orError rq (ListInstances (rq_ctx rq)) (\<lambda>x.
     Success rq 200 (JCompute (DInstances x)))"

definition InstanceHandler_Stop :: "env \<Rightarrow> request \<Rightarrow> response op" where
  "InstanceHandler_Stop E rq =
     orError rq (StopInstance E (rq_ctx rq) (rq_Param rq ''id'')) (\<lambda>_.
     SuccessMessage rq ''instance stop initiated'')"

definition InstanceHandler_GetLogs :: "env \<Rightarrow> request \<Rightarrow> response op" where
  "InstanceHandler_GetLogs E rq =
     orError rq (GetInstanceLogs E (rq_ctx rq) (rq_Param rq ''id'')) (\<lambda>x.
     returnC \<lparr>rs_Status = 200, rs_Headers = [], rs_Body = BText x\<rparr>)"

definition InstanceHandler_Get :: "env \<Rightarrow> request \<Rightarrow> response op" where
  "InstanceHandler_Get E rq =
     orError rq (GetInstance E (rq_ctx rq) (rq_Param rq ''id'')) (\<lambda>x.
     Success rq 200 (JCompute (DInstance x)))"

definition InstanceHandler_Terminate :: "env \<Rightarrow> request \<Rightarrow> response op" where
  "InstanceHandler_Terminate E rq =
     orError rq (TerminateInstance E (rq_ctx rq) (rq_Param rq ''id'')) (\<lambda>_.
     SuccessMessage rq ''instance terminated'')"

definition InstanceHandler_GetStats :: "env \<Rightarrow> request \<Rightarrow> response op" where
  "InstanceHandler_GetStats E rq =
     orError rq (GetInstanceStats E (rq_ctx rq) (rq_Param rq ''id'')) (\<lambda>x.
     Success rq 200 (JCompute (DInstanceStats x)))"

definition VolumeHandler_Create :: "env \<Rightarrow> binding \<Rightarrow> request \<Rightarrow> response op" where
  "VolumeHandler_Create E B rq =
     orBad (bindVolume B (rq_Body rq)) (rawError rq) (\<lambda>(name, sizeGB).
     orError rq (CreateVolume E (rq_ctx rq) name sizeGB) (\<lambda>x.
     Success rq 201 (JCompute (DVolume x))))"

definition VolumeHandler_List :: "request \<Rightarrow> response op" where
  "VolumeHandler_List rq =
     orError rq (ListVolumes (rq_ctx rq)) (\<lambda>x.
     Success rq 200 (JCompute (DVolumes x)))"

definition VolumeHandler_Get :: "env \<Rightarrow> request \<Rightarrow> response op" where
  "VolumeHandler_Get E rq =
     orError rq (GetVolume E (rq_ctx rq) (rq_Param rq ''id'')) (\<lambda>x.
     Success rq 200 (JCompute (DVolume x)))"

definition VolumeHandler_Delete :: "env \<Rightarrow> request \<Rightarrow> response op" where
  "VolumeHandler_Delete E rq =
     orError rq (DeleteVolume E (rq_ctx rq) (rq_Param rq ''id'')) (\<lambda>_.
     SuccessMessage rq ''volume deleted'')"

definition SnapshotHandler_Create :: "env \<Rightarrow> binding \<Rightarrow> request \<Rightarrow> response op" where
  "SnapshotHandler_Create E B rq =
     orBad (bindSnapshot B (rq_Body rq)) (rawError rq) (\<lambda>(volumeID, description).
     orError rq (CreateSnapshot E (rq_ctx rq) volumeID description) (\<lambda>x.
     Success rq 201 (JCompute (DSnapshot x))))"

definition SnapshotHandler_List :: "request \<Rightarrow> response op" where
  "SnapshotHandler_List rq =
     orError rq (ListSnapshots (rq_ctx rq)) (\<lambda>x.
     Success rq 200 (JCompute (DSnapshots x)))"

definition SnapshotHandler_Get :: "env \<Rightarrow> request \<Rightarrow> response op" where
  "SnapshotHandler_Get E rq =
     parseID E (rq_Param rq ''id'') (invalidUUID rq) (\<lambda>i.
     orError rq (GetSnapshot (rq_ctx rq) i) (\<lambda>x.
     Success rq 200 (JCompute (DSnapshot x))))"

definition SnapshotHandler_Delete :: "env \<Rightarrow> request \<Rightarrow> response op" where
  "SnapshotHandler_Delete E rq =
     parseID E (rq_Param rq ''id'') (invalidUUID rq) (\<lambda>i.
     orError rq (DeleteSnapshot E (rq_ctx rq) i) (\<lambda>_.
     SuccessMessage rq ''snapshot deleted''))"

definition SnapshotHandler_Restore :: "env \<Rightarrow> binding \<Rightarrow> request \<Rightarrow> response op" where
  "SnapshotHandler_Restore E B rq =
     parseID E (rq_Param rq ''id'') (invalidUUID rq) (\<lambda>i.
     orBad (bindRestore B (rq_Body rq)) (rawError rq) (\<lambda>newVolumeName.
     orError rq (RestoreSnapshot E (rq_ctx rq) i newVolumeName) (\<lambda>x.
     Success rq 201 (JCompute (DVolume x)))))"

text \<open>Opening the uploaded file and reading it are calls that may fail.\<close>

definition FunctionHandler_Create :: "env \<Rightarrow> binding \<Rightarrow> request \<Rightarrow> response op" where
  "FunctionHandler_Create E B rq =
     orBad (bindFunction B (rq_Body rq)) (\<lambda>err. ErrorResponse rq (Wrap InvalidInput ''invalid request'' (ExtError err))) (\<lambda>(name, runtime, hndlr).
     orBad (formFile B (rq_Body rq) ''code'') (\<lambda>err. ErrorResponse rq (Wrap InvalidInput ''code file is required'' (ExtError err))) (\<lambda>file.
     orError rq (mapErrC (Wrap Internal ''failed to open code file'') (extC (returnC ()))) (\<lambda>_.
     orError rq (mapErrC (Wrap Internal ''failed to read code file'') (extC (returnC file))) (\<lambda>code.
     orError rq (CreateFunction E (rq_ctx rq) name runtime hndlr code) (\<lambda>x.
     Success rq 201 (JCompute (DFunction x)))))))"

definition FunctionHandler_List :: "request \<Rightarrow> response op" where
  "FunctionHandler_List rq =
     orError rq (ListFunctions (rq_ctx rq)) (\<lambda>x.
     Success rq 200 (JCompute (DFunctions x)))"

definition FunctionHandler_Get :: "env \<Rightarrow> request \<Rightarrow> response op" where
  "FunctionHandler_Get E rq =
     parseID E (rq_Param rq ''id'') (invalidInput rq ''invalid function id'') (\<lambda>i.
     orError rq (GetFunction i) (\<lambda>x.
     Success rq 200 (JCompute (DFunction x))))"

definition FunctionHandler_Delete :: "env \<Rightarrow> request \<Rightarrow> response op" where
  "FunctionHandler_Delete E rq =
     parseID E (rq_Param rq ''id'') (invalidInput rq ''invalid function id'') (\<lambda>i.
     orError rq (DeleteFunction E (rq_ctx rq) i) (\<lambda>_.
     SuccessMessage rq ''function deleted''))"

definition FunctionHandler_Invoke :: "env \<Rightarrow> request \<Rightarrow> response op" where
  "FunctionHandler_Invoke E rq =
     parseID E (rq_Param rq ''id'') (invalidInput rq ''invalid function id'') (\<lambda>i.
     orError rq (mapErrC (Wrap InvalidInput ''failed to read payload'') (extC (returnC (rq_Body rq)))) (\<lambda>payload.
     let async = (Query rq ''async'' = ''true'') in
     orError rq (InvokeFunction E (rq_ctx rq) i payload async) (\<lambda>x.
     Success rq (if async then 202 else 200) (JCompute (DInvocation x)))))"

definition FunctionHandler_GetLogs :: "env \<Rightarrow> request \<Rightarrow> response op" where
  "FunctionHandler_GetLogs E rq =
     parseID E (rq_Param rq ''id'') (invalidInput rq ''invalid function id'') (\<lambda>i.
     orError rq (GetFunctionLogs i 100) (\<lambda>x.
     Success rq 200 (JCompute (DInvocations x))))"

section \<open>Networks\<close>

definition VpcHandler_Create :: "env \<Rightarrow> binding \<Rightarrow> request \<Rightarrow> response op" where
  "VpcHandler_Create E B rq =
     orBad (bindVPC B (rq_Body rq)) (badRequest) (\<lambda>(name, cidrBlock).
     orError rq (CreateVPC E (defaultCIDR B) (rq_ctx rq) name cidrBlock) (\<lambda>x.
     Success rq 201 (JNetwork (DVPC x))))"

definition VpcHandler_List :: "request \<Rightarrow> response op" where
  "VpcHandler_List rq =
     orError rq (ListVPCs (rq_ctx rq)) (\<lambda>x.
     Success rq 200 (JNetwork (DVPCs x)))"

definition VpcHandler_Get :: "env \<Rightarrow> request \<Rightarrow> response op" where
  "VpcHandler_Get E rq =
     orError rq (GetVPC E (rq_ctx rq) (rq_Param rq ''id'')) (\<lambda>x.
     Success rq 200 (JNetwork (DVPC x)))"

definition VpcHandler_Delete :: "env \<Rightarrow> request \<Rightarrow> response op" where
  "VpcHandler_Delete E rq =
     orError rq (DeleteVPC E (rq_ctx rq) (rq_Param rq ''id'')) (\<lambda>_.
     SuccessMessage rq ''vpc deleted'')"

definition vpc_param :: "request \<Rightarrow> string" where
  "vpc_param rq = (if rq_Param rq ''vpc_id'' = [] then rq_Param rq ''id'' else rq_Param rq ''vpc_id'')"

definition SubnetHandler_Create :: "env \<Rightarrow> binding \<Rightarrow> request \<Rightarrow> response op" where
  "SubnetHandler_Create E B rq =
     parseID E (vpc_param rq) (badRequest ''invalid vpc_id'') (\<lambda>vpcID.
     orBad (bindSubnet B (rq_Body rq)) (badRequest) (\<lambda>(name, cidrBlock, availabilityZone).
     orError rq (CreateSubnet E (rq_ctx rq) vpcID name cidrBlock availabilityZone) (\<lambda>x.
     Success rq 201 (JNetwork (DSubnet x)))))"

definition SubnetHandler_List :: "env \<Rightarrow> request \<Rightarrow> response op" where
  "SubnetHandler_List E rq =
     parseID E (vpc_param rq) (badRequest ''invalid vpc_id'') (\<lambda>vpcID.
     orError rq (ListSubnets (rq_ctx rq) vpcID) (\<lambda>x.
     Success rq 200 (JNetwork (DSubnets x))))"

definition SubnetHandler_Get :: "env \<Rightarrow> request \<Rightarrow> response op" where
  "SubnetHandler_Get E rq =
     orError rq (GetSubnet E (rq_ctx rq) (rq_Param rq ''id'') uuid_Nil) (\<lambda>x.
     Success rq 200 (JNetwork (DSubnet x)))"

definition SubnetHandler_Delete :: "env \<Rightarrow> request \<Rightarrow> response op" where
  "SubnetHandler_Delete E rq =
     parseID E (rq_Param rq ''id'') (badRequest ''invalid id'') (\<lambda>i.
     orError rq (DeleteSubnet E (rq_ctx rq) i) (\<lambda>_.
     SuccessMessage rq ''subnet deleted''))"

definition SecurityGroupHandler_Create :: "env \<Rightarrow> binding \<Rightarrow> request \<Rightarrow> response op" where
  "SecurityGroupHandler_Create E B rq =
     orBad (bindSecurityGroup B (rq_Body rq)) (badRequest) (\<lambda>(vpcID, name, description).
     orError rq (SecurityGroupService_CreateGroup E (rq_ctx rq) vpcID name description) (\<lambda>x.
     Success rq 201 (JNetwork (DSecurityGroup x))))"

definition SecurityGroupHandler_List :: "env \<Rightarrow> request \<Rightarrow> response op" where
  "SecurityGroupHandler_List E rq =
     (if Query rq ''vpc_id'' = [] then badRequest ''vpc_id is required''
      else parseID E (Query rq ''vpc_id'') (badRequest ''invalid vpc_id'') (\<lambda>vpcID.
     orError rq (SecurityGroupService_ListGroups (rq_ctx rq) vpcID) (\<lambda>x.
     Success rq 200 (JNetwork (DSecurityGroups x)))))"

definition SecurityGroupHandler_Get :: "env \<Rightarrow> request \<Rightarrow> response op" where
  "SecurityGroupHandler_Get E rq =
     (let vpcID = (if Query rq ''vpc_id'' = [] then uuid_Nil else case uuid_parse E (Query rq ''vpc_id'') of None \<Rightarrow> uuid_Nil | Some i \<Rightarrow> i) in
     orError rq (SecurityGroupService_GetGroup E (rq_ctx rq) (rq_Param rq ''id'') vpcID) (\<lambda>x.
     Success rq 200 (JNetwork (DSecurityGroup x))))"

definition SecurityGroupHandler_Delete :: "env \<Rightarrow> request \<Rightarrow> response op" where
  "SecurityGroupHandler_Delete E rq =
     parseID E (rq_Param rq ''id'') (badRequest ''invalid id'') (\<lambda>i.
     orError rq (SecurityGroupService_DeleteGroup E (rq_ctx rq) i) (\<lambda>_.
     SuccessMessage rq ''security group deleted''))"

definition SecurityGroupHandler_AddRule :: "env \<Rightarrow> binding \<Rightarrow> request \<Rightarrow> response op" where
  "SecurityGroupHandler_AddRule E B rq =
     parseID E (rq_Param rq ''id'') (badRequest ''invalid group_id'') (\<lambda>i.
     orBad (bindSecurityRule B (rq_Body rq)) (badRequest) (\<lambda>req.
     orError rq (SecurityGroupService_AddRule E (rq_ctx rq) i req) (\<lambda>x.
     Success rq 201 (JNetwork (DSecurityRule x)))))"

definition SecurityGroupHandler_Attach :: "env \<Rightarrow> binding \<Rightarrow> request \<Rightarrow> response op" where
  "SecurityGroupHandler_Attach E B rq =
     orBad (bindAttach B (rq_Body rq)) (badRequest) (\<lambda>(instanceID, groupID).
     orError rq (AttachToInstance E (rq_ctx rq) instanceID groupID) (\<lambda>_.
     SuccessMessage rq ''security group attached''))"

definition LBHandler_Create :: "env \<Rightarrow> binding \<Rightarrow> request \<Rightarrow> response op" where
  "LBHandler_Create E B rq =
     orBad (bindCreateLB B (rq_Body rq)) (\<lambda>_. invalidInput rq ''invalid request body'') (\<lambda>req.
     parseID E (clb_VpcID req) (invalidInput rq ''invalid vpc_id format'') (\<lambda>vpcID.
     orError rq (LBService_Create E (rq_ctx rq) (clb_Name req) vpcID (clb_Port req) (clb_Algorithm req) (rq_Header rq ''Idempotency-Key'')) (\<lambda>x.
     Success rq 202 (JNetwork (DLB x)))))"

definition LBHandler_List :: "request \<Rightarrow> response op" where
  "LBHandler_List rq =
     orError rq (LBService_List (rq_ctx rq)) (\<lambda>x.
     Success rq 200 (JNetwork (DLBs x)))"

definition LBHandler_Get :: "env \<Rightarrow> request \<Rightarrow> response op" where
  "LBHandler_Get E rq =
     parseID E (rq_Param rq ''id'') (invalidInput rq ''invalid id format'') (\<lambda>i.
     orError rq (LBService_Get (rq_ctx rq) i) (\<lambda>x.
     Success rq 200 (JNetwork (DLB x))))"

definition LBHandler_Delete :: "env \<Rightarrow> request \<Rightarrow> response op" where
  "LBHandler_Delete E rq =
     parseID E (rq_Param rq ''id'') (invalidInput rq ''invalid id format'') (\<lambda>i.
     orError rq (LBService_Delete E (rq_ctx rq) i) (\<lambda>_.
     SuccessMessage rq ''load balancer deletion initiated''))"

definition LBHandler_AddTarget :: "env \<Rightarrow> binding \<Rightarrow> request \<Rightarrow> response op" where
  "LBHandler_AddTarget E B rq =
     parseID E (rq_Param rq ''id'') (invalidInput rq ''invalid lb_id format'') (\<lambda>i.
     orBad (bindAddTarget B (rq_Body rq)) (\<lambda>_. invalidInput rq ''invalid request body'') (\<lambda>req.
     parseID E (at_InstanceID req) (invalidInput rq ''invalid instance_id format'') (\<lambda>instID.
     orError rq (AddTarget E (rq_ctx rq) i instID (at_Port req) (at_Weight req)) (\<lambda>_.
     Success rq 201 (JFields [(''message'', ''target added'')])))))"

definition LBHandler_RemoveTarget :: "env \<Rightarrow> request \<Rightarrow> response op" where
  "LBHandler_RemoveTarget E rq =
     parseID E (rq_Param rq ''id'') (invalidInput rq ''invalid lb_id format'') (\<lambda>i.
     parseID E (rq_Param rq ''instanceId'') (invalidInput rq ''invalid instance_id format'') (\<lambda>instID.
     orError rq (RemoveTarget E (rq_ctx rq) i instID) (\<lambda>_.
     SuccessMessage rq ''target removed'')))"

definition LBHandler_ListTargets :: "env \<Rightarrow> request \<Rightarrow> response op" where
  "LBHandler_ListTargets E rq =
     parseID E (rq_Param rq ''id'') (invalidInput rq ''invalid lb_id format'') (\<lambda>i.
     orError rq (ListTargets (rq_ctx rq) i) (\<lambda>x.
     Success rq 200 (JNetwork (DTargets x))))"

definition GatewayHandler_CreateRoute :: "env \<Rightarrow> binding \<Rightarrow> request \<Rightarrow> response op" where
  "GatewayHandler_CreateRoute E B rq =
     orBad (bindRoute B (rq_Body rq)) (\<lambda>_. invalidInput rq ''Invalid request body'') (\<lambda>req.
     let rateLimit = (if crt_RateLimit req = 0 then 100 else crt_RateLimit req) in
     orError rq (CreateRoute E (rq_ctx rq) (crt_Name req) (crt_PathPrefix req) (crt_TargetURL req) (crt_StripPrefix req) rateLimit) (\<lambda>x.
     Success rq 201 (JNetwork (DRoute x))))"

definition GatewayHandler_ListRoutes :: "request \<Rightarrow> response op" where
  "GatewayHandler_ListRoutes rq =
     orError rq (ListRoutes (rq_ctx rq)) (\<lambda>x.
     Success rq 200 (JNetwork (DRoutes x)))"

definition GatewayHandler_DeleteRoute :: "env \<Rightarrow> request \<Rightarrow> response op" where
  "GatewayHandler_DeleteRoute E rq =
     parseID E (rq_Param rq ''id'') (invalidInput rq ''Invalid route ID'') (\<lambda>i.
     orError rq (DeleteRoute E (rq_ctx rq) i) (\<lambda>_.
     SuccessMessage rq ''Route deleted''))"

text \<open>The request to \<^verbatim>\<open>/gw/*proxy\<close>: the proxy of the route that serves the path answers.\<close>

definition GatewayHandler_serve :: "env \<Rightarrow> binding \<Rightarrow> request \<Rightarrow> response op" where
  "GatewayHandler_serve E B rq =
     bindC (GatewayHandler_Proxy E (proxy_path B) (rq_Param rq ''proxy'')) (\<lambda>r.
     case r of
       None \<Rightarrow> returnC (JSON_error 404 (''No route found for '' @ (if HasPrefix (rq_Param rq ''proxy'') ''/'' then [] else ''/'') @ rq_Param rq ''proxy''))
     | Some (route, path) \<Rightarrow> returnC \<lparr>rs_Status = upstream B route path, rs_Headers = [], rs_Body = BProxied route path\<rparr>)"

end
