(* ===== verification/ManagedHandlers.thy ===== *)
theory ManagedHandlers
  imports Requests
begin

text \<open>
  The HTTP handlers of the managed services: object storage, databases, caches, queues, notifications, cron jobs, deployments, scaling groups,
  stacks, dashboard and health (\<^verbatim>\<open>internal/handlers\<close>).
\<close>

section \<open>Storage\<close>

definition StorageHandler_Upload :: "env \<Rightarrow> request \<Rightarrow> response op" where
  "StorageHandler_Upload E rq =
     (let bucket = rq_Param rq ''bucket''; key = rq_Param rq ''key'' in
     if bucket = [] \<or> key = [] then invalidInput rq ''bucket and key are required''
     else orError rq (Upload E (rq_ctx rq) bucket key (rq_Body rq)) (\<lambda>x.
     Success rq 201 (JManaged (DObject x))))"

definition StorageHandler_Download :: "request \<Rightarrow> response op" where
  "StorageHandler_Download rq =
     (let bucket = rq_Param rq ''bucket''; key = rq_Param rq ''key'' in
     orError rq (Download (rq_ctx rq) bucket key) (\<lambda>(content, obj).
     returnC \<lparr>rs_Status = 200, rs_Headers = [(''Content-Disposition'', ''attachment; filename='' @ key), (''Content-Type'', obj_ContentType obj),
                (''Content-Length'', int_string (obj_SizeBytes obj))], rs_Body = BStream content\<rparr>))"

definition StorageHandler_List :: "request \<Rightarrow> response op" where
  "StorageHandler_List rq =
     orError rq (ListObjects (rq_ctx rq) (rq_Param rq ''bucket'')) (\<lambda>x.
     Success rq 200 (JManaged (DObjects x)))"

definition StorageHandler_Delete :: "env \<Rightarrow> request \<Rightarrow> response op" where
  "StorageHandler_Delete E rq =
     orError rq (DeleteObject E (rq_ctx rq) (rq_Param rq ''bucket'') (rq_Param rq ''key'')) (\<lambda>_.
     Success rq 204 (JNull))"

section \<open>Databases and caches\<close>

definition DatabaseHandler_Create :: "env \<Rightarrow> binding \<Rightarrow> request \<Rightarrow> response op" where
  "DatabaseHandler_Create E B rq =
     orBad (bindDatabase B (rq_Body rq)) (invalidInput rq) (\<lambda>(name, engine, version, vpcID).
     orError rq (CreateDatabase E (rq_ctx rq) name engine version vpcID) (\<lambda>x.
     Success rq 201 (JManaged (DDatabase x))))"

definition DatabaseHandler_List :: "request \<Rightarrow> response op" where
  "DatabaseHandler_List rq =
     orError rq (ListDatabases (rq_ctx rq)) (\<lambda>x.
     Success rq 200 (JManaged (DDatabases x)))"

definition DatabaseHandler_Get :: "env \<Rightarrow> request \<Rightarrow> response op" where
  "DatabaseHandler_Get E rq =
     parseID E (rq_Param rq ''id'') (invalidInput rq ''invalid database id'') (\<lambda>i.
     orError rq (GetDatabase E (rq_ctx rq) i) (\<lambda>x.
     Success rq 200 (JManaged (DDatabase x))))"

definition DatabaseHandler_Delete :: "env \<Rightarrow> request \<Rightarrow> response op" where
  "DatabaseHandler_Delete E rq =
     parseID E (rq_Param rq ''id'') (invalidInput rq ''invalid database id'') (\<lambda>i.
     orError rq (DeleteDatabase E (rq_ctx rq) i) (\<lambda>_.
     SuccessMessage rq ''database deleted''))"

definition DatabaseHandler_GetConnectionString :: "env \<Rightarrow> request \<Rightarrow> response op" where
  "DatabaseHandler_GetConnectionString E rq =
     parseID E (rq_Param rq ''id'') (invalidInput rq ''invalid database id'') (\<lambda>i.
     orError rq (DatabaseService_GetConnectionString E (rq_ctx rq) i) (\<lambda>x.
     Success rq 200 (JFields [(''connection_string'', x)])))"

definition CacheHandler_Create :: "env \<Rightarrow> binding \<Rightarrow> request \<Rightarrow> response op" where
  "CacheHandler_Create E B rq =
     orBad (bindCache B (rq_Body rq)) (invalidInput rq) (\<lambda>(name, version, memoryMB, vpcID).
     orError rq (CreateCache E (rq_ctx rq) name version memoryMB vpcID) (\<lambda>x.
     Success rq 201 (JManaged (DCache x))))"

definition CacheHandler_List :: "request \<Rightarrow> response op" where
  "CacheHandler_List rq =
     orError rq (ListCaches (rq_ctx rq)) (\<lambda>x.
     Success rq 200 (JManaged (DCaches x)))"

definition CacheHandler_Get :: "env \<Rightarrow> request \<Rightarrow> response op" where
  "CacheHandler_Get E rq =
     orError rq (GetCache E (rq_ctx rq) (rq_Param rq ''id'')) (\<lambda>x.
     Success rq 200 (JManaged (DCache x)))"

definition CacheHandler_Delete :: "env \<Rightarrow> request \<Rightarrow> response op" where
  "CacheHandler_Delete E rq =
     orError rq (DeleteCache E (rq_ctx rq) (rq_Param rq ''id'')) (\<lambda>_.
     SuccessMessage rq ''cache deleted'')"

definition CacheHandler_GetConnectionString :: "env \<Rightarrow> request \<Rightarrow> response op" where
  "CacheHandler_GetConnectionString E rq =
     orError rq (CacheService_GetConnectionString E (rq_ctx rq) (rq_Param rq ''id'')) (\<lambda>x.
     Success rq 200 (JFields [(''connection_string'', x)]))"

definition CacheHandler_Flush :: "env \<Rightarrow> request \<Rightarrow> response op" where
  "CacheHandler_Flush E rq =
     orError rq (FlushCache E (rq_ctx rq) (rq_Param rq ''id'')) (\<lambda>_.
     SuccessMessage rq ''cache flushed'')"

definition CacheHandler_GetStats :: "env \<Rightarrow> request \<Rightarrow> response op" where
  "CacheHandler_GetStats E rq =
     orError rq (GetCacheStats E (rq_ctx rq) (rq_Param rq ''id'')) (\<lambda>x.
     Success rq 200 (JManaged (DCacheStats x)))"

section \<open>Queues and notifications\<close>

definition QueueHandler_Create :: "env \<Rightarrow> binding \<Rightarrow> request \<Rightarrow> response op" where
  "QueueHandler_Create E B rq =
     orBad (bindQueue B (rq_Body rq)) (rawError rq) (\<lambda>(name, opts).
     orError rq (CreateQueue E (rq_ctx rq) name (Some opts)) (\<lambda>x.
     Success rq 201 (JManaged (DQueue x))))"

definition QueueHandler_List :: "request \<Rightarrow> response op" where
  "QueueHandler_List rq =
     orError rq (ListQueues (rq_ctx rq)) (\<lambda>x.
     Success rq 200 (JManaged (DQueues x)))"

definition QueueHandler_Get :: "env \<Rightarrow> request \<Rightarrow> response op" where
  "QueueHandler_Get E rq =
     parseID E (rq_Param rq ''id'') (invalidUUID rq) (\<lambda>i.
     orError rq (GetQueue (rq_ctx rq) i) (\<lambda>x.
     Success rq 200 (JManaged (DQueue x))))"

definition QueueHandler_Delete :: "env \<Rightarrow> request \<Rightarrow> response op" where
  "QueueHandler_Delete E rq =
     parseID E (rq_Param rq ''id'') (invalidUUID rq) (\<lambda>i.
     orError rq (DeleteQueue E (rq_ctx rq) i) (\<lambda>_.
     Success rq 204 (JNull)))"

definition QueueHandler_SendMessage :: "env \<Rightarrow> binding \<Rightarrow> request \<Rightarrow> response op" where
  "QueueHandler_SendMessage E B rq =
     parseID E (rq_Param rq ''id'') (invalidUUID rq) (\<lambda>i.
     orBad (bindMessage B (rq_Body rq)) (rawError rq) (\<lambda>content.
     orError rq (SendMessage E (rq_ctx rq) i content) (\<lambda>x.
     Success rq 201 (JManaged (DMessage x)))))"

definition QueueHandler_ReceiveMessages :: "env \<Rightarrow> request \<Rightarrow> response op" where
  "QueueHandler_ReceiveMessages E rq =
     parseID E (rq_Param rq ''id'') (invalidUUID rq) (\<lambda>i.
     let max = (case Sscanf_int (DefaultQuery rq ''max_messages'' ''1'') of None \<Rightarrow> 1 | Some m \<Rightarrow> m) in
     orError rq (ReceiveMessages E (rq_ctx rq) i max) (\<lambda>x.
     Success rq 200 (JManaged (DMessages x))))"

definition QueueHandler_DeleteMessage :: "env \<Rightarrow> request \<Rightarrow> response op" where
  "QueueHandler_DeleteMessage E rq =
     parseID E (rq_Param rq ''id'') (invalidUUID rq) (\<lambda>i.
     let hnd = rq_Param rq ''handle'' in
     if hnd = [] then rawError rq ''receipt handle is required''
     else orError rq (DeleteMessage E (rq_ctx rq) i hnd) (\<lambda>_.
     Success rq 204 (JNull)))"

definition QueueHandler_Purge :: "env \<Rightarrow> request \<Rightarrow> response op" where
  "QueueHandler_Purge E rq =
     parseID E (rq_Param rq ''id'') (invalidUUID rq) (\<lambda>i.
     orError rq (PurgeQueue E (rq_ctx rq) i) (\<lambda>_.
     Success rq 204 (JNull)))"

definition NotifyHandler_CreateTopic :: "env \<Rightarrow> binding \<Rightarrow> request \<Rightarrow> response op" where
  "NotifyHandler_CreateTopic E B rq =
     orBad (bindTopic B (rq_Body rq)) (\<lambda>_. invalidInput rq ''Invalid request body'') (\<lambda>name.
     orError rq (CreateTopic E (rq_ctx rq) name) (\<lambda>x.
     Success rq 201 (JPlatform (DTopic x))))"

definition NotifyHandler_ListTopics :: "request \<Rightarrow> response op" where
  "NotifyHandler_ListTopics rq =
     orError rq (ListTopics (rq_ctx rq)) (\<lambda>x.
     Success rq 200 (JPlatform (DTopics x)))"

definition NotifyHandler_DeleteTopic :: "env \<Rightarrow> request \<Rightarrow> response op" where
  "NotifyHandler_DeleteTopic E rq =
     parseID E (rq_Param rq ''id'') (invalidInput rq ''Invalid topic ID'') (\<lambda>i.
     orError rq (DeleteTopic E (rq_ctx rq) i) (\<lambda>_.
     SuccessMessage rq ''Topic deleted''))"

definition NotifyHandler_Subscribe :: "env \<Rightarrow> binding \<Rightarrow> request \<Rightarrow> response op" where
  "NotifyHandler_Subscribe E B rq =
     parseID E (rq_Param rq ''id'') (invalidInput rq ''Invalid topic ID'') (\<lambda>i.
     orBad (bindSubscribe B (rq_Body rq)) (\<lambda>_. invalidInput rq ''Invalid request body'') (\<lambda>(protocol, endpoint).
     orError rq (Subscribe E (rq_ctx rq) i protocol endpoint) (\<lambda>x.
     Success rq 201 (JPlatform (DSubscription x)))))"

definition NotifyHandler_ListSubscriptions :: "env \<Rightarrow> request \<Rightarrow> response op" where
  "NotifyHandler_ListSubscriptions E rq =
     parseID E (rq_Param rq ''id'') (invalidInput rq ''Invalid topic ID'') (\<lambda>i.
     orError rq (ListSubscriptions (rq_ctx rq) i) (\<lambda>x.
     Success rq 200 (JPlatform (DSubscriptions x))))"

definition NotifyHandler_Unsubscribe :: "env \<Rightarrow> request \<Rightarrow> response op" where
  "NotifyHandler_Unsubscribe E rq =
     parseID E (rq_Param rq ''id'') (invalidInput rq ''Invalid subscription ID'') (\<lambda>i.
     orError rq (Unsubscribe E (rq_ctx rq) i) (\<lambda>_.
     SuccessMessage rq ''Unsubscribed''))"

definition NotifyHandler_Publish :: "env \<Rightarrow> binding \<Rightarrow> request \<Rightarrow> response op" where
  "NotifyHandler_Publish E B rq =
     parseID E (rq_Param rq ''id'') (invalidInput rq ''Invalid topic ID'') (\<lambda>i.
     orBad (bindPublish B (rq_Body rq)) (\<lambda>_. invalidInput rq ''Invalid request body'') (\<lambda>content.
     orError rq (Publish E (rq_ctx rq) i content) (\<lambda>_.
     SuccessMessage rq ''Message published'')))"

section \<open>Cron jobs, deployments, scaling groups and stacks\<close>

definition CronHandler_CreateJob :: "env \<Rightarrow> binding \<Rightarrow> request \<Rightarrow> response op" where
  "CronHandler_CreateJob E B rq =
     orBad (bindJob B (rq_Body rq)) (\<lambda>_. invalidInput rq ''Invalid request body'') (\<lambda>req.
     let targetMethod = (if cj_req_TargetMethod req = [] then ''POST'' else cj_req_TargetMethod req) in
     orError rq (CreateJob E (rq_ctx rq) (cj_req_Name req) (cj_req_Schedule req) (cj_req_TargetURL req) targetMethod (cj_req_TargetPayload req)) (\<lambda>x.
     Success rq 201 (JPlatform (DCronJob x))))"

definition CronHandler_ListJobs :: "request \<Rightarrow> response op" where
  "CronHandler_ListJobs rq =
     orError rq (ListJobs (rq_ctx rq)) (\<lambda>x.
     Success rq 200 (JPlatform (DCronJobs x)))"

definition CronHandler_GetJob :: "env \<Rightarrow> request \<Rightarrow> response op" where
  "CronHandler_GetJob E rq =
     parseID E (rq_Param rq ''id'') (invalidInput rq ''Invalid job ID'') (\<lambda>i.
     orError rq (GetJob (rq_ctx rq) i) (\<lambda>x.
     Success rq 200 (JPlatform (DCronJob x))))"

definition CronHandler_PauseJob :: "env \<Rightarrow> request \<Rightarrow> response op" where
  "CronHandler_PauseJob E rq =
     parseID E (rq_Param rq ''id'') (invalidInput rq ''Invalid job ID'') (\<lambda>i.
     orError rq (PauseJob (rq_ctx rq) i) (\<lambda>_.
     SuccessMessage rq ''Job paused''))"

definition CronHandler_ResumeJob :: "env \<Rightarrow> request \<Rightarrow> response op" where
  "CronHandler_ResumeJob E rq =
     parseID E (rq_Param rq ''id'') (invalidInput rq ''Invalid job ID'') (\<lambda>i.
     orError rq (ResumeJob E (rq_ctx rq) i) (\<lambda>_.
     SuccessMessage rq ''Job resumed''))"

definition CronHandler_DeleteJob :: "env \<Rightarrow> request \<Rightarrow> response op" where
  "CronHandler_DeleteJob E rq =
     parseID E (rq_Param rq ''id'') (invalidInput rq ''Invalid job ID'') (\<lambda>i.
     orError rq (DeleteJob E (rq_ctx rq) i) (\<lambda>_.
     SuccessMessage rq ''Job deleted''))"

definition ContainerHandler_CreateDeployment :: "env \<Rightarrow> binding \<Rightarrow> request \<Rightarrow> response op" where
  "ContainerHandler_CreateDeployment E B rq =
     orBad (bindDeployment B (rq_Body rq)) (\<lambda>_. invalidInput rq ''Invalid request body'') (\<lambda>(name, img, replicas, ports).
     orError rq (CreateDeployment E (rq_ctx rq) name img replicas ports) (\<lambda>x.
     Success rq 201 (JPlatform (DDeployment x))))"

definition ContainerHandler_ListDeployments :: "request \<Rightarrow> response op" where
  "ContainerHandler_ListDeployments rq =
     orError rq (ListDeployments (rq_ctx rq)) (\<lambda>x.
     Success rq 200 (JPlatform (DDeployments x)))"

definition ContainerHandler_GetDeployment :: "env \<Rightarrow> request \<Rightarrow> response op" where
  "ContainerHandler_GetDeployment E rq =
     parseID E (rq_Param rq ''id'') (invalidInput rq ''Invalid deployment ID'') (\<lambda>i.
     orError rq (GetDeployment (rq_ctx rq) i) (\<lambda>x.
     Success rq 200 (JPlatform (DDeployment x))))"

definition ContainerHandler_ScaleDeployment :: "env \<Rightarrow> binding \<Rightarrow> request \<Rightarrow> response op" where
  "ContainerHandler_ScaleDeployment E B rq =
     parseID E (rq_Param rq ''id'') (invalidInput rq ''Invalid deployment ID'') (\<lambda>i.
     orBad (bindScale B (rq_Body rq)) (\<lambda>_. invalidInput rq ''Invalid request body'') (\<lambda>replicas.
     orError rq (ScaleDeployment E (rq_ctx rq) i replicas) (\<lambda>_.
     SuccessMessage rq ''Deployment scaling initiated'')))"

definition ContainerHandler_DeleteDeployment :: "env \<Rightarrow> request \<Rightarrow> response op" where
  "ContainerHandler_DeleteDeployment E rq =
     parseID E (rq_Param rq ''id'') (invalidInput rq ''Invalid deployment ID'') (\<lambda>i.
     orError rq (DeleteDeployment E (rq_ctx rq) i) (\<lambda>_.
     SuccessMessage rq ''Deployment deletion initiated''))"

definition AutoScalingHandler_CreateGroup :: "env \<Rightarrow> binding \<Rightarrow> request \<Rightarrow> response op" where
  "AutoScalingHandler_CreateGroup E B rq =
     orBad (bindCreateGroup B (rq_Body rq)) (invalidInput rq) (\<lambda>req.
     let params = \<lparr>par_Name = cg_Name req, par_VpcID = cg_VpcID req, par_Image = cg_Image req, par_Ports = cg_Ports req,
                   par_MinInstances = cg_MinInstances req, par_MaxInstances = cg_MaxInstances req, par_DesiredCount = cg_DesiredCount req,
                   par_LoadBalancerID = cg_LoadBalancerID req, par_IdempotencyKey = rq_Header rq ''Idempotency-Key''\<rparr> in
     orError rq (CreateGroup E (rq_ctx rq) params) (\<lambda>x.
     Success rq 201 (JPlatform (DGroup x))))"

definition AutoScalingHandler_ListGroups :: "request \<Rightarrow> response op" where
  "AutoScalingHandler_ListGroups rq =
     orError rq (ListGroups (rq_ctx rq)) (\<lambda>x.
     Success rq 200 (JPlatform (DGroups x)))"

definition AutoScalingHandler_GetGroup :: "env \<Rightarrow> request \<Rightarrow> response op" where
  "AutoScalingHandler_GetGroup E rq =
     parseID E (rq_Param rq ''id'') (invalidInput rq ''invalid group id'') (\<lambda>i.
     orError rq (GetGroup (rq_ctx rq) i) (\<lambda>x.
     Success rq 200 (JPlatform (DGroup x))))"

definition AutoScalingHandler_DeleteGroup :: "env \<Rightarrow> request \<Rightarrow> response op" where
  "AutoScalingHandler_DeleteGroup E rq =
     parseID E (rq_Param rq ''id'') (invalidInput rq ''invalid group id'') (\<lambda>i.
     orError rq (DeleteGroup E (rq_ctx rq) i) (\<lambda>_.
     Success rq 204 (JNull)))"

definition AutoScalingHandler_CreatePolicy :: "env \<Rightarrow> binding \<Rightarrow> request \<Rightarrow> response op" where
  "AutoScalingHandler_CreatePolicy E B rq =
     parseID E (rq_Param rq ''id'') (invalidInput rq ''invalid group id'') (\<lambda>i.
     orBad (bindCreatePolicy B (rq_Body rq)) (invalidInput rq) (\<lambda>req.
     let params = \<lparr>pp_GroupID = i, pp_Name = cp_Name req, pp_MetricType = cp_MetricType req, pp_TargetValue = cp_TargetValue req,
                   pp_ScaleOut = cp_ScaleOut req, pp_ScaleIn = cp_ScaleIn req, pp_CooldownSec = cp_CooldownSec req\<rparr> in
     orError rq (CreatePolicy E (rq_ctx rq) params) (\<lambda>x.
     Success rq 201 (JPlatform (DPolicy x)))))"

definition AutoScalingHandler_DeletePolicy :: "env \<Rightarrow> request \<Rightarrow> response op" where
  "AutoScalingHandler_DeletePolicy E rq =
     parseID E (rq_Param rq ''id'') (invalidInput rq ''invalid policy id'') (\<lambda>i.
     orError rq (DeletePolicy (rq_ctx rq) i) (\<lambda>_.
     Success rq 204 (JNull)))"

definition StackHandler_Create :: "env \<Rightarrow> binding \<Rightarrow> request \<Rightarrow> response op" where
  "StackHandler_Create E B rq =
     orBad (bindStack B (rq_Body rq)) (rawError rq) (\<lambda>(name, template, parameters).
     orError rq (CreateStack E (rq_ctx rq) name template parameters) (\<lambda>x.
     returnC (JSON 201 (JSystem (DStack x)))))"

definition StackHandler_List :: "request \<Rightarrow> response op" where
  "StackHandler_List rq =
     orError rq (ListStacks (rq_ctx rq)) (\<lambda>x.
     returnC (JSON 200 (JSystem (DStacks x))))"

definition StackHandler_Get :: "env \<Rightarrow> request \<Rightarrow> response op" where
  "StackHandler_Get E rq =
     parseID E (rq_Param rq ''id'') (invalidUUID rq) (\<lambda>i.
     orError rq (GetStack i) (\<lambda>x.
     returnC (JSON 200 (JSystem (DStack x)))))"

definition StackHandler_Delete :: "env \<Rightarrow> request \<Rightarrow> response op" where
  "StackHandler_Delete E rq =
     parseID E (rq_Param rq ''id'') (invalidUUID rq) (\<lambda>i.
     orError rq (DeleteStack i) (\<lambda>_.
     SuccessMessage rq ''stack deleted''))"

text \<open>Validating a template never returns an error.\<close>

definition StackHandler_Validate :: "env \<Rightarrow> binding \<Rightarrow> request \<Rightarrow> response op" where
  "StackHandler_Validate E B rq =
     orBad (bindTemplate B (rq_Body rq)) (rawError rq) (\<lambda>template.
     returnC (JSON 200 (JSystem (DValidation (ValidateTemplate E template)))))"

section \<open>Dashboard and health\<close>

definition DashboardHandler_GetSummary :: "env \<Rightarrow> request \<Rightarrow> response op" where
  "DashboardHandler_GetSummary E rq =
     orError rq (GetSummary E (rq_ctx rq)) (\<lambda>x.
     Success rq 200 (JSystem (DSummary x)))"

definition DashboardHandler_GetRecentEvents :: "request \<Rightarrow> response op" where
  "DashboardHandler_GetRecentEvents rq =
     (let limit = (case Atoi (DefaultQuery rq ''limit'' ''10'') of None \<Rightarrow> 10 | Some n \<Rightarrow> if n \<le> 0 then 10 else n);
         limit = (if limit > 100 then 100 else limit) in
     orError rq (GetRecentEvents (rq_ctx rq) limit) (\<lambda>x.
     Success rq 200 (JAccount (DEvents x))))"

definition DashboardHandler_GetStats :: "env \<Rightarrow> request \<Rightarrow> response op" where
  "DashboardHandler_GetStats E rq =
     orError rq (GetStats E (rq_ctx rq)) (\<lambda>x.
     Success rq 200 (JSystem (DStats x)))"

text \<open>The event stream writes a summary when the request arrives and one per tick until the client leaves, here after \<open>n\<close> ticks; a summary that
  fails is left out.\<close>

fun stream_ticks :: "env \<Rightarrow> request \<Rightarrow> nat \<Rightarrow> (string \<times> jdata) list op" where
  "stream_ticks E rq n =
     bindC (tryC (GetSummary E (rq_ctx rq))) (\<lambda>r.
     let ev = (case r of Inl _ \<Rightarrow> [] | Inr summary \<Rightarrow> [(''summary'', JSystem (DSummary summary))]) in
     case n of 0 \<Rightarrow> returnC ev | Suc m \<Rightarrow> bindC (stream_ticks E rq m) (\<lambda>rest. returnC (ev @ rest)))"

declare stream_ticks.simps [simp del]

definition DashboardHandler_StreamEvents :: "env \<Rightarrow> nat \<Rightarrow> request \<Rightarrow> response op" where
  "DashboardHandler_StreamEvents E n rq =
     bindC (stream_ticks E rq n) (\<lambda>evs.
     returnC \<lparr>rs_Status = 200, rs_Headers = [(''Content-Type'', ''text/event-stream''), (''Cache-Control'', ''no-cache''),
       (''Connection'', ''keep-alive''), (''Access-Control-Allow-Origin'', ''*'')], rs_Body = BEvents evs\<rparr>)"

definition HealthHandler_Live :: "request \<Rightarrow> response op" where
  "HealthHandler_Live rq = returnC (JSON 200 (JFields [(''status'', ''ok'')]))"

definition HealthHandler_Ready :: "request \<Rightarrow> response op" where
  "HealthHandler_Ready rq =
     bindC Check (\<lambda>result.
     returnC (JSON (if hc_Status result = ''DEGRADED'' \<or> hc_Status result = ''DOWN'' then 503 else 200) (JSystem (DHealth result))))"

end
