(* ===== verification/Router.thy ===== *)
theory Router
  imports Handlers ManagedHandlers
begin

text \<open>
  The router \<^verbatim>\<open>internal/api/setup/router.go\<close>: the chain of middleware every request passes, the table of the routes with the middleware of
  their groups, and the dispatch of a request to its handler. Matching a path against the patterns is gin's; a request carries the pattern
  that matched.
\<close>

section \<open>Routes\<close>

text \<open>A route of a protected group: method, pattern, the permission its handler is wrapped in, if any, and the handler.\<close>

type_synonym route = "string \<times> string \<times> Permission option \<times> (request \<Rightarrow> response op)"

definition Group :: "string \<Rightarrow> route list \<Rightarrow> route list" where
  "Group pfx rs = map (\<lambda>(m, p, perm, h). (m, pfx @ p, perm, h)) rs"

definition keyRoutes :: "env \<Rightarrow> binding \<Rightarrow> nat \<Rightarrow> route list" where
  "keyRoutes E B n = Group ''/auth/keys''
     [(''POST'', [], None, IdentityHandler_CreateKey E B),
      (''GET'', [], None, IdentityHandler_ListKeys),
      (''DELETE'', ''/:id'', None, IdentityHandler_RevokeKey E),
      (''POST'', ''/:id/rotate'', None, IdentityHandler_RotateKey E),
      (''POST'', ''/:id/regenerate'', None, IdentityHandler_RegenerateKey E)]"

definition instanceRoutes :: "env \<Rightarrow> binding \<Rightarrow> nat \<Rightarrow> route list" where
  "instanceRoutes E B n = Group ''/instances''
     [(''POST'', [], Some ''instance:launch'', InstanceHandler_Launch E B),
      (''GET'', [], Some ''instance:read'', InstanceHandler_List),
      (''GET'', ''/:id'', Some ''instance:read'', InstanceHandler_Get E),
      (''POST'', ''/:id/stop'', Some ''instance:update'', InstanceHandler_Stop E),
      (''GET'', ''/:id/logs'', Some ''instance:read'', InstanceHandler_GetLogs E),
      (''GET'', ''/:id/stats'', Some ''instance:read'', InstanceHandler_GetStats E),
      (''DELETE'', ''/:id'', Some ''instance:terminate'', InstanceHandler_Terminate E)]"

definition vpcRoutes :: "env \<Rightarrow> binding \<Rightarrow> nat \<Rightarrow> route list" where
  "vpcRoutes E B n = Group ''/vpcs''
     [(''POST'', [], Some ''vpc:create'', VpcHandler_Create E B),
      (''GET'', [], Some ''vpc:read'', VpcHandler_List),
      (''GET'', ''/:id'', Some ''vpc:read'', VpcHandler_Get E),
      (''DELETE'', ''/:id'', Some ''vpc:delete'', VpcHandler_Delete E),
      (''POST'', ''/:id/subnets'', Some ''vpc:update'', SubnetHandler_Create E B),
      (''GET'', ''/:id/subnets'', Some ''vpc:read'', SubnetHandler_List E)]"

definition subnetRoutes :: "env \<Rightarrow> binding \<Rightarrow> nat \<Rightarrow> route list" where
  "subnetRoutes E B n = Group ''/subnets''
     [(''GET'', ''/:id'', Some ''vpc:read'', SubnetHandler_Get E),
      (''DELETE'', ''/:id'', Some ''vpc:update'', SubnetHandler_Delete E)]"

definition sgRoutes :: "env \<Rightarrow> binding \<Rightarrow> nat \<Rightarrow> route list" where
  "sgRoutes E B n = Group ''/security-groups''
     [(''POST'', [], None, SecurityGroupHandler_Create E B),
      (''GET'', [], None, SecurityGroupHandler_List E),
      (''GET'', ''/:id'', None, SecurityGroupHandler_Get E),
      (''DELETE'', ''/:id'', None, SecurityGroupHandler_Delete E),
      (''POST'', ''/:id/rules'', None, SecurityGroupHandler_AddRule E B),
      (''POST'', ''/attach'', None, SecurityGroupHandler_Attach E B)]"

definition storageRoutes :: "env \<Rightarrow> binding \<Rightarrow> nat \<Rightarrow> route list" where
  "storageRoutes E B n = Group ''/storage''
     [(''PUT'', ''/:bucket/:key'', None, StorageHandler_Upload E),
      (''GET'', ''/:bucket/:key'', None, StorageHandler_Download),
      (''GET'', ''/:bucket'', None, StorageHandler_List),
      (''DELETE'', ''/:bucket/:key'', None, StorageHandler_Delete E)]"

definition eventRoutes :: "env \<Rightarrow> binding \<Rightarrow> nat \<Rightarrow> route list" where
  "eventRoutes E B n = Group ''/events''
     [(''GET'', [], None, EventHandler_List)]"

definition auditRoutes :: "env \<Rightarrow> binding \<Rightarrow> nat \<Rightarrow> route list" where
  "auditRoutes E B n = Group ''/audit''
     [(''GET'', [], None, AuditHandler_ListLogs)]"

definition rbacRoutes :: "env \<Rightarrow> binding \<Rightarrow> nat \<Rightarrow> route list" where
  "rbacRoutes E B n = Group ''/rbac''
     [(''POST'', ''/roles'', Some ''*'', RBACHandler_CreateRole E B),
      (''GET'', ''/roles'', Some ''*'', RBACHandler_ListRoles),
      (''GET'', ''/roles/:id'', Some ''*'', RBACHandler_GetRole E),
      (''PUT'', ''/roles/:id'', Some ''*'', RBACHandler_UpdateRole E B),
      (''DELETE'', ''/roles/:id'', Some ''*'', RBACHandler_DeleteRole E),
      (''POST'', ''/roles/:id/permissions'', Some ''*'', RBACHandler_AddPermission E B),
      (''DELETE'', ''/roles/:id/permissions/:permission'', Some ''*'', RBACHandler_RemovePermission E),
      (''POST'', ''/bindings'', Some ''*'', RBACHandler_BindRole E B),
      (''GET'', ''/bindings'', Some ''*'', RBACHandler_ListRoleBindings)]"

definition volumeRoutes :: "env \<Rightarrow> binding \<Rightarrow> nat \<Rightarrow> route list" where
  "volumeRoutes E B n = Group ''/volumes''
     [(''POST'', [], Some ''volume:create'', VolumeHandler_Create E B),
      (''GET'', [], Some ''volume:read'', VolumeHandler_List),
      (''GET'', ''/:id'', Some ''volume:read'', VolumeHandler_Get E),
      (''DELETE'', ''/:id'', Some ''volume:delete'', VolumeHandler_Delete E)]"

definition dashboardRoutes :: "env \<Rightarrow> binding \<Rightarrow> nat \<Rightarrow> route list" where
  "dashboardRoutes E B n = Group ''/api/dashboard''
     [(''GET'', ''/summary'', None, DashboardHandler_GetSummary E),
      (''GET'', ''/events'', None, DashboardHandler_GetRecentEvents),
      (''GET'', ''/stats'', None, DashboardHandler_GetStats E),
      (''GET'', ''/stream'', None, DashboardHandler_StreamEvents E n)]"

definition snapshotRoutes :: "env \<Rightarrow> binding \<Rightarrow> nat \<Rightarrow> route list" where
  "snapshotRoutes E B n = Group ''/snapshots''
     [(''POST'', [], Some ''snapshot:create'', SnapshotHandler_Create E B),
      (''GET'', [], Some ''snapshot:read'', SnapshotHandler_List),
      (''GET'', ''/:id'', Some ''snapshot:read'', SnapshotHandler_Get E),
      (''DELETE'', ''/:id'', Some ''snapshot:delete'', SnapshotHandler_Delete E),
      (''POST'', ''/:id/restore'', Some ''snapshot:restore'', SnapshotHandler_Restore E B)]"

definition lbRoutes :: "env \<Rightarrow> binding \<Rightarrow> nat \<Rightarrow> route list" where
  "lbRoutes E B n = Group ''/lb''
     [(''POST'', [], Some ''lb:create'', LBHandler_Create E B),
      (''GET'', [], Some ''lb:read'', LBHandler_List),
      (''GET'', ''/:id'', Some ''lb:read'', LBHandler_Get E),
      (''DELETE'', ''/:id'', Some ''lb:delete'', LBHandler_Delete E),
      (''POST'', ''/:id/targets'', Some ''lb:update'', LBHandler_AddTarget E B),
      (''GET'', ''/:id/targets'', Some ''lb:read'', LBHandler_ListTargets E),
      (''DELETE'', ''/:id/targets/:instanceId'', Some ''lb:update'', LBHandler_RemoveTarget E)]"

definition dbRoutes :: "env \<Rightarrow> binding \<Rightarrow> nat \<Rightarrow> route list" where
  "dbRoutes E B n = Group ''/databases''
     [(''POST'', [], Some ''db:create'', DatabaseHandler_Create E B),
      (''GET'', [], Some ''db:read'', DatabaseHandler_List),
      (''GET'', ''/:id'', Some ''db:read'', DatabaseHandler_Get E),
      (''DELETE'', ''/:id'', Some ''db:delete'', DatabaseHandler_Delete E),
      (''GET'', ''/:id/connection'', Some ''db:read'', DatabaseHandler_GetConnectionString E)]"

definition secretRoutes :: "env \<Rightarrow> binding \<Rightarrow> nat \<Rightarrow> route list" where
  "secretRoutes E B n = Group ''/secrets''
     [(''POST'', [], Some ''secret:create'', SecretHandler_Create E B),
      (''GET'', [], Some ''secret:read'', SecretHandler_List),
      (''GET'', ''/:id'', Some ''secret:read'', SecretHandler_Get E),
      (''DELETE'', ''/:id'', Some ''secret:delete'', SecretHandler_Delete E)]"

definition fnRoutes :: "env \<Rightarrow> binding \<Rightarrow> nat \<Rightarrow> route list" where
  "fnRoutes E B n = Group ''/functions''
     [(''POST'', [], Some ''function:create'', FunctionHandler_Create E B),
      (''GET'', [], Some ''function:read'', FunctionHandler_List),
      (''GET'', ''/:id'', Some ''function:read'', FunctionHandler_Get E),
      (''DELETE'', ''/:id'', Some ''function:delete'', FunctionHandler_Delete E),
      (''POST'', ''/:id/invoke'', Some ''function:invoke'', FunctionHandler_Invoke E),
      (''GET'', ''/:id/logs'', Some ''function:read'', FunctionHandler_GetLogs E)]"

definition cacheRoutes :: "env \<Rightarrow> binding \<Rightarrow> nat \<Rightarrow> route list" where
  "cacheRoutes E B n = Group ''/caches''
     [(''POST'', [], Some ''cache:create'', CacheHandler_Create E B),
      (''GET'', [], Some ''cache:read'', CacheHandler_List),
      (''GET'', ''/:id'', Some ''cache:read'', CacheHandler_Get E),
      (''DELETE'', ''/:id'', Some ''cache:delete'', CacheHandler_Delete E),
      (''GET'', ''/:id/connection'', Some ''cache:read'', CacheHandler_GetConnectionString E),
      (''POST'', ''/:id/flush'', Some ''cache:update'', CacheHandler_Flush E),
      (''GET'', ''/:id/stats'', Some ''cache:read'', CacheHandler_GetStats E)]"

definition queueRoutes :: "env \<Rightarrow> binding \<Rightarrow> nat \<Rightarrow> route list" where
  "queueRoutes E B n = Group ''/queues''
     [(''POST'', [], Some ''queue:create'', QueueHandler_Create E B),
      (''GET'', [], Some ''queue:read'', QueueHandler_List),
      (''GET'', ''/:id'', Some ''queue:read'', QueueHandler_Get E),
      (''DELETE'', ''/:id'', Some ''queue:delete'', QueueHandler_Delete E),
      (''POST'', ''/:id/messages'', Some ''queue:write'', QueueHandler_SendMessage E B),
      (''GET'', ''/:id/messages'', Some ''queue:read'', QueueHandler_ReceiveMessages E),
      (''DELETE'', ''/:id/messages/:handle'', Some ''queue:write'', QueueHandler_DeleteMessage E),
      (''POST'', ''/:id/purge'', Some ''queue:write'', QueueHandler_Purge E)]"

definition notifyRoutes :: "env \<Rightarrow> binding \<Rightarrow> nat \<Rightarrow> route list" where
  "notifyRoutes E B n = Group ''/notify''
     [(''POST'', ''/topics'', Some ''notify:create'', NotifyHandler_CreateTopic E B),
      (''GET'', ''/topics'', Some ''notify:read'', NotifyHandler_ListTopics),
      (''DELETE'', ''/topics/:id'', Some ''notify:delete'', NotifyHandler_DeleteTopic E),
      (''POST'', ''/topics/:id/subscriptions'', Some ''notify:publish'', NotifyHandler_Subscribe E B),
      (''GET'', ''/topics/:id/subscriptions'', Some ''notify:read'', NotifyHandler_ListSubscriptions E),
      (''DELETE'', ''/subscriptions/:id'', Some ''notify:delete'', NotifyHandler_Unsubscribe E),
      (''POST'', ''/topics/:id/publish'', Some ''notify:publish'', NotifyHandler_Publish E B)]"

definition cronRoutes :: "env \<Rightarrow> binding \<Rightarrow> nat \<Rightarrow> route list" where
  "cronRoutes E B n = Group ''/cron''
     [(''POST'', ''/jobs'', Some ''cron:create'', CronHandler_CreateJob E B),
      (''GET'', ''/jobs'', Some ''cron:read'', CronHandler_ListJobs),
      (''GET'', ''/jobs/:id'', Some ''cron:read'', CronHandler_GetJob E),
      (''DELETE'', ''/jobs/:id'', Some ''cron:delete'', CronHandler_DeleteJob E),
      (''POST'', ''/jobs/:id/pause'', Some ''cron:update'', CronHandler_PauseJob E),
      (''POST'', ''/jobs/:id/resume'', Some ''cron:update'', CronHandler_ResumeJob E)]"

definition gatewayRoutes :: "env \<Rightarrow> binding \<Rightarrow> nat \<Rightarrow> route list" where
  "gatewayRoutes E B n = Group ''/gateway''
     [(''POST'', ''/routes'', Some ''gateway:create'', GatewayHandler_CreateRoute E B),
      (''GET'', ''/routes'', Some ''gateway:read'', GatewayHandler_ListRoutes),
      (''DELETE'', ''/routes/:id'', Some ''gateway:delete'', GatewayHandler_DeleteRoute E)]"

definition containerRoutes :: "env \<Rightarrow> binding \<Rightarrow> nat \<Rightarrow> route list" where
  "containerRoutes E B n = Group ''/containers''
     [(''POST'', ''/deployments'', Some ''container:create'', ContainerHandler_CreateDeployment E B),
      (''GET'', ''/deployments'', Some ''container:read'', ContainerHandler_ListDeployments),
      (''GET'', ''/deployments/:id'', Some ''container:read'', ContainerHandler_GetDeployment E),
      (''POST'', ''/deployments/:id/scale'', Some ''container:scale'', ContainerHandler_ScaleDeployment E B),
      (''DELETE'', ''/deployments/:id'', Some ''container:delete'', ContainerHandler_DeleteDeployment E)]"

definition asgRoutes :: "env \<Rightarrow> binding \<Rightarrow> nat \<Rightarrow> route list" where
  "asgRoutes E B n = Group ''/autoscaling''
     [(''POST'', ''/groups'', Some ''as:create'', AutoScalingHandler_CreateGroup E B),
      (''GET'', ''/groups'', Some ''as:read'', AutoScalingHandler_ListGroups),
      (''GET'', ''/groups/:id'', Some ''as:read'', AutoScalingHandler_GetGroup E),
      (''DELETE'', ''/groups/:id'', Some ''as:delete'', AutoScalingHandler_DeleteGroup E),
      (''POST'', ''/groups/:id/policies'', Some ''as:update'', AutoScalingHandler_CreatePolicy E B),
      (''DELETE'', ''/policies/:id'', Some ''as:delete'', AutoScalingHandler_DeletePolicy E)]"

definition iacRoutes :: "env \<Rightarrow> binding \<Rightarrow> nat \<Rightarrow> route list" where
  "iacRoutes E B n = Group ''/iac''
     [(''POST'', ''/stacks'', Some ''stack:create'', StackHandler_Create E B),
      (''GET'', ''/stacks'', Some ''stack:read'', StackHandler_List),
      (''GET'', ''/stacks/:id'', Some ''stack:read'', StackHandler_Get E),
      (''DELETE'', ''/stacks/:id'', Some ''stack:delete'', StackHandler_Delete E),
      (''POST'', ''/validate'', Some ''stack:read'', StackHandler_Validate E B)]"

definition protectedRoutes :: "env \<Rightarrow> binding \<Rightarrow> nat \<Rightarrow> route list" where
  "protectedRoutes E B n =
     concat (map (\<lambda>g. g E B n)
       [keyRoutes, instanceRoutes, vpcRoutes, subnetRoutes, sgRoutes, storageRoutes, eventRoutes, auditRoutes,
        rbacRoutes, volumeRoutes, dashboardRoutes, snapshotRoutes, lbRoutes, dbRoutes, secretRoutes, fnRoutes,
        cacheRoutes, queueRoutes, notifyRoutes, cronRoutes, gatewayRoutes, containerRoutes, asgRoutes, iacRoutes])"

definition worldHandler :: "(request \<Rightarrow> response op) \<Rightarrow> 'l handler" where
  "worldHandler h rq = onWorld (h rq)"

text \<open>The middleware of a protected group is \<^verbatim>\<open>httputil.Auth\<close>; the permission check stands between it and the handler.\<close>

definition protect :: "route \<Rightarrow> string \<times> string \<times> 'l handler" where
  "protect r = (case r of (m, p, perm, h) \<Rightarrow>
     (m, p, Auth (case perm of None \<Rightarrow> worldHandler h | Some P \<Rightarrow> Permission_mw P (worldHandler h))))"

text \<open>The health check of the network backend.\<close>

definition ovsHealth :: "env \<Rightarrow> binding \<Rightarrow> request \<Rightarrow> response op" where
  "ovsHealth E B rq =
     (if network_nil E then returnC (JSON 503 (JFields [(''status'', ''unavailable''), (''error'', ''network backend not initialized'')]))
      else if network_type B = ''noop'' then returnC (JSON 200 (JFields [(''status'', ''degraded''), (''message'', ''using no-op network backend'')]))
      else bindC (tryC (backendC BPing)) (\<lambda>r.
        case r of
          Inl err \<Rightarrow> returnC (JSON 503 (JFields [(''status'', ''unhealthy''), (''error'', Error_Error err)]))
        | Inr _ \<Rightarrow> returnC (JSON 200 (JFields [(''status'', ''healthy'')]))))"

definition authMiddleware :: "'l limits \<Rightarrow> 'l handler \<Rightarrow> 'l handler" where
  "authMiddleware L = ratelimit_Middleware L sv_authLimiter sv_authLimiter_update"

text \<open>The methods that \<^verbatim>\<open>r.Any\<close> registers.\<close>

definition anyMethods :: "string list" where
  "anyMethods = [''GET'', ''POST'', ''PUT'', ''PATCH'', ''HEAD'', ''OPTIONS'', ''DELETE'', ''CONNECT'', ''TRACE'']"

definition publicRoutes :: "env \<Rightarrow> binding \<Rightarrow> 'l limits \<Rightarrow> (string \<times> string \<times> 'l handler) list" where
  "publicRoutes E B L =
     [(''GET'', ''/health/live'', worldHandler HealthHandler_Live),
      (''GET'', ''/health/ready'', worldHandler HealthHandler_Ready),
      (''GET'', ''/health'', worldHandler HealthHandler_Ready),
      (''GET'', ''/health/ovs'', worldHandler (ovsHealth E B)),
      (''GET'', ''/metrics'', worldHandler (\<lambda>rq. bindC (getC (metrics_page B)) (\<lambda>t. returnC \<lparr>rs_Status = 200, rs_Headers = [], rs_Body = BText t\<rparr>))),
      (''GET'', ''/swagger/*any'', worldHandler (\<lambda>rq. returnC \<lparr>rs_Status = 200, rs_Headers = [], rs_Body = BText (swagger_page B (rq_Param rq ''any''))\<rparr>)),
      (''POST'', ''/auth/register'', authMiddleware L (worldHandler (AuthHandler_Register E B))),
      (''POST'', ''/auth/login'', authMiddleware L (worldHandler (AuthHandler_Login E B))),
      (''POST'', ''/auth/forgot-password'', authMiddleware L (worldHandler (AuthHandler_ForgotPassword E B))),
      (''POST'', ''/auth/reset-password'', authMiddleware L (worldHandler (AuthHandler_ResetPassword E B)))]
     @ map (\<lambda>m. (m, ''/gw/*proxy'', worldHandler (GatewayHandler_serve E B))) anyMethods"

definition routes :: "env \<Rightarrow> binding \<Rightarrow> 'l limits \<Rightarrow> nat \<Rightarrow> (string \<times> string \<times> 'l handler) list" where
  "routes E B L n = publicRoutes E B L @ map protect (protectedRoutes E B n)"

text \<open>gin answers 404 when no route matches; the middleware runs in any case.\<close>

definition matches :: "request \<Rightarrow> string \<times> string \<times> 'r \<Rightarrow> bool" where
  "matches rq r \<longleftrightarrow> fst r = rq_Method rq \<and> fst (snd r) = rq_FullPath rq"

definition dispatch :: "(string \<times> string \<times> 'l handler) list \<Rightarrow> 'l handler" where
  "dispatch rs rq =
     (case find (matches rq) rs of
        None \<Rightarrow> returnC (Status 404)
      | Some (_, _, h) \<Rightarrow> h rq)"

text \<open>The chain of \<^verbatim>\<open>r.Use\<close> calls, outermost first; the logger, which only writes the log, is left out.\<close>

definition SetupRouter :: "env \<Rightarrow> binding \<Rightarrow> 'l limits \<Rightarrow> nat \<Rightarrow> 'l handler" where
  "SetupRouter E B L n =
     RequestID E (CORS (Recovery security_headers (SecurityHeadersMiddleware
       (ratelimit_Middleware L sv_limiter sv_limiter_update (Metrics (dispatch (routes E B L n)))))))"

text \<open>The limiters at start-up: five requests per second with a burst of ten, five per minute with a burst of five for the
  routes of \<^verbatim>\<open>/auth\<close>.\<close>

definition start_server :: "world \<Rightarrow> 'l server" where
  "start_server w = \<lparr>sv_world = w, sv_limiter = NewIPRateLimiter 5 10, sv_authLimiter = NewIPRateLimiter (5 / 60) 5\<rparr>"

section \<open>Facts\<close>

lemma run_onWorld [run]: "onWorld m s = (fst (m (sv_world s)), s\<lparr>sv_world := snd (m (sv_world s))\<rparr>)"
  by (simp add: onWorld_def split: prod.split)

lemma run_ErrorResponse [run]:
  "ErrorResponse rq err w = (Ok \<lparr>rs_Status = fst (httputil_Error err), rs_Headers = [], rs_Body = BError (snd (httputil_Error err))
     \<lparr>meta_RequestID = (case rq_requestID rq of None \<Rightarrow> [] | Some r \<Rightarrow> r), meta_Timestamp = clock w\<rparr>\<rparr>, w)"
  by (simp add: ErrorResponse_def newMeta_def nowC_def run split: prod.split)

text \<open>What a request that reaches no service may leave behind: the fault script has moved on, an identifier was drawn for the request, it was counted.\<close>

definition harmless :: "world \<Rightarrow> world \<Rightarrow> bool" where
  "harmless w w' \<longleftrightarrow> (\<exists>fs u ms. w' = w\<lparr>faults := fs, uuid_ctr := u, metrics := ms\<rparr>)"

lemma harmless_upd [simp]: "harmless w w" "harmless w (w\<lparr>faults := fs\<rparr>)" "harmless w (w\<lparr>uuid_ctr := u\<rparr>)" "harmless w (w\<lparr>metrics := ms\<rparr>)"
  unfolding harmless_def by (rule exI, rule exI, rule exI, rule world.equality, simp_all)+

lemma harmless_trans [trans]: "harmless w w' \<Longrightarrow> harmless w' w'' \<Longrightarrow> harmless w w''"
  unfolding harmless_def by (elim exE) (simp, blast)

lemma harmless_keys: "harmless w w' \<Longrightarrow> t_api_keys w' = t_api_keys w \<and> t_users w' = t_users w \<and> t_roles w' = t_roles w \<and>
    t_role_permissions w' = t_role_permissions w \<and> clock w' = clock w"
  by (auto simp: harmless_def)

lemma queryRowC_paths: "\<exists>r. queryRowC f w = (r, w\<lparr>faults := tl (faults w)\<rparr>) \<and> (\<forall>p. r \<noteq> Panic p)"
  by (auto simp: queryRowC_def extC_def intro!: world.equality split: list.split option.split)

lemma ValidateAPIKey_paths:
  "\<exists>r fs. ValidateAPIKey x w = (r, w\<lparr>faults := fs\<rparr>) \<and> (\<forall>p. r \<noteq> Panic p) \<and> (\<forall>k. r = Ok k \<longrightarrow> k \<in> set (t_api_keys w) \<and> key_Key k = x)"
proof -
  obtain r where q: "queryRowC (\<lambda>s. find (\<lambda>k. key_Key k = x) (t_api_keys s)) w = (r, w\<lparr>faults := tl (faults w)\<rparr>)" "\<forall>p. r \<noteq> Panic p"
    using queryRowC_paths by blast
  then have "ValidateAPIKey x w = (case r of Ok k \<Rightarrow> Ok k | Err e \<Rightarrow> Err (key_err (New Unauthorized ''invalid api key'') e) | Panic p \<Rightarrow> Panic p, w\<lparr>faults := tl (faults w)\<rparr>)"
    by (simp add: ValidateAPIKey_def IdentityRepository_GetAPIKeyByKey_def run)
  then show ?thesis
    using q(2) ValidateAPIKey_ok [of x w] by (cases r) auto
qed

lemma ValidateAPIKey_unknown:
  assumes "\<And>k. k \<in> set (t_api_keys w) \<Longrightarrow> key_Key k \<noteq> x"
  shows "\<exists>e fs. ValidateAPIKey x w = (Err e, w\<lparr>faults := fs\<rparr>)"
  using ValidateAPIKey_paths [of x w] assms by (metis outcome.exhaust)

text \<open>A group of protected routes answers 401 to a key that is not stored.\<close>

lemma Auth_refuses:
  assumes "rq_Header rq ''X-API-Key'' = [] \<or> (\<forall>k\<in>set (t_api_keys (sv_world s)). key_Key k \<noteq> rq_Header rq ''X-API-Key'')"
  shows "\<exists>resp s'. Auth h rq s = (Ok resp, s') \<and> rs_Status resp = 401 \<and> harmless (sv_world s) (sv_world s')"
proof (cases "rq_Header rq ''X-API-Key'' = []")
  case True
  then show ?thesis by (simp add: Auth_def abort_def run New_def)
next
  case False
  with assms obtain e fs where v: "ValidateAPIKey (rq_Header rq ''X-API-Key'') (sv_world s) = (Err e, sv_world s\<lparr>faults := fs\<rparr>)"
    using ValidateAPIKey_unknown [of "sv_world s" "rq_Header rq ''X-API-Key''"] by blast
  show ?thesis
    using False by (simp add: Auth_def abort_def run v New_def)
qed

definition public_patterns :: "string list" where
  "public_patterns = [''/health/live'', ''/health/ready'', ''/health'', ''/health/ovs'', ''/metrics'', ''/swagger/*any'', ''/auth/register'',
     ''/auth/login'', ''/auth/forgot-password'', ''/auth/reset-password'', ''/gw/*proxy'']"

lemma public_routes: "(m, p, h) \<in> set (publicRoutes E B L) \<Longrightarrow> p \<in> set public_patterns"
  by (auto simp: publicRoutes_def public_patterns_def)

lemma protected_routes: "(m, p, h) \<in> set (routes E B L n) \<Longrightarrow> p \<notin> set public_patterns \<Longrightarrow> \<exists>h'. h = Auth h'"
  by (auto simp: routes_def protect_def dest: public_routes split: prod.splits)

lemma dispatch_refuses:
  assumes "rq_Header rq ''X-API-Key'' = [] \<or> (\<forall>k\<in>set (t_api_keys (sv_world s)). key_Key k \<noteq> rq_Header rq ''X-API-Key'')"
    and "rq_FullPath rq \<notin> set public_patterns"
  shows "\<exists>resp s'. dispatch (routes E B L n) rq s = (Ok resp, s') \<and> rs_Status resp \<in> {401, 404} \<and> harmless (sv_world s) (sv_world s')"
proof (cases "find (matches rq) (routes E B L n)")
  case None
  then show ?thesis by (simp add: dispatch_def run Status_def)
next
  case (Some r)
  obtain m p h where r: "r = (m, p, h)" by (cases r)
  with Some have "(m, p, h) \<in> set (routes E B L n)" "p = rq_FullPath rq" by (auto simp: matches_def dest: find_Some_set)
  with assms(2) obtain h' where "h = Auth h'" using protected_routes by blast
  with Some r show ?thesis using Auth_refuses [OF assms(1), of h'] by (auto simp: dispatch_def)
qed

text \<open>A handler that from any state it may be reached in answers with a status of \<open>S\<close> and does no harm; what the middleware makes of it.\<close>

definition tame :: "'l handler \<Rightarrow> request \<Rightarrow> nat set \<Rightarrow> world \<Rightarrow> bool" where
  "tame h rq S w \<longleftrightarrow> (\<forall>s. harmless w (sv_world s) \<longrightarrow> (\<exists>resp s'. h rq s = (Ok resp, s') \<and> rs_Status resp \<in> S \<and> harmless w (sv_world s')))"

lemma tameI: "(\<And>s. harmless w (sv_world s) \<Longrightarrow> \<exists>resp s'. h rq s = (Ok resp, s') \<and> rs_Status resp \<in> S \<and> harmless w (sv_world s')) \<Longrightarrow> tame h rq S w"
  by (simp add: tame_def)

lemma tameE: "tame h rq S w \<Longrightarrow> harmless w (sv_world s) \<Longrightarrow> (\<And>resp s'. h rq s = (Ok resp, s') \<Longrightarrow> rs_Status resp \<in> S \<Longrightarrow> harmless w (sv_world s') \<Longrightarrow> P) \<Longrightarrow> P"
  unfolding tame_def by blast

lemma harmless_metrics: "harmless w w' \<Longrightarrow> harmless w (w'\<lparr>metrics := ms\<rparr>)"
  using harmless_trans harmless_upd(4) by blast

lemma harmless_ctr: "harmless w w' \<Longrightarrow> harmless w (w'\<lparr>uuid_ctr := u\<rparr>)"
  using harmless_trans harmless_upd(3) by blast

lemma tame_Metrics: "tame h rq S w \<Longrightarrow> tame (Metrics h) rq S w"
  by (rule tameI, erule tameE, assumption) (simp add: Metrics_def Let_def run metricC_def harmless_metrics)

lemma tame_headers: "tame h rq S w \<Longrightarrow> tame (SecurityHeadersMiddleware h) rq S w"
  by (rule tameI, erule tameE, assumption) (simp add: SecurityHeadersMiddleware_def run add_headers_def)

lemma tame_Recovery: "tame h rq S w \<Longrightarrow> tame (Recovery hs h) rq S w"
  by (rule tameI, erule tameE, assumption) (simp add: Recovery_def)

lemma tame_CORS: "tame h rq S w \<Longrightarrow> tame (CORS h) rq (insert 204 S) w"
  by (rule tameI, erule tameE, assumption) (simp add: CORS_def run add_headers_def Status_def)

lemma tame_limit:
  assumes "tame h rq S w"
  shows "tame (ratelimit_Middleware L sv_limiter sv_limiter_update h) rq (insert 429 S) w"
proof (rule tameI)
  fix s :: "'a server"
  assume w: "harmless w (sv_world s)"
  obtain l i where gl: "GetLimiter L (limit_key rq) (sv_limiter s) = (l, i)" by fastforce
  obtain ok l' where al: "Allow L l (clock (sv_world s)) = (ok, l')" by fastforce
  from assms obtain resp s2 where "h rq (s\<lparr>sv_limiter := i\<lparr>ips := (ips i)(limit_key rq \<mapsto> l')\<rparr>\<rparr>) = (Ok resp, s2)" "rs_Status resp \<in> S" "harmless w (sv_world s2)"
    by (rule tameE [of _ _ _ _ "s\<lparr>sv_limiter := i\<lparr>ips := (ips i)(limit_key rq \<mapsto> l')\<rparr>\<rparr>"]) (use w in auto)
  then show "\<exists>resp s'. ratelimit_Middleware L sv_limiter sv_limiter_update h rq s = (Ok resp, s') \<and> rs_Status resp \<in> insert 429 S \<and> harmless w (sv_world s')"
    using w gl al by (simp add: ratelimit_Middleware_def Let_def JSON_error_def JSON_def)
qed

lemma tame_RequestID:
  assumes "\<And>rid. tame h (rq\<lparr>rq_requestID := Some rid\<rparr>) S w"
  shows "tame (RequestID E h) rq S w"
proof (rule tameI)
  fix s :: "'a server"
  assume w: "harmless w (sv_world s)"
  show "\<exists>resp s'. RequestID E h rq s = (Ok resp, s') \<and> rs_Status resp \<in> S \<and> harmless w (sv_world s')"
  proof (cases "rq_Header rq HeaderXRequestID = []")
    case True
    let ?s = "s\<lparr>sv_world := (sv_world s)\<lparr>uuid_ctr := Suc (uuid_ctr (sv_world s))\<rparr>\<rparr>"
    have "harmless w (sv_world ?s)" using w by (simp add: harmless_ctr)
    with assms [of "uuid_string E (uuid_at E (uuid_ctr (sv_world s)))"] show ?thesis
      by (rule tameE) (simp add: True RequestID_def run newUUID_def add_headers_def)
  next
    case False
    from assms [of "rq_Header rq HeaderXRequestID"] w show ?thesis
      by (rule tameE) (simp add: False RequestID_def run add_headers_def)
  qed
qed

lemma tame_CORS_other: "rq_Method rq \<noteq> ''OPTIONS'' \<Longrightarrow> tame h rq S w \<Longrightarrow> tame (CORS h) rq S w"
  by (rule tameI, erule tameE, assumption) (simp add: CORS_def run add_headers_def)

lemma SetupRouter_tame_other:
  "rq_Method rq \<noteq> ''OPTIONS'' \<Longrightarrow> (\<And>rid. tame (dispatch (routes E B L n)) (rq\<lparr>rq_requestID := Some rid\<rparr>) S w) \<Longrightarrow>
    tame (SetupRouter E B L n) rq (insert 429 S) w"
  unfolding SetupRouter_def by (intro tame_RequestID tame_CORS_other tame_Recovery tame_headers tame_limit tame_Metrics) simp_all

lemma SetupRouter_tame:
  "(\<And>rid. tame (dispatch (routes E B L n)) (rq\<lparr>rq_requestID := Some rid\<rparr>) S w) \<Longrightarrow> tame (SetupRouter E B L n) rq (insert 204 (insert 429 S)) w"
  unfolding SetupRouter_def by (intro tame_RequestID tame_CORS tame_Recovery tame_headers tame_limit tame_Metrics)

subsection \<open>Handlers render their errors\<close>

text \<open>A handler never returns an error: it renders it.\<close>

definition noErr :: "('s, 'e, 'a) cmd \<Rightarrow> bool" where
  "noErr m \<longleftrightarrow> (\<forall>s e. fst (m s) \<noteq> Err e)"

lemma noErr_basic: "noErr (returnC x)" "noErr (getC f)" "noErr (modifyC g)" "noErr (tryC m)" "noErr (ignoreC m)"
  by (simp_all add: noErr_def run split: outcome.split)

lemma noErr_bindC: "noErr m \<Longrightarrow> (\<And>x. noErr (k x)) \<Longrightarrow> noErr (bindC m k)"
  by (auto simp: noErr_def run split: outcome.split)

lemma ok_if:
  assumes "noErr m" and "\<And>q. fst (m w) \<noteq> Panic q"
  shows "\<exists>r. fst (m w) = Ok r"
proof (cases "fst (m w)")
  case (Ok r)
  then show ?thesis by blast
qed (use assms in \<open>auto simp: noErr_def\<close>)

lemma noErr_nowC: "noErr nowC" and noErr_metricC: "noErr (metricC m)" and noErr_newUUID: "noErr (newUUID E)"
  by (simp_all add: noErr_def nowC_def metricC_def newUUID_def)

lemma noErr_onWorld: "noErr m \<Longrightarrow> noErr (onWorld m)"
  by (simp add: noErr_def run)

lemma noErr_cases:
  "\<lbrakk>\<And>e. r = Inl e \<Longrightarrow> noErr (f e); \<And>x. r = Inr x \<Longrightarrow> noErr (g x)\<rbrakk> \<Longrightarrow> noErr (case r of Inl e \<Rightarrow> f e | Inr x \<Rightarrow> g x)"
  "\<lbrakk>opt = None \<Longrightarrow> noErr a; \<And>y. opt = Some y \<Longrightarrow> noErr (b y)\<rbrakk> \<Longrightarrow> noErr (case opt of None \<Rightarrow> a | Some y \<Rightarrow> b y)"
  "\<lbrakk>\<And>u v. pr = (u, v) \<Longrightarrow> noErr (c u v)\<rbrakk> \<Longrightarrow> noErr (case pr of (u, v) \<Rightarrow> c u v)"
  "\<lbrakk>bb \<Longrightarrow> noErr i; \<not> bb \<Longrightarrow> noErr j\<rbrakk> \<Longrightarrow> noErr (if bb then i else j)"
  "\<lbrakk>\<And>z. noErr (l z)\<rbrakk> \<Longrightarrow> noErr (Let zz l)"
  by (auto split: sum.split option.split prod.split)

lemma noErr_responses:
  "noErr (ErrorResponse rq err)" "noErr (Success rq c x)" "noErr (SuccessMessage rq t)" "noErr (rawError rq t)" "noErr (invalidInput rq t)"
  "noErr (badRequest t)" "noErr (invalidUUID rq)"
  by (simp_all add: noErr_def run Success_def SuccessMessage_def rawError_def invalidInput_def badRequest_def invalidUUID_def newMeta_def nowC_def)

lemma noErr_orError: "(\<And>x. noErr (k x)) \<Longrightarrow> noErr (orError rq m k)"
  unfolding orError_def by (intro noErr_bindC noErr_basic noErr_cases noErr_responses)

lemma noErr_orBad: "(\<And>e. noErr (bad e)) \<Longrightarrow> (\<And>x. noErr (k x)) \<Longrightarrow> noErr (orBad r bad k)"
  unfolding orBad_def by (intro noErr_cases)

lemma noErr_parseID: "noErr bad \<Longrightarrow> (\<And>x. noErr (k x)) \<Longrightarrow> noErr (parseID E s bad k)"
  unfolding parseID_def by (intro noErr_cases)

lemmas noErr_intros = noErr_responses noErr_basic noErr_nowC noErr_orError noErr_orBad noErr_parseID noErr_cases noErr_bindC

lemma noErr_stream_ticks: "noErr (stream_ticks E rq n)"
proof (induction n)
  case 0
  show ?case by (subst stream_ticks.simps) (simp, intro noErr_intros)
next
  case (Suc n)
  show ?case by (subst stream_ticks.simps) (simp, intro noErr_intros Suc)
qed

lemmas route_groups = keyRoutes_def instanceRoutes_def vpcRoutes_def subnetRoutes_def sgRoutes_def storageRoutes_def
  eventRoutes_def auditRoutes_def rbacRoutes_def volumeRoutes_def dashboardRoutes_def snapshotRoutes_def
  lbRoutes_def dbRoutes_def secretRoutes_def fnRoutes_def cacheRoutes_def queueRoutes_def
  notifyRoutes_def cronRoutes_def gatewayRoutes_def containerRoutes_def asgRoutes_def iacRoutes_def

lemmas handler_defs =
  AuthHandler_Register_def AuthHandler_Login_def AuthHandler_ForgotPassword_def AuthHandler_ResetPassword_def
  IdentityHandler_CreateKey_def IdentityHandler_ListKeys_def IdentityHandler_RevokeKey_def IdentityHandler_RotateKey_def
  IdentityHandler_RegenerateKey_def RBACHandler_CreateRole_def RBACHandler_ListRoles_def RBACHandler_GetRole_def
  RBACHandler_UpdateRole_def RBACHandler_DeleteRole_def RBACHandler_AddPermission_def RBACHandler_RemovePermission_def
  RBACHandler_BindRole_def RBACHandler_ListRoleBindings_def EventHandler_List_def AuditHandler_ListLogs_def
  SecretHandler_Create_def SecretHandler_List_def SecretHandler_Get_def SecretHandler_Delete_def
  InstanceHandler_Launch_def InstanceHandler_List_def InstanceHandler_Stop_def InstanceHandler_GetLogs_def
  InstanceHandler_Get_def InstanceHandler_Terminate_def InstanceHandler_GetStats_def VolumeHandler_Create_def
  VolumeHandler_List_def VolumeHandler_Get_def VolumeHandler_Delete_def SnapshotHandler_Create_def
  SnapshotHandler_List_def SnapshotHandler_Get_def SnapshotHandler_Delete_def SnapshotHandler_Restore_def
  FunctionHandler_Create_def FunctionHandler_List_def FunctionHandler_Get_def FunctionHandler_Delete_def
  FunctionHandler_Invoke_def FunctionHandler_GetLogs_def VpcHandler_Create_def VpcHandler_List_def
  VpcHandler_Get_def VpcHandler_Delete_def SubnetHandler_Create_def SubnetHandler_List_def
  SubnetHandler_Get_def SubnetHandler_Delete_def SecurityGroupHandler_Create_def SecurityGroupHandler_List_def
  SecurityGroupHandler_Get_def SecurityGroupHandler_Delete_def SecurityGroupHandler_AddRule_def SecurityGroupHandler_Attach_def
  LBHandler_Create_def LBHandler_List_def LBHandler_Get_def LBHandler_Delete_def
  LBHandler_AddTarget_def LBHandler_RemoveTarget_def LBHandler_ListTargets_def GatewayHandler_CreateRoute_def
  GatewayHandler_ListRoutes_def GatewayHandler_DeleteRoute_def GatewayHandler_serve_def StorageHandler_Upload_def
  StorageHandler_Download_def StorageHandler_List_def StorageHandler_Delete_def DatabaseHandler_Create_def
  DatabaseHandler_List_def DatabaseHandler_Get_def DatabaseHandler_Delete_def DatabaseHandler_GetConnectionString_def
  CacheHandler_Create_def CacheHandler_List_def CacheHandler_Get_def CacheHandler_Delete_def
  CacheHandler_GetConnectionString_def CacheHandler_Flush_def CacheHandler_GetStats_def QueueHandler_Create_def
  QueueHandler_List_def QueueHandler_Get_def QueueHandler_Delete_def QueueHandler_SendMessage_def
  QueueHandler_ReceiveMessages_def QueueHandler_DeleteMessage_def QueueHandler_Purge_def NotifyHandler_CreateTopic_def
  NotifyHandler_ListTopics_def NotifyHandler_DeleteTopic_def NotifyHandler_Subscribe_def NotifyHandler_ListSubscriptions_def
  NotifyHandler_Unsubscribe_def NotifyHandler_Publish_def CronHandler_CreateJob_def CronHandler_ListJobs_def
  CronHandler_GetJob_def CronHandler_PauseJob_def CronHandler_ResumeJob_def CronHandler_DeleteJob_def
  ContainerHandler_CreateDeployment_def ContainerHandler_ListDeployments_def ContainerHandler_GetDeployment_def ContainerHandler_ScaleDeployment_def
  ContainerHandler_DeleteDeployment_def AutoScalingHandler_CreateGroup_def AutoScalingHandler_ListGroups_def AutoScalingHandler_GetGroup_def
  AutoScalingHandler_DeleteGroup_def AutoScalingHandler_CreatePolicy_def AutoScalingHandler_DeletePolicy_def StackHandler_Create_def
  StackHandler_List_def StackHandler_Get_def StackHandler_Delete_def StackHandler_Validate_def
  DashboardHandler_GetSummary_def DashboardHandler_GetRecentEvents_def DashboardHandler_GetStats_def DashboardHandler_StreamEvents_def
  HealthHandler_Live_def HealthHandler_Ready_def

lemma noErr_handlers:
  "noErr (AuthHandler_Register E B rq)" "noErr (AuthHandler_Login E B rq)" "noErr (AuthHandler_ForgotPassword E B rq)"
  "noErr (AuthHandler_ResetPassword E B rq)" "noErr (IdentityHandler_CreateKey E B rq)" "noErr (IdentityHandler_ListKeys rq)"
  "noErr (IdentityHandler_RevokeKey E rq)" "noErr (IdentityHandler_RotateKey E rq)" "noErr (IdentityHandler_RegenerateKey E rq)"
  "noErr (RBACHandler_CreateRole E B rq)" "noErr (RBACHandler_ListRoles rq)" "noErr (RBACHandler_GetRole E rq)"
  "noErr (RBACHandler_UpdateRole E B rq)" "noErr (RBACHandler_DeleteRole E rq)" "noErr (RBACHandler_AddPermission E B rq)"
  "noErr (RBACHandler_RemovePermission E rq)" "noErr (RBACHandler_BindRole E B rq)" "noErr (RBACHandler_ListRoleBindings rq)"
  "noErr (EventHandler_List rq)" "noErr (AuditHandler_ListLogs rq)" "noErr (SecretHandler_Create E B rq)"
  "noErr (SecretHandler_List rq)" "noErr (SecretHandler_Get E rq)" "noErr (SecretHandler_Delete E rq)"
  "noErr (InstanceHandler_Launch E B rq)" "noErr (InstanceHandler_List rq)" "noErr (InstanceHandler_Stop E rq)"
  "noErr (InstanceHandler_GetLogs E rq)" "noErr (InstanceHandler_Get E rq)" "noErr (InstanceHandler_Terminate E rq)"
  "noErr (InstanceHandler_GetStats E rq)" "noErr (VolumeHandler_Create E B rq)" "noErr (VolumeHandler_List rq)"
  "noErr (VolumeHandler_Get E rq)" "noErr (VolumeHandler_Delete E rq)" "noErr (SnapshotHandler_Create E B rq)"
  "noErr (SnapshotHandler_List rq)" "noErr (SnapshotHandler_Get E rq)" "noErr (SnapshotHandler_Delete E rq)"
  "noErr (SnapshotHandler_Restore E B rq)" "noErr (FunctionHandler_Create E B rq)" "noErr (FunctionHandler_List rq)"
  "noErr (FunctionHandler_Get E rq)" "noErr (FunctionHandler_Delete E rq)" "noErr (FunctionHandler_Invoke E rq)"
  "noErr (FunctionHandler_GetLogs E rq)" "noErr (VpcHandler_Create E B rq)" "noErr (VpcHandler_List rq)"
  "noErr (VpcHandler_Get E rq)" "noErr (VpcHandler_Delete E rq)" "noErr (SubnetHandler_Create E B rq)"
  "noErr (SubnetHandler_List E rq)" "noErr (SubnetHandler_Get E rq)" "noErr (SubnetHandler_Delete E rq)"
  "noErr (SecurityGroupHandler_Create E B rq)" "noErr (SecurityGroupHandler_List E rq)" "noErr (SecurityGroupHandler_Get E rq)"
  "noErr (SecurityGroupHandler_Delete E rq)" "noErr (SecurityGroupHandler_AddRule E B rq)" "noErr (SecurityGroupHandler_Attach E B rq)"
  "noErr (LBHandler_Create E B rq)" "noErr (LBHandler_List rq)" "noErr (LBHandler_Get E rq)"
  "noErr (LBHandler_Delete E rq)" "noErr (LBHandler_AddTarget E B rq)" "noErr (LBHandler_RemoveTarget E rq)"
  "noErr (LBHandler_ListTargets E rq)" "noErr (GatewayHandler_CreateRoute E B rq)" "noErr (GatewayHandler_ListRoutes rq)"
  "noErr (GatewayHandler_DeleteRoute E rq)" "noErr (GatewayHandler_serve E B rq)" "noErr (StorageHandler_Upload E rq)"
  "noErr (StorageHandler_Download rq)" "noErr (StorageHandler_List rq)" "noErr (StorageHandler_Delete E rq)"
  "noErr (DatabaseHandler_Create E B rq)" "noErr (DatabaseHandler_List rq)" "noErr (DatabaseHandler_Get E rq)"
  "noErr (DatabaseHandler_Delete E rq)" "noErr (DatabaseHandler_GetConnectionString E rq)" "noErr (CacheHandler_Create E B rq)"
  "noErr (CacheHandler_List rq)" "noErr (CacheHandler_Get E rq)" "noErr (CacheHandler_Delete E rq)"
  "noErr (CacheHandler_GetConnectionString E rq)" "noErr (CacheHandler_Flush E rq)" "noErr (CacheHandler_GetStats E rq)"
  "noErr (QueueHandler_Create E B rq)" "noErr (QueueHandler_List rq)" "noErr (QueueHandler_Get E rq)"
  "noErr (QueueHandler_Delete E rq)" "noErr (QueueHandler_SendMessage E B rq)" "noErr (QueueHandler_ReceiveMessages E rq)"
  "noErr (QueueHandler_DeleteMessage E rq)" "noErr (QueueHandler_Purge E rq)" "noErr (NotifyHandler_CreateTopic E B rq)"
  "noErr (NotifyHandler_ListTopics rq)" "noErr (NotifyHandler_DeleteTopic E rq)" "noErr (NotifyHandler_Subscribe E B rq)"
  "noErr (NotifyHandler_ListSubscriptions E rq)" "noErr (NotifyHandler_Unsubscribe E rq)" "noErr (NotifyHandler_Publish E B rq)"
  "noErr (CronHandler_CreateJob E B rq)" "noErr (CronHandler_ListJobs rq)" "noErr (CronHandler_GetJob E rq)"
  "noErr (CronHandler_PauseJob E rq)" "noErr (CronHandler_ResumeJob E rq)" "noErr (CronHandler_DeleteJob E rq)"
  "noErr (ContainerHandler_CreateDeployment E B rq)" "noErr (ContainerHandler_ListDeployments rq)" "noErr (ContainerHandler_GetDeployment E rq)"
  "noErr (ContainerHandler_ScaleDeployment E B rq)" "noErr (ContainerHandler_DeleteDeployment E rq)" "noErr (AutoScalingHandler_CreateGroup E B rq)"
  "noErr (AutoScalingHandler_ListGroups rq)" "noErr (AutoScalingHandler_GetGroup E rq)" "noErr (AutoScalingHandler_DeleteGroup E rq)"
  "noErr (AutoScalingHandler_CreatePolicy E B rq)" "noErr (AutoScalingHandler_DeletePolicy E rq)" "noErr (StackHandler_Create E B rq)"
  "noErr (StackHandler_List rq)" "noErr (StackHandler_Get E rq)" "noErr (StackHandler_Delete E rq)"
  "noErr (StackHandler_Validate E B rq)" "noErr (DashboardHandler_GetSummary E rq)" "noErr (DashboardHandler_GetRecentEvents rq)"
  "noErr (DashboardHandler_GetStats E rq)" "noErr (DashboardHandler_StreamEvents E n rq)" "noErr (HealthHandler_Live rq)"
  "noErr (HealthHandler_Ready rq)"
  unfolding handler_defs Check_def GatewayHandler_Proxy_def GetProxy_def by (intro noErr_intros noErr_stream_ticks)+

lemma noErr_protected: "(m, p, perm, h) \<in> set (protectedRoutes E B n) \<Longrightarrow> noErr (h rq)"
  by (auto simp: protectedRoutes_def route_groups Group_def noErr_handlers)

text \<open>C5. Authentication covers the whole API: whatever the request and whatever fails, without the text of a stored key a request to any
  route but the public ones is answered with 401 (or 404, 429, or 204 to a pre-flight request), and no service, table or backend is touched.\<close>

theorem unauthenticated_request_harmless:
  assumes "rq_Header rq ''X-API-Key'' = [] \<or> (\<forall>k\<in>set (t_api_keys (sv_world s)). key_Key k \<noteq> rq_Header rq ''X-API-Key'')"
    and "rq_FullPath rq \<notin> set public_patterns"
  shows "\<exists>resp s'. SetupRouter E B L n rq s = (Ok resp, s') \<and> rs_Status resp \<in> {401, 404, 204, 429} \<and> harmless (sv_world s) (sv_world s')"
proof -
  have "tame (SetupRouter E B L n) rq (insert 204 (insert 429 {401, 404})) (sv_world s)"
  proof (rule SetupRouter_tame, rule tameI)
    fix rid and s' :: "'a server"
    assume w: "harmless (sv_world s) (sv_world s')"
    then have "\<exists>resp s''. dispatch (routes E B L n) (rq\<lparr>rq_requestID := Some rid\<rparr>) s' = (Ok resp, s'') \<and> rs_Status resp \<in> {401, 404} \<and>
        harmless (sv_world s') (sv_world s'')"
      using assms by (intro dispatch_refuses) (auto simp: harmless_keys)
    then show "\<exists>resp s''. dispatch (routes E B L n) (rq\<lparr>rq_requestID := Some rid\<rparr>) s' = (Ok resp, s'') \<and> rs_Status resp \<in> {401, 404} \<and>
        harmless (sv_world s) (sv_world s'')"
      using w harmless_trans by blast
  qed
  then show ?thesis by (rule tameE [of _ _ _ _ s]) auto
qed

subsection \<open>Permissions\<close>

lemma protected_patterns:
  "(m, p, perm, h) \<in> set (protectedRoutes E B n) \<Longrightarrow> p \<notin> set public_patterns \<and> m \<noteq> ''OPTIONS''"
  by (auto simp: protectedRoutes_def route_groups Group_def public_patterns_def)

text \<open>The limiter of the client has a token.\<close>

definition limiter_allows :: "'l limits \<Rightarrow> request \<Rightarrow> 'l server \<Rightarrow> bool" where
  "limiter_allows L rq s = fst (Allow L (fst (GetLimiter L (limit_key rq) (sv_limiter s))) (clock (sv_world s)))"

text \<open>The inner part of the chain, for a client with a token.\<close>

lemma limit_pass:
  assumes "limiter_allows L rq s"
  shows "\<exists>i. ratelimit_Middleware L sv_limiter sv_limiter_update h rq s = h rq (s\<lparr>sv_limiter := i\<rparr>)"
  using assms by (auto simp: limiter_allows_def ratelimit_Middleware_def Let_def split: prod.split)

lemma add_headers_simps [simp]:
  "add_headers as (add_headers bs r) = add_headers (as @ bs) r" "rs_Status (add_headers as r) = rs_Status r" "rs_Body (add_headers as r) = rs_Body r"
  by (simp_all add: add_headers_def)

lemma Metrics_pass: "h rq s = (Ok resp, s2) \<Longrightarrow> \<exists>ms. Metrics h rq s = (Ok resp, s2\<lparr>sv_world := (sv_world s2)\<lparr>metrics := ms\<rparr>\<rparr>)"
  by (simp add: Metrics_def Let_def run metricC_def) blast

lemma inner_pass:
  assumes "limiter_allows L rq s" and "rq_Method rq \<noteq> ''OPTIONS''"
    and "\<And>i. h rq (s\<lparr>sv_limiter := i\<rparr>) = (Ok resp, s2 i)"
  shows "\<exists>hs i ms. CORS (Recovery security_headers (SecurityHeadersMiddleware (ratelimit_Middleware L sv_limiter sv_limiter_update (Metrics h)))) rq s =
    (Ok (add_headers hs resp), (s2 i)\<lparr>sv_world := (sv_world (s2 i))\<lparr>metrics := ms\<rparr>\<rparr>)"
proof -
  obtain i where i: "ratelimit_Middleware L sv_limiter sv_limiter_update (Metrics h) rq s = Metrics h rq (s\<lparr>sv_limiter := i\<rparr>)"
    using limit_pass [OF assms(1)] by blast
  obtain ms where "Metrics h rq (s\<lparr>sv_limiter := i\<rparr>) = (Ok resp, (s2 i)\<lparr>sv_world := (sv_world (s2 i))\<lparr>metrics := ms\<rparr>\<rparr>)"
    using Metrics_pass [of h rq "s\<lparr>sv_limiter := i\<rparr>" resp "s2 i"] assms(3) [of i] by blast
  then have "CORS (Recovery security_headers (SecurityHeadersMiddleware (ratelimit_Middleware L sv_limiter sv_limiter_update (Metrics h)))) rq s =
    (Ok (add_headers (CORS_headers @ security_headers) resp), (s2 i)\<lparr>sv_world := (sv_world (s2 i))\<lparr>metrics := ms\<rparr>\<rparr>)"
    using assms(2) by (simp add: CORS_def Recovery_def SecurityHeadersMiddleware_def run i)
  then show ?thesis by blast
qed

lemma limit_key_id [simp]: "limit_key (rq\<lparr>rq_requestID := x\<rparr>) = limit_key rq"
  by (simp add: limit_key_def Let_def)

lemma matches_id [simp]: "matches (rq\<lparr>rq_requestID := x\<rparr>) = matches rq"
  by (rule ext) (simp add: matches_def)

text \<open>A request with a token reaches its route, with an identifier of its own.\<close>

lemma SetupRouter_pass:
  assumes "limiter_allows L rq s" and "rq_Method rq \<noteq> ''OPTIONS''"
    and "\<And>rid s1. harmless (sv_world s) (sv_world s1) \<Longrightarrow> faults (sv_world s1) = faults (sv_world s) \<Longrightarrow>
      dispatch (routes E B L n) (rq\<lparr>rq_requestID := Some rid\<rparr>) s1 = (Ok (f rid (sv_world s1)), s1\<lparr>sv_world := g rid (sv_world s1)\<rparr>)"
  shows "\<exists>rid w hs ms s'. harmless (sv_world s) w \<and> faults w = faults (sv_world s) \<and> sv_world s' = (g rid w)\<lparr>metrics := ms\<rparr> \<and>
    SetupRouter E B L n rq s = (Ok (add_headers hs (f rid w)), s')"
proof -
  define rid where "rid = (if rq_Header rq HeaderXRequestID = [] then uuid_string E (uuid_at E (uuid_ctr (sv_world s))) else rq_Header rq HeaderXRequestID)"
  define w where "w = (if rq_Header rq HeaderXRequestID = [] then (sv_world s)\<lparr>uuid_ctr := Suc (uuid_ctr (sv_world s))\<rparr> else sv_world s)"
  let ?rq = "rq\<lparr>rq_requestID := Some rid\<rparr>" and ?s = "s\<lparr>sv_world := w\<rparr>"
  have w: "harmless (sv_world s) w" "faults w = faults (sv_world s)" "clock w = clock (sv_world s)" by (simp_all add: w_def)
  have "limiter_allows L ?rq ?s" using assms(1) w(3) by (simp add: limiter_allows_def)
  moreover have "dispatch (routes E B L n) ?rq (?s\<lparr>sv_limiter := i\<rparr>) = (Ok (f rid w), ?s\<lparr>sv_limiter := i, sv_world := g rid w\<rparr>)" for i
    using assms(3) [of "?s\<lparr>sv_limiter := i\<rparr>" rid] w by simp
  ultimately obtain hs i ms where
    "CORS (Recovery security_headers (SecurityHeadersMiddleware (ratelimit_Middleware L sv_limiter sv_limiter_update (Metrics (dispatch (routes E B L n)))))) ?rq ?s =
      (Ok (add_headers hs (f rid w)), ?s\<lparr>sv_limiter := i, sv_world := (g rid w)\<lparr>metrics := ms\<rparr>\<rparr>)"
    using inner_pass [of L ?rq ?s "dispatch (routes E B L n)" "f rid w" "\<lambda>i. ?s\<lparr>sv_limiter := i, sv_world := g rid w\<rparr>"] assms(2) by auto
  then have "SetupRouter E B L n rq s =
      (Ok (add_headers ([(HeaderXRequestID, rid)] @ hs) (f rid w)), ?s\<lparr>sv_limiter := i, sv_world := (g rid w)\<lparr>metrics := ms\<rparr>\<rparr>)"
    by (simp add: SetupRouter_def RequestID_def run newUUID_def rid_def w_def split: if_splits)
  with w show ?thesis by fastforce
qed

text \<open>The request that the handler of a route sees, after authentication.\<close>

definition authenticated :: "request \<Rightarrow> string \<Rightarrow> uuid \<Rightarrow> request" where
  "authenticated rq rid u = rq\<lparr>rq_requestID := Some rid, rq_ctx := Some u, rq_userID := Some u\<rparr>"

lemma find_protect:
  "find (matches rq) (map protect rs) = map_option protect (find (matches rq) rs)"
  by (induction rs) (auto simp: protect_def matches_def)

lemma dispatch_protected:
  assumes "find (matches rq) (protectedRoutes E B n) = Some (m, p, perm, h)"
  shows "dispatch (routes E B L n) rq = Auth (case perm of None \<Rightarrow> worldHandler h | Some P \<Rightarrow> Permission_mw P (worldHandler h)) rq"
proof -
  from assms have "(m, p, perm, h) \<in> set (protectedRoutes E B n)" "p = rq_FullPath rq" by (auto simp: matches_def dest: find_Some_set)
  then have "rq_FullPath rq \<notin> set public_patterns" using protected_patterns by blast
  then have "find (matches rq) (publicRoutes E B L) = None"
    by (auto simp: find_None_iff matches_def dest: public_routes)
  with assms show ?thesis
    by (simp add: dispatch_def routes_def find_append find_protect protect_def)
qed

lemma harmless_permitted: "harmless w w' \<Longrightarrow> permitted w' user P = permitted w user P"
  by (auto simp: harmless_def permitted_def split: option.split)

text \<open>What the guards of a route do without faults.\<close>

lemma guarded_run:
  assumes "faults (sv_world s) = []" and "rq_Header rq ''X-API-Key'' \<noteq> []"
    and "find (\<lambda>k. key_Key k = rq_Header rq ''X-API-Key'') (t_api_keys (sv_world s)) = Some k"
    and "find (\<lambda>u. usr_ID u = key_UserID k) (t_users (sv_world s)) = Some user" and "key_UserID k \<noteq> uuid_Nil"
  shows "Auth (Permission_mw P (worldHandler h)) rq s =
    (let rq' = rq\<lparr>rq_ctx := Some (key_UserID k), rq_userID := Some (key_UserID k)\<rparr> in
     if permitted (sv_world s) user P then onWorld (h rq') s
     else onWorld (ErrorResponse rq' (New Forbidden (''permission denied: '' @ P))) s)"
  using assms
  by (simp add: Auth_def Permission_mw_def abort_def worldHandler_def GetUserID_def WithUserID_def Authorize_def Let_def run
      ValidateAPIKey_nf HasPermission_nf)

text \<open>A user who has the permission neither by the stored role nor by the built-in default of the role is refused whatever fails.\<close>

lemma Authorize_refuses:
  assumes "\<forall>user\<in>set (t_users w). usr_ID user = u \<longrightarrow> \<not> permitted w user P \<and> \<not> hasDefaultPermission (usr_Role user) P"
  shows "\<exists>e fs. Authorize u P w = (Err e, w\<lparr>faults := fs\<rparr>) \<and> fst (httputil_Error e) = 500"
proof -
  have "\<not> permitted w user P \<and> \<not> hasDefaultPermission (usr_Role user) P" if "find (\<lambda>x. usr_ID x = u) (t_users w) = Some user" for user
    using assms find_Some_set [OF that] by blast
  then have "wp (Authorize u P) (\<lambda>r s'. \<exists>e fs. r = Err e \<and> s' = w\<lparr>faults := fs\<rparr> \<and> fst (httputil_Error e) = 500) w"
    unfolding Authorize_def HasPermission_def UserRepo_GetByID_def RbacRepository_GetRoleByName_def withPermissions_def RbacRepository_GetPermissionsForRole_def
    by (auto simp: wps permitted_def list_ex_iff New_def httputil_Error_def intro!: wp_queryRowC wp_queryC split: outcome.splits)
  then show ?thesis unfolding wp_def by (cases "Authorize u P w") auto
qed

lemma dispatch_unpermitted:
  assumes "find (matches rq) (protectedRoutes E B n) = Some (m, p, Some P, h)"
    and "\<forall>k\<in>set (t_api_keys (sv_world s)). key_Key k = rq_Header rq ''X-API-Key'' \<longrightarrow> (\<forall>user\<in>set (t_users (sv_world s)). usr_ID user = key_UserID k \<longrightarrow>
      \<not> permitted (sv_world s) user P \<and> \<not> hasDefaultPermission (usr_Role user) P)"
  shows "\<exists>resp s'. dispatch (routes E B L n) rq s = (Ok resp, s') \<and> rs_Status resp \<in> {401, 500} \<and> harmless (sv_world s) (sv_world s')"
proof -
  have d: "dispatch (routes E B L n) rq = Auth (Permission_mw P (worldHandler h)) rq" using dispatch_protected [OF assms(1)] by simp
  obtain r fs where v: "ValidateAPIKey (rq_Header rq ''X-API-Key'') (sv_world s) = (r, sv_world s\<lparr>faults := fs\<rparr>)" "\<forall>p. r \<noteq> Panic p"
    "\<forall>k. r = Ok k \<longrightarrow> k \<in> set (t_api_keys (sv_world s)) \<and> key_Key k = rq_Header rq ''X-API-Key''"
    using ValidateAPIKey_paths by blast
  show ?thesis
  proof (cases r)
    case (Ok k)
    have "permitted (sv_world s\<lparr>faults := fs\<rparr>) user P = permitted (sv_world s) user P" for user by (simp add: permitted_def split: option.split)
    then obtain e fs' where a: "Authorize (key_UserID k) P (sv_world s\<lparr>faults := fs\<rparr>) = (Err e, sv_world s\<lparr>faults := fs'\<rparr>)" "fst (httputil_Error e) = 500"
      using Authorize_refuses [of "sv_world s\<lparr>faults := fs\<rparr>" "key_UserID k" P] assms(2) v(3) Ok by auto
    show ?thesis unfolding d
      using v(1) Ok a by (auto simp: Auth_def Permission_mw_def abort_def GetUserID_def Let_def run New_def)
  next
    case (Err e)
    then show ?thesis unfolding d using v(1) by (auto simp: Auth_def abort_def Let_def run New_def)
  qed (use v(2) in auto)
qed

text \<open>C10. Permissions are enforced whatever fails: on a route that is guarded by a permission, a request whose key belongs to no user who has the permission,
  by the stored role or by the built-in default of the role, is refused before the handler runs, with status 401, 429 or 500, and changes no table and
  reaches no backend. The defaults have to be named: a lookup of the role that fails is answered by them. The refusal by the permission check carries
  the status 500, because the response to an error of type \<^verbatim>\<open>Forbidden\<close> has no case of its own.\<close>

theorem permission_enforced:
  assumes "find (matches rq) (protectedRoutes E B n) = Some (m, p, Some P, h)"
    and "\<forall>k\<in>set (t_api_keys (sv_world s)). key_Key k = rq_Header rq ''X-API-Key'' \<longrightarrow> (\<forall>user\<in>set (t_users (sv_world s)). usr_ID user = key_UserID k \<longrightarrow>
      \<not> permitted (sv_world s) user P \<and> \<not> hasDefaultPermission (usr_Role user) P)"
  shows "\<exists>resp s'. SetupRouter E B L n rq s = (Ok resp, s') \<and> rs_Status resp \<in> {401, 429, 500} \<and> harmless (sv_world s) (sv_world s')"
proof -
  have "(m, p, Some P, h) \<in> set (protectedRoutes E B n)" "m = rq_Method rq" using assms(1) by (auto simp: matches_def dest: find_Some_set)
  then have "rq_Method rq \<noteq> ''OPTIONS''" using protected_patterns by blast
  then have "tame (SetupRouter E B L n) rq (insert 429 {401, 500}) (sv_world s)"
  proof (rule SetupRouter_tame_other, intro tameI)
    fix rid and s' :: "'a server"
    assume w: "harmless (sv_world s) (sv_world s')"
    have "\<exists>resp s''. dispatch (routes E B L n) (rq\<lparr>rq_requestID := Some rid\<rparr>) s' = (Ok resp, s'') \<and> rs_Status resp \<in> {401, 500} \<and>
        harmless (sv_world s') (sv_world s'')"
      by (rule dispatch_unpermitted) (use assms w in \<open>auto simp: harmless_keys harmless_permitted\<close>)
    then show "\<exists>resp s''. dispatch (routes E B L n) (rq\<lparr>rq_requestID := Some rid\<rparr>) s' = (Ok resp, s'') \<and> rs_Status resp \<in> {401, 500} \<and>
        harmless (sv_world s) (sv_world s'')"
      using w harmless_trans by blast
  qed
  then show ?thesis by (rule tameE [of _ _ _ _ s]) auto
qed


subsection \<open>Rate limiting\<close>

lemma CreateKey_text: "CreateKey E ctx u name w = (Ok k, w1) \<Longrightarrow> \<exists>x. key_Key k = ''thecloud_'' @ x"
  by (auto simp: CreateKey_def Let_def run_returnC elim!: okE)

text \<open>C40. The rate limiter keeps one bucket per five-character prefix of a key, and every key that the service issues starts with
  \<^verbatim>\<open>thecloud_\<close>: the holders of all keys share one bucket. The limiter that decides about a request with one issued key is the
  very one that a request with another issued key has just taken a token from.\<close>

theorem issued_keys_share_limiter:
  assumes "CreateKey E1 ctx1 u1 n1 w1 = (Ok k1, w1')" and "CreateKey E2 ctx2 u2 n2 w2 = (Ok k2, w2')"
    and "rq_Header rq1 ''X-API-Key'' = key_Key k1" and "rq_Header rq2 ''X-API-Key'' = key_Key k2"
    and "\<And>rq s. sv_limiter (snd (h rq s)) = sv_limiter s"
  shows "limit_key rq1 = ''apikey:thecl'' \<and>
    fst (GetLimiter L (limit_key rq2) (sv_limiter (snd (ratelimit_Middleware L sv_limiter sv_limiter_update h rq1 s)))) =
    snd (Allow L (fst (GetLimiter L (limit_key rq1) (sv_limiter s))) (clock (sv_world s)))"
proof -
  have "limit_key rq1 = ''apikey:thecl''" "limit_key rq2 = ''apikey:thecl''"
    using CreateKey_text [OF assms(1)] CreateKey_text [OF assms(2)] assms(3,4) by (auto simp: limit_key_def)
  then show ?thesis
    using assms(5) by (simp add: ratelimit_Middleware_def Let_def GetLimiter_def split: prod.split)
qed

section \<open>Witnesses\<close>

definition sample_limits :: "nat limits" where
  "sample_limits = \<lparr>NewLimiter = (\<lambda>r b. nat b), Allow = (\<lambda>l t. (0 < l, l - 1))\<rparr>"

definition sample_request :: "string \<Rightarrow> string \<Rightarrow> string \<Rightarrow> request" where
  "sample_request m p key = \<lparr>rq_Method = m, rq_FullPath = p, rq_ClientIP = ''192.0.2.1'', rq_Param = (\<lambda>_. []), rq_Query = (\<lambda>_. None),
     rq_Header = (\<lambda>x. if x = ''X-API-Key'' then key else []), rq_Body = [], rq_ctx = None, rq_userID = None, rq_requestID = None\<rparr>"

definition sample_stored_key :: APIKey where
  "sample_stored_key = \<lparr>key_ID = 9, key_UserID = 1, key_Key = ''thecloud_00'', key_Name = ''k'', key_CreatedAt = 0, key_LastUsed = 0\<rparr>"

definition sample_server :: "nat server" where
  "sample_server = start_server (sample_world\<lparr>t_api_keys := [sample_stored_key], t_roles := [(2, ''developer'', [])], t_role_permissions := [(2, ''vpc:read'')]\<rparr>)"

definition unprivileged_server :: "nat server" where
  "unprivileged_server = start_server (sample_world\<lparr>t_api_keys := [sample_stored_key], t_users := [(sample_user 1 ''a@x'')\<lparr>usr_Role := ''user''\<rparr>],
     faults := [None, None, Some ''conn closed'']\<rparr>)"

lemmas role_names = RoleAdmin_def RoleViewer_def RoleDeveloper_def

lemma sample_server_simps [simp]:
  "sv_world sample_server = sample_world\<lparr>t_api_keys := [sample_stored_key], t_roles := [(2, ''developer'', [])], t_role_permissions := [(2, ''vpc:read'')]\<rparr>"
  "sv_limiter sample_server = NewIPRateLimiter 5 10"
  by (simp_all add: sample_server_def start_server_def)

lemma sample_request_simps [simp]:
  "rq_Method (sample_request m p key) = m" "rq_FullPath (sample_request m p key) = p" "rq_Header (sample_request m p key) x = (if x = ''X-API-Key'' then key else [])"
  by (simp_all add: sample_request_def)

theorem unauthenticated_request_harmless_witness:
  "\<exists>resp s'. SetupRouter sample_env sample_binding sample_limits 0 (sample_request ''DELETE'' ''/vpcs/:id'' ''thecloud_ff'') sample_server = (Ok resp, s') \<and>
    rs_Status resp \<in> {401, 404, 204, 429} \<and> harmless (sv_world sample_server) (sv_world s')"
  using unauthenticated_request_harmless [of "sample_request ''DELETE'' ''/vpcs/:id'' ''thecloud_ff''" sample_server sample_env sample_binding sample_limits 0]
  by (simp add: sample_stored_key_def public_patterns_def)

lemma VpcHandler_List_safe: "fst (VpcHandler_List rq w) \<noteq> Panic p"
  by (simp add: VpcHandler_List_def orError_def Success_def newMeta_def nowC_def ListVPCs_def VpcRepository_List_def queryC_def extC_def run
      split: outcome.split list.split option.split)

lemma sample_route: "find (matches (sample_request ''GET'' ''/vpcs'' key)) (protectedRoutes E B n) = Some (''GET'', ''/vpcs'', Some ''vpc:read'', VpcHandler_List)"
  by (simp add: protectedRoutes_def route_groups Group_def matches_def)

theorem permission_enforced_witness:
  "\<exists>resp s'. SetupRouter sample_env sample_binding sample_limits 0 (sample_request ''GET'' ''/vpcs'' ''thecloud_00'') unprivileged_server = (Ok resp, s') \<and>
    rs_Status resp \<in> {401, 429, 500} \<and> harmless (sv_world unprivileged_server) (sv_world s')"
  using permission_enforced [OF sample_route, of unprivileged_server "''thecloud_00''" sample_env sample_binding sample_limits 0]
  by (simp add: unprivileged_server_def start_server_def permitted_def hasDefaultPermission_def role_names PermissionFullAccess_def)


lemma sample_CreateKey:
  "u \<in> {1, 2} \<Longrightarrow> \<exists>k w. CreateKey sample_env (Some u) u n sample_world = (Ok k, w) \<and> key_UserID k = u"
  by (auto simp: CreateKey_def IdentityRepository_CreateAPIKey_def Log_def AuditRepository_Create_def Let_def run metricC_def newUUID_def nowC_def
      execC_def insertC_def extC_def randRead_def violated_def has_user_def)

theorem issued_keys_share_limiter_witness:
  "\<exists>k1 k2. fst (CreateKey sample_env (Some 1) 1 ''a'' sample_world) = Ok k1 \<and> fst (CreateKey sample_env (Some 2) 2 ''b'' sample_world) = Ok k2 \<and>
     key_UserID k1 \<noteq> key_UserID k2 \<and>
     fst (GetLimiter sample_limits (limit_key (sample_request ''GET'' ''/vpcs'' (key_Key k2))) (sv_limiter (snd (ratelimit_Middleware sample_limits sv_limiter
      sv_limiter_update (\<lambda>rq. returnC (Status 200)) (sample_request ''GET'' ''/vpcs'' (key_Key k1)) sample_server)))) = 9"
proof -
  obtain k1 w1 k2 w2 where k: "CreateKey sample_env (Some 1) 1 ''a'' sample_world = (Ok k1, w1)" "key_UserID k1 = 1"
    "CreateKey sample_env (Some 2) 2 ''b'' sample_world = (Ok k2, w2)" "key_UserID k2 = 2"
    using sample_CreateKey [of 1 "''a''"] sample_CreateKey [of 2 "''b''"] by auto
  have "fst (GetLimiter sample_limits (limit_key (sample_request ''GET'' ''/vpcs'' (key_Key k2))) (sv_limiter (snd (ratelimit_Middleware sample_limits sv_limiter
      sv_limiter_update (\<lambda>rq. returnC (Status 200)) (sample_request ''GET'' ''/vpcs'' (key_Key k1)) sample_server)))) = 9"
    using issued_keys_share_limiter [OF k(1) k(3), of "sample_request ''GET'' ''/vpcs'' (key_Key k1)" "sample_request ''GET'' ''/vpcs'' (key_Key k2)"
        "\<lambda>rq. returnC (Status 200)" sample_limits sample_server]
    by (simp add: run GetLimiter_def NewIPRateLimiter_def sample_limits_def)
  with k show ?thesis by auto
qed

end
