(* ===== verification/Hub.thy ===== *)
theory Hub
  imports GoLib
begin

text \<open>
  The WebSocket hub \<^verbatim>\<open>internal/handlers/ws\<close>: the loop that owns the set of clients (\<^verbatim>\<open>hub.go\<close>), the pumps of a client (\<^verbatim>\<open>client.go\<close>)
  and the interleavings in which they run. A client is a pointer, here a number; its \<^verbatim>\<open>send\<close> channel is a buffer of at most
  256 messages that is open or closed. Sending to a closed channel and closing a channel twice panic.
\<close>

section \<open>The state\<close>

text \<open>
  \<open>clients\<close> is the map of the hub in some order, \<open>broadcast\<close> its channel. Of each client, \<open>send\<close> is the content of its channel, \<open>isClosed\<close> whether
  it is closed, \<open>written\<close> what its write pump has put on the connection, message by message. \<open>reading\<close> and \<open>writing\<close> are the
  clients whose pumps run, \<open>known\<close> those that have ever been created. \<open>active\<close> is the gauge of connections. \<open>handled\<close> are the messages the
  loop has taken from \<open>broadcast\<close>, in order, and \<open>joined\<close> their number when a client was registered.
\<close>

record hub =
  clients :: "nat list"
  broadcast :: "string list"
  send :: "nat \<Rightarrow> string list"
  isClosed :: "nat \<Rightarrow> bool"
  written :: "nat \<Rightarrow> string list"
  reading :: "nat set"
  writing :: "nat set"
  known :: "nat set"
  active :: int
  handled :: "string list"
  joined :: "nat \<Rightarrow> nat"

definition chanSize :: nat where
  "chanSize = 256"

definition NewHub :: hub where
  "NewHub = \<lparr>clients = [], broadcast = [], send = (\<lambda>_. []), isClosed = (\<lambda>_. False), written = (\<lambda>_. []), reading = {}, writing = {},
     known = {}, active = 0, handled = [], joined = (\<lambda>_. 0)\<rparr>"

section \<open>The loop of the hub\<close>

definition close_chan :: "nat \<Rightarrow> hub \<Rightarrow> hub option" where
  "close_chan c h = (if isClosed h c then None else Some (h\<lparr>isClosed := (isClosed h)(c := True)\<rparr>))"

text \<open>The three cases of the \<^verbatim>\<open>select\<close> in \<^verbatim>\<open>Run\<close>; \<open>None\<close> is a panic.\<close>

definition run_register :: "nat \<Rightarrow> hub \<Rightarrow> hub" where
  "run_register c h = h\<lparr>clients := (if c \<in> set (clients h) then clients h else clients h @ [c]), active := active h + 1\<rparr>"

definition run_unregister :: "nat \<Rightarrow> hub \<Rightarrow> hub option" where
  "run_unregister c h =
     map_option (\<lambda>h. h\<lparr>active := active h - 1\<rparr>)
       (if c \<in> set (clients h) then close_chan c (h\<lparr>clients := filter (\<lambda>d. d \<noteq> c) (clients h)\<rparr>) else Some h)"

text \<open>One client: the message is queued, or the client is dropped when its buffer is full.\<close>

definition send_or_drop :: "string \<Rightarrow> nat \<Rightarrow> hub \<Rightarrow> hub option" where
  "send_or_drop m c h =
     (if isClosed h c then None
      else if length (send h c) < chanSize then Some (h\<lparr>send := (send h)(c := send h c @ [m])\<rparr>)
      else map_option (\<lambda>h. h\<lparr>clients := filter (\<lambda>d. d \<noteq> c) (clients h)\<rparr>) (close_chan c h))"

text \<open>The clients in the order \<^verbatim>\<open>range\<close> visits them.\<close>

fun send_all :: "string \<Rightarrow> nat list \<Rightarrow> hub \<Rightarrow> hub option" where
  "send_all m [] h = Some h"
| "send_all m (c # cs) h = (case send_or_drop m c h of None \<Rightarrow> None | Some h \<Rightarrow> send_all m cs h)"

definition run_broadcast :: "nat list \<Rightarrow> hub \<Rightarrow> hub option" where
  "run_broadcast order h =
     (case broadcast h of
        [] \<Rightarrow> Some h
      | m # ms \<Rightarrow> send_all m order (h\<lparr>broadcast := ms, handled := handled h @ [m]\<rparr>))"

definition ClientCount :: "hub \<Rightarrow> nat" where
  "ClientCount h = length (clients h)"

section \<open>The pumps\<close>

text \<open>\<^verbatim>\<open>ServeWS\<close> creates a client, registers it and starts its pumps.\<close>

definition connect :: "nat \<Rightarrow> hub \<Rightarrow> hub" where
  "connect c h = (run_register c h)\<lparr>known := insert c (known h), reading := insert c (reading h), writing := insert c (writing h),
     joined := (joined h)(c := length (handled h))\<rparr>"

text \<open>The read pump ends once, with \<^verbatim>\<open>Unregister\<close>.\<close>

definition readPump_end :: "nat \<Rightarrow> hub \<Rightarrow> hub option" where
  "readPump_end c h = run_unregister c (h\<lparr>reading := reading h - {c}\<rparr>)"

text \<open>The write pump takes a message and all that are queued behind it, and writes them as one frame.\<close>

definition writePump_message :: "nat \<Rightarrow> hub \<Rightarrow> hub" where
  "writePump_message c h = h\<lparr>written := (written h)(c := written h c @ send h c), send := (send h)(c := [])\<rparr>"

text \<open>It ends when its channel is closed and empty, or when a write fails; what it took is lost then.\<close>

definition writePump_end :: "nat \<Rightarrow> hub \<Rightarrow> hub" where
  "writePump_end c h = h\<lparr>writing := writing h - {c}\<rparr>"

definition writePump_fail :: "nat \<Rightarrow> nat \<Rightarrow> hub \<Rightarrow> hub" where
  "writePump_fail c k h = h\<lparr>send := (send h)(c := drop k (send h c)), writing := writing h - {c}\<rparr>"

section \<open>Interleavings\<close>

text \<open>\<^verbatim>\<open>BroadcastEvent\<close> blocks while the channel is full.\<close>

definition BroadcastEvent :: "string \<Rightarrow> hub \<Rightarrow> hub" where
  "BroadcastEvent m h = h\<lparr>broadcast := broadcast h @ [m]\<rparr>"

inductive hub_step :: "hub \<Rightarrow> hub option \<Rightarrow> bool" where
  step_connect: "c \<notin> known h \<Longrightarrow> hub_step h (Some (connect c h))"
| step_disconnect: "c \<in> reading h \<Longrightarrow> hub_step h (readPump_end c h)"
| step_event: "length (broadcast h) < chanSize \<Longrightarrow> hub_step h (Some (BroadcastEvent m h))"
| step_broadcast: "broadcast h \<noteq> [] \<Longrightarrow> distinct order \<Longrightarrow> set order = set (clients h) \<Longrightarrow> hub_step h (run_broadcast order h)"
| step_write: "c \<in> writing h \<Longrightarrow> send h c \<noteq> [] \<Longrightarrow> hub_step h (Some (writePump_message c h))"
| step_close: "c \<in> writing h \<Longrightarrow> send h c = [] \<Longrightarrow> isClosed h c \<Longrightarrow> hub_step h (Some (writePump_end c h))"
| step_fail: "c \<in> writing h \<Longrightarrow> hub_step h (Some (writePump_fail c k h))"

inductive hub_reach :: "hub \<Rightarrow> bool" where
  reach_new: "hub_reach NewHub"
| reach_step: "hub_reach h \<Longrightarrow> hub_step h (Some h') \<Longrightarrow> hub_reach h'"

inductive_cases hub_stepE: "hub_step h r"

section \<open>Facts\<close>

text \<open>The invariant: the clients of the map are distinct and connected, and their channels are open; a client that was never created has
  no history; and what a client whose write pump runs has been sent and has queued is a run of the broadcasts since it joined:
  all of them while it is in the map, the first ones after it was dropped.\<close>

definition stream :: "hub \<Rightarrow> nat \<Rightarrow> string list" where
  "stream h c = written h c @ send h c"

definition hub_inv :: "hub \<Rightarrow> bool" where
  "hub_inv h \<longleftrightarrow> distinct (clients h) \<and> set (clients h) \<subseteq> reading h \<and> reading h \<subseteq> known h \<and> writing h \<subseteq> known h \<and>
     active h = int (card (reading h)) \<and> finite (reading h) \<and>
     (\<forall>c\<in>set (clients h). \<not> isClosed h c) \<and>
     (\<forall>c. length (send h c) \<le> chanSize) \<and>
     (\<forall>c. c \<notin> known h \<longrightarrow> \<not> isClosed h c \<and> send h c = [] \<and> written h c = []) \<and>
     (\<forall>c\<in>writing h. prefix (stream h c) (drop (joined h c) (handled h))) \<and>
     (\<forall>c\<in>writing h \<inter> set (clients h). stream h c = drop (joined h c) (handled h)) \<and>
     (\<forall>c\<in>known h. joined h c \<le> length (handled h))"

lemma send_all_spec:
  assumes "distinct cs" and "\<And>c. c \<in> set cs \<Longrightarrow> \<not> isClosed h c"
  shows "send_all m cs h = Some (h\<lparr>clients := filter (\<lambda>d. \<not> (d \<in> set cs \<and> chanSize \<le> length (send h d))) (clients h),
     send := (\<lambda>c. if c \<in> set cs \<and> length (send h c) < chanSize then send h c @ [m] else send h c),
     isClosed := (\<lambda>c. isClosed h c \<or> c \<in> set cs \<and> chanSize \<le> length (send h c))\<rparr>)"
  using assms
proof (induction cs arbitrary: h)
  case Nil
  show ?case by simp
next
  case (Cons c cs)
  have c: "\<not> isClosed h c" "c \<notin> set cs" using Cons.prems by auto
  show ?case
  proof (cases "length (send h c) < chanSize")
    case True
    then have "send_or_drop m c h = Some (h\<lparr>send := (send h)(c := send h c @ [m])\<rparr>)"
      using c by (simp add: send_or_drop_def)
    then show ?thesis
      using Cons.IH [of "h\<lparr>send := (send h)(c := send h c @ [m])\<rparr>"] Cons.prems c True
      by (auto simp: fun_eq_iff intro!: hub.equality filter_cong)
  next
    case False
    let ?h = "h\<lparr>isClosed := (isClosed h)(c := True), clients := filter (\<lambda>d. d \<noteq> c) (clients h)\<rparr>"
    have "send_or_drop m c h = Some ?h"
      using c False by (simp add: send_or_drop_def close_chan_def)
    moreover have "\<And>d. d \<in> set cs \<Longrightarrow> \<not> isClosed ?h d"
      using Cons.prems c by auto
    ultimately show ?thesis
      using Cons.IH [of ?h] Cons.prems c False
      by (auto simp: fun_eq_iff intro!: hub.equality filter_cong)
  qed
qed

lemma inv_connect: "hub_inv h \<Longrightarrow> c \<notin> known h \<Longrightarrow> hub_inv (connect c h)"
  unfolding hub_inv_def connect_def run_register_def stream_def
  by (auto simp: card_insert_if)

lemma card_less_one:
  assumes "finite A" and "a \<in> A"
  shows "int (card A - Suc 0) = int (card A) - 1"
proof -
  have "0 < card A" using assms card_gt_0_iff by blast
  then show ?thesis by linarith
qed

lemma inv_disconnect: "hub_inv h \<Longrightarrow> c \<in> reading h \<Longrightarrow> \<exists>h'. readPump_end c h = Some h' \<and> hub_inv h'"
  unfolding hub_inv_def readPump_end_def run_unregister_def close_chan_def stream_def
  by (auto simp: card_less_one)

lemma inv_event: "hub_inv h \<Longrightarrow> hub_inv (BroadcastEvent m h)"
  by (simp add: hub_inv_def BroadcastEvent_def stream_def)

lemma inv_write: "hub_inv h \<Longrightarrow> c \<in> writing h \<Longrightarrow> hub_inv (writePump_message c h)"
  by (auto simp: hub_inv_def writePump_message_def stream_def)

lemma inv_writePump_end: "hub_inv h \<Longrightarrow> hub_inv (writePump_end c h)"
  by (auto simp: hub_inv_def writePump_end_def stream_def)

lemma inv_writePump_fail: "hub_inv h \<Longrightarrow> c \<in> writing h \<Longrightarrow> hub_inv (writePump_fail c k h)"
  by (auto simp: hub_inv_def writePump_fail_def stream_def intro: order_trans [OF diff_le_self])

lemma inv_broadcast:
  assumes inv: "hub_inv h" and ne: "broadcast h = m # ms" and order: "distinct order" "set order = set (clients h)"
  shows "\<exists>h'. run_broadcast order h = Some h' \<and> hub_inv h'"
proof -
  let ?h = "h\<lparr>broadcast := ms, handled := handled h @ [m]\<rparr>"
  define h' where "h' = ?h\<lparr>clients := filter (\<lambda>d. \<not> (d \<in> set order \<and> chanSize \<le> length (send ?h d))) (clients ?h),
     send := (\<lambda>c. if c \<in> set order \<and> length (send ?h c) < chanSize then send ?h c @ [m] else send ?h c),
     isClosed := (\<lambda>c. isClosed ?h c \<or> c \<in> set order \<and> chanSize \<le> length (send ?h c))\<rparr>"
  have open1: "\<And>c. c \<in> set order \<Longrightarrow> \<not> isClosed ?h c" using inv order by (auto simp: hub_inv_def)
  have run: "run_broadcast order h = Some h'"
    unfolding run_broadcast_def h'_def ne list.case by (rule send_all_spec [OF order(1) open1])
  have known: "set (clients h) \<subseteq> known h" "writing h \<subseteq> known h" using inv by (auto simp: hub_inv_def)
  have grow: "drop (joined h c) (handled h @ [m]) = drop (joined h c) (handled h) @ [m]" if "c \<in> known h" for c
    using inv that by (auto simp: hub_inv_def)
  have "stream h' c = (if c \<in> set (clients h') then stream h c @ [m] else stream h c)" if "c \<in> set (clients h) \<or> c \<notin> set (clients h')" for c
    using that order by (auto simp: h'_def stream_def)
  then have streams: "stream h' c = (if c \<in> set (clients h') then stream h c @ [m] else stream h c)" for c
    by (cases "c \<in> set (clients h)") (auto simp: h'_def)
  have "hub_inv h'"
    unfolding hub_inv_def streams
    using inv known grow order by (auto simp: hub_inv_def h'_def chanSize_def stream_def intro: prefix_prefix)
  with run show ?thesis by blast
qed

lemma hub_step_inv: "hub_step h r \<Longrightarrow> hub_inv h \<Longrightarrow> \<exists>h'. r = Some h' \<and> hub_inv h'"
  by (induction rule: hub_step.cases)
    (auto simp: inv_connect inv_event inv_write inv_writePump_end inv_writePump_fail neq_Nil_conv dest: inv_disconnect inv_broadcast)

lemma hub_reach_inv: "hub_reach h \<Longrightarrow> hub_inv h"
proof (induction rule: hub_reach.induct)
  case reach_new
  show ?case by (simp add: hub_inv_def NewHub_def stream_def)
next
  case (reach_step h h')
  with hub_step_inv show ?case by fastforce
qed

section \<open>Properties\<close>

text \<open>C36. Whatever the order in which clients come and go, events are published and the pumps run, the hub never sends on a closed channel
  and never closes a channel twice: no step panics, and the hub never holds more clients than the gauge of connections counts.\<close>

theorem hub_never_panics:
  assumes "hub_reach h"
  shows "\<not> hub_step h None \<and> int (ClientCount h) \<le> active h"
proof -
  have inv: "hub_inv h" using assms by (rule hub_reach_inv)
  then have "finite (reading h)" "set (clients h) \<subseteq> reading h" "card (set (clients h)) = length (clients h)"
    by (auto simp: hub_inv_def distinct_card)
  then have "length (clients h) \<le> card (reading h)" using card_mono by metis
  then show ?thesis
    using hub_step_inv [of h None] inv by (auto simp: hub_inv_def ClientCount_def)
qed

text \<open>C21. Delivery in order and without gaps: while a client is in the hub, what its connection was written and what is queued for it are
  exactly the broadcasts since it joined; once it is dropped for being slow, they are the first of those, and never more than its
  buffer is queued.\<close>

theorem hub_delivers_in_order:
  assumes "hub_reach h" and "c \<in> writing h"
  shows "prefix (written h c @ send h c) (drop (joined h c) (handled h)) \<and> length (send h c) \<le> chanSize \<and>
    (c \<in> set (clients h) \<longrightarrow> written h c @ send h c = drop (joined h c) (handled h))"
  using hub_reach_inv [OF assms(1)] assms(2) by (auto simp: hub_inv_def stream_def)

section \<open>Witnesses\<close>

definition sample_hub :: hub where
  "sample_hub = writePump_message 7 (the (run_broadcast [7] (BroadcastEvent ''hi'' (connect 7 NewHub))))"

lemmas hub_ops = connect_def NewHub_def run_register_def BroadcastEvent_def run_broadcast_def send_or_drop_def chanSize_def writePump_message_def

lemma sample_hub_reach: "hub_reach sample_hub"
proof -
  have 1: "hub_reach (connect 7 NewHub)" by (rule reach_step [OF reach_new step_connect]) (simp add: NewHub_def)
  have 2: "hub_reach (BroadcastEvent ''hi'' (connect 7 NewHub))"
    by (rule reach_step [OF 1 step_event]) (simp add: hub_ops)
  let ?h = "BroadcastEvent ''hi'' (connect 7 NewHub)"
  have "hub_step ?h (run_broadcast [7] ?h)" by (rule step_broadcast) (simp_all add: hub_ops)
  moreover have b: "run_broadcast [7] ?h = Some (the (run_broadcast [7] ?h))" by (simp add: hub_ops)
  ultimately have 3: "hub_reach (the (run_broadcast [7] ?h))" using reach_step [OF 2] by metis
  show ?thesis
    unfolding sample_hub_def by (rule reach_step [OF 3 step_write]) (simp_all add: hub_ops)
qed

theorem hub_never_panics_witness: "\<not> hub_step sample_hub None \<and> ClientCount sample_hub = 1"
  using hub_never_panics [OF sample_hub_reach] by (simp add: sample_hub_def hub_ops ClientCount_def)

theorem hub_delivers_in_order_witness:
  "7 \<in> set (clients sample_hub) \<and> written sample_hub 7 @ send sample_hub 7 = drop (joined sample_hub 7) [''hi'']"
proof -
  have "7 \<in> writing sample_hub \<and> 7 \<in> set (clients sample_hub) \<and> handled sample_hub = [''hi'']"
    by (simp add: sample_hub_def hub_ops)
  then show ?thesis using hub_delivers_in_order [OF sample_hub_reach, of 7] by simp
qed

end
