(* ===== verification/Websocket.thy ===== *)
theory Websocket
  imports Http Hub
begin

text \<open>
  The entry to the WebSocket hub, \<^verbatim>\<open>internal/handlers/ws/handler.go\<close>: the check of the key in the query, the upgrade of the connection, which is
  a parameter, and the registration of the client. Nothing of the router leads to it.
\<close>

record ws_server =
  ws_world :: world
  ws_hub :: hub

text \<open>\<open>upgrade\<close> is whether \<^verbatim>\<open>upgrader.Upgrade\<close> succeeds (it has answered the request itself when it fails), \<open>c\<close> the new client. There is no
  response when the connection is handed to the pumps.\<close>

definition ServeWS :: "(request \<Rightarrow> bool) \<Rightarrow> nat \<Rightarrow> request \<Rightarrow> ws_server \<Rightarrow> response option \<times> ws_server" where
  "ServeWS upgrade c rq s =
     (let apiKey = Query rq ''api_key'' in
      if apiKey = [] then (Some (JSON_error 401 ''api_key required''), s)
      else let (r, w) = ValidateAPIKey apiKey (ws_world s); s = s\<lparr>ws_world := w\<rparr> in
        case r of
          Ok _ \<Rightarrow> if \<not> upgrade rq then (None, s) else (None, s\<lparr>ws_hub := connect c (ws_hub s)\<rparr>)
        | _ \<Rightarrow> (Some (JSON_error 401 ''invalid api_key''), s))"

text \<open>Who joins the hub has shown a key that is stored; whoever has not is answered 401 and the hub stays as it is.\<close>

theorem ServeWS_authenticated:
  assumes "\<forall>k\<in>set (t_api_keys (ws_world s)). key_Key k \<noteq> Query rq ''api_key''"
  shows "ws_hub (snd (ServeWS upgrade c rq s)) = ws_hub s \<and> map_option rs_Status (fst (ServeWS upgrade c rq s)) = Some 401"
proof (cases "ValidateAPIKey (Query rq ''api_key'') (ws_world s)")
  case (Pair r w)
  then have "\<forall>k. r \<noteq> Ok k" using ValidateAPIKey_ok [of "Query rq ''api_key''" "ws_world s" _ w] assms by blast
  with Pair show ?thesis by (cases r) (simp_all add: ServeWS_def Let_def JSON_error_def JSON_def)
qed

text \<open>Registration keeps the hub among the states it can reach, as long as the client is a new one.\<close>

theorem ServeWS_reach:
  assumes "hub_reach (ws_hub s)" and "c \<notin> known (ws_hub s)"
  shows "hub_reach (ws_hub (snd (ServeWS upgrade c rq s)))"
  using assms reach_step [OF assms(1) step_connect]
  by (auto simp: ServeWS_def Let_def split: prod.splits outcome.splits)

end
