(* ===== verification/Backends.thy ===== *)
theory Backends
  imports Requests LoadBalancers Networks
begin

text \<open>
  The backends that carry out what the services ask for: the Docker adapter \<^verbatim>\<open>docker/adapter.go\<close>, the proxy of a load balancer
  \<^verbatim>\<open>docker/loadbalancer.go\<close> and the Open vSwitch adapter \<^verbatim>\<open>ovs/adapter.go\<close>. Every call of the Docker client and every command that is executed is
  recorded, with a mark when it failed; which of them fail is scripted by the faults of the world. Once the context of an operation is done,
  every further call that is given the context fails.
\<close>

section \<open>The Docker client\<close>

text \<open>What the adapter puts into the container configuration, the host configuration and the network configuration.\<close>

record container_config =
  cc_Image :: string
  cc_Env :: "string list"
  cc_Cmd :: "string list"
  cc_WorkingDir :: string
  cc_NetworkDisabled :: bool
  cc_PortBindings :: "(string \<times> string) list"
  cc_Binds :: "string list"
  cc_Memory :: int
  cc_NanoCPUs :: int
  cc_PidsLimit :: "int option"
  cc_ReadonlyRootfs :: bool
  cc_SecurityOpt :: "string list"
  cc_Networks :: "string list"

definition no_config :: container_config where
  "no_config = \<lparr>cc_Image = [], cc_Env = [], cc_Cmd = [], cc_WorkingDir = [], cc_NetworkDisabled = False, cc_PortBindings = [], cc_Binds = [],
     cc_Memory = 0, cc_NanoCPUs = 0, cc_PidsLimit = None, cc_ReadonlyRootfs = False, cc_SecurityOpt = [], cc_Networks = []\<rparr>"

datatype docker_call =
    ImagePull string | ContainerCreate container_config string | ContainerStart string | ContainerStop string | ContainerRemove string
  | ContainerLogs string | ContainerStats string | ContainerInspect string | ContainerWait string
  | NetworkCreate string | NetworkRemove string | VolumeCreate string | VolumeRemove string
  | ExecCreate string "string list" | ExecAttach string | ExecStart string | ExecInspect string | DockerPing
  | Run "string list" | MkdirAll string | WriteFile string string | RemoveAllFiles string
  | Failed docker_call

text \<open>
  The answers of the engine: \<open>id_at n\<close> is the identifier in the answer to the \<open>n\<close>-th call, \<open>ports_of\<close> the host ports bound to a port of a
  container, \<open>addresses_of\<close> the addresses of its networks in the order \<^verbatim>\<open>range\<close> visits them, \<open>wait_for\<close> what the two channels and
  the context deliver first, \<open>output_of\<close> and \<open>exit_of\<close> what an execution printed and its exit code, \<open>stats_of\<close> one snapshot of the statistics of a container, \<open>is_not_found\<close> whether an error says that
  the container does not exist.
\<close>

datatype wait = ErrCh "string option" | StatusCh int | CtxDone string

record engine =
  id_at :: "nat \<Rightarrow> string"
  ports_of :: "string \<Rightarrow> string \<Rightarrow> string list option"
  addresses_of :: "string \<Rightarrow> string list"
  wait_for :: "string \<Rightarrow> wait"
  output_of :: "string \<Rightarrow> string + string"
  stats_of :: "string \<Rightarrow> string"
  exit_of :: "string \<Rightarrow> int"
  is_not_found :: "error \<Rightarrow> bool"
  output_text :: "string list \<Rightarrow> string"

record node =
  nd_world :: world
  nd_calls :: "docker_call list"
  nd_done :: "string option"

type_synonym 'a dop = "(node, error, 'a) cmd"

definition nodeWorld :: "'a op \<Rightarrow> 'a dop" where
  "nodeWorld m = (\<lambda>s. let (r, w) = m (nd_world s) in (r, s\<lparr>nd_world := w\<rparr>))"

definition callC :: "docker_call \<Rightarrow> unit dop" where
  "callC c =
     bindC (tryC (nodeWorld (extC (returnC ())))) (\<lambda>r.
     bindC (modifyC (\<lambda>s. s\<lparr>nd_calls := nd_calls s @ [case r of Inl _ \<Rightarrow> Failed c | Inr _ \<Rightarrow> c]\<rparr>)) (\<lambda>_.
     liftC r))"

text \<open>A call with the context of the operation: when that is done (\<open>nd_done\<close> is the error of \<^verbatim>\<open>ctx.Err()\<close>), the client does not reach the engine.\<close>

definition dockerC :: "docker_call \<Rightarrow> unit dop" where
  "dockerC c =
     bindC (getC nd_done) (\<lambda>d.
     case d of
       None \<Rightarrow> callC c
     | Some err \<Rightarrow> bindC (modifyC (\<lambda>s. s\<lparr>nd_calls := nd_calls s @ [Failed c]\<rparr>)) (\<lambda>_. failC (ExtError err)))"

definition ctxDone :: "string \<Rightarrow> 'a dop" where
  "ctxDone err = bindC (modifyC (\<lambda>s. s\<lparr>nd_done := Some err\<rparr>)) (\<lambda>_. failC (ExtError err))"

text \<open>A call whose answer carries a new identifier.\<close>

definition dockerNewC :: "engine \<Rightarrow> docker_call \<Rightarrow> string dop" where
  "dockerNewC D c = bindC (getC (\<lambda>s. id_at D (length (nd_calls s)))) (\<lambda>i. bindC (dockerC c) (\<lambda>_. returnC i))"

definition wrapf :: "string \<Rightarrow> error \<Rightarrow> error" where
  "wrapf msg err = Errorf msg (Some err)"

section \<open>The Docker adapter\<close>

definition Ping :: "unit dop" where
  "Ping = dockerC DockerPing"

text \<open>The loop over the port mappings writes into two maps under the same key.\<close>

definition put_binding :: "string \<times> string \<Rightarrow> (string \<times> string) list \<Rightarrow> (string \<times> string) list" where
  "put_binding e m = filter (\<lambda>x. fst x \<noteq> fst e) m @ [e]"

definition bind_port :: "string \<Rightarrow> (string \<times> string) list \<Rightarrow> (string \<times> string) list" where
  "bind_port p m = (case Split CHR '':'' p of [outerPort, innerPort] \<Rightarrow> put_binding (innerPort @ ''/tcp'', outerPort) m | _ \<Rightarrow> m)"

definition DockerAdapter_CreateInstance ::
  "engine \<Rightarrow> string \<Rightarrow> string \<Rightarrow> string list \<Rightarrow> string \<Rightarrow> string list \<Rightarrow> string list \<Rightarrow> string list \<Rightarrow> string dop" where
  "DockerAdapter_CreateInstance D name imageName ports networkID volumeBinds env cmd =
     bindC (mapErrC (wrapf ''failed to pull image'') (dockerC (ImagePull imageName))) (\<lambda>_.
     let config = no_config\<lparr>cc_Image := imageName, cc_Env := env, cc_Cmd := cmd, cc_Binds := volumeBinds,
           cc_Networks := (if networkID = [] then [] else [networkID]), cc_PortBindings := fold bind_port ports []\<rparr> in
     bindC (mapErrC (wrapf ''failed to create container'') (dockerNewC D (ContainerCreate config name))) (\<lambda>i.
     bindC (mapErrC (wrapf ''failed to start container'') (dockerC (ContainerStart i))) (\<lambda>_.
     returnC i)))"

definition DockerAdapter_StopInstance :: "string \<Rightarrow> unit dop" where
  "DockerAdapter_StopInstance name = mapErrC (wrapf (''failed to stop container '' @ name)) (dockerC (ContainerStop name))"

definition DockerAdapter_DeleteInstance :: "engine \<Rightarrow> string \<Rightarrow> unit dop" where
  "DockerAdapter_DeleteInstance D i =
     bindC (tryC (dockerC (ContainerRemove i))) (\<lambda>r.
     case r of
       Inr _ \<Rightarrow> returnC ()
     | Inl err \<Rightarrow> if is_not_found D err then returnC () else failC (wrapf (''failed to remove container '' @ i) err))"

definition DockerAdapter_GetInstanceLogs :: "engine \<Rightarrow> string \<Rightarrow> string dop" where
  "DockerAdapter_GetInstanceLogs D i =
     bindC (mapErrC (wrapf ''failed to get container logs'') (dockerC (ContainerLogs i))) (\<lambda>_.
     returnC (case output_of D i of Inl t \<Rightarrow> t | Inr t \<Rightarrow> t))"

definition DockerAdapter_GetInstanceStats :: "engine \<Rightarrow> string \<Rightarrow> string dop" where
  "DockerAdapter_GetInstanceStats D i =
     bindC (dockerC (ContainerStats i)) (\<lambda>_. returnC (stats_of D i))"

definition DockerAdapter_GetInstancePort :: "engine \<Rightarrow> string \<Rightarrow> string \<Rightarrow> int dop" where
  "DockerAdapter_GetInstancePort D i innerPort =
     bindC (mapErrC (wrapf ''failed to inspect container'') (dockerC (ContainerInspect i))) (\<lambda>_.
     case ports_of D i (innerPort @ ''/tcp'') of
       Some (b # _) \<Rightarrow> (case Sscanf_int b of
                           None \<Rightarrow> failC (wrapf ''failed to parse host port'' (Errorf ''expected integer'' None))
                         | Some p \<Rightarrow> returnC p)
     | _ \<Rightarrow> failC (Errorf (''no port binding found for '' @ innerPort) None))"

definition DockerAdapter_CreateNetwork :: "engine \<Rightarrow> string \<Rightarrow> string dop" where
  "DockerAdapter_CreateNetwork D name = mapErrC (wrapf (''failed to create network '' @ name)) (dockerNewC D (NetworkCreate name))"

definition DockerAdapter_DeleteNetwork :: "string \<Rightarrow> unit dop" where
  "DockerAdapter_DeleteNetwork i = mapErrC (wrapf (''failed to remove network '' @ i)) (dockerC (NetworkRemove i))"

definition DockerAdapter_CreateVolume :: "string \<Rightarrow> unit dop" where
  "DockerAdapter_CreateVolume name = mapErrC (wrapf (''failed to create volume '' @ name)) (dockerC (VolumeCreate name))"

definition DockerAdapter_DeleteVolume :: "string \<Rightarrow> unit dop" where
  "DockerAdapter_DeleteVolume name = mapErrC (wrapf (''failed to delete volume '' @ name)) (dockerC (VolumeRemove name))"

text \<open>The \<^verbatim>\<open>select\<close> on the outcome of a task; a nil error falls through. An error of the request to wait arrives on the error channel.\<close>

definition awaitTask :: "engine \<Rightarrow> string \<Rightarrow> string \<Rightarrow> unit dop" where
  "awaitTask D what i =
     (case wait_for D i of
        ErrCh (Some err) \<Rightarrow> failC (wrapf (''error waiting for '' @ what @ '' task'') (ExtError err))
      | ErrCh None \<Rightarrow> returnC ()
      | StatusCh code \<Rightarrow> guardC (code \<noteq> 0) (Errorf (what @ '' task failed with exit code '' @ int_string code) None)
      | CtxDone err \<Rightarrow> ctxDone err)"

text \<open>\<^verbatim>\<open>defer cli.ContainerRemove(ctx, ...)\<close>: the removal runs on every way out, with the same context, and its error is dropped.\<close>

definition deferRemove :: "string \<Rightarrow> 'a dop \<Rightarrow> 'a dop" where
  "deferRemove i m = bindC (tryC m) (\<lambda>r. bindC (ignoreC (dockerC (ContainerRemove i))) (\<lambda>_. liftC r))"

definition snapshotTask :: "engine \<Rightarrow> string \<Rightarrow> string list \<Rightarrow> string list \<Rightarrow> unit dop" where
  "snapshotTask D what cmd binds =
     bindC (mapErrC (wrapf ''failed to pull alpine'') (dockerC (ImagePull ''alpine''))) (\<lambda>_.
     bindC (mapErrC (wrapf (''failed to create '' @ what @ '' task''))
              (dockerNewC D (ContainerCreate (no_config\<lparr>cc_Image := ''alpine'', cc_Cmd := cmd, cc_Binds := binds\<rparr>) []))) (\<lambda>i.
     deferRemove i
       (bindC (mapErrC (wrapf (''failed to start '' @ what @ '' task'')) (dockerC (ContainerStart i))) (\<lambda>_.
        bindC (mapErrC (wrapf (''error waiting for '' @ what @ '' task'')) (dockerC (ContainerWait i))) (\<lambda>_.
        awaitTask D what i)))))"

text \<open>\<^verbatim>\<open>filepath.Dir\<close> and \<^verbatim>\<open>filepath.Base\<close> of a path that is clean and has a directory.\<close>

definition Dir :: "string \<Rightarrow> string" where
  "Dir path = Join ''/'' (butlast (Split CHR ''/'' path))"

definition Base :: "string \<Rightarrow> string" where
  "Base path = last (Split CHR ''/'' path)"

definition DockerAdapter_CreateVolumeSnapshot :: "engine \<Rightarrow> string \<Rightarrow> string \<Rightarrow> unit dop" where
  "DockerAdapter_CreateVolumeSnapshot D volumeID destinationPath =
     snapshotTask D ''snapshot'' [''tar'', ''czf'', ''/snapshot/'' @ Base destinationPath, ''-C'', ''/data'', ''.'']
       [volumeID @ '':/data:ro'', Dir destinationPath @ '':/snapshot'']"

definition DockerAdapter_RestoreVolumeSnapshot :: "engine \<Rightarrow> string \<Rightarrow> string \<Rightarrow> unit dop" where
  "DockerAdapter_RestoreVolumeSnapshot D volumeID sourcePath =
     snapshotTask D ''restore'' [''tar'', ''xzf'', ''/snapshot/'' @ Base sourcePath, ''-C'', ''/data'']
       [volumeID @ '':/data'', Dir sourcePath @ '':/snapshot:ro'']"

definition DockerAdapter_GetInstanceIP :: "engine \<Rightarrow> string \<Rightarrow> string dop" where
  "DockerAdapter_GetInstanceIP D i =
     bindC (mapErrC (wrapf ''failed to inspect container'') (dockerC (ContainerInspect i))) (\<lambda>_.
     case find (\<lambda>a. a \<noteq> []) (addresses_of D i) of
       Some a \<Rightarrow> returnC a
     | None \<Rightarrow> failC (Errorf (''no IP address found for container '' @ i) None))"

record RunTaskOptions =
  ro_Image :: string
  ro_Command :: "string list"
  ro_Env :: "string list"
  ro_MemoryMB :: int
  ro_CPUs :: rat
  ro_NetworkDisabled :: bool
  ro_ReadOnlyRootfs :: bool
  ro_PidsLimit :: "int option"
  ro_WorkingDir :: string
  ro_Binds :: "string list"

text \<open>The conversion of \<^verbatim>\<open>opts.CPUs * 1e9\<close> to an integer truncates towards zero.\<close>

definition trunc :: "rat \<Rightarrow> int" where
  "trunc x = (if x < 0 then - \<lfloor>- x\<rfloor> else \<lfloor>x\<rfloor>)"

definition DockerAdapter_RunTask :: "engine \<Rightarrow> RunTaskOptions \<Rightarrow> string dop" where
  "DockerAdapter_RunTask D opts =
     bindC (mapErrC (wrapf ''failed to pull image'') (dockerC (ImagePull (ro_Image opts)))) (\<lambda>_.
     let config = no_config\<lparr>cc_Image := ro_Image opts, cc_Cmd := ro_Command opts, cc_Env := ro_Env opts, cc_WorkingDir := ro_WorkingDir opts,
           cc_NetworkDisabled := ro_NetworkDisabled opts, cc_Memory := ro_MemoryMB opts * 1024 * 1024, cc_NanoCPUs := trunc (ro_CPUs opts * 1000000000),
           cc_Binds := ro_Binds opts, cc_ReadonlyRootfs := ro_ReadOnlyRootfs opts, cc_SecurityOpt := [''no-new-privileges:true''],
           cc_PidsLimit := ro_PidsLimit opts\<rparr> in
     bindC (mapErrC (wrapf ''failed to create task container'') (dockerNewC D (ContainerCreate config []))) (\<lambda>i.
     bindC (mapErrC (wrapf ''failed to start task container'') (dockerC (ContainerStart i))) (\<lambda>_.
     returnC i)))"

definition DockerAdapter_WaitTask :: "engine \<Rightarrow> string \<Rightarrow> int dop" where
  "DockerAdapter_WaitTask D i =
     bindC (mapErrC (wrapf ''error waiting for container'') (dockerC (ContainerWait i))) (\<lambda>_.
     case wait_for D i of
       ErrCh (Some err) \<Rightarrow> failC (wrapf ''error waiting for container'' (ExtError err))
     | ErrCh None \<Rightarrow> returnC 0
     | StatusCh code \<Rightarrow> returnC code
     | CtxDone err \<Rightarrow> ctxDone err)"

text \<open>An execution returns its output together with its error.\<close>

definition DockerAdapter_Exec :: "engine \<Rightarrow> string \<Rightarrow> string list \<Rightarrow> (string \<times> error option) dop" where
  "DockerAdapter_Exec D containerID cmd =
     bindC (tryC (dockerNewC D (ExecCreate containerID cmd))) (\<lambda>r.
     case r of Inl err \<Rightarrow> returnC ([], Some (wrapf ''failed to create exec'' err)) | Inr e \<Rightarrow>
     bindC (tryC (dockerC (ExecAttach e))) (\<lambda>r.
     case r of Inl err \<Rightarrow> returnC ([], Some (wrapf ''failed to attach exec'' err)) | Inr _ \<Rightarrow>
     case output_of D e of Inl err \<Rightarrow> returnC ([], Some (wrapf ''failed to read exec output'' (ExtError err))) | Inr out \<Rightarrow>
     bindC (tryC (dockerC (ExecInspect e))) (\<lambda>r.
     case r of Inl err \<Rightarrow> returnC (out, Some (wrapf ''failed to inspect exec result'' err)) | Inr _ \<Rightarrow>
     if exit_of D e \<noteq> 0
     then returnC (out, Some (Errorf (''command execution failed with exit code '' @ int_string (exit_of D e) @ '': '' @ out) None))
     else returnC (out, None))))"

section \<open>The proxy of a load balancer\<close>

definition NginxImage :: string where
  "NginxImage = ''nginx:alpine''"

definition nl :: string where
  "nl = [CHR 0x0A]"

definition targetLine :: "string \<times> int \<times> int \<Rightarrow> string" where
  "targetLine t = (case t of (host, port, weight) \<Rightarrow>
     nl @ ''        server '' @ host @ '':'' @ int_string port @ '' weight='' @ int_string weight @ '';'' @ nl @ ''        '')"

text \<open>The template rendered with \<^verbatim>\<open>Port\<close>, \<^verbatim>\<open>LeastConn\<close> and \<^verbatim>\<open>Targets\<close>.\<close>

definition nginxTemplate :: "int \<Rightarrow> bool \<Rightarrow> (string \<times> int \<times> int) list \<Rightarrow> string" where
  "nginxTemplate port leastConn targets =
     nl @ ''user root;'' @ nl @ ''events {'' @ nl @ ''    worker_connections 1024;'' @ nl @ ''}'' @ nl @ nl @ ''http {'' @ nl @ ''    '' @
     (if targets = [] then []
      else nl @ ''    upstream backend {'' @ nl @ ''        '' @ concat (map targetLine targets) @ nl @ ''        '' @
           (if leastConn then ''least_conn;'' else []) @ nl @ ''    }'' @ nl @ ''    '') @ nl @ nl @
     ''    server {'' @ nl @ ''        listen '' @ int_string port @ '';'' @ nl @ ''        location / {'' @ nl @ ''            '' @
     (if targets = []
      then nl @ ''            return 503 '' @ [CHR 0x22] @ ''No targets available'' @ [CHR 0x22] @ '';'' @ nl @ ''            ''
      else nl @ ''            proxy_pass http://backend;'' @ nl @ ''            proxy_set_header Host $host;'' @ nl @
           ''            proxy_set_header X-Real-IP $remote_addr;'' @ nl @ ''            '') @ nl @
     ''        }'' @ nl @ ''    }'' @ nl @ ''}'' @ nl"

text \<open>A target whose instance cannot be read is skipped.\<close>

fun proxyTargets :: "env \<Rightarrow> ctx \<Rightarrow> LBTarget list \<Rightarrow> (string \<times> int \<times> int) list op" where
  "proxyTargets E ctx [] = returnC []"
| "proxyTargets E ctx (t # ts) =
     bindC (tryC (InstanceRepository_GetByID E ctx (tgt_InstanceID t))) (\<lambda>r.
     bindC (proxyTargets E ctx ts) (\<lambda>rest.
     returnC (case r of Inl _ \<Rightarrow> rest | Inr inst \<Rightarrow> (''thecloud-'' @ id8 E (inst_ID inst), tgt_Port t, tgt_Weight t) # rest)))"

definition generateNginxConfig :: "env \<Rightarrow> ctx \<Rightarrow> LoadBalancer \<Rightarrow> LBTarget list \<Rightarrow> string dop" where
  "generateNginxConfig E ctx lb targets =
     bindC (nodeWorld (proxyTargets E ctx targets)) (\<lambda>ts.
     returnC (nginxTemplate (lb_Port lb) (lb_Algorithm lb = ''least-conn'') ts))"

definition lbPath :: "env \<Rightarrow> uuid \<Rightarrow> string" where
  "lbPath E i = ''/tmp/thecloud/lb/'' @ uuid_string E i"

definition LBProxyAdapter_DeployProxy :: "engine \<Rightarrow> env \<Rightarrow> ctx \<Rightarrow> LoadBalancer \<Rightarrow> LBTarget list \<Rightarrow> string dop" where
  "LBProxyAdapter_DeployProxy D E ctx lb targets =
     bindC (dockerC (ImagePull NginxImage)) (\<lambda>_.
     bindC (generateNginxConfig E ctx lb targets) (\<lambda>config.
     let configPath = lbPath E (lb_ID lb) in
     bindC (callC (MkdirAll configPath)) (\<lambda>_.
     bindC (callC (WriteFile (configPath @ ''/nginx.conf'') config)) (\<lambda>_.
     let containerName = ''lb-'' @ uuid_string E (lb_ID lb); port = int_string (lb_Port lb) in
     bindC (ignoreC (dockerC (ContainerRemove containerName))) (\<lambda>_.
     bindC (nodeWorld (VpcRepository_GetByID E ctx (lb_VpcID lb))) (\<lambda>vpc.
     let cfg = no_config\<lparr>cc_Image := NginxImage, cc_Binds := [configPath @ ''/nginx.conf:/etc/nginx/nginx.conf:ro''],
                 cc_PortBindings := [(port @ ''/tcp'', port)], cc_Networks := [vpc_NetworkID vpc]\<rparr> in
     bindC (dockerNewC D (ContainerCreate cfg containerName)) (\<lambda>i.
     bindC (dockerC (ContainerStart i)) (\<lambda>_.
     returnC i))))))))"

definition LBProxyAdapter_RemoveProxy :: "env \<Rightarrow> uuid \<Rightarrow> unit dop" where
  "LBProxyAdapter_RemoveProxy E lbID =
     bindC (ignoreC (dockerC (ContainerRemove (''lb-'' @ uuid_string E lbID)))) (\<lambda>_.
     ignoreC (callC (RemoveAllFiles (lbPath E lbID))))"

definition LBProxyAdapter_UpdateProxyConfig :: "engine \<Rightarrow> env \<Rightarrow> ctx \<Rightarrow> LoadBalancer \<Rightarrow> LBTarget list \<Rightarrow> unit dop" where
  "LBProxyAdapter_UpdateProxyConfig D E ctx lb targets =
     bindC (generateNginxConfig E ctx lb targets) (\<lambda>config.
     bindC (callC (WriteFile (lbPath E (lb_ID lb) @ ''/nginx.conf'') config)) (\<lambda>_.
     let containerName = ''lb-'' @ uuid_string E (lb_ID lb) in
     bindC (ignoreC (dockerC (ContainerStart containerName))) (\<lambda>_.
     bindC (dockerNewC D (ExecCreate containerName [''nginx'', ''-s'', ''reload''])) (\<lambda>e.
     dockerC (ExecStart e)))))"

section \<open>Open vSwitch\<close>

text \<open>The expression \<^verbatim>\<open>^[a-zA-Z0-9-]+$\<close>.\<close>

definition bridgeName_ok :: "string \<Rightarrow> bool" where
  "bridgeName_ok s \<longleftrightarrow> s \<noteq> [] \<and> list_all (\<lambda>c. let n = (of_char c :: nat) in 97 \<le> n \<and> n \<le> 122 \<or> 65 \<le> n \<and> n \<le> 90 \<or> 48 \<le> n \<and> n \<le> 57 \<or> n = 45) s"

definition runC :: "string list \<Rightarrow> unit dop" where
  "runC argv = dockerC (Run argv)"

definition badBridge :: error where
  "badBridge = New InvalidInput ''invalid bridge name''"

definition badPort :: error where
  "badPort = New InvalidInput ''invalid bridge or port name''"

definition OvsAdapter_Ping :: "unit dop" where
  "OvsAdapter_Ping = runC [''ovs-vsctl'', ''show'']"

definition OvsAdapter_CreateBridge :: "string \<Rightarrow> int \<Rightarrow> unit dop" where
  "OvsAdapter_CreateBridge name vxlanID =
     bindC (guardC (\<not> bridgeName_ok name) badBridge) (\<lambda>_.
     mapErrC (Wrap Internal ''failed to add bridge'') (runC [''ovs-vsctl'', ''add-br'', name]))"

definition OvsAdapter_DeleteBridge :: "string \<Rightarrow> unit dop" where
  "OvsAdapter_DeleteBridge name =
     bindC (guardC (\<not> bridgeName_ok name) badBridge) (\<lambda>_.
     mapErrC (Wrap Internal ''failed to delete bridge'') (runC [''ovs-vsctl'', ''del-br'', name]))"

definition OvsAdapter_ListBridges :: "engine \<Rightarrow> string list dop" where
  "OvsAdapter_ListBridges D =
     bindC (mapErrC (Wrap Internal ''failed to list bridges'') (runC [''ovs-vsctl'', ''list-br''])) (\<lambda>_.
     let bridges = Split CHR 0x0A (TrimSpace (output_text D [''ovs-vsctl'', ''list-br''])) in
     returnC (if bridges = [[]] then [] else bridges))"

definition OvsAdapter_AddPort :: "string \<Rightarrow> string \<Rightarrow> unit dop" where
  "OvsAdapter_AddPort bridge portName =
     bindC (guardC (\<not> bridgeName_ok bridge \<or> \<not> bridgeName_ok portName) badPort) (\<lambda>_.
     mapErrC (Wrap Internal ''failed to add port'') (runC [''ovs-vsctl'', ''add-port'', bridge, portName]))"

definition OvsAdapter_DeletePort :: "string \<Rightarrow> string \<Rightarrow> unit dop" where
  "OvsAdapter_DeletePort bridge portName =
     bindC (guardC (\<not> bridgeName_ok bridge \<or> \<not> bridgeName_ok portName) badPort) (\<lambda>_.
     mapErrC (Wrap Internal ''failed to delete port'') (runC [''ovs-vsctl'', ''del-port'', bridge, portName]))"

definition tunnelName :: "string \<Rightarrow> string" where
  "tunnelName remoteIP = ''vxlan-'' @ map (\<lambda>c. if c = CHR ''.'' then CHR ''-'' else c) remoteIP"

definition OvsAdapter_CreateVXLANTunnel :: "string \<Rightarrow> int \<Rightarrow> string \<Rightarrow> unit dop" where
  "OvsAdapter_CreateVXLANTunnel bridge vni remoteIP =
     bindC (guardC (\<not> bridgeName_ok bridge) badBridge) (\<lambda>_.
     mapErrC (Wrap Internal ''failed to create vxlan tunnel'')
       (runC [''ovs-vsctl'', ''add-port'', bridge, tunnelName remoteIP, ''--'', ''set'', ''interface'', tunnelName remoteIP,
              ''type=vxlan'', ''options:remote_ip='' @ remoteIP, ''options:key='' @ int_string vni]))"

definition OvsAdapter_DeleteVXLANTunnel :: "string \<Rightarrow> string \<Rightarrow> unit dop" where
  "OvsAdapter_DeleteVXLANTunnel bridge remoteIP = OvsAdapter_DeletePort bridge (tunnelName remoteIP)"

definition OvsAdapter_AddFlowRule :: "string \<Rightarrow> FlowRule \<Rightarrow> unit dop" where
  "OvsAdapter_AddFlowRule bridge rule =
     bindC (guardC (\<not> bridgeName_ok bridge) badBridge) (\<lambda>_.
     mapErrC (Wrap Internal ''failed to add flow rule'')
       (runC [''ovs-ofctl'', ''add-flow'', bridge,
              ''priority='' @ int_string (flow_Priority rule) @ '','' @ flow_Match rule @ '',actions='' @ flow_Actions rule]))"

definition OvsAdapter_DeleteFlowRule :: "string \<Rightarrow> string \<Rightarrow> unit dop" where
  "OvsAdapter_DeleteFlowRule bridge match =
     bindC (guardC (\<not> bridgeName_ok bridge) badBridge) (\<lambda>_.
     mapErrC (Wrap Internal ''failed to delete flow rule'') (runC [''ovs-ofctl'', ''del-flows'', bridge, match]))"

definition OvsAdapter_ListFlowRules :: "string \<Rightarrow> FlowRule list dop" where
  "OvsAdapter_ListFlowRules bridge = returnC []"

definition OvsAdapter_CreateVethPair :: "string \<Rightarrow> string \<Rightarrow> unit dop" where
  "OvsAdapter_CreateVethPair hostEnd containerEnd =
     mapErrC (Wrap Internal ''failed to create veth pair'')
       (runC [''ip'', ''link'', ''add'', hostEnd, ''type'', ''veth'', ''peer'', ''name'', containerEnd])"

definition OvsAdapter_AttachVethToBridge :: "string \<Rightarrow> string \<Rightarrow> unit dop" where
  "OvsAdapter_AttachVethToBridge bridge vethEnd =
     bindC (OvsAdapter_AddPort bridge vethEnd) (\<lambda>_.
     mapErrC (Wrap Internal ''failed to set veth up'') (runC [''ip'', ''link'', ''set'', vethEnd, ''up'']))"

definition OvsAdapter_DeleteVethPair :: "string \<Rightarrow> unit dop" where
  "OvsAdapter_DeleteVethPair hostEnd = mapErrC (Wrap Internal ''failed to delete veth pair'') (runC [''ip'', ''link'', ''del'', hostEnd])"

definition OvsAdapter_SetVethIP :: "string \<Rightarrow> string \<Rightarrow> string \<Rightarrow> unit dop" where
  "OvsAdapter_SetVethIP vethEnd ip cidr =
     bindC (mapErrC (Wrap Internal ''failed to set veth ip'') (runC [''ip'', ''addr'', ''add'', ip @ ''/'' @ cidr, ''dev'', vethEnd])) (\<lambda>_.
     mapErrC (Wrap Internal ''failed to bring veth up'') (runC [''ip'', ''link'', ''set'', vethEnd, ''up'']))"

section \<open>Facts\<close>

text \<open>How a sequence of calls moves the state: the record grows by \<open>l\<close>, and while the context is not done each call has used one entry of the
  fault script.\<close>

definition moved :: "node \<Rightarrow> docker_call list \<Rightarrow> node \<Rightarrow> bool" where
  "moved s l s' \<longleftrightarrow> nd_calls s' = nd_calls s @ l \<and>
     (nd_done s' = None \<longrightarrow> nd_done s = None \<and> faults (nd_world s') = drop (length l) (faults (nd_world s)))"

text \<open>The \<open>n\<close>-th call from a state on fails by itself.\<close>

definition fault_at :: "node \<Rightarrow> nat \<Rightarrow> bool" where
  "fault_at s n \<longleftrightarrow> n < length (faults (nd_world s)) \<and> faults (nd_world s) ! n \<noteq> None"

lemma moved_refl [simp]: "moved s [] s"
  by (simp add: moved_def)

lemma moved_trans: "moved s l s' \<Longrightarrow> moved s' m s'' \<Longrightarrow> moved s (l @ m) s''"
  by (auto simp: moved_def add.commute)

lemma moved_done: "moved s l s' \<Longrightarrow> moved s l (s'\<lparr>nd_done := Some err\<rparr>)"
  by (simp add: moved_def)

lemma moved_fault: "moved s l s' \<Longrightarrow> nd_done s' = None \<Longrightarrow> fault_at s' 0 \<longleftrightarrow> fault_at s (length l)"
  by (auto simp: moved_def fault_at_def)

lemma dockerC_run:
  "\<exists>s'. dockerC c s = (if nd_done s = None \<and> \<not> fault_at s 0 then Ok () else fst (dockerC c s), s') \<and>
     (\<exists>e. nd_done s \<noteq> None \<or> fault_at s 0 \<longrightarrow> fst (dockerC c s) = Err e) \<and> nd_done s' = nd_done s \<and>
     moved s [if nd_done s = None \<and> \<not> fault_at s 0 then c else Failed c] s'"
proof (cases "nd_done s")
  case (Some err)
  then show ?thesis by (simp add: dockerC_def run moved_def)
next
  case None
  then show ?thesis
    by (auto simp: dockerC_def callC_def nodeWorld_def extC_def run moved_def fault_at_def split: list.split option.split)
qed

text \<open>A call either succeeds and is recorded, or fails and its failure is.\<close>

lemma wp_dockerC:
  assumes "\<And>s'. moved s [c] s' \<Longrightarrow> nd_done s = None \<Longrightarrow> \<not> fault_at s 0 \<Longrightarrow> nd_done s' = None \<Longrightarrow> Q (Ok ()) s'"
    and "\<And>e s'. moved s [Failed c] s' \<Longrightarrow> nd_done s \<noteq> None \<or> fault_at s 0 \<Longrightarrow> nd_done s' = nd_done s \<Longrightarrow> Q (Err e) s'"
  shows "wp (dockerC c) Q s"
  using dockerC_run [of c s] assms unfolding wp_def by (cases "dockerC c s") (auto split: if_splits)

lemma wp_dockerNewC:
  assumes "\<And>s'. moved s [c] s' \<Longrightarrow> nd_done s = None \<Longrightarrow> nd_done s' = None \<Longrightarrow> Q (Ok (id_at D (length (nd_calls s)))) s'"
    and "\<And>e s'. moved s [Failed c] s' \<Longrightarrow> Q (Err e) s'"
  shows "wp (dockerNewC D c) Q s"
  unfolding dockerNewC_def using assms by (auto simp: wps intro!: wp_dockerC)

text \<open>What a task adds to the record of calls. Once its container was created the last call is the request to remove it; the request succeeds
  exactly when the context has not been done and the call does not fail by itself.\<close>

definition task_cleaned :: "engine \<Rightarrow> node \<Rightarrow> node \<Rightarrow> bool" where
  "task_cleaned D s s' \<longleftrightarrow> (\<exists>l. nd_calls s' = nd_calls s @ l \<and>
     ((\<exists>c n. ContainerCreate c n \<in> set l) \<longrightarrow>
       last l = (let remove = ContainerRemove (id_at D (Suc (length (nd_calls s)))) in
         if nd_done s' = None \<and> \<not> fault_at s (length l - 1) then remove else Failed remove)))"

lemma wp_ignore_dockerC:
  assumes "\<And>s'. moved s [if nd_done s = None \<and> \<not> fault_at s 0 then c else Failed c] s' \<Longrightarrow> nd_done s' = nd_done s \<Longrightarrow> Q (Ok ()) s'"
  shows "wp (ignoreC (dockerC c)) Q s"
  unfolding wp_ignoreC using assms by (auto intro!: wp_dockerC)

lemma moved_last:
  assumes "moved s l s1" and "moved s1 [if nd_done s1 = None \<and> \<not> fault_at s1 0 then c else d] s2" and "nd_done s2 = nd_done s1"
  shows "nd_calls s2 = nd_calls s @ l @ [if nd_done s2 = None \<and> \<not> fault_at s (length l) then c else d]"
  using assms moved_fault [OF assms(1)] by (auto simp: moved_def split: if_splits)

lemma wp_deferRemove:
  assumes "wp m (\<lambda>r s'. (\<exists>l. moved s l s') \<and> (\<forall>p. r \<noteq> Panic p)) s"
    and "\<And>r s' l. nd_calls s' = nd_calls s @ l @ [if nd_done s' = None \<and> \<not> fault_at s (length l) then ContainerRemove i else Failed (ContainerRemove i)] \<Longrightarrow> Q r s'"
  shows "wp (deferRemove i m) Q s"
  unfolding deferRemove_def wp_bindC wp_tryC
  by (rule wp_mono [OF assms(1)])
    (auto simp: wps simp del: wp_ignoreC intro!: wp_ignore_dockerC assms(2) [OF moved_last] split: outcome.split)

lemma wp_task_body:
  "wp (bindC (mapErrC f (dockerC (ContainerStart i))) (\<lambda>_. bindC (mapErrC g (dockerC (ContainerWait i))) (\<lambda>_. awaitTask D what i)))
     (\<lambda>r s'. (\<exists>l. moved s l s') \<and> (\<forall>p. r \<noteq> Panic p)) s"
  by (auto simp: wps awaitTask_def ctxDone_def intro!: wp_dockerC split: wait.split option.split)
    (blast intro: moved_trans moved_done)+

lemma wp_snapshotTask: "wp (snapshotTask D what cmd binds) (\<lambda>r s'. task_cleaned D s s') s"
proof -
  have "wp (deferRemove (id_at D (length (nd_calls s1))) m) (\<lambda>r s'. task_cleaned D s s') s2"
    if pull: "moved s [ImagePull img] s1" "nd_done s1 = None" and create: "moved s1 [c] s2" "nd_done s2 = None"
      and m: "wp m (\<lambda>r s'. (\<exists>l. moved s2 l s') \<and> (\<forall>p. r \<noteq> Panic p)) s2" for s1 s2 :: node and img c and m :: "unit dop"
  proof (rule wp_deferRemove [OF m])
    fix r l and s' :: node
    assume l: "nd_calls s' = nd_calls s2 @ l @ [if nd_done s' = None \<and> \<not> fault_at s2 (length l) then ContainerRemove (id_at D (length (nd_calls s1)))
      else Failed (ContainerRemove (id_at D (length (nd_calls s1))))]"
    have 2: "moved s ([ImagePull img] @ [c]) s2" using moved_trans [OF pull(1) create(1)] .
    then have "fault_at s2 (length l) \<longleftrightarrow> fault_at s (Suc (Suc (length l)))"
      using create(2) by (auto simp: moved_def fault_at_def)
    then show "task_cleaned D s s'"
      unfolding task_cleaned_def using l 2 pull(1)
      by (intro exI [of _ "[ImagePull img, c] @ l @ [if nd_done s' = None \<and> \<not> fault_at s2 (length l) then ContainerRemove (id_at D (length (nd_calls s1)))
        else Failed (ContainerRemove (id_at D (length (nd_calls s1))))]"]) (simp add: moved_def Let_def)
  qed
  note removal = this [OF _ _ _ _ wp_task_body]
  have early: "task_cleaned D s s'" if "moved s l s'" "\<forall>c n. ContainerCreate c n \<notin> set l" for l and s' :: node
    using that unfolding task_cleaned_def moved_def by blast
  show ?thesis
    unfolding snapshotTask_def wp_bindC wp_mapErrC
    by (rule wp_dockerC; simp add: wps early) (rule wp_dockerNewC; simp add: wps removal early [OF moved_trans])
qed

text \<open>C39. The container of a snapshot or restore task: once it was created, the last call the adapter makes, whichever calls fail and however the task
  ends, is the request to remove it. The request goes through exactly when it does not fail by itself and the context has not been done: the
  removal is given the same context, so that a task that is cancelled leaves its container behind.\<close>

theorem task_container_removed:
  "task_cleaned D s (snd (DockerAdapter_CreateVolumeSnapshot D volumeID path s)) \<and>
   task_cleaned D s (snd (DockerAdapter_RestoreVolumeSnapshot D volumeID path s))"
  unfolding DockerAdapter_CreateVolumeSnapshot_def DockerAdapter_RestoreVolumeSnapshot_def
  using wp_snapshotTask by (simp add: wp_def)

text \<open>The container of a task that is cancelled while it is awaited stays, although no call fails by itself.\<close>

theorem cancelled_task_leaks:
  assumes "faults (nd_world s) = []" and "nd_done s = None" and "wait_for D (id_at D (Suc (length (nd_calls s)))) = CtxDone err"
  shows "\<exists>config s'. DockerAdapter_RestoreVolumeSnapshot D volumeID path s = (Err (ExtError err), s') \<and>
    (let i = id_at D (Suc (length (nd_calls s))) in
     nd_calls s' = nd_calls s @ [ImagePull ''alpine'', ContainerCreate config [], ContainerStart i, ContainerWait i, Failed (ContainerRemove i)])"
  using assms by (simp add: DockerAdapter_RestoreVolumeSnapshot_def snapshotTask_def deferRemove_def awaitTask_def ctxDone_def dockerNewC_def dockerC_def callC_def
      nodeWorld_def extC_def Let_def run)

text \<open>An instance, a managed service or a function whose container cannot be started leaves that container behind: its identifier is not
  returned and nobody removes it.\<close>

theorem failed_start_leaks:
  assumes "faults (nd_world s) = [None, None, Some e]" and "nd_done s = None"
  shows "\<exists>err config s'. DockerAdapter_CreateInstance D name img ports net binds env cmd s = (Err err, s') \<and>
    nd_calls s' = nd_calls s @ [ImagePull img, ContainerCreate config name, Failed (ContainerStart (id_at D (Suc (length (nd_calls s)))))]"
  using assms by (simp add: DockerAdapter_CreateInstance_def dockerNewC_def dockerC_def callC_def nodeWorld_def extC_def Let_def run)

text \<open>A tunnel to an address with a colon can be created and not deleted.\<close>

theorem ipv6_tunnel_stays:
  assumes "faults (nd_world s) = []" and "nd_done s = None" and "bridgeName_ok bridge" and "CHR '':'' \<in> set remoteIP"
  shows "fst (OvsAdapter_CreateVXLANTunnel bridge vni remoteIP s) = Ok () \<and> OvsAdapter_DeleteVXLANTunnel bridge remoteIP s = (Err badPort, s)"
proof -
  have "CHR '':'' \<in> set (tunnelName remoteIP)"
    using assms(4) by (auto simp: tunnelName_def image_iff)
  then have "\<not> bridgeName_ok (tunnelName remoteIP)"
    by (auto simp: bridgeName_ok_def list_all_iff Let_def dest!: bspec [of _ _ "CHR '':''"])
  with assms show ?thesis
    by (simp add: OvsAdapter_CreateVXLANTunnel_def OvsAdapter_DeleteVXLANTunnel_def OvsAdapter_DeletePort_def runC_def dockerC_def callC_def nodeWorld_def extC_def run)
qed

text \<open>The bridges that the VPC service asks for have names the adapter accepts and Linux can hold, when the text of an identifier consists of
  hexadecimal digits and dashes.\<close>

theorem vpc_bridge_accepted:
  assumes "list_all (\<lambda>c. let n = (of_char c :: nat) in 97 \<le> n \<and> n \<le> 102 \<or> 48 \<le> n \<and> n \<le> 57 \<or> n = 45) (uuid_string E i)"
    and "8 \<le> length (uuid_string E i)"
  shows "bridgeName_ok (''br-vpc-'' @ id8 E i) \<and> length (''br-vpc-'' @ id8 E i) = 15"
proof -
  have "97 \<le> (of_char c :: nat) \<and> (of_char c :: nat) \<le> 122 \<or> 65 \<le> (of_char c :: nat) \<and> (of_char c :: nat) \<le> 90 \<or>
      48 \<le> (of_char c :: nat) \<and> (of_char c :: nat) \<le> 57 \<or> (of_char c :: nat) = 45" if "c \<in> set (take 8 (uuid_string E i))" for c
    using in_set_takeD [OF that] assms(1) by (fastforce simp: list_all_iff Let_def)
  then show ?thesis
    using assms(2) by (simp add: bridgeName_ok_def id8_def list_all_iff Let_def)
qed

text \<open>The proxy forwards to the containers that the instance service created, one line per target that the owner can read, in order.\<close>

lemma GetByID_nf:
  "faults s = [] \<Longrightarrow> InstanceRepository_GetByID E ctx i s = (case find (\<lambda>x. inst_ID x = i \<and> inst_UserID x = UserIDFromContext ctx) (t_instances s) of
     None \<Rightarrow> (Err (row_err (New NotFound (''instance '' @ uuid_string E i @ '' not found'')) ''failed to get instance'' ErrNoRows), s) | Some x \<Rightarrow> (Ok x, s))"
  by (simp add: InstanceRepository_GetByID_def run split: option.split)

theorem proxyTargets_named:
  assumes "faults s = []"
  shows "proxyTargets E ctx targets s = (Ok (map (\<lambda>t. (formatContainerName E (tgt_InstanceID t), tgt_Port t, tgt_Weight t))
     (filter (\<lambda>t. \<exists>x\<in>set (t_instances s). inst_ID x = tgt_InstanceID t \<and> inst_UserID x = UserIDFromContext ctx) targets)), s)"
proof (induction targets)
  case Nil
  show ?case by (simp add: run)
next
  case (Cons t ts)
  show ?case
  proof (cases "find (\<lambda>x. inst_ID x = tgt_InstanceID t \<and> inst_UserID x = UserIDFromContext ctx) (t_instances s)")
    case None
    then have "\<not> (\<exists>x\<in>set (t_instances s). inst_ID x = tgt_InstanceID t \<and> inst_UserID x = UserIDFromContext ctx)"
      by (auto simp: find_None_iff)
    with None Cons show ?thesis by (simp add: run GetByID_nf [OF assms])
  next
    case (Some x)
    then have "x \<in> set (t_instances s)" "inst_ID x = tgt_InstanceID t" "inst_UserID x = UserIDFromContext ctx"
      by (auto dest: find_Some_set)
    with Some Cons show ?thesis by (auto simp: run GetByID_nf [OF assms] formatContainerName_def)
  qed
qed

end
