(* ===== verification/Spec2Isabelle.thy ===== *)
theory Spec2Isabelle
  imports AutoScalingWorker Router Websocket Backends
begin

text \<open>
  A model of the control plane of \<^verbatim>\<open>thecloud\<close>, a multi-tenant cloud on one host, and its correctness.

  \<^bold>\<open>The program.\<close> An HTTP interface (\<^verbatim>\<open>src/internal/handlers\<close>) calls services (\<^verbatim>\<open>src/internal/core/services\<close>), which keep their state in a PostgreSQL
  database through repositories (\<^verbatim>\<open>src/internal/repositories/postgres\<close>) and drive a container engine, a virtual switch and the file system.
  Services call one another (a launch attaches volumes, a stack launches instances, a notification is sent to a queue), and
  workers and goroutines go on where a request has returned: the load-balancer, scaling, cron and container workers act on rows that
  the services wrote.

  \<^bold>\<open>The model.\<close> An operation is a function of type \<^typ>\<open>'a op\<close> from a \<^typ>\<open>world\<close> to an outcome (a value, an error or a panic) and a world. The world has one
  list of rows per table, the trace of backend calls, the metrics, the files, the pending goroutines, the in-memory state of the login and of the
  gateway, and a script of faults: every call that leaves the process takes its next entry and fails when that is a message, so that a theorem
  for all worlds is a theorem for all patterns of failures. Third-party code (password hashing, ciphers, YAML, cron schedules, archives,
  identifiers, the engine's answers) is a field of the record \<^typ>\<open>env\<close>; what a theorem needs of it is a hypothesis that names it.
  A statement is an atomic step; its constraints (keys, foreign keys, cascades of the migrations) are those of the tables.

  \<^item> \<^verbatim>\<open>Prelude\<close> commands with errors and panics, their rules, frames as a locale, lists and tables; \<^verbatim>\<open>GoLib\<close> and \<^verbatim>\<open>Paths\<close> what is used of the standard library;
    \<^verbatim>\<open>Errors\<close> \<^verbatim>\<open>errors.go\<close> and the rendering of \<^verbatim>\<open>httputil\<close>; \<^verbatim>\<open>Domain\<close> the structs of \<^verbatim>\<open>core/domain\<close>; \<^verbatim>\<open>World\<close> the state, its primitive calls, events and the audit log;
    \<^verbatim>\<open>Transactions\<close> rollback and commit; \<^verbatim>\<open>Frames\<close> what a call cannot change and how many calls may fail.
  \<^item> \<^verbatim>\<open>Ports\<close>, \<^verbatim>\<open>Ipam\<close> the port lists and the search for an address, with equivalence to a reference and termination.
  \<^item> \<^verbatim>\<open>Volumes\<close>, \<^verbatim>\<open>Networks\<close>, \<^verbatim>\<open>Instances\<close>, \<^verbatim>\<open>Snapshots\<close>, \<^verbatim>\<open>SecurityGroups\<close> (\<^verbatim>\<open>volume.go\<close>, \<^verbatim>\<open>vpc.go\<close>, \<^verbatim>\<open>subnet.go\<close>, \<^verbatim>\<open>instance.go\<close>, \<^verbatim>\<open>snapshot.go\<close>, \<^verbatim>\<open>security_group.go\<close>): isolation of
    tenants, no lost update, rollback of half-made resources, invariants over all reachable states.
  \<^item> \<^verbatim>\<open>LoadBalancers\<close>, \<^verbatim>\<open>AutoScaling\<close>, \<^verbatim>\<open>AutoScalingWorker\<close>, \<^verbatim>\<open>Containers\<close>: services and workers (\<^verbatim>\<open>loadbalancer.go\<close>, \<^verbatim>\<open>lb_worker.go\<close>, \<^verbatim>\<open>autoscaling.go\<close>, \<^verbatim>\<open>autoscaling_worker.go\<close>,
    \<^verbatim>\<open>container.go\<close>, \<^verbatim>\<open>container_worker.go\<close>) as step relations: life cycles, bounds of the capacity and convergence.
  \<^item> \<^verbatim>\<open>Users\<close>, \<^verbatim>\<open>PasswordReset\<close>, \<^verbatim>\<open>Rbac\<close>, \<^verbatim>\<open>Crypto\<close>, \<^verbatim>\<open>Secrets\<close>: accounts and their lockout, which refines an automaton, reset tokens, decisions on permissions, the store
    of secrets around an authenticated cipher.
  \<^item> \<^verbatim>\<open>Queues\<close>, \<^verbatim>\<open>Notify\<close>, \<^verbatim>\<open>Cron\<close>, \<^verbatim>\<open>Gateway\<close>: messages with visibility timeouts, the fan-out of notifications, scheduled jobs and the routes of the proxy.
  \<^item> \<^verbatim>\<open>Storage\<close>, \<^verbatim>\<open>Databases\<close>, \<^verbatim>\<open>Caches\<close>, \<^verbatim>\<open>Functions\<close>, \<^verbatim>\<open>Stacks\<close>: objects in a shared file store, managed engines in containers, functions unpacked from archives, and
    templates over the other services.
  \<^item> \<^verbatim>\<open>Http\<close>, \<^verbatim>\<open>Dashboard\<close>, \<^verbatim>\<open>Requests\<close>, \<^verbatim>\<open>Handlers\<close>, \<^verbatim>\<open>ManagedHandlers\<close>, \<^verbatim>\<open>Router\<close>: the HTTP interface, from the middleware of \<^verbatim>\<open>pkg/httputil\<close> and the rate limiter of
    \<^verbatim>\<open>pkg/ratelimit\<close> over one definition per handler method to the table of routes of \<^verbatim>\<open>api/setup/router.go\<close>. A request runs through the chain that the router builds: one
    without a key reaches no service, one without the permission reaches no handler, whatever fails.
  \<^item> \<^verbatim>\<open>Hub\<close>, \<^verbatim>\<open>Websocket\<close>: the hub of the web sockets with its pumps as a step relation: no send on a closed channel, delivery in order.
  \<^item> \<^verbatim>\<open>Backends\<close>: the adapters of Docker, of the proxies of the load balancers and of Open vSwitch, as sequences of calls to the engine that may fail by themselves or because
    the context is done: what is removed on the way out, and what is left behind.

  Interfaces between components are locales: \<^verbatim>\<open>tenant_repo\<close> and \<^verbatim>\<open>tenant_list_repo\<close> (\<^verbatim>\<open>Volumes\<close>) are what a repository scoped to its tenant promises,
  \<^verbatim>\<open>versioned_repo\<close> (\<^verbatim>\<open>Instances\<close>) is optimistic locking, \<^verbatim>\<open>atomic\<close> (\<^verbatim>\<open>Transactions\<close>) all or nothing, \<^verbatim>\<open>frame_rel\<close> and \<^verbatim>\<open>core_frame\<close> relations that every
  step of an operation keeps; each is interpreted on the repositories and operations of the model.

  \<^bold>\<open>Bounds.\<close> Loops are structural recursion over lists, except the search for an address, a \<^verbatim>\<open>partial_function\<close> whose termination is a theorem for IPv4 blocks with a prefix of at least one bit; where it is
  not known to return, a launch has the outcome \<^verbatim>\<open>Panic noReturn\<close>, from which nothing recovers. Integers
  are unbounded where the code cannot reach the limits of \<^verbatim>\<open>int\<close>; bytes of addresses, nonces and totals that may wrap are words. Floating point is idealised to rationals.
  No fuel is used; the event stream of the dashboard, which ends when the client leaves, has the number of its ticks as an argument.

  \<^bold>\<open>Not modelled.\<close> Concurrency inside one statement or between the statements of two transactions (a transaction is a step; operations, workers and goroutines
  interleave between statements of different operations only where a step relation says so); time passing inside an operation; the widths of text columns; the collation
  of the database, taken to be that of bytes; the order of rows without \<^verbatim>\<open>ORDER BY\<close>, taken to be that of insertion; what is only written to the process log; which events
  the services broadcast over web sockets (the router does not mount the hub); the decoding of request bodies, the matching of paths to patterns and the token bucket, which are third-party code
  and parameters; the libvirt driver, which builds machine definitions for a system library; the stubs; the command line and the SDK, clients of the interface; wiring and generated code. The
  services see the backends as calls that may fail; the adapters of \<^verbatim>\<open>Backends\<close> are not composed with them.
\<close>

section \<open>Tenants across the repositories\<close>

text \<open>No row of the table with this identifier belongs to the caller.\<close>

definition foreign :: "('r \<Rightarrow> uuid) \<Rightarrow> ('r \<Rightarrow> uuid) \<Rightarrow> 'r list \<Rightarrow> ctx \<Rightarrow> uuid \<Rightarrow> bool" where
  "foreign key owner rows ctx i \<longleftrightarrow> list_all (\<lambda>r. key r = i \<longrightarrow> owner r \<noteq> UserIDFromContext ctx) rows"

lemma foreignD: "foreign key owner rows ctx i \<Longrightarrow> r \<in> set rows \<Longrightarrow> key r = i \<Longrightarrow> owner r \<noteq> UserIDFromContext ctx"
  by (simp add: foreign_def list_all_iff)

text \<open>C6. The rows of other tenants are out of reach: an identifier under which the caller owns nothing, be it that of a volume, a network, a subnet,
  an instance, a load balancer, a snapshot or a database of someone else, can neither be looked up nor deleted; the call does not report success.\<close>

theorem foreign_rows_unreachable:
  assumes "foreign vol_ID vol_UserID (t_volumes s) ctx i" "foreign vpc_ID vpc_UserID (t_vpcs s) ctx i" "foreign sub_ID sub_UserID (t_subnets s) ctx i"
    "foreign inst_ID inst_UserID (t_instances s) ctx i" "foreign lb_ID lb_UserID (t_load_balancers s) ctx i"
    "foreign snap_ID snap_UserID (t_snapshots s) ctx i" "foreign db_ID db_UserID (t_databases s) ctx i"
  shows "fst (VolumeRepository_GetByID ctx i s) \<noteq> Ok v \<and> fst (VolumeRepository_Delete ctx i s) \<noteq> Ok () \<and>
    fst (VpcRepository_GetByID E ctx i s) \<noteq> Ok n \<and> fst (VpcRepository_Delete ctx i s) \<noteq> Ok () \<and>
    fst (SubnetRepository_GetByID E ctx i s) \<noteq> Ok sn \<and> fst (SubnetRepository_Delete ctx i s) \<noteq> Ok () \<and>
    fst (InstanceRepository_GetByID E ctx i s) \<noteq> Ok x \<and> fst (InstanceRepository_Delete E ctx i s) \<noteq> Ok () \<and>
    fst (LBRepository_GetByID ctx i s) \<noteq> Ok lb \<and> fst (LBRepository_Delete ctx i s) \<noteq> Ok () \<and>
    fst (SnapshotRepository_GetByID ctx i s) \<noteq> Ok sp \<and> fst (SnapshotRepository_Delete ctx i s) \<noteq> Ok () \<and>
    fst (DatabaseRepository_GetByID E ctx i s) \<noteq> Ok db \<and> fst (DatabaseRepository_Delete E ctx i s) \<noteq> Ok ()"
  using foreignD [OF assms(1)] foreignD [OF assms(2)] foreignD [OF assms(3)] foreignD [OF assms(4)] foreignD [OF assms(5)] foreignD [OF assms(6)] foreignD [OF assms(7)]
  by (intro conjI vol_repo.get_foreign vol_repo.del_foreign vpc_repo.get_foreign vpc_repo.del_foreign subnet_repo.get_foreign subnet_repo.del_foreign
      inst_repo.get_foreign inst_repo.del_foreign lb_repo.get_foreign lb_repo.del_foreign snap_repo.get_foreign snap_repo.del_foreign
      db_repo.get_foreign db_repo.del_foreign)

theorem foreign_rows_unreachable_witness:
  "fst (VolumeRepository_GetByID (Some 2) 7 (sample_world\<lparr>t_volumes := [sample_volume VolumeStatusAvailable]\<rparr>)) \<noteq> Ok (sample_volume VolumeStatusAvailable) \<and>
   fst (VolumeRepository_Delete (Some 2) 7 (sample_world\<lparr>t_volumes := [sample_volume VolumeStatusAvailable]\<rparr>)) \<noteq> Ok ()"
  using foreign_rows_unreachable [of "sample_world\<lparr>t_volumes := [sample_volume VolumeStatusAvailable]\<rparr>" "Some 2" 7]
  by (simp add: foreign_def sample_volume_def)

end
